(* ===== verification/Mordant_Prelude.thy ===== *)
theory Mordant_Prelude
  imports Main "HOL-Library.Char_ord" "HOL-Library.List_Lexorder"
begin

text \<open>
  Shared vocabulary of the development: the error values the TypeScript modules throw, the error
  monad the models are written in, the string predicates that stand for the regular expressions of
  the sources, ASCII case folding, and the contract of a store that only grows.

  A JavaScript string is modelled as a list of code units below 256, so \<open>CHR\<close> literals are the
  ASCII literals of the sources. A statically typed \<open>number\<close> is modelled as an \<open>int\<close>: the typed
  records hold Unix seconds, versions, block numbers and chain ids, all integral doubles. Values of
  static type \<open>unknown\<close> are modelled in \<^verbatim>\<open>Canonical_Json\<close>, with every shape JavaScript allows.
\<close>

named_theorems result_simps \<open>inversion of the error monad\<close>
named_theorems text_simps \<open>facts about regular expressions, case folding and numerals\<close>

subsection \<open>Errors as values\<close>

text \<open>
  One constructor per exception class of the modelled modules; the string is the \<open>code\<close> member and
  the number the HTTP status where the class carries one.
\<close>

datatype merror =
    StrictJsonError
  | CleanverseAssetBindingError
  | ProtectionBindingError
  | RangeError
  | GovernedRecoursePolicyError string
  | ProtectionEvidenceError string
  | ProductJournalError string
  | SettlementAuthorityError string
  | SettlementProfileStoreError string
  | SupervisedPledgeWindowsError string
  | ParticipantAuthorizationError string nat
  | ParticipantAdmissionV2Error string nat
  | ParticipantAdmissionStoreError string nat
  | ParticipantAdmissionError string nat
  | ProtectionProductError string nat
  | BridgeExecutionError string
  | GovernedBridgeError string
  | AdapterCompatibilityError string
  | CoalitionEvidenceError string
  | CustomSupervisedReceiptError string
  | DirectParticipantBridgeEvidenceError string
  | CaseAdapterProofError string
  | DirectParticipantEvidenceAssemblyError string
  | ParticipantOriginatedAuthorizationError string nat
  | ParticipantOriginatedCoordinatorError string nat
  | TypeError
  | SyntaxError
  | DependencyError

type_synonym 'a result = "merror + 'a"

definition ebind :: "'e + 'a \<Rightarrow> ('a \<Rightarrow> 'e + 'b) \<Rightarrow> 'e + 'b" where
  "ebind m f = (case m of Inl e \<Rightarrow> Inl e | Inr x \<Rightarrow> f x)"

definition check :: "bool \<Rightarrow> 'e \<Rightarrow> 'e + unit" where
  "check b e = (if b then Inr () else Inl e)"

definition is_ok :: "'e + 'a \<Rightarrow> bool" where
  "is_ok m = (case m of Inl _ \<Rightarrow> False | Inr _ \<Rightarrow> True)"

lemma ebind_Inr [simp]: "ebind (Inr x) f = f x"
  by (simp add: ebind_def)

lemma ebind_Inl [simp]: "ebind (Inl e) f = Inl e"
  by (simp add: ebind_def)

lemma check_True [simp]: "check True e = Inr ()"
  by (simp add: check_def)

lemma check_False [simp]: "check False e = Inl e"
  by (simp add: check_def)

lemma is_ok_simps [simp]: "is_ok (Inr x)" "\<not> is_ok (Inl e)"
  by (simp_all add: is_ok_def)

lemma ebind_eq_Inr [result_simps]: "ebind m f = Inr y \<longleftrightarrow> (\<exists>x. m = Inr x \<and> f x = Inr y)"
  by (cases m) auto

lemma ebind_eq_Inl [result_simps]:
  "ebind m f = Inl e \<longleftrightarrow> m = Inl e \<or> (\<exists>x. m = Inr x \<and> f x = Inl e)"
  by (cases m) auto

lemma check_eq_Inr [result_simps]: "check b e = Inr u \<longleftrightarrow> b"
  by (simp add: check_def)

lemma check_eq_Inl [result_simps]: "check b e = Inl e' \<longleftrightarrow> \<not> b \<and> e = e'"
  by (auto simp: check_def)

lemma is_ok_iff [result_simps]: "is_ok m \<longleftrightarrow> (\<exists>x. m = Inr x)"
  by (cases m) auto

lemma ebind_check: "ebind (check b e) f = (if b then f () else Inl e)"
  by (simp add: check_def)

lemma ebind_assoc: "ebind (ebind m f) g = ebind m (\<lambda>x. ebind (f x) g)"
  by (cases m) auto

subsection \<open>State and errors\<close>

text \<open>
  An asynchronous function of the sources acts on a state and returns or throws. What it changed before
  it threw stays changed.
\<close>

type_synonym ('s, 'a) action = "'s \<Rightarrow> 's \<times> 'a result"

definition abind :: "('s, 'a) action \<Rightarrow> ('a \<Rightarrow> ('s, 'b) action) \<Rightarrow> ('s, 'b) action" where
  "abind m f s = (case m s of (s', Inl e) \<Rightarrow> (s', Inl e) | (s', Inr x) \<Rightarrow> f x s')"

definition alift :: "'a result \<Rightarrow> ('s, 'a) action" where
  "alift r s = (s, r)"

definition areads :: "('s \<Rightarrow> 'a result) \<Rightarrow> ('s, 'a) action" where
  "areads r s = (s, r s)"

lemma alift_apply [simp]: "alift r s = (s, r)"
  by (simp add: alift_def)

lemma areads_apply [simp]: "areads r s = (s, r s)"
  by (simp add: areads_def)

lemma abind_eq_Inr [result_simps]: "abind m f s = (t, Inr y) \<longleftrightarrow> (\<exists>s' x. m s = (s', Inr x) \<and> f x s' = (t, Inr y))"
  by (auto simp: abind_def split: prod.splits sum.splits)

lemma abind_eq_Inl [result_simps]:
  "abind m f s = (t, Inl e) \<longleftrightarrow> m s = (t, Inl e) \<or> (\<exists>s' x. m s = (s', Inr x) \<and> f x s' = (t, Inl e))"
  by (auto simp: abind_def split: prod.splits sum.splits)

text \<open>A step that runs, whatever it returns, keeps a relation that is reflexive and transitive.\<close>

definition keeps :: "('s \<Rightarrow> 's \<Rightarrow> bool) \<Rightarrow> ('s, 'a) action \<Rightarrow> bool" where
  "keeps R m \<longleftrightarrow> (\<forall>s. R s (fst (m s)))"

locale kept_relation =
  fixes R :: "'s \<Rightarrow> 's \<Rightarrow> bool"
  assumes kept_refl: "R s s" and kept_trans: "R s t \<Longrightarrow> R t u \<Longrightarrow> R s u"
begin

lemma keeps_abind: "keeps R m \<Longrightarrow> (\<And>x. keeps R (f x)) \<Longrightarrow> keeps R (abind m f)"
  by (auto simp: keeps_def abind_def split: prod.splits sum.splits) (metis fst_conv kept_trans)+

lemma keeps_alift: "keeps R (alift r)" and keeps_areads: "keeps R (areads g)"
  by (simp_all add: keeps_def kept_refl)

lemmas keeps_intros = keeps_abind keeps_alift keeps_areads

end

subsection \<open>Numbers\<close>

definition MAX_SAFE_INTEGER :: int where
  "MAX_SAFE_INTEGER = 9007199254740991"

definition isSafeInteger :: "int \<Rightarrow> bool" where
  "isSafeInteger n \<longleftrightarrow> \<bar>n\<bar> \<le> MAX_SAFE_INTEGER"

subsection \<open>Fixed-length regular expressions\<close>

text \<open>
  Most regular expressions of the sources are anchored and of fixed length. Such an expression is a
  list of character classes, and \<open>fixed_regex\<close> is its \<open>test\<close> method.
\<close>

definition lower_hex :: "char \<Rightarrow> bool" where
  "lower_hex c \<longleftrightarrow> c \<in> set ''0123456789abcdef''"

definition any_hex :: "char \<Rightarrow> bool" where
  "any_hex c \<longleftrightarrow> c \<in> set ''0123456789abcdefABCDEF''"

definition is_digit :: "char \<Rightarrow> bool" where
  "is_digit c \<longleftrightarrow> c \<in> set ''0123456789''"

definition fixed_regex :: "(char \<Rightarrow> bool) list \<Rightarrow> string \<Rightarrow> bool" where
  "fixed_regex ps s = list_all2 (\<lambda>p c. p c) ps s"

definition lit :: "string \<Rightarrow> (char \<Rightarrow> bool) list" where
  "lit s = map (=) s"

definition SHA256_LOWER :: "(char \<Rightarrow> bool) list" where
  "SHA256_LOWER = lit ''sha256:'' @ replicate 64 lower_hex"

definition BYTES32_LOWER :: "(char \<Rightarrow> bool) list" where
  "BYTES32_LOWER = lit ''0x'' @ replicate 64 lower_hex"

definition SHA256_ANY :: "(char \<Rightarrow> bool) list" where
  "SHA256_ANY = lit ''sha256:'' @ replicate 64 any_hex"

definition BYTES32_ANY :: "(char \<Rightarrow> bool) list" where
  "BYTES32_ANY = lit ''0x'' @ replicate 64 any_hex"

definition ADDRESS_ANY :: "(char \<Rightarrow> bool) list" where
  "ADDRESS_ANY = lit ''0x'' @ replicate 40 any_hex"

definition UUID_PATTERN :: "(char \<Rightarrow> bool) list" where
  "UUID_PATTERN = replicate 8 lower_hex @ lit ''-'' @ replicate 4 lower_hex @ lit ''-''
     @ [\<lambda>c. c \<in> set ''12345''] @ replicate 3 lower_hex @ lit ''-''
     @ [\<lambda>c. c \<in> set ''89ab''] @ replicate 3 lower_hex @ lit ''-'' @ replicate 12 lower_hex"

lemma fixed_regex_length: "fixed_regex ps s \<Longrightarrow> length s = length ps"
  by (simp add: fixed_regex_def list_all2_lengthD)

lemma length_lit [simp]: "length (lit t) = length t"
  by (simp add: lit_def)

lemma lit_match [text_simps]: "list_all2 (\<lambda>p c. p c) (lit t) s \<longleftrightarrow> s = t"
  by (induction t arbitrary: s) (auto simp: lit_def list_all2_Cons1)

lemma replicate_match [text_simps]:
  "list_all2 (\<lambda>p c. p c) (replicate n P) s \<longleftrightarrow> length s = n \<and> list_all P s"
proof (induction n arbitrary: s)
  case 0
  then show ?case by auto
next
  case (Suc n)
  then show ?case by (cases s) auto
qed

text \<open>A literal prefix followed by \<open>n\<close> characters of one class.\<close>

lemma prefix_regex [text_simps]:
  "fixed_regex (lit t @ replicate n P) s \<longleftrightarrow> (\<exists>h. s = t @ h \<and> length h = n \<and> list_all P h)"
  by (auto simp: fixed_regex_def list_all2_append1 lit_match replicate_match length_lit)

lemma prefix_regex_append:
  "fixed_regex (lit t @ replicate n P) (t @ h) \<longleftrightarrow> length h = n \<and> list_all P h"
  by (auto simp: prefix_regex)

lemma lower_hex_any: "lower_hex c \<Longrightarrow> any_hex c"
  by (auto simp: lower_hex_def any_hex_def)

lemma list_all_lower_any: "list_all lower_hex h \<Longrightarrow> list_all any_hex h"
  by (auto simp: list_all_iff lower_hex_any)

text \<open>What the sources rely on of SHA-256: 64 lower-case hexadecimal digits.\<close>

definition hex_digest :: "(string \<Rightarrow> string) \<Rightarrow> bool" where
  "hex_digest sha \<longleftrightarrow> (\<forall>x. length (sha x) = 64 \<and> list_all lower_hex (sha x))"

lemma hex_digest_regex [text_simps]:
  assumes "hex_digest sha"
  shows "fixed_regex SHA256_LOWER (''sha256:'' @ sha x)"
    and "fixed_regex BYTES32_LOWER (''0x'' @ sha x)"
  using assms unfolding SHA256_LOWER_def BYTES32_LOWER_def prefix_regex_append hex_digest_def by auto

text \<open>A concrete function with that property, for the witnesses.\<close>

definition zero_sha :: "string \<Rightarrow> string" where
  "zero_sha x = replicate 64 CHR ''0''"

lemma zero_sha_hex: "hex_digest zero_sha"
  by (simp add: hex_digest_def zero_sha_def lower_hex_def list_all_iff)

subsection \<open>Case folding\<close>

text \<open>\<open>String.prototype.toLowerCase\<close> on code units below 256.\<close>

definition lower_char :: "char \<Rightarrow> char" where
  "lower_char c =
     (let n = (of_char c :: nat)
      in if 65 \<le> n \<and> n \<le> 90 \<or> 192 \<le> n \<and> n \<le> 222 \<and> n \<noteq> 215 then char_of (n + 32) else c)"

definition toLowerCase :: "string \<Rightarrow> string" where
  "toLowerCase s = map lower_char s"

lemma lower_char_idem [simp]: "lower_char (lower_char c) = lower_char c"
  by (auto simp: lower_char_def Let_def of_char_of)

lemma toLowerCase_idem [simp]: "toLowerCase (toLowerCase s) = toLowerCase s"
  by (simp add: toLowerCase_def)

lemma length_toLowerCase [simp]: "length (toLowerCase s) = length s"
  by (simp add: toLowerCase_def)

lemma toLowerCase_append [simp]: "toLowerCase (s @ t) = toLowerCase s @ toLowerCase t"
  by (simp add: toLowerCase_def)

lemma lower_hex_fixed: "lower_hex c \<Longrightarrow> lower_char c = c"
  by (auto simp: lower_hex_def lower_char_def)

lemma toLowerCase_hex: "list_all lower_hex s \<Longrightarrow> toLowerCase s = s"
  by (induction s) (auto simp: toLowerCase_def lower_hex_fixed)

subsection \<open>Systems with an invariant and a growing state\<close>

text \<open>
  The contract of the durable stores: every step keeps the invariant and only lets the state grow in
  the order \<open>grows\<close>. What holds along every run then follows once.
\<close>

locale growing_store =
  fixes inv :: "'s \<Rightarrow> bool" and step :: "'s \<Rightarrow> 's \<Rightarrow> bool" and grows :: "'s \<Rightarrow> 's \<Rightarrow> bool"
  assumes step_inv: "inv s \<Longrightarrow> step s t \<Longrightarrow> inv t"
    and step_grows: "inv s \<Longrightarrow> step s t \<Longrightarrow> grows s t"
    and grows_refl: "grows s s"
    and grows_trans: "grows s t \<Longrightarrow> grows t u \<Longrightarrow> grows s u"
begin

lemma run_inv: "step\<^sup>*\<^sup>* s t \<Longrightarrow> inv s \<Longrightarrow> inv t"
  by (induction rule: rtranclp_induct) (auto intro: step_inv)

lemma run_grows: "step\<^sup>*\<^sup>* s t \<Longrightarrow> inv s \<Longrightarrow> grows s t"
proof (induction rule: rtranclp_induct)
  case base
  show ?case by (rule grows_refl)
next
  case (step t u)
  then show ?case using run_inv step_grows grows_trans by blast
qed

end

end
