(* ===== verification/Text_Encoding.thy ===== *)
theory Text_Encoding
  imports Mordant_Prelude
begin

text \<open>
  The textual encodings the program relies on: decimal numerals (the \<open>/^(0|[1-9][0-9]*)$/\<close> amounts
  and the numbers inside JSON documents) and the escape sequences of \<open>JSON.stringify\<close>. Each encoder
  comes with the decoder that inverts it, so that later theories can conclude equality of values from
  equality of texts.
\<close>

subsection \<open>Decimal numerals\<close>

definition digit_char :: "nat \<Rightarrow> char" where
  "digit_char d = char_of (48 + d)"

definition digit_value :: "char \<Rightarrow> nat" where
  "digit_value c = of_char c - 48"

fun show_nat :: "nat \<Rightarrow> string" where
  "show_nat n = (if n < 10 then [digit_char n] else show_nat (n div 10) @ [digit_char (n mod 10)])"

declare show_nat.simps [simp del]

definition read_nat :: "string \<Rightarrow> nat" where
  "read_nat s = foldl (\<lambda>a c. 10 * a + digit_value c) 0 s"

definition show_int :: "int \<Rightarrow> string" where
  "show_int i = (if i < 0 then CHR ''-'' # show_nat (nat (- i)) else show_nat (nat i))"

text \<open>\<open>String.prototype.trim\<close> on code units below 256.\<close>

definition js_space :: "char \<Rightarrow> bool" where
  "js_space c \<longleftrightarrow> (of_char c :: nat) \<in> {9, 10, 11, 12, 13, 32, 160}"

definition trim :: "string \<Rightarrow> string" where
  "trim s = rev (dropWhile js_space (rev (dropWhile js_space s)))"

text \<open>\<open>/^(0|[1-9][0-9]*)$/\<close>\<close>

definition decimal_regex :: "string \<Rightarrow> bool" where
  "decimal_regex s =
     (case s of [] \<Rightarrow> False
      | c # t \<Rightarrow> (c = CHR ''0'' \<and> t = []) \<or> (c \<noteq> CHR ''0'' \<and> is_digit c \<and> list_all is_digit t))"

lemma digit_value_char [simp]: "d < 10 \<Longrightarrow> digit_value (digit_char d) = d"
  by (simp add: digit_value_def digit_char_def of_char_of)

lemma is_digit_iff: "is_digit c \<longleftrightarrow> 48 \<le> (of_char c :: nat) \<and> (of_char c :: nat) \<le> 57"
proof
  assume "is_digit c"
  then show "48 \<le> (of_char c :: nat) \<and> (of_char c :: nat) \<le> 57"
    by (auto simp: is_digit_def)
next
  assume "48 \<le> (of_char c :: nat) \<and> (of_char c :: nat) \<le> 57"
  then have "(of_char c :: nat) = 48 + (of_char c - 48)" and "(of_char c :: nat) - 48 < 10"
    by linarith+
  then have "(of_char c :: nat) \<in> (+) 48 ` set [0 ..< 10]" by (metis atLeastLessThan_iff image_eqI le0 set_upt)
  then have "(of_char c :: nat) \<in> {48, 49, 50, 51, 52, 53, 54, 55, 56, 57}" by (simp add: upt_conv_Cons)
  moreover have "c = char_of (of_char c :: nat)" by simp
  ultimately show "is_digit c"
    by (auto simp: is_digit_def char_of_def bit_iff_odd)
qed

lemma is_digit_digit_char [simp]: "d < 10 \<Longrightarrow> is_digit (digit_char d)"
  by (simp add: is_digit_iff digit_char_def of_char_of)

lemma digit_char_value [simp]: "is_digit c \<Longrightarrow> digit_char (digit_value c) = c"
  by (simp add: is_digit_iff digit_char_def digit_value_def)

lemma digit_value_less: "is_digit c \<Longrightarrow> digit_value c < 10"
  unfolding is_digit_iff digit_value_def by linarith

lemma digit_value_zero: "is_digit c \<Longrightarrow> digit_value c = 0 \<longleftrightarrow> c = CHR ''0''"
proof
  assume "is_digit c" "digit_value c = 0"
  then show "c = CHR ''0''"
    using digit_char_value [of c] by (simp add: digit_char_def char_of_def bit_iff_odd)
qed (simp add: digit_value_def)

lemma read_nat_snoc [simp]: "read_nat (s @ [c]) = 10 * read_nat s + digit_value c"
  by (simp add: read_nat_def)

lemma read_nat_Nil [simp]: "read_nat [] = 0"
  by (simp add: read_nat_def)

lemma read_show_nat [simp]: "read_nat (show_nat n) = n"
proof (induction n rule: show_nat.induct)
  case (1 n)
  show ?case
  proof (cases "n < 10")
    case True
    then show ?thesis
      using read_nat_snoc [of "[]" "digit_char n"] by (simp add: show_nat.simps)
  next
    case False
    with "1.IH" show ?thesis by (subst show_nat.simps) simp
  qed
qed

lemma show_nat_digits: "list_all is_digit (show_nat n)"
proof (induction n rule: show_nat.induct)
  case (1 n)
  then show ?case by (cases "n < 10") (simp_all add: show_nat.simps [of n])
qed

lemma show_nat_nonempty [simp]: "show_nat n \<noteq> []"
  by (subst show_nat.simps) simp

lemma show_nat_inj [simp]: "show_nat m = show_nat n \<longleftrightarrow> m = n"
  by (metis read_show_nat)

lemma hd_show_nat_digit: "is_digit (hd (show_nat n))"
  using show_nat_digits [of n] by (cases "show_nat n") (auto simp: show_nat_nonempty)

lemma show_nat_read_pos:
  "list_all is_digit (c # s) \<Longrightarrow> c \<noteq> CHR ''0'' \<Longrightarrow>
     0 < read_nat (c # s) \<and> show_nat (read_nat (c # s)) = c # s"
proof (induction s rule: rev_induct)
  case Nil
  then have "digit_value c < 10" "digit_value c \<noteq> 0"
    by (auto simp: digit_value_less digit_value_zero)
  with Nil show ?case
    using read_nat_snoc [of "[]" c] by (simp add: show_nat.simps)
next
  case (snoc d s)
  then have IH: "0 < read_nat (c # s)" "show_nat (read_nat (c # s)) = c # s" by auto
  have d: "digit_value d < 10" using snoc.prems by (simp add: digit_value_less)
  have r: "read_nat (c # s @ [d]) = 10 * read_nat (c # s) + digit_value d"
    using read_nat_snoc [of "c # s" d] by simp
  have "\<not> 10 * read_nat (c # s) + digit_value d < 10" using IH by simp
  then show ?case
    unfolding append_Cons [symmetric] using IH d snoc.prems r
    by (subst show_nat.simps) simp
qed

theorem show_read_nat: "decimal_regex s \<Longrightarrow> show_nat (read_nat s) = s"
proof (cases s)
  case (Cons c t)
  moreover assume "decimal_regex s"
  ultimately consider "s = ''0''" | "c \<noteq> CHR ''0''" "list_all is_digit (c # t)"
    by (auto simp: decimal_regex_def)
  then show ?thesis
  proof cases
    case 1
    then show ?thesis by (simp add: read_nat_def digit_value_def show_nat.simps digit_char_def char_of_def bit_iff_odd)
  next
    case 2
    with Cons show ?thesis using show_nat_read_pos by blast
  qed
qed (simp add: decimal_regex_def)

lemma read_nat_inj:
  "decimal_regex s \<Longrightarrow> decimal_regex t \<Longrightarrow> read_nat s = read_nat t \<longleftrightarrow> s = t"
  by (metis show_read_nat)

lemma decimal_show_nat: "decimal_regex (show_nat n)"
proof -
  have "show_nat n = ''0'' \<or> hd (show_nat n) \<noteq> CHR ''0''"
  proof (induction n rule: show_nat.induct)
    case (1 n)
    show ?case
    proof (cases "n < 10")
      case True
      then show ?thesis
        using digit_value_zero [of "digit_char n"]
        by (auto simp: show_nat.simps digit_char_def char_of_def bit_iff_odd)
    next
      case False
      then have "n div 10 \<noteq> 0" by simp
      then have "show_nat (n div 10) \<noteq> ''0''"
        by (metis One_nat_def digit_value_zero hd_show_nat_digit list.sel(1) read_nat_Nil read_nat_snoc
            append_Nil read_show_nat mult_0_right add_0)
      with "1.IH" False have "hd (show_nat (n div 10)) \<noteq> CHR ''0''" by blast
      with False show ?thesis by (subst (2) show_nat.simps) simp
    qed
  qed
  then show ?thesis
    using show_nat_digits [of n] by (cases "show_nat n") (auto simp: decimal_regex_def)
qed

lemma hd_show_nat_not_minus: "hd (show_nat n) \<noteq> CHR ''-''"
  using hd_show_nat_digit [of n] by (auto simp: is_digit_def)

lemma show_int_nonempty [simp]: "show_int i \<noteq> []"
  by (simp add: show_int_def)

text \<open>A run of digits ends where the first non-digit stands.\<close>

lemma digits_cancel:
  assumes "list_all is_digit a" "list_all is_digit b" "a @ r = b @ s"
    and "r = [] \<or> \<not> is_digit (hd r)" and "s = [] \<or> \<not> is_digit (hd s)"
  shows "a = b \<and> r = s"
  using assms
proof (induction a arbitrary: b)
  case Nil
  then show ?case by (cases b) auto
next
  case (Cons x a)
  show ?case
  proof (cases b)
    case Nil
    with Cons.prems show ?thesis by auto
  next
    case (Cons y b')
    with Cons.prems Cons.IH [of b'] show ?thesis by auto
  qed
qed

lemma show_int_cancel:
  assumes eq: "show_int i @ r = show_int j @ s"
    and "r = [] \<or> \<not> is_digit (hd r)" and "s = [] \<or> \<not> is_digit (hd s)"
  shows "i = j \<and> r = s"
proof -
  have sign: "hd (show_int k @ t) = CHR ''-'' \<longleftrightarrow> k < 0" for k t
    using hd_show_nat_not_minus by (auto simp: show_int_def)
  have "i < 0 \<longleftrightarrow> j < 0" using sign [of i r] sign [of j s] eq by simp
  then have "show_nat (nat \<bar>i\<bar>) @ r = show_nat (nat \<bar>j\<bar>) @ s"
    using eq by (auto simp: show_int_def split: if_splits)
  then have "nat \<bar>i\<bar> = nat \<bar>j\<bar> \<and> r = s"
    using digits_cancel [OF show_nat_digits show_nat_digits] assms(2,3) by (metis show_nat_inj)
  then show ?thesis using \<open>i < 0 \<longleftrightarrow> j < 0\<close> by linarith
qed

subsection \<open>The escapes of JSON strings\<close>

definition hex_char :: "nat \<Rightarrow> char" where
  "hex_char n = (if n < 10 then char_of (48 + n) else char_of (87 + n))"

definition hex_value :: "char \<Rightarrow> nat" where
  "hex_value c = (let n = of_char c in if n < 58 then n - 48 else n - 87)"

definition json_escape :: "char \<Rightarrow> string" where
  "json_escape c =
     (let n = (of_char c :: nat)
      in if c = CHR 0x22 then [CHR 0x5C, CHR 0x22]
         else if c = CHR 0x5C then [CHR 0x5C, CHR 0x5C]
         else if n = 8 then [CHR 0x5C, CHR ''b'']
         else if n = 12 then [CHR 0x5C, CHR ''f'']
         else if n = 10 then [CHR 0x5C, CHR ''n'']
         else if n = 13 then [CHR 0x5C, CHR ''r'']
         else if n = 9 then [CHR 0x5C, CHR ''t'']
         else if n < 32 then [CHR 0x5C, CHR ''u'', CHR ''0'', CHR ''0'', hex_char (n div 16), hex_char (n mod 16)]
         else [c])"

definition json_quote :: "string \<Rightarrow> string" where
  "json_quote s = CHR 0x22 # concat (map json_escape s) @ [CHR 0x22]"

text \<open>The decoder of one possibly escaped character; it inverts \<open>json_escape\<close>.\<close>

definition json_unescape :: "string \<Rightarrow> char \<times> string" where
  "json_unescape s =
     (if s ! 0 \<noteq> CHR 0x5C then (s ! 0, drop 1 s)
      else if s ! 1 = CHR 0x22 then (CHR 0x22, drop 2 s)
      else if s ! 1 = CHR 0x5C then (CHR 0x5C, drop 2 s)
      else if s ! 1 = CHR ''b'' then (char_of (8 :: nat), drop 2 s)
      else if s ! 1 = CHR ''f'' then (char_of (12 :: nat), drop 2 s)
      else if s ! 1 = CHR ''n'' then (char_of (10 :: nat), drop 2 s)
      else if s ! 1 = CHR ''r'' then (char_of (13 :: nat), drop 2 s)
      else if s ! 1 = CHR ''t'' then (char_of (9 :: nat), drop 2 s)
      else (char_of (16 * hex_value (s ! 4) + hex_value (s ! 5)), drop 6 s))"

lemma hex_value_char [simp]: "n < 16 \<Longrightarrow> hex_value (hex_char n) = n"
  by (auto simp: hex_value_def hex_char_def of_char_of Let_def)

lemma char_of_eqI: "of_char c = n \<Longrightarrow> char_of (n :: nat) = c"
  by (metis char_of_char)

lemma json_unescape_escape: "json_unescape (json_escape c @ r) = (c, r)"
proof -
  have split: "16 * ((of_char c :: nat) div 16) + of_char c mod 16 = of_char c" by simp
  show ?thesis
    by (auto simp: json_escape_def json_unescape_def Let_def char_of_eqI split)
qed

lemma json_escape_cancel: "json_escape c @ r = json_escape d @ s \<Longrightarrow> c = d \<and> r = s"
  by (metis json_unescape_escape prod.inject)

lemma json_escape_start: "\<exists>x xs. json_escape c = x # xs \<and> x \<noteq> CHR 0x22"
  by (auto simp: json_escape_def Let_def)

lemma escaped_cancel:
  "concat (map json_escape a) @ CHR 0x22 # r = concat (map json_escape b) @ CHR 0x22 # s \<Longrightarrow>
     a = b \<and> r = s"
proof (induction a arbitrary: b)
  case Nil
  then show ?case
    using json_escape_start [of "hd b"] by (cases b) auto
next
  case (Cons c a)
  show ?case
  proof (cases b)
    case Nil
    with Cons.prems show ?thesis using json_escape_start [of c] by auto
  next
    case (Cons d b')
    with Cons.prems have "c = d" and
      "concat (map json_escape a) @ CHR 0x22 # r = concat (map json_escape b') @ CHR 0x22 # s"
      using json_escape_cancel [of c _ d] by auto
    with Cons.IH Cons show ?thesis by auto
  qed
qed

lemma json_quote_cancel: "json_quote a @ r = json_quote b @ s \<Longrightarrow> a = b \<and> r = s"
  using escaped_cancel [of a r b s] by (simp add: json_quote_def)

end
