(* ===== verification/Canonical_Json.thy ===== *)
theory Canonical_Json
  imports Text_Encoding
begin

text \<open>
  JSON documents and the canonical digests of \<^verbatim>\<open>src/src/lib/protection/cleanverse-asset.ts\<close>.

  \<open>json\<close> is the type of values whose static type already makes them JSON (the typed records of the
  product); \<open>jsval\<close> is the type \<open>unknown\<close>, with \<open>undefined\<close>, bigints, holes, foreign prototypes and
  every kind of number. \<open>stringify\<close> is \<open>JSON.stringify\<close> without indentation, \<open>canonicalJson\<close> sorts the
  member names first, \<open>canonicalizeStrict\<close> is the strict canonicalizer on unknown values. SHA-256 is
  the parameter \<open>sha\<close>, the hexadecimal digest of the UTF-8 encoding of its argument.

  The main facts: both encodings can be read back (\<open>stringify_inj\<close>), so two values with the same
  digest are equal or are an explicit SHA-256 collision (locale \<open>commitment\<close>), and digests of
  different domains are never computed from the same text (\<open>domain_separation\<close>).
\<close>

subsection \<open>JSON values and their text\<close>

datatype json =
    JNull
  | JBool bool
  | JNum int
  | JStr string
  | JArr "json list"
  | JObj "(string \<times> json) list"

fun join_comma :: "string list \<Rightarrow> string" where
  "join_comma [] = []"
| "join_comma [x] = x"
| "join_comma (x # y # ys) = x @ '','' @ join_comma (y # ys)"

fun stringify :: "json \<Rightarrow> string" where
  "stringify JNull = ''null''"
| "stringify (JBool b) = (if b then ''true'' else ''false'')"
| "stringify (JNum i) = show_int i"
| "stringify (JStr s) = json_quote s"
| "stringify (JArr vs) = ''['' @ join_comma (map stringify vs) @ '']''"
| "stringify (JObj kvs) =
     ''{'' @ join_comma (map (\<lambda>(k, v). json_quote k @ '':'' @ stringify v) kvs) @ ''}''"

fun sort_members :: "json \<Rightarrow> json" where
  "sort_members (JArr vs) = JArr (map sort_members vs)"
| "sort_members (JObj kvs) = JObj (sort_key fst (map (\<lambda>(k, v). (k, sort_members v)) kvs))"
| "sort_members v = v"

definition canonicalJson :: "json \<Rightarrow> string" where
  "canonicalJson v = stringify (sort_members v)"

subsection \<open>The text determines the value\<close>

definition stop :: "string \<Rightarrow> bool" where
  "stop r \<longleftrightarrow> r = [] \<or> hd r \<in> {CHR '','', CHR '']'', CHR ''}''}"

definition cancels :: "('a \<Rightarrow> string) \<Rightarrow> 'a \<Rightarrow> bool" where
  "cancels f x \<longleftrightarrow> (\<forall>y r s. f x @ r = f y @ s \<longrightarrow> stop r \<longrightarrow> stop s \<longrightarrow> x = y \<and> r = s)"

lemma stop_not_digit: "stop r \<Longrightarrow> r = [] \<or> \<not> is_digit (hd r)"
  by (auto simp: stop_def is_digit_def)

lemma stop_simps [simp]:
  "stop []" "stop (CHR '','' # r)" "stop (CHR '']'' # r)" "stop (CHR ''}'' # r)"
  by (simp_all add: stop_def)

lemma join_cancel:
  assumes "\<forall>x \<in> set xs. cancels f x"
    and start: "\<And>x. f x \<noteq> [] \<and> \<not> stop (f x)"
    and c: "c = CHR '']'' \<or> c = CHR ''}''"
    and eq: "join_comma (map f xs) @ c # r = join_comma (map f ys) @ c # s"
  shows "xs = ys \<and> r = s"
  using assms(1) eq
proof (induction xs arbitrary: ys)
  case Nil
  show ?case
  proof (cases ys)
    case Nil
    with Nil.prems show ?thesis by simp
  next
    case (Cons y ys')
    then obtain t where "join_comma (map f ys) = f y @ t" by (cases ys') auto
    with Nil.prems have "c # r = f y @ t @ c # s" by simp
    then show ?thesis using start [of y] c by (cases "f y") (auto simp: stop_def)
  qed
next
  case (Cons x xs)
  let ?rest = "\<lambda>zs t. (case zs of [] \<Rightarrow> c # t | _ # _ \<Rightarrow> CHR '','' # join_comma (map f zs) @ c # t)"
  have unfold: "join_comma (map f (z # zs)) @ c # t = f z @ ?rest zs t" for z zs t
    by (cases zs) auto
  have stop: "stop (?rest zs t)" for zs t
    using c by (cases zs) auto
  show ?case
  proof (cases ys)
    case Nil
    with Cons.prems(2) have "f x @ ?rest xs r = c # s" using unfold by simp
    then show ?thesis using start [of x] c by (cases "f x") (auto simp: stop_def)
  next
    case (Cons y ys')
    with Cons.prems have "f x @ ?rest xs r = f y @ ?rest ys' s" using unfold by simp
    with Cons.prems(1) stop have xy: "x = y" and rest: "?rest xs r = ?rest ys' s"
      by (auto simp: cancels_def)
    from rest have "join_comma (map f xs) @ c # r = join_comma (map f ys') @ c # s"
      using c by (auto split: list.splits)
    with Cons.prems(1) Cons.IH [of ys'] xy Cons show ?thesis by auto
  qed
qed

lemma show_int_start: "\<not> stop (show_int i)"
proof -
  have "hd (show_int i) = CHR ''-'' \<or> is_digit (hd (show_int i))"
    by (auto simp: show_int_def hd_show_nat_digit)
  then show ?thesis by (auto simp: stop_def is_digit_def)
qed

lemma stringify_start: "stringify v \<noteq> [] \<and> \<not> stop (stringify v)"
  using show_int_start by (cases v) (auto simp: json_quote_def stop_def)

text \<open>The first character of a text tells which kind of value it renders.\<close>

lemma show_int_head: "hd (show_int i @ r) \<in> set ''-0123456789''"
  using hd_show_nat_digit [of "nat i"] by (auto simp: show_int_def is_digit_def)

lemma show_int_neq:
  assumes "c \<notin> set ''-0123456789''"
  shows "c # t \<noteq> show_int i @ r" and "show_int i @ r \<noteq> c # t"
  using show_int_head [of i r] assms by (metis list.sel(1))+

lemma stringify_cancels: "cancels stringify v"
proof (induction v)
  case JNull
  show ?case
    unfolding cancels_def
  proof (intro allI impI)
    fix y r s
    assume eq: "stringify JNull @ r = stringify y @ s"
    then show "JNull = y \<and> r = s"
    proof (cases y)
      case (JNum j)
      with eq show ?thesis by (simp add: show_int_neq)
    qed (auto simp: json_quote_def split: if_splits)
  qed
next
  case (JBool b)
  show ?case
    unfolding cancels_def
  proof (intro allI impI)
    fix y r s
    assume eq: "stringify (JBool b) @ r = stringify y @ s"
    then show "JBool b = y \<and> r = s"
    proof (cases y)
      case (JNum j)
      with eq show ?thesis by (simp add: show_int_neq split: if_splits)
    qed (auto simp: json_quote_def split: if_splits)
  qed
next
  case (JNum i)
  show ?case
    unfolding cancels_def
  proof (intro allI impI)
    fix y r s
    assume eq: "stringify (JNum i) @ r = stringify y @ s" and "stop r" "stop s"
    then show "JNum i = y \<and> r = s"
    proof (cases y)
      case (JNum j)
      with eq \<open>stop r\<close> \<open>stop s\<close> show ?thesis
        using show_int_cancel [of i r j s] stop_not_digit by auto
    qed (use eq in \<open>simp_all add: show_int_neq json_quote_def split: if_splits\<close>)
  qed
next
  case (JStr t)
  show ?case
    unfolding cancels_def
  proof (intro allI impI)
    fix y r s
    assume eq: "stringify (JStr t) @ r = stringify y @ s"
    then show "JStr t = y \<and> r = s"
    proof (cases y)
      case (JNum j)
      with eq show ?thesis by (simp add: show_int_neq json_quote_def)
    next
      case (JStr u)
      with eq show ?thesis using json_quote_cancel [of t r u s] by simp
    qed (auto simp: json_quote_def split: if_splits)
  qed
next
  case (JArr vs)
  show ?case
    unfolding cancels_def
  proof (intro allI impI)
    fix y r s
    assume eq: "stringify (JArr vs) @ r = stringify y @ s"
    then show "JArr vs = y \<and> r = s"
    proof (cases y)
      case (JNum j)
      with eq show ?thesis by (simp add: show_int_neq)
    next
      case (JArr ws)
      with eq JArr.IH show ?thesis
        using join_cancel [of vs stringify "CHR '']''" r ws s] stringify_start by auto
    qed (use eq in \<open>auto simp: json_quote_def split: if_splits\<close>)
  qed
next
  case (JObj kvs)
  let ?m = "\<lambda>(k, v). json_quote k @ '':'' @ stringify v"
  have member: "cancels ?m kv" if "kv \<in> set kvs" for kv
    unfolding cancels_def
  proof (intro allI impI)
    fix y r s
    assume eq: "?m kv @ r = ?m y @ s" and st: "stop r" "stop s"
    obtain k v k' v' where kv: "kv = (k, v)" "y = (k', v')" by (cases kv; cases y)
    with eq have "k = k'" and "stringify v @ r = stringify v' @ s"
      using json_quote_cancel [of k "'':'' @ stringify v @ r" k' "'':'' @ stringify v' @ s"] by auto
    moreover have "cancels stringify v" using JObj.IH that kv by auto
    ultimately show "kv = y \<and> r = s" using st kv by (auto simp: cancels_def)
  qed
  have start: "?m kv \<noteq> [] \<and> \<not> stop (?m kv)" for kv
    by (cases kv) (simp add: json_quote_def stop_def)
  show ?case
    unfolding cancels_def
  proof (intro allI impI)
    fix y r s
    assume eq: "stringify (JObj kvs) @ r = stringify y @ s"
    then show "JObj kvs = y \<and> r = s"
    proof (cases y)
      case (JNum j)
      with eq show ?thesis by (simp add: show_int_neq)
    next
      case (JObj kvs')
      with eq show ?thesis
        using join_cancel [of kvs ?m "CHR ''}''" r kvs' s] member start by auto
    qed (use eq in \<open>auto simp: json_quote_def split: if_splits\<close>)
  qed
qed

theorem stringify_inj: "stringify v = stringify w \<Longrightarrow> v = w"
  using stringify_cancels [of v] unfolding cancels_def by (metis append_Nil2 stop_simps(1))

subsection \<open>Canonical text: member order does not matter, everything else does\<close>

lemma canonicalJson_eq_iff: "canonicalJson v = canonicalJson w \<longleftrightarrow> sort_members v = sort_members w"
  by (auto simp: canonicalJson_def dest: stringify_inj)

lemma same_keys_same_values:
  assumes keys: "map fst xs = map fst ys" and dist: "distinct (map fst xs)" and "set xs = set ys"
  shows "xs = ys"
proof (rule nth_equalityI)
  from keys show len: "length xs = length ys" by (metis length_map)
  fix i assume i: "i < length xs"
  obtain k v w where kv: "xs ! i = (k, v)" "ys ! i = (k, w)"
    using i len keys by (metis nth_map prod.collapse)
  then have "(k, v) \<in> set xs" "(k, w) \<in> set xs"
    using i len assms(3) by (metis nth_mem)+
  then have "v = w" using dist by (metis eq_key_imp_eq_value)
  with kv show "xs ! i = ys ! i" by simp
qed

text \<open>
  Two objects with the same member names in the same order (two values of one TypeScript record
  type) have the same canonical text exactly when their members do.
\<close>

lemma sort_members_record:
  assumes "map fst kvs = map fst kws" and "distinct (map fst kvs)"
  shows "sort_members (JObj kvs) = sort_members (JObj kws) \<longleftrightarrow>
           map (\<lambda>kv. sort_members (snd kv)) kvs = map (\<lambda>kv. sort_members (snd kv)) kws"
proof
  let ?g = "\<lambda>(k, v). (k, sort_members v)"
  have fst_g: "map fst (map ?g xs) = map fst xs" for xs
    by (induction xs) auto
  have snd_g: "map snd (map ?g xs) = map (\<lambda>kv. sort_members (snd kv)) xs" for xs
    by (induction xs) auto
  assume "sort_members (JObj kvs) = sort_members (JObj kws)"
  then have "sort_key fst (map ?g kvs) = sort_key fst (map ?g kws)" by simp
  then have "set (map ?g kvs) = set (map ?g kws)" by (metis set_sort)
  then have "map ?g kvs = map ?g kws"
    using assms by (intro same_keys_same_values) (simp_all only: fst_g)
  then show "map (\<lambda>kv. sort_members (snd kv)) kvs = map (\<lambda>kv. sort_members (snd kv)) kws"
    using snd_g by metis
next
  assume eq: "map (\<lambda>kv. sort_members (snd kv)) kvs = map (\<lambda>kv. sort_members (snd kv)) kws"
  have "map (\<lambda>(k, v). (k, sort_members v)) xs = zip (map fst xs) (map (\<lambda>kv. sort_members (snd kv)) xs)" for xs
    by (induction xs) (auto simp: split_def)
  with eq assms(1) have "map (\<lambda>(k, v). (k, sort_members v)) kvs = map (\<lambda>(k, v). (k, sort_members v)) kws"
    by metis
  then show "sort_members (JObj kvs) = sort_members (JObj kws)" by (simp only: sort_members.simps)
qed

subsection \<open>Digests\<close>

definition digest_text :: "string \<Rightarrow> json \<Rightarrow> string" where
  "digest_text domain v = domain @ [CHR 0x00] @ canonicalJson v"

definition sha256Digest :: "(string \<Rightarrow> string) \<Rightarrow> string \<Rightarrow> json \<Rightarrow> string" where
  "sha256Digest sha domain v = ''sha256:'' @ sha (digest_text domain v)"

text \<open>An explicit collision: two different texts with one digest.\<close>

definition collides :: "(string \<Rightarrow> string) \<Rightarrow> string \<Rightarrow> string \<Rightarrow> bool" where
  "collides sha x y \<longleftrightarrow> x \<noteq> y \<and> sha x = sha y"

lemma sha256Digest_eq_iff:
  "sha256Digest sha d v = sha256Digest sha e w \<longleftrightarrow> sha (digest_text d v) = sha (digest_text e w)"
  by (simp add: sha256Digest_def)

lemma sha256Digest_format [text_simps]:
  "hex_digest sha \<Longrightarrow> fixed_regex SHA256_LOWER (sha256Digest sha d v)"
  unfolding sha256Digest_def by (rule hex_digest_regex)

lemma digest_text_same_domain:
  "digest_text d v = digest_text d w \<longleftrightarrow> sort_members v = sort_members w"
  by (simp add: digest_text_def canonicalJson_eq_iff)

text \<open>Equal digests of one domain: the same canonical value, or an explicit collision.\<close>

lemma sha256Digest_same_domain:
  "sha256Digest sha d v = sha256Digest sha d w \<longleftrightarrow>
     sort_members v = sort_members w \<or> collides sha (digest_text d v) (digest_text d w)"
  unfolding sha256Digest_eq_iff collides_def digest_text_same_domain
  by (metis digest_text_same_domain)

lemma nul_split:
  "CHR 0x00 \<notin> set d \<Longrightarrow> CHR 0x00 \<notin> set e \<Longrightarrow> d @ CHR 0x00 # x = e @ CHR 0x00 # y \<Longrightarrow> d = e \<and> x = y"
proof (induction d arbitrary: e)
  case Nil
  then show ?case by (cases e) auto
next
  case (Cons c d)
  then show ?case by (cases e) auto
qed

text \<open>Digests of different domains are computed from different texts.\<close>

theorem domain_separation:
  assumes "CHR 0x00 \<notin> set d" "CHR 0x00 \<notin> set e" "d \<noteq> e"
  shows "digest_text d v \<noteq> digest_text e w"
  using nul_split [OF assms(1,2)] assms(3) by (auto simp: digest_text_def)

text \<open>
  The contract of a commitment: the text determines the committed value. What a client may conclude
  from two equal digests is then either equality or a collision it can exhibit.
\<close>

locale commitment =
  fixes encode :: "'a \<Rightarrow> string"
  assumes encode_inj: "encode a = encode b \<Longrightarrow> a = b"
begin

lemma encode_eq_iff: "encode a = encode b \<longleftrightarrow> a = b"
  using encode_inj by auto

lemma binding: "sha (encode a) = sha (encode b) \<longleftrightarrow> a = b \<or> collides sha (encode a) (encode b)"
  by (auto simp: collides_def encode_eq_iff)

lemma reopened:
  assumes "h = sha (encode a)" and "h = sha (encode b)" and "\<not> collides sha (encode a) (encode b)"
  shows "a = b"
  using assms binding by metis

end

text \<open>The text of a JSON value is such a commitment.\<close>

interpretation json_text: commitment stringify
  by unfold_locales (rule stringify_inj)

subsection \<open>Unknown values and the strict canonicalizer\<close>

text \<open>
  \<open>NInt\<close> is an integral double other than \<open>-0\<close>; \<open>NFinite t\<close> any other finite double, carried with
  its rendering \<open>t\<close> by \<open>Number.prototype.toString\<close>. A \<open>VSparseArray\<close> has a hole. Values are finite
  trees, so the cycle guard of the source has nothing to refuse here.
\<close>

datatype jsnum = NInt int | NNegZero | NFinite string | NNaN | NInfinity

datatype proto = ObjectPrototype | NullPrototype | OtherPrototype

datatype jsval =
    VUndefined
  | VNull
  | VBool bool
  | VNumber jsnum
  | VBigint int
  | VSymbol
  | VFunction
  | VString string
  | VArray "jsval list"
  | VSparseArray
  | VObject proto "(string \<times> jsval) list"

fun traverse :: "('a \<Rightarrow> 'e + 'b) \<Rightarrow> 'a list \<Rightarrow> 'e + 'b list" where
  "traverse f [] = Inr []"
| "traverse f (x # xs) = ebind (f x) (\<lambda>y. ebind (traverse f xs) (\<lambda>ys. Inr (y # ys)))"

lemma traverse_cong [fundef_cong]:
  "xs = ys \<Longrightarrow> (\<And>x. x \<in> set ys \<Longrightarrow> f x = g x) \<Longrightarrow> traverse f xs = traverse g ys"
  by (induction xs arbitrary: ys) auto

lemma traverse_Inr_map: "(\<And>x. x \<in> set xs \<Longrightarrow> f x = Inr (g x)) \<Longrightarrow> traverse f xs = Inr (map g xs)"
  by (induction xs) auto

lemma traverse_ok: "is_ok (traverse f xs) \<longleftrightarrow> (\<forall>x \<in> set xs. is_ok (f x))"
  by (induction xs) (auto simp: is_ok_def ebind_def split: sum.splits)

function canonicalizeStrict :: "jsval \<Rightarrow> string result" where
  "canonicalizeStrict VNull = Inr ''null''"
| "canonicalizeStrict (VString s) = Inr (json_quote s)"
| "canonicalizeStrict (VBool b) = Inr (if b then ''true'' else ''false'')"
| "canonicalizeStrict (VNumber n) =
     (case n of NInt i \<Rightarrow> Inr (show_int i) | NNegZero \<Rightarrow> Inr ''0'' | NFinite t \<Rightarrow> Inr t
      | NNaN \<Rightarrow> Inl StrictJsonError | NInfinity \<Rightarrow> Inl StrictJsonError)"
| "canonicalizeStrict VUndefined = Inl StrictJsonError"
| "canonicalizeStrict (VBigint i) = Inl StrictJsonError"
| "canonicalizeStrict VSymbol = Inl StrictJsonError"
| "canonicalizeStrict VFunction = Inl StrictJsonError"
| "canonicalizeStrict VSparseArray = Inl StrictJsonError"
| "canonicalizeStrict (VArray vs) =
     ebind (traverse canonicalizeStrict vs) (\<lambda>ts. Inr (''['' @ join_comma ts @ '']''))"
| "canonicalizeStrict (VObject p kvs) =
     (if p = OtherPrototype then Inl StrictJsonError
      else ebind (traverse (\<lambda>kv. ebind (canonicalizeStrict (snd kv))
                     (\<lambda>t. Inr (json_quote (fst kv) @ '':'' @ t))) (sort_key fst kvs))
             (\<lambda>ts. Inr (''{'' @ join_comma ts @ ''}'')))"
  by pat_completeness auto
termination
proof (relation "measure size", goal_cases)
  case 1
  then show ?case by simp
next
  case (2 vs v)
  then show ?case by (auto simp: less_Suc_eq_le intro: size_list_estimation')
next
  case (3 p kvs kv)
  then have "kv \<in> set kvs" by simp
  then have "size (snd kv) < size_list (\<lambda>x. Suc (size (snd x))) kvs"
    by (induction kvs) auto
  moreover have "size_prod (\<lambda>x :: string. 0) size = (\<lambda>x :: string \<times> jsval. Suc (size (snd x)))"
    by (auto simp: fun_eq_iff)
  ultimately show ?case by simp
qed

definition sha256DigestStrict :: "(string \<Rightarrow> string) \<Rightarrow> string \<Rightarrow> jsval \<Rightarrow> string result" where
  "sha256DigestStrict sha domain v =
     (if domain = [] then Inl StrictJsonError
      else ebind (canonicalizeStrict v) (\<lambda>t. Inr (''sha256:'' @ sha (domain @ [CHR 0x00] @ t))))"

text \<open>The value a typed record is at run time: a plain object.\<close>

fun js_of_json :: "json \<Rightarrow> jsval" where
  "js_of_json JNull = VNull"
| "js_of_json (JBool b) = VBool b"
| "js_of_json (JNum i) = VNumber (NInt i)"
| "js_of_json (JStr s) = VString s"
| "js_of_json (JArr vs) = VArray (map js_of_json vs)"
| "js_of_json (JObj kvs) = VObject ObjectPrototype (map (\<lambda>(k, v). (k, js_of_json v)) kvs)"

lemma sort_key_map_snd:
  "sort_key fst (map (\<lambda>(k, v). (k, f v)) kvs) = map (\<lambda>(k, v). (k, f v)) (sort_key fst kvs)"
proof -
  have ins: "insort_key fst (k, f v) (map (\<lambda>(k, v). (k, f v)) xs) =
      map (\<lambda>(k, v). (k, f v)) (insort_key fst (k, v) xs)" for k v xs
    by (induction xs) auto
  show ?thesis by (induction kvs) (auto simp: ins)
qed

lemma traverse_map: "traverse f (map g xs) = traverse (\<lambda>x. f (g x)) xs"
  by (induction xs) auto

theorem canonicalizeStrict_typed: "canonicalizeStrict (js_of_json v) = Inr (canonicalJson v)"
proof (induction v)
  case (JArr vs)
  then have "traverse (\<lambda>v. canonicalizeStrict (js_of_json v)) vs = Inr (map canonicalJson vs)"
    by (intro traverse_Inr_map) simp
  then show ?case by (simp add: traverse_map canonicalJson_def [abs_def] comp_def)
next
  case (JObj kvs)
  let ?t = "\<lambda>kv. json_quote (fst kv) @ '':'' @ canonicalJson (snd kv)"
  have "traverse (\<lambda>kv. ebind (canonicalizeStrict (js_of_json (snd kv)))
        (\<lambda>t. Inr (json_quote (fst kv) @ '':'' @ t))) (sort_key fst kvs) = Inr (map ?t (sort_key fst kvs))"
    using JObj by (intro traverse_Inr_map) (auto simp: snds.simps split_def)
  then show ?case
    by (simp add: sort_key_map_snd [unfolded split_def] traverse_map split_def canonicalJson_def [abs_def] comp_def)
qed (simp_all add: canonicalJson_def)

end
