(* ===== verification/Protection_Case.thy ===== *)
theory Protection_Case
  imports Canonical_Json
begin

text \<open>
  The canonical asset record (\<^verbatim>\<open>cleanverse-asset.ts\<close>), the protection case and its binding
  (\<^verbatim>\<open>protection-case.ts\<close>) and the neutral custom binding (\<^verbatim>\<open>custom-supervised-v2.ts\<close>).

  A record type of the source is a record here, its member names prefixed with the type's initials;
  the function \<open>..._json\<close> of a record is the object literal its digest is computed from. An instant is
  its time value in milliseconds; \<open>toISOString\<close> prints it.
\<close>

subsection \<open>The asset record\<close>

datatype SourceClassification =
    LIVE_OBSERVED | LOCAL_EXECUTION | PROTOCOL_DOUBLE | FIXTURE | UNPROVEN | DOCUMENTED

fun classification_name :: "SourceClassification \<Rightarrow> string" where
  "classification_name LIVE_OBSERVED = ''LIVE_OBSERVED''"
| "classification_name LOCAL_EXECUTION = ''LOCAL_EXECUTION''"
| "classification_name PROTOCOL_DOUBLE = ''PROTOCOL_DOUBLE''"
| "classification_name FIXTURE = ''FIXTURE''"
| "classification_name UNPROVEN = ''UNPROVEN''"
| "classification_name DOCUMENTED = ''DOCUMENTED''"

record ClassifiedField =
  cf_value :: json
  cf_classification :: SourceClassification
  cf_source :: string
  cf_observedAt :: "string option"

definition classified_json :: "ClassifiedField \<Rightarrow> json" where
  "classified_json f = JObj ([(''value'', cf_value f),
     (''classification'', JStr (classification_name (cf_classification f))), (''source'', JStr (cf_source f))]
     @ (case cf_observedAt f of None \<Rightarrow> [] | Some t \<Rightarrow> [(''observedAt'', JStr t)]))"

record CleanverseAssetRecord =
  ar_schemaVersion :: string
  ar_network :: ClassifiedField
  ar_canonicalAssetIdentity :: ClassifiedField
  ar_token :: ClassifiedField
  ar_sourceIdentity :: ClassifiedField
  ar_issuerLegalIdentity :: ClassifiedField
  ar_receivableReference :: ClassifiedField
  ar_policy :: ClassifiedField
  ar_documentationTerms :: ClassifiedField
  ar_aPass :: ClassifiedField
  ar_settlementAsset :: ClassifiedField
  ar_issuance :: ClassifiedField
  ar_tokenDeployment :: ClassifiedField
  ar_preflightObservation :: ClassifiedField
  ar_provenance :: ClassifiedField

definition asset_fields :: "CleanverseAssetRecord \<Rightarrow> (string \<times> ClassifiedField) list" where
  "asset_fields r =
     [(''network'', ar_network r), (''canonicalAssetIdentity'', ar_canonicalAssetIdentity r),
      (''token'', ar_token r), (''sourceIdentity'', ar_sourceIdentity r),
      (''issuerLegalIdentity'', ar_issuerLegalIdentity r),
      (''receivableReference'', ar_receivableReference r), (''policy'', ar_policy r),
      (''documentationTerms'', ar_documentationTerms r), (''aPass'', ar_aPass r),
      (''settlementAsset'', ar_settlementAsset r), (''issuance'', ar_issuance r),
      (''tokenDeployment'', ar_tokenDeployment r), (''preflightObservation'', ar_preflightObservation r),
      (''provenance'', ar_provenance r)]"

definition asset_json :: "CleanverseAssetRecord \<Rightarrow> json" where
  "asset_json r = JObj ((''schemaVersion'', JStr (ar_schemaVersion r))
     # map (\<lambda>(k, f). (k, classified_json f)) (asset_fields r))"

definition cleanverseAssetRecordDigest :: "(string \<Rightarrow> string) \<Rightarrow> CleanverseAssetRecord \<Rightarrow> string" where
  "cleanverseAssetRecordDigest sha r = sha256Digest sha ''MordantCleanverseAssetRecord/v2'' (asset_json r)"

definition M11_EVIDENCE :: string where
  "M11_EVIDENCE = ''docs/evidence/monad-invoice-atoken-launch-2026-07-28.json''"

definition M11_OBSERVED_AT :: string where
  "M11_OBSERVED_AT = ''2026-07-28T19:22:28.982Z''"

definition DOCUMENTATION_EVIDENCE :: string where
  "DOCUMENTATION_EVIDENCE = ''docs/evidence/cleanverse-monad-2026-07-28.json''"

definition M13A_EVIDENCE :: string where
  "M13A_EVIDENCE = ''docs/evidence/monad-m13a-ceremony-2026-07-28.json''"

abbreviation live :: "json \<Rightarrow> string \<Rightarrow> string \<Rightarrow> ClassifiedField" where
  "live v src at \<equiv> \<lparr>cf_value = v, cf_classification = LIVE_OBSERVED, cf_source = src, cf_observedAt = Some at\<rparr>"

definition CANONICAL_CLEANVERSE_ASSET_RECORD :: CleanverseAssetRecord where
  "CANONICAL_CLEANVERSE_ASSET_RECORD = \<lparr>
     ar_schemaVersion = ''mordant.cleanverse-asset-record/2'',
     ar_network = live (JObj [(''name'', JStr ''monad-testnet''), (''chainId'', JNum 10143)]) M11_EVIDENCE M11_OBSERVED_AT,
     ar_canonicalAssetIdentity = live (JStr ''eip155:10143/erc20:0x66f706d1dc820cf09eba5359ce9acd0d290bc17b'') M11_EVIDENCE M11_OBSERVED_AT,
     ar_token = live (JObj [(''standard'', JStr ''Cleanverse A-Token''),
        (''address'', JStr ''0x66F706D1Dc820CF09EBA5359cE9acd0D290bC17b''),
        (''implementation'', JStr ''0xce4446801356e7d8acbdfef93816bf62b05d3ebf''),
        (''name'', JStr ''Mordant Invoice Note''), (''symbol'', JStr ''MINV01''), (''decimals'', JNum 6),
        (''registered'', JBool True), (''paused'', JBool False)]) M11_EVIDENCE M11_OBSERVED_AT,
     ar_sourceIdentity = live (JObj [(''cleanverseRequestId'', JStr ''IA20260729032221850604''),
        (''launchFlow'', JStr ''LAUNCH''), (''adminAddress'', JStr ''0x79C53151315FaD9163f75a65A8Bd4D04a10e1e45'')])
        M11_EVIDENCE M11_OBSERVED_AT,
     ar_issuerLegalIdentity = \<lparr>cf_value = JNull, cf_classification = UNPROVEN,
        cf_source = ''The retained Cleanverse evidence identifies an admin address, not a legal issuer.'', cf_observedAt = None\<rparr>,
     ar_receivableReference = \<lparr>cf_value = JObj [(''reference'', JStr ''MORDANT-MINV01-HACKATHON''),
        (''description'', JStr ''Synthetic hackathon receivable represented by MINV01'')],
        cf_classification = FIXTURE, cf_source = ''Mordant product scenario'', cf_observedAt = None\<rparr>,
     ar_policy = live (JObj [(''address'', JStr ''0x36489bE45fa84f70a0c2BDB11D824Be608CB12Dd''),
        (''launchRule'', JObj [(''allowedGroup'', JStr ''''), (''allowedSubGroup'', JStr ''''),
          (''minimumTier'', JNum 50), (''minimumSubTier'', JNum 0)])]) M11_EVIDENCE M11_OBSERVED_AT,
     ar_documentationTerms = \<lparr>cf_value = JObj [(''pageTitle'', JStr ''Cleanverse API v5.6 - Integration Documentation''),
        (''version'', JStr ''v5.6''), (''consultedAtRaw'', JStr ''2026-07-27''),
        (''sourceKind'', JStr ''manual-versioned-transcription'')],
        cf_classification = DOCUMENTED, cf_source = DOCUMENTATION_EVIDENCE, cf_observedAt = Some ''2026-07-27''\<rparr>,
     ar_aPass = live (JObj [(''statusAtObservation'', JStr ''HOLDER_PROFILES_ADMITTED''),
        (''holderAExpirationUnix'', JNum 1816796031), (''holderBExpirationUnix'', JNum 1816796031)])
        DOCUMENTATION_EVIDENCE ''2026-07-27T23:23:14.605Z'',
     ar_settlementAsset = live (JObj [(''symbol'', JStr ''aUSDC''),
        (''address'', JStr ''0xaC0893567D43C3E7e6e35a72803df05416C1f20D''), (''decimals'', JNum 6)]) M11_EVIDENCE M11_OBSERVED_AT,
     ar_issuance = live (JObj [(''status'', JStr ''ISSUED''),
        (''transactionHash'', JStr ''0xd26ba9b1624a6e10127a48e2acabdbbf94cae97e0be071e243c7ee5b08211b8c''),
        (''issuedAtRaw'', JStr ''2026-07-29 03:22:22'')]) M11_EVIDENCE M11_OBSERVED_AT,
     ar_tokenDeployment = live (JObj [(''blockNumber'', JStr ''48901234'')]) M13A_EVIDENCE ''2026-07-28T20:52:42.848Z'',
     ar_preflightObservation = live (JObj [(''preflightPinnedBlock'', JStr ''48901220''),
        (''blockHash'', JStr ''0x85b5236019fe240ad72eee25ff388435d4faedf40e361ad5e75033045969f9d0''),
        (''generatedAt'', JStr M11_OBSERVED_AT)]) M11_EVIDENCE M11_OBSERVED_AT,
     ar_provenance = live (JObj [(''sources'', JArr [
        JObj [(''evidencePath'', JStr M11_EVIDENCE), (''evidenceSha256'', JStr ''3919f586ba19a901151225e0d9de83d554566db26658fd301a025625ba02a8d9'')],
        JObj [(''evidencePath'', JStr DOCUMENTATION_EVIDENCE), (''evidenceSha256'', JStr ''6e8a7c742a032ba82272b0931503aed85470cf3f8b39915f763e47cc1bbaf0df'')],
        JObj [(''evidencePath'', JStr M13A_EVIDENCE), (''evidenceSha256'', JStr ''cd0bcc8944796a18dda32efa618bb5a0a2311b0755cd16c6a5ef657e34e18bb3'')]])])
        M11_EVIDENCE M11_OBSERVED_AT\<rparr>"

definition CANONICAL_CLEANVERSE_ASSET_DIGEST :: "(string \<Rightarrow> string) \<Rightarrow> string" where
  "CANONICAL_CLEANVERSE_ASSET_DIGEST sha = cleanverseAssetRecordDigest sha CANONICAL_CLEANVERSE_ASSET_RECORD"

definition assertCanonicalCleanverseAssetRecord ::
  "(string \<Rightarrow> string) \<Rightarrow> CleanverseAssetRecord \<Rightarrow> string result" where
  "assertCanonicalCleanverseAssetRecord sha r =
     (let d = cleanverseAssetRecordDigest sha r
      in if d \<noteq> CANONICAL_CLEANVERSE_ASSET_DIGEST sha then Inl CleanverseAssetBindingError else Inr d)"

definition allAssetFieldClassifications :: "CleanverseAssetRecord \<Rightarrow> SourceClassification list" where
  "allAssetFieldClassifications r = map (\<lambda>(k, f). cf_classification f) (asset_fields r)"

subsection \<open>Instants\<close>

definition pad_zero :: "nat \<Rightarrow> string \<Rightarrow> string" where
  "pad_zero n s = replicate (n - length s) CHR ''0'' @ s"

text \<open>Year, month and day of a day number counted from 1970-01-01.\<close>

definition civil_from_days :: "int \<Rightarrow> int \<times> int \<times> int" where
  "civil_from_days days =
     (let z = days + 719468; era = z div 146097; doe = z mod 146097;
          yoe = (doe - doe div 1460 + doe div 36524 - doe div 146096) div 365;
          doy = doe - (365 * yoe + yoe div 4 - yoe div 100);
          mp = (5 * doy + 2) div 153; d = doy - (153 * mp + 2) div 5 + 1;
          m = (if mp < 10 then mp + 3 else mp - 9); y = yoe + era * 400
      in (if m \<le> 2 then y + 1 else y, m, d))"

definition toISOString :: "int \<Rightarrow> string" where
  "toISOString ms =
     (let (y, m, d) = civil_from_days (ms div 86400000); t = ms mod 86400000;
          year = (if 0 \<le> y \<and> y \<le> 9999 then pad_zero 4 (show_int y)
                  else (if y < 0 then ''-'' else ''+'') @ pad_zero 6 (show_int \<bar>y\<bar>))
      in year @ ''-'' @ pad_zero 2 (show_int m) @ ''-'' @ pad_zero 2 (show_int d)
         @ ''T'' @ pad_zero 2 (show_int (t div 3600000)) @ '':'' @ pad_zero 2 (show_int (t div 60000 mod 60))
         @ '':'' @ pad_zero 2 (show_int (t div 1000 mod 60)) @ ''.'' @ pad_zero 3 (show_int (t mod 1000)) @ ''Z'')"

subsection \<open>The protection case\<close>

definition PROTECTION_SERVICE :: string where
  "PROTECTION_SERVICE = ''Conflicting Pledge Protection''"

definition PROTECTION_SERVICE_VERSION :: int where
  "PROTECTION_SERVICE_VERSION = 1"

definition PROTECTION_POLICY_VERSION :: int where
  "PROTECTION_POLICY_VERSION = 1"

definition PROTECTION_FIXTURE_CLASSIFICATION :: string where
  "PROTECTION_FIXTURE_CLASSIFICATION = ''SYNTHETIC_HACKATHON_FIXTURE''"

definition GOVERNED_RELEASE_MODE :: string where
  "GOVERNED_RELEASE_MODE = ''governed-decryptor-v1''"

definition COALITION_RELEASE_MODE :: string where
  "COALITION_RELEASE_MODE = ''coalition-v5''"

datatype ProductScenario = ScenarioConflict | ScenarioNoConflict

fun scenario_name :: "ProductScenario \<Rightarrow> string" where
  "scenario_name ScenarioConflict = ''conflict''"
| "scenario_name ScenarioNoConflict = ''no-conflict''"

datatype IncidentState = AUTHORIZED | PRIVATE_MATCH_OPEN | EVALUATED | CONFLICT_CONFIRMED | CLEARED

datatype RecourseState = NOT_OPEN | CURE_WINDOW | AVAILABLE | SIMULATED_AVAILABLE | REFUSED

record HolderAllocation =
  ha_holderId :: string
  ha_protectedUnits :: string
  ha_allocationBps :: int

record Amount =
  am_asset :: string
  am_minorUnits :: string

record MordantProtectionBinding =
  pb_schemaVersion :: string
  pb_cleanverseAssetRecordDigest :: string
  pb_protectionService :: string
  pb_protectionServiceVersion :: int
  pb_policyId :: string
  pb_policyVersion :: int
  pb_productScenario :: string
  pb_fixtureClassification :: string
  pb_protectedAmount :: Amount
  pb_reserveBasisPoints :: int
  pb_reserveAmount :: Amount
  pb_holderRecordDate :: string
  pb_holderSnapshot :: "HolderAllocation list"
  pb_holderAllocationDigest :: string
  pb_caseNonce :: string
  pb_fheCaseId :: string
  pb_governedReleaseMode :: string

record ProtectionTimelineEvent =
  te_ordinal :: nat
  te_kind :: string
  te_at :: string
  te_label :: string
  te_classification :: SourceClassification
  te_evidenceRef :: "string option"

record ReserveTerms =
  rt_basisPoints :: int
  rt_minorUnits :: string
  rt_accountingDomain :: string
  rt_executionClassification :: SourceClassification

record OriginalReceivable =
  or_state :: string
  or_principalMinorUnits :: string
  or_units :: string
  or_accountingDomain :: string

record MordantProtectionCase =
  pc_schemaVersion :: string
  pc_productScenario :: ProductScenario
  pc_cleanverseAsset :: CleanverseAssetRecord
  pc_cleanverseAssetDigest :: string
  pc_service :: string
  pc_serviceVersion :: int
  pc_policyId :: string
  pc_policyVersion :: int
  pc_protectedAmount :: Amount
  pc_reserve :: ReserveTerms
  pc_holderRecordDate :: string
  pc_holderSnapshot :: "HolderAllocation list"
  pc_holderAllocationDigest :: string
  pc_caseNonce :: string
  pc_fheCaseId :: string
  pc_releaseMode :: string
  pc_incidentState :: IncidentState
  pc_cureDeadline :: "string option"
  pc_recourseState :: RecourseState
  pc_originalReceivable :: OriginalReceivable
  pc_evidenceReferences :: "string list"
  pc_timeline :: "ProtectionTimelineEvent list"
  pc_createdAt :: string

definition holder_json :: "HolderAllocation \<Rightarrow> json" where
  "holder_json h = JObj [(''holderId'', JStr (ha_holderId h)),
     (''protectedUnits'', JStr (ha_protectedUnits h)), (''allocationBps'', JNum (ha_allocationBps h))]"

definition protectionPolicyId :: "(string \<Rightarrow> string) \<Rightarrow> string" where
  "protectionPolicyId sha = sha256Digest sha ''MordantConflictingPledgePolicy/v1''
     (JObj [(''service'', JStr PROTECTION_SERVICE), (''serviceVersion'', JNum PROTECTION_SERVICE_VERSION),
       (''policyVersion'', JNum PROTECTION_POLICY_VERSION)])"

definition holderAllocationDigest :: "(string \<Rightarrow> string) \<Rightarrow> string \<Rightarrow> string \<Rightarrow> HolderAllocation list \<Rightarrow> string" where
  "holderAllocationDigest sha assetDigest recordDate holders =
     sha256Digest sha ''MordantProtectedHolderSnapshot/v1''
       (JObj [(''assetDigest'', JStr assetDigest), (''recordDate'', JStr recordDate),
         (''holders'', JArr (map holder_json holders))])"

definition fhe_case_json :: "string \<Rightarrow> string \<Rightarrow> string \<Rightarrow> string \<Rightarrow> string \<Rightarrow> json" where
  "fhe_case_json assetDigest scenario caseNonce policyId allocation =
     JObj [(''assetDigest'', JStr assetDigest), (''scenario'', JStr scenario), (''caseNonce'', JStr caseNonce),
       (''policyId'', JStr policyId), (''holderAllocationDigest'', JStr allocation)]"

definition protectionFheCaseId ::
  "(string \<Rightarrow> string) \<Rightarrow> string \<Rightarrow> string \<Rightarrow> string \<Rightarrow> string \<Rightarrow> string \<Rightarrow> string" where
  "protectionFheCaseId sha assetDigest scenario caseNonce policyId allocation =
     sha256Digest sha ''MordantProtectionFHECase/v1'' (fhe_case_json assetDigest scenario caseNonce policyId allocation)"

definition CUSTOM_SUPERVISED_EXECUTION_VARIANT :: string where
  "CUSTOM_SUPERVISED_EXECUTION_VARIANT = ''CUSTOM_SUPERVISED''"

definition custom_case_json :: "string \<Rightarrow> string \<Rightarrow> string \<Rightarrow> string \<Rightarrow> json" where
  "custom_case_json assetDigest caseNonce allocation policyId =
     JObj [(''assetDigest'', JStr assetDigest), (''caseNonce'', JStr caseNonce),
       (''executionVariant'', JStr CUSTOM_SUPERVISED_EXECUTION_VARIANT),
       (''holderAllocationDigest'', JStr allocation), (''policyId'', JStr policyId)]"

definition customSupervisedFheCaseIdV2 ::
  "(string \<Rightarrow> string) \<Rightarrow> string \<Rightarrow> string \<Rightarrow> string \<Rightarrow> string \<Rightarrow> string" where
  "customSupervisedFheCaseIdV2 sha assetDigest caseNonce allocation policyId =
     sha256Digest sha ''MordantProtectionFHECase/v2'' (custom_case_json assetDigest caseNonce allocation policyId)"

definition protectionBindingFromCase :: "MordantProtectionCase \<Rightarrow> MordantProtectionBinding" where
  "protectionBindingFromCase c = \<lparr>
     pb_schemaVersion = ''mordant.protection-binding/1'',
     pb_cleanverseAssetRecordDigest = pc_cleanverseAssetDigest c,
     pb_protectionService = pc_service c,
     pb_protectionServiceVersion = pc_serviceVersion c,
     pb_policyId = pc_policyId c,
     pb_policyVersion = pc_policyVersion c,
     pb_productScenario = scenario_name (pc_productScenario c),
     pb_fixtureClassification = PROTECTION_FIXTURE_CLASSIFICATION,
     pb_protectedAmount = pc_protectedAmount c,
     pb_reserveBasisPoints = rt_basisPoints (pc_reserve c),
     pb_reserveAmount = \<lparr>am_asset = ''aUSDC'', am_minorUnits = rt_minorUnits (pc_reserve c)\<rparr>,
     pb_holderRecordDate = pc_holderRecordDate c,
     pb_holderSnapshot = pc_holderSnapshot c,
     pb_holderAllocationDigest = pc_holderAllocationDigest c,
     pb_caseNonce = pc_caseNonce c,
     pb_fheCaseId = pc_fheCaseId c,
     pb_governedReleaseMode = pc_releaseMode c\<rparr>"

definition assertProtectionBindingDerivations :: "(string \<Rightarrow> string) \<Rightarrow> MordantProtectionBinding \<Rightarrow> unit result" where
  "assertProtectionBindingDerivations sha b =
     (let allocation = holderAllocationDigest sha (pb_cleanverseAssetRecordDigest b) (pb_holderRecordDate b)
            (pb_holderSnapshot b);
          caseId = protectionFheCaseId sha (pb_cleanverseAssetRecordDigest b) (pb_productScenario b)
            (pb_caseNonce b) (pb_policyId b) allocation
      in check (\<not> (pb_schemaVersion b \<noteq> ''mordant.protection-binding/1''
           \<or> pb_protectionService b \<noteq> PROTECTION_SERVICE
           \<or> pb_protectionServiceVersion b \<noteq> PROTECTION_SERVICE_VERSION
           \<or> pb_policyId b \<noteq> protectionPolicyId sha
           \<or> pb_policyVersion b \<noteq> PROTECTION_POLICY_VERSION
           \<or> pb_fixtureClassification b \<noteq> PROTECTION_FIXTURE_CLASSIFICATION
           \<or> am_asset (pb_protectedAmount b) \<noteq> ''aUSDC'' \<or> am_minorUnits (pb_protectedAmount b) \<noteq> ''100000000''
           \<or> pb_reserveBasisPoints b \<noteq> 1000
           \<or> am_asset (pb_reserveAmount b) \<noteq> ''aUSDC'' \<or> am_minorUnits (pb_reserveAmount b) \<noteq> ''10000000''
           \<or> (pb_governedReleaseMode b \<noteq> GOVERNED_RELEASE_MODE \<and> pb_governedReleaseMode b \<noteq> COALITION_RELEASE_MODE)
           \<or> allocation \<noteq> pb_holderAllocationDigest b
           \<or> caseId \<noteq> pb_fheCaseId b)) ProtectionBindingError)"

text \<open>
  The options of \<open>createProtectionCase\<close>. \<open>co_createdAt\<close> is the time value of \<open>new Date(createdAt)\<close>,
  \<open>None\<close> for an invalid date; \<open>co_custom\<close> says that the custom execution variant is named. Time values
  start at \<open>MIN_TIME_VALUE\<close>: \<open>toISOString\<close> of an earlier instant throws a range error.
\<close>

definition MIN_TIME_VALUE :: int where
  "MIN_TIME_VALUE = - 8640000000000000"

record CreateCaseOptions =
  co_scenario :: ProductScenario
  co_createdAt :: "int option"
  co_caseNonce :: string
  co_releaseMode :: "string option"
  co_assetRecord :: "CleanverseAssetRecord option"
  co_custom :: bool

definition json_member :: "string \<Rightarrow> json \<Rightarrow> json option" where
  "json_member k v = (case v of JObj kvs \<Rightarrow> map_of kvs k | _ \<Rightarrow> None)"

definition provenance_paths :: "json \<Rightarrow> string list" where
  "provenance_paths v =
     (case json_member ''sources'' v of
        Some (JArr xs) \<Rightarrow> concat (map (\<lambda>x. case json_member ''evidencePath'' x of Some (JStr p) \<Rightarrow> [p] | _ \<Rightarrow> []) xs)
      | _ \<Rightarrow> [])"

definition PROTECTED_HOLDERS :: "HolderAllocation list" where
  "PROTECTED_HOLDERS =
     [\<lparr>ha_holderId = ''HOLDER_A'', ha_protectedUnits = ''60000000'', ha_allocationBps = 6000\<rparr>,
      \<lparr>ha_holderId = ''HOLDER_B'', ha_protectedUnits = ''40000000'', ha_allocationBps = 4000\<rparr>]"

text \<open>The object literal of \<open>createProtectionCase\<close>, for an asset with digest \<open>assetDigest\<close> and the instant \<open>at\<close>.\<close>

definition protection_case_literal ::
  "(string \<Rightarrow> string) \<Rightarrow> CreateCaseOptions \<Rightarrow> CleanverseAssetRecord \<Rightarrow> string \<Rightarrow> int \<Rightarrow> MordantProtectionCase" where
  "protection_case_literal sha opts asset assetDigest at =
     (let recordDate = toISOString (at - 60000);
          allocation = holderAllocationDigest sha assetDigest recordDate PROTECTED_HOLDERS;
          nonce = sha256Digest sha ''MordantProtectionCaseNonce/v1'' (JObj [(''entropy'', JStr (co_caseNonce opts))]);
          caseId = (if co_custom opts
            then customSupervisedFheCaseIdV2 sha assetDigest nonce allocation (protectionPolicyId sha)
            else protectionFheCaseId sha assetDigest (scenario_name (co_scenario opts)) nonce
                   (protectionPolicyId sha) allocation)
      in \<lparr>pc_schemaVersion = ''mordant.protection-case/1'',
           pc_productScenario = co_scenario opts,
           pc_cleanverseAsset = asset,
           pc_cleanverseAssetDigest = assetDigest,
           pc_service = PROTECTION_SERVICE,
           pc_serviceVersion = PROTECTION_SERVICE_VERSION,
           pc_policyId = protectionPolicyId sha,
           pc_policyVersion = PROTECTION_POLICY_VERSION,
           pc_protectedAmount = \<lparr>am_asset = ''aUSDC'', am_minorUnits = ''100000000''\<rparr>,
           pc_reserve = \<lparr>rt_basisPoints = 1000, rt_minorUnits = ''10000000'',
             rt_accountingDomain = ''PROTECTION'', rt_executionClassification = PROTOCOL_DOUBLE\<rparr>,
           pc_holderRecordDate = recordDate,
           pc_holderSnapshot = PROTECTED_HOLDERS,
           pc_holderAllocationDigest = allocation,
           pc_caseNonce = nonce,
           pc_fheCaseId = caseId,
           pc_releaseMode = (case co_releaseMode opts of None \<Rightarrow> GOVERNED_RELEASE_MODE | Some m \<Rightarrow> m),
           pc_incidentState = AUTHORIZED,
           pc_cureDeadline = None,
           pc_recourseState = NOT_OPEN,
           pc_originalReceivable = \<lparr>or_state = ''OUTSTANDING_INTACT'', or_principalMinorUnits = ''110000000'',
             or_units = ''100000000'', or_accountingDomain = ''RECEIVABLE''\<rparr>,
           pc_evidenceReferences = provenance_paths (cf_value (ar_provenance asset)),
           pc_timeline = [\<lparr>te_ordinal = 1, te_kind = ''PROTECTION_ACTIVATED'', te_at = toISOString at,
             te_label = ''Mordant protection activated for the canonical Cleanverse asset'',
             te_classification = LOCAL_EXECUTION, te_evidenceRef = Some assetDigest\<rparr>],
           pc_createdAt = toISOString at\<rparr>)"

definition createProtectionCase :: "(string \<Rightarrow> string) \<Rightarrow> CreateCaseOptions \<Rightarrow> MordantProtectionCase result" where
  "createProtectionCase sha opts =
     (let asset = (case co_assetRecord opts of None \<Rightarrow> CANONICAL_CLEANVERSE_ASSET_RECORD | Some r \<Rightarrow> r)
      in ebind (assertCanonicalCleanverseAssetRecord sha asset) (\<lambda>assetDigest.
         case co_createdAt opts of
           None \<Rightarrow> Inl RangeError
         | Some at \<Rightarrow>
             if length (co_caseNonce opts) < 16 \<or> at - 60000 < MIN_TIME_VALUE then Inl RangeError
             else Inr (protection_case_literal sha opts asset assetDigest at)))"

definition assertProtectionAssetBinding :: "(string \<Rightarrow> string) \<Rightarrow> MordantProtectionCase \<Rightarrow> string \<Rightarrow> unit result" where
  "assertProtectionAssetBinding sha c supplied =
     ebind (assertCanonicalCleanverseAssetRecord sha (pc_cleanverseAsset c)) (\<lambda>_.
       check (\<not> (pc_cleanverseAssetDigest c \<noteq> CANONICAL_CLEANVERSE_ASSET_DIGEST sha
                  \<or> supplied \<noteq> pc_cleanverseAssetDigest c)) ProtectionBindingError)"

text \<open>The optional patch of \<open>appendProtectionEvent\<close>: a member that is absent leaves the field.\<close>

record CasePatch =
  cp_incidentState :: "IncidentState option"
  cp_cureDeadline :: "string option option"
  cp_recourseState :: "RecourseState option"

definition NO_PATCH :: CasePatch where
  "NO_PATCH = \<lparr>cp_incidentState = None, cp_cureDeadline = None, cp_recourseState = None\<rparr>"

definition appendProtectionEvent ::
  "MordantProtectionCase \<Rightarrow> ProtectionTimelineEvent \<Rightarrow> CasePatch \<Rightarrow> MordantProtectionCase" where
  "appendProtectionEvent c event patch =
     c\<lparr>pc_incidentState := (case cp_incidentState patch of None \<Rightarrow> pc_incidentState c | Some x \<Rightarrow> x),
       pc_cureDeadline := (case cp_cureDeadline patch of None \<Rightarrow> pc_cureDeadline c | Some x \<Rightarrow> x),
       pc_recourseState := (case cp_recourseState patch of None \<Rightarrow> pc_recourseState c | Some x \<Rightarrow> x),
       pc_timeline := pc_timeline c @ [event\<lparr>te_ordinal := length (pc_timeline c) + 1\<rparr>]\<rparr>"

definition appendEventOnce ::
  "MordantProtectionCase \<Rightarrow> ProtectionTimelineEvent \<Rightarrow> CasePatch \<Rightarrow> MordantProtectionCase" where
  "appendEventOnce c event patch =
     (if list_ex (\<lambda>e. te_kind e = te_kind event) (pc_timeline c) then c
      else appendProtectionEvent c event patch)"

subsection \<open>The neutral custom binding\<close>

record MordantCustomSupervisedBindingV2 =
  cb_schemaVersion :: string
  cb_cleanverseAssetRecordDigest :: string
  cb_protectionService :: string
  cb_protectionServiceVersion :: int
  cb_policyId :: string
  cb_policyVersion :: int
  cb_fixtureClassification :: string
  cb_protectedAmount :: Amount
  cb_reserveBasisPoints :: int
  cb_reserveAmount :: Amount
  cb_holderRecordDate :: string
  cb_holderSnapshot :: "HolderAllocation list"
  cb_holderAllocationDigest :: string
  cb_caseNonce :: string
  cb_fheCaseId :: string
  cb_governedReleaseMode :: string
  cb_executionVariant :: string

definition amount_json :: "Amount \<Rightarrow> json" where
  "amount_json a = JObj [(''asset'', JStr (am_asset a)), (''minorUnits'', JStr (am_minorUnits a))]"

definition customSupervisedBindingValue :: "MordantCustomSupervisedBindingV2 \<Rightarrow> json" where
  "customSupervisedBindingValue b = JObj [
     (''schemaVersion'', JStr (cb_schemaVersion b)),
     (''cleanverseAssetRecordDigest'', JStr (cb_cleanverseAssetRecordDigest b)),
     (''protectionService'', JStr (cb_protectionService b)),
     (''protectionServiceVersion'', JNum (cb_protectionServiceVersion b)),
     (''policyId'', JStr (cb_policyId b)),
     (''policyVersion'', JNum (cb_policyVersion b)),
     (''fixtureClassification'', JStr (cb_fixtureClassification b)),
     (''protectedAmount'', amount_json (cb_protectedAmount b)),
     (''reserveBasisPoints'', JNum (cb_reserveBasisPoints b)),
     (''reserveAmount'', amount_json (cb_reserveAmount b)),
     (''holderRecordDate'', JStr (cb_holderRecordDate b)),
     (''holderSnapshot'', JArr (map holder_json (cb_holderSnapshot b))),
     (''holderAllocationDigest'', JStr (cb_holderAllocationDigest b)),
     (''caseNonce'', JStr (cb_caseNonce b)),
     (''fheCaseId'', JStr (cb_fheCaseId b)),
     (''governedReleaseMode'', JStr (cb_governedReleaseMode b)),
     (''executionVariant'', JStr (cb_executionVariant b))]"

definition customSupervisedBindingBytesV2 :: "MordantCustomSupervisedBindingV2 \<Rightarrow> string" where
  "customSupervisedBindingBytesV2 b = stringify (customSupervisedBindingValue b)"

definition customSupervisedBindingDigestV2 :: "(string \<Rightarrow> string) \<Rightarrow> MordantCustomSupervisedBindingV2 \<Rightarrow> string" where
  "customSupervisedBindingDigestV2 sha b = ''sha256:'' @ sha (customSupervisedBindingBytesV2 b)"

text \<open>\<open>String.prototype.str_includes\<close>\<close>

fun str_includes :: "string \<Rightarrow> string \<Rightarrow> bool" where
  "str_includes [] t = (t = [])"
| "str_includes (c # s) t = (take (length t) (c # s) = t \<or> str_includes s t)"

text \<open>\<open>keys\<close> are the own keys of the run-time object; the structural guard looks at them.\<close>

definition assertNeutralCustomBinding :: "string list \<Rightarrow> MordantCustomSupervisedBindingV2 \<Rightarrow> unit result" where
  "assertNeutralCustomBinding keys b =
     (let encoded = customSupervisedBindingBytesV2 b
      in ebind (check (''productScenario'' \<notin> set keys) ProtectionBindingError) (\<lambda>_.
         ebind (check (cb_executionVariant b = CUSTOM_SUPERVISED_EXECUTION_VARIANT) ProtectionBindingError) (\<lambda>_.
         check (\<not> str_includes encoded (json_quote ''conflict'') \<and> \<not> str_includes encoded (json_quote ''no-conflict''))
           ProtectionBindingError)))"

definition customBindingFromCase :: "MordantProtectionCase \<Rightarrow> MordantCustomSupervisedBindingV2" where
  "customBindingFromCase c = \<lparr>
     cb_schemaVersion = ''mordant.protection-binding/2'',
     cb_cleanverseAssetRecordDigest = pc_cleanverseAssetDigest c,
     cb_protectionService = pc_service c,
     cb_protectionServiceVersion = pc_serviceVersion c,
     cb_policyId = pc_policyId c,
     cb_policyVersion = pc_policyVersion c,
     cb_fixtureClassification = PROTECTION_FIXTURE_CLASSIFICATION,
     cb_protectedAmount = pc_protectedAmount c,
     cb_reserveBasisPoints = rt_basisPoints (pc_reserve c),
     cb_reserveAmount = \<lparr>am_asset = ''aUSDC'', am_minorUnits = rt_minorUnits (pc_reserve c)\<rparr>,
     cb_holderRecordDate = pc_holderRecordDate c,
     cb_holderSnapshot = pc_holderSnapshot c,
     cb_holderAllocationDigest = pc_holderAllocationDigest c,
     cb_caseNonce = pc_caseNonce c,
     cb_fheCaseId = pc_fheCaseId c,
     cb_governedReleaseMode = pc_releaseMode c,
     cb_executionVariant = CUSTOM_SUPERVISED_EXECUTION_VARIANT\<rparr>"

subsection \<open>Properties of asset, case and binding\<close>

lemma if_swap_eq: "(if d \<noteq> e then x else f d) = (if d = e then f e else x)"
  by simp

lemma asset_digest_canonical:
  "cleanverseAssetRecordDigest sha r = CANONICAL_CLEANVERSE_ASSET_DIGEST sha \<longleftrightarrow>
     sort_members (asset_json r) = sort_members (asset_json CANONICAL_CLEANVERSE_ASSET_RECORD)
     \<or> collides sha (digest_text ''MordantCleanverseAssetRecord/v2'' (asset_json r))
          (digest_text ''MordantCleanverseAssetRecord/v2'' (asset_json CANONICAL_CLEANVERSE_ASSET_RECORD))"
  unfolding CANONICAL_CLEANVERSE_ASSET_DIGEST_def cleanverseAssetRecordDigest_def
  by (rule sha256Digest_same_domain)

text \<open>The asset gate accepts a record exactly when it is the canonical record up to the order of
  members, or its digest text is an explicit SHA-256 collision with the canonical one; on acceptance it
  returns the canonical digest and otherwise it throws the asset binding error.\<close>

theorem asset_gate_exact:
  "assertCanonicalCleanverseAssetRecord sha r =
     (if sort_members (asset_json r) = sort_members (asset_json CANONICAL_CLEANVERSE_ASSET_RECORD)
         \<or> collides sha (digest_text ''MordantCleanverseAssetRecord/v2'' (asset_json r))
              (digest_text ''MordantCleanverseAssetRecord/v2'' (asset_json CANONICAL_CLEANVERSE_ASSET_RECORD))
      then Inr (CANONICAL_CLEANVERSE_ASSET_DIGEST sha) else Inl CleanverseAssetBindingError)"
proof -
  have "assertCanonicalCleanverseAssetRecord sha r =
      (if cleanverseAssetRecordDigest sha r = CANONICAL_CLEANVERSE_ASSET_DIGEST sha
       then Inr (CANONICAL_CLEANVERSE_ASSET_DIGEST sha) else Inl CleanverseAssetBindingError)"
    unfolding assertCanonicalCleanverseAssetRecord_def Let_def by (rule if_swap_eq)
  also note asset_digest_canonical
  finally show ?thesis .
qed

lemma createProtectionCase_cases:
  assumes "createProtectionCase sha opts = Inr c"
  obtains asset at assetDigest where
    "assertCanonicalCleanverseAssetRecord sha asset = Inr assetDigest"
    "co_createdAt opts = Some at" "16 \<le> length (co_caseNonce opts)"
    "c = protection_case_literal sha opts asset assetDigest at"
  using assms unfolding createProtectionCase_def Let_def
  by (auto simp: ebind_eq_Inr split: option.splits if_splits)

text \<open>The asset gate returns only the canonical digest.\<close>

lemma asset_gate_digest:
  "assertCanonicalCleanverseAssetRecord sha r = Inr d \<Longrightarrow> d = CANONICAL_CLEANVERSE_ASSET_DIGEST sha"
  unfolding assertCanonicalCleanverseAssetRecord_def Let_def by (simp split: if_splits)

lemmas case_literal = protection_case_literal_def Let_def

text \<open>A concrete creation, fixture or custom, of the canonical asset.\<close>

definition sample_options :: "bool \<Rightarrow> CreateCaseOptions" where
  "sample_options custom = \<lparr>co_scenario = ScenarioConflict, co_createdAt = Some 1785000000000,
     co_caseNonce = ''0123456789abcdef'', co_releaseMode = None, co_assetRecord = None, co_custom = custom\<rparr>"

definition sample_case :: "(string \<Rightarrow> string) \<Rightarrow> bool \<Rightarrow> MordantProtectionCase" where
  "sample_case sha custom = protection_case_literal sha (sample_options custom) CANONICAL_CLEANVERSE_ASSET_RECORD
     (CANONICAL_CLEANVERSE_ASSET_DIGEST sha) 1785000000000"

lemma asset_gate_canonical [simp]:
  "assertCanonicalCleanverseAssetRecord sha CANONICAL_CLEANVERSE_ASSET_RECORD = Inr (CANONICAL_CLEANVERSE_ASSET_DIGEST sha)"
  by (simp add: assertCanonicalCleanverseAssetRecord_def CANONICAL_CLEANVERSE_ASSET_DIGEST_def)

lemma sample_created: "createProtectionCase sha (sample_options custom) = Inr (sample_case sha custom)"
  by (simp add: createProtectionCase_def sample_options_def sample_case_def MIN_TIME_VALUE_def)

text \<open>Whatever fixed-fixture case the constructor returns, the binding derived from it passes the
  derivation check that participants run before signing: the constructor and the verifier agree on
  every derived identifier.\<close>

theorem created_case_binding_verifies:
  assumes "createProtectionCase sha opts = Inr c" and "\<not> co_custom opts"
    and "co_releaseMode opts \<in> {None, Some GOVERNED_RELEASE_MODE, Some COALITION_RELEASE_MODE}"
  shows "assertProtectionBindingDerivations sha (protectionBindingFromCase c) = Inr ()"
proof -
  obtain asset at d where "c = protection_case_literal sha opts asset d at"
    using assms(1) by (rule createProtectionCase_cases)
  with assms(2,3) show ?thesis
    by (auto simp: case_literal assertProtectionBindingDerivations_def protectionBindingFromCase_def)
qed

theorem created_case_binding_verifies_witness:
  "assertProtectionBindingDerivations zero_sha (protectionBindingFromCase (sample_case zero_sha False)) = Inr ()"
  by (rule created_case_binding_verifies [OF sample_created]) (simp_all add: sample_options_def)

text \<open>C7: A custom supervised case commits to nothing about the expected outcome: two creations that
  differ only in the scenario argument get the same case identity, the same neutral binding text and
  the same binding digest.\<close>

theorem custom_case_is_outcome_neutral:
  assumes "createProtectionCase sha opts = Inr c" and "co_custom opts"
    and "createProtectionCase sha (opts\<lparr>co_scenario := other\<rparr>) = Inr c'"
  shows "pc_fheCaseId c' = pc_fheCaseId c \<and> customBindingFromCase c' = customBindingFromCase c
     \<and> customSupervisedBindingDigestV2 sha (customBindingFromCase c')
         = customSupervisedBindingDigestV2 sha (customBindingFromCase c)"
proof -
  obtain asset at d where c: "c = protection_case_literal sha opts asset d at"
      and d: "d = CANONICAL_CLEANVERSE_ASSET_DIGEST sha" and at: "co_createdAt opts = Some at"
    using assms(1) asset_gate_digest by (metis createProtectionCase_cases)
  obtain asset' at' d' where c': "c' = protection_case_literal sha (opts\<lparr>co_scenario := other\<rparr>) asset' d' at'"
      and d': "d' = CANONICAL_CLEANVERSE_ASSET_DIGEST sha" and at': "co_createdAt (opts\<lparr>co_scenario := other\<rparr>) = Some at'"
    using assms(3) asset_gate_digest by (metis createProtectionCase_cases)
  have "customBindingFromCase c' = customBindingFromCase c \<and> pc_fheCaseId c' = pc_fheCaseId c"
    using assms(2) at at' unfolding c c' d d'
    by (simp add: case_literal customBindingFromCase_def)
  then show ?thesis by simp
qed

theorem custom_case_is_outcome_neutral_witness:
  "\<exists>c'. createProtectionCase zero_sha ((sample_options True)\<lparr>co_scenario := ScenarioNoConflict\<rparr>) = Inr c'
     \<and> pc_fheCaseId c' = pc_fheCaseId (sample_case zero_sha True)
     \<and> customBindingFromCase c' = customBindingFromCase (sample_case zero_sha True)"
proof -
  have "createProtectionCase zero_sha ((sample_options True)\<lparr>co_scenario := ScenarioNoConflict\<rparr>) =
    Inr (protection_case_literal zero_sha ((sample_options True)\<lparr>co_scenario := ScenarioNoConflict\<rparr>)
      CANONICAL_CLEANVERSE_ASSET_RECORD (CANONICAL_CLEANVERSE_ASSET_DIGEST zero_sha) 1785000000000)"
    by (simp add: createProtectionCase_def sample_options_def MIN_TIME_VALUE_def)
  with custom_case_is_outcome_neutral [OF sample_created _ this] show ?thesis
    by (simp add: sample_options_def)
qed

lemma fhe_domains_differ:
  "digest_text ''MordantProtectionFHECase/v1'' v \<noteq> digest_text ''MordantProtectionFHECase/v2'' w"
  by (rule domain_separation) simp_all

text \<open>The identity of a custom case is separated from the fixture identities: the derivation check
  of the fixture product rejects the binding of a custom case, unless the two case texts are an explicit
  SHA-256 collision.\<close>

theorem custom_case_rejected_by_fixture_check:
  assumes "createProtectionCase sha opts = Inr c" and "co_custom opts"
    and "\<not> collides sha
      (digest_text ''MordantProtectionFHECase/v1'' (fhe_case_json (pc_cleanverseAssetDigest c)
         (scenario_name (pc_productScenario c)) (pc_caseNonce c) (pc_policyId c) (pc_holderAllocationDigest c)))
      (digest_text ''MordantProtectionFHECase/v2'' (custom_case_json (pc_cleanverseAssetDigest c) (pc_caseNonce c)
         (pc_holderAllocationDigest c) (pc_policyId c)))"
  shows "assertProtectionBindingDerivations sha (protectionBindingFromCase c) = Inl ProtectionBindingError"
proof -
  obtain asset at d where c: "c = protection_case_literal sha opts asset d at"
    using assms(1) by (rule createProtectionCase_cases)
  have id: "pc_fheCaseId c = customSupervisedFheCaseIdV2 sha (pc_cleanverseAssetDigest c) (pc_caseNonce c)
      (pc_holderAllocationDigest c) (pc_policyId c)"
    and alloc: "pc_holderAllocationDigest c = holderAllocationDigest sha (pc_cleanverseAssetDigest c)
      (pc_holderRecordDate c) (pc_holderSnapshot c)"
    using assms(2) unfolding c by (simp_all add: case_literal)
  then have "protectionFheCaseId sha (pc_cleanverseAssetDigest c) (scenario_name (pc_productScenario c))
      (pc_caseNonce c) (pc_policyId c) (pc_holderAllocationDigest c) \<noteq> pc_fheCaseId c"
    using assms(3) fhe_domains_differ
    by (simp add: customSupervisedFheCaseIdV2_def protectionFheCaseId_def sha256Digest_eq_iff collides_def)
  then show ?thesis
    using alloc by (simp add: assertProtectionBindingDerivations_def protectionBindingFromCase_def Let_def)
qed

theorem custom_case_rejected_by_fixture_check_witness:
  "assertProtectionBindingDerivations (\<lambda>x. x) (protectionBindingFromCase (sample_case (\<lambda>x. x) True))
     = Inl ProtectionBindingError"
  by (rule custom_case_rejected_by_fixture_check [OF sample_created])
    (simp_all add: sample_options_def collides_def)

subsection \<open>The timeline\<close>

definition timeline_numbered :: "MordantProtectionCase \<Rightarrow> bool" where
  "timeline_numbered c \<longleftrightarrow> map te_ordinal (pc_timeline c) = [1 ..< Suc (length (pc_timeline c))]"

lemma timeline_numbered_append:
  "timeline_numbered c \<Longrightarrow> timeline_numbered (appendProtectionEvent c e patch)"
  by (simp add: timeline_numbered_def appendProtectionEvent_def)

lemma timeline_numbered_created: "createProtectionCase sha opts = Inr c \<Longrightarrow> timeline_numbered c"
  by (erule createProtectionCase_cases) (simp add: timeline_numbered_def case_literal)

definition append_all :: "MordantProtectionCase \<Rightarrow> (ProtectionTimelineEvent \<times> CasePatch) list \<Rightarrow> MordantProtectionCase" where
  "append_all c es = fold (\<lambda>(e, patch) c. appendEventOnce c e patch) es c"

lemma appendEventOnce_kinds:
  "distinct (map te_kind (pc_timeline c)) \<Longrightarrow> distinct (map te_kind (pc_timeline (appendEventOnce c e patch)))"
  by (auto simp: appendEventOnce_def appendProtectionEvent_def list_ex_iff)

lemma appendEventOnce_frame:
  "pc_originalReceivable (appendEventOnce c e patch) = pc_originalReceivable c
   \<and> pc_reserve (appendEventOnce c e patch) = pc_reserve c
   \<and> protectionBindingFromCase (appendEventOnce c e patch) = protectionBindingFromCase c"
  by (simp add: appendEventOnce_def appendProtectionEvent_def protectionBindingFromCase_def)

lemma append_all_invariant:
  "timeline_numbered c \<Longrightarrow> distinct (map te_kind (pc_timeline c)) \<Longrightarrow>
     timeline_numbered (append_all c es) \<and> distinct (map te_kind (pc_timeline (append_all c es)))
     \<and> pc_originalReceivable (append_all c es) = pc_originalReceivable c
     \<and> protectionBindingFromCase (append_all c es) = protectionBindingFromCase c"
proof (induction es arbitrary: c)
  case Nil
  then show ?case by (simp add: append_all_def)
next
  case (Cons x es)
  obtain e patch where x: "x = (e, patch)" by (cases x)
  let ?c = "appendEventOnce c e patch"
  have "timeline_numbered ?c" using Cons.prems timeline_numbered_append by (simp add: appendEventOnce_def)
  moreover have "distinct (map te_kind (pc_timeline ?c))" using Cons.prems(2) by (rule appendEventOnce_kinds)
  ultimately show ?case using Cons.IH [of ?c] x appendEventOnce_frame [of c e patch] by (simp add: append_all_def)
qed

text \<open>However many events are recorded after creation, the timeline stays numbered 1, 2, 3 and so on
  without gaps, every kind occurs at most once, the original receivable is never touched and the binding
  the participants signed is unchanged.\<close>

theorem case_timeline_invariant:
  assumes "createProtectionCase sha opts = Inr c"
  shows "timeline_numbered (append_all c es) \<and> distinct (map te_kind (pc_timeline (append_all c es)))
     \<and> pc_originalReceivable (append_all c es) = pc_originalReceivable c
     \<and> protectionBindingFromCase (append_all c es) = protectionBindingFromCase c"
proof (rule append_all_invariant)
  show "timeline_numbered c" using assms by (rule timeline_numbered_created)
  show "distinct (map te_kind (pc_timeline c))"
    using assms by (rule createProtectionCase_cases) (simp add: case_literal)
qed

theorem case_timeline_invariant_witness:
  "timeline_numbered (append_all (sample_case zero_sha False)
     [(hd (pc_timeline (sample_case zero_sha False)), NO_PATCH),
      (hd (pc_timeline (sample_case zero_sha False))\<lparr>te_kind := ''PARTICIPANT_AUTHORIZED''\<rparr>, NO_PATCH)])"
  using case_timeline_invariant [OF sample_created] by blast

end
