(* ===== verification/Pledge_Windows.thy ===== *)
theory Pledge_Windows
  imports Canonical_Json
begin

text \<open>
  The private pledge windows of \<^verbatim>\<open>supervised-pledge-windows.ts\<close>: validation of a value of type
  \<open>unknown\<close> into a window, with no coercion. The \<open>role\<close> and \<open>label\<close> arguments of the source only occur
  in messages and are left out. The main result characterises the accepted values exactly.
\<close>

record SupervisedPledgeWindow =
  pw_activeFrom :: int
  pw_activeUntil :: int

record SupervisedPledgeWindows =
  pws_participantA :: SupervisedPledgeWindow
  pws_participantB :: SupervisedPledgeWindow

definition SUPERVISED_PLEDGE_MAX_INSTANT :: int where
  "SUPERVISED_PLEDGE_MAX_INSTANT = MAX_SAFE_INTEGER"

text \<open>The members of an object; a value that is not an object with these own keys has none.\<close>

fun plain_exactKeys :: "jsval \<Rightarrow> string list \<Rightarrow> bool" where
  "plain_exactKeys (VObject p kvs) expected = (p = ObjectPrototype \<and> sort (map fst kvs) = sort expected)"
| "plain_exactKeys v expected = False"

fun js_member :: "jsval \<Rightarrow> string \<Rightarrow> jsval" where
  "js_member (VObject p kvs) k = (case map_of kvs k of None \<Rightarrow> VUndefined | Some v \<Rightarrow> v)"
| "js_member v k = VUndefined"

fun own_keys :: "jsval \<Rightarrow> string list" where
  "own_keys (VObject p kvs) = map fst kvs"
| "own_keys v = []"

definition exactInstant :: "jsval \<Rightarrow> string \<Rightarrow> int result" where
  "exactInstant v code =
     (case v of
        VNumber (NInt i) \<Rightarrow>
          ebind (check (isSafeInteger i) (SupervisedPledgeWindowsError code)) (\<lambda>_.
          ebind (check (\<not> i < 0) (SupervisedPledgeWindowsError code)) (\<lambda>_.
          ebind (check (\<not> i > SUPERVISED_PLEDGE_MAX_INSTANT) (SupervisedPledgeWindowsError code)) (\<lambda>_. Inr i)))
      | _ \<Rightarrow> Inl (SupervisedPledgeWindowsError code))"

definition exactWindow :: "jsval \<Rightarrow> SupervisedPledgeWindow result" where
  "exactWindow v =
     ebind (check (plain_exactKeys v [''activeFrom'', ''activeUntil'']) (SupervisedPledgeWindowsError ''PLEDGE_WINDOW_FIELDS'')) (\<lambda>_.
     ebind (exactInstant (js_member v ''activeFrom'') ''PLEDGE_WINDOW_FROM'') (\<lambda>from.
     ebind (exactInstant (js_member v ''activeUntil'') ''PLEDGE_WINDOW_UNTIL'') (\<lambda>until.
     ebind (check (\<not> from \<ge> until) (SupervisedPledgeWindowsError ''PLEDGE_WINDOW_ORDER'')) (\<lambda>_.
     Inr \<lparr>pw_activeFrom = from, pw_activeUntil = until\<rparr>))))"

definition assertSupervisedPledgeWindow :: "jsval \<Rightarrow> SupervisedPledgeWindow result" where
  "assertSupervisedPledgeWindow v = exactWindow v"

definition assertSupervisedPledgeWindows :: "jsval \<Rightarrow> SupervisedPledgeWindows result" where
  "assertSupervisedPledgeWindows v =
     ebind (check (plain_exactKeys v [''participantA'', ''participantB'']) (SupervisedPledgeWindowsError ''PLEDGE_WINDOWS_FIELDS'')) (\<lambda>_.
     ebind (exactWindow (js_member v ''participantA'')) (\<lambda>a.
     ebind (exactWindow (js_member v ''participantB'')) (\<lambda>b.
     Inr \<lparr>pws_participantA = a, pws_participantB = b\<rparr>)))"

definition isSupervisedPledgeWindows :: "jsval \<Rightarrow> bool" where
  "isSupervisedPledgeWindows v = is_ok (assertSupervisedPledgeWindows v)"

subsection \<open>What is accepted\<close>

text \<open>A plain object with two members, in either order of insertion.\<close>

definition plain_pair :: "string \<Rightarrow> string \<Rightarrow> jsval \<Rightarrow> jsval \<Rightarrow> jsval set" where
  "plain_pair k l x y = {VObject ObjectPrototype [(k, x), (l, y)], VObject ObjectPrototype [(l, y), (k, x)]}"

definition window_bounds :: "SupervisedPledgeWindow \<Rightarrow> bool" where
  "window_bounds w \<longleftrightarrow> 0 \<le> pw_activeFrom w \<and> pw_activeFrom w < pw_activeUntil w \<and> pw_activeUntil w \<le> MAX_SAFE_INTEGER"

definition window_values :: "SupervisedPledgeWindow \<Rightarrow> jsval set" where
  "window_values w = plain_pair ''activeFrom'' ''activeUntil''
     (VNumber (NInt (pw_activeFrom w))) (VNumber (NInt (pw_activeUntil w)))"

lemma sort_pair_keys:
  assumes "sort (map fst kvs) = sort [k, l]" and "k \<noteq> l"
  shows "\<exists>x y. kvs = [(k, x), (l, y)] \<or> kvs = [(l, y), (k, x)]"
proof -
  have len: "length kvs = 2"
    using arg_cong [OF assms(1), of length] by (simp only: length_sort length_map) simp
  then obtain p q where kvs: "kvs = [p, q]"
    by (auto simp: length_Suc_conv numeral_2_eq_2)
  have "set (map fst kvs) = {k, l}"
    using arg_cong [OF assms(1), of set] by (simp only: set_sort) simp
  with kvs assms(2) have "fst p = k \<and> fst q = l \<or> fst p = l \<and> fst q = k" by auto
  with kvs show ?thesis by (cases p; cases q) auto
qed

lemma plain_exactKeys_pair:
  assumes "k \<noteq> l"
  shows "plain_exactKeys v [k, l] \<longleftrightarrow> (\<exists>x y. v \<in> plain_pair k l x y)"
proof
  assume "plain_exactKeys v [k, l]"
  then obtain kvs where v: "v = VObject ObjectPrototype kvs" and keys: "sort (map fst kvs) = sort [k, l]"
    by (cases "(v, [k, l])" rule: plain_exactKeys.cases) auto
  show "\<exists>x y. v \<in> plain_pair k l x y"
    using sort_pair_keys [OF keys assms] v by (auto simp: plain_pair_def)
next
  have "sort [l, k] = sort [k, l]" by (auto simp: sort_key_def)
  then show "\<exists>x y. v \<in> plain_pair k l x y \<Longrightarrow> plain_exactKeys v [k, l]"
    by (auto simp: plain_pair_def)
qed

lemma plain_pair_members:
  assumes "v \<in> plain_pair k l x y" and "k \<noteq> l"
  shows "js_member v k = x" and "js_member v l = y"
  using assms by (auto simp: plain_pair_def)

lemma exactInstant_Inr:
  "exactInstant v code = Inr i \<longleftrightarrow> v = VNumber (NInt i) \<and> 0 \<le> i \<and> i \<le> MAX_SAFE_INTEGER"
  by (auto simp: exactInstant_def isSafeInteger_def SUPERVISED_PLEDGE_MAX_INSTANT_def result_simps
      split: jsval.splits jsnum.splits)

lemma exactWindow_Inr: "exactWindow v = Inr w \<longleftrightarrow> v \<in> window_values w \<and> window_bounds w"
proof
  assume "exactWindow v = Inr w"
  then have keys: "plain_exactKeys v [''activeFrom'', ''activeUntil'']"
    and mem: "js_member v ''activeFrom'' = VNumber (NInt (pw_activeFrom w))"
      "js_member v ''activeUntil'' = VNumber (NInt (pw_activeUntil w))"
    and b: "window_bounds w"
    by (auto simp: exactWindow_def result_simps exactInstant_Inr window_bounds_def)
  from keys obtain x y where "v \<in> plain_pair ''activeFrom'' ''activeUntil'' x y"
    using plain_exactKeys_pair [of "''activeFrom''" "''activeUntil''"] by auto
  with mem b show "v \<in> window_values w \<and> window_bounds w"
    using plain_pair_members [of v "''activeFrom''" "''activeUntil''" x y] by (simp add: window_values_def)
next
  assume "v \<in> window_values w \<and> window_bounds w"
  then have v: "v \<in> plain_pair ''activeFrom'' ''activeUntil'' (VNumber (NInt (pw_activeFrom w))) (VNumber (NInt (pw_activeUntil w)))"
    and b: "window_bounds w" by (simp_all add: window_values_def)
  have "plain_exactKeys v [''activeFrom'', ''activeUntil'']"
    using v plain_exactKeys_pair [of "''activeFrom''" "''activeUntil''"] by auto
  with plain_pair_members [OF v] b show "exactWindow v = Inr w"
    by (auto simp: exactWindow_def result_simps exactInstant_Inr window_bounds_def)
qed

text \<open>The supervised pledge windows accepted by the product are exactly the plain two-member objects
  whose members are plain windows of whole instants with \<open>0 \<le> activeFrom < activeUntil \<le> 2^53 - 1\<close>; the
  returned windows are the entered numbers. No string, float, negative zero, extra field, missing field
  or foreign prototype is coerced into a window.\<close>

theorem pledge_windows_exact:
  "assertSupervisedPledgeWindows v = Inr w \<longleftrightarrow>
     (\<exists>a b. v \<in> plain_pair ''participantA'' ''participantB'' a b
        \<and> a \<in> window_values (pws_participantA w) \<and> window_bounds (pws_participantA w)
        \<and> b \<in> window_values (pws_participantB w) \<and> window_bounds (pws_participantB w))"
proof -
  let ?k = "''participantA''" and ?l = "''participantB''"
  have keys: "plain_exactKeys v [?k, ?l] \<longleftrightarrow> (\<exists>a b. v \<in> plain_pair ?k ?l a b)"
    by (rule plain_exactKeys_pair) simp
  have members: "js_member v ?k = a \<and> js_member v ?l = b" if "v \<in> plain_pair ?k ?l a b" for a b
    using plain_pair_members [OF that] by simp
  have "assertSupervisedPledgeWindows v = Inr w \<longleftrightarrow> plain_exactKeys v [?k, ?l]
      \<and> exactWindow (js_member v ?k) = Inr (pws_participantA w) \<and> exactWindow (js_member v ?l) = Inr (pws_participantB w)"
    by (auto simp: assertSupervisedPledgeWindows_def result_simps)
  with keys members show ?thesis by (auto simp: exactWindow_Inr)
qed

text \<open>The pair form is no laxer than the single-window form of the admission path, and conversely.\<close>

lemma pledge_windows_halves:
  assumes "assertSupervisedPledgeWindows v = Inr w"
  shows "assertSupervisedPledgeWindow (js_member v ''participantA'') = Inr (pws_participantA w)"
    and "assertSupervisedPledgeWindow (js_member v ''participantB'') = Inr (pws_participantB w)"
  using assms by (auto simp: assertSupervisedPledgeWindows_def assertSupervisedPledgeWindow_def result_simps)

lemma single_window_bounds:
  "assertSupervisedPledgeWindow v = Inr w \<Longrightarrow> window_bounds w"
  by (simp add: assertSupervisedPledgeWindow_def exactWindow_Inr)

end
