(* ===== verification/Governed_Result.thy ===== *)
theory Governed_Result
  imports Protection_Case Pledge_Windows
begin

text \<open>
  The governed signed result of \<^verbatim>\<open>protection-evidence.ts\<close>: its fixed-order text, its digest and the
  verification of the release authority's Ed25519 signature.

  Ed25519 verification is the parameter \<open>ed25519\<close> (public key, message, signature). A value that arrives
  as an object at run time is a \<open>jsobject\<close>: its prototype, its own keys and its members seen through the
  static type.
\<close>

record 'a jsobject =
  ob_proto :: proto
  ob_keys :: "string list"
  ob_view :: 'a

definition plain_object :: "string list \<Rightarrow> 'a \<Rightarrow> 'a jsobject" where
  "plain_object keys x = \<lparr>ob_proto = ObjectPrototype, ob_keys = keys, ob_view = x\<rparr>"

lemma plain_object_simps [simp]:
  "ob_proto (plain_object keys x) = ObjectPrototype" "ob_keys (plain_object keys x) = keys"
  "ob_view (plain_object keys x) = x"
  by (simp_all add: plain_object_def)

subsection \<open>Base64\<close>

definition BASE64_ALPHABET :: string where
  "BASE64_ALPHABET = ''ABCDEFGHIJKLMNOPQRSTUVWXYZabcdefghijklmnopqrstuvwxyz0123456789+/''"

abbreviation code_unit :: "char \<Rightarrow> nat" where
  "code_unit c \<equiv> of_char c"

definition sextet :: "nat \<Rightarrow> char" where
  "sextet n = BASE64_ALPHABET ! n"

text \<open>\<open>Buffer.prototype.toString("base64")\<close>, on bytes as code units.\<close>

fun base64_encode :: "string \<Rightarrow> string" where
  "base64_encode [] = []"
| "base64_encode [a] = [sextet (code_unit a div 4), sextet (code_unit a mod 4 * 16), CHR ''='', CHR ''='']"
| "base64_encode [a, b] = [sextet (code_unit a div 4), sextet (code_unit a mod 4 * 16 + code_unit b div 16),
     sextet (code_unit b mod 16 * 4), CHR ''='']"
| "base64_encode (a # b # c # s) = [sextet (code_unit a div 4), sextet (code_unit a mod 4 * 16 + code_unit b div 16),
     sextet (code_unit b mod 16 * 4 + code_unit c div 64), sextet (code_unit c mod 64)] @ base64_encode s"

fun index_from :: "nat \<Rightarrow> char \<Rightarrow> string \<Rightarrow> nat" where
  "index_from i c [] = i"
| "index_from i c (x # xs) = (if x = c then i else index_from (Suc i) c xs)"

definition sextet_value :: "char \<Rightarrow> nat" where
  "sextet_value c = index_from 0 c BASE64_ALPHABET"

text \<open>The decoder on canonical texts; whatever it returns on others does not encode back to the text.\<close>

fun base64_decode :: "string \<Rightarrow> string" where
  "base64_decode (a # b # c # d # s) =
     (if c = CHR ''='' \<and> d = CHR ''='' then [char_of (sextet_value a * 4 + sextet_value b div 16)]
      else if d = CHR ''='' then [char_of (sextet_value a * 4 + sextet_value b div 16),
        char_of (sextet_value b mod 16 * 16 + sextet_value c div 4)]
      else [char_of (sextet_value a * 4 + sextet_value b div 16),
        char_of (sextet_value b mod 16 * 16 + sextet_value c div 4),
        char_of (sextet_value c mod 4 * 64 + sextet_value d)] @ base64_decode s)"
| "base64_decode s = []"

lemma sextet_values: "map (\<lambda>n. sextet_value (sextet n)) [0..<64] = [0..<64]"
  by code_simp

lemma sextet_value_sextet: "n < 64 \<Longrightarrow> sextet_value (sextet n) = n"
  using arg_cong [OF sextet_values, of "\<lambda>xs. xs ! n"] by simp

lemma sextet_not_pad: "n < 64 \<Longrightarrow> sextet n \<noteq> CHR ''=''"
proof
  have pad: "sextet_value CHR ''='' = 64" by code_simp
  assume "n < 64" "sextet n = CHR ''=''"
  then show False using sextet_value_sextet [of n] pad by simp
qed

lemma code_unit_bound: "code_unit c < 256"
  using of_char_mod_256 [of c] by (metis mod_less_divisor zero_less_numeral)

lemma sextet_bounds:
  "code_unit c div 4 < 64" "code_unit c div 16 < 16" "code_unit c div 64 < 4"
  using code_unit_bound [of c] by (auto intro!: less_mult_imp_div_less)

lemma sextet_sum_bounds:
  "k < 16 \<Longrightarrow> m mod 4 * 16 + k < (64 :: nat)" "k < 4 \<Longrightarrow> m mod 16 * 4 + k < (64 :: nat)"
  "m mod 4 * 16 < (64 :: nat)" "m mod 16 * 4 < (64 :: nat)" "m mod 64 < (64 :: nat)"
  using mod_less_divisor [of 4 m] mod_less_divisor [of 16 m] mod_less_divisor [of 64 m] by linarith+

lemmas sextet_rules = sextet_value_sextet sextet_not_pad sextet_bounds sextet_sum_bounds

lemma pack_unpack:
  "k < 16 \<Longrightarrow> (m * 16 + k) div 16 = (m :: nat)" "k < 16 \<Longrightarrow> (m * 16 + k) mod 16 = (k :: nat)"
  "k < 4 \<Longrightarrow> (m * 4 + k) div 4 = (m :: nat)" "k < 4 \<Longrightarrow> (m * 4 + k) mod 4 = (k :: nat)"
  "m * 16 div 16 = (m :: nat)" "m * 4 div 4 = (m :: nat)"
  by simp_all

theorem base64_decode_encode: "base64_decode (base64_encode s) = s"
proof (induction s rule: base64_encode.induct)
  case (2 a)
  show ?case by (simp add: sextet_rules pack_unpack)
next
  case (3 a b)
  show ?case by (simp add: sextet_rules pack_unpack)
next
  case (4 a b c s)
  then show ?case by (simp add: sextet_rules pack_unpack)
qed simp

text \<open>The decoded bytes when there are \<open>n\<close> of them and they encode back to the text.\<close>

definition canonical_base64 :: "nat \<Rightarrow> string \<Rightarrow> string option" where
  "canonical_base64 n s = (let raw = base64_decode s
     in if length raw \<noteq> n \<or> base64_encode raw \<noteq> s then None else Some raw)"

lemma canonical_base64_iff: "canonical_base64 n s = Some raw \<longleftrightarrow> s = base64_encode raw \<and> length raw = n"
  unfolding canonical_base64_def Let_def using base64_decode_encode [of raw]
  by (cases "s = base64_encode raw") auto

subsection \<open>The governed result\<close>

record GovernedSignedResult =
  gr_schemaVersion :: string
  gr_caseId :: string
  gr_caseBindingDigest :: string
  gr_assetIdentity :: string
  gr_serviceId :: string
  gr_serviceVersion :: int
  gr_policyId :: string
  gr_policyVersion :: int
  gr_circuitId :: string
  gr_circuitVersion :: int
  gr_circuitDigest :: string
  gr_parameterProfile :: string
  gr_parameterFingerprint :: string
  gr_participantArtifactDigests :: "string list"
  gr_evaluatedArtifactDigest :: string
  gr_resultCiphertextDigest :: string
  gr_resultCiphertextCommitment :: string
  gr_conflict :: bool
  gr_releaseOrdinal :: int
  gr_releaseMode :: string
  gr_releaseAuthorityId :: string
  gr_releaseAuthorityPublicKey :: string
  gr_releasedAtUnix :: int
  gr_sourceProvenance :: string
  gr_signature :: string

definition governedResultValue :: "GovernedSignedResult \<Rightarrow> bool \<Rightarrow> json" where
  "governedResultValue r signing = JObj [
     (''schemaVersion'', JStr (gr_schemaVersion r)),
     (''caseId'', JStr (gr_caseId r)),
     (''caseBindingDigest'', JStr (gr_caseBindingDigest r)),
     (''assetIdentity'', JStr (gr_assetIdentity r)),
     (''serviceId'', JStr (gr_serviceId r)),
     (''serviceVersion'', JNum (gr_serviceVersion r)),
     (''policyId'', JStr (gr_policyId r)),
     (''policyVersion'', JNum (gr_policyVersion r)),
     (''circuitId'', JStr (gr_circuitId r)),
     (''circuitVersion'', JNum (gr_circuitVersion r)),
     (''circuitDigest'', JStr (gr_circuitDigest r)),
     (''parameterProfile'', JStr (gr_parameterProfile r)),
     (''parameterFingerprint'', JStr (gr_parameterFingerprint r)),
     (''participantArtifactDigests'', JArr (map JStr (gr_participantArtifactDigests r))),
     (''evaluatedArtifactDigest'', JStr (gr_evaluatedArtifactDigest r)),
     (''resultCiphertextDigest'', JStr (gr_resultCiphertextDigest r)),
     (''resultCiphertextCommitment'', JStr (gr_resultCiphertextCommitment r)),
     (''conflict'', JBool (gr_conflict r)),
     (''releaseOrdinal'', JNum (gr_releaseOrdinal r)),
     (''releaseMode'', JStr (gr_releaseMode r)),
     (''releaseAuthorityId'', JStr (gr_releaseAuthorityId r)),
     (''releaseAuthorityPublicKey'', JStr (gr_releaseAuthorityPublicKey r)),
     (''releasedAtUnix'', JNum (gr_releasedAtUnix r)),
     (''sourceProvenance'', JStr (gr_sourceProvenance r)),
     (''signature'', if signing then JNull else JStr (gr_signature r))]"

definition sha256Raw :: "(string \<Rightarrow> string) \<Rightarrow> string \<Rightarrow> string" where
  "sha256Raw sha t = ''sha256:'' @ sha t"

definition governedResultDigest :: "(string \<Rightarrow> string) \<Rightarrow> GovernedSignedResult \<Rightarrow> string" where
  "governedResultDigest sha r = sha256Raw sha (stringify (governedResultValue r False))"

definition evidence_exactKeys :: "'a jsobject \<Rightarrow> string list \<Rightarrow> string \<Rightarrow> unit result" where
  "evidence_exactKeys ob expected code =
     check (ob_proto ob = ObjectPrototype \<and> sort (ob_keys ob) = sort expected) (ProtectionEvidenceError code)"

definition verifyGoSignature ::
  "(string \<Rightarrow> string \<Rightarrow> string \<Rightarrow> bool) \<Rightarrow> string \<Rightarrow> string \<Rightarrow> json \<Rightarrow> string \<Rightarrow> string \<Rightarrow> unit result" where
  "verifyGoSignature ed25519 publicKey domain v signature code =
     (case canonical_base64 64 signature of
        None \<Rightarrow> Inl (ProtectionEvidenceError code)
      | Some decoded \<Rightarrow>
          (case canonical_base64 32 publicKey of
             None \<Rightarrow> Inl (ProtectionEvidenceError ''SIGNATURE_ENCODING'')
           | Some key \<Rightarrow> check (ed25519 key (domain @ [CHR 0x00] @ stringify v) decoded) (ProtectionEvidenceError code)))"

definition GOVERNED_RESULT_KEYS :: "string list" where
  "GOVERNED_RESULT_KEYS = [
     ''schemaVersion'', ''caseId'', ''caseBindingDigest'', ''assetIdentity'', ''serviceId'', ''serviceVersion'', ''policyId'',
     ''policyVersion'', ''circuitId'', ''circuitVersion'', ''circuitDigest'', ''parameterProfile'', ''parameterFingerprint'',
     ''participantArtifactDigests'', ''evaluatedArtifactDigest'', ''resultCiphertextDigest'', ''resultCiphertextCommitment'',
     ''conflict'', ''releaseOrdinal'', ''releaseMode'', ''releaseAuthorityId'', ''releaseAuthorityPublicKey'', ''releasedAtUnix'',
     ''sourceProvenance'', ''signature'']"

definition verifyGovernedResultSignature ::
  "(string \<Rightarrow> string \<Rightarrow> string \<Rightarrow> bool) \<Rightarrow> GovernedSignedResult jsobject \<Rightarrow> unit result" where
  "verifyGovernedResultSignature ed25519 ob =
     (let r = ob_view ob;
          expected = GOVERNED_RESULT_KEYS @ (if ''digest'' \<in> set (ob_keys ob) then [''digest''] else [])
      in ebind (evidence_exactKeys ob expected ''GOVERNED_RESULT_FIELDS'') (\<lambda>_.
         verifyGoSignature ed25519 (gr_releaseAuthorityPublicKey r) ''MordantGovernedConflictResult/v1''
           (governedResultValue r True) (gr_signature r) ''GOVERNED_RESULT_SIGNATURE''))"

subsection \<open>What the digest and the signature bind\<close>

lemma map_JStr_inj: "map JStr xs = map JStr ys \<longleftrightarrow> xs = ys"
  by (rule inj_map_eq_map) (simp add: inj_def)

lemma governedResultValue_inj: "governedResultValue r False = governedResultValue s False \<Longrightarrow> r = s"
  by (simp add: governedResultValue_def map_JStr_inj)

text \<open>The full text of a result determines the result: the digest is a commitment to all of it.\<close>

interpretation governed_result: commitment "\<lambda>r. stringify (governedResultValue r False)"
  by unfold_locales (metis stringify_inj governedResultValue_inj)

lemma governedResultDigest_eq_iff:
  "governedResultDigest sha r = governedResultDigest sha s \<longleftrightarrow>
     r = s \<or> collides sha (stringify (governedResultValue r False)) (stringify (governedResultValue s False))"
  using governed_result.binding [of sha r s] by (simp add: governedResultDigest_def sha256Raw_def)

text \<open>Two results with the same signed text differ at most in the signature itself.\<close>

lemma signed_text_binds:
  assumes "stringify (governedResultValue r True) = stringify (governedResultValue s True)"
  shows "r = s\<lparr>gr_signature := gr_signature r\<rparr>"
proof -
  from assms have "governedResultValue r True = governedResultValue s True" by (rule stringify_inj)
  then show ?thesis by (simp add: governedResultValue_def map_JStr_inj)
qed

lemma verifyGoSignature_ok:
  "verifyGoSignature ed25519 pk domain v sig code = Inr () \<longleftrightarrow>
     (\<exists>key raw. pk = base64_encode key \<and> length key = 32 \<and> sig = base64_encode raw \<and> length raw = 64
        \<and> ed25519 key (domain @ [CHR 0x00] @ stringify v) raw)"
proof -
  have "verifyGoSignature ed25519 pk domain v sig code = Inr () \<longleftrightarrow>
      (\<exists>key raw. canonical_base64 32 pk = Some key \<and> canonical_base64 64 sig = Some raw
         \<and> ed25519 key (domain @ [CHR 0x00] @ stringify v) raw)"
    by (simp add: verifyGoSignature_def check_eq_Inr split: option.splits)
  then show ?thesis by (simp only: canonical_base64_iff conj_assoc)
qed

lemma governedResultDigest_format: "hex_digest sha \<Longrightarrow> fixed_regex SHA256_LOWER (governedResultDigest sha r)"
  unfolding governedResultDigest_def sha256Raw_def by (rule hex_digest_regex)

end
