(* ===== verification/Recourse_Policy.thy ===== *)
theory Recourse_Policy
  imports Governed_Result
begin

text \<open>
  The governed recourse policy of \<^verbatim>\<open>governed-recourse-policy.ts\<close>: the committed policy, its selection
  before the result exists, the action plan a governed result selects, the operation authorization, the
  record of the operation's outcome and the evidence reference.

  A source type \<open>Omit<T, "hash">\<close> is a record and \<open>T\<close> its extension by the hash member, so \<open>truncate\<close>
  gives the body of a value. The hash of a body is a commitment to it (the interpretations of
  \<open>commitment\<close> below), which is what the verifiers rely on.
\<close>

subsection \<open>The policy\<close>

definition GOVERNED_RECOURSE_POLICY_SCHEMA :: string where
  "GOVERNED_RECOURSE_POLICY_SCHEMA = ''mordant.governed-recourse-policy/1''"

definition GOVERNED_RECOURSE_SELECTION_SCHEMA :: string where
  "GOVERNED_RECOURSE_SELECTION_SCHEMA = ''mordant.governed-recourse-policy-selection/1''"

definition GOVERNED_ACTION_PLAN_SCHEMA :: string where
  "GOVERNED_ACTION_PLAN_SCHEMA = ''mordant.governed-action-plan/1''"

definition GOVERNED_RECOURSE_OPERATION_AUTHORIZATION_SCHEMA :: string where
  "GOVERNED_RECOURSE_OPERATION_AUTHORIZATION_SCHEMA = ''mordant.governed-recourse-operation-authorization/1''"

definition GOVERNED_RECOURSE_OPERATION_RECORD_SCHEMA :: string where
  "GOVERNED_RECOURSE_OPERATION_RECORD_SCHEMA = ''mordant.governed-recourse-operation-record/1''"

definition GOVERNED_ACTION_EVIDENCE_SCHEMA :: string where
  "GOVERNED_ACTION_EVIDENCE_SCHEMA = ''mordant.governed-action-evidence-reference/1''"

definition GOVERNED_RECOURSE_POLICY_ID :: string where
  "GOVERNED_RECOURSE_POLICY_ID = ''mordant.managed-demo.facility-protection''"

definition GOVERNED_RECOURSE_POLICY_VERSION :: int where
  "GOVERNED_RECOURSE_POLICY_VERSION = 1"

definition FIRST_IMPLEMENTED_WORKFLOW_ID :: string where
  "FIRST_IMPLEMENTED_WORKFLOW_ID = ''mordant.conflicting-pledge-protection''"

definition GOVERNED_RESULT_EXCLUSIONS :: "string list" where
  "GOVERNED_RESULT_EXCLUSIONS = [''LEGAL_PRIORITY'', ''RESPONSIBILITY'', ''OWNERSHIP'', ''FRAUD'', ''DEFAULT'',
     ''PAYOUT_RECIPIENT'', ''PAYOUT_AMOUNT'', ''LEGALLY_CORRECT_ACTION'']"

record GovernedActionRule =
  ru_selectedGovernedAction :: string
  ru_actionOwner :: string
  ru_cureWindowSeconds :: "int option"
  ru_deadlineRule :: string
  ru_escalation :: string
  ru_requiredApproval :: string
  ru_actionClass :: string
  ru_settlementAuthorization :: string

definition opt_num :: "int option \<Rightarrow> json" where
  "opt_num x = (case x of None \<Rightarrow> JNull | Some n \<Rightarrow> JNum n)"

lemma opt_num_inj [simp]: "opt_num x = opt_num y \<longleftrightarrow> x = y"
  by (auto simp: opt_num_def split: option.splits)

lemma sort_members_opt_num [simp]: "sort_members (opt_num x) = opt_num x"
  by (simp add: opt_num_def split: option.splits)

definition rule_json :: "GovernedActionRule \<Rightarrow> json" where
  "rule_json r = JObj [
     (''selectedGovernedAction'', JStr (ru_selectedGovernedAction r)), (''actionOwner'', JStr (ru_actionOwner r)),
     (''cureWindowSeconds'', opt_num (ru_cureWindowSeconds r)), (''deadlineRule'', JStr (ru_deadlineRule r)),
     (''escalation'', JStr (ru_escalation r)), (''requiredApproval'', JStr (ru_requiredApproval r)),
     (''actionClass'', JStr (ru_actionClass r)), (''settlementAuthorization'', JStr (ru_settlementAuthorization r))]"

definition conflict_rule :: GovernedActionRule where
  "conflict_rule = \<lparr>
     ru_selectedGovernedAction = ''OPEN_LOCAL_CURE_PATH'', ru_actionOwner = ''MORDANT_MANAGED_EXECUTION'',
     ru_cureWindowSeconds = Some 86400, ru_deadlineRule = ''STARTS_WHEN_LOCAL_CURE_PATH_OPENS'',
     ru_escalation = ''MANUAL_REVIEW_OUTSIDE_MANAGED_RUN'', ru_requiredApproval = ''NONE_FOR_LOCAL_PROTOCOL_DOUBLE'',
     ru_actionClass = ''LOCAL_PROTOCOL_DOUBLE'', ru_settlementAuthorization = ''NOT_AUTHORIZED''\<rparr>"

definition noConflict_rule :: GovernedActionRule where
  "noConflict_rule = \<lparr>
     ru_selectedGovernedAction = ''RECORD_AND_CLOSE'', ru_actionOwner = ''MORDANT_MANAGED_EXECUTION'',
     ru_cureWindowSeconds = None, ru_deadlineRule = ''NOT_APPLICABLE'',
     ru_escalation = ''NONE'', ru_requiredApproval = ''NONE_FOR_LOCAL_PROTOCOL_DOUBLE'',
     ru_actionClass = ''EVIDENCE_ONLY'', ru_settlementAuthorization = ''NOT_AUTHORIZED''\<rparr>"

definition POLICY_BODY :: "(string \<Rightarrow> string) \<Rightarrow> json" where
  "POLICY_BODY sha = JObj [
     (''schemaVersion'', JStr GOVERNED_RECOURSE_POLICY_SCHEMA),
     (''policyId'', JStr GOVERNED_RECOURSE_POLICY_ID),
     (''policyVersion'', JNum GOVERNED_RECOURSE_POLICY_VERSION),
     (''workflow'', JObj [(''workflowId'', JStr FIRST_IMPLEMENTED_WORKFLOW_ID),
        (''label'', JStr ''Conflicting Pledge Protection''), (''productPosition'', JStr ''FIRST_IMPLEMENTED_WORKFLOW'')]),
     (''governedResultContract'', JObj [(''schemaVersion'', JStr ''mordant.governed-conflict-result/1''),
        (''serviceId'', JStr ''mordant.private-pledge-matching''), (''serviceVersion'', JNum 1),
        (''resultPolicyId'', JStr (protectionPolicyId sha)), (''resultPolicyVersion'', JNum PROTECTION_POLICY_VERSION),
        (''establishesOnly'', JArr [JStr ''CONFLICT'', JStr ''NO_CONFLICT'']),
        (''doesNotEstablish'', JArr (map JStr GOVERNED_RESULT_EXCLUSIONS))]),
     (''conflict'', rule_json conflict_rule),
     (''noConflict'', rule_json noConflict_rule)]"

definition governedRecoursePolicyHash :: "(string \<Rightarrow> string) \<Rightarrow> string" where
  "governedRecoursePolicyHash sha = sha256Digest sha ''MordantGovernedRecoursePolicy/v1'' (POLICY_BODY sha)"

subsection \<open>Shared checks\<close>

definition policy_error :: "string \<Rightarrow> merror" where
  "policy_error code = GovernedRecoursePolicyError code"

definition positiveUnix :: "int \<Rightarrow> int result" where
  "positiveUnix n = (if \<not> isSafeInteger n \<or> n \<le> 0 then Inl (policy_error ''TIME'') else Inr n)"

definition exactKeys :: "string list \<Rightarrow> string list \<Rightarrow> string \<Rightarrow> unit result" where
  "exactKeys actual expected code = check (sort actual = sort expected) (policy_error code)"

definition digest :: "string \<Rightarrow> string result" where
  "digest s = (if \<not> fixed_regex SHA256_LOWER s then Inl (policy_error ''DIGEST'') else Inr s)"

lemma positiveUnix_ok [result_simps]: "positiveUnix n = Inr m \<longleftrightarrow> m = n \<and> 0 < n \<and> n \<le> MAX_SAFE_INTEGER"
  by (auto simp: positiveUnix_def isSafeInteger_def)

lemma digest_ok [result_simps]: "digest s = Inr t \<longleftrightarrow> t = s \<and> fixed_regex SHA256_LOWER s"
  by (auto simp: digest_def)

lemma exactKeys_ok [result_simps]: "exactKeys ks es code = Inr u \<longleftrightarrow> sort ks = sort es"
  by (simp add: exactKeys_def check_eq_Inr)

subsection \<open>Selection of the policy\<close>

record GovernedRecoursePolicySelectionBody =
  gs_schemaVersion :: string
  gs_policyId :: string
  gs_policyVersion :: int
  gs_policyHash :: string
  gs_caseId :: string
  gs_resultPolicyId :: string
  gs_resultPolicyVersion :: int
  gs_selectedAtUnix :: int

record GovernedRecoursePolicySelection = GovernedRecoursePolicySelectionBody +
  gs_selectionHash :: string

definition selection_json :: "GovernedRecoursePolicySelectionBody \<Rightarrow> json" where
  "selection_json b = JObj [
     (''schemaVersion'', JStr (gs_schemaVersion b)), (''policyId'', JStr (gs_policyId b)),
     (''policyVersion'', JNum (gs_policyVersion b)), (''policyHash'', JStr (gs_policyHash b)),
     (''caseId'', JStr (gs_caseId b)), (''resultPolicyId'', JStr (gs_resultPolicyId b)),
     (''resultPolicyVersion'', JNum (gs_resultPolicyVersion b)), (''selectedAtUnix'', JNum (gs_selectedAtUnix b))]"

definition selectionHash :: "(string \<Rightarrow> string) \<Rightarrow> GovernedRecoursePolicySelectionBody \<Rightarrow> string" where
  "selectionHash sha b = sha256Digest sha ''MordantGovernedRecoursePolicySelection/v1'' (selection_json b)"

definition SELECTION_KEYS :: "string list" where
  "SELECTION_KEYS = [''schemaVersion'', ''policyId'', ''policyVersion'', ''policyHash'', ''caseId'', ''resultPolicyId'',
     ''resultPolicyVersion'', ''selectedAtUnix'', ''selectionHash'']"

definition selectManagedDemoGovernedRecoursePolicy ::
  "(string \<Rightarrow> string) \<Rightarrow> string \<Rightarrow> string \<Rightarrow> int \<Rightarrow> int \<Rightarrow> GovernedRecoursePolicySelection result" where
  "selectManagedDemoGovernedRecoursePolicy sha caseId resultPolicyId resultPolicyVersion selectedAtUnix =
     ebind (digest caseId) (\<lambda>cid. ebind (digest resultPolicyId) (\<lambda>rid. ebind (positiveUnix selectedAtUnix) (\<lambda>at.
       let body = \<lparr>gs_schemaVersion = GOVERNED_RECOURSE_SELECTION_SCHEMA,
             gs_policyId = GOVERNED_RECOURSE_POLICY_ID, gs_policyVersion = GOVERNED_RECOURSE_POLICY_VERSION,
             gs_policyHash = governedRecoursePolicyHash sha, gs_caseId = cid, gs_resultPolicyId = rid,
             gs_resultPolicyVersion = resultPolicyVersion, gs_selectedAtUnix = at\<rparr>
       in ebind (check (\<not> (gs_resultPolicyId body \<noteq> protectionPolicyId sha
                   \<or> gs_resultPolicyVersion body \<noteq> PROTECTION_POLICY_VERSION)) (policy_error ''RESULT_POLICY_BINDING'')) (\<lambda>_.
          Inr (GovernedRecoursePolicySelectionBody.extend body
                 (GovernedRecoursePolicySelection.fields (selectionHash sha body)))))))"

definition verifyManagedDemoGovernedRecoursePolicySelection ::
  "(string \<Rightarrow> string) \<Rightarrow> GovernedRecoursePolicySelection jsobject \<Rightarrow> unit result" where
  "verifyManagedDemoGovernedRecoursePolicySelection sha ob =
     (let selection = ob_view ob; body = GovernedRecoursePolicySelectionBody.truncate selection
      in ebind (exactKeys (ob_keys ob) SELECTION_KEYS ''SELECTION_FIELDS'') (\<lambda>_.
         ebind (digest (gs_caseId selection)) (\<lambda>_. ebind (digest (gs_resultPolicyId selection)) (\<lambda>_.
         ebind (positiveUnix (gs_selectedAtUnix selection)) (\<lambda>_.
         check (\<not> (gs_schemaVersion body \<noteq> GOVERNED_RECOURSE_SELECTION_SCHEMA
             \<or> gs_policyId body \<noteq> GOVERNED_RECOURSE_POLICY_ID
             \<or> gs_policyVersion body \<noteq> GOVERNED_RECOURSE_POLICY_VERSION
             \<or> gs_policyHash body \<noteq> governedRecoursePolicyHash sha
             \<or> gs_resultPolicyId body \<noteq> protectionPolicyId sha
             \<or> gs_resultPolicyVersion body \<noteq> PROTECTION_POLICY_VERSION
             \<or> gs_selectionHash selection \<noteq> selectionHash sha body)) (policy_error ''SELECTION''))))))"

subsection \<open>The action plan\<close>

record GovernedActionPlanBody =
  gp_schemaVersion :: string
  gp_policyId :: string
  gp_policyVersion :: int
  gp_policyHash :: string
  gp_policySelectionHash :: string
  gp_resultDigest :: string
  gp_resultOutcome :: string
  gp_resultSemantic :: string
  gp_selectedGovernedAction :: string
  gp_actionOwner :: string
  gp_cureWindowSeconds :: "int option"
  gp_deadlineRule :: string
  gp_escalation :: string
  gp_requiredApproval :: string
  gp_actionClass :: string
  gp_settlementAuthorization :: string

record GovernedActionPlan = GovernedActionPlanBody +
  gp_planHash :: string

definition plan_json :: "GovernedActionPlanBody \<Rightarrow> json" where
  "plan_json b = JObj [
     (''schemaVersion'', JStr (gp_schemaVersion b)), (''policyId'', JStr (gp_policyId b)),
     (''policyVersion'', JNum (gp_policyVersion b)), (''policyHash'', JStr (gp_policyHash b)),
     (''policySelectionHash'', JStr (gp_policySelectionHash b)), (''resultDigest'', JStr (gp_resultDigest b)),
     (''resultOutcome'', JStr (gp_resultOutcome b)), (''resultSemantic'', JStr (gp_resultSemantic b)),
     (''selectedGovernedAction'', JStr (gp_selectedGovernedAction b)), (''actionOwner'', JStr (gp_actionOwner b)),
     (''cureWindowSeconds'', opt_num (gp_cureWindowSeconds b)), (''deadlineRule'', JStr (gp_deadlineRule b)),
     (''escalation'', JStr (gp_escalation b)), (''requiredApproval'', JStr (gp_requiredApproval b)),
     (''actionClass'', JStr (gp_actionClass b)), (''settlementAuthorization'', JStr (gp_settlementAuthorization b))]"

definition planHash :: "(string \<Rightarrow> string) \<Rightarrow> GovernedActionPlanBody \<Rightarrow> string" where
  "planHash sha b = sha256Digest sha ''MordantGovernedActionPlan/v1'' (plan_json b)"

definition PLAN_KEYS :: "string list" where
  "PLAN_KEYS = [''schemaVersion'', ''policyId'', ''policyVersion'', ''policyHash'', ''policySelectionHash'', ''resultDigest'',
     ''resultOutcome'', ''resultSemantic'', ''selectedGovernedAction'', ''actionOwner'', ''cureWindowSeconds'',
     ''deadlineRule'', ''escalation'', ''requiredApproval'', ''actionClass'', ''settlementAuthorization'', ''planHash'']"

definition rule_of_outcome :: "string \<Rightarrow> GovernedActionRule option" where
  "rule_of_outcome outcome =
     (if outcome = ''CONFLICT'' then Some conflict_rule
      else if outcome = ''NO_CONFLICT'' then Some noConflict_rule else None)"

definition verifyManagedDemoGovernedActionPlan :: "(string \<Rightarrow> string) \<Rightarrow> GovernedActionPlan jsobject \<Rightarrow> unit result" where
  "verifyManagedDemoGovernedActionPlan sha ob =
     (let plan = ob_view ob; body = GovernedActionPlanBody.truncate plan
      in ebind (exactKeys (ob_keys ob) PLAN_KEYS ''PLAN_FIELDS'') (\<lambda>_.
         ebind (digest (gp_policySelectionHash plan)) (\<lambda>_. ebind (digest (gp_resultDigest plan)) (\<lambda>_.
         case rule_of_outcome (gp_resultOutcome plan) of
           None \<Rightarrow> Inl (policy_error ''PLAN'')
         | Some rule \<Rightarrow> check (\<not> (gp_schemaVersion body \<noteq> GOVERNED_ACTION_PLAN_SCHEMA
             \<or> gp_policyId body \<noteq> GOVERNED_RECOURSE_POLICY_ID \<or> gp_policyVersion body \<noteq> GOVERNED_RECOURSE_POLICY_VERSION
             \<or> gp_policyHash body \<noteq> governedRecoursePolicyHash sha
             \<or> gp_resultSemantic body \<noteq> ''CONFLICT_STATUS_ONLY''
             \<or> gp_selectedGovernedAction body \<noteq> ru_selectedGovernedAction rule \<or> gp_actionOwner body \<noteq> ru_actionOwner rule
             \<or> gp_cureWindowSeconds body \<noteq> ru_cureWindowSeconds rule \<or> gp_deadlineRule body \<noteq> ru_deadlineRule rule
             \<or> gp_escalation body \<noteq> ru_escalation rule \<or> gp_requiredApproval body \<noteq> ru_requiredApproval rule
             \<or> gp_actionClass body \<noteq> ru_actionClass rule \<or> gp_settlementAuthorization body \<noteq> ''NOT_AUTHORIZED''
             \<or> gp_planHash plan \<noteq> planHash sha body)) (policy_error ''PLAN'')))))"

definition evaluateManagedDemoGovernedRecoursePolicy ::
  "(string \<Rightarrow> string) \<Rightarrow> (string \<Rightarrow> string \<Rightarrow> string \<Rightarrow> bool) \<Rightarrow> GovernedRecoursePolicySelection jsobject
     \<Rightarrow> GovernedSignedResult jsobject \<Rightarrow> GovernedActionPlan result" where
  "evaluateManagedDemoGovernedRecoursePolicy sha ed25519 sob rob =
     ebind (verifyManagedDemoGovernedRecoursePolicySelection sha sob) (\<lambda>_.
     ebind (verifyGovernedResultSignature ed25519 rob) (\<lambda>_.
       let selection = ob_view sob; result = ob_view rob
       in ebind (check (\<not> (gr_schemaVersion result \<noteq> ''mordant.governed-conflict-result/1''
              \<or> gr_serviceId result \<noteq> ''mordant.private-pledge-matching''
              \<or> gr_serviceVersion result \<noteq> 1
              \<or> gr_caseId result \<noteq> gs_caseId selection
              \<or> gr_policyId result \<noteq> gs_resultPolicyId selection
              \<or> gr_policyVersion result \<noteq> gs_resultPolicyVersion selection)) (policy_error ''RESULT_BINDING'')) (\<lambda>_.
          ebind (check (\<not> gs_selectedAtUnix selection \<ge> gr_releasedAtUnix result) (policy_error ''POLICY_SHOPPING'')) (\<lambda>_.
            let rule = (if gr_conflict result then conflict_rule else noConflict_rule);
                body = \<lparr>gp_schemaVersion = GOVERNED_ACTION_PLAN_SCHEMA,
                  gp_policyId = gs_policyId selection,
                  gp_policyVersion = gs_policyVersion selection,
                  gp_policyHash = gs_policyHash selection,
                  gp_policySelectionHash = gs_selectionHash selection,
                  gp_resultDigest = governedResultDigest sha result,
                  gp_resultOutcome = (if gr_conflict result then ''CONFLICT'' else ''NO_CONFLICT''),
                  gp_resultSemantic = ''CONFLICT_STATUS_ONLY'',
                  gp_selectedGovernedAction = ru_selectedGovernedAction rule,
                  gp_actionOwner = ru_actionOwner rule,
                  gp_cureWindowSeconds = ru_cureWindowSeconds rule,
                  gp_deadlineRule = ru_deadlineRule rule,
                  gp_escalation = ru_escalation rule,
                  gp_requiredApproval = ru_requiredApproval rule,
                  gp_actionClass = ru_actionClass rule,
                  gp_settlementAuthorization = ru_settlementAuthorization rule\<rparr>
            in Inr (GovernedActionPlanBody.extend body (GovernedActionPlan.fields (planHash sha body)))))))"

subsection \<open>The operation authorization\<close>

record GovernedRecourseOperationAuthorizationBody =
  ga_schemaVersion :: string
  ga_caseId :: string
  ga_policySelectionHash :: string
  ga_planHash :: string
  ga_resultDigest :: string
  ga_selectedGovernedAction :: string
  ga_cureWindowSeconds :: "int option"
  ga_deadlineRule :: string
  ga_settlementAuthorization :: string

record GovernedRecourseOperationAuthorization = GovernedRecourseOperationAuthorizationBody +
  ga_authorizationHash :: string

definition authorization_json :: "GovernedRecourseOperationAuthorizationBody \<Rightarrow> json" where
  "authorization_json b = JObj [
     (''schemaVersion'', JStr (ga_schemaVersion b)), (''caseId'', JStr (ga_caseId b)),
     (''policySelectionHash'', JStr (ga_policySelectionHash b)), (''planHash'', JStr (ga_planHash b)),
     (''resultDigest'', JStr (ga_resultDigest b)), (''selectedGovernedAction'', JStr (ga_selectedGovernedAction b)),
     (''cureWindowSeconds'', opt_num (ga_cureWindowSeconds b)), (''deadlineRule'', JStr (ga_deadlineRule b)),
     (''settlementAuthorization'', JStr (ga_settlementAuthorization b))]"

definition operationAuthorizationHash :: "(string \<Rightarrow> string) \<Rightarrow> GovernedRecourseOperationAuthorizationBody \<Rightarrow> string" where
  "operationAuthorizationHash sha b =
     sha256Digest sha ''MordantGovernedRecourseOperationAuthorization/v1'' (authorization_json b)"

definition AUTHORIZATION_KEYS :: "string list" where
  "AUTHORIZATION_KEYS = [''schemaVersion'', ''caseId'', ''policySelectionHash'', ''planHash'', ''resultDigest'',
     ''selectedGovernedAction'', ''cureWindowSeconds'', ''deadlineRule'', ''settlementAuthorization'', ''authorizationHash'']"

definition authorizeManagedDemoGovernedRecourseOperation ::
  "(string \<Rightarrow> string) \<Rightarrow> GovernedRecoursePolicySelection jsobject \<Rightarrow> GovernedActionPlan jsobject
     \<Rightarrow> GovernedRecourseOperationAuthorization result" where
  "authorizeManagedDemoGovernedRecourseOperation sha sob pob =
     ebind (verifyManagedDemoGovernedRecoursePolicySelection sha sob) (\<lambda>_.
     ebind (verifyManagedDemoGovernedActionPlan sha pob) (\<lambda>_.
       let selection = ob_view sob; plan = ob_view pob
       in ebind (check (\<not> gp_policySelectionHash plan \<noteq> gs_selectionHash selection) (policy_error ''OPERATION_SELECTION'')) (\<lambda>_.
            let body = \<lparr>ga_schemaVersion = GOVERNED_RECOURSE_OPERATION_AUTHORIZATION_SCHEMA,
                  ga_caseId = gs_caseId selection,
                  ga_policySelectionHash = gs_selectionHash selection,
                  ga_planHash = gp_planHash plan,
                  ga_resultDigest = gp_resultDigest plan,
                  ga_selectedGovernedAction = gp_selectedGovernedAction plan,
                  ga_cureWindowSeconds = gp_cureWindowSeconds plan,
                  ga_deadlineRule = gp_deadlineRule plan,
                  ga_settlementAuthorization = ''NOT_AUTHORIZED''\<rparr>
            in Inr (GovernedRecourseOperationAuthorizationBody.extend body
                 (GovernedRecourseOperationAuthorization.fields (operationAuthorizationHash sha body))))))"

definition verifyManagedDemoGovernedRecourseOperationAuthorization ::
  "(string \<Rightarrow> string) \<Rightarrow> GovernedRecourseOperationAuthorization jsobject \<Rightarrow> GovernedRecoursePolicySelection jsobject
     \<Rightarrow> GovernedActionPlan jsobject \<Rightarrow> unit result" where
  "verifyManagedDemoGovernedRecourseOperationAuthorization sha aob sob pob =
     ebind (exactKeys (ob_keys aob) AUTHORIZATION_KEYS ''OPERATION_AUTHORIZATION_FIELDS'') (\<lambda>_.
     ebind (authorizeManagedDemoGovernedRecourseOperation sha sob pob) (\<lambda>expected.
       let a = ob_view aob
       in check (\<not> (ga_authorizationHash a \<noteq> ga_authorizationHash expected
          \<or> ga_schemaVersion a \<noteq> ga_schemaVersion expected
          \<or> ga_caseId a \<noteq> ga_caseId expected
          \<or> ga_policySelectionHash a \<noteq> ga_policySelectionHash expected
          \<or> ga_planHash a \<noteq> ga_planHash expected
          \<or> ga_resultDigest a \<noteq> ga_resultDigest expected
          \<or> ga_selectedGovernedAction a \<noteq> ga_selectedGovernedAction expected
          \<or> ga_cureWindowSeconds a \<noteq> ga_cureWindowSeconds expected
          \<or> ga_deadlineRule a \<noteq> ga_deadlineRule expected
          \<or> ga_settlementAuthorization a \<noteq> ''NOT_AUTHORIZED'')) (policy_error ''OPERATION_AUTHORIZATION'')))"

subsection \<open>The operation record\<close>

record GovernedRecourseOperationRecordBody =
  go_schemaVersion :: string
  go_operationId :: string
  go_operationParametersDigest :: string
  go_operationAuthorizationHash :: string
  go_policySelectionHash :: string
  go_planHash :: string
  go_resultDigest :: string
  go_selectedGovernedAction :: string
  go_operationOutcome :: string
  go_recourseOutcomeDigest :: string
  go_cureWindowSeconds :: "int option"
  go_cureStartedAtUnix :: "int option"
  go_cureDeadlineUnix :: "int option"
  go_settlementAuthorization :: string

record GovernedRecourseOperationRecord = GovernedRecourseOperationRecordBody +
  go_operationRecordHash :: string

definition operation_record_json :: "GovernedRecourseOperationRecordBody \<Rightarrow> json" where
  "operation_record_json b = JObj [
     (''schemaVersion'', JStr (go_schemaVersion b)), (''operationId'', JStr (go_operationId b)),
     (''operationParametersDigest'', JStr (go_operationParametersDigest b)),
     (''operationAuthorizationHash'', JStr (go_operationAuthorizationHash b)),
     (''policySelectionHash'', JStr (go_policySelectionHash b)), (''planHash'', JStr (go_planHash b)),
     (''resultDigest'', JStr (go_resultDigest b)), (''selectedGovernedAction'', JStr (go_selectedGovernedAction b)),
     (''operationOutcome'', JStr (go_operationOutcome b)), (''recourseOutcomeDigest'', JStr (go_recourseOutcomeDigest b)),
     (''cureWindowSeconds'', opt_num (go_cureWindowSeconds b)), (''cureStartedAtUnix'', opt_num (go_cureStartedAtUnix b)),
     (''cureDeadlineUnix'', opt_num (go_cureDeadlineUnix b)), (''settlementAuthorization'', JStr (go_settlementAuthorization b))]"

definition operationRecordHash :: "(string \<Rightarrow> string) \<Rightarrow> GovernedRecourseOperationRecordBody \<Rightarrow> string" where
  "operationRecordHash sha b = sha256Digest sha ''MordantGovernedRecourseOperationRecord/v1'' (operation_record_json b)"

definition operationId :: "string \<Rightarrow> string result" where
  "operationId s = (if \<not> fixed_regex UUID_PATTERN s then Inl (policy_error ''OPERATION_ID'') else Inr s)"

definition outcomeRecord :: "jsval \<Rightarrow> jsval result" where
  "outcomeRecord v = (case v of VObject p kvs \<Rightarrow> Inr v | _ \<Rightarrow> Inl (policy_error ''OPERATION_OUTCOME''))"

definition outcomeUnix :: "jsval \<Rightarrow> int result" where
  "outcomeUnix v = (case v of
     VNumber (NInt i) \<Rightarrow> if \<not> isSafeInteger i \<or> i \<le> 0 then Inl (policy_error ''CURE_WINDOW'') else Inr i
   | _ \<Rightarrow> Inl (policy_error ''CURE_WINDOW''))"

text \<open>
  The branch on the authorized action: the outcome name and the two cure instants. For an action that is
  none of the two known ones no branch is taken and the outcome stays \<open>undefined\<close>, modelled as \<open>None\<close>.
\<close>

definition operation_branch ::
  "GovernedRecourseOperationAuthorization \<Rightarrow> jsval \<Rightarrow> (string option \<times> int option \<times> int option) result" where
  "operation_branch authorization recourse =
     (if ga_selectedGovernedAction authorization = ''OPEN_LOCAL_CURE_PATH'' then
        ebind (exactKeys (own_keys recourse) [''opened'', ''record''] ''OPEN_LOCAL_CURE_PATH_OUTCOME'') (\<lambda>_.
        ebind (check (\<not> (js_member recourse ''opened'' \<noteq> VBool True
            \<or> ga_cureWindowSeconds authorization \<noteq> Some 86400
            \<or> ga_deadlineRule authorization \<noteq> ''STARTS_WHEN_LOCAL_CURE_PATH_OPENS'')) (policy_error ''CURE_WINDOW'')) (\<lambda>_.
        ebind (outcomeRecord (js_member recourse ''record'')) (\<lambda>record.
        ebind (check (\<not> (js_member record ''caseId'' \<noteq> VString (ga_caseId authorization)
            \<or> js_member record ''resultDigest'' \<noteq> VString (ga_resultDigest authorization)
            \<or> js_member record ''open'' \<noteq> VBool True)) (policy_error ''OPERATION_OUTCOME'')) (\<lambda>_.
        ebind (outcomeUnix (js_member record ''boundAtUnix'')) (\<lambda>started.
        ebind (outcomeUnix (js_member record ''cureDeadlineUnix'')) (\<lambda>deadline.
        ebind (check (\<not> Some (deadline - started) \<noteq> ga_cureWindowSeconds authorization) (policy_error ''CURE_WINDOW'')) (\<lambda>_.
        Inr (Some ''LOCAL_CURE_PATH_OPENED'', Some started, Some deadline))))))))
      else if ga_selectedGovernedAction authorization = ''RECORD_AND_CLOSE'' then
        ebind (exactKeys (own_keys recourse) [''opened'', ''reason''] ''RECORD_AND_CLOSE_OUTCOME'') (\<lambda>_.
        ebind (check (\<not> (js_member recourse ''opened'' \<noteq> VBool False
            \<or> js_member recourse ''reason'' \<noteq> VString ''SIGNED_RESULT_FALSE''
            \<or> ga_cureWindowSeconds authorization \<noteq> None
            \<or> ga_deadlineRule authorization \<noteq> ''NOT_APPLICABLE'')) (policy_error ''OPERATION_OUTCOME'')) (\<lambda>_.
        Inr (Some ''NO_CONFLICT_RECORDED_AND_CLOSED'', None, None)))
      else Inr (None, None, None))"

definition recordManagedDemoGovernedRecourseOperation ::
  "(string \<Rightarrow> string) \<Rightarrow> GovernedRecourseOperationAuthorization \<Rightarrow> string \<Rightarrow> string \<Rightarrow> jsval
     \<Rightarrow> GovernedRecourseOperationRecord result" where
  "recordManagedDemoGovernedRecourseOperation sha authorization opId parametersDigest recourse =
     ebind (digest parametersDigest) (\<lambda>_.
     ebind (operation_branch authorization recourse) (\<lambda>(outcome, started, deadline).
     ebind (operationId opId) (\<lambda>oid.
     ebind (sha256DigestStrict sha ''MordantGovernedRecourseOperationOutcome/v1'' recourse) (\<lambda>outcomeDigest.
     case outcome of
       None \<Rightarrow> Inl StrictJsonError
     | Some name \<Rightarrow>
         let body = \<lparr>go_schemaVersion = GOVERNED_RECOURSE_OPERATION_RECORD_SCHEMA,
               go_operationId = oid,
               go_operationParametersDigest = parametersDigest,
               go_operationAuthorizationHash = ga_authorizationHash authorization,
               go_policySelectionHash = ga_policySelectionHash authorization,
               go_planHash = ga_planHash authorization,
               go_resultDigest = ga_resultDigest authorization,
               go_selectedGovernedAction = ga_selectedGovernedAction authorization,
               go_operationOutcome = name,
               go_recourseOutcomeDigest = outcomeDigest,
               go_cureWindowSeconds = ga_cureWindowSeconds authorization,
               go_cureStartedAtUnix = started,
               go_cureDeadlineUnix = deadline,
               go_settlementAuthorization = ''NOT_AUTHORIZED''\<rparr>
         in Inr (GovernedRecourseOperationRecordBody.extend body
              (GovernedRecourseOperationRecord.fields (operationRecordHash sha body)))))))"

definition OPERATION_RECORD_KEYS :: "string list" where
  "OPERATION_RECORD_KEYS = [''schemaVersion'', ''operationId'', ''operationParametersDigest'', ''operationAuthorizationHash'',
     ''policySelectionHash'', ''planHash'', ''resultDigest'', ''selectedGovernedAction'', ''operationOutcome'',
     ''recourseOutcomeDigest'', ''cureWindowSeconds'', ''cureStartedAtUnix'', ''cureDeadlineUnix'',
     ''settlementAuthorization'', ''operationRecordHash'']"

definition conflict_record_shape :: "GovernedRecourseOperationRecordBody \<Rightarrow> bool result" where
  "conflict_record_shape b =
     (case (go_cureStartedAtUnix b, go_cureDeadlineUnix b) of
        (Some started, Some deadline) \<Rightarrow>
          if go_selectedGovernedAction b = ''OPEN_LOCAL_CURE_PATH'' \<and> go_operationOutcome b = ''LOCAL_CURE_PATH_OPENED''
             \<and> go_cureWindowSeconds b = Some 86400
          then ebind (outcomeUnix (VNumber (NInt deadline))) (\<lambda>d. ebind (outcomeUnix (VNumber (NInt started))) (\<lambda>s.
                 Inr (d - s = 86400)))
          else Inr False
      | _ \<Rightarrow> Inr False)"

definition no_conflict_record_shape :: "GovernedRecourseOperationRecordBody \<Rightarrow> bool" where
  "no_conflict_record_shape b \<longleftrightarrow>
     go_selectedGovernedAction b = ''RECORD_AND_CLOSE'' \<and> go_operationOutcome b = ''NO_CONFLICT_RECORDED_AND_CLOSED''
     \<and> go_cureWindowSeconds b = None \<and> go_cureStartedAtUnix b = None \<and> go_cureDeadlineUnix b = None"

definition verifyManagedDemoGovernedRecourseOperationRecord ::
  "(string \<Rightarrow> string) \<Rightarrow> GovernedRecourseOperationRecord jsobject \<Rightarrow> unit result" where
  "verifyManagedDemoGovernedRecourseOperationRecord sha ob =
     (let record = ob_view ob; body = GovernedRecourseOperationRecordBody.truncate record
      in ebind (exactKeys (ob_keys ob) OPERATION_RECORD_KEYS ''OPERATION_RECORD_FIELDS'') (\<lambda>_.
         ebind (operationId (go_operationId record)) (\<lambda>_.
         ebind (digest (go_operationParametersDigest record)) (\<lambda>_.
         ebind (digest (go_operationAuthorizationHash record)) (\<lambda>_.
         ebind (digest (go_policySelectionHash record)) (\<lambda>_.
         ebind (digest (go_planHash record)) (\<lambda>_.
         ebind (digest (go_resultDigest record)) (\<lambda>_.
         ebind (digest (go_recourseOutcomeDigest record)) (\<lambda>_.
         ebind (conflict_record_shape body) (\<lambda>conflict.
         check (\<not> (go_schemaVersion body \<noteq> GOVERNED_RECOURSE_OPERATION_RECORD_SCHEMA
             \<or> (\<not> conflict \<and> \<not> no_conflict_record_shape body) \<or> go_settlementAuthorization body \<noteq> ''NOT_AUTHORIZED''
             \<or> go_operationRecordHash record \<noteq> operationRecordHash sha body)) (policy_error ''OPERATION_RECORD'')))))))))))"

subsection \<open>The evidence reference\<close>

record GovernedActionEvidenceReferenceBody =
  ge_schemaVersion :: string
  ge_policySelectionHash :: string
  ge_resultDigest :: string
  ge_actionPlanHash :: string
  ge_selectedGovernedAction :: string
  ge_actionOwner :: string
  ge_operationId :: string
  ge_operationAuthorizationHash :: string
  ge_operationParametersDigest :: string
  ge_operationOutcomeDigest :: string
  ge_operationRecordHash :: string
  ge_evidenceDigest :: string
  ge_evidenceClass :: string
  ge_settlementAuthorization :: string

record GovernedActionEvidenceReference = GovernedActionEvidenceReferenceBody +
  ge_referenceHash :: string

definition reference_json :: "GovernedActionEvidenceReferenceBody \<Rightarrow> json" where
  "reference_json b = JObj [
     (''schemaVersion'', JStr (ge_schemaVersion b)), (''policySelectionHash'', JStr (ge_policySelectionHash b)),
     (''resultDigest'', JStr (ge_resultDigest b)), (''actionPlanHash'', JStr (ge_actionPlanHash b)),
     (''selectedGovernedAction'', JStr (ge_selectedGovernedAction b)), (''actionOwner'', JStr (ge_actionOwner b)),
     (''operationId'', JStr (ge_operationId b)), (''operationAuthorizationHash'', JStr (ge_operationAuthorizationHash b)),
     (''operationParametersDigest'', JStr (ge_operationParametersDigest b)),
     (''operationOutcomeDigest'', JStr (ge_operationOutcomeDigest b)), (''operationRecordHash'', JStr (ge_operationRecordHash b)),
     (''evidenceDigest'', JStr (ge_evidenceDigest b)), (''evidenceClass'', JStr (ge_evidenceClass b)),
     (''settlementAuthorization'', JStr (ge_settlementAuthorization b))]"

definition referenceGovernedActionEvidence ::
  "(string \<Rightarrow> string) \<Rightarrow> GovernedActionPlan jsobject \<Rightarrow> GovernedRecourseOperationRecord jsobject \<Rightarrow> string
     \<Rightarrow> GovernedActionEvidenceReference result" where
  "referenceGovernedActionEvidence sha pob oob evidenceDigest =
     ebind (verifyManagedDemoGovernedActionPlan sha pob) (\<lambda>_.
     ebind (verifyManagedDemoGovernedRecourseOperationRecord sha oob) (\<lambda>_.
       let plan = ob_view pob; operation = ob_view oob
       in ebind (check (\<not> (go_policySelectionHash operation \<noteq> gp_policySelectionHash plan
              \<or> go_planHash operation \<noteq> gp_planHash plan
              \<or> go_resultDigest operation \<noteq> gp_resultDigest plan
              \<or> go_selectedGovernedAction operation \<noteq> gp_selectedGovernedAction plan)) (policy_error ''EVIDENCE_OPERATION'')) (\<lambda>_.
          ebind (digest evidenceDigest) (\<lambda>evidence.
            let body = \<lparr>ge_schemaVersion = GOVERNED_ACTION_EVIDENCE_SCHEMA,
                  ge_policySelectionHash = gp_policySelectionHash plan,
                  ge_resultDigest = gp_resultDigest plan,
                  ge_actionPlanHash = gp_planHash plan,
                  ge_selectedGovernedAction = gp_selectedGovernedAction plan,
                  ge_actionOwner = gp_actionOwner plan,
                  ge_operationId = go_operationId operation,
                  ge_operationAuthorizationHash = go_operationAuthorizationHash operation,
                  ge_operationParametersDigest = go_operationParametersDigest operation,
                  ge_operationOutcomeDigest = go_recourseOutcomeDigest operation,
                  ge_operationRecordHash = go_operationRecordHash operation,
                  ge_evidenceDigest = evidence,
                  ge_evidenceClass = ''CUSTOM_SUPERVISED_RECEIPT'',
                  ge_settlementAuthorization = ''NOT_AUTHORIZED''\<rparr>
            in Inr (GovernedActionEvidenceReferenceBody.extend body (GovernedActionEvidenceReference.fields
                 (sha256Digest sha ''MordantGovernedActionEvidenceReference/v1'' (reference_json body))))))))"

subsection \<open>The hashes are commitments\<close>

lemmas policy_records = GovernedRecoursePolicySelectionBody.defs GovernedRecoursePolicySelection.defs
  GovernedActionPlanBody.defs GovernedActionPlan.defs
  GovernedRecourseOperationAuthorizationBody.defs GovernedRecourseOperationAuthorization.defs
  GovernedRecourseOperationRecordBody.defs GovernedRecourseOperationRecord.defs
  GovernedActionEvidenceReferenceBody.defs GovernedActionEvidenceReference.defs

interpretation selection_hash: commitment
  "\<lambda>b. digest_text ''MordantGovernedRecoursePolicySelection/v1'' (selection_json b)"
  by unfold_locales (simp add: digest_text_same_domain selection_json_def sort_members_record)

interpretation plan_hash: commitment "\<lambda>b. digest_text ''MordantGovernedActionPlan/v1'' (plan_json b)"
  by unfold_locales (simp add: digest_text_same_domain plan_json_def sort_members_record)

interpretation authorization_hash: commitment
  "\<lambda>b. digest_text ''MordantGovernedRecourseOperationAuthorization/v1'' (authorization_json b)"
  by unfold_locales (simp add: digest_text_same_domain authorization_json_def sort_members_record)

interpretation record_hash: commitment
  "\<lambda>b. digest_text ''MordantGovernedRecourseOperationRecord/v1'' (operation_record_json b)"
  by unfold_locales (simp add: digest_text_same_domain operation_record_json_def sort_members_record)

interpretation reference_hash: commitment
  "\<lambda>b. digest_text ''MordantGovernedActionEvidenceReference/v1'' (reference_json b)"
  by unfold_locales (simp add: digest_text_same_domain reference_json_def sort_members_record)

subsection \<open>What a verified plan is\<close>

text \<open>The only plan for an outcome, a selection and a result.\<close>

definition outcome_rule :: "bool \<Rightarrow> GovernedActionRule" where
  "outcome_rule conflict = (if conflict then conflict_rule else noConflict_rule)"

definition policy_plan :: "(string \<Rightarrow> string) \<Rightarrow> bool \<Rightarrow> string \<Rightarrow> string \<Rightarrow> GovernedActionPlan" where
  "policy_plan sha conflict selHash resDigest =
     (let rule = outcome_rule conflict;
          body = \<lparr>gp_schemaVersion = GOVERNED_ACTION_PLAN_SCHEMA, gp_policyId = GOVERNED_RECOURSE_POLICY_ID,
            gp_policyVersion = GOVERNED_RECOURSE_POLICY_VERSION, gp_policyHash = governedRecoursePolicyHash sha,
            gp_policySelectionHash = selHash, gp_resultDigest = resDigest,
            gp_resultOutcome = (if conflict then ''CONFLICT'' else ''NO_CONFLICT''),
            gp_resultSemantic = ''CONFLICT_STATUS_ONLY'',
            gp_selectedGovernedAction = ru_selectedGovernedAction rule, gp_actionOwner = ru_actionOwner rule,
            gp_cureWindowSeconds = ru_cureWindowSeconds rule, gp_deadlineRule = ru_deadlineRule rule,
            gp_escalation = ru_escalation rule, gp_requiredApproval = ru_requiredApproval rule,
            gp_actionClass = ru_actionClass rule, gp_settlementAuthorization = ''NOT_AUTHORIZED''\<rparr>
      in GovernedActionPlanBody.extend body (GovernedActionPlan.fields (planHash sha body)))"

lemma policy_plan_simps [simp]:
  "gp_policySelectionHash (policy_plan sha c sh rd) = sh" "gp_resultDigest (policy_plan sha c sh rd) = rd"
  "gp_selectedGovernedAction (policy_plan sha c sh rd) = ru_selectedGovernedAction (outcome_rule c)"
  "gp_cureWindowSeconds (policy_plan sha c sh rd) = ru_cureWindowSeconds (outcome_rule c)"
  "gp_deadlineRule (policy_plan sha c sh rd) = ru_deadlineRule (outcome_rule c)"
  "gp_resultOutcome (policy_plan sha c sh rd) = (if c then ''CONFLICT'' else ''NO_CONFLICT'')"
  "gp_actionOwner (policy_plan sha c sh rd) = ru_actionOwner (outcome_rule c)"
  "gp_settlementAuthorization (policy_plan sha c sh rd) = ''NOT_AUTHORIZED''"
  "gp_planHash (policy_plan sha c sh rd) = planHash sha (GovernedActionPlanBody.truncate (policy_plan sha c sh rd))"
  by (simp_all add: policy_plan_def Let_def policy_records)

lemma outcome_rule_simps [simp]:
  "ru_selectedGovernedAction (outcome_rule c) = (if c then ''OPEN_LOCAL_CURE_PATH'' else ''RECORD_AND_CLOSE'')"
  "ru_cureWindowSeconds (outcome_rule c) = (if c then Some 86400 else None)"
  "ru_deadlineRule (outcome_rule c) = (if c then ''STARTS_WHEN_LOCAL_CURE_PATH_OPENS'' else ''NOT_APPLICABLE'')"
  "ru_actionOwner (outcome_rule c) = ''MORDANT_MANAGED_EXECUTION''"
  by (simp_all add: outcome_rule_def conflict_rule_def noConflict_rule_def)

lemma rule_of_outcome_Some:
  "rule_of_outcome o' = Some rule \<longleftrightarrow>
     (\<exists>c. o' = (if c then ''CONFLICT'' else ''NO_CONFLICT'') \<and> rule = outcome_rule c)"
  by (auto simp: rule_of_outcome_def outcome_rule_def split: if_splits)

lemma plan_fields_iff:
  assumes "rule = outcome_rule c" and "gp_resultOutcome plan = (if c then ''CONFLICT'' else ''NO_CONFLICT'')"
  shows "(gp_schemaVersion plan = GOVERNED_ACTION_PLAN_SCHEMA \<and> gp_policyId plan = GOVERNED_RECOURSE_POLICY_ID
      \<and> gp_policyVersion plan = GOVERNED_RECOURSE_POLICY_VERSION \<and> gp_policyHash plan = governedRecoursePolicyHash sha
      \<and> gp_resultSemantic plan = ''CONFLICT_STATUS_ONLY'' \<and> gp_selectedGovernedAction plan = ru_selectedGovernedAction rule
      \<and> gp_actionOwner plan = ru_actionOwner rule \<and> gp_cureWindowSeconds plan = ru_cureWindowSeconds rule
      \<and> gp_deadlineRule plan = ru_deadlineRule rule \<and> gp_escalation plan = ru_escalation rule
      \<and> gp_requiredApproval plan = ru_requiredApproval rule \<and> gp_actionClass plan = ru_actionClass rule
      \<and> gp_settlementAuthorization plan = ''NOT_AUTHORIZED''
      \<and> gp_planHash plan = planHash sha (GovernedActionPlanBody.truncate plan)) \<longleftrightarrow>
     plan = policy_plan sha c (gp_policySelectionHash plan) (gp_resultDigest plan)"
  using assms by (cases plan) (auto simp: policy_plan_def Let_def policy_records simp del: outcome_rule_simps)

lemma truncate_plan_simps [simp]:
  "gp_schemaVersion (GovernedActionPlanBody.truncate p) = gp_schemaVersion p"
  "gp_policyId (GovernedActionPlanBody.truncate p) = gp_policyId p"
  "gp_policyVersion (GovernedActionPlanBody.truncate p) = gp_policyVersion p"
  "gp_policyHash (GovernedActionPlanBody.truncate p) = gp_policyHash p"
  "gp_resultSemantic (GovernedActionPlanBody.truncate p) = gp_resultSemantic p"
  "gp_selectedGovernedAction (GovernedActionPlanBody.truncate p) = gp_selectedGovernedAction p"
  "gp_actionOwner (GovernedActionPlanBody.truncate p) = gp_actionOwner p"
  "gp_cureWindowSeconds (GovernedActionPlanBody.truncate p) = gp_cureWindowSeconds p"
  "gp_deadlineRule (GovernedActionPlanBody.truncate p) = gp_deadlineRule p"
  "gp_escalation (GovernedActionPlanBody.truncate p) = gp_escalation p"
  "gp_requiredApproval (GovernedActionPlanBody.truncate p) = gp_requiredApproval p"
  "gp_actionClass (GovernedActionPlanBody.truncate p) = gp_actionClass p"
  "gp_settlementAuthorization (GovernedActionPlanBody.truncate p) = gp_settlementAuthorization p"
  by (simp_all add: policy_records)

lemma verify_plan_iff:
  "verifyManagedDemoGovernedActionPlan sha ob = Inr () \<longleftrightarrow>
     sort (ob_keys ob) = sort PLAN_KEYS
     \<and> fixed_regex SHA256_LOWER (gp_policySelectionHash (ob_view ob)) \<and> fixed_regex SHA256_LOWER (gp_resultDigest (ob_view ob))
     \<and> (\<exists>c. ob_view ob = policy_plan sha c (gp_policySelectionHash (ob_view ob)) (gp_resultDigest (ob_view ob)))"
  (is "?L \<longleftrightarrow> ?R")
proof (cases "\<exists>c. gp_resultOutcome (ob_view ob) = (if c then ''CONFLICT'' else ''NO_CONFLICT'')")
  case True
  let ?p = "ob_view ob"
  from True obtain c where c: "gp_resultOutcome ?p = (if c then ''CONFLICT'' else ''NO_CONFLICT'')" by blast
  then have rule: "rule_of_outcome (gp_resultOutcome ?p) = Some (outcome_rule c)"
    by (auto simp: rule_of_outcome_Some)
  have "?L \<longleftrightarrow> sort (ob_keys ob) = sort PLAN_KEYS
      \<and> fixed_regex SHA256_LOWER (gp_policySelectionHash ?p) \<and> fixed_regex SHA256_LOWER (gp_resultDigest ?p)
      \<and> ?p = policy_plan sha c (gp_policySelectionHash ?p) (gp_resultDigest ?p)"
    unfolding verifyManagedDemoGovernedActionPlan_def Let_def ebind_eq_Inr exactKeys_ok digest_ok rule
      plan_fields_iff [OF refl c, symmetric]
    by (auto simp add: check_eq_Inr simp del: outcome_rule_simps)
  moreover have "c' = c" if "?p = policy_plan sha c' (gp_policySelectionHash ?p) (gp_resultDigest ?p)" for c'
    using arg_cong [OF that, of gp_resultOutcome] c by (simp split: if_splits)
  ultimately show ?thesis by blast
next
  case False
  then have "rule_of_outcome (gp_resultOutcome (ob_view ob)) = None"
    by (auto simp: rule_of_outcome_def split: if_splits)
  moreover from False have "\<not> ?R" using policy_plan_simps(6) by metis
  ultimately show ?thesis
    by (simp add: verifyManagedDemoGovernedActionPlan_def Let_def ebind_eq_Inr)
qed

subsection \<open>Selections\<close>

text \<open>The only selection for a case and an instant.\<close>

definition policy_selection :: "(string \<Rightarrow> string) \<Rightarrow> string \<Rightarrow> int \<Rightarrow> GovernedRecoursePolicySelection" where
  "policy_selection sha caseId at =
     (let body = \<lparr>gs_schemaVersion = GOVERNED_RECOURSE_SELECTION_SCHEMA, gs_policyId = GOVERNED_RECOURSE_POLICY_ID,
        gs_policyVersion = GOVERNED_RECOURSE_POLICY_VERSION, gs_policyHash = governedRecoursePolicyHash sha,
        gs_caseId = caseId, gs_resultPolicyId = protectionPolicyId sha,
        gs_resultPolicyVersion = PROTECTION_POLICY_VERSION, gs_selectedAtUnix = at\<rparr>
      in GovernedRecoursePolicySelectionBody.extend body
           (GovernedRecoursePolicySelection.fields (selectionHash sha body)))"

lemma policy_selection_simps [simp]:
  "gs_caseId (policy_selection sha cid at) = cid" "gs_selectedAtUnix (policy_selection sha cid at) = at"
  "gs_policyId (policy_selection sha cid at) = GOVERNED_RECOURSE_POLICY_ID"
  "gs_policyVersion (policy_selection sha cid at) = GOVERNED_RECOURSE_POLICY_VERSION"
  "gs_policyHash (policy_selection sha cid at) = governedRecoursePolicyHash sha"
  "gs_resultPolicyId (policy_selection sha cid at) = protectionPolicyId sha"
  "gs_resultPolicyVersion (policy_selection sha cid at) = PROTECTION_POLICY_VERSION"
  "gs_selectionHash (policy_selection sha cid at) =
     selectionHash sha (GovernedRecoursePolicySelectionBody.truncate (policy_selection sha cid at))"
  by (simp_all add: policy_selection_def Let_def policy_records)

lemma verify_selection_iff:
  "verifyManagedDemoGovernedRecoursePolicySelection sha ob = Inr () \<longleftrightarrow>
     sort (ob_keys ob) = sort SELECTION_KEYS
     \<and> fixed_regex SHA256_LOWER (gs_caseId (ob_view ob)) \<and> fixed_regex SHA256_LOWER (gs_resultPolicyId (ob_view ob))
     \<and> 0 < gs_selectedAtUnix (ob_view ob) \<and> gs_selectedAtUnix (ob_view ob) \<le> MAX_SAFE_INTEGER
     \<and> ob_view ob = policy_selection sha (gs_caseId (ob_view ob)) (gs_selectedAtUnix (ob_view ob))"
  unfolding verifyManagedDemoGovernedRecoursePolicySelection_def Let_def ebind_eq_Inr exactKeys_ok digest_ok positiveUnix_ok check_eq_Inr
  by (cases "ob_view ob") (auto simp: policy_selection_def Let_def policy_records)

lemma protectionPolicyId_format: "hex_digest sha \<Longrightarrow> fixed_regex SHA256_LOWER (protectionPolicyId sha)"
  by (simp add: protectionPolicyId_def sha256Digest_format)

lemma select_iff:
  assumes "hex_digest sha"
  shows "selectManagedDemoGovernedRecoursePolicy sha cid rid rv at = Inr sel \<longleftrightarrow>
     fixed_regex SHA256_LOWER cid \<and> rid = protectionPolicyId sha \<and> rv = PROTECTION_POLICY_VERSION
     \<and> 0 < at \<and> at \<le> MAX_SAFE_INTEGER \<and> sel = policy_selection sha cid at"
  using protectionPolicyId_format [OF assms]
  by (auto simp: selectManagedDemoGovernedRecoursePolicy_def result_simps Let_def policy_selection_def)

text \<open>The selection the product writes is one its own verifier accepts, and the verifier accepts nothing
  else: a selection verifies exactly when its fields are those of the committed policy for its case and
  instant, under the hash recomputed from them.\<close>

theorem selection_verifies_iff_selected:
  assumes "hex_digest sha"
  shows "verifyManagedDemoGovernedRecoursePolicySelection sha ob = Inr () \<longleftrightarrow>
     sort (ob_keys ob) = sort SELECTION_KEYS
     \<and> selectManagedDemoGovernedRecoursePolicy sha (gs_caseId (ob_view ob)) (gs_resultPolicyId (ob_view ob))
         (gs_resultPolicyVersion (ob_view ob)) (gs_selectedAtUnix (ob_view ob)) = Inr (ob_view ob)"
proof -
  have *: "gs_resultPolicyId (ob_view ob) = protectionPolicyId sha \<and> gs_resultPolicyVersion (ob_view ob) = PROTECTION_POLICY_VERSION"
    if "ob_view ob = policy_selection sha (gs_caseId (ob_view ob)) (gs_selectedAtUnix (ob_view ob))"
    using arg_cong [OF that, of gs_resultPolicyId] arg_cong [OF that, of gs_resultPolicyVersion] by simp
  show ?thesis
    unfolding verify_selection_iff select_iff [OF assms] using * protectionPolicyId_format [OF assms] by metis
qed

lemma sample_digest: "fixed_regex SHA256_LOWER (''sha256:'' @ zero_sha [])"
  by (rule hex_digest_regex [OF zero_sha_hex])

theorem selection_verifies_iff_selected_witness:
  "verifyManagedDemoGovernedRecoursePolicySelection zero_sha
     (plain_object SELECTION_KEYS (policy_selection zero_sha (''sha256:'' @ zero_sha []) 1700000000)) = Inr ()"
  using sample_digest
  by (simp add: selection_verifies_iff_selected [OF zero_sha_hex] select_iff [OF zero_sha_hex] MAX_SAFE_INTEGER_def)

subsection \<open>Evaluation\<close>

lemma evaluate_iff:
  "evaluateManagedDemoGovernedRecoursePolicy sha ed25519 sob rob = Inr plan \<longleftrightarrow>
     verifyManagedDemoGovernedRecoursePolicySelection sha sob = Inr ()
     \<and> verifyGovernedResultSignature ed25519 rob = Inr ()
     \<and> gr_schemaVersion (ob_view rob) = ''mordant.governed-conflict-result/1''
     \<and> gr_serviceId (ob_view rob) = ''mordant.private-pledge-matching'' \<and> gr_serviceVersion (ob_view rob) = 1
     \<and> gr_caseId (ob_view rob) = gs_caseId (ob_view sob)
     \<and> gr_policyId (ob_view rob) = gs_resultPolicyId (ob_view sob)
     \<and> gr_policyVersion (ob_view rob) = gs_resultPolicyVersion (ob_view sob)
     \<and> gs_selectedAtUnix (ob_view sob) < gr_releasedAtUnix (ob_view rob)
     \<and> plan = policy_plan sha (gr_conflict (ob_view rob)) (gs_selectionHash (ob_view sob))
         (governedResultDigest sha (ob_view rob))" (is "?L \<longleftrightarrow> ?R")
proof (cases "verifyManagedDemoGovernedRecoursePolicySelection sha sob = Inr ()")
  case True
  let ?s = "ob_view sob"
  have s: "?s = policy_selection sha (gs_caseId ?s) (gs_selectedAtUnix ?s)"
    using True unfolding verify_selection_iff by blast
  have "gs_policyId ?s = GOVERNED_RECOURSE_POLICY_ID" "gs_policyVersion ?s = GOVERNED_RECOURSE_POLICY_VERSION"
    "gs_policyHash ?s = governedRecoursePolicyHash sha"
    by (subst s, simp)+
  moreover have "ru_settlementAuthorization (outcome_rule c) = ''NOT_AUTHORIZED''" for c
    by (simp add: outcome_rule_def conflict_rule_def noConflict_rule_def)
  ultimately show ?thesis
    using True unfolding evaluateManagedDemoGovernedRecoursePolicy_def policy_plan_def outcome_rule_def [symmetric] Let_def
    by (auto simp: ebind_eq_Inr check_eq_Inr simp del: outcome_rule_simps)
next
  case False
  then show ?thesis by (simp add: evaluateManagedDemoGovernedRecoursePolicy_def ebind_eq_Inr)
qed

lemma selectionHash_format: "hex_digest sha \<Longrightarrow> fixed_regex SHA256_LOWER (selectionHash sha b)"
  by (simp add: selectionHash_def sha256Digest_format)

lemma planHash_format: "hex_digest sha \<Longrightarrow> fixed_regex SHA256_LOWER (planHash sha b)"
  by (simp add: planHash_def sha256Digest_format)

lemma verified_selection_hash_format:
  assumes "hex_digest sha" "verifyManagedDemoGovernedRecoursePolicySelection sha ob = Inr ()"
  shows "fixed_regex SHA256_LOWER (gs_selectionHash (ob_view ob))"
proof -
  let ?s = "ob_view ob"
  have "?s = policy_selection sha (gs_caseId ?s) (gs_selectedAtUnix ?s)"
    using assms(2) unfolding verify_selection_iff by blast
  then have "gs_selectionHash ?s =
      selectionHash sha (GovernedRecoursePolicySelectionBody.truncate (policy_selection sha (gs_caseId ?s) (gs_selectedAtUnix ?s)))"
    using policy_selection_simps(8) by metis
  then show ?thesis using selectionHash_format [OF assms(1)] by metis
qed

text \<open>When evaluation returns a plan, the plan passes the plan verifier, names the committed selection
  and the digest of the complete signed result, takes the branch of the result's Boolean, never
  authorizes settlement, and the selection was made strictly before the result was released.\<close>

theorem evaluation_sound:
  assumes "hex_digest sha" and "evaluateManagedDemoGovernedRecoursePolicy sha ed25519 sob rob = Inr plan"
  shows "verifyManagedDemoGovernedActionPlan sha (plain_object PLAN_KEYS plan) = Inr ()
     \<and> gp_policySelectionHash plan = gs_selectionHash (ob_view sob)
     \<and> gp_resultDigest plan = governedResultDigest sha (ob_view rob)
     \<and> gp_selectedGovernedAction plan = (if gr_conflict (ob_view rob) then ''OPEN_LOCAL_CURE_PATH'' else ''RECORD_AND_CLOSE'')
     \<and> gp_settlementAuthorization plan = ''NOT_AUTHORIZED''
     \<and> gs_caseId (ob_view sob) = gr_caseId (ob_view rob)
     \<and> gs_selectedAtUnix (ob_view sob) < gr_releasedAtUnix (ob_view rob)
     \<and> verifyGovernedResultSignature ed25519 rob = Inr ()"
  using assms(2) verified_selection_hash_format [OF assms(1)] governedResultDigest_format [OF assms(1)]
  by (auto simp: evaluate_iff verify_plan_iff)

definition sample_result :: "bool \<Rightarrow> GovernedSignedResult" where
  "sample_result conflict = \<lparr>gr_schemaVersion = ''mordant.governed-conflict-result/1'', gr_caseId = ''sha256:'' @ zero_sha [],
     gr_caseBindingDigest = [], gr_assetIdentity = [], gr_serviceId = ''mordant.private-pledge-matching'', gr_serviceVersion = 1,
     gr_policyId = protectionPolicyId zero_sha, gr_policyVersion = 1, gr_circuitId = ''mordant.identity-full-fhe-256'',
     gr_circuitVersion = 1, gr_circuitDigest = [], gr_parameterProfile = [], gr_parameterFingerprint = [],
     gr_participantArtifactDigests = [[], []], gr_evaluatedArtifactDigest = [], gr_resultCiphertextDigest = [],
     gr_resultCiphertextCommitment = [], gr_conflict = conflict, gr_releaseOrdinal = 1, gr_releaseMode = ''governed-decryptor-v1'',
     gr_releaseAuthorityId = [], gr_releaseAuthorityPublicKey = base64_encode (replicate 32 CHR 0x01),
     gr_releasedAtUnix = 1700000100, gr_sourceProvenance = [], gr_signature = base64_encode (replicate 64 CHR 0x01)\<rparr>"

definition sample_selection :: "GovernedRecoursePolicySelection jsobject" where
  "sample_selection = plain_object SELECTION_KEYS (policy_selection zero_sha (''sha256:'' @ zero_sha []) 1700000000)"

abbreviation accept_all :: "string \<Rightarrow> string \<Rightarrow> string \<Rightarrow> bool" where
  "accept_all \<equiv> \<lambda>key message signature. True"

lemma sample_signature:
  "verifyGovernedResultSignature accept_all (plain_object GOVERNED_RESULT_KEYS (sample_result c)) = Inr ()"
proof -
  have "''digest'' \<notin> set GOVERNED_RESULT_KEYS" by (simp add: GOVERNED_RESULT_KEYS_def)
  moreover have "verifyGoSignature accept_all (gr_releaseAuthorityPublicKey (sample_result c)) domain v
      (gr_signature (sample_result c)) code = Inr ()" for domain v code
    unfolding verifyGoSignature_ok by (simp add: sample_result_def) (metis length_replicate)
  ultimately show ?thesis
    by (simp add: verifyGovernedResultSignature_def evidence_exactKeys_def Let_def)
qed

definition sample_plan :: "bool \<Rightarrow> GovernedActionPlan" where
  "sample_plan c = policy_plan zero_sha c (gs_selectionHash (ob_view sample_selection)) (governedResultDigest zero_sha (sample_result c))"

lemma sample_selection_verifies: "verifyManagedDemoGovernedRecoursePolicySelection zero_sha sample_selection = Inr ()"
  using sample_digest protectionPolicyId_format [OF zero_sha_hex]
  by (simp add: verify_selection_iff sample_selection_def MAX_SAFE_INTEGER_def)

lemma sample_evaluation:
  "evaluateManagedDemoGovernedRecoursePolicy zero_sha accept_all sample_selection
     (plain_object GOVERNED_RESULT_KEYS (sample_result c)) = Inr (sample_plan c)"
  unfolding evaluate_iff using sample_selection_verifies sample_signature
  by (simp add: sample_plan_def) (simp add: sample_selection_def sample_result_def PROTECTION_POLICY_VERSION_def)

theorem evaluation_sound_witness:
  "verifyManagedDemoGovernedActionPlan zero_sha (plain_object PLAN_KEYS (sample_plan True)) = Inr ()
   \<and> gp_selectedGovernedAction (sample_plan True) = ''OPEN_LOCAL_CURE_PATH''"
  using evaluation_sound [OF zero_sha_hex sample_evaluation [of True]] by (simp add: sample_result_def)

subsection \<open>Authorization\<close>

definition operation_authorization ::
  "(string \<Rightarrow> string) \<Rightarrow> GovernedRecoursePolicySelection \<Rightarrow> GovernedActionPlan \<Rightarrow> GovernedRecourseOperationAuthorization" where
  "operation_authorization sha selection plan =
     (let body = \<lparr>ga_schemaVersion = GOVERNED_RECOURSE_OPERATION_AUTHORIZATION_SCHEMA, ga_caseId = gs_caseId selection,
        ga_policySelectionHash = gs_selectionHash selection, ga_planHash = gp_planHash plan, ga_resultDigest = gp_resultDigest plan,
        ga_selectedGovernedAction = gp_selectedGovernedAction plan, ga_cureWindowSeconds = gp_cureWindowSeconds plan,
        ga_deadlineRule = gp_deadlineRule plan, ga_settlementAuthorization = ''NOT_AUTHORIZED''\<rparr>
      in GovernedRecourseOperationAuthorizationBody.extend body
           (GovernedRecourseOperationAuthorization.fields (operationAuthorizationHash sha body)))"

lemma operation_authorization_simps [simp]:
  "ga_caseId (operation_authorization sha s p) = gs_caseId s"
  "ga_policySelectionHash (operation_authorization sha s p) = gs_selectionHash s"
  "ga_planHash (operation_authorization sha s p) = gp_planHash p"
  "ga_resultDigest (operation_authorization sha s p) = gp_resultDigest p"
  "ga_selectedGovernedAction (operation_authorization sha s p) = gp_selectedGovernedAction p"
  "ga_cureWindowSeconds (operation_authorization sha s p) = gp_cureWindowSeconds p"
  "ga_deadlineRule (operation_authorization sha s p) = gp_deadlineRule p"
  "ga_settlementAuthorization (operation_authorization sha s p) = ''NOT_AUTHORIZED''"
  "ga_authorizationHash (operation_authorization sha s p) = operationAuthorizationHash sha
     (GovernedRecourseOperationAuthorizationBody.truncate (operation_authorization sha s p))"
  by (simp_all add: operation_authorization_def Let_def policy_records)

lemma authorize_iff:
  "authorizeManagedDemoGovernedRecourseOperation sha sob pob = Inr a \<longleftrightarrow>
     verifyManagedDemoGovernedRecoursePolicySelection sha sob = Inr () \<and> verifyManagedDemoGovernedActionPlan sha pob = Inr ()
     \<and> gp_policySelectionHash (ob_view pob) = gs_selectionHash (ob_view sob)
     \<and> a = operation_authorization sha (ob_view sob) (ob_view pob)"
  unfolding authorizeManagedDemoGovernedRecourseOperation_def operation_authorization_def Let_def
  by (auto simp: ebind_eq_Inr check_eq_Inr)

text \<open>C6: The authorization verifier accepts an authorization for a selection and a plan exactly when it is,
  field by field and hash included, the one the authorizer returns for them.\<close>

theorem authorization_verifies_iff_authorized:
  "verifyManagedDemoGovernedRecourseOperationAuthorization sha aob sob pob = Inr () \<longleftrightarrow>
     sort (ob_keys aob) = sort AUTHORIZATION_KEYS
     \<and> authorizeManagedDemoGovernedRecourseOperation sha sob pob = Inr (ob_view aob)"
proof -
  have "a = operation_authorization sha s p" if "ga_authorizationHash a = ga_authorizationHash (operation_authorization sha s p)"
      "ga_schemaVersion a = ga_schemaVersion (operation_authorization sha s p)" "ga_caseId a = gs_caseId s"
      "ga_policySelectionHash a = gs_selectionHash s" "ga_planHash a = gp_planHash p" "ga_resultDigest a = gp_resultDigest p"
      "ga_selectedGovernedAction a = gp_selectedGovernedAction p" "ga_cureWindowSeconds a = gp_cureWindowSeconds p"
      "ga_deadlineRule a = gp_deadlineRule p" "ga_settlementAuthorization a = ''NOT_AUTHORIZED''" for a s p
    by (rule GovernedRecourseOperationAuthorization.equality) (simp_all add: that del: operation_authorization_simps(9))
  then show ?thesis
    unfolding verifyManagedDemoGovernedRecourseOperationAuthorization_def Let_def ebind_eq_Inr exactKeys_ok check_eq_Inr
    by (auto simp: authorize_iff simp del: operation_authorization_simps(9))
qed

subsection \<open>The operation record\<close>

lemma outcomeUnix_ok [result_simps]:
  "outcomeUnix v = Inr i \<longleftrightarrow> v = VNumber (NInt i) \<and> 0 < i \<and> i \<le> MAX_SAFE_INTEGER"
  by (auto simp: outcomeUnix_def isSafeInteger_def split: jsval.splits jsnum.splits)

lemma operationId_ok [result_simps]: "operationId s = Inr t \<longleftrightarrow> t = s \<and> fixed_regex UUID_PATTERN s"
  by (auto simp: operationId_def)

lemma operation_branch_open:
  assumes "ga_selectedGovernedAction a = ''OPEN_LOCAL_CURE_PATH''" and "operation_branch a recourse = Inr (outcome, st, dl)"
  shows "\<exists>started. outcome = Some ''LOCAL_CURE_PATH_OPENED'' \<and> st = Some started \<and> dl = Some (started + 86400)
     \<and> 0 < started \<and> started + 86400 \<le> MAX_SAFE_INTEGER \<and> ga_cureWindowSeconds a = Some 86400"
  using assms by (auto simp: operation_branch_def result_simps)

lemma operation_branch_close:
  assumes "ga_selectedGovernedAction a = ''RECORD_AND_CLOSE''" and "operation_branch a recourse = Inr (outcome, st, dl)"
  shows "outcome = Some ''NO_CONFLICT_RECORDED_AND_CLOSED'' \<and> st = None \<and> dl = None \<and> ga_cureWindowSeconds a = None"
  using assms by (auto simp: operation_branch_def result_simps)

lemma sha256DigestStrict_format:
  "hex_digest sha \<Longrightarrow> sha256DigestStrict sha domain v = Inr d \<Longrightarrow> fixed_regex SHA256_LOWER d"
  by (auto simp: sha256DigestStrict_def ebind_eq_Inr hex_digest_regex [simplified] split: if_splits)

lemma record_cases:
  assumes "recordManagedDemoGovernedRecourseOperation sha a opId pd recourse = Inr r"
  obtains name where
    "fixed_regex SHA256_LOWER pd" "fixed_regex UUID_PATTERN opId"
    "operation_branch a recourse = Inr (Some name, go_cureStartedAtUnix r, go_cureDeadlineUnix r)"
    "sha256DigestStrict sha ''MordantGovernedRecourseOperationOutcome/v1'' recourse = Inr (go_recourseOutcomeDigest r)"
    "go_operationOutcome r = name" "go_schemaVersion r = GOVERNED_RECOURSE_OPERATION_RECORD_SCHEMA"
    "go_operationId r = opId" "go_operationParametersDigest r = pd"
    "go_operationAuthorizationHash r = ga_authorizationHash a" "go_policySelectionHash r = ga_policySelectionHash a"
    "go_planHash r = ga_planHash a" "go_resultDigest r = ga_resultDigest a"
    "go_selectedGovernedAction r = ga_selectedGovernedAction a" "go_cureWindowSeconds r = ga_cureWindowSeconds a"
    "go_settlementAuthorization r = ''NOT_AUTHORIZED''"
    "go_operationRecordHash r = operationRecordHash sha (GovernedRecourseOperationRecordBody.truncate r)"
  using assms unfolding recordManagedDemoGovernedRecourseOperation_def Let_def
  by (auto simp: policy_records ebind_eq_Inr digest_ok operationId_ok split: option.splits prod.splits)

lemma truncate_record_simps [simp]:
  "go_schemaVersion (GovernedRecourseOperationRecordBody.truncate r) = go_schemaVersion r"
  "go_selectedGovernedAction (GovernedRecourseOperationRecordBody.truncate r) = go_selectedGovernedAction r"
  "go_operationOutcome (GovernedRecourseOperationRecordBody.truncate r) = go_operationOutcome r"
  "go_cureWindowSeconds (GovernedRecourseOperationRecordBody.truncate r) = go_cureWindowSeconds r"
  "go_cureStartedAtUnix (GovernedRecourseOperationRecordBody.truncate r) = go_cureStartedAtUnix r"
  "go_cureDeadlineUnix (GovernedRecourseOperationRecordBody.truncate r) = go_cureDeadlineUnix r"
  "go_settlementAuthorization (GovernedRecourseOperationRecordBody.truncate r) = go_settlementAuthorization r"
  by (simp_all add: policy_records)

text \<open>What authorization and record say about one another.\<close>

lemma authorized_formats:
  assumes "hex_digest sha" "authorizeManagedDemoGovernedRecourseOperation sha sob pob = Inr a"
  shows "fixed_regex SHA256_LOWER (ga_authorizationHash a)" "fixed_regex SHA256_LOWER (ga_policySelectionHash a)"
    "fixed_regex SHA256_LOWER (ga_planHash a)" "fixed_regex SHA256_LOWER (ga_resultDigest a)"
proof -
  have a: "a = operation_authorization sha (ob_view sob) (ob_view pob)"
    and s: "verifyManagedDemoGovernedRecoursePolicySelection sha sob = Inr ()"
    and p: "verifyManagedDemoGovernedActionPlan sha pob = Inr ()" using assms(2) by (simp_all add: authorize_iff)
  show "fixed_regex SHA256_LOWER (ga_authorizationHash a)"
    by (simp add: a operationAuthorizationHash_def sha256Digest_format [OF assms(1)])
  show "fixed_regex SHA256_LOWER (ga_policySelectionHash a)"
    using verified_selection_hash_format [OF assms(1) s] by (simp add: a)
  obtain c where "ob_view pob = policy_plan sha c (gp_policySelectionHash (ob_view pob)) (gp_resultDigest (ob_view pob))"
    using p by (auto simp: verify_plan_iff)
  then have "gp_planHash (ob_view pob) = planHash sha (GovernedActionPlanBody.truncate (ob_view pob))"
    using policy_plan_simps(9) by metis
  then show "fixed_regex SHA256_LOWER (ga_planHash a)" using planHash_format [OF assms(1)] by (simp add: a)
  show "fixed_regex SHA256_LOWER (ga_resultDigest a)" using p by (simp add: a verify_plan_iff)
qed

lemma authorized_action:
  assumes "authorizeManagedDemoGovernedRecourseOperation sha sob pob = Inr a"
  shows "ga_selectedGovernedAction a = (if gp_resultOutcome (ob_view pob) = ''CONFLICT'' then ''OPEN_LOCAL_CURE_PATH'' else ''RECORD_AND_CLOSE'')"
proof -
  obtain c where "ob_view pob = policy_plan sha c (gp_policySelectionHash (ob_view pob)) (gp_resultDigest (ob_view pob))"
    and "a = operation_authorization sha (ob_view sob) (ob_view pob)"
    using assms by (auto simp: authorize_iff verify_plan_iff)
  then have "gp_resultOutcome (ob_view pob) = (if c then ''CONFLICT'' else ''NO_CONFLICT'')"
    "ga_selectedGovernedAction a = (if c then ''OPEN_LOCAL_CURE_PATH'' else ''RECORD_AND_CLOSE'')"
    by (metis policy_plan_simps(6)) (metis \<open>ob_view pob = _\<close> \<open>a = _\<close> operation_authorization_simps(5) policy_plan_simps(3) outcome_rule_simps(1))
  then show ?thesis by simp
qed

lemma operation_record_facts:
  assumes "hex_digest sha" and "authorizeManagedDemoGovernedRecourseOperation sha sob pob = Inr a"
    and "recordManagedDemoGovernedRecourseOperation sha a opId pd recourse = Inr r"
  shows "verifyManagedDemoGovernedRecourseOperationRecord sha (plain_object OPERATION_RECORD_KEYS r) = Inr ()
     \<and> go_operationAuthorizationHash r = ga_authorizationHash a \<and> go_planHash r = gp_planHash (ob_view pob)
     \<and> go_resultDigest r = gp_resultDigest (ob_view pob)
     \<and> (if gp_resultOutcome (ob_view pob) = ''CONFLICT''
        then \<exists>started. 0 < started \<and> go_cureStartedAtUnix r = Some started \<and> go_cureDeadlineUnix r = Some (started + 86400)
        else go_cureStartedAtUnix r = None \<and> go_cureDeadlineUnix r = None)
     \<and> go_settlementAuthorization r = ''NOT_AUTHORIZED''"
proof (cases "gp_resultOutcome (ob_view pob) = ''CONFLICT''")
  case True
  then have action: "ga_selectedGovernedAction a = ''OPEN_LOCAL_CURE_PATH''" using authorized_action [OF assms(2)] by simp
  have "gp_planHash (ob_view pob) = ga_planHash a" "gp_resultDigest (ob_view pob) = ga_resultDigest a"
    using assms(2) by (auto simp: authorize_iff)
  then show ?thesis
    using assms(3) True sha256DigestStrict_format [OF assms(1)] authorized_formats [OF assms(1,2)]
    by (elim record_cases, drule_tac operation_branch_open [OF action], elim exE)
      (simp add: verifyManagedDemoGovernedRecourseOperationRecord_def Let_def result_simps conflict_record_shape_def action, blast)
next
  case False
  then have action: "ga_selectedGovernedAction a = ''RECORD_AND_CLOSE''" using authorized_action [OF assms(2)] by simp
  have "gp_planHash (ob_view pob) = ga_planHash a" "gp_resultDigest (ob_view pob) = ga_resultDigest a"
    using assms(2) by (auto simp: authorize_iff)
  then show ?thesis
    using assms(3) False sha256DigestStrict_format [OF assms(1)] authorized_formats [OF assms(1,2)]
    by (elim record_cases, drule_tac operation_branch_close [OF action])
      (simp add: verifyManagedDemoGovernedRecourseOperationRecord_def Let_def result_simps conflict_record_shape_def
        no_conflict_record_shape_def action)
qed

text \<open>An operation recorded under an authorization passes the record verifier; it names the authorization,
  the plan and the result it was authorized for; a conflict opens a cure window of exactly 86400 seconds
  starting at the recorded instant, no conflict opens none; and settlement is never authorized.\<close>

theorem operation_record_sound:
  assumes "hex_digest sha" and "authorizeManagedDemoGovernedRecourseOperation sha sob pob = Inr a"
    and "recordManagedDemoGovernedRecourseOperation sha a opId pd recourse = Inr r"
  shows "verifyManagedDemoGovernedRecourseOperationRecord sha (plain_object OPERATION_RECORD_KEYS r) = Inr ()
     \<and> go_operationAuthorizationHash r = ga_authorizationHash a \<and> go_planHash r = gp_planHash (ob_view pob)
     \<and> go_resultDigest r = gp_resultDigest (ob_view pob)
     \<and> (if gp_resultOutcome (ob_view pob) = ''CONFLICT''
        then \<exists>started. 0 < started \<and> go_cureStartedAtUnix r = Some started \<and> go_cureDeadlineUnix r = Some (started + 86400)
        else go_cureStartedAtUnix r = None \<and> go_cureDeadlineUnix r = None)
     \<and> go_settlementAuthorization r = ''NOT_AUTHORIZED''"
  using assms by (rule operation_record_facts)

subsection \<open>The honest chain, end to end\<close>

text \<open>The outcome the managed recourse operation reports for a result.\<close>

definition reported_outcome :: "bool \<Rightarrow> string \<Rightarrow> string \<Rightarrow> int \<Rightarrow> json" where
  "reported_outcome conflict caseId resDigest boundAt =
     (if conflict then JObj [(''opened'', JBool True), (''record'', JObj [(''caseId'', JStr caseId),
        (''resultDigest'', JStr resDigest), (''boundAtUnix'', JNum boundAt), (''cureDeadlineUnix'', JNum (boundAt + 86400)),
        (''open'', JBool True)])]
      else JObj [(''opened'', JBool False), (''reason'', JStr ''SIGNED_RESULT_FALSE'')])"

lemma reported_branch:
  assumes "ga_selectedGovernedAction a = (if c then ''OPEN_LOCAL_CURE_PATH'' else ''RECORD_AND_CLOSE'')"
    "ga_cureWindowSeconds a = (if c then Some 86400 else None)"
    "ga_deadlineRule a = (if c then ''STARTS_WHEN_LOCAL_CURE_PATH_OPENS'' else ''NOT_APPLICABLE'')"
    and "0 < boundAt" "boundAt + 86400 \<le> MAX_SAFE_INTEGER"
  shows "\<exists>name st dl. operation_branch a (js_of_json (reported_outcome c (ga_caseId a) (ga_resultDigest a) boundAt))
     = Inr (Some name, st, dl)"
  using assms by (cases c) (auto simp: operation_branch_def reported_outcome_def outcomeRecord_def result_simps)

lemma record_completes:
  assumes "operation_branch a (js_of_json v) = Inr (Some name, st, dl)"
    and "fixed_regex SHA256_LOWER pd" "fixed_regex UUID_PATTERN opId"
  shows "\<exists>r. recordManagedDemoGovernedRecourseOperation sha a opId pd (js_of_json v) = Inr r"
  using assms
  by (simp add: recordManagedDemoGovernedRecourseOperation_def sha256DigestStrict_def canonicalizeStrict_typed digest_def operationId_def Let_def)

lemma reference_completes:
  assumes "verifyManagedDemoGovernedActionPlan sha pob = Inr ()"
    and "verifyManagedDemoGovernedRecourseOperationRecord sha oob = Inr ()"
    and "go_policySelectionHash (ob_view oob) = gp_policySelectionHash (ob_view pob)"
      "go_planHash (ob_view oob) = gp_planHash (ob_view pob)" "go_resultDigest (ob_view oob) = gp_resultDigest (ob_view pob)"
      "go_selectedGovernedAction (ob_view oob) = gp_selectedGovernedAction (ob_view pob)"
    and "fixed_regex SHA256_LOWER ev"
  shows "\<exists>ref. referenceGovernedActionEvidence sha pob oob ev = Inr ref
     \<and> ge_resultDigest ref = gp_resultDigest (ob_view pob) \<and> ge_policySelectionHash ref = gp_policySelectionHash (ob_view pob)
     \<and> ge_actionPlanHash ref = gp_planHash (ob_view pob)
     \<and> ge_operationRecordHash ref = go_operationRecordHash (ob_view oob) \<and> ge_evidenceDigest ref = ev
     \<and> ge_settlementAuthorization ref = ''NOT_AUTHORIZED''"
  using assms by (simp add: referenceGovernedActionEvidence_def digest_def Let_def policy_records)

text \<open>C5: For every result with a valid signature that was released for a case after the policy was selected,
  the whole chain completes: selection, evaluation, authorization, record of the reported outcome and
  evidence reference all succeed, and the reference names the selection, the plan, the complete result
  and the record, without authorizing settlement.\<close>

theorem recourse_chain_completes:
  fixes rob :: "GovernedSignedResult jsobject"
  defines "res \<equiv> ob_view rob"
  assumes "hex_digest sha" and "verifyGovernedResultSignature ed25519 rob = Inr ()"
    and "gr_schemaVersion res = ''mordant.governed-conflict-result/1''" "gr_serviceId res = ''mordant.private-pledge-matching''"
      "gr_serviceVersion res = 1" "gr_policyId res = protectionPolicyId sha" "gr_policyVersion res = PROTECTION_POLICY_VERSION"
    and "fixed_regex SHA256_LOWER (gr_caseId res)" and "0 < at" "at < gr_releasedAtUnix res" "at \<le> MAX_SAFE_INTEGER"
    and "fixed_regex UUID_PATTERN opId" "fixed_regex SHA256_LOWER pd" "fixed_regex SHA256_LOWER ev"
    and "0 < boundAt" "boundAt + 86400 \<le> MAX_SAFE_INTEGER"
  shows "\<exists>sel plan a r ref.
     selectManagedDemoGovernedRecoursePolicy sha (gr_caseId res) (protectionPolicyId sha) PROTECTION_POLICY_VERSION at = Inr sel
     \<and> evaluateManagedDemoGovernedRecoursePolicy sha ed25519 (plain_object SELECTION_KEYS sel) rob = Inr plan
     \<and> authorizeManagedDemoGovernedRecourseOperation sha (plain_object SELECTION_KEYS sel) (plain_object PLAN_KEYS plan) = Inr a
     \<and> recordManagedDemoGovernedRecourseOperation sha a opId pd
         (js_of_json (reported_outcome (gr_conflict res) (gr_caseId res) (governedResultDigest sha res) boundAt)) = Inr r
     \<and> referenceGovernedActionEvidence sha (plain_object PLAN_KEYS plan) (plain_object OPERATION_RECORD_KEYS r) ev = Inr ref
     \<and> ge_resultDigest ref = governedResultDigest sha res \<and> ge_policySelectionHash ref = gs_selectionHash sel
     \<and> ge_actionPlanHash ref = gp_planHash plan \<and> ge_operationRecordHash ref = go_operationRecordHash r
     \<and> ge_settlementAuthorization ref = ''NOT_AUTHORIZED''"
proof -
  let ?sel = "policy_selection sha (gr_caseId res) at" and ?S = "plain_object SELECTION_KEYS"
  let ?plan = "policy_plan sha (gr_conflict res) (gs_selectionHash ?sel) (governedResultDigest sha res)"
  let ?a = "operation_authorization sha ?sel ?plan" and ?P = "plain_object PLAN_KEYS ?plan"
  let ?v = "reported_outcome (gr_conflict res) (gr_caseId res) (governedResultDigest sha res) boundAt"
  have sel: "selectManagedDemoGovernedRecoursePolicy sha (gr_caseId res) (protectionPolicyId sha) PROTECTION_POLICY_VERSION at = Inr ?sel"
    using assms by (simp add: select_iff)
  have vs: "verifyManagedDemoGovernedRecoursePolicySelection sha (?S ?sel) = Inr ()"
    using assms protectionPolicyId_format [OF assms(2)] by (simp add: verify_selection_iff)
  have plan: "evaluateManagedDemoGovernedRecoursePolicy sha ed25519 (?S ?sel) rob = Inr ?plan"
    using assms vs unfolding evaluate_iff by (simp add: res_def)
  have vp: "verifyManagedDemoGovernedActionPlan sha ?P = Inr ()"
    using verified_selection_hash_format [OF assms(2) vs] governedResultDigest_format [OF assms(2)]
    by (auto simp: verify_plan_iff)
  have a: "authorizeManagedDemoGovernedRecourseOperation sha (?S ?sel) ?P = Inr ?a"
    using vs vp by (simp add: authorize_iff)
  obtain name st dl where "operation_branch ?a (js_of_json ?v) = Inr (Some name, st, dl)"
    using reported_branch [of ?a "gr_conflict res" boundAt] assms(16,17) by auto
  then obtain r where r: "recordManagedDemoGovernedRecourseOperation sha ?a opId pd (js_of_json ?v) = Inr r"
    using record_completes assms(13,14) by blast
  have facts: "verifyManagedDemoGovernedRecourseOperationRecord sha (plain_object OPERATION_RECORD_KEYS r) = Inr ()"
    using operation_record_facts [OF assms(2) a r] by blast
  have links: "go_policySelectionHash r = gs_selectionHash ?sel" "go_planHash r = gp_planHash ?plan"
    "go_resultDigest r = governedResultDigest sha res" "go_selectedGovernedAction r = gp_selectedGovernedAction ?plan"
    using r by (elim record_cases, simp)+
  show ?thesis
    using sel plan a r reference_completes [OF vp facts _ _ _ _ assms(15)] links by auto
qed

definition sample_operation_id :: string where
  "sample_operation_id = ''01234567-89ab-4cde-8f01-23456789abcd''"

lemma sample_operation_id_uuid: "fixed_regex UUID_PATTERN sample_operation_id"
  by code_simp

theorem recourse_chain_completes_witness:
  "\<exists>sel plan a r ref.
     selectManagedDemoGovernedRecoursePolicy zero_sha (gr_caseId (sample_result True)) (protectionPolicyId zero_sha)
       PROTECTION_POLICY_VERSION 1700000000 = Inr sel
     \<and> evaluateManagedDemoGovernedRecoursePolicy zero_sha accept_all (plain_object SELECTION_KEYS sel)
         (plain_object GOVERNED_RESULT_KEYS (sample_result True)) = Inr plan
     \<and> authorizeManagedDemoGovernedRecourseOperation zero_sha (plain_object SELECTION_KEYS sel) (plain_object PLAN_KEYS plan) = Inr a
     \<and> referenceGovernedActionEvidence zero_sha (plain_object PLAN_KEYS plan) (plain_object OPERATION_RECORD_KEYS r)
         (''sha256:'' @ zero_sha []) = Inr ref"
proof -
  let ?d = "''sha256:'' @ zero_sha []" and ?r = "plain_object GOVERNED_RESULT_KEYS (sample_result True)"
  have case_id: "gr_caseId (sample_result True) = ?d" and fields:
    "gr_schemaVersion (sample_result True) = ''mordant.governed-conflict-result/1''"
    "gr_serviceId (sample_result True) = ''mordant.private-pledge-matching''"
    "gr_serviceVersion (sample_result True) = 1" "gr_policyId (sample_result True) = protectionPolicyId zero_sha"
    "gr_policyVersion (sample_result True) = PROTECTION_POLICY_VERSION" "1700000000 < gr_releasedAtUnix (sample_result True)"
    by (simp_all add: sample_result_def PROTECTION_POLICY_VERSION_def)
  have "fixed_regex SHA256_LOWER (gr_caseId (sample_result True))" using sample_digest unfolding case_id .
  then show ?thesis
    using recourse_chain_completes [OF zero_sha_hex sample_signature [of True], of 1700000000 sample_operation_id ?d ?d 1700000200]
      sample_operation_id_uuid sample_digest fields by (auto simp: MAX_SAFE_INTEGER_def)
qed

text \<open>The sample operation, for a result without conflict.\<close>

definition sample_authorization :: GovernedRecourseOperationAuthorization where
  "sample_authorization = operation_authorization zero_sha (ob_view sample_selection) (sample_plan False)"

lemma sample_authorized:
  "authorizeManagedDemoGovernedRecourseOperation zero_sha sample_selection (plain_object PLAN_KEYS (sample_plan False))
     = Inr sample_authorization"
  using sample_selection_verifies verified_selection_hash_format [OF zero_sha_hex sample_selection_verifies]
    governedResultDigest_format [OF zero_sha_hex]
  by (auto simp: authorize_iff verify_plan_iff sample_authorization_def sample_plan_def)

theorem operation_record_sound_witness:
  "\<exists>r. recordManagedDemoGovernedRecourseOperation zero_sha sample_authorization sample_operation_id (''sha256:'' @ zero_sha [])
         (js_of_json (reported_outcome False [] [] 1)) = Inr r
     \<and> verifyManagedDemoGovernedRecourseOperationRecord zero_sha (plain_object OPERATION_RECORD_KEYS r) = Inr ()
     \<and> go_cureDeadlineUnix r = None"
proof -
  have "operation_branch sample_authorization (js_of_json (reported_outcome False [] [] 1))
      = Inr (Some ''NO_CONFLICT_RECORDED_AND_CLOSED'', None, None)"
    by (simp add: operation_branch_def reported_outcome_def sample_authorization_def sample_plan_def result_simps)
  then obtain r where r: "recordManagedDemoGovernedRecourseOperation zero_sha sample_authorization sample_operation_id
      (''sha256:'' @ zero_sha []) (js_of_json (reported_outcome False [] [] 1)) = Inr r"
    using record_completes [OF _ sample_digest sample_operation_id_uuid] by blast
  then show ?thesis
    using operation_record_sound [OF zero_sha_hex sample_authorized r] by (auto simp: sample_plan_def)
qed

subsection \<open>The authorization hash fixes the whole chain\<close>

abbreviation selection_text :: "GovernedRecoursePolicySelection \<Rightarrow> string" where
  "selection_text x \<equiv> digest_text ''MordantGovernedRecoursePolicySelection/v1''
     (selection_json (GovernedRecoursePolicySelectionBody.truncate x))"

abbreviation plan_text :: "GovernedActionPlan \<Rightarrow> string" where
  "plan_text x \<equiv> digest_text ''MordantGovernedActionPlan/v1'' (plan_json (GovernedActionPlanBody.truncate x))"

abbreviation authorization_text :: "GovernedRecourseOperationAuthorization \<Rightarrow> string" where
  "authorization_text x \<equiv> digest_text ''MordantGovernedRecourseOperationAuthorization/v1''
     (authorization_json (GovernedRecourseOperationAuthorizationBody.truncate x))"

lemma selection_hash_determines:
  assumes "verifyManagedDemoGovernedRecoursePolicySelection sha ob = Inr ()"
    "verifyManagedDemoGovernedRecoursePolicySelection sha ob' = Inr ()"
    "gs_selectionHash (ob_view ob) = gs_selectionHash (ob_view ob')"
    "\<not> collides sha (selection_text (ob_view ob)) (selection_text (ob_view ob'))"
  shows "ob_view ob = ob_view ob'"
proof -
  let ?s = "ob_view ob" and ?s' = "ob_view ob'"
  have e: "?s = policy_selection sha (gs_caseId ?s) (gs_selectedAtUnix ?s)" "?s' = policy_selection sha (gs_caseId ?s') (gs_selectedAtUnix ?s')"
    using assms(1,2) unfolding verify_selection_iff by blast+
  then have "gs_selectionHash ?s = selectionHash sha (GovernedRecoursePolicySelectionBody.truncate ?s)"
    "gs_selectionHash ?s' = selectionHash sha (GovernedRecoursePolicySelectionBody.truncate ?s')"
    using policy_selection_simps(8) by metis+
  then have "GovernedRecoursePolicySelectionBody.truncate ?s = GovernedRecoursePolicySelectionBody.truncate ?s'"
    using assms(3,4) selection_hash.binding [of sha "GovernedRecoursePolicySelectionBody.truncate ?s"
      "GovernedRecoursePolicySelectionBody.truncate ?s'"]
    unfolding selectionHash_def by (simp only: sha256Digest_eq_iff) simp
  then have "gs_caseId ?s = gs_caseId ?s'" "gs_selectedAtUnix ?s = gs_selectedAtUnix ?s'"
    by (simp_all add: policy_records)
  with e show ?thesis by metis
qed

lemma plan_hash_determines:
  assumes "verifyManagedDemoGovernedActionPlan sha ob = Inr ()" "verifyManagedDemoGovernedActionPlan sha ob' = Inr ()"
    "gp_planHash (ob_view ob) = gp_planHash (ob_view ob')" "\<not> collides sha (plan_text (ob_view ob)) (plan_text (ob_view ob'))"
  shows "ob_view ob = ob_view ob'"
proof -
  let ?p = "ob_view ob" and ?p' = "ob_view ob'"
  have h: "gp_planHash ?p = planHash sha (GovernedActionPlanBody.truncate ?p)"
    "gp_planHash ?p' = planHash sha (GovernedActionPlanBody.truncate ?p')"
    using assms(1,2) unfolding verify_plan_iff by (metis policy_plan_simps(9))+
  then have "GovernedActionPlanBody.truncate ?p = GovernedActionPlanBody.truncate ?p'"
    using assms(3,4) plan_hash.binding [of sha "GovernedActionPlanBody.truncate ?p" "GovernedActionPlanBody.truncate ?p'"]
    unfolding planHash_def by (simp only: sha256Digest_eq_iff) simp
  then show ?thesis using assms(3) by (cases ?p; cases ?p') (simp add: policy_records)
qed

text \<open>The authorization hash fixes the chain behind it: if two authorizations of the product have the same
  hash, they were made for the same selection and the same plan, unless one of three explicit pairs of
  texts is a SHA-256 collision.\<close>

theorem authorization_hash_fixes_chain:
  assumes "authorizeManagedDemoGovernedRecourseOperation sha sob pob = Inr a"
    and "authorizeManagedDemoGovernedRecourseOperation sha sob' pob' = Inr a'"
    and "ga_authorizationHash a = ga_authorizationHash a'"
    and "\<not> collides sha (authorization_text a) (authorization_text a')"
    and "\<not> collides sha (selection_text (ob_view sob)) (selection_text (ob_view sob'))"
    and "\<not> collides sha (plan_text (ob_view pob)) (plan_text (ob_view pob'))"
  shows "ob_view sob = ob_view sob' \<and> ob_view pob = ob_view pob' \<and> a = a'"
proof -
  have a: "a = operation_authorization sha (ob_view sob) (ob_view pob)" "a' = operation_authorization sha (ob_view sob') (ob_view pob')"
    using assms(1,2) by (simp_all add: authorize_iff)
  have "GovernedRecourseOperationAuthorizationBody.truncate a = GovernedRecourseOperationAuthorizationBody.truncate a'"
    using assms(3,4) authorization_hash.binding [of sha] by (simp add: a operationAuthorizationHash_def sha256Digest_eq_iff)
  then have "ga_policySelectionHash a = ga_policySelectionHash a'" "ga_planHash a = ga_planHash a'"
    by (simp_all add: policy_records)
  then have "gs_selectionHash (ob_view sob) = gs_selectionHash (ob_view sob')" "gp_planHash (ob_view pob) = gp_planHash (ob_view pob')"
    by (simp_all add: a)
  then show ?thesis
    using selection_hash_determines [of sha sob sob'] plan_hash_determines [of sha pob pob'] assms a
    by (simp add: authorize_iff)
qed

theorem authorization_hash_fixes_chain_witness:
  "ob_view (sample_selection\<lparr>ob_keys := rev SELECTION_KEYS\<rparr>) = ob_view sample_selection
   \<and> authorizeManagedDemoGovernedRecourseOperation zero_sha (sample_selection\<lparr>ob_keys := rev SELECTION_KEYS\<rparr>)
       (plain_object PLAN_KEYS (sample_plan False)) = Inr sample_authorization"
proof -
  have "sort (rev SELECTION_KEYS) = sort SELECTION_KEYS" 
    by (rule sorted_distinct_set_unique) (simp_all add: SELECTION_KEYS_def)
  then have reordered: "authorizeManagedDemoGovernedRecourseOperation zero_sha (sample_selection\<lparr>ob_keys := rev SELECTION_KEYS\<rparr>)
       (plain_object PLAN_KEYS (sample_plan False)) = Inr sample_authorization"
    using sample_authorized by (simp add: authorize_iff verify_selection_iff sample_selection_def plain_object_def)
  with authorization_hash_fixes_chain [OF reordered sample_authorized refl] show ?thesis
    by (simp add: collides_def)
qed

end
