(* ===== verification/Settlement_Authority.thy ===== *)
theory Settlement_Authority
  imports Canonical_Json
begin

text \<open>
  Settlement authority (\<^verbatim>\<open>settlement-authority.ts\<close>) and the gate the bridge calls before it signs
  (\<open>simulate\<close> in \<^verbatim>\<open>bridge-executor.ts\<close>): a profile of economic terms committed before the result,
  the plan that a governed result derives from it, the authorization of the plan, and the comparison of
  an authorization with the release to be signed.

  Identifiers are compared case-insensitively and modulo the prefixes \<open>0x\<close> and \<open>sha256:\<close>, as in the
  source. Amounts are decimal strings in the profile and integers in the release.
\<close>

subsection \<open>Identifiers and amounts\<close>

definition SETTLEMENT_PROFILE_SCHEMA :: string where
  "SETTLEMENT_PROFILE_SCHEMA = ''mordant.settlement-profile/2''"

definition SETTLEMENT_PLAN_SCHEMA :: string where
  "SETTLEMENT_PLAN_SCHEMA = ''mordant.settlement-plan/1''"

definition SETTLEMENT_AUTHORIZATION_SCHEMA :: string where
  "SETTLEMENT_AUTHORIZATION_SCHEMA = ''mordant.settlement-authorization/1''"

definition SETTLEMENT_AUTHORIZED :: string where
  "SETTLEMENT_AUTHORIZED = ''AUTHORIZED''"

definition SETTLEMENT_NOT_AUTHORIZED :: string where
  "SETTLEMENT_NOT_AUTHORIZED = ''NOT_AUTHORIZED''"

abbreviation authority_error :: "string \<Rightarrow> merror" where
  "authority_error \<equiv> SettlementAuthorityError"

definition sameAddress :: "string \<Rightarrow> string \<Rightarrow> bool" where
  "sameAddress l r \<longleftrightarrow> toLowerCase l = toLowerCase r"

definition normalizeDigest :: "string \<Rightarrow> string" where
  "normalizeDigest s =
     (let lower = toLowerCase s
      in if take 7 lower = ''sha256:'' then drop 7 lower
         else if take 2 lower = ''0x'' then drop 2 lower else lower)"

definition sameDigest :: "string \<Rightarrow> string \<Rightarrow> bool" where
  "sameDigest l r \<longleftrightarrow> normalizeDigest l = normalizeDigest r"

definition atomic :: "string \<Rightarrow> nat result" where
  "atomic s = (if \<not> decimal_regex s then Inl (authority_error ''PROFILE_PAYOUT_FORMAT'') else Inr (read_nat s))"

text \<open>\<open>BigInt(text)\<close>: white space is trimmed, an empty text is zero, a sign only before decimal digits,
  radix prefixes without sign; anything else is a \<open>SyntaxError\<close>, here \<open>None\<close>.\<close>

definition radix_value :: "char \<Rightarrow> nat" where
  "radix_value c = (let n = (of_char (lower_char c) :: nat) in if 48 \<le> n \<and> n \<le> 57 then n - 48
     else if 97 \<le> n \<and> n \<le> 122 then n - 87 else 99)"

definition read_radix :: "nat \<Rightarrow> string \<Rightarrow> int option" where
  "read_radix b s = (if s = [] \<or> \<not> list_all (\<lambda>c. radix_value c < b) s then None
     else Some (int (foldl (\<lambda>a c. b * a + radix_value c) 0 s)))"

definition BigInt :: "string \<Rightarrow> int option" where
  "BigInt text =
     (let s = trim text
      in if s = [] then Some 0
         else if take 2 s \<in> {''0x'', ''0X''} then read_radix 16 (drop 2 s)
         else if take 2 s \<in> {''0o'', ''0O''} then read_radix 8 (drop 2 s)
         else if take 2 s \<in> {''0b'', ''0B''} then read_radix 2 (drop 2 s)
         else if hd s = CHR ''-'' then map_option uminus (read_radix 10 (tl s))
         else if hd s = CHR ''+'' then read_radix 10 (tl s)
         else read_radix 10 s)"

subsection \<open>Profiles\<close>

record CommittedCaseBinding =
  cc_runId :: string
  cc_caseId :: string
  cc_caseBindingDigest :: string
  cc_protectionBindingDigest :: string
  cc_releaseMode :: string

record CommittedParticipantConfig =
  cg_path :: string
  cg_sha256 :: string

record SettlementProfile =
  sp_schemaVersion :: string
  sp_profileId :: string
  sp_profileVersion :: int
  sp_caseBinding :: CommittedCaseBinding
  sp_participantConfig :: CommittedParticipantConfig
  sp_committedAtUnix :: int
  sp_chainId :: int
  sp_adapter :: string
  sp_settlementToken :: string
  sp_cviVerifier :: string
  sp_facility :: string
  sp_attestor :: string
  sp_holderA :: string
  sp_holderB :: string
  sp_payoutA :: string
  sp_payoutB :: string
  sp_cureWindowSeconds :: int
  sp_releaseAuthorityId :: string
  sp_settlementAuthorization :: string

definition profile_json :: "SettlementProfile \<Rightarrow> json" where
  "profile_json p = JObj [
     (''schemaVersion'', JStr (sp_schemaVersion p)),
     (''profileId'', JStr (sp_profileId p)),
     (''profileVersion'', JNum (sp_profileVersion p)),
     (''caseBinding'', JObj [
        (''runId'', JStr (cc_runId (sp_caseBinding p))),
        (''caseId'', JStr (toLowerCase (cc_caseId (sp_caseBinding p)))),
        (''caseBindingDigest'', JStr (toLowerCase (cc_caseBindingDigest (sp_caseBinding p)))),
        (''protectionBindingDigest'', JStr (toLowerCase (cc_protectionBindingDigest (sp_caseBinding p)))),
        (''releaseMode'', JStr (cc_releaseMode (sp_caseBinding p)))]),
     (''participantConfig'', JObj [
        (''path'', JStr (cg_path (sp_participantConfig p))),
        (''sha256'', JStr (toLowerCase (cg_sha256 (sp_participantConfig p))))]),
     (''committedAtUnix'', JNum (sp_committedAtUnix p)),
     (''chainId'', JNum (sp_chainId p)),
     (''adapter'', JStr (toLowerCase (sp_adapter p))),
     (''settlementToken'', JStr (toLowerCase (sp_settlementToken p))),
     (''cviVerifier'', JStr (toLowerCase (sp_cviVerifier p))),
     (''facility'', JStr (toLowerCase (sp_facility p))),
     (''attestor'', JStr (toLowerCase (sp_attestor p))),
     (''holderA'', JStr (toLowerCase (sp_holderA p))),
     (''holderB'', JStr (toLowerCase (sp_holderB p))),
     (''payoutA'', JStr (sp_payoutA p)),
     (''payoutB'', JStr (sp_payoutB p)),
     (''cureWindowSeconds'', JNum (sp_cureWindowSeconds p)),
     (''releaseAuthorityId'', JStr (toLowerCase (sp_releaseAuthorityId p))),
     (''settlementAuthorization'', JStr (sp_settlementAuthorization p))]"

definition canonicalProfile :: "SettlementProfile \<Rightarrow> string" where
  "canonicalProfile p = stringify (profile_json p)"

definition profile_text :: "SettlementProfile \<Rightarrow> string" where
  "profile_text p = ''MordantSettlementProfile/v2'' @ [CHR 0x00] @ canonicalProfile p"

definition settlementProfileDigest :: "(string \<Rightarrow> string) \<Rightarrow> SettlementProfile \<Rightarrow> string" where
  "settlementProfileDigest sha p = ''0x'' @ sha (profile_text p)"

definition assertWellFormedSettlementProfile :: "SettlementProfile \<Rightarrow> unit result" where
  "assertWellFormedSettlementProfile p =
     ebind (check (\<not> sp_schemaVersion p \<noteq> SETTLEMENT_PROFILE_SCHEMA) (authority_error ''PROFILE_SCHEMA'')) (\<lambda>_.
     ebind (check (list_all (fixed_regex ADDRESS_ANY) [sp_adapter p, sp_settlementToken p, sp_cviVerifier p, sp_facility p,
        sp_attestor p, sp_holderA p, sp_holderB p]) (authority_error ''PROFILE_ADDRESS'')) (\<lambda>_.
     ebind (atomic (sp_payoutA p)) (\<lambda>payoutA.
     ebind (atomic (sp_payoutB p)) (\<lambda>payoutB.
     ebind (check (\<not> payoutA + payoutB = 0) (authority_error ''PROFILE_ZERO_TOTAL'')) (\<lambda>_.
     ebind (check (\<not> (payoutA = 0 \<or> payoutB = 0)) (authority_error ''PROFILE_ZERO_HOLDER'')) (\<lambda>_.
     ebind (check (\<not> sameAddress (sp_holderA p) (sp_holderB p)) (authority_error ''PROFILE_HOLDER_COLLISION'')) (\<lambda>_.
     ebind (check (\<not> (\<not> isSafeInteger (sp_cureWindowSeconds p) \<or> sp_cureWindowSeconds p \<le> 0))
       (authority_error ''PROFILE_CURE_WINDOW'')) (\<lambda>_.
     ebind (check (\<not> (\<not> fixed_regex BYTES32_ANY (sp_releaseAuthorityId p) \<and> \<not> fixed_regex SHA256_ANY (sp_releaseAuthorityId p)))
       (authority_error ''PROFILE_AUTHORITY'')) (\<lambda>_.
     check (\<not> (sp_settlementAuthorization p \<noteq> SETTLEMENT_AUTHORIZED
            \<and> sp_settlementAuthorization p \<noteq> SETTLEMENT_NOT_AUTHORIZED))
       (authority_error ''PROFILE_AUTHORIZATION_MODE''))))))))))"

subsection \<open>Plans and authorizations\<close>

record GovernedResultFacts =
  gf_governedResultDigest :: string
  gf_runId :: string
  gf_releaseAuthorityId :: string
  gf_conflict :: bool
  gf_caseId :: string
  gf_caseBindingDigest :: string

record SettlementPlan =
  pl_schemaVersion :: string
  pl_settlementProfileDigest :: string
  pl_governedResultDigest :: string
  pl_runId :: string
  pl_releaseAuthorityId :: string
  pl_conflict :: bool
  pl_adapter :: string
  pl_chainId :: int
  pl_holderA :: string
  pl_holderB :: string
  pl_payoutA :: string
  pl_payoutB :: string
  pl_cureWindowSeconds :: int

definition settlement_plan_json :: "SettlementPlan \<Rightarrow> json" where
  "settlement_plan_json p = JObj [
     (''schemaVersion'', JStr (pl_schemaVersion p)),
     (''settlementProfileDigest'', JStr (toLowerCase (pl_settlementProfileDigest p))),
     (''governedResultDigest'', JStr (toLowerCase (pl_governedResultDigest p))),
     (''runId'', JStr (toLowerCase (pl_runId p))),
     (''releaseAuthorityId'', JStr (toLowerCase (pl_releaseAuthorityId p))),
     (''conflict'', JBool (pl_conflict p)),
     (''adapter'', JStr (toLowerCase (pl_adapter p))),
     (''chainId'', JNum (pl_chainId p)),
     (''holderA'', JStr (toLowerCase (pl_holderA p))),
     (''holderB'', JStr (toLowerCase (pl_holderB p))),
     (''payoutA'', JStr (pl_payoutA p)),
     (''payoutB'', JStr (pl_payoutB p)),
     (''cureWindowSeconds'', JNum (pl_cureWindowSeconds p))]"

definition canonicalPlan :: "SettlementPlan \<Rightarrow> string" where
  "canonicalPlan p = stringify (settlement_plan_json p)"

definition settlement_plan_text :: "SettlementPlan \<Rightarrow> string" where
  "settlement_plan_text p = ''MordantSettlementPlan/v1'' @ [CHR 0x00] @ canonicalPlan p"

definition settlementPlanHash :: "(string \<Rightarrow> string) \<Rightarrow> SettlementPlan \<Rightarrow> string" where
  "settlementPlanHash sha p = ''0x'' @ sha (settlement_plan_text p)"

definition deriveSettlementPlan ::
  "(string \<Rightarrow> string) \<Rightarrow> SettlementProfile \<Rightarrow> string \<Rightarrow> GovernedResultFacts \<Rightarrow> SettlementPlan result" where
  "deriveSettlementPlan sha profile committedDigest result =
     ebind (assertWellFormedSettlementProfile profile) (\<lambda>_.
     ebind (check (sameDigest (settlementProfileDigest sha profile) committedDigest) (authority_error ''PROFILE_TAMPERED'')) (\<lambda>_.
     ebind (check (\<not> sp_settlementAuthorization profile \<noteq> SETTLEMENT_AUTHORIZED) (authority_error ''SETTLEMENT_NOT_AUTHORIZED'')) (\<lambda>_.
     ebind (check (sameDigest (sp_releaseAuthorityId profile) (gf_releaseAuthorityId result)) (authority_error ''AUTHORITY_MISMATCH'')) (\<lambda>_.
     ebind (check (sameDigest (cc_caseId (sp_caseBinding profile)) (gf_caseId result)) (authority_error ''CASE_MISMATCH'')) (\<lambda>_.
     ebind (check (sameDigest (cc_caseBindingDigest (sp_caseBinding profile)) (gf_caseBindingDigest result))
       (authority_error ''CASE_BINDING_MISMATCH'')) (\<lambda>_.
     ebind (check (gf_conflict result) (authority_error ''NO_CONFLICT'')) (\<lambda>_.
     ebind (check (fixed_regex BYTES32_ANY (gf_governedResultDigest result)) (authority_error ''RESULT_DIGEST'')) (\<lambda>_.
     ebind (check (fixed_regex BYTES32_ANY (gf_runId result)) (authority_error ''RUN_ID'')) (\<lambda>_.
     Inr \<lparr>pl_schemaVersion = SETTLEMENT_PLAN_SCHEMA,
       pl_settlementProfileDigest = committedDigest,
       pl_governedResultDigest = gf_governedResultDigest result,
       pl_runId = gf_runId result,
       pl_releaseAuthorityId = sp_releaseAuthorityId profile,
       pl_conflict = True,
       pl_adapter = sp_adapter profile,
       pl_chainId = sp_chainId profile,
       pl_holderA = sp_holderA profile,
       pl_holderB = sp_holderB profile,
       pl_payoutA = sp_payoutA profile,
       pl_payoutB = sp_payoutB profile,
       pl_cureWindowSeconds = sp_cureWindowSeconds profile\<rparr>)))))))))"

record SettlementAuthorization =
  sa_schemaVersion :: string
  sa_planHash :: string
  sa_settlementProfileDigest :: string
  sa_governedResultDigest :: string
  sa_runId :: string
  sa_adapter :: string
  sa_chainId :: int
  sa_holderA :: string
  sa_holderB :: string
  sa_payoutA :: string
  sa_payoutB :: string
  sa_cureWindowSeconds :: int

definition settlement_authorization_json :: "SettlementAuthorization \<Rightarrow> json" where
  "settlement_authorization_json a = JObj [
     (''schemaVersion'', JStr (sa_schemaVersion a)),
     (''planHash'', JStr (toLowerCase (sa_planHash a))),
     (''settlementProfileDigest'', JStr (toLowerCase (sa_settlementProfileDigest a))),
     (''governedResultDigest'', JStr (toLowerCase (sa_governedResultDigest a))),
     (''runId'', JStr (toLowerCase (sa_runId a))),
     (''adapter'', JStr (toLowerCase (sa_adapter a))),
     (''chainId'', JNum (sa_chainId a)),
     (''holderA'', JStr (toLowerCase (sa_holderA a))),
     (''holderB'', JStr (toLowerCase (sa_holderB a))),
     (''payoutA'', JStr (sa_payoutA a)),
     (''payoutB'', JStr (sa_payoutB a)),
     (''cureWindowSeconds'', JNum (sa_cureWindowSeconds a))]"

definition settlementAuthorizationHash :: "(string \<Rightarrow> string) \<Rightarrow> SettlementAuthorization \<Rightarrow> string" where
  "settlementAuthorizationHash sha a =
     ''0x'' @ sha (''MordantSettlementAuthorization/v1'' @ [CHR 0x00] @ stringify (settlement_authorization_json a))"

definition deriveSettlementAuthorization :: "(string \<Rightarrow> string) \<Rightarrow> SettlementPlan \<Rightarrow> SettlementAuthorization" where
  "deriveSettlementAuthorization sha plan = \<lparr>
     sa_schemaVersion = SETTLEMENT_AUTHORIZATION_SCHEMA,
     sa_planHash = settlementPlanHash sha plan,
     sa_settlementProfileDigest = pl_settlementProfileDigest plan,
     sa_governedResultDigest = pl_governedResultDigest plan,
     sa_runId = pl_runId plan,
     sa_adapter = pl_adapter plan,
     sa_chainId = pl_chainId plan,
     sa_holderA = pl_holderA plan,
     sa_holderB = pl_holderB plan,
     sa_payoutA = pl_payoutA plan,
     sa_payoutB = pl_payoutB plan,
     sa_cureWindowSeconds = pl_cureWindowSeconds plan\<rparr>"

record AuthorizedReleaseFacts =
  rf_adapter :: string
  rf_chainId :: int
  rf_governedResultDigest :: string
  rf_runId :: string
  rf_holderA :: string
  rf_holderB :: string
  rf_payoutA :: int
  rf_payoutB :: int
  rf_conflict :: bool

definition assertSettlementAuthorization ::
  "(string \<Rightarrow> string) \<Rightarrow> SettlementAuthorization \<Rightarrow> SettlementPlan \<Rightarrow> AuthorizedReleaseFacts \<Rightarrow> unit result" where
  "assertSettlementAuthorization sha a plan release =
     ebind (check (\<not> sa_schemaVersion a \<noteq> SETTLEMENT_AUTHORIZATION_SCHEMA) (authority_error ''AUTHORIZATION_SCHEMA'')) (\<lambda>_.
     ebind (check (sameDigest (sa_planHash a) (settlementPlanHash sha plan)) (authority_error ''PLAN_MISMATCH'')) (\<lambda>_.
     ebind (check (sameDigest (sa_settlementProfileDigest a) (pl_settlementProfileDigest plan))
       (authority_error ''PROFILE_DIGEST_MISMATCH'')) (\<lambda>_.
     ebind (check (rf_conflict release) (authority_error ''NO_CONFLICT_RELEASE'')) (\<lambda>_.
     ebind (check (sameDigest (sa_governedResultDigest a) (rf_governedResultDigest release)) (authority_error ''RESULT_MISMATCH'')) (\<lambda>_.
     ebind (check (sameDigest (sa_runId a) (rf_runId release)) (authority_error ''RUN_MISMATCH'')) (\<lambda>_.
     ebind (check (sameAddress (sa_adapter a) (rf_adapter release)) (authority_error ''ADAPTER_MISMATCH'')) (\<lambda>_.
     ebind (check (sa_chainId a = rf_chainId release) (authority_error ''CHAIN_MISMATCH'')) (\<lambda>_.
     ebind (check (sameAddress (sa_holderA a) (rf_holderA release) \<and> sameAddress (sa_holderB a) (rf_holderB release))
       (authority_error ''HOLDER_MISMATCH'')) (\<lambda>_.
     case BigInt (sa_payoutA a) of
       None \<Rightarrow> Inl SyntaxError
     | Some payoutA \<Rightarrow>
         if payoutA \<noteq> rf_payoutA release then Inl (authority_error ''PAYOUT_MISMATCH'')
         else (case BigInt (sa_payoutB a) of
                 None \<Rightarrow> Inl SyntaxError
               | Some payoutB \<Rightarrow> check (payoutB = rf_payoutB release) (authority_error ''PAYOUT_MISMATCH''))))))))))) "

text \<open>
  The settlement gate at the start of the bridge's \<open>simulate\<close>, before the signing key is loaded. The
  settlement is absent or a plan with its authorization.
\<close>

definition simulate_settlement_gate ::
  "(string \<Rightarrow> string) \<Rightarrow> (SettlementAuthorization \<times> SettlementPlan) option \<Rightarrow> AuthorizedReleaseFacts \<Rightarrow> unit result" where
  "simulate_settlement_gate sha settlement release =
     (if rf_payoutA release + rf_payoutB release > 0
      then (case settlement of
              None \<Rightarrow> Inl (BridgeExecutionError ''SETTLEMENT_NOT_AUTHORIZED'')
            | Some (a, plan) \<Rightarrow>
                (case assertSettlementAuthorization sha a plan release of
                   Inr u \<Rightarrow> Inr u
                 | Inl (SettlementAuthorityError code) \<Rightarrow> Inl (BridgeExecutionError (''SETTLEMENT_'' @ code))
                 | Inl e \<Rightarrow> Inl e))
      else Inr ())"

subsection \<open>Amounts and identifiers: what the comparisons mean\<close>

lemma digit_radix_value: "is_digit c \<Longrightarrow> radix_value c = digit_value c"
  by (auto simp: is_digit_iff radix_value_def lower_char_def digit_value_def Let_def)

lemma digit_not_space: "is_digit c \<Longrightarrow> \<not> js_space c"
  by (auto simp: is_digit_iff js_space_def)

lemma trim_digits:
  assumes "list_all is_digit s"
  shows "trim s = s"
proof -
  have "dropWhile js_space t = t" if "list_all is_digit t" for t
    using that digit_not_space by (cases t) auto
  with assms show ?thesis by (simp add: trim_def list_all_rev)
qed

lemma fold_radix_digits:
  "list_all is_digit s \<Longrightarrow> foldl (\<lambda>a c. 10 * a + radix_value c) n s = foldl (\<lambda>a c. 10 * a + digit_value c) n s"
  by (induction s arbitrary: n) (auto simp: digit_radix_value)

lemma read_radix_digits:
  assumes "list_all is_digit s" "s \<noteq> []"
  shows "read_radix 10 s = Some (int (read_nat s))"
proof -
  have "list_all (\<lambda>c. radix_value c < 10) s"
    using assms(1) by (auto simp: list_all_iff digit_radix_value digit_value_less)
  with assms show ?thesis by (simp add: read_radix_def read_nat_def fold_radix_digits)
qed

lemma decimal_digits: "decimal_regex s \<Longrightarrow> list_all is_digit s \<and> s \<noteq> []"
  by (auto simp: decimal_regex_def is_digit_def split: list.splits)

lemma decimal_no_prefix: "decimal_regex s \<Longrightarrow> take 2 s \<noteq> [CHR ''0'', c]"
  by (auto simp: decimal_regex_def split: list.splits)

lemma BigInt_decimal:
  assumes "decimal_regex s"
  shows "BigInt s = Some (int (read_nat s))"
proof -
  have d: "list_all is_digit s" "s \<noteq> []" using decimal_digits [OF assms] by auto
  then have "hd s \<noteq> CHR ''-''" "hd s \<noteq> CHR ''+''" by (cases s; auto simp: is_digit_def)+
  with d show ?thesis
    by (simp add: BigInt_def Let_def trim_digits read_radix_digits decimal_no_prefix [OF assms])
qed

lemma atomic_ok [result_simps]: "atomic s = Inr n \<longleftrightarrow> decimal_regex s \<and> n = read_nat s"
  by (auto simp: atomic_def)

lemma sameDigest_refl [simp]: "sameDigest x x"
  by (simp add: sameDigest_def)

lemma sameAddress_refl [simp]: "sameAddress x x"
  by (simp add: sameAddress_def)

lemma normalizeDigest_0x: "list_all lower_hex h \<Longrightarrow> normalizeDigest (''0x'' @ h) = h"
  by (auto simp: normalizeDigest_def Let_def toLowerCase_hex toLowerCase_def [of "[c]" for c] toLowerCase_def lower_char_def
      dest: toLowerCase_hex)

lemma sameDigest_hex:
  assumes "hex_digest sha"
  shows "sameDigest (''0x'' @ sha x) (''0x'' @ sha y) \<longleftrightarrow> sha x = sha y"
  using assms unfolding sameDigest_def hex_digest_def by (metis normalizeDigest_0x)

subsection \<open>Well-formed profiles and derived plans\<close>

definition profile_ok :: "SettlementProfile \<Rightarrow> bool" where
  "profile_ok p \<longleftrightarrow> sp_schemaVersion p = SETTLEMENT_PROFILE_SCHEMA
     \<and> list_all (fixed_regex ADDRESS_ANY) [sp_adapter p, sp_settlementToken p, sp_cviVerifier p, sp_facility p,
          sp_attestor p, sp_holderA p, sp_holderB p]
     \<and> decimal_regex (sp_payoutA p) \<and> 0 < read_nat (sp_payoutA p)
     \<and> decimal_regex (sp_payoutB p) \<and> 0 < read_nat (sp_payoutB p)
     \<and> \<not> sameAddress (sp_holderA p) (sp_holderB p)
     \<and> 0 < sp_cureWindowSeconds p \<and> sp_cureWindowSeconds p \<le> MAX_SAFE_INTEGER
     \<and> (fixed_regex BYTES32_ANY (sp_releaseAuthorityId p) \<or> fixed_regex SHA256_ANY (sp_releaseAuthorityId p))
     \<and> sp_settlementAuthorization p \<in> {SETTLEMENT_AUTHORIZED, SETTLEMENT_NOT_AUTHORIZED}"

lemma wellFormed_iff: "assertWellFormedSettlementProfile p = Inr () \<longleftrightarrow> profile_ok p"
  unfolding assertWellFormedSettlementProfile_def profile_ok_def ebind_eq_Inr check_eq_Inr atomic_ok isSafeInteger_def
  by auto

definition plan_of :: "SettlementProfile \<Rightarrow> string \<Rightarrow> GovernedResultFacts \<Rightarrow> SettlementPlan" where
  "plan_of p d r = \<lparr>pl_schemaVersion = SETTLEMENT_PLAN_SCHEMA, pl_settlementProfileDigest = d,
     pl_governedResultDigest = gf_governedResultDigest r, pl_runId = gf_runId r,
     pl_releaseAuthorityId = sp_releaseAuthorityId p, pl_conflict = True, pl_adapter = sp_adapter p, pl_chainId = sp_chainId p,
     pl_holderA = sp_holderA p, pl_holderB = sp_holderB p, pl_payoutA = sp_payoutA p, pl_payoutB = sp_payoutB p,
     pl_cureWindowSeconds = sp_cureWindowSeconds p\<rparr>"

lemma derive_iff:
  "deriveSettlementPlan sha p d r = Inr plan \<longleftrightarrow>
     profile_ok p \<and> sameDigest (settlementProfileDigest sha p) d \<and> sp_settlementAuthorization p = SETTLEMENT_AUTHORIZED
     \<and> sameDigest (sp_releaseAuthorityId p) (gf_releaseAuthorityId r)
     \<and> sameDigest (cc_caseId (sp_caseBinding p)) (gf_caseId r)
     \<and> sameDigest (cc_caseBindingDigest (sp_caseBinding p)) (gf_caseBindingDigest r)
     \<and> gf_conflict r \<and> fixed_regex BYTES32_ANY (gf_governedResultDigest r) \<and> fixed_regex BYTES32_ANY (gf_runId r)
     \<and> plan = plan_of p d r"
  unfolding deriveSettlementPlan_def ebind_eq_Inr check_eq_Inr plan_of_def by (auto simp: wellFormed_iff)

subsection \<open>The gate\<close>

lemma gate_derived_iff:
  assumes "decimal_regex (pl_payoutA plan)" "decimal_regex (pl_payoutB plan)"
  shows "assertSettlementAuthorization sha (deriveSettlementAuthorization sha plan) plan release = Inr () \<longleftrightarrow>
     rf_conflict release \<and> sameDigest (pl_governedResultDigest plan) (rf_governedResultDigest release)
     \<and> sameDigest (pl_runId plan) (rf_runId release) \<and> sameAddress (pl_adapter plan) (rf_adapter release)
     \<and> pl_chainId plan = rf_chainId release
     \<and> sameAddress (pl_holderA plan) (rf_holderA release) \<and> sameAddress (pl_holderB plan) (rf_holderB release)
     \<and> rf_payoutA release = int (read_nat (pl_payoutA plan)) \<and> rf_payoutB release = int (read_nat (pl_payoutB plan))"
  using assms
  by (auto simp: assertSettlementAuthorization_def deriveSettlementAuthorization_def result_simps BigInt_decimal)

lemma simulate_gate_ok:
  assumes "0 < rf_payoutA release + rf_payoutB release"
  shows "simulate_settlement_gate sha (Some (a, plan)) release = Inr () \<longleftrightarrow> assertSettlementAuthorization sha a plan release = Inr ()"
  using assms by (auto simp: simulate_settlement_gate_def split: sum.splits merror.splits)

text \<open>C4: With the authorization derived from a profile and a governed result, the bridge gate lets a paying
  release pass exactly when the release is a conflict release for that result and run, through the
  committed adapter and chain, to the two committed holders, for exactly the committed amounts; the
  profile was authorized, its digest is the committed one, and the result carries the committed case
  and authority and reports a conflict.\<close>

theorem derived_authority_pays_exactly_the_commitment:
  assumes "deriveSettlementPlan sha profile committed result = Inr plan"
    and "0 < rf_payoutA release + rf_payoutB release"
  shows "(simulate_settlement_gate sha (Some (deriveSettlementAuthorization sha plan, plan)) release = Inr () \<longleftrightarrow>
       rf_conflict release \<and> sameDigest (gf_governedResultDigest result) (rf_governedResultDigest release)
       \<and> sameDigest (gf_runId result) (rf_runId release) \<and> sameAddress (sp_adapter profile) (rf_adapter release)
       \<and> sp_chainId profile = rf_chainId release
       \<and> sameAddress (sp_holderA profile) (rf_holderA release) \<and> sameAddress (sp_holderB profile) (rf_holderB release)
       \<and> rf_payoutA release = int (read_nat (sp_payoutA profile)) \<and> rf_payoutB release = int (read_nat (sp_payoutB profile)))
     \<and> sp_settlementAuthorization profile = SETTLEMENT_AUTHORIZED
     \<and> sameDigest (settlementProfileDigest sha profile) committed \<and> gf_conflict result
     \<and> sameDigest (sp_releaseAuthorityId profile) (gf_releaseAuthorityId result)
     \<and> sameDigest (cc_caseId (sp_caseBinding profile)) (gf_caseId result)"
proof -
  from assms(1) have plan: "plan = plan_of profile committed result" and ok: "profile_ok profile"
    by (simp_all add: derive_iff)
  have "decimal_regex (pl_payoutA plan)" "decimal_regex (pl_payoutB plan)"
    using ok by (simp_all add: plan plan_of_def profile_ok_def)
  from gate_derived_iff [OF this] assms show ?thesis
    by (simp add: simulate_gate_ok derive_iff plan plan_of_def)
qed

text \<open>Nothing moves value without an authorization: with no settlement, or for a profile that is not
  authorized, or for a result without conflict, no paying release passes.\<close>

theorem no_authority_no_payment:
  assumes "0 < rf_payoutA release + rf_payoutB release"
  shows "simulate_settlement_gate sha None release = Inl (BridgeExecutionError ''SETTLEMENT_NOT_AUTHORIZED'')
     \<and> (sp_settlementAuthorization profile \<noteq> SETTLEMENT_AUTHORIZED \<or> \<not> gf_conflict result
          \<longrightarrow> \<not> is_ok (deriveSettlementPlan sha profile committed result))
     \<and> (\<not> rf_conflict release \<longrightarrow> \<not> is_ok (simulate_settlement_gate sha (Some (a, plan)) release))"
proof (intro conjI impI)
  show "simulate_settlement_gate sha None release = Inl (BridgeExecutionError ''SETTLEMENT_NOT_AUTHORIZED'')"
    using assms by (simp add: simulate_settlement_gate_def)
  show "\<not> is_ok (deriveSettlementPlan sha profile committed result)"
    if "sp_settlementAuthorization profile \<noteq> SETTLEMENT_AUTHORIZED \<or> \<not> gf_conflict result"
    using that by (auto simp: is_ok_iff derive_iff)
  show "\<not> is_ok (simulate_settlement_gate sha (Some (a, plan)) release)" if "\<not> rf_conflict release"
    using that simulate_gate_ok [OF assms]
    by (simp add: is_ok_iff assertSettlementAuthorization_def ebind_eq_Inr check_eq_Inr)
qed

subsection \<open>The digest commits to the economics\<close>

text \<open>The profile with the identifiers in the letter case the digest uses.\<close>

definition folded_profile :: "SettlementProfile \<Rightarrow> SettlementProfile" where
  "folded_profile p = p\<lparr>
     sp_caseBinding := (sp_caseBinding p)\<lparr>cc_caseId := toLowerCase (cc_caseId (sp_caseBinding p)),
       cc_caseBindingDigest := toLowerCase (cc_caseBindingDigest (sp_caseBinding p)),
       cc_protectionBindingDigest := toLowerCase (cc_protectionBindingDigest (sp_caseBinding p))\<rparr>,
     sp_participantConfig := (sp_participantConfig p)\<lparr>cg_sha256 := toLowerCase (cg_sha256 (sp_participantConfig p))\<rparr>,
     sp_adapter := toLowerCase (sp_adapter p), sp_settlementToken := toLowerCase (sp_settlementToken p),
     sp_cviVerifier := toLowerCase (sp_cviVerifier p), sp_facility := toLowerCase (sp_facility p),
     sp_attestor := toLowerCase (sp_attestor p), sp_holderA := toLowerCase (sp_holderA p), sp_holderB := toLowerCase (sp_holderB p),
     sp_releaseAuthorityId := toLowerCase (sp_releaseAuthorityId p)\<rparr>"

lemma profile_json_eq_iff: "profile_json p = profile_json q \<longleftrightarrow> folded_profile p = folded_profile q"
  by (cases p; cases q; cases "sp_caseBinding p"; cases "sp_caseBinding q"; cases "sp_participantConfig p"; cases "sp_participantConfig q")
    (auto simp: profile_json_def folded_profile_def)

interpretation profile_commitment: commitment "\<lambda>v. ''MordantSettlementProfile/v2'' @ [CHR 0x00] @ stringify v"
  by unfold_locales (simp add: json_text.encode_eq_iff)

lemma profile_digest_binds:
  assumes "hex_digest sha"
  shows "sameDigest (settlementProfileDigest sha p) (settlementProfileDigest sha q) \<longleftrightarrow>
     folded_profile p = folded_profile q \<or> collides sha (profile_text p) (profile_text q)"
  using profile_commitment.binding [of sha "profile_json p" "profile_json q"]
  by (simp add: settlementProfileDigest_def profile_text_def canonicalProfile_def sameDigest_hex [OF assms, simplified] profile_json_eq_iff)

text \<open>A plan can only be derived from the profile whose digest was committed: against the digest of
  \<open>profile\<close>, any other profile that yields a plan has the same terms up to the letter case of its
  identifiers, so the same holders, amounts, adapter, chain and cure window, or the two profile texts
  are an explicit SHA-256 collision.\<close>

theorem tampered_profile_refused:
  assumes "hex_digest sha" and "deriveSettlementPlan sha other (settlementProfileDigest sha profile) result = Inr plan"
  shows "(sp_payoutA other = sp_payoutA profile \<and> sp_payoutB other = sp_payoutB profile
       \<and> sameAddress (sp_holderA other) (sp_holderA profile) \<and> sameAddress (sp_holderB other) (sp_holderB profile)
       \<and> sameAddress (sp_adapter other) (sp_adapter profile) \<and> sp_chainId other = sp_chainId profile
       \<and> sp_cureWindowSeconds other = sp_cureWindowSeconds profile \<and> folded_profile other = folded_profile profile)
     \<or> collides sha (profile_text other) (profile_text profile)"
proof -
  have "sameDigest (settlementProfileDigest sha other) (settlementProfileDigest sha profile)"
    using assms(2) by (simp add: derive_iff)
  then consider "folded_profile other = folded_profile profile" | "collides sha (profile_text other) (profile_text profile)"
    using profile_digest_binds [OF assms(1)] by blast
  then show ?thesis
  proof cases
    case 1
    then have "f (folded_profile other) = f (folded_profile profile)" for f :: "SettlementProfile \<Rightarrow> string" by simp
    from this [of sp_payoutA] this [of sp_payoutB] this [of sp_holderA] this [of sp_holderB] this [of sp_adapter]
      arg_cong [OF 1, of sp_chainId] arg_cong [OF 1, of sp_cureWindowSeconds] 1
    show ?thesis by (simp add: folded_profile_def sameAddress_def)
  qed simp
qed

subsection \<open>What the gate does not compare\<close>

text \<open>C9: The gate does not compare the economics of an authorization with the plan it is checked against.
  For every plan, an authorization that only carries the plan's hash and profile digest but names any
  other adapter, chain, result, run, holders and amounts passes together with a release that agrees
  with it: the payout and the holders of the plan play no part.\<close>

theorem gate_ignores_plan_economics:
  assumes "decimal_regex amountA" "decimal_regex amountB"
  shows "simulate_settlement_gate sha
     (Some ((deriveSettlementAuthorization sha plan)\<lparr>sa_governedResultDigest := anyResult, sa_runId := anyRun,
        sa_adapter := anyAdapter, sa_chainId := anyChain, sa_holderA := payeeA, sa_holderB := payeeB,
        sa_payoutA := amountA, sa_payoutB := amountB\<rparr>, plan))
     \<lparr>rf_adapter = anyAdapter, rf_chainId = anyChain, rf_governedResultDigest = anyResult, rf_runId = anyRun,
        rf_holderA = payeeA, rf_holderB = payeeB, rf_payoutA = int (read_nat amountA), rf_payoutB = int (read_nat amountB),
        rf_conflict = True\<rparr> = Inr ()"
  using BigInt_decimal [OF assms(1)] BigInt_decimal [OF assms(2)]
  by (simp add: simulate_settlement_gate_def assertSettlementAuthorization_def deriveSettlementAuthorization_def)

text \<open>C10: Of the committed case binding only the case id and the case binding digest are compared with the
  result. The committed run id, protection binding digest and release mode never influence the
  derivation: changing them, with the digest recomputed, gives the same plan up to that digest, or the
  same error.\<close>

theorem derivation_ignores_rest_of_case_binding:
  assumes "hex_digest sha"
    and "changed = profile\<lparr>sp_caseBinding := (sp_caseBinding profile)\<lparr>cc_runId := anyRun,
        cc_protectionBindingDigest := anyBinding, cc_releaseMode := anyMode\<rparr>\<rparr>"
  shows "deriveSettlementPlan sha changed (settlementProfileDigest sha changed) result =
     ebind (deriveSettlementPlan sha profile (settlementProfileDigest sha profile) result)
       (\<lambda>plan. Inr (plan\<lparr>pl_settlementProfileDigest := settlementProfileDigest sha changed\<rparr>))"
proof -
  have "assertWellFormedSettlementProfile changed = assertWellFormedSettlementProfile profile"
    by (simp add: assms(2) assertWellFormedSettlementProfile_def)
  moreover have "sp_settlementAuthorization changed = sp_settlementAuthorization profile"
    "sp_releaseAuthorityId changed = sp_releaseAuthorityId profile" "cc_caseId (sp_caseBinding changed) = cc_caseId (sp_caseBinding profile)"
    "cc_caseBindingDigest (sp_caseBinding changed) = cc_caseBindingDigest (sp_caseBinding profile)"
    "sp_adapter changed = sp_adapter profile" "sp_chainId changed = sp_chainId profile" "sp_holderA changed = sp_holderA profile"
    "sp_holderB changed = sp_holderB profile" "sp_payoutA changed = sp_payoutA profile" "sp_payoutB changed = sp_payoutB profile"
    "sp_cureWindowSeconds changed = sp_cureWindowSeconds profile" by (simp_all add: assms(2))
  ultimately show ?thesis
    by (simp add: deriveSettlementPlan_def ebind_assoc)
qed

subsection \<open>A concrete settlement\<close>

definition sample_address :: "char \<Rightarrow> string" where
  "sample_address c = ''0x'' @ replicate 40 c"

definition sample_profile :: SettlementProfile where
  "sample_profile = \<lparr>sp_schemaVersion = SETTLEMENT_PROFILE_SCHEMA, sp_profileId = ''demo'', sp_profileVersion = 1,
     sp_caseBinding = \<lparr>cc_runId = ''run'', cc_caseId = ''sha256:aa'', cc_caseBindingDigest = ''sha256:bb'',
       cc_protectionBindingDigest = ''sha256:cc'', cc_releaseMode = ''governed-decryptor-v1''\<rparr>,
     sp_participantConfig = \<lparr>cg_path = ''config.json'', cg_sha256 = ''dd''\<rparr>, sp_committedAtUnix = 1700000000, sp_chainId = 10143,
     sp_adapter = sample_address CHR ''1'', sp_settlementToken = sample_address CHR ''2'', sp_cviVerifier = sample_address CHR ''3'',
     sp_facility = sample_address CHR ''4'', sp_attestor = sample_address CHR ''5'', sp_holderA = sample_address CHR ''6'',
     sp_holderB = sample_address CHR ''7'', sp_payoutA = ''60'', sp_payoutB = ''40'', sp_cureWindowSeconds = 600,
     sp_releaseAuthorityId = ''sha256:'' @ replicate 64 CHR ''e'', sp_settlementAuthorization = SETTLEMENT_AUTHORIZED\<rparr>"

definition sample_facts :: GovernedResultFacts where
  "sample_facts = \<lparr>gf_governedResultDigest = ''0x'' @ replicate 64 CHR ''a'', gf_runId = ''0x'' @ replicate 64 CHR ''b'',
     gf_releaseAuthorityId = ''0x'' @ replicate 64 CHR ''e'', gf_conflict = True, gf_caseId = ''0xAA'', gf_caseBindingDigest = ''sha256:bb''\<rparr>"

lemma sample_profile_ok: "profile_ok sample_profile"
  by code_simp

lemma sample_matches:
  "sameDigest (sp_releaseAuthorityId sample_profile) (gf_releaseAuthorityId sample_facts)
   \<and> sameDigest (cc_caseId (sp_caseBinding sample_profile)) (gf_caseId sample_facts)
   \<and> sameDigest (cc_caseBindingDigest (sp_caseBinding sample_profile)) (gf_caseBindingDigest sample_facts)
   \<and> fixed_regex BYTES32_ANY (gf_governedResultDigest sample_facts) \<and> fixed_regex BYTES32_ANY (gf_runId sample_facts)"
  by code_simp

definition sample_settlement_plan :: SettlementPlan where
  "sample_settlement_plan = plan_of sample_profile (settlementProfileDigest zero_sha sample_profile) sample_facts"

lemma sample_derived:
  "deriveSettlementPlan zero_sha sample_profile (settlementProfileDigest zero_sha sample_profile) sample_facts = Inr sample_settlement_plan"
  using sample_profile_ok sample_matches
  by (simp add: derive_iff sample_settlement_plan_def) (simp add: sample_profile_def sample_facts_def)

definition sample_release :: AuthorizedReleaseFacts where
  "sample_release = \<lparr>rf_adapter = sample_address CHR ''1'', rf_chainId = 10143, rf_governedResultDigest = ''0x'' @ replicate 64 CHR ''a'',
     rf_runId = ''0x'' @ replicate 64 CHR ''b'', rf_holderA = sample_address CHR ''6'', rf_holderB = sample_address CHR ''7'',
     rf_payoutA = 60, rf_payoutB = 40, rf_conflict = True\<rparr>"

lemma sample_amounts: "read_nat ''60'' = 60" "read_nat ''40'' = 40" "decimal_regex ''1''"
  by code_simp+

theorem derived_authority_pays_exactly_the_commitment_witness:
  "simulate_settlement_gate zero_sha (Some (deriveSettlementAuthorization zero_sha sample_settlement_plan, sample_settlement_plan))
     sample_release = Inr ()
   \<and> simulate_settlement_gate zero_sha (Some (deriveSettlementAuthorization zero_sha sample_settlement_plan, sample_settlement_plan))
     (sample_release\<lparr>rf_payoutA := 61\<rparr>) \<noteq> Inr ()"
  using derived_authority_pays_exactly_the_commitment [OF sample_derived, of sample_release]
    derived_authority_pays_exactly_the_commitment [OF sample_derived, of "sample_release\<lparr>rf_payoutA := 61\<rparr>"]
  by (simp add: sample_release_def sample_profile_def sample_facts_def sample_amounts)

theorem no_authority_no_payment_witness:
  "simulate_settlement_gate zero_sha None sample_release = Inl (BridgeExecutionError ''SETTLEMENT_NOT_AUTHORIZED'')
   \<and> \<not> is_ok (deriveSettlementPlan zero_sha sample_profile (settlementProfileDigest zero_sha sample_profile) (sample_facts\<lparr>gf_conflict := False\<rparr>))"
  using no_authority_no_payment [of sample_release zero_sha sample_profile "sample_facts\<lparr>gf_conflict := False\<rparr>"
      "settlementProfileDigest zero_sha sample_profile"]
  by (simp add: sample_release_def)

theorem tampered_profile_refused_witness:
  "\<exists>other. sp_payoutA other = ''60'' \<and> is_ok (deriveSettlementPlan zero_sha other (settlementProfileDigest zero_sha sample_profile) sample_facts)"
  using tampered_profile_refused [OF zero_sha_hex sample_derived] sample_derived
  by (auto simp: is_ok_iff collides_def sample_profile_def intro!: exI [of _ sample_profile])

theorem gate_ignores_plan_economics_witness:
  "simulate_settlement_gate zero_sha
     (Some ((deriveSettlementAuthorization zero_sha sample_settlement_plan)\<lparr>sa_governedResultDigest := pl_governedResultDigest sample_settlement_plan,
        sa_runId := pl_runId sample_settlement_plan, sa_adapter := pl_adapter sample_settlement_plan, sa_chainId := 10143,
        sa_holderA := sample_address CHR ''8'', sa_holderB := sample_address CHR ''9'', sa_payoutA := ''60'', sa_payoutB := ''1''\<rparr>,
        sample_settlement_plan))
     \<lparr>rf_adapter = pl_adapter sample_settlement_plan, rf_chainId = 10143, rf_governedResultDigest = pl_governedResultDigest sample_settlement_plan,
        rf_runId = pl_runId sample_settlement_plan, rf_holderA = sample_address CHR ''8'', rf_holderB = sample_address CHR ''9'',
        rf_payoutA = 60, rf_payoutB = int (read_nat ''1''), rf_conflict = True\<rparr> = Inr ()
   \<and> \<not> sameAddress (pl_holderA sample_settlement_plan) (sample_address CHR ''8'')"
proof -
  have "decimal_regex ''60''" by code_simp
  note gate_ignores_plan_economics [OF this sample_amounts(3), where sha = zero_sha and plan = sample_settlement_plan
      and anyResult = "pl_governedResultDigest sample_settlement_plan" and anyRun = "pl_runId sample_settlement_plan"
      and anyAdapter = "pl_adapter sample_settlement_plan" and anyChain = 10143
      and payeeA = "sample_address CHR ''8''" and payeeB = "sample_address CHR ''9''"]
  moreover have "\<not> sameAddress (sample_address CHR ''6'') (sample_address CHR ''8'')" by code_simp
  ultimately show ?thesis
    by (simp add: sample_amounts) (simp add: sample_settlement_plan_def plan_of_def sample_profile_def)
qed

theorem derivation_ignores_rest_of_case_binding_witness:
  "is_ok (deriveSettlementPlan zero_sha
     (sample_profile\<lparr>sp_caseBinding := (sp_caseBinding sample_profile)\<lparr>cc_runId := ''other-run'', cc_protectionBindingDigest := [], cc_releaseMode := []\<rparr>\<rparr>)
     (settlementProfileDigest zero_sha
       (sample_profile\<lparr>sp_caseBinding := (sp_caseBinding sample_profile)\<lparr>cc_runId := ''other-run'', cc_protectionBindingDigest := [], cc_releaseMode := []\<rparr>\<rparr>))
     sample_facts)"
  using derivation_ignores_rest_of_case_binding [OF zero_sha_hex refl, where profile = sample_profile and anyRun = "''other-run''"
      and anyBinding = "[]" and anyMode = "[]" and result = sample_facts] sample_derived
  by simp

end
