(* ===== verification/Operation_Journal.thy ===== *)
theory Operation_Journal
  imports Canonical_Json
begin

text \<open>
  The durable operation journal of \<^verbatim>\<open>protection-operation-journal.ts\<close>: one file per run, replaced
  atomically, in which an operation is begun before its effect and finished after it.

  The disk maps paths to files; a file that is being written is \<open>Torn\<close>. The write is modelled with its
  intermediate states, so a crash may stop it between any two of them. Parameters are JSON values, as
  the callers pass them, so they survive being written and read. Fresh identifiers (\<open>randomUUID\<close>) and the
  process id are arguments.
\<close>

subsection \<open>Records and files\<close>

datatype ProductOperationPhase =
    PREPARING | SUBMITTING_A | SUBMITTING_B | FINALIZING | EVALUATING | RELEASING | OPENING_RECOURSE
  | ADVANCING_CURE | EXPORTING | RETAINING | PHASE_ABORTED

datatype ProductOperationName =
    Op_preparePrivateMatch | Op_submitParticipantA | Op_submitParticipantB | Op_finalizeParticipantSubmissions
  | Op_evaluatePrivateConflict | Op_releaseGovernedResult | Op_openRecourseCase | Op_completeCureChronology
  | Op_exportProtectionEvidence | Op_retainProtectionEvidence

datatype JournalOutcome = PENDING | COMPLETED | RECONCILED | OUTCOME_ABORTED

record ProductOperationRecord =
  jr_schemaVersion :: string
  jr_operationId :: string
  jr_runId :: string
  jr_sequence :: nat
  jr_operation :: ProductOperationName
  jr_phase :: ProductOperationPhase
  jr_immutableParameters :: json
  jr_immutableParametersDigest :: string
  jr_expectedCurrentStage :: string
  jr_expectedTargetStage :: string
  jr_fixedNowUnix :: "int option"
  jr_expectedArtifacts :: "string list"
  jr_createdAt :: string
  jr_outcome :: JournalOutcome
  jr_outcomeReason :: "string option"
  jr_terminalAt :: "string option"

record ProductOperationJournal =
  jj_schemaVersion :: string
  jj_runId :: string
  jj_records :: "ProductOperationRecord list"

record BeginOperation =
  bo_operation :: ProductOperationName
  bo_phase :: ProductOperationPhase
  bo_immutableParameters :: json
  bo_expectedCurrentStage :: string
  bo_expectedTargetStage :: string
  bo_fixedNowUnix :: "int option"
  bo_expectedArtifacts :: "string list"
  bo_createdAt :: string

datatype 'a stored = Torn | Whole 'a

type_synonym 'a disk = "string \<rightharpoonup> 'a stored"

text \<open>The states of the disk while \<open>writeDurableJsonAtomic\<close> runs, the last one when it has returned.\<close>

definition temporary_path :: "string \<Rightarrow> string \<Rightarrow> string \<Rightarrow> string" where
  "temporary_path path pid uuid = path @ ''.'' @ pid @ ''.'' @ uuid @ ''.tmp''"

definition write_trace :: "string \<Rightarrow> string \<Rightarrow> 'a \<Rightarrow> 'a disk \<Rightarrow> 'a disk list" where
  "write_trace path temporary v fs =
     [fs(temporary \<mapsto> Torn), fs(temporary \<mapsto> Whole v), (fs(path \<mapsto> Whole v))(temporary := None)]"

definition writeDurableJsonAtomic :: "string \<Rightarrow> string \<Rightarrow> string \<Rightarrow> 'a \<Rightarrow> 'a disk \<Rightarrow> 'a disk result" where
  "writeDurableJsonAtomic path pid uuid v fs =
     (let temporary = temporary_path path pid uuid
      in if fs temporary \<noteq> None then Inl DependencyError else Inr (last (write_trace path temporary v fs)))"

definition journalPath :: "string \<Rightarrow> string \<Rightarrow> string" where
  "journalPath runRoot runId = runRoot @ ''/'' @ runId @ ''/operation-journal.json''"

subsection \<open>Reading\<close>

definition parametersDigest :: "(string \<Rightarrow> string) \<Rightarrow> json \<Rightarrow> string" where
  "parametersDigest sha v = sha256Digest sha ''MordantProtectionOperationParameters/v1'' v"

definition validateRecord :: "(string \<Rightarrow> string) \<Rightarrow> ProductOperationRecord \<Rightarrow> string \<Rightarrow> nat \<Rightarrow> unit result" where
  "validateRecord sha r runId n =
     check (\<not> (jr_schemaVersion r \<noteq> ''mordant.protection-operation/1'' \<or> jr_runId r \<noteq> runId \<or> jr_sequence r \<noteq> n
        \<or> jr_immutableParametersDigest r \<noteq> parametersDigest sha (jr_immutableParameters r)
        \<or> \<not> isSafeInteger (case jr_fixedNowUnix r of None \<Rightarrow> 0 | Some t \<Rightarrow> t))) (ProductJournalError ''INTEGRITY'')"

fun validateRecords :: "(string \<Rightarrow> string) \<Rightarrow> string \<Rightarrow> nat \<Rightarrow> ProductOperationRecord list \<Rightarrow> unit result" where
  "validateRecords sha runId n [] = Inr ()"
| "validateRecords sha runId n (r # rs) = ebind (validateRecord sha r runId n) (\<lambda>_. validateRecords sha runId (Suc n) rs)"

definition empty_journal :: "string \<Rightarrow> ProductOperationJournal" where
  "empty_journal runId = \<lparr>jj_schemaVersion = ''mordant.protection-operation-journal/1'', jj_runId = runId, jj_records = []\<rparr>"

definition readOperationJournal ::
  "(string \<Rightarrow> string) \<Rightarrow> string \<Rightarrow> ProductOperationJournal disk \<Rightarrow> string \<Rightarrow> ProductOperationJournal result" where
  "readOperationJournal sha runRoot fs runId =
     (case fs (journalPath runRoot runId) of
        None \<Rightarrow> Inr (empty_journal runId)
      | Some Torn \<Rightarrow> Inl (ProductJournalError ''SYNTAX'')
      | Some (Whole journal) \<Rightarrow>
          ebind (check (\<not> (jj_schemaVersion journal \<noteq> ''mordant.protection-operation-journal/1''
              \<or> jj_runId journal \<noteq> runId)) (ProductJournalError ''REJECTED'')) (\<lambda>_.
          ebind (validateRecords sha runId 1 (jj_records journal)) (\<lambda>_.
          ebind (check (\<not> list_ex (\<lambda>r. jr_outcome r = PENDING) (butlast (jj_records journal))) (ProductJournalError ''TAIL'')) (\<lambda>_.
          Inr journal))))"

definition at_last :: "'a list \<Rightarrow> 'a option" where
  "at_last xs = (if xs = [] then None else Some (last xs))"

definition pending_tail :: "ProductOperationJournal \<Rightarrow> ProductOperationRecord option" where
  "pending_tail journal = (case at_last (jj_records journal) of
     None \<Rightarrow> None | Some r \<Rightarrow> if jr_outcome r = PENDING then Some r else None)"

definition pendingOperation ::
  "(string \<Rightarrow> string) \<Rightarrow> string \<Rightarrow> ProductOperationJournal disk \<Rightarrow> string \<Rightarrow> ProductOperationRecord option result" where
  "pendingOperation sha runRoot fs runId =
     ebind (readOperationJournal sha runRoot fs runId) (\<lambda>journal. Inr (pending_tail journal))"

subsection \<open>Begin and finish\<close>

text \<open>Where a write goes: the process id and the random part of the temporary name.\<close>

type_synonym writer = "string \<times> string"

definition writeJournal ::
  "string \<Rightarrow> writer \<Rightarrow> ProductOperationJournal disk \<Rightarrow> ProductOperationJournal \<Rightarrow> ProductOperationJournal disk result" where
  "writeJournal runRoot w fs journal =
     writeDurableJsonAtomic (journalPath runRoot (jj_runId journal)) (fst w) (snd w) journal fs"

definition new_record :: "(string \<Rightarrow> string) \<Rightarrow> string \<Rightarrow> string \<Rightarrow> nat \<Rightarrow> BeginOperation \<Rightarrow> ProductOperationRecord" where
  "new_record sha opId runId n inp = \<lparr>
     jr_schemaVersion = ''mordant.protection-operation/1'', jr_operationId = opId, jr_runId = runId, jr_sequence = n,
     jr_operation = bo_operation inp, jr_phase = bo_phase inp,
     jr_immutableParameters = bo_immutableParameters inp,
     jr_immutableParametersDigest = parametersDigest sha (bo_immutableParameters inp),
     jr_expectedCurrentStage = bo_expectedCurrentStage inp, jr_expectedTargetStage = bo_expectedTargetStage inp,
     jr_fixedNowUnix = bo_fixedNowUnix inp, jr_expectedArtifacts = bo_expectedArtifacts inp,
     jr_createdAt = bo_createdAt inp, jr_outcome = PENDING, jr_outcomeReason = None, jr_terminalAt = None\<rparr>"

definition beginOperation ::
  "(string \<Rightarrow> string) \<Rightarrow> string \<Rightarrow> writer \<Rightarrow> string \<Rightarrow> ProductOperationJournal disk \<Rightarrow> string \<Rightarrow> BeginOperation
     \<Rightarrow> (ProductOperationJournal disk \<times> ProductOperationRecord) result" where
  "beginOperation sha runRoot w opId fs runId inp =
     ebind (readOperationJournal sha runRoot fs runId) (\<lambda>journal.
       case pending_tail journal of
         Some p \<Rightarrow>
           ebind (check (\<not> (jr_operation p \<noteq> bo_operation inp \<or> jr_phase p \<noteq> bo_phase inp
               \<or> jr_immutableParametersDigest p \<noteq> parametersDigest sha (bo_immutableParameters inp)))
             (ProductJournalError ''RECONCILIATION'')) (\<lambda>_. Inr (fs, p))
       | None \<Rightarrow>
           let r = new_record sha opId runId (length (jj_records journal) + 1) inp
           in ebind (writeJournal runRoot w fs (journal\<lparr>jj_records := jj_records journal @ [r]\<rparr>)) (\<lambda>fs'. Inr (fs', r)))"

definition terminal_record ::
  "ProductOperationRecord \<Rightarrow> JournalOutcome \<Rightarrow> string \<Rightarrow> string option \<Rightarrow> ProductOperationRecord" where
  "terminal_record p outcome at reason =
     p\<lparr>jr_phase := (if outcome = OUTCOME_ABORTED then PHASE_ABORTED else jr_phase p), jr_outcome := outcome,
       jr_outcomeReason := reason, jr_terminalAt := Some at\<rparr>"

definition finishOperation ::
  "(string \<Rightarrow> string) \<Rightarrow> string \<Rightarrow> writer \<Rightarrow> ProductOperationJournal disk \<Rightarrow> string \<Rightarrow> string \<Rightarrow> JournalOutcome
     \<Rightarrow> string \<Rightarrow> string option \<Rightarrow> (ProductOperationJournal disk \<times> ProductOperationRecord) result" where
  "finishOperation sha runRoot w fs runId opId outcome at reason =
     ebind (readOperationJournal sha runRoot fs runId) (\<lambda>journal.
       case at_last (jj_records journal) of
         None \<Rightarrow> Inl (ProductJournalError ''REPLACED'')
       | Some p \<Rightarrow>
           if jr_operationId p \<noteq> opId \<or> jr_outcome p \<noteq> PENDING then Inl (ProductJournalError ''REPLACED'')
           else let t = terminal_record p outcome at reason
                in ebind (writeJournal runRoot w fs (journal\<lparr>jj_records := butlast (jj_records journal) @ [t]\<rparr>))
                     (\<lambda>fs'. Inr (fs', t)))"

subsection \<open>Journals that read back\<close>

definition valid_journal :: "(string \<Rightarrow> string) \<Rightarrow> string \<Rightarrow> ProductOperationJournal \<Rightarrow> bool" where
  "valid_journal sha runId j \<longleftrightarrow>
     jj_schemaVersion j = ''mordant.protection-operation-journal/1'' \<and> jj_runId j = runId
     \<and> (\<forall>i < length (jj_records j). is_ok (validateRecord sha (jj_records j ! i) runId (Suc i)))
     \<and> (\<forall>r \<in> set (butlast (jj_records j)). jr_outcome r \<noteq> PENDING)"

lemma validateRecords_ok:
  "validateRecords sha runId n rs = Inr () \<longleftrightarrow> (\<forall>i < length rs. validateRecord sha (rs ! i) runId (n + i) = Inr ())"
proof (induction rs arbitrary: n)
  case (Cons r rs)
  have "(\<forall>i < length (r # rs). validateRecord sha ((r # rs) ! i) runId (n + i) = Inr ()) \<longleftrightarrow>
      validateRecord sha r runId n = Inr () \<and> (\<forall>i < length rs. validateRecord sha (rs ! i) runId (Suc n + i) = Inr ())"
    by (auto simp: less_Suc_eq_0_disj)
  then show ?case by (simp add: Cons.IH ebind_eq_Inr)
qed simp

lemma unit_ok: "is_ok m \<longleftrightarrow> m = Inr ()"
  by (cases m) auto

lemma readOperationJournal_iff:
  "readOperationJournal sha root fs run = Inr j \<longleftrightarrow>
     fs (journalPath root run) = None \<and> j = empty_journal run
     \<or> fs (journalPath root run) = Some (Whole j) \<and> valid_journal sha run j"
  by (auto simp: readOperationJournal_def valid_journal_def ebind_eq_Inr check_eq_Inr validateRecords_ok list_ex_iff unit_ok
      split: option.splits stored.splits)

lemma empty_journal_valid: "valid_journal sha run (empty_journal run)"
  by (simp add: valid_journal_def empty_journal_def)

lemma read_valid: "readOperationJournal sha root fs run = Inr j \<Longrightarrow> valid_journal sha run j"
  by (auto simp: readOperationJournal_iff empty_journal_valid)

lemma pending_tail_Some:
  "pending_tail j = Some p \<longleftrightarrow> jj_records j \<noteq> [] \<and> p = last (jj_records j) \<and> jr_outcome p = PENDING"
  by (auto simp: pending_tail_def at_last_def)

lemma valid_append:
  assumes "valid_journal sha run j" "pending_tail j = None"
    and "case bo_fixedNowUnix inp of None \<Rightarrow> True | Some t \<Rightarrow> isSafeInteger t"
  shows "valid_journal sha run (j\<lparr>jj_records := jj_records j @ [new_record sha opId run (length (jj_records j) + 1) inp]\<rparr>)"
proof -
  have "jr_outcome r \<noteq> PENDING" if "r \<in> set (jj_records j)" for r
    using that assms(1,2)
    by (cases "jj_records j" rule: rev_cases) (auto simp: valid_journal_def pending_tail_def at_last_def split: if_splits)
  moreover have "is_ok (validateRecord sha (new_record sha opId run (length (jj_records j) + 1) inp) run (Suc (length (jj_records j))))"
    using assms(3) by (auto simp: validateRecord_def new_record_def isSafeInteger_def MAX_SAFE_INTEGER_def split: option.splits)
  ultimately show ?thesis
    using assms(1) by (auto simp: valid_journal_def nth_append less_Suc_eq)
qed

lemma valid_finish:
  assumes "valid_journal sha run j" "jj_records j \<noteq> []"
  shows "valid_journal sha run (j\<lparr>jj_records := butlast (jj_records j) @ [terminal_record (last (jj_records j)) outcome at reason]\<rparr>)"
proof -
  obtain rs r where rs: "jj_records j = rs @ [r]" using assms(2) by (metis append_butlast_last_id)
  have "is_ok (validateRecord sha r run (Suc (length rs)))"
    using assms(1) rs by (auto simp: valid_journal_def nth_append dest!: spec [of _ "length rs"])
  then have "is_ok (validateRecord sha (terminal_record r outcome at reason) run (Suc (length rs)))"
    by (simp add: validateRecord_def terminal_record_def)
  then show ?thesis
    using assms(1) rs by (auto simp: valid_journal_def nth_append less_Suc_eq)
qed

subsection \<open>Atomic replacement\<close>

lemma temporary_path_neq [simp]: "temporary_path path pid uuid \<noteq> path" "path \<noteq> temporary_path path pid uuid"
  by (simp_all add: temporary_path_def)

text \<open>At every moment of the write the path holds its old content or the complete new one.\<close>

lemma write_trace_atomic:
  "fs' \<in> set (write_trace path (temporary_path path pid uuid) v fs) \<Longrightarrow> fs' path = fs path \<or> fs' path = Some (Whole v)"
  by (auto simp: write_trace_def)

lemma write_result:
  "writeDurableJsonAtomic path pid uuid v fs = Inr fs' \<Longrightarrow> fs' path = Some (Whole v)"
  by (auto simp: writeDurableJsonAtomic_def write_trace_def Let_def split: if_splits)

lemma write_fresh:
  "fs (temporary_path path pid uuid) = None \<Longrightarrow>
     writeDurableJsonAtomic path pid uuid v fs = Inr ((fs(path \<mapsto> Whole v))(temporary_path path pid uuid := None))"
  by (simp add: writeDurableJsonAtomic_def write_trace_def Let_def)

subsection \<open>Runs of the journal, crashes included\<close>

definition safe_input :: "BeginOperation \<Rightarrow> bool" where
  "safe_input inp = (case bo_fixedNowUnix inp of None \<Rightarrow> True | Some t \<Rightarrow> isSafeInteger t)"

inductive journal_step ::
  "(string \<Rightarrow> string) \<Rightarrow> string \<Rightarrow> string \<Rightarrow> ProductOperationJournal disk \<Rightarrow> ProductOperationJournal disk \<Rightarrow> bool"
  for sha root run where
  begun: "beginOperation sha root w opId fs run inp = Inr (fs', r) \<Longrightarrow> safe_input inp \<Longrightarrow> journal_step sha root run fs fs'"
| begin_crashed: "readOperationJournal sha root fs run = Inr j \<Longrightarrow> pending_tail j = None \<Longrightarrow> safe_input inp
    \<Longrightarrow> fs' \<in> set (write_trace (journalPath root run) (temporary_path (journalPath root run) pid uuid)
          (j\<lparr>jj_records := jj_records j @ [new_record sha opId run (length (jj_records j) + 1) inp]\<rparr>) fs)
    \<Longrightarrow> journal_step sha root run fs fs'"
| finished: "finishOperation sha root w fs run opId outcome at reason = Inr (fs', r) \<Longrightarrow> journal_step sha root run fs fs'"
| finish_crashed: "readOperationJournal sha root fs run = Inr j \<Longrightarrow> pending_tail j = Some p
    \<Longrightarrow> fs' \<in> set (write_trace (journalPath root run) (temporary_path (journalPath root run) pid uuid)
          (j\<lparr>jj_records := butlast (jj_records j) @ [terminal_record p outcome at reason]\<rparr>) fs)
    \<Longrightarrow> journal_step sha root run fs fs'"
| elsewhere: "fs' (journalPath root run) = fs (journalPath root run) \<Longrightarrow> journal_step sha root run fs fs'"

definition records_of :: "(string \<Rightarrow> string) \<Rightarrow> string \<Rightarrow> string \<Rightarrow> ProductOperationJournal disk \<Rightarrow> ProductOperationRecord list" where
  "records_of sha root run fs = (case readOperationJournal sha root fs run of Inl _ \<Rightarrow> [] | Inr j \<Rightarrow> jj_records j)"

text \<open>One operation seen at two moments: only phase, outcome, reason and terminal time may differ.\<close>

definition same_operation :: "ProductOperationRecord \<Rightarrow> ProductOperationRecord \<Rightarrow> bool" where
  "same_operation r r' \<longleftrightarrow>
     r' = r\<lparr>jr_phase := jr_phase r', jr_outcome := jr_outcome r', jr_outcomeReason := jr_outcomeReason r', jr_terminalAt := jr_terminalAt r'\<rparr>"

definition history_extends :: "ProductOperationRecord list \<Rightarrow> ProductOperationRecord list \<Rightarrow> bool" where
  "history_extends rs rs' \<longleftrightarrow> length rs \<le> length rs' \<and>
     (\<forall>i < length rs. same_operation (rs ! i) (rs' ! i) \<and> (jr_outcome (rs ! i) \<noteq> PENDING \<longrightarrow> rs' ! i = rs ! i))"

lemma same_operation_refl [simp]: "same_operation r r"
  by (simp add: same_operation_def)

lemma same_operation_trans: "same_operation r s \<Longrightarrow> same_operation s t \<Longrightarrow> same_operation r t"
  by (cases r; cases s; cases t) (simp add: same_operation_def)

lemma same_operation_terminal [simp]: "same_operation p (terminal_record p outcome at reason)"
  by (simp add: same_operation_def terminal_record_def)

lemma history_refl: "history_extends rs rs"
  by (simp add: history_extends_def)

lemma history_trans: "history_extends rs rs' \<Longrightarrow> history_extends rs' rs'' \<Longrightarrow> history_extends rs rs''"
  unfolding history_extends_def
proof (intro conjI allI impI; elim conjE)
  fix i
  assume a: "length rs \<le> length rs'" "length rs' \<le> length rs''" and i: "i < length rs"
    and b: "\<forall>i<length rs. same_operation (rs ! i) (rs' ! i) \<and> (jr_outcome (rs ! i) \<noteq> PENDING \<longrightarrow> rs' ! i = rs ! i)"
    and c: "\<forall>i<length rs'. same_operation (rs' ! i) (rs'' ! i) \<and> (jr_outcome (rs' ! i) \<noteq> PENDING \<longrightarrow> rs'' ! i = rs' ! i)"
  have i': "i < length rs'" using a i by simp
  from b i c i' show "same_operation (rs ! i) (rs'' ! i)" by (blast intro: same_operation_trans)
  assume "jr_outcome (rs ! i) \<noteq> PENDING"
  with b i c i' show "rs'' ! i = rs ! i" by simp
qed simp

lemma history_append: "history_extends rs (rs @ [r])"
  by (simp add: history_extends_def nth_append)

lemma history_finish:
  assumes "rs \<noteq> []" "jr_outcome (last rs) = PENDING" "same_operation (last rs) t"
  shows "history_extends rs (butlast rs @ [t])"
proof -
  obtain xs x where "rs = xs @ [x]" using assms(1) by (metis append_butlast_last_id)
  with assms(2,3) show ?thesis by (auto simp: history_extends_def nth_append less_Suc_eq)
qed

text \<open>The new content of the path: the old one, one more pending record, or the tail made terminal.\<close>

lemma journal_step_content:
  assumes "journal_step sha root run fs fs'" and "is_ok (readOperationJournal sha root fs run)"
  obtains "fs' (journalPath root run) = fs (journalPath root run)"
  | j opId inp where "readOperationJournal sha root fs run = Inr j" "pending_tail j = None" "safe_input inp"
      "fs' (journalPath root run) = Some (Whole (j\<lparr>jj_records := jj_records j @ [new_record sha opId run (length (jj_records j) + 1) inp]\<rparr>))"
  | j p outcome at reason where "readOperationJournal sha root fs run = Inr j" "pending_tail j = Some p"
      "fs' (journalPath root run) = Some (Whole (j\<lparr>jj_records := butlast (jj_records j) @ [terminal_record p outcome at reason]\<rparr>))"
  using assms(1)
proof cases
  case (begun w opId inp r)
  then obtain j where j: "readOperationJournal sha root fs run = Inr j"
    by (auto simp: beginOperation_def ebind_eq_Inr)
  then have run: "jj_runId j = run" using read_valid by (auto simp: valid_journal_def)
  show ?thesis
  proof (cases "pending_tail j")
    case None
    with begun j run have "fs' (journalPath root run) = Some (Whole (j\<lparr>jj_records := jj_records j @ [new_record sha opId run (length (jj_records j) + 1) inp]\<rparr>))"
      by (auto simp: beginOperation_def ebind_eq_Inr writeJournal_def Let_def dest: write_result)
    with that(2) j None begun(2) show ?thesis by blast
  next
    case (Some p)
    with begun j that(1) show ?thesis by (auto simp: beginOperation_def ebind_eq_Inr)
  qed
next
  case (begin_crashed j inp pid uuid opId)
  from write_trace_atomic [OF begin_crashed(4)] show ?thesis
    by (elim disjE) (use that(1,2) begin_crashed(1-3) in blast)+
next
  case (finished w opId outcome at reason r)
  then obtain j where j: "readOperationJournal sha root fs run = Inr j"
    by (auto simp: finishOperation_def ebind_eq_Inr)
  then have run: "jj_runId j = run" using read_valid by (auto simp: valid_journal_def)
  with finished j obtain p where "pending_tail j = Some p"
    "fs' (journalPath root run) = Some (Whole (j\<lparr>jj_records := butlast (jj_records j) @ [terminal_record p outcome at reason]\<rparr>))"
    by (auto simp: finishOperation_def ebind_eq_Inr writeJournal_def Let_def pending_tail_def dest!: write_result split: option.splits if_splits)
  with that(3) j show ?thesis by blast
next
  case (finish_crashed j p pid uuid outcome at reason)
  from write_trace_atomic [OF finish_crashed(3)] show ?thesis
    by (elim disjE) (use that(1,3) finish_crashed(1,2) in blast)+
next
  case elsewhere
  with that(1) show ?thesis by blast
qed

lemma journal_step_grows:
  assumes "journal_step sha root run fs fs'" and "is_ok (readOperationJournal sha root fs run)"
  shows "is_ok (readOperationJournal sha root fs' run) \<and> history_extends (records_of sha root run fs) (records_of sha root run fs')"
  using assms
proof (cases rule: journal_step_content)
  case 1
  then have "readOperationJournal sha root fs' run = readOperationJournal sha root fs run" by (simp add: readOperationJournal_def)
  with assms(2) show ?thesis by (simp add: records_of_def history_refl)
next
  case (2 j opId inp)
  have "valid_journal sha run (j\<lparr>jj_records := jj_records j @ [new_record sha opId run (length (jj_records j) + 1) inp]\<rparr>)"
    using valid_append [OF read_valid [OF 2(1)] 2(2)] 2(3) by (simp add: safe_input_def)
  with 2 have "readOperationJournal sha root fs' run = Inr (j\<lparr>jj_records := jj_records j @ [new_record sha opId run (length (jj_records j) + 1) inp]\<rparr>)"
    by (simp add: readOperationJournal_iff)
  with 2(1) show ?thesis by (simp add: records_of_def history_append)
next
  case (3 j p outcome at reason)
  then have p: "jj_records j \<noteq> []" "p = last (jj_records j)" "jr_outcome p = PENDING"
    unfolding pending_tail_Some by blast+
  have "readOperationJournal sha root fs' run = Inr (j\<lparr>jj_records := butlast (jj_records j) @ [terminal_record p outcome at reason]\<rparr>)"
    using 3 valid_finish [OF read_valid [OF 3(1)] p(1)] p(2) by (simp add: readOperationJournal_iff)
  moreover have "history_extends (jj_records j) (butlast (jj_records j) @ [terminal_record p outcome at reason])"
    using p by (intro history_finish) simp_all
  ultimately show ?thesis using 3(1) by (simp add: records_of_def)
qed

text \<open>The journal is a growing store.\<close>

interpretation journal: growing_store
  "\<lambda>fs. is_ok (readOperationJournal sha root fs run)" "journal_step sha root run"
  "\<lambda>fs fs'. history_extends (records_of sha root run fs) (records_of sha root run fs')"
  for sha root run
proof
  fix s t u :: "ProductOperationJournal disk"
  assume "is_ok (readOperationJournal sha root s run)" "journal_step sha root run s t"
  then show "is_ok (readOperationJournal sha root t run)"
    and "history_extends (records_of sha root run s) (records_of sha root run t)"
    using journal_step_grows by blast+
qed (auto intro: history_refl history_trans)

subsection \<open>What the callers rely on\<close>

lemma valid_sequence:
  assumes "valid_journal sha run j"
  shows "map jr_sequence (jj_records j) = [1..<Suc (length (jj_records j))]"
proof (rule nth_equalityI)
  fix i assume "i < length (map jr_sequence (jj_records j))"
  then show "map jr_sequence (jj_records j) ! i = [1..<Suc (length (jj_records j))] ! i"
    using assms by (auto simp: valid_journal_def validateRecord_def check_def is_ok_def simp del: upt_Suc split: if_splits)
qed (simp del: upt_Suc)

text \<open>C8: Whatever sequence of operations, crashes inside the atomic write and changes elsewhere on the disk
  happens to a run that starts without a journal, the journal always reads back: its records are
  numbered 1, 2, 3 and so on, every digest matches its parameters, and only the last record can be
  pending.\<close>

theorem journal_always_reads_back:
  assumes "(journal_step sha root run)\<^sup>*\<^sup>* fs fs'" and "fs (journalPath root run) = None"
  shows "\<exists>j. readOperationJournal sha root fs' run = Inr j
     \<and> map jr_sequence (jj_records j) = [1..<Suc (length (jj_records j))]
     \<and> (\<forall>r \<in> set (butlast (jj_records j)). jr_outcome r \<noteq> PENDING)"
proof -
  have "is_ok (readOperationJournal sha root fs run)" using assms(2) by (simp add: readOperationJournal_def)
  then obtain j where "readOperationJournal sha root fs' run = Inr j"
    using journal.run_inv [OF assms(1)] by (auto simp: is_ok_iff)
  with read_valid [of sha root fs' run j] valid_sequence [of sha run j] show ?thesis
    by (auto simp: valid_journal_def)
qed

text \<open>History is never rewritten: along every run, crashes included, a record that is terminal stays
  exactly as it is, and a record that is pending keeps its identity, its parameters and its expected
  stages; records are only added.\<close>

theorem journal_history_immutable:
  assumes "(journal_step sha root run)\<^sup>*\<^sup>* fs fs'" and "is_ok (readOperationJournal sha root fs run)"
  shows "history_extends (records_of sha root run fs) (records_of sha root run fs')"
  using assms by (rule journal.run_grows)

lemma begin_result:
  assumes "beginOperation sha root w opId fs run inp = Inr (fs', r)" and "safe_input inp"
  obtains j where "readOperationJournal sha root fs' run = Inr j" "pending_tail j = Some r"
    "jr_operation r = bo_operation inp" "jr_phase r = bo_phase inp"
    "jr_immutableParametersDigest r = parametersDigest sha (bo_immutableParameters inp)"
proof -
  from assms(1) obtain j where j: "readOperationJournal sha root fs run = Inr j"
    by (auto simp: beginOperation_def ebind_eq_Inr)
  then have run: "jj_runId j = run" using read_valid by (auto simp: valid_journal_def)
  show ?thesis
  proof (cases "pending_tail j")
    case None
    let ?r = "new_record sha opId run (length (jj_records j) + 1) inp"
    have fs': "fs' (journalPath root run) = Some (Whole (j\<lparr>jj_records := jj_records j @ [?r]\<rparr>))" and r: "r = ?r"
      using assms(1) j run None by (auto simp: beginOperation_def ebind_eq_Inr writeJournal_def Let_def dest: write_result)
    have "valid_journal sha run (j\<lparr>jj_records := jj_records j @ [?r]\<rparr>)"
      using valid_append [OF read_valid [OF j] None] assms(2) by (simp add: safe_input_def)
    with fs' r that show ?thesis
      by (simp add: readOperationJournal_iff pending_tail_def at_last_def new_record_def)
  next
    case (Some p)
    with assms(1) j that show ?thesis by (auto simp: beginOperation_def ebind_eq_Inr check_eq_Inr)
  qed
qed

text \<open>Beginning an operation is idempotent and exclusive: after a successful begin, the same begin
  returns the same record and changes nothing, whatever fresh identifier it is given, and a begin of
  another operation, phase or parameter digest is refused until the pending one is finished.\<close>

theorem begin_idempotent_and_exclusive:
  assumes "beginOperation sha root w opId fs run inp = Inr (fs', r)" and "safe_input inp"
  shows "beginOperation sha root w' opId' fs' run inp = Inr (fs', r)
     \<and> (bo_operation other \<noteq> bo_operation inp \<or> bo_phase other \<noteq> bo_phase inp
          \<or> parametersDigest sha (bo_immutableParameters other) \<noteq> parametersDigest sha (bo_immutableParameters inp)
        \<longrightarrow> beginOperation sha root w' opId' fs' run other = Inl (ProductJournalError ''RECONCILIATION''))"
  using assms by (rule begin_result) (auto simp: beginOperation_def ebind_eq_Inr ebind_eq_Inl check_eq_Inr check_eq_Inl)

text \<open>Finishing happens exactly once: after a successful begin, finishing that operation with a terminal
  outcome succeeds (the temporary name being free), leaves no pending operation, and finishing it again
  is refused.\<close>

theorem finish_exactly_once:
  assumes "beginOperation sha root w opId fs run inp = Inr (fs', r)" and "safe_input inp"
    and "fs' (temporary_path (journalPath root run) (fst w') (snd w')) = None" and "outcome \<noteq> PENDING"
  shows "\<exists>fs'' t. finishOperation sha root w' fs' run (jr_operationId r) outcome at reason = Inr (fs'', t)
     \<and> jr_outcome t = outcome \<and> same_operation r t
     \<and> pendingOperation sha root fs'' run = Inr None
     \<and> finishOperation sha root w'' fs'' run (jr_operationId r) outcome' at' reason' = Inl (ProductJournalError ''REPLACED'')"
proof -
  obtain j where j: "readOperationJournal sha root fs' run = Inr j" and p: "pending_tail j = Some r"
    using assms(1,2) by (rule begin_result)
  from p have r: "jj_records j \<noteq> []" "last (jj_records j) = r" "jr_outcome r = PENDING"
    unfolding pending_tail_Some by blast+
  have run: "jj_runId j = run" using read_valid [OF j] by (simp add: valid_journal_def)
  let ?t = "terminal_record r outcome at reason"
  let ?j = "j\<lparr>jj_records := butlast (jj_records j) @ [?t]\<rparr>"
  let ?fs = "(fs'(journalPath root run \<mapsto> Whole ?j))(temporary_path (journalPath root run) (fst w') (snd w') := None)"
  have fin: "finishOperation sha root w' fs' run (jr_operationId r) outcome at reason = Inr (?fs, ?t)"
    using j r run by (simp add: finishOperation_def at_last_def writeJournal_def Let_def write_fresh assms(3))
  have "valid_journal sha run ?j" using valid_finish [OF read_valid [OF j] r(1)] r(2) by simp
  then have read: "readOperationJournal sha root ?fs run = Inr ?j"
    by (simp add: readOperationJournal_iff)
  have t: "jr_outcome ?t = outcome" by (simp add: terminal_record_def)
  have none: "pendingOperation sha root ?fs run = Inr None"
    and again: "finishOperation sha root w'' ?fs run (jr_operationId r) outcome' at' reason' = Inl (ProductJournalError ''REPLACED'')"
    using read t assms(4) by (simp_all add: pendingOperation_def pending_tail_def finishOperation_def at_last_def)
  show ?thesis using fin t none again same_operation_terminal by blast
qed

subsection \<open>A concrete run\<close>

definition sample_begin :: BeginOperation where
  "sample_begin = \<lparr>bo_operation = Op_preparePrivateMatch, bo_phase = PREPARING, bo_immutableParameters = JObj [],
     bo_expectedCurrentStage = ''CREATED'', bo_expectedTargetStage = ''PREPARED'', bo_fixedNowUnix = Some 1700000000,
     bo_expectedArtifacts = [], bo_createdAt = []\<rparr>"

definition sample_record :: ProductOperationRecord where
  "sample_record = new_record zero_sha ''a'' ''run'' 1 sample_begin"

definition sample_disk :: "ProductOperationJournal disk" where
  "sample_disk = (Map.empty(journalPath ''root'' ''run'' \<mapsto> Whole ((empty_journal ''run'')\<lparr>jj_records := [sample_record]\<rparr>)))
     (temporary_path (journalPath ''root'' ''run'') ''1'' ''u'' := None)"

lemma sample_begun: "beginOperation zero_sha ''root'' (''1'', ''u'') ''a'' Map.empty ''run'' sample_begin = Inr (sample_disk, sample_record)"
  by (simp add: beginOperation_def readOperationJournal_def empty_journal_def pending_tail_def at_last_def writeJournal_def
      write_fresh sample_disk_def sample_record_def Let_def)

lemma sample_safe: "safe_input sample_begin"
  by (simp add: safe_input_def sample_begin_def isSafeInteger_def MAX_SAFE_INTEGER_def)

lemma sample_step: "(journal_step zero_sha ''root'' ''run'')\<^sup>*\<^sup>* Map.empty sample_disk"
  using journal_step.begun [OF sample_begun sample_safe] by blast

theorem journal_always_reads_back_witness:
  "\<exists>j. readOperationJournal zero_sha ''root'' sample_disk ''run'' = Inr j
     \<and> map jr_sequence (jj_records j) = [1..<Suc (length (jj_records j))]"
  using journal_always_reads_back [OF sample_step] by auto

theorem journal_history_immutable_witness:
  "history_extends [] (records_of zero_sha ''root'' ''run'' sample_disk)"
  using journal_history_immutable [OF sample_step]
  by (simp add: readOperationJournal_def records_of_def empty_journal_def)

theorem begin_idempotent_and_exclusive_witness:
  "beginOperation zero_sha ''root'' (''2'', ''v'') ''b'' sample_disk ''run'' sample_begin = Inr (sample_disk, sample_record)
   \<and> beginOperation zero_sha ''root'' (''2'', ''v'') ''b'' sample_disk ''run'' (sample_begin\<lparr>bo_phase := EVALUATING\<rparr>)
       = Inl (ProductJournalError ''RECONCILIATION'')"
  using begin_idempotent_and_exclusive [OF sample_begun sample_safe, of "(''2'', ''v'')" "''b''" "sample_begin\<lparr>bo_phase := EVALUATING\<rparr>"]
  by (simp add: sample_begin_def)

theorem finish_exactly_once_witness:
  "\<exists>fs t. finishOperation zero_sha ''root'' (''1'', ''u'') sample_disk ''run'' (jr_operationId sample_record) COMPLETED ''now'' None = Inr (fs, t)
     \<and> pendingOperation zero_sha ''root'' fs ''run'' = Inr None"
proof -
  have "sample_disk (temporary_path (journalPath ''root'' ''run'') (fst (''1'', ''u'')) (snd (''1'', ''u''))) = None"
    by (simp add: sample_disk_def)
  from finish_exactly_once [OF sample_begun sample_safe this, of COMPLETED "''now''" None "(''1'', ''u'')" COMPLETED "''now''" None]
  show ?thesis by blast
qed

end
