(* ===== verification/Settlement_Store.thy ===== *)
theory Settlement_Store
  imports Settlement_Authority Operation_Journal
begin

text \<open>
  The durable commitment of a settlement profile (\<^verbatim>\<open>settlement-profile-store.ts\<close>): a create-only file
  that is refused once any result-bearing artifact of the run exists, and the only source of settlement
  authority at run time.

  A file of the run directory is a commitment document as it parses, or some other artifact whose
  content plays no part. The create-only write opens the file exclusively and then writes it, so a crash
  in between leaves it \<open>Torn\<close>.
\<close>

subsection \<open>Files of a run\<close>

text \<open>The parsed document, a \<open>Partial<CommittedSettlementProfile>\<close>.\<close>

record CommitmentDocument =
  cd_schemaVersion :: string
  cd_profile :: "SettlementProfile option"
  cd_committedDigest :: "string option"

record CommittedSettlementProfile =
  cm_profile :: SettlementProfile
  cm_committedDigest :: string

datatype run_artifact = Commitment CommitmentDocument | OtherArtifact

type_synonym run_disk = "run_artifact disk"

definition SETTLEMENT_PROFILE_FILE :: string where
  "SETTLEMENT_PROFILE_FILE = ''settlement-profile.json''"

definition SETTLEMENT_PROFILE_COMMITMENT_SCHEMA :: string where
  "SETTLEMENT_PROFILE_COMMITMENT_SCHEMA = ''mordant.settlement-profile-commitment/1''"

definition run_path :: "string \<Rightarrow> string \<Rightarrow> string \<Rightarrow> string" where
  "run_path runRoot runId relative = runRoot @ ''/'' @ runId @ ''/'' @ relative"

definition settlementProfilePath :: "string \<Rightarrow> string \<Rightarrow> string" where
  "settlementProfilePath runRoot runId = run_path runRoot runId SETTLEMENT_PROFILE_FILE"

definition RESULT_BEARING_ARTIFACTS :: "string list" where
  "RESULT_BEARING_ARTIFACTS = [''public/evaluated-conflict.json'', ''public/governed-conflict-result.json'',
     ''public/result-conflict.bin'', ''public/recourse-record.json'', ''public/product-recourse-attestation.json'',
     ''recourse-outcome.json'', ''direct-participant-bridge-evidence.json'']"

definition existingResultArtifact :: "run_disk \<Rightarrow> string \<Rightarrow> string \<Rightarrow> string option" where
  "existingResultArtifact fs runRoot runId =
     find (\<lambda>relative. fs (run_path runRoot runId relative) \<noteq> None) RESULT_BEARING_ARTIFACTS"

subsection \<open>Commit and read\<close>

abbreviation store_error :: "string \<Rightarrow> merror" where
  "store_error \<equiv> SettlementProfileStoreError"

definition commitment_document :: "(string \<Rightarrow> string) \<Rightarrow> SettlementProfile \<Rightarrow> CommitmentDocument" where
  "commitment_document sha profile = \<lparr>cd_schemaVersion = SETTLEMENT_PROFILE_COMMITMENT_SCHEMA,
     cd_profile = Some profile, cd_committedDigest = Some (settlementProfileDigest sha profile)\<rparr>"

text \<open>The guards before the file is opened.\<close>

definition commit_guard :: "run_disk \<Rightarrow> string \<Rightarrow> string \<Rightarrow> SettlementProfile \<Rightarrow> unit result" where
  "commit_guard fs runRoot runId profile =
     ebind (assertWellFormedSettlementProfile profile) (\<lambda>_.
     ebind (check (existingResultArtifact fs runRoot runId = None) (store_error ''RESULT_ALREADY_EXPOSED'')) (\<lambda>_.
     check (fs (settlementProfilePath runRoot runId) = None) (store_error ''ALREADY_COMMITTED'')))"

definition commit_trace :: "(string \<Rightarrow> string) \<Rightarrow> run_disk \<Rightarrow> string \<Rightarrow> string \<Rightarrow> SettlementProfile \<Rightarrow> run_disk list" where
  "commit_trace sha fs runRoot runId profile =
     [fs(settlementProfilePath runRoot runId \<mapsto> Torn),
      fs(settlementProfilePath runRoot runId \<mapsto> Whole (Commitment (commitment_document sha profile)))]"

definition commitSettlementProfile ::
  "(string \<Rightarrow> string) \<Rightarrow> run_disk \<Rightarrow> string \<Rightarrow> string \<Rightarrow> SettlementProfile \<Rightarrow> (run_disk \<times> CommittedSettlementProfile) result" where
  "commitSettlementProfile sha fs runRoot runId profile =
     ebind (commit_guard fs runRoot runId profile) (\<lambda>_.
       Inr (last (commit_trace sha fs runRoot runId profile),
            \<lparr>cm_profile = profile, cm_committedDigest = settlementProfileDigest sha profile\<rparr>))"

definition readCommittedSettlementProfile ::
  "(string \<Rightarrow> string) \<Rightarrow> run_disk \<Rightarrow> string \<Rightarrow> string \<Rightarrow> CommittedSettlementProfile result" where
  "readCommittedSettlementProfile sha fs runRoot runId =
     (case fs (settlementProfilePath runRoot runId) of
        None \<Rightarrow> Inl (store_error ''NOT_COMMITTED'')
      | Some Torn \<Rightarrow> Inl (store_error ''UNREADABLE'')
      | Some (Whole OtherArtifact) \<Rightarrow> Inl (store_error ''SCHEMA'')
      | Some (Whole (Commitment doc)) \<Rightarrow>
          ebind (check (\<not> cd_schemaVersion doc \<noteq> SETTLEMENT_PROFILE_COMMITMENT_SCHEMA) (store_error ''SCHEMA'')) (\<lambda>_.
          case (cd_profile doc, cd_committedDigest doc) of
            (Some profile, Some d) \<Rightarrow>
              ebind (assertWellFormedSettlementProfile profile) (\<lambda>_.
              ebind (check (\<not> toLowerCase (settlementProfileDigest sha profile) \<noteq> toLowerCase d) (store_error ''TAMPERED'')) (\<lambda>_.
              Inr \<lparr>cm_profile = profile, cm_committedDigest = d\<rparr>))
          | _ \<Rightarrow> Inl (store_error ''SHAPE'')))"

definition settlementAuthorityForRun ::
  "(string \<Rightarrow> string) \<Rightarrow> run_disk \<Rightarrow> string \<Rightarrow> string \<Rightarrow> GovernedResultFacts
     \<Rightarrow> (SettlementPlan \<times> SettlementAuthorization \<times> string) result" where
  "settlementAuthorityForRun sha fs runRoot runId result =
     ebind (readCommittedSettlementProfile sha fs runRoot runId) (\<lambda>committed.
     ebind (deriveSettlementPlan sha (cm_profile committed) (cm_committedDigest committed) result) (\<lambda>plan.
     Inr (plan, deriveSettlementAuthorization sha plan, cm_committedDigest committed)))"

subsection \<open>Runs\<close>

text \<open>
  What can happen to a run directory: a commit, a commit that stops after the file was opened, and any
  other activity that neither touches the profile file nor removes a result-bearing artifact.
\<close>

inductive settlement_step :: "(string \<Rightarrow> string) \<Rightarrow> string \<Rightarrow> string \<Rightarrow> run_disk \<Rightarrow> run_disk \<Rightarrow> bool"
  for sha root run where
  committed: "commitSettlementProfile sha fs root run profile = Inr (fs', c) \<Longrightarrow> settlement_step sha root run fs fs'"
| commit_crashed: "commit_guard fs root run profile = Inr () \<Longrightarrow> fs' \<in> set (commit_trace sha fs root run profile)
    \<Longrightarrow> settlement_step sha root run fs fs'"
| other_activity: "fs' (settlementProfilePath root run) = fs (settlementProfilePath root run)
    \<Longrightarrow> \<forall>a \<in> set RESULT_BEARING_ARTIFACTS. fs (run_path root run a) \<noteq> None \<longrightarrow> fs' (run_path root run a) \<noteq> None
    \<Longrightarrow> settlement_step sha root run fs fs'"

definition exposed :: "string \<Rightarrow> string \<Rightarrow> run_disk \<Rightarrow> bool" where
  "exposed root run fs \<longleftrightarrow> existingResultArtifact fs root run \<noteq> None"

text \<open>The order the store promises: the profile file, once there in full, stays; exposure stays; after
  exposure a missing profile stays missing.\<close>

definition commitment_grows :: "string \<Rightarrow> string \<Rightarrow> run_disk \<Rightarrow> run_disk \<Rightarrow> bool" where
  "commitment_grows root run fs fs' \<longleftrightarrow>
     (fs (settlementProfilePath root run) \<noteq> None \<longrightarrow> fs' (settlementProfilePath root run) = fs (settlementProfilePath root run))
     \<and> (exposed root run fs \<longrightarrow> exposed root run fs'
          \<and> fs' (settlementProfilePath root run) = fs (settlementProfilePath root run))"

lemma exposed_iff: "exposed root run fs \<longleftrightarrow> (\<exists>a \<in> set RESULT_BEARING_ARTIFACTS. fs (run_path root run a) \<noteq> None)"
  by (auto simp: exposed_def existingResultArtifact_def find_None_iff)

lemma commit_guard_ok:
  "commit_guard fs root run profile = Inr () \<longleftrightarrow>
     profile_ok profile \<and> \<not> exposed root run fs \<and> fs (settlementProfilePath root run) = None"
  by (auto simp: commit_guard_def exposed_def ebind_eq_Inr check_eq_Inr wellFormed_iff)

lemma settlement_step_grows: "settlement_step sha root run fs fs' \<Longrightarrow> commitment_grows root run fs fs'"
proof (induction rule: settlement_step.induct)
  case (committed fs profile fs' c)
  then have "commit_guard fs root run profile = Inr ()" by (auto simp: commitSettlementProfile_def ebind_eq_Inr)
  then show ?case by (simp add: commit_guard_ok commitment_grows_def)
next
  case (commit_crashed fs profile fs')
  then show ?case by (simp add: commit_guard_ok commitment_grows_def)
next
  case (other_activity fs' fs)
  then show ?case unfolding commitment_grows_def exposed_iff by blast
qed

interpretation settlement_store: growing_store "\<lambda>_. True" "settlement_step sha root run" "commitment_grows root run"
  for sha root run
proof
  show "commitment_grows root run s t \<Longrightarrow> commitment_grows root run t u \<Longrightarrow> commitment_grows root run s u" for s t u
    unfolding commitment_grows_def by metis
qed (auto simp: commitment_grows_def settlement_step_grows [unfolded commitment_grows_def])

subsection \<open>What the store promises\<close>

lemma read_after_commit:
  assumes "commitSettlementProfile sha fs root run profile = Inr (fs', c)"
  shows "readCommittedSettlementProfile sha fs' root run = Inr c"
    and "fs' (settlementProfilePath root run) = Some (Whole (Commitment (commitment_document sha profile)))"
    and "c = \<lparr>cm_profile = profile, cm_committedDigest = settlementProfileDigest sha profile\<rparr>"
    and "profile_ok profile" and "\<not> exposed root run fs"
proof -
  have g: "commit_guard fs root run profile = Inr ()" using assms by (auto simp: commitSettlementProfile_def ebind_eq_Inr)
  then show "profile_ok profile" and "\<not> exposed root run fs" by (simp_all add: commit_guard_ok)
  show stored: "fs' (settlementProfilePath root run) = Some (Whole (Commitment (commitment_document sha profile)))"
    and c: "c = \<lparr>cm_profile = profile, cm_committedDigest = settlementProfileDigest sha profile\<rparr>"
    using assms g by (auto simp: commitSettlementProfile_def commit_trace_def)
  show "readCommittedSettlementProfile sha fs' root run = Inr c"
    using stored c g by (simp add: readCommittedSettlementProfile_def commitment_document_def commit_guard_ok wellFormed_iff [THEN iffD2])
qed

text \<open>C3: A commitment reads back as it was written, at once and after any later activity of the run, crashes
  and attempted second commits included: the store has no path that replaces a committed profile.\<close>

theorem committed_profile_is_permanent:
  assumes "commitSettlementProfile sha fs root run profile = Inr (fs', c)"
    and "(settlement_step sha root run)\<^sup>*\<^sup>* fs' fs''"
  shows "readCommittedSettlementProfile sha fs'' root run
       = Inr \<lparr>cm_profile = profile, cm_committedDigest = settlementProfileDigest sha profile\<rparr>
     \<and> \<not> is_ok (commitSettlementProfile sha fs'' root run other)"
proof -
  have "commitment_grows root run fs' fs''" using settlement_store.run_grows [OF assms(2)] by simp
  then have same: "fs'' (settlementProfilePath root run) = fs' (settlementProfilePath root run)"
    using read_after_commit(2) [OF assms(1)] by (simp add: commitment_grows_def)
  then have "readCommittedSettlementProfile sha fs'' root run = readCommittedSettlementProfile sha fs' root run"
    by (simp add: readCommittedSettlementProfile_def)
  moreover have "fs'' (settlementProfilePath root run) \<noteq> None" using same read_after_commit(2) [OF assms(1)] by simp
  then have "\<not> is_ok (commitSettlementProfile sha fs'' root run other)"
    by (auto simp: is_ok_iff commitSettlementProfile_def commit_guard_def ebind_eq_Inr check_eq_Inr)
  ultimately show ?thesis using read_after_commit(1,3) [OF assms(1)] by simp
qed

text \<open>C2: Economics are fixed before the outcome: once any result-bearing artifact of a run exists and no
  profile has been committed, no later activity ever makes settlement authority available for that run.\<close>

theorem no_authority_after_exposure:
  assumes "exposed root run fs" and "fs (settlementProfilePath root run) = None"
    and "(settlement_step sha root run)\<^sup>*\<^sup>* fs fs'"
  shows "settlementAuthorityForRun sha fs' root run result = Inl (store_error ''NOT_COMMITTED'')
     \<and> \<not> is_ok (commitSettlementProfile sha fs' root run profile)"
proof -
  have "commitment_grows root run fs fs'" using settlement_store.run_grows [OF assms(3)] by simp
  with assms(1,2) have "fs' (settlementProfilePath root run) = None" "exposed root run fs'"
    by (simp_all add: commitment_grows_def)
  then show ?thesis
    by (auto simp: settlementAuthorityForRun_def readCommittedSettlementProfile_def is_ok_iff commitSettlementProfile_def
        commit_guard_def exposed_def ebind_eq_Inr check_eq_Inr)
qed

text \<open>End to end: if a profile was committed and at any later moment of the run authority is derived for a
  governed result, the bridge lets a paying release pass with it only when the release pays the holders
  and amounts of that profile through its adapter on its chain, and the profile was committed when no
  result-bearing artifact existed.\<close>

theorem settlement_pays_what_was_committed:
  assumes "commitSettlementProfile sha fs root run profile = Inr (fs', c)"
    and "(settlement_step sha root run)\<^sup>*\<^sup>* fs' fs''"
    and "settlementAuthorityForRun sha fs'' root run result = Inr (plan, a, d)"
    and "simulate_settlement_gate sha (Some (a, plan)) release = Inr ()" and "0 < rf_payoutA release + rf_payoutB release"
  shows "\<not> exposed root run fs \<and> gf_conflict result
     \<and> sp_settlementAuthorization profile = SETTLEMENT_AUTHORIZED
     \<and> sameAddress (sp_holderA profile) (rf_holderA release) \<and> sameAddress (sp_holderB profile) (rf_holderB release)
     \<and> rf_payoutA release = int (read_nat (sp_payoutA profile)) \<and> rf_payoutB release = int (read_nat (sp_payoutB profile))
     \<and> sameAddress (sp_adapter profile) (rf_adapter release) \<and> rf_chainId release = sp_chainId profile"
proof -
  have grow: "commitment_grows root run fs' fs''" using settlement_store.run_grows [OF assms(2)] by simp
  then have "fs'' (settlementProfilePath root run) = fs' (settlementProfilePath root run)"
    using read_after_commit(2) [OF assms(1)] by (simp add: commitment_grows_def)
  then have read: "readCommittedSettlementProfile sha fs'' root run = Inr c"
    using read_after_commit(1) [OF assms(1)] by (simp add: readCommittedSettlementProfile_def)
  from read read_after_commit(3) [OF assms(1)] assms(3)
  have plan: "deriveSettlementPlan sha profile (settlementProfileDigest sha profile) result = Inr plan"
    and a: "a = deriveSettlementAuthorization sha plan"
    by (auto simp: settlementAuthorityForRun_def ebind_eq_Inr)
  from plan have p: "plan = plan_of profile (settlementProfileDigest sha profile) result" and ok: "profile_ok profile"
    "gf_conflict result" "sp_settlementAuthorization profile = SETTLEMENT_AUTHORIZED"
    by (simp_all add: derive_iff)
  have "assertSettlementAuthorization sha (deriveSettlementAuthorization sha plan) plan release = Inr ()"
    using assms(4) a simulate_gate_ok [OF assms(5)] by simp
  moreover have "decimal_regex (pl_payoutA plan)" "decimal_regex (pl_payoutB plan)"
    using ok(1) by (simp_all add: p plan_of_def profile_ok_def)
  ultimately show ?thesis
    using gate_derived_iff ok read_after_commit(5) [OF assms(1)] by (simp add: p plan_of_def)
qed

subsection \<open>A concrete run\<close>

definition committed_disk :: run_disk where
  "committed_disk = Map.empty(settlementProfilePath ''root'' ''run'' \<mapsto> Whole (Commitment (commitment_document zero_sha sample_profile)))"

definition result_path :: string where
  "result_path = run_path ''root'' ''run'' ''public/governed-conflict-result.json''"

definition result_disk :: "run_disk \<Rightarrow> run_disk" where
  "result_disk fs = fs(result_path \<mapsto> Whole OtherArtifact)"

lemma result_path_neq: "result_path \<noteq> settlementProfilePath ''root'' ''run''"
  by (simp add: result_path_def settlementProfilePath_def run_path_def SETTLEMENT_PROFILE_FILE_def)

lemma sample_committed:
  "commitSettlementProfile zero_sha Map.empty ''root'' ''run'' sample_profile
     = Inr (committed_disk, \<lparr>cm_profile = sample_profile, cm_committedDigest = settlementProfileDigest zero_sha sample_profile\<rparr>)"
  by (simp add: commitSettlementProfile_def commit_guard_ok [THEN iffD2] exposed_iff sample_profile_ok commit_trace_def committed_disk_def)

lemma result_arrives: "(settlement_step zero_sha ''root'' ''run'')\<^sup>*\<^sup>* fs (result_disk fs)"
  by (rule r_into_rtranclp, rule settlement_step.other_activity) (use result_path_neq in \<open>auto simp: result_disk_def\<close>)

lemma sample_authority_arrives:
  "settlementAuthorityForRun zero_sha (result_disk committed_disk) ''root'' ''run'' sample_facts =
     Inr (sample_settlement_plan, deriveSettlementAuthorization zero_sha sample_settlement_plan, settlementProfileDigest zero_sha sample_profile)"
proof -
  have "readCommittedSettlementProfile zero_sha (result_disk committed_disk) ''root'' ''run''
      = readCommittedSettlementProfile zero_sha committed_disk ''root'' ''run''"
    using result_path_neq by (simp add: readCommittedSettlementProfile_def result_disk_def)
  then show ?thesis
    using read_after_commit(1) [OF sample_committed] sample_derived by (simp add: settlementAuthorityForRun_def)
qed

theorem committed_profile_is_permanent_witness:
  "readCommittedSettlementProfile zero_sha (result_disk committed_disk) ''root'' ''run''
     = Inr \<lparr>cm_profile = sample_profile, cm_committedDigest = settlementProfileDigest zero_sha sample_profile\<rparr>"
  using committed_profile_is_permanent [OF sample_committed result_arrives] by blast

theorem no_authority_after_exposure_witness:
  "\<not> is_ok (commitSettlementProfile zero_sha (result_disk Map.empty) ''root'' ''run'' sample_profile)"
proof -
  have "exposed ''root'' ''run'' (result_disk Map.empty)"
    by (simp add: exposed_iff RESULT_BEARING_ARTIFACTS_def result_disk_def result_path_def)
  moreover have "result_disk Map.empty (settlementProfilePath ''root'' ''run'') = None"
    using result_path_neq by (simp add: result_disk_def)
  ultimately show ?thesis using no_authority_after_exposure [OF _ _ rtranclp.rtrancl_refl] by blast
qed

lemma sample_gate_open:
  "simulate_settlement_gate zero_sha (Some (deriveSettlementAuthorization zero_sha sample_settlement_plan, sample_settlement_plan))
     sample_release = Inr ()"
proof -
  have "decimal_regex ''60''" "decimal_regex ''40''" by code_simp+
  then show ?thesis
    using gate_derived_iff [of sample_settlement_plan zero_sha sample_release] sample_amounts
    by (simp add: simulate_gate_ok sample_release_def sample_settlement_plan_def plan_of_def sample_profile_def sample_facts_def)
qed

end
