(* ===== verification/Admission_Authorization.thy ===== *)
theory Admission_Authorization
  imports Governed_Result
begin

text \<open>
  The typed wallet authorizations of participant admission: \<^verbatim>\<open>participant-authorization.ts\<close> (V1) and
  \<^verbatim>\<open>participant-admission-v2.ts\<close> (V2, which also names the participant's Ed25519 key).

  Parameters: \<open>keccak\<close> (the salt digest), \<open>getAddress\<close> (checksummed address, \<open>None\<close> when it throws),
  \<open>hashTypedData\<close> and \<open>verifyTypedData\<close> of the Ethereum library. A verifier returns a Boolean or throws.
  Typed data are the domain, the field list, the primary type and the message members.
\<close>

subsection \<open>Roles and typed data\<close>

datatype ParticipantRole = PARTICIPANT_A | PARTICIPANT_B

fun role_name :: "ParticipantRole \<Rightarrow> string" where
  "role_name PARTICIPANT_A = ''PARTICIPANT_A''"
| "role_name PARTICIPANT_B = ''PARTICIPANT_B''"

lemma role_name_inj [simp]: "role_name r = role_name s \<longleftrightarrow> r = s"
  by (cases r; cases s) auto

definition isParticipantRole :: "jsval \<Rightarrow> ParticipantRole option" where
  "isParticipantRole v =
     (if v = VString ''PARTICIPANT_A'' then Some PARTICIPANT_A
      else if v = VString ''PARTICIPANT_B'' then Some PARTICIPANT_B else None)"

lemma isParticipantRole_iff: "isParticipantRole v = Some r \<longleftrightarrow> v = VString (role_name r)"
  by (cases r) (auto simp: isParticipantRole_def)

record TypedData =
  td_name :: string
  td_version :: string
  td_chainId :: int
  td_salt :: string
  td_types :: "(string \<times> string) list"
  td_primaryType :: string
  td_message :: "(string \<times> jsval) list"

type_synonym typed_verifier = "string \<Rightarrow> TypedData \<Rightarrow> string \<Rightarrow> string \<Rightarrow> bool result"

definition CCP_CHAIN_ID :: int where
  "CCP_CHAIN_ID = 10143"

definition PARTICIPANT_ADMISSION_SCHEMA :: string where
  "PARTICIPANT_ADMISSION_SCHEMA = ''mordant.participant-admission/1''"

definition PARTICIPANT_ADMISSION_PRIMARY_TYPE :: string where
  "PARTICIPANT_ADMISSION_PRIMARY_TYPE = ''ParticipantAdmissionV1''"

definition PARTICIPANT_ADMISSION_DOMAIN_NAME :: string where
  "PARTICIPANT_ADMISSION_DOMAIN_NAME = ''Mordant Participant Admission''"

definition PARTICIPANT_ADMISSION_DOMAIN_VERSION :: string where
  "PARTICIPANT_ADMISSION_DOMAIN_VERSION = ''1''"

definition PARTICIPANT_AUTHORIZATION_MAX_LIFETIME_SECONDS :: int where
  "PARTICIPANT_AUTHORIZATION_MAX_LIFETIME_SECONDS = 15 * 60"

definition PARTICIPANT_ADMISSION_TYPES :: "(string \<times> string) list" where
  "PARTICIPANT_ADMISSION_TYPES = [
     (''verifyingService'', ''string''), (''runId'', ''string''), (''fheCaseId'', ''bytes32''),
     (''protectionBindingDigest'', ''bytes32''), (''assetIdentityDigest'', ''bytes32''), (''role'', ''string''),
     (''activeFrom'', ''uint64''), (''activeUntil'', ''uint64''), (''participantWallet'', ''address''),
     (''authorizationNonce'', ''bytes32''), (''issuedAt'', ''uint64''), (''expiresAt'', ''uint64'')]"

abbreviation auth_error :: "string \<Rightarrow> nat \<Rightarrow> merror" where
  "auth_error \<equiv> ParticipantAuthorizationError"

subsection \<open>V1\<close>

record ParticipantAdmissionMessage =
  am_verifyingService :: string
  am_runId :: string
  am_fheCaseId :: string
  am_protectionBindingDigest :: string
  am_assetIdentityDigest :: string
  am_role :: ParticipantRole
  am_activeFrom :: int
  am_activeUntil :: int
  am_participantWallet :: string
  am_authorizationNonce :: string
  am_issuedAt :: int
  am_expiresAt :: int

definition digestToBytes32 :: "string \<Rightarrow> string result" where
  "digestToBytes32 d =
     (let hex = drop 7 d
      in if \<not> (length hex = 64 \<and> list_all lower_hex hex) then Inl (auth_error ''DIGEST'' 500) else Inr (''0x'' @ hex))"

definition claim_json :: "string \<Rightarrow> ParticipantRole \<Rightarrow> SupervisedPledgeWindow \<Rightarrow> json" where
  "claim_json runId role claim = JObj [(''runId'', JStr runId), (''role'', JStr (role_name role)),
     (''activeFrom'', JNum (pw_activeFrom claim)), (''activeUntil'', JNum (pw_activeUntil claim))]"

definition participantClaimCommitment ::
  "(string \<Rightarrow> string) \<Rightarrow> string \<Rightarrow> ParticipantRole \<Rightarrow> SupervisedPledgeWindow \<Rightarrow> string result" where
  "participantClaimCommitment sha runId role claim =
     digestToBytes32 (sha256Digest sha ''MordantParticipantClaim/v1'' (claim_json runId role claim))"

definition participantAdmissionDomain :: "(string \<Rightarrow> string) \<Rightarrow> int option \<Rightarrow> TypedData" where
  "participantAdmissionDomain keccak chainId = \<lparr>td_name = PARTICIPANT_ADMISSION_DOMAIN_NAME,
     td_version = PARTICIPANT_ADMISSION_DOMAIN_VERSION,
     td_chainId = (case chainId of None \<Rightarrow> CCP_CHAIN_ID | Some c \<Rightarrow> c),
     td_salt = keccak PARTICIPANT_ADMISSION_SCHEMA, td_types = [], td_primaryType = [], td_message = []\<rparr>"

definition participantAdmissionTypedData ::
  "(string \<Rightarrow> string) \<Rightarrow> ParticipantAdmissionMessage \<Rightarrow> int option \<Rightarrow> TypedData" where
  "participantAdmissionTypedData keccak m chainId = (participantAdmissionDomain keccak chainId)\<lparr>
     td_types := PARTICIPANT_ADMISSION_TYPES,
     td_primaryType := PARTICIPANT_ADMISSION_PRIMARY_TYPE,
     td_message := [
       (''verifyingService'', VString (am_verifyingService m)),
       (''runId'', VString (am_runId m)),
       (''fheCaseId'', VString (am_fheCaseId m)),
       (''protectionBindingDigest'', VString (am_protectionBindingDigest m)),
       (''assetIdentityDigest'', VString (am_assetIdentityDigest m)),
       (''role'', VString (role_name (am_role m))),
       (''activeFrom'', VBigint (am_activeFrom m)),
       (''activeUntil'', VBigint (am_activeUntil m)),
       (''participantWallet'', VString (am_participantWallet m)),
       (''authorizationNonce'', VString (am_authorizationNonce m)),
       (''issuedAt'', VBigint (am_issuedAt m)),
       (''expiresAt'', VBigint (am_expiresAt m))]\<rparr>"

definition participantAdmissionDigest ::
  "(string \<Rightarrow> string) \<Rightarrow> (TypedData \<Rightarrow> string) \<Rightarrow> ParticipantAdmissionMessage \<Rightarrow> int option \<Rightarrow> string" where
  "participantAdmissionDigest keccak hashTypedData m chainId = hashTypedData (participantAdmissionTypedData keccak m chainId)"

definition exactBytes32 :: "jsval \<Rightarrow> string \<Rightarrow> string result" where
  "exactBytes32 v code = (case v of
     VString s \<Rightarrow> if \<not> fixed_regex BYTES32_LOWER s then Inl (auth_error code 400) else Inr s
   | _ \<Rightarrow> Inl (auth_error code 400))"

definition exactUnixSeconds :: "jsval \<Rightarrow> string \<Rightarrow> int result" where
  "exactUnixSeconds v code = (case v of
     VNumber (NInt i) \<Rightarrow> if \<not> isSafeInteger i \<or> i \<le> 0 then Inl (auth_error code 400) else Inr i
   | _ \<Rightarrow> Inl (auth_error code 400))"

definition exactInterval :: "jsval \<Rightarrow> string \<Rightarrow> int result" where
  "exactInterval v code = (case v of
     VNumber (NInt i) \<Rightarrow> if \<not> isSafeInteger i \<or> i < 0 then Inl (auth_error code 400) else Inr i
   | _ \<Rightarrow> Inl (auth_error code 400))"

definition js_string :: "jsval \<Rightarrow> string option" where
  "js_string v = (case v of VString s \<Rightarrow> Some s | _ \<Rightarrow> None)"

definition require :: "'a option \<Rightarrow> 'e \<Rightarrow> 'e + 'a" where
  "require x e = (case x of None \<Rightarrow> Inl e | Some v \<Rightarrow> Inr v)"

lemma require_eq_Inr [result_simps]: "require x e = Inr v \<longleftrightarrow> x = Some v"
  by (auto simp: require_def split: option.splits)

lemma caught_eq_Inr: "(case x of Inl _ \<Rightarrow> Inl e | Inr v \<Rightarrow> f v) = Inr r \<longleftrightarrow> (\<exists>v. x = Inr v \<and> f v = Inr r)"
  by (cases x) auto

lemma js_string_iff [result_simps]: "js_string v = Some s \<longleftrightarrow> v = VString s"
  by (auto simp: js_string_def split: jsval.splits)

definition assertParticipantAdmissionMessage ::
  "(string \<Rightarrow> string option) \<Rightarrow> jsval \<Rightarrow> ParticipantAdmissionMessage result" where
  "assertParticipantAdmissionMessage getAddress v =
     ebind (check (plain_exactKeys v (map fst PARTICIPANT_ADMISSION_TYPES)) (auth_error ''AUTHORIZATION_MEMBERS'' 400)) (\<lambda>_.
     ebind (require (js_string (js_member v ''verifyingService'')) (auth_error ''AUTHORIZATION_SERVICE'' 400)) (\<lambda>service.
     ebind (check (\<not> (length service = 0 \<or> length service > 255)) (auth_error ''AUTHORIZATION_SERVICE'' 400)) (\<lambda>_.
     ebind (require (js_string (js_member v ''runId'')) (auth_error ''AUTHORIZATION_RUN_ID'' 400)) (\<lambda>runId.
     ebind (check (fixed_regex UUID_PATTERN runId) (auth_error ''AUTHORIZATION_RUN_ID'' 400)) (\<lambda>_.
     ebind (require (isParticipantRole (js_member v ''role'')) (auth_error ''AUTHORIZATION_ROLE'' 400)) (\<lambda>role.
     ebind (require (js_string (js_member v ''participantWallet'')) (auth_error ''AUTHORIZATION_WALLET'' 400)) (\<lambda>rawWallet.
     ebind (check (fixed_regex ADDRESS_ANY rawWallet) (auth_error ''AUTHORIZATION_WALLET'' 400)) (\<lambda>_.
     ebind (require (getAddress rawWallet) (auth_error ''AUTHORIZATION_WALLET'' 400)) (\<lambda>wallet.
     ebind (exactInterval (js_member v ''activeFrom'') ''AUTHORIZATION_ACTIVE_FROM'') (\<lambda>activeFrom.
     ebind (exactInterval (js_member v ''activeUntil'') ''AUTHORIZATION_ACTIVE_UNTIL'') (\<lambda>activeUntil.
     ebind (check (\<not> activeFrom \<ge> activeUntil) (auth_error ''AUTHORIZATION_INTERVAL'' 400)) (\<lambda>_.
     ebind (exactUnixSeconds (js_member v ''issuedAt'') ''AUTHORIZATION_ISSUED_AT'') (\<lambda>issuedAt.
     ebind (exactUnixSeconds (js_member v ''expiresAt'') ''AUTHORIZATION_EXPIRY'') (\<lambda>expiresAt.
     ebind (check (\<not> expiresAt \<le> issuedAt) (auth_error ''AUTHORIZATION_WINDOW'' 400)) (\<lambda>_.
     ebind (check (\<not> expiresAt - issuedAt > PARTICIPANT_AUTHORIZATION_MAX_LIFETIME_SECONDS)
       (auth_error ''AUTHORIZATION_LIFETIME'' 400)) (\<lambda>_.
     ebind (exactBytes32 (js_member v ''fheCaseId'') ''AUTHORIZATION_FHE_CASE_ID'') (\<lambda>fheCaseId.
     ebind (exactBytes32 (js_member v ''protectionBindingDigest'') ''AUTHORIZATION_BINDING'') (\<lambda>binding.
     ebind (exactBytes32 (js_member v ''assetIdentityDigest'') ''AUTHORIZATION_ASSET'') (\<lambda>asset.
     ebind (exactBytes32 (js_member v ''authorizationNonce'') ''AUTHORIZATION_NONCE'') (\<lambda>nonce.
     Inr \<lparr>am_verifyingService = service, am_runId = runId, am_fheCaseId = fheCaseId,
       am_protectionBindingDigest = binding, am_assetIdentityDigest = asset, am_role = role,
       am_activeFrom = activeFrom, am_activeUntil = activeUntil, am_participantWallet = wallet,
       am_authorizationNonce = nonce, am_issuedAt = issuedAt, am_expiresAt = expiresAt\<rparr>))))))))))))))))))))"

record ExpectedAdmissionContext =
  ex_verifyingService :: string
  ex_runId :: string
  ex_fheCaseId :: string
  ex_protectionBindingDigest :: string
  ex_assetIdentityDigest :: string
  ex_role :: ParticipantRole
  ex_claim :: "SupervisedPledgeWindow option"
  ex_chainId :: "int option"
  ex_now :: int

record VerifiedParticipantAuthorization =
  va_schemaVersion :: string
  va_message :: ParticipantAdmissionMessage
  va_role :: ParticipantRole
  va_authorizationDigest :: string
  va_signature :: string
  va_participantWallet :: string
  va_claimCommitment :: string

text \<open>\<open>/^0x[0-9a-fA-F]+$/\<close> with an even length.\<close>

definition signature_format :: "string \<Rightarrow> bool" where
  "signature_format s \<longleftrightarrow> take 2 s = ''0x'' \<and> drop 2 s \<noteq> [] \<and> list_all any_hex (drop 2 s) \<and> even (length s)"

definition verifyParticipantAuthorization ::
  "(string \<Rightarrow> string) \<Rightarrow> (string \<Rightarrow> string) \<Rightarrow> (TypedData \<Rightarrow> string) \<Rightarrow> (string \<Rightarrow> string option) \<Rightarrow> typed_verifier
     \<Rightarrow> ParticipantAdmissionMessage \<Rightarrow> jsval \<Rightarrow> ExpectedAdmissionContext \<Rightarrow> VerifiedParticipantAuthorization result" where
  "verifyParticipantAuthorization sha keccak hashTypedData getAddress verifyTypedData m sig expected =
     ebind (require (js_string sig) (auth_error ''SIGNATURE_FORMAT'' 400)) (\<lambda>signature.
     ebind (check (signature_format signature) (auth_error ''SIGNATURE_FORMAT'' 400)) (\<lambda>_.
     ebind (check (\<not> (length signature < 132 \<or> length signature > 4098)) (auth_error ''SIGNATURE_FORMAT'' 400)) (\<lambda>_.
     ebind (check (am_verifyingService m = ex_verifyingService expected) (auth_error ''SERVICE_MISMATCH'' 400)) (\<lambda>_.
     ebind (check (am_role m = ex_role expected) (auth_error ''ROLE_MISMATCH'' 409)) (\<lambda>_.
     ebind (check (am_runId m = ex_runId expected) (auth_error ''CASE_MISMATCH'' 409)) (\<lambda>_.
     ebind (digestToBytes32 (ex_fheCaseId expected)) (\<lambda>fheCaseId.
     ebind (check (am_fheCaseId m = fheCaseId) (auth_error ''FHE_CASE_MISMATCH'' 409)) (\<lambda>_.
     ebind (digestToBytes32 (ex_protectionBindingDigest expected)) (\<lambda>binding.
     ebind (check (am_protectionBindingDigest m = binding) (auth_error ''BINDING_MISMATCH'' 409)) (\<lambda>_.
     ebind (digestToBytes32 (ex_assetIdentityDigest expected)) (\<lambda>asset.
     ebind (check (am_assetIdentityDigest m = asset) (auth_error ''ASSET_MISMATCH'' 409)) (\<lambda>_.
     ebind (check (case ex_claim expected of None \<Rightarrow> True
         | Some c \<Rightarrow> am_activeFrom m = pw_activeFrom c \<and> am_activeUntil m = pw_activeUntil c) (auth_error ''CLAIM_MISMATCH'' 409)) (\<lambda>_.
     ebind (check (\<not> am_expiresAt m \<le> ex_now expected) (auth_error ''AUTHORIZATION_EXPIRED'' 401)) (\<lambda>_.
     ebind (check (\<not> am_issuedAt m > ex_now expected + 120) (auth_error ''AUTHORIZATION_NOT_YET_VALID'' 401)) (\<lambda>_.
       let typedData = participantAdmissionTypedData keccak m (ex_chainId expected);
           authorizationDigest = participantAdmissionDigest keccak hashTypedData m (ex_chainId expected)
       in case verifyTypedData (am_participantWallet m) typedData authorizationDigest signature of
            Inl _ \<Rightarrow> Inl (auth_error ''SIGNATURE_UNVERIFIABLE'' 503)
          | Inr valid \<Rightarrow>
              ebind (check valid (auth_error ''SIGNATURE_REJECTED'' 401)) (\<lambda>_.
              ebind (require (getAddress (am_participantWallet m)) DependencyError) (\<lambda>wallet.
              ebind (participantClaimCommitment sha (ex_runId expected) (ex_role expected)
                (case ex_claim expected of Some c \<Rightarrow> c
                 | None \<Rightarrow> \<lparr>pw_activeFrom = am_activeFrom m, pw_activeUntil = am_activeUntil m\<rparr>)) (\<lambda>commitment.
              Inr \<lparr>va_schemaVersion = PARTICIPANT_ADMISSION_SCHEMA, va_message = m, va_role = am_role m,
                va_authorizationDigest = authorizationDigest, va_signature = signature,
                va_participantWallet = wallet, va_claimCommitment = commitment\<rparr>))))))))))))))))))"

subsection \<open>V2\<close>

definition PARTICIPANT_ADMISSION_V2_SCHEMA :: string where
  "PARTICIPANT_ADMISSION_V2_SCHEMA = ''mordant.participant-admission/2''"

definition PARTICIPANT_ADMISSION_V2_PRIMARY_TYPE :: string where
  "PARTICIPANT_ADMISSION_V2_PRIMARY_TYPE = ''ParticipantAdmissionV2''"

definition PARTICIPANT_ADMISSION_V2_DOMAIN_VERSION :: string where
  "PARTICIPANT_ADMISSION_V2_DOMAIN_VERSION = ''2''"

definition PARTICIPANT_ADMISSION_V2_TYPES :: "(string \<times> string) list" where
  "PARTICIPANT_ADMISSION_V2_TYPES = [
     (''verifyingService'', ''string''), (''runId'', ''string''), (''fheCaseId'', ''bytes32''),
     (''protectionBindingDigest'', ''bytes32''), (''assetIdentityDigest'', ''bytes32''), (''role'', ''string''),
     (''activeFrom'', ''uint64''), (''activeUntil'', ''uint64''), (''participantWallet'', ''address''),
     (''authorizationNonce'', ''bytes32''), (''issuedAt'', ''uint64''), (''expiresAt'', ''uint64''),
     (''participantSigningKeyDigest'', ''bytes32'')]"

abbreviation v2_error :: "string \<Rightarrow> nat \<Rightarrow> merror" where
  "v2_error \<equiv> ParticipantAdmissionV2Error"

text \<open>
  The parse leaves \<open>verifyingService\<close> and \<open>runId\<close> unexamined; they are compared later, so here they are
  values of any type.
\<close>

record ParticipantAdmissionV2Message =
  mv_verifyingService :: jsval
  mv_runId :: jsval
  mv_fheCaseId :: string
  mv_protectionBindingDigest :: string
  mv_assetIdentityDigest :: string
  mv_role :: ParticipantRole
  mv_activeFrom :: int
  mv_activeUntil :: int
  mv_participantWallet :: string
  mv_authorizationNonce :: string
  mv_issuedAt :: int
  mv_expiresAt :: int
  mv_participantSigningKeyDigest :: string

definition participantSigningKeyDigest :: "(string \<Rightarrow> string) \<Rightarrow> string \<Rightarrow> string result" where
  "participantSigningKeyDigest sha signingPublicKeyBase64 =
     (case canonical_base64 32 signingPublicKeyBase64 of
        None \<Rightarrow> Inl (v2_error ''SIGNING_KEY'' 400)
      | Some raw \<Rightarrow> Inr (''0x'' @ sha raw))"

text \<open>The members of the message object, in the order of the type.\<close>

definition v2_members :: "ParticipantAdmissionV2Message \<Rightarrow> (string \<times> jsval) list" where
  "v2_members m = [
     (''verifyingService'', mv_verifyingService m), (''runId'', mv_runId m),
     (''fheCaseId'', VString (mv_fheCaseId m)), (''protectionBindingDigest'', VString (mv_protectionBindingDigest m)),
     (''assetIdentityDigest'', VString (mv_assetIdentityDigest m)), (''role'', VString (role_name (mv_role m))),
     (''activeFrom'', VNumber (NInt (mv_activeFrom m))), (''activeUntil'', VNumber (NInt (mv_activeUntil m))),
     (''participantWallet'', VString (mv_participantWallet m)), (''authorizationNonce'', VString (mv_authorizationNonce m)),
     (''issuedAt'', VNumber (NInt (mv_issuedAt m))), (''expiresAt'', VNumber (NInt (mv_expiresAt m))),
     (''participantSigningKeyDigest'', VString (mv_participantSigningKeyDigest m))]"

definition participantAdmissionV2TypedData ::
  "(string \<Rightarrow> string) \<Rightarrow> ParticipantAdmissionV2Message \<Rightarrow> int option \<Rightarrow> TypedData" where
  "participantAdmissionV2TypedData keccak m chainId = (participantAdmissionDomain keccak chainId)\<lparr>
     td_version := PARTICIPANT_ADMISSION_V2_DOMAIN_VERSION,
     td_salt := keccak PARTICIPANT_ADMISSION_V2_SCHEMA,
     td_types := PARTICIPANT_ADMISSION_V2_TYPES,
     td_primaryType := PARTICIPANT_ADMISSION_V2_PRIMARY_TYPE,
     td_message := v2_members m\<rparr>"

definition v2_bytes32 :: "jsval \<Rightarrow> string result" where
  "v2_bytes32 v = (case v of
     VString s \<Rightarrow> if \<not> fixed_regex BYTES32_LOWER s then Inl (v2_error ''ADMISSION_FIELD'' 400) else Inr s
   | _ \<Rightarrow> Inl (v2_error ''ADMISSION_FIELD'' 400))"

definition v2_seconds :: "jsval \<Rightarrow> int result" where
  "v2_seconds v = (case v of
     VNumber (NInt i) \<Rightarrow> if \<not> isSafeInteger i \<or> i \<le> 0 then Inl (v2_error ''ADMISSION_FIELD'' 400) else Inr i
   | _ \<Rightarrow> Inl (v2_error ''ADMISSION_FIELD'' 400))"

definition assertParticipantAdmissionV2Message :: "jsval \<Rightarrow> ParticipantAdmissionV2Message result" where
  "assertParticipantAdmissionV2Message v =
     ebind (check (sort (own_keys v) = sort (map fst PARTICIPANT_ADMISSION_V2_TYPES)) (v2_error ''ADMISSION_SHAPE'' 400)) (\<lambda>_.
     ebind (v2_bytes32 (js_member v ''fheCaseId'')) (\<lambda>fheCaseId.
     ebind (v2_bytes32 (js_member v ''protectionBindingDigest'')) (\<lambda>binding.
     ebind (v2_bytes32 (js_member v ''assetIdentityDigest'')) (\<lambda>asset.
     ebind (v2_bytes32 (js_member v ''authorizationNonce'')) (\<lambda>nonce.
     ebind (v2_bytes32 (js_member v ''participantSigningKeyDigest'')) (\<lambda>keyDigest.
     ebind (require (js_string (js_member v ''participantWallet'')) (v2_error ''ADMISSION_FIELD'' 400)) (\<lambda>wallet.
     ebind (check (fixed_regex ADDRESS_ANY wallet) (v2_error ''ADMISSION_FIELD'' 400)) (\<lambda>_.
     ebind (require (isParticipantRole (js_member v ''role'')) (v2_error ''ADMISSION_FIELD'' 400)) (\<lambda>role.
     ebind (v2_seconds (js_member v ''activeFrom'')) (\<lambda>activeFrom.
     ebind (v2_seconds (js_member v ''activeUntil'')) (\<lambda>activeUntil.
     ebind (v2_seconds (js_member v ''issuedAt'')) (\<lambda>issuedAt.
     ebind (v2_seconds (js_member v ''expiresAt'')) (\<lambda>expiresAt.
     ebind (check (\<not> expiresAt \<le> issuedAt) (v2_error ''ADMISSION_WINDOW'' 400)) (\<lambda>_.
     ebind (check (\<not> expiresAt - issuedAt > PARTICIPANT_AUTHORIZATION_MAX_LIFETIME_SECONDS) (v2_error ''ADMISSION_WINDOW'' 400)) (\<lambda>_.
     ebind (check (\<not> activeUntil \<le> activeFrom) (v2_error ''ADMISSION_WINDOW'' 400)) (\<lambda>_.
     Inr \<lparr>mv_verifyingService = js_member v ''verifyingService'', mv_runId = js_member v ''runId'', mv_fheCaseId = fheCaseId,
       mv_protectionBindingDigest = binding, mv_assetIdentityDigest = asset, mv_role = role,
       mv_activeFrom = activeFrom, mv_activeUntil = activeUntil, mv_participantWallet = wallet,
       mv_authorizationNonce = nonce, mv_issuedAt = issuedAt, mv_expiresAt = expiresAt,
       mv_participantSigningKeyDigest = keyDigest\<rparr>))))))))))))))))"

record BoundParticipantIdentity =
  bi_id :: string
  bi_role :: string
  bi_signingPublicKey :: string

record AdmittedEnrollmentKey =
  ek_role :: ParticipantRole
  ek_participantWallet :: string
  ek_signingKeyDigest :: string
  ek_admissionDigest :: string

definition assertAdmissionBindsEnrollmentKey ::
  "(string \<Rightarrow> string) \<Rightarrow> ParticipantAdmissionV2Message \<Rightarrow> BoundParticipantIdentity \<Rightarrow> string \<Rightarrow> int \<Rightarrow> AdmittedEnrollmentKey result" where
  "assertAdmissionBindsEnrollmentKey sha admission identity admissionDigest now =
     ebind (check (bi_role identity = role_name (mv_role admission)) (v2_error ''ROLE_MISMATCH'' 409)) (\<lambda>_.
     ebind (participantSigningKeyDigest sha (bi_signingPublicKey identity)) (\<lambda>derived.
     ebind (check (derived = mv_participantSigningKeyDigest admission) (v2_error ''SIGNING_KEY_NOT_ADMITTED'' 409)) (\<lambda>_.
     ebind (check (\<not> (now < mv_issuedAt admission \<or> now > mv_expiresAt admission)) (v2_error ''ADMISSION_EXPIRED'' 409)) (\<lambda>_.
     Inr \<lparr>ek_role = mv_role admission, ek_participantWallet = mv_participantWallet admission,
       ek_signingKeyDigest = derived, ek_admissionDigest = admissionDigest\<rparr>))))"

text \<open>\<open>new Map\<close> over the admissions: a later entry of the same role replaces an earlier one.\<close>

definition by_role :: "AdmittedEnrollmentKey list \<Rightarrow> ParticipantRole \<rightharpoonup> AdmittedEnrollmentKey" where
  "by_role admissions = map_of (rev (map (\<lambda>a. (ek_role a, a)) admissions))"

definition assertCoalitionCaseKeysAreAdmitted ::
  "(string \<Rightarrow> string) \<Rightarrow> AdmittedEnrollmentKey list \<Rightarrow> BoundParticipantIdentity \<Rightarrow> BoundParticipantIdentity \<Rightarrow> unit result" where
  "assertCoalitionCaseKeysAreAdmitted sha admissions participantA participantB =
     (let check_role = (\<lambda>role identity.
            ebind (require (by_role admissions role) (v2_error ''ROLE_NOT_ADMITTED'' 409)) (\<lambda>admitted.
            ebind (participantSigningKeyDigest sha (bi_signingPublicKey identity)) (\<lambda>derived.
            check (ek_signingKeyDigest admitted = derived) (v2_error ''SIGNING_KEY_NOT_ADMITTED'' 409))))
      in ebind (check (length (remdups (map ek_role admissions)) = length admissions) (v2_error ''DUPLICATE_ROLE'' 409)) (\<lambda>_.
         ebind (check_role PARTICIPANT_A participantA) (\<lambda>_.
         ebind (check_role PARTICIPANT_B participantB) (\<lambda>_.
         check (length (remdups (map (\<lambda>a. toLowerCase (ek_participantWallet a)) admissions)) = length admissions)
           (v2_error ''WALLET_COLLISION'' 409)))))"

record ExpectedV2 =
  ev_verifyingService :: string
  ev_runId :: string
  ev_fheCaseId :: string
  ev_protectionBindingDigest :: string
  ev_assetIdentityDigest :: string
  ev_role :: ParticipantRole
  ev_participantSigningKeyBase64 :: string
  ev_activeFrom :: int
  ev_activeUntil :: int
  ev_chainId :: "int option"
  ev_now :: int

text \<open>The verifier of the typed data receives address, typed data and signature; it may throw.\<close>

definition verifyParticipantAdmissionV2 ::
  "(string \<Rightarrow> string) \<Rightarrow> (string \<Rightarrow> string) \<Rightarrow> (string \<Rightarrow> TypedData \<Rightarrow> string \<Rightarrow> bool result)
     \<Rightarrow> ParticipantAdmissionV2Message \<Rightarrow> jsval \<Rightarrow> ExpectedV2 \<Rightarrow> (ParticipantAdmissionV2Message \<times> string) result" where
  "verifyParticipantAdmissionV2 sha keccak verifyTypedData m sig expected =
     ebind (require (js_string sig) (v2_error ''SIGNATURE_FORMAT'' 400)) (\<lambda>signature.
     ebind (check (signature_format signature) (v2_error ''SIGNATURE_FORMAT'' 400)) (\<lambda>_.
     ebind (check (mv_verifyingService m = VString (ev_verifyingService expected)) (v2_error ''SERVICE_MISMATCH'' 400)) (\<lambda>_.
     ebind (check (mv_role m = ev_role expected) (v2_error ''ROLE_MISMATCH'' 409)) (\<lambda>_.
     ebind (check (mv_runId m = VString (ev_runId expected)) (v2_error ''CASE_MISMATCH'' 409)) (\<lambda>_.
     ebind (check (mv_fheCaseId m = ev_fheCaseId expected) (v2_error ''FHE_CASE_MISMATCH'' 409)) (\<lambda>_.
     ebind (check (mv_protectionBindingDigest m = ev_protectionBindingDigest expected) (v2_error ''BINDING_MISMATCH'' 409)) (\<lambda>_.
     ebind (check (mv_assetIdentityDigest m = ev_assetIdentityDigest expected) (v2_error ''ASSET_MISMATCH'' 409)) (\<lambda>_.
     ebind (check (\<not> (mv_activeFrom m \<noteq> ev_activeFrom expected \<or> mv_activeUntil m \<noteq> ev_activeUntil expected))
       (v2_error ''CLAIM_MISMATCH'' 409)) (\<lambda>_.
     ebind (check (\<not> (ev_now expected < mv_issuedAt m \<or> ev_now expected > mv_expiresAt m)) (v2_error ''ADMISSION_EXPIRED'' 409)) (\<lambda>_.
     ebind (participantSigningKeyDigest sha (ev_participantSigningKeyBase64 expected)) (\<lambda>derived.
     ebind (check (\<not> mv_participantSigningKeyDigest m \<noteq> derived) (v2_error ''SIGNING_KEY_NOT_ADMITTED'' 409)) (\<lambda>_.
     ebind (verifyTypedData (mv_participantWallet m) (participantAdmissionV2TypedData keccak m (ev_chainId expected)) signature) (\<lambda>authentic.
     ebind (check authentic (v2_error ''SIGNATURE_INVALID'' 401)) (\<lambda>_.
     Inr (m, derived)))))))))))))))"

subsection \<open>What typed data determine\<close>

lemmas typed_data_defs = participantAdmissionTypedData_def participantAdmissionV2TypedData_def participantAdmissionDomain_def

text \<open>Typed data say exactly one thing: two V2 messages with equal typed data are the same message on the
  same chain, likewise two V1 messages, and no V1 typed data equal any V2 typed data, so a signature over
  one schema is never over the other.\<close>

theorem typed_data_unambiguous:
  "(participantAdmissionV2TypedData keccak m (Some c) = participantAdmissionV2TypedData keccak m' (Some c') \<longleftrightarrow> m = m' \<and> c = c')
   \<and> (participantAdmissionTypedData keccak n (Some c) = participantAdmissionTypedData keccak n' (Some c') \<longleftrightarrow> n = n' \<and> c = c')
   \<and> participantAdmissionTypedData keccak n (Some c) \<noteq> participantAdmissionV2TypedData keccak m (Some c')"
proof (intro conjI)
  show "participantAdmissionV2TypedData keccak m (Some c) = participantAdmissionV2TypedData keccak m' (Some c') \<longleftrightarrow> m = m' \<and> c = c'"
    by (cases m; cases m') (auto simp: typed_data_defs v2_members_def)
  show "participantAdmissionTypedData keccak n (Some c) = participantAdmissionTypedData keccak n' (Some c') \<longleftrightarrow> n = n' \<and> c = c'"
    by (cases n; cases n') (auto simp: typed_data_defs)
  show "participantAdmissionTypedData keccak n (Some c) \<noteq> participantAdmissionV2TypedData keccak m (Some c')"
    by (simp add: typed_data_defs PARTICIPANT_ADMISSION_DOMAIN_VERSION_def PARTICIPANT_ADMISSION_V2_DOMAIN_VERSION_def)
qed

subsection \<open>Keys and claims\<close>

lemma signingKeyDigest_ok [result_simps]:
  "participantSigningKeyDigest sha k = Inr d \<longleftrightarrow> (\<exists>raw. k = base64_encode raw \<and> length raw = 32 \<and> d = ''0x'' @ sha raw)"
proof -
  have "participantSigningKeyDigest sha k = Inr d \<longleftrightarrow> (\<exists>raw. canonical_base64 32 k = Some raw \<and> d = ''0x'' @ sha raw)"
    by (auto simp: participantSigningKeyDigest_def split: option.splits)
  then show ?thesis by (simp only: canonical_base64_iff conj_assoc)
qed

lemma signingKeyDigest_binds:
  assumes "participantSigningKeyDigest sha k = Inr d" "participantSigningKeyDigest sha k' = Inr d"
  shows "k = k' \<or> collides sha (base64_decode k) (base64_decode k')"
  using assms by (auto simp: signingKeyDigest_ok collides_def base64_decode_encode)

lemma digestToBytes32_ok:
  assumes "hex_digest sha"
  shows "digestToBytes32 (sha256Digest sha d v) = Inr (''0x'' @ sha (digest_text d v))"
  using assms by (simp add: digestToBytes32_def sha256Digest_def hex_digest_def Let_def)

interpretation claim_commitment: commitment
  "\<lambda>(run, role, claim). digest_text ''MordantParticipantClaim/v1'' (claim_json run role claim)"
proof
  show "a = b" if "(case a of (run, role, claim) \<Rightarrow> digest_text ''MordantParticipantClaim/v1'' (claim_json run role claim)) =
      (case b of (run, role, claim) \<Rightarrow> digest_text ''MordantParticipantClaim/v1'' (claim_json run role claim))"
    for a b :: "string \<times> ParticipantRole \<times> SupervisedPledgeWindow"
    using that by (cases a; cases b) (simp add: digest_text_same_domain claim_json_def sort_members_record)
qed

text \<open>The claim commitment kept in the ledger always exists and identifies one claim of one role in one
  run: two equal commitments are for the same run, role and interval, or exhibit a SHA-256 collision.\<close>

theorem claim_commitment_identifies_claim:
  assumes "hex_digest sha"
  shows "\<exists>x. participantClaimCommitment sha run role claim = Inr x
     \<and> (participantClaimCommitment sha run' role' claim' = Inr x \<longleftrightarrow>
          (run, role, claim) = (run', role', claim')
          \<or> collides sha (digest_text ''MordantParticipantClaim/v1'' (claim_json run role claim))
               (digest_text ''MordantParticipantClaim/v1'' (claim_json run' role' claim')))"
  using claim_commitment.binding [of sha "(run, role, claim)" "(run', role', claim')"]
  by (auto simp: participantClaimCommitment_def digestToBytes32_ok [OF assms])

theorem claim_commitment_identifies_claim_witness:
  "\<exists>x. participantClaimCommitment zero_sha ''r'' PARTICIPANT_A \<lparr>pw_activeFrom = 1, pw_activeUntil = 2\<rparr> = Inr x"
  using claim_commitment_identifies_claim [OF zero_sha_hex] by blast

subsection \<open>Verification of a V2 admission\<close>

lemma verifyV2_iff:
  "verifyParticipantAdmissionV2 sha keccak verify m sig ex = Inr (m', d) \<longleftrightarrow>
     (\<exists>signature. sig = VString signature \<and> signature_format signature
        \<and> mv_verifyingService m = VString (ev_verifyingService ex) \<and> mv_role m = ev_role ex \<and> mv_runId m = VString (ev_runId ex)
        \<and> mv_fheCaseId m = ev_fheCaseId ex \<and> mv_protectionBindingDigest m = ev_protectionBindingDigest ex
        \<and> mv_assetIdentityDigest m = ev_assetIdentityDigest ex
        \<and> mv_activeFrom m = ev_activeFrom ex \<and> mv_activeUntil m = ev_activeUntil ex
        \<and> mv_issuedAt m \<le> ev_now ex \<and> ev_now ex \<le> mv_expiresAt m
        \<and> participantSigningKeyDigest sha (ev_participantSigningKeyBase64 ex) = Inr d \<and> mv_participantSigningKeyDigest m = d
        \<and> verify (mv_participantWallet m) (participantAdmissionV2TypedData keccak m (ev_chainId ex)) signature = Inr True)
     \<and> m' = m"
  unfolding verifyParticipantAdmissionV2_def ebind_eq_Inr check_eq_Inr require_eq_Inr js_string_iff
  by (auto simp: not_less)

text \<open>C11: A verified admission binds everything the server is about to act on: the wallet's signature covers
  typed data whose run, role, case, binding, asset and interval are the server's own, at a time inside the
  signed window, and whose key digest is that of the key the case will publish; no other published key
  verifies under the same message, unless the two raw keys are a SHA-256 collision.\<close>

theorem v2_admission_binds_case_claim_and_key:
  assumes "verifyParticipantAdmissionV2 sha keccak verify m sig ex = Inr (m', d)"
    and "verifyParticipantAdmissionV2 sha keccak verify m sig ex' = Inr (m', d')"
  shows "(\<exists>signature. sig = VString signature
        \<and> verify (mv_participantWallet m) (participantAdmissionV2TypedData keccak m (ev_chainId ex)) signature = Inr True)
     \<and> mv_runId m = VString (ev_runId ex) \<and> mv_role m = ev_role ex \<and> mv_fheCaseId m = ev_fheCaseId ex
     \<and> mv_protectionBindingDigest m = ev_protectionBindingDigest ex \<and> mv_assetIdentityDigest m = ev_assetIdentityDigest ex
     \<and> mv_activeFrom m = ev_activeFrom ex \<and> mv_activeUntil m = ev_activeUntil ex
     \<and> mv_issuedAt m \<le> ev_now ex \<and> ev_now ex \<le> mv_expiresAt m
     \<and> ev_role ex = ev_role ex' \<and> ev_runId ex = ev_runId ex' \<and> ev_activeFrom ex = ev_activeFrom ex'
     \<and> (ev_participantSigningKeyBase64 ex = ev_participantSigningKeyBase64 ex'
        \<or> collides sha (base64_decode (ev_participantSigningKeyBase64 ex)) (base64_decode (ev_participantSigningKeyBase64 ex')))"
proof -
  have "participantSigningKeyDigest sha (ev_participantSigningKeyBase64 ex) = Inr (mv_participantSigningKeyDigest m)"
    "participantSigningKeyDigest sha (ev_participantSigningKeyBase64 ex') = Inr (mv_participantSigningKeyDigest m)"
    using assms by (auto simp: verifyV2_iff)
  from signingKeyDigest_binds [OF this] assms show ?thesis by (auto simp: verifyV2_iff)
qed

subsection \<open>The two keys of a coalition case\<close>

lemma distinct_roles_two:
  fixes xs :: "ParticipantRole list"
  assumes "distinct xs" "PARTICIPANT_A \<in> set xs" "PARTICIPANT_B \<in> set xs"
  shows "length xs = 2"
proof -
  have "set xs = {PARTICIPANT_A, PARTICIPANT_B}" using assms(2,3) ParticipantRole.exhaust by auto
  then have "card (set xs) = 2" by simp
  then show ?thesis using assms(1) by (simp add: distinct_card)
qed

lemma by_role_distinct:
  assumes "distinct (map ek_role as)"
  shows "by_role as r = Some a \<longleftrightarrow> a \<in> set as \<and> ek_role a = r"
proof -
  have "distinct (map fst (rev (map (\<lambda>a. (ek_role a, a)) as)))"
    using assms by (simp add: rev_map [symmetric] comp_def)
  then show ?thesis by (auto simp: by_role_def map_of_eq_Some_iff)
qed

text \<open>When the coalition check passes there are exactly two admissions, one for each role, held by two
  different wallets (whatever the letter case of their addresses), and each names the digest of exactly
  the signing key the case publishes for its role.\<close>

theorem coalition_keys_admitted_bilaterally:
  assumes "assertCoalitionCaseKeysAreAdmitted sha admissions identityA identityB = Inr ()"
  shows "\<exists>a b. set admissions = {a, b} \<and> length admissions = 2 \<and> ek_role a = PARTICIPANT_A \<and> ek_role b = PARTICIPANT_B
     \<and> toLowerCase (ek_participantWallet a) \<noteq> toLowerCase (ek_participantWallet b)
     \<and> participantSigningKeyDigest sha (bi_signingPublicKey identityA) = Inr (ek_signingKeyDigest a)
     \<and> participantSigningKeyDigest sha (bi_signingPublicKey identityB) = Inr (ek_signingKeyDigest b)"
proof -
  have "length (remdups (map ek_role admissions)) = length (map ek_role admissions)"
    and "length (remdups (map (\<lambda>a. toLowerCase (ek_participantWallet a)) admissions))
        = length (map (\<lambda>a. toLowerCase (ek_participantWallet a)) admissions)"
    using assms by (auto simp: assertCoalitionCaseKeysAreAdmitted_def Let_def ebind_eq_Inr check_eq_Inr)
  then have roles: "distinct (map ek_role admissions)"
    and wallets: "distinct (map (\<lambda>a. toLowerCase (ek_participantWallet a)) admissions)"
    unfolding length_remdups_eq remdups_id_iff_distinct by simp_all
  obtain a b where a: "by_role admissions PARTICIPANT_A = Some a" "participantSigningKeyDigest sha (bi_signingPublicKey identityA) = Inr (ek_signingKeyDigest a)"
    and b: "by_role admissions PARTICIPANT_B = Some b" "participantSigningKeyDigest sha (bi_signingPublicKey identityB) = Inr (ek_signingKeyDigest b)"
    using assms unfolding assertCoalitionCaseKeysAreAdmitted_def Let_def ebind_eq_Inr check_eq_Inr require_eq_Inr by auto
  then have ab: "a \<in> set admissions" "ek_role a = PARTICIPANT_A" "b \<in> set admissions" "ek_role b = PARTICIPANT_B"
    by (simp_all add: by_role_distinct [OF roles])
  have "length (map ek_role admissions) = 2"
    by (rule distinct_roles_two [OF roles]) (use ab in force)+
  then obtain x y where xy: "admissions = [x, y]" by (auto simp: length_Suc_conv numeral_2_eq_2)
  with ab have "set admissions = {a, b}" by auto
  moreover have "toLowerCase (ek_participantWallet a) \<noteq> toLowerCase (ek_participantWallet b)" using wallets xy ab by auto
  ultimately show ?thesis using a b ab xy by auto
qed

subsection \<open>Claims that V2 cannot carry\<close>

lemma v2_seconds_ok [result_simps]: "v2_seconds v = Inr i \<longleftrightarrow> v = VNumber (NInt i) \<and> 0 < i \<and> i \<le> MAX_SAFE_INTEGER"
  by (auto simp: v2_seconds_def isSafeInteger_def split: jsval.splits jsnum.splits)

lemma v2_bytes32_ok [result_simps]: "v2_bytes32 v = Inr s \<longleftrightarrow> v = VString s \<and> fixed_regex BYTES32_LOWER s"
  by (auto simp: v2_bytes32_def split: jsval.splits)

text \<open>C12: The pledge-window check admits an interval that starts at instant zero, and so does the V1 interval
  check, but no V2 authorization for such an interval ever parses: its parser demands a positive start.\<close>

theorem zero_start_never_parses_in_v2:
  assumes "0 < until" "until \<le> MAX_SAFE_INTEGER"
  shows "assertSupervisedPledgeWindow (VObject ObjectPrototype [(''activeFrom'', VNumber (NInt 0)), (''activeUntil'', VNumber (NInt until))])
       = Inr \<lparr>pw_activeFrom = 0, pw_activeUntil = until\<rparr>
     \<and> exactInterval (VNumber (NInt 0)) code = Inr 0
     \<and> (js_member v ''activeFrom'' = VNumber (NInt 0) \<longrightarrow> \<not> is_ok (assertParticipantAdmissionV2Message v))"
proof (intro conjI impI)
  show "assertSupervisedPledgeWindow (VObject ObjectPrototype [(''activeFrom'', VNumber (NInt 0)), (''activeUntil'', VNumber (NInt until))])
      = Inr \<lparr>pw_activeFrom = 0, pw_activeUntil = until\<rparr>"
    using assms by (simp add: assertSupervisedPledgeWindow_def exactWindow_Inr window_values_def plain_pair_def window_bounds_def)
  show "exactInterval (VNumber (NInt 0)) code = Inr 0"
    by (simp add: exactInterval_def isSafeInteger_def MAX_SAFE_INTEGER_def)
  show "\<not> is_ok (assertParticipantAdmissionV2Message v)" if "js_member v ''activeFrom'' = VNumber (NInt 0)"
    using that by (auto simp: is_ok_iff assertParticipantAdmissionV2Message_def ebind_eq_Inr v2_seconds_ok)
qed

theorem zero_start_never_parses_in_v2_witness:
  "is_ok (assertSupervisedPledgeWindow (VObject ObjectPrototype [(''activeFrom'', VNumber (NInt 0)), (''activeUntil'', VNumber (NInt 5))]))
   \<and> \<not> is_ok (assertParticipantAdmissionV2Message (VObject ObjectPrototype [(''activeFrom'', VNumber (NInt 0))]))"
  using zero_start_never_parses_in_v2 [of 5 _ "VObject ObjectPrototype [(''activeFrom'', VNumber (NInt 0))]"]
  by (simp add: MAX_SAFE_INTEGER_def)

subsection \<open>Verification of a V1 authorization\<close>

text \<open>A verified V1 authorization was signed by its wallet over typed data that name the expected service,
  run, role, case, binding, asset and interval, had not expired and was not issued more than two minutes
  ahead; the commitment returned with it is the commitment of the claim that will be written.\<close>

theorem v1_authorization_sound:
  assumes "verifyParticipantAuthorization sha keccak hashTypedData getAddress verify m sig ex = Inr r"
    and "ex_claim ex = Some claim"
  shows "verify (am_participantWallet m) (participantAdmissionTypedData keccak m (ex_chainId ex))
        (participantAdmissionDigest keccak hashTypedData m (ex_chainId ex)) (va_signature r) = Inr True
     \<and> am_verifyingService m = ex_verifyingService ex \<and> am_role m = ex_role ex \<and> am_runId m = ex_runId ex
     \<and> digestToBytes32 (ex_fheCaseId ex) = Inr (am_fheCaseId m)
     \<and> digestToBytes32 (ex_protectionBindingDigest ex) = Inr (am_protectionBindingDigest m)
     \<and> digestToBytes32 (ex_assetIdentityDigest ex) = Inr (am_assetIdentityDigest m)
     \<and> am_activeFrom m = pw_activeFrom claim \<and> am_activeUntil m = pw_activeUntil claim
     \<and> ex_now ex < am_expiresAt m \<and> am_issuedAt m \<le> ex_now ex + 120
     \<and> participantClaimCommitment sha (ex_runId ex) (ex_role ex) claim = Inr (va_claimCommitment r)
     \<and> va_message r = m \<and> sig = VString (va_signature r)"
  using assms
  by (auto simp: verifyParticipantAuthorization_def ebind_eq_Inr check_eq_Inr require_eq_Inr js_string_iff Let_def not_le not_less
      caught_eq_Inr)

subsection \<open>Concrete admissions\<close>

definition sample_signing_key :: string where
  "sample_signing_key = base64_encode (replicate 32 CHR 0x02)"

definition sample_wallet :: "char \<Rightarrow> string" where
  "sample_wallet c = ''0x'' @ replicate 40 c"

definition sample_bytes32 :: string where
  "sample_bytes32 = ''0x'' @ zero_sha []"

definition sample_signature_text :: string where
  "sample_signature_text = ''0x'' @ replicate 130 CHR ''a''"

lemma sample_signature_format: "signature_format sample_signature_text"
  by (simp add: signature_format_def sample_signature_text_def list_all_iff any_hex_def)

lemma sample_signing_key_digest: "participantSigningKeyDigest zero_sha sample_signing_key = Inr sample_bytes32"
  by (auto simp: signingKeyDigest_ok sample_signing_key_def sample_bytes32_def zero_sha_def intro: exI [of _ "replicate 32 CHR 0x02"])

definition sample_v2_message :: ParticipantAdmissionV2Message where
  "sample_v2_message = \<lparr>mv_verifyingService = VString ''mordant'', mv_runId = VString ''run'', mv_fheCaseId = sample_bytes32,
     mv_protectionBindingDigest = sample_bytes32, mv_assetIdentityDigest = sample_bytes32, mv_role = PARTICIPANT_A,
     mv_activeFrom = 1, mv_activeUntil = 100, mv_participantWallet = sample_wallet CHR ''1'', mv_authorizationNonce = sample_bytes32,
     mv_issuedAt = 1700000000, mv_expiresAt = 1700000600, mv_participantSigningKeyDigest = sample_bytes32\<rparr>"

definition sample_expected :: ExpectedV2 where
  "sample_expected = \<lparr>ev_verifyingService = ''mordant'', ev_runId = ''run'', ev_fheCaseId = sample_bytes32,
     ev_protectionBindingDigest = sample_bytes32, ev_assetIdentityDigest = sample_bytes32, ev_role = PARTICIPANT_A,
     ev_participantSigningKeyBase64 = sample_signing_key, ev_activeFrom = 1, ev_activeUntil = 100, ev_chainId = Some 10143,
     ev_now = 1700000300\<rparr>"

lemma sample_v2_verified:
  "verifyParticipantAdmissionV2 zero_sha keccak (\<lambda>_ _ _. Inr True) sample_v2_message (VString sample_signature_text) sample_expected
     = Inr (sample_v2_message, sample_bytes32)"
  using sample_signature_format sample_signing_key_digest
  by (simp add: verifyV2_iff sample_v2_message_def sample_expected_def)

theorem v2_admission_binds_case_claim_and_key_witness:
  "mv_activeFrom sample_v2_message = ev_activeFrom sample_expected \<and> ev_now sample_expected \<le> mv_expiresAt sample_v2_message"
  using v2_admission_binds_case_claim_and_key [OF sample_v2_verified [of zero_sha] sample_v2_verified] by blast

definition sample_enrollment :: "ParticipantRole \<Rightarrow> string \<Rightarrow> AdmittedEnrollmentKey" where
  "sample_enrollment role wallet = \<lparr>ek_role = role, ek_participantWallet = wallet, ek_signingKeyDigest = sample_bytes32, ek_admissionDigest = []\<rparr>"

definition sample_identity :: "string \<Rightarrow> BoundParticipantIdentity" where
  "sample_identity role = \<lparr>bi_id = role, bi_role = role, bi_signingPublicKey = sample_signing_key\<rparr>"

theorem coalition_keys_admitted_bilaterally_witness:
  "assertCoalitionCaseKeysAreAdmitted zero_sha [sample_enrollment PARTICIPANT_A ''0xa'', sample_enrollment PARTICIPANT_B ''0xb'']
     (sample_identity ''PARTICIPANT_A'') (sample_identity ''PARTICIPANT_B'') = Inr ()
   \<and> (\<exists>a b. set [sample_enrollment PARTICIPANT_A ''0xa'', sample_enrollment PARTICIPANT_B ''0xb''] = {a, b}
        \<and> ek_role a = PARTICIPANT_A \<and> ek_role b = PARTICIPANT_B)"
proof -
  have ok: "assertCoalitionCaseKeysAreAdmitted zero_sha [sample_enrollment PARTICIPANT_A ''0xa'', sample_enrollment PARTICIPANT_B ''0xb'']
     (sample_identity ''PARTICIPANT_A'') (sample_identity ''PARTICIPANT_B'') = Inr ()"
    using sample_signing_key_digest
    by (simp add: assertCoalitionCaseKeysAreAdmitted_def sample_enrollment_def sample_identity_def by_role_def require_def
        toLowerCase_def lower_char_def Let_def)
  with coalition_keys_admitted_bilaterally [OF ok] show ?thesis by blast
qed

definition sample_v1_message :: ParticipantAdmissionMessage where
  "sample_v1_message = \<lparr>am_verifyingService = ''mordant'', am_runId = ''run'', am_fheCaseId = sample_bytes32,
     am_protectionBindingDigest = sample_bytes32, am_assetIdentityDigest = sample_bytes32, am_role = PARTICIPANT_B,
     am_activeFrom = 0, am_activeUntil = 100, am_participantWallet = sample_wallet CHR ''1'', am_authorizationNonce = sample_bytes32,
     am_issuedAt = 1700000000, am_expiresAt = 1700000600\<rparr>"

definition sample_context :: ExpectedAdmissionContext where
  "sample_context = \<lparr>ex_verifyingService = ''mordant'', ex_runId = ''run'', ex_fheCaseId = ''sha256:'' @ zero_sha [],
     ex_protectionBindingDigest = ''sha256:'' @ zero_sha [], ex_assetIdentityDigest = ''sha256:'' @ zero_sha [], ex_role = PARTICIPANT_B,
     ex_claim = Some \<lparr>pw_activeFrom = 0, pw_activeUntil = 100\<rparr>, ex_chainId = None, ex_now = 1700000300\<rparr>"

lemma sample_digest_bytes32: "digestToBytes32 (''sha256:'' @ zero_sha []) = Inr sample_bytes32"
  using zero_sha_hex by (simp add: digestToBytes32_def sample_bytes32_def hex_digest_def)

theorem v1_authorization_sound_witness:
  "\<exists>r. verifyParticipantAuthorization zero_sha zero_sha (\<lambda>_. []) Some (\<lambda>_ _ _ _. Inr True) sample_v1_message
        (VString sample_signature_text) sample_context = Inr r \<and> va_message r = sample_v1_message"
proof -
  have "participantClaimCommitment zero_sha run role claim = Inr (''0x'' @ zero_sha [])" for run role claim
    by (simp add: participantClaimCommitment_def digestToBytes32_ok [OF zero_sha_hex] zero_sha_def)
  moreover have "length sample_signature_text = 132" by (simp add: sample_signature_text_def)
  ultimately obtain r where r: "verifyParticipantAuthorization zero_sha zero_sha (\<lambda>_. []) Some (\<lambda>_ _ _ _. Inr True) sample_v1_message
        (VString sample_signature_text) sample_context = Inr r"
    using sample_signature_format sample_digest_bytes32
    by (simp add: verifyParticipantAuthorization_def sample_v1_message_def sample_context_def js_string_def require_def Let_def)
  have "ex_claim sample_context = Some \<lparr>pw_activeFrom = 0, pw_activeUntil = 100\<rparr>" by (simp add: sample_context_def)
  from v1_authorization_sound [OF r this] r show ?thesis by blast
qed

end
