(* ===== verification/Admission_Store.thy ===== *)
theory Admission_Store
  imports Admission_Authorization Operation_Journal
begin

text \<open>
  The durable role admission ledger (\<^verbatim>\<open>participant-admission-store.ts\<close>): one create-only file per role, a
  create-only lock file that serializes the writers of a case, and the create-only case codes.

  The sequential definitions follow the functions of the source. A throwing function returns the disk it
  leaves and an error value. The processes that share the volume are then interleaved: every read, every
  exclusive open, every write and every release of the lock is a step of its own, and a process may
  crash or its write may fail between any two of them.
\<close>

subsection \<open>Records and files\<close>

text \<open>The candidate is the record without its schema.\<close>

record AdmissionCandidate =
  ar_runId :: string
  ar_authorization :: "(string \<times> jsval) list option"
  ar_signature :: "string option"
  ar_role :: ParticipantRole
  ar_participantWallet :: string
  ar_authorizationDigest :: string
  ar_claimCommitment :: string
  ar_authorizationNonce :: string
  ar_chainId :: int
  ar_issuedAt :: int
  ar_expiresAt :: int
  ar_participantSigningKeyDigest :: "string option"
  ar_eligibilityBlock :: int
  ar_admittedAtUnix :: int

record ParticipantAdmissionRecord = AdmissionCandidate +
  ar_schemaVersion :: string

record CaseCodeRecord =
  cc_schemaVersion :: string
  cc_caseCode :: string
  cc_runId :: string

datatype admission_file = AdmissionFile ParticipantAdmissionRecord | CaseCodeFile CaseCodeRecord | LockFile string

type_synonym admission_disk = "admission_file disk"

definition PARTICIPANT_ADMISSION_RECORD_SCHEMA :: string where
  "PARTICIPANT_ADMISSION_RECORD_SCHEMA = ''mordant.participant-admission-record/3''"

definition PARTICIPANT_ADMISSION_RECORD_SCHEMA_V2 :: string where
  "PARTICIPANT_ADMISSION_RECORD_SCHEMA_V2 = ''mordant.participant-admission-record/2''"

definition PARTICIPANT_CASE_CODE_SCHEMA :: string where
  "PARTICIPANT_CASE_CODE_SCHEMA = ''mordant.participant-case-code/1''"

definition CASE_CODE_ALPHABET :: string where
  "CASE_CODE_ALPHABET = ''0123456789ABCDEFGHJKMNPQRSTVWXYZ''"

definition CASE_CODE_LENGTH :: nat where
  "CASE_CODE_LENGTH = 16"

definition char_range :: "char \<Rightarrow> char \<Rightarrow> char \<Rightarrow> bool" where
  "char_range lo hi c \<longleftrightarrow> lo \<le> c \<and> c \<le> hi"

definition CASE_CODE_PATTERN :: "(char \<Rightarrow> bool) list" where
  "CASE_CODE_PATTERN = replicate 16 (\<lambda>c.
     char_range CHR ''0'' CHR ''9'' c \<or> char_range CHR ''A'' CHR ''H'' c \<or> c \<in> set ''JKMN''
     \<or> char_range CHR ''P'' CHR ''T'' c \<or> char_range CHR ''V'' CHR ''Z'' c)"

abbreviation ledger_error :: "string \<Rightarrow> nat \<Rightarrow> merror" where
  "ledger_error \<equiv> ParticipantAdmissionStoreError"

text \<open>The members \<open>schemaVersion\<close> and \<open>runId\<close> of a parsed file, whatever its kind.\<close>

fun file_schemaVersion :: "admission_file \<Rightarrow> string option" where
  "file_schemaVersion (AdmissionFile r) = Some (ar_schemaVersion r)"
| "file_schemaVersion (CaseCodeFile c) = Some (cc_schemaVersion c)"
| "file_schemaVersion (LockFile _) = None"

fun file_runId :: "admission_file \<Rightarrow> string" where
  "file_runId (AdmissionFile r) = ar_runId r"
| "file_runId (CaseCodeFile c) = cc_runId c"
| "file_runId (LockFile runId) = runId"

definition writeCreateOnly :: "string \<Rightarrow> 'a \<Rightarrow> 'a disk \<Rightarrow> 'a disk \<times> bool" where
  "writeCreateOnly path v fs = (if fs path \<noteq> None then (fs, False) else (fs(path \<mapsto> Whole v), True))"

definition readJsonOrNull :: "string \<Rightarrow> 'a disk \<Rightarrow> 'a option" where
  "readJsonOrNull path fs = (case fs path of Some (Whole v) \<Rightarrow> Some v | _ \<Rightarrow> None)"

definition admissionRoot :: "string \<Rightarrow> string \<Rightarrow> string" where
  "admissionRoot runRoot runId = runRoot @ ''/'' @ runId @ ''/admissions''"

definition admissionRecordPath :: "string \<Rightarrow> string \<Rightarrow> ParticipantRole \<Rightarrow> string" where
  "admissionRecordPath runRoot runId role = admissionRoot runRoot runId @ ''/'' @ toLowerCase (role_name role) @ ''.json''"

definition admissionLockPath :: "string \<Rightarrow> string \<Rightarrow> string" where
  "admissionLockPath runRoot runId = admissionRoot runRoot runId @ ''/.admission.lock''"

definition withRunAdmissionLock ::
  "string \<Rightarrow> string \<Rightarrow> (admission_disk \<Rightarrow> admission_disk \<times> 'b result) \<Rightarrow> admission_disk \<Rightarrow> admission_disk \<times> 'b result" where
  "withRunAdmissionLock runRoot runId operation fs =
     (let lockPath = admissionLockPath runRoot runId
      in if fs lockPath \<noteq> None then (fs, Inl (ledger_error ''ADMISSION_BUSY'' 409))
         else let (fs', r) = operation (fs(lockPath \<mapsto> Whole (LockFile runId))) in (fs'(lockPath := None), r))"

subsection \<open>Case codes\<close>

definition caseCodePath :: "string \<Rightarrow> string \<Rightarrow> string result" where
  "caseCodePath runRoot caseCode =
     ebind (check (fixed_regex CASE_CODE_PATTERN caseCode) (ledger_error ''CASE_CODE'' 404)) (\<lambda>_.
     Inr (runRoot @ ''/case-codes/'' @ caseCode @ ''.json''))"

text \<open>\<open>randomBytes(16)\<close> is the argument.\<close>

definition generateCaseCode :: "char list \<Rightarrow> string" where
  "generateCaseCode bytes = map (\<lambda>b. CASE_CODE_ALPHABET ! (of_char b mod 32)) bytes"

definition bindCaseCode :: "string \<Rightarrow> string \<Rightarrow> string \<Rightarrow> admission_disk \<Rightarrow> admission_disk \<times> unit result" where
  "bindCaseCode runRoot caseCode runId fs =
     (case caseCodePath runRoot caseCode of
        Inl e \<Rightarrow> (fs, Inl e)
      | Inr path \<Rightarrow>
          let (fs', created) = writeCreateOnly path (CaseCodeFile
                \<lparr>cc_schemaVersion = PARTICIPANT_CASE_CODE_SCHEMA, cc_caseCode = caseCode, cc_runId = runId\<rparr>) fs
          in (fs', check (created \<or> map_option file_runId (readJsonOrNull path fs') = Some runId)
                (ledger_error ''CASE_CODE_TAKEN'' 409)))"

definition resolveCaseCode :: "string \<Rightarrow> string \<Rightarrow> admission_disk \<Rightarrow> string option result" where
  "resolveCaseCode runRoot caseCode fs =
     ebind (caseCodePath runRoot caseCode) (\<lambda>path. Inr (case readJsonOrNull path fs of
        None \<Rightarrow> None
      | Some file \<Rightarrow> if file_schemaVersion file \<noteq> Some PARTICIPANT_CASE_CODE_SCHEMA then None else Some (file_runId file)))"

subsection \<open>Admission of one role\<close>

definition assertAdmissionRecord :: "ParticipantAdmissionRecord \<Rightarrow> string \<Rightarrow> ParticipantRole \<Rightarrow> unit result" where
  "assertAdmissionRecord r runId role = check (\<not> (
       ar_schemaVersion r \<noteq> PARTICIPANT_ADMISSION_RECORD_SCHEMA \<and> ar_schemaVersion r \<noteq> PARTICIPANT_ADMISSION_RECORD_SCHEMA_V2
     \<or> ar_runId r \<noteq> runId
     \<or> ar_role r \<noteq> role
     \<or> \<not> fixed_regex ADDRESS_ANY (ar_participantWallet r)
     \<or> \<not> fixed_regex BYTES32_LOWER (ar_authorizationDigest r)
     \<or> \<not> fixed_regex BYTES32_LOWER (ar_claimCommitment r)
     \<or> \<not> fixed_regex BYTES32_LOWER (ar_authorizationNonce r)
     \<or> \<not> isSafeInteger (ar_chainId r)
     \<or> ar_chainId r \<le> 0
     \<or> \<not> isSafeInteger (ar_issuedAt r)
     \<or> \<not> isSafeInteger (ar_expiresAt r)
     \<or> ar_issuedAt r \<le> 0
     \<or> ar_expiresAt r \<le> ar_issuedAt r
     \<or> \<not> isSafeInteger (ar_eligibilityBlock r)
     \<or> ar_eligibilityBlock r < 0
     \<or> \<not> isSafeInteger (ar_admittedAtUnix r)
     \<or> ar_admittedAtUnix r \<le> 0)) (ledger_error ''ADMISSION_INTEGRITY'' 500)"

definition readAdmission ::
  "string \<Rightarrow> string \<Rightarrow> ParticipantRole \<Rightarrow> admission_disk \<Rightarrow> ParticipantAdmissionRecord option result" where
  "readAdmission runRoot runId role fs =
     (case readJsonOrNull (admissionRecordPath runRoot runId role) fs of
        None \<Rightarrow> Inr None
      | Some (AdmissionFile r) \<Rightarrow> ebind (assertAdmissionRecord r runId role) (\<lambda>_. Inr (Some r))
      | Some _ \<Rightarrow> Inl (ledger_error ''ADMISSION_INTEGRITY'' 500))"

text \<open>The admitted roles, a partial record in the source and a map here.\<close>

definition readAdmissions ::
  "string \<Rightarrow> string \<Rightarrow> admission_disk \<Rightarrow> (ParticipantRole \<rightharpoonup> ParticipantAdmissionRecord) result" where
  "readAdmissions runRoot runId fs =
     ebind (readAdmission runRoot runId PARTICIPANT_A fs) (\<lambda>a.
     ebind (readAdmission runRoot runId PARTICIPANT_B fs) (\<lambda>b.
     Inr (\<lambda>role. case role of PARTICIPANT_A \<Rightarrow> a | PARTICIPANT_B \<Rightarrow> b)))"

record AdmissionOutcome =
  ao_record :: ParticipantAdmissionRecord
  ao_admitted :: bool

definition sameAuthorization :: "ParticipantAdmissionRecord \<Rightarrow> AdmissionCandidate \<Rightarrow> bool" where
  "sameAuthorization r c \<longleftrightarrow>
     ar_authorizationDigest r = ar_authorizationDigest c
     \<and> ar_claimCommitment r = ar_claimCommitment c
     \<and> ar_participantWallet r = ar_participantWallet c
     \<and> ar_authorizationNonce r = ar_authorizationNonce c
     \<and> ar_chainId r = ar_chainId c
     \<and> ar_issuedAt r = ar_issuedAt c
     \<and> ar_expiresAt r = ar_expiresAt c"

fun otherRole :: "ParticipantRole \<Rightarrow> ParticipantRole" where
  "otherRole PARTICIPANT_A = PARTICIPANT_B"
| "otherRole PARTICIPANT_B = PARTICIPANT_A"

text \<open>What is decided after the first read, when the role is already admitted.\<close>

definition recognise :: "ParticipantAdmissionRecord option \<Rightarrow> AdmissionCandidate \<Rightarrow> AdmissionOutcome result" where
  "recognise existing c = (case existing of
     Some r \<Rightarrow> if sameAuthorization r c then Inr \<lparr>ao_record = r, ao_admitted = False\<rparr>
               else Inl (ledger_error ''ROLE_OCCUPIED'' 409)
   | None \<Rightarrow> Inl (ledger_error ''ROLE_OCCUPIED'' 409))"

text \<open>The guards after the second read, and the record that is then written.\<close>

definition sibling_guard :: "AdmissionCandidate \<Rightarrow> ParticipantAdmissionRecord option \<Rightarrow> unit result" where
  "sibling_guard c other =
     ebind (check (\<not> (ar_role c = PARTICIPANT_B \<and> other = None)) (ledger_error ''ADMISSION_OUT_OF_ORDER'' 409)) (\<lambda>_.
     ebind (check (\<not> (ar_role c = PARTICIPANT_A \<and> other \<noteq> None)) (ledger_error ''ADMISSION_INTEGRITY'' 500)) (\<lambda>_.
     case other of None \<Rightarrow> Inr ()
     | Some r \<Rightarrow>
         ebind (check (toLowerCase (ar_participantWallet r) \<noteq> toLowerCase (ar_participantWallet c)) (ledger_error ''DUPLICATE_SIGNER'' 409)) (\<lambda>_.
         check (ar_authorizationNonce r \<noteq> ar_authorizationNonce c) (ledger_error ''NONCE_REPLAY'' 409))))"

definition admission_record :: "AdmissionCandidate \<Rightarrow> ParticipantAdmissionRecord" where
  "admission_record c = AdmissionCandidate.extend c \<lparr>ar_schemaVersion = PARTICIPANT_ADMISSION_RECORD_SCHEMA\<rparr>"

definition admission_guard :: "AdmissionCandidate \<Rightarrow> ParticipantAdmissionRecord option \<Rightarrow> ParticipantAdmissionRecord result" where
  "admission_guard c other =
     ebind (sibling_guard c other) (\<lambda>_.
     ebind (assertAdmissionRecord (admission_record c) (ar_runId c) (ar_role c)) (\<lambda>_.
     Inr (admission_record c)))"

text \<open>The function the lock is held for.\<close>

definition admission_operation :: "string \<Rightarrow> AdmissionCandidate \<Rightarrow> admission_disk \<Rightarrow> admission_disk \<times> AdmissionOutcome result" where
  "admission_operation runRoot c fs =
     (case readAdmission runRoot (ar_runId c) (ar_role c) fs of
        Inl e \<Rightarrow> (fs, Inl e)
      | Inr (Some r) \<Rightarrow> (fs, recognise (Some r) c)
      | Inr None \<Rightarrow>
         (case ebind (readAdmission runRoot (ar_runId c) (otherRole (ar_role c)) fs) (admission_guard c) of
            Inl e \<Rightarrow> (fs, Inl e)
          | Inr r \<Rightarrow>
              let (fs', created) = writeCreateOnly (admissionRecordPath runRoot (ar_runId c) (ar_role c)) (AdmissionFile r) fs
              in if created then (fs', Inr \<lparr>ao_record = r, ao_admitted = True\<rparr>)
                 else (fs', ebind (readAdmission runRoot (ar_runId c) (ar_role c) fs') (\<lambda>winner. recognise winner c))))"

definition admitParticipantRole :: "string \<Rightarrow> AdmissionCandidate \<Rightarrow> admission_disk \<Rightarrow> admission_disk \<times> AdmissionOutcome result" where
  "admitParticipantRole runRoot c fs = withRunAdmissionLock runRoot (ar_runId c) (admission_operation runRoot c) fs"

subsection \<open>Progress\<close>

record AdmissionProgress =
  pg_participantA :: bool
  pg_participantB :: bool
  pg_bothAdmitted :: bool
  pg_walletA :: "string option"
  pg_walletB :: "string option"

definition admissionProgress :: "string \<Rightarrow> string \<Rightarrow> admission_disk \<Rightarrow> AdmissionProgress result" where
  "admissionProgress runRoot runId fs =
     ebind (readAdmissions runRoot runId fs) (\<lambda>admitted.
       let a = admitted PARTICIPANT_A; b = admitted PARTICIPANT_B
       in Inr \<lparr>pg_participantA = (a \<noteq> None), pg_participantB = (b \<noteq> None), pg_bothAdmitted = (a \<noteq> None \<and> b \<noteq> None),
            pg_walletA = map_option ar_participantWallet a, pg_walletB = map_option ar_participantWallet b\<rparr>)"

definition admissionAbandoned :: "string \<Rightarrow> string \<Rightarrow> int \<Rightarrow> int \<Rightarrow> int \<Rightarrow> admission_disk \<Rightarrow> bool result" where
  "admissionAbandoned runRoot runId createdAtUnix nowUnix lifetimeSeconds fs =
     (if nowUnix - createdAtUnix < lifetimeSeconds then Inr False
      else ebind (admissionProgress runRoot runId fs) (\<lambda>progress. Inr (\<not> pg_bothAdmitted progress)))"

text \<open>The directory exists when one of its files does; the two names are counted.\<close>

definition admittedRoleCount :: "string \<Rightarrow> string \<Rightarrow> admission_disk \<Rightarrow> nat" where
  "admittedRoleCount runRoot runId fs =
     length (filter (\<lambda>name. fs (admissionRoot runRoot runId @ ''/'' @ name) \<noteq> None) [''participant_a.json'', ''participant_b.json''])"


subsection \<open>Paths and slots\<close>

lemma role_file_names [simp]:
  "toLowerCase ''PARTICIPANT_A'' = ''participant_a''" "toLowerCase ''PARTICIPANT_B'' = ''participant_b''"
  by code_simp+

lemma record_path_simps [simp]:
  "admissionRecordPath root run r = admissionRecordPath root run s \<longleftrightarrow> r = s"
  "admissionRecordPath root run r \<noteq> admissionLockPath root run"
  "admissionLockPath root run \<noteq> admissionRecordPath root run r"
  by (cases r; cases s; simp add: admissionRecordPath_def admissionLockPath_def)+

lemma otherRole_simps [simp]: "otherRole (otherRole r) = r" "otherRole r \<noteq> r" "r \<noteq> otherRole r"
  by (cases r; simp)+

lemma role_cases: "s = r \<or> s = otherRole r"
  by (cases r; cases s) auto

text \<open>The role file of a run as the reader sees it: a parsed admission record or nothing.\<close>

definition slot :: "string \<Rightarrow> string \<Rightarrow> admission_disk \<Rightarrow> ParticipantRole \<rightharpoonup> ParticipantAdmissionRecord" where
  "slot root run fs role = (case fs (admissionRecordPath root run role) of Some (Whole (AdmissionFile r)) \<Rightarrow> Some r | _ \<Rightarrow> None)"

definition valid_record :: "string \<Rightarrow> ParticipantRole \<Rightarrow> ParticipantAdmissionRecord \<Rightarrow> bool" where
  "valid_record run role r \<longleftrightarrow> assertAdmissionRecord r run role = Inr ()"

text \<open>The role file is absent, torn, or a valid admission record.\<close>

definition sound_file :: "string \<Rightarrow> string \<Rightarrow> admission_disk \<Rightarrow> ParticipantRole \<Rightarrow> bool" where
  "sound_file root run fs role = (case fs (admissionRecordPath root run role) of
     Some (Whole (AdmissionFile r)) \<Rightarrow> valid_record run role r | Some (Whole _) \<Rightarrow> False | _ \<Rightarrow> True)"

lemma readAdmission_sound: "sound_file root run fs role \<Longrightarrow> readAdmission root run role fs = Inr (slot root run fs role)"
  by (auto simp: sound_file_def slot_def readAdmission_def readJsonOrNull_def valid_record_def
      split: option.splits stored.splits admission_file.splits)

lemma readAdmission_Inr: "readAdmission root run role fs = Inr x \<longleftrightarrow> sound_file root run fs role \<and> x = slot root run fs role"
  by (auto simp: sound_file_def slot_def readAdmission_def readJsonOrNull_def valid_record_def ebind_eq_Inr
      split: option.splits stored.splits admission_file.splits)

lemma slot_cong: "fs (admissionRecordPath root run role) = fs' (admissionRecordPath root run role) \<Longrightarrow> slot root run fs role = slot root run fs' role"
  by (simp add: slot_def)

lemma sound_file_cong:
  "fs (admissionRecordPath root run role) = fs' (admissionRecordPath root run role) \<Longrightarrow> sound_file root run fs role = sound_file root run fs' role"
  by (simp add: sound_file_def)

lemma slot_upd [simp]:
  "slot root run (fs(admissionLockPath root run := x)) = slot root run fs"
  "slot root run (fs(admissionRecordPath root run role \<mapsto> Torn)) = (slot root run fs)(role := None)"
  "slot root run (fs(admissionRecordPath root run role \<mapsto> Whole (AdmissionFile r))) = (slot root run fs)(role \<mapsto> r)"
  by (auto simp: slot_def fun_eq_iff)

lemma sound_upd [simp]:
  "sound_file root run (fs(admissionLockPath root run := x)) = sound_file root run fs"
  "sound_file root run (fs(admissionRecordPath root run role \<mapsto> Torn)) s \<longleftrightarrow> s = role \<or> sound_file root run fs s"
  "sound_file root run (fs(admissionRecordPath root run role \<mapsto> Whole (AdmissionFile r))) s
     \<longleftrightarrow> (if s = role then valid_record run role r else sound_file root run fs s)"
  by (auto simp: sound_file_def fun_eq_iff)

text \<open>Two roles that may be recorded together.\<close>

definition compatible :: "ParticipantAdmissionRecord \<Rightarrow> ParticipantAdmissionRecord \<Rightarrow> bool" where
  "compatible a b \<longleftrightarrow> toLowerCase (ar_participantWallet a) \<noteq> toLowerCase (ar_participantWallet b)
     \<and> ar_authorizationNonce a \<noteq> ar_authorizationNonce b"

definition consistent :: "(ParticipantRole \<rightharpoonup> ParticipantAdmissionRecord) \<Rightarrow> bool" where
  "consistent m \<longleftrightarrow> (\<forall>b. m PARTICIPANT_B = Some b \<longrightarrow> (\<exists>a. m PARTICIPANT_A = Some a \<and> compatible a b))"

lemma admission_record_fields [simp]:
  "ar_role (admission_record c) = ar_role c" "ar_runId (admission_record c) = ar_runId c"
  "ar_participantWallet (admission_record c) = ar_participantWallet c"
  "ar_authorizationNonce (admission_record c) = ar_authorizationNonce c"
  "ar_authorizationDigest (admission_record c) = ar_authorizationDigest c"
  "ar_claimCommitment (admission_record c) = ar_claimCommitment c"
  "ar_chainId (admission_record c) = ar_chainId c" "ar_issuedAt (admission_record c) = ar_issuedAt c"
  "ar_expiresAt (admission_record c) = ar_expiresAt c"
  by (simp_all add: admission_record_def AdmissionCandidate.extend_def)

lemma sameAuthorization_self [simp]: "sameAuthorization (admission_record c) c"
  by (simp add: sameAuthorization_def)

text \<open>When the guards let a record through.\<close>

lemma admission_guard_ok:
  "admission_guard c other = Inr r \<longleftrightarrow>
     r = admission_record c \<and> valid_record (ar_runId c) (ar_role c) r
     \<and> (case ar_role c of PARTICIPANT_A \<Rightarrow> other = None | PARTICIPANT_B \<Rightarrow> \<exists>a. other = Some a \<and> compatible a r)"
  by (cases "ar_role c"; cases other)
    (auto simp: admission_guard_def sibling_guard_def valid_record_def compatible_def ebind_eq_Inr check_eq_Inr)

lemma guard_consistent:
  assumes "admission_guard c (m (otherRole (ar_role c))) = Inr r"
  shows "consistent (m(ar_role c \<mapsto> r))"
  using assms by (cases "ar_role c") (auto simp: admission_guard_ok consistent_def)


subsection \<open>Processes that share the volume\<close>

text \<open>
  Where a process stands inside \<open>admitParticipantRole\<close>: it holds the lock; it has seen that its role is not
  admitted; it has passed the guards; it has opened its file exclusively; it is about to release the lock
  and return. A process that is not in the map is outside.
\<close>

datatype admission_pc =
    Holding AdmissionCandidate
  | Vacant AdmissionCandidate
  | Guarded AdmissionCandidate ParticipantAdmissionRecord
  | Opened AdmissionCandidate ParticipantAdmissionRecord
  | Returning "AdmissionOutcome result"

type_synonym ledger_state = "admission_disk \<times> (nat \<rightharpoonup> admission_pc)"

definition after_own_read :: "string \<Rightarrow> AdmissionCandidate \<Rightarrow> admission_disk \<Rightarrow> admission_pc" where
  "after_own_read root c fs = (case readAdmission root (ar_runId c) (ar_role c) fs of
     Inl e \<Rightarrow> Returning (Inl e) | Inr (Some r) \<Rightarrow> Returning (recognise (Some r) c) | Inr None \<Rightarrow> Vacant c)"

definition after_sibling_read :: "string \<Rightarrow> AdmissionCandidate \<Rightarrow> admission_disk \<Rightarrow> admission_pc" where
  "after_sibling_read root c fs =
     (case ebind (readAdmission root (ar_runId c) (otherRole (ar_role c)) fs) (admission_guard c) of
        Inl e \<Rightarrow> Returning (Inl e) | Inr r \<Rightarrow> Guarded c r)"

inductive ledger_step :: "string \<Rightarrow> string \<Rightarrow> ledger_state \<Rightarrow> ledger_state \<Rightarrow> bool" for root run where
  acquire: "\<lbrakk>fs (admissionLockPath root run) = None; ps p = None; ar_runId c = run\<rbrakk>
     \<Longrightarrow> ledger_step root run (fs, ps) (fs(admissionLockPath root run \<mapsto> Whole (LockFile run)), ps(p \<mapsto> Holding c))"
| read_own: "ps p = Some (Holding c) \<Longrightarrow> ledger_step root run (fs, ps) (fs, ps(p \<mapsto> after_own_read root c fs))"
| read_sibling: "ps p = Some (Vacant c) \<Longrightarrow> ledger_step root run (fs, ps) (fs, ps(p \<mapsto> after_sibling_read root c fs))"
| open_exclusively: "\<lbrakk>ps p = Some (Guarded c r); fs (admissionRecordPath root run (ar_role c)) = None\<rbrakk>
     \<Longrightarrow> ledger_step root run (fs, ps) (fs(admissionRecordPath root run (ar_role c) \<mapsto> Torn), ps(p \<mapsto> Opened c r))"
| open_refused: "\<lbrakk>ps p = Some (Guarded c r); fs (admissionRecordPath root run (ar_role c)) \<noteq> None\<rbrakk>
     \<Longrightarrow> ledger_step root run (fs, ps)
           (fs, ps(p \<mapsto> Returning (ebind (readAdmission root (ar_runId c) (ar_role c) fs) (\<lambda>winner. recognise winner c))))"
| write_record: "ps p = Some (Opened c r) \<Longrightarrow> ledger_step root run (fs, ps)
     (fs(admissionRecordPath root run (ar_role c) \<mapsto> Whole (AdmissionFile r)), ps(p \<mapsto> Returning (Inr \<lparr>ao_record = r, ao_admitted = True\<rparr>)))"
| write_fails: "ps p = Some (Opened c r) \<Longrightarrow> ledger_step root run (fs, ps) (fs, ps(p \<mapsto> Returning (Inl DependencyError)))"
| release: "ps p = Some (Returning res) \<Longrightarrow> ledger_step root run (fs, ps) (fs(admissionLockPath root run := None), ps(p := None))"
| crash: "ps p \<noteq> None \<Longrightarrow> ledger_step root run (fs, ps) (fs, ps(p := None))"
| elsewhere: "\<lbrakk>fs' (admissionLockPath root run) = fs (admissionLockPath root run);
      \<And>role. fs' (admissionRecordPath root run role) = fs (admissionRecordPath root run role)\<rbrakk>
     \<Longrightarrow> ledger_step root run (fs, ps) (fs', ps)"

definition pc_ok :: "string \<Rightarrow> string \<Rightarrow> admission_disk \<Rightarrow> admission_pc \<Rightarrow> bool" where
  "pc_ok root run fs pc = (case pc of
     Holding c \<Rightarrow> ar_runId c = run
   | Vacant c \<Rightarrow> ar_runId c = run \<and> slot root run fs (ar_role c) = None
   | Guarded c r \<Rightarrow> ar_runId c = run \<and> slot root run fs (ar_role c) = None
       \<and> admission_guard c (slot root run fs (otherRole (ar_role c))) = Inr r
   | Opened c r \<Rightarrow> ar_runId c = run \<and> fs (admissionRecordPath root run (ar_role c)) = Some Torn
       \<and> admission_guard c (slot root run fs (otherRole (ar_role c))) = Inr r
   | Returning (Inl e) \<Rightarrow> True
   | Returning (Inr out) \<Rightarrow> slot root run fs (ar_role (ao_record out)) = Some (ao_record out))"

text \<open>The ledger is sound; whoever is inside holds the lock alone and its position is justified.\<close>

definition ledger_inv :: "string \<Rightarrow> string \<Rightarrow> ledger_state \<Rightarrow> bool" where
  "ledger_inv root run s = (case s of (fs, ps) \<Rightarrow>
     (\<forall>role. sound_file root run fs role) \<and> consistent (slot root run fs)
     \<and> (\<forall>p x. ps p = Some x \<longrightarrow> fs (admissionLockPath root run) \<noteq> None \<and> pc_ok root run fs x \<and> (\<forall>q. q \<noteq> p \<longrightarrow> ps q = None)))"

definition ledger_grows :: "string \<Rightarrow> string \<Rightarrow> ledger_state \<Rightarrow> ledger_state \<Rightarrow> bool" where
  "ledger_grows root run s t \<longleftrightarrow> slot root run (fst s) \<subseteq>\<^sub>m slot root run (fst t)
     \<and> (\<forall>role. fst s (admissionRecordPath root run role) \<noteq> None \<longrightarrow> fst t (admissionRecordPath root run role) \<noteq> None)"

lemma valid_role: "valid_record run role r \<Longrightarrow> ar_role r = role"
  by (auto simp: valid_record_def assertAdmissionRecord_def check_eq_Inr)

lemma sound_slot: "sound_file root run fs role \<Longrightarrow> slot root run fs role = Some r \<Longrightarrow> valid_record run role r"
  by (auto simp: sound_file_def slot_def split: option.splits stored.splits admission_file.splits)

lemma recognised_recorded:
  assumes "recognise x c = Inr out" "x = slot root run fs role" "sound_file root run fs role"
  shows "slot root run fs (ar_role (ao_record out)) = Some (ao_record out)"
  using assms by (auto simp: recognise_def valid_role [OF sound_slot] split: option.splits if_splits)

lemma after_own_read_ok:
  assumes "\<forall>role. sound_file root run fs role" "ar_runId c = run"
  shows "pc_ok root run fs (after_own_read root c fs)"
  using assms recognised_recorded [of _ c _ root run fs "ar_role c"]
  by (auto simp: after_own_read_def readAdmission_sound pc_ok_def split: option.splits sum.splits)

lemma after_sibling_read_ok:
  assumes "\<forall>role. sound_file root run fs role" "ar_runId c = run" "slot root run fs (ar_role c) = None"
  shows "pc_ok root run fs (after_sibling_read root c fs)"
  using assms by (auto simp: after_sibling_read_def readAdmission_sound pc_ok_def split: sum.splits)

lemma open_refused_ok:
  assumes "\<forall>role. sound_file root run fs role" "ar_runId c = run"
  shows "pc_ok root run fs (Returning (ebind (readAdmission root (ar_runId c) (ar_role c) fs) (\<lambda>winner. recognise winner c)))"
  using assms recognised_recorded [of _ c _ root run fs "ar_role c"]
  by (auto simp: readAdmission_sound pc_ok_def split: sum.splits)


lemma ledger_invD:
  assumes "ledger_inv root run (fs, ps)"
  shows "\<forall>role. sound_file root run fs role" "consistent (slot root run fs)"
    and "ps p = Some x \<Longrightarrow> fs (admissionLockPath root run) \<noteq> None"
    and "ps p = Some x \<Longrightarrow> pc_ok root run fs x"
    and "ps p = Some x \<Longrightarrow> q \<noteq> p \<Longrightarrow> ps q = None"
  using assms by (auto simp: ledger_inv_def)

text \<open>The process that holds the lock moves: only its own position has to be justified again.\<close>

lemma ledger_inv_move:
  assumes "ledger_inv root run (fs, ps)" "ps p = Some x"
    and "\<forall>role. sound_file root run fs' role" "consistent (slot root run fs')"
    and "fs' (admissionLockPath root run) = fs (admissionLockPath root run)" "pc_ok root run fs' y"
  shows "ledger_inv root run (fs', ps(p \<mapsto> y))"
  using assms ledger_invD(3,5) [OF assms(1,2)] by (auto simp: ledger_inv_def)

lemma ledger_inv_leave:
  assumes "ledger_inv root run (fs, ps)" "ps p = Some x"
    and "\<forall>role. sound_file root run fs' role" "slot root run fs' = slot root run fs"
  shows "ledger_inv root run (fs', ps(p := None))"
proof -
  have "(ps(p := None)) q = None" for q using ledger_invD(5) [OF assms(1,2), of q] by simp
  then show ?thesis using assms by (auto simp: ledger_inv_def)
qed

lemma ledger_step_inv:
  assumes "ledger_step root run s t" "ledger_inv root run s"
  shows "ledger_inv root run t"
  using assms
proof cases
  case (acquire fs ps p c)
  then have "ps q = None" for q using assms(2) ledger_invD(3) [of root run fs ps q] by (cases "ps q") auto
  then show ?thesis using assms(2) acquire by (auto simp: ledger_inv_def pc_ok_def)
next
  case (read_own ps p c fs)
  note inv = assms(2) [unfolded read_own]
  from ledger_invD(4) [OF inv read_own(3)] have "ar_runId c = run" by (simp add: pc_ok_def)
  then show ?thesis unfolding read_own
    using ledger_inv_move [OF inv read_own(3) ledger_invD(1,2) [OF inv]] after_own_read_ok [OF ledger_invD(1) [OF inv]] by blast
next
  case (read_sibling ps p c fs)
  note inv = assms(2) [unfolded read_sibling]
  from ledger_invD(4) [OF inv read_sibling(3)] have "ar_runId c = run" "slot root run fs (ar_role c) = None" by (simp_all add: pc_ok_def)
  then show ?thesis unfolding read_sibling
    using ledger_inv_move [OF inv read_sibling(3) ledger_invD(1,2) [OF inv]] after_sibling_read_ok [OF ledger_invD(1) [OF inv]] by blast
next
  case (open_exclusively ps p c r fs)
  note inv = assms(2) [unfolded open_exclusively]
  from ledger_invD(4) [OF inv open_exclusively(3)]
  have pc: "ar_runId c = run" "slot root run fs (ar_role c) = None" "admission_guard c (slot root run fs (otherRole (ar_role c))) = Inr r"
    by (simp_all add: pc_ok_def)
  then have same: "(slot root run fs)(ar_role c := None) = slot root run fs" by auto
  show ?thesis unfolding open_exclusively
    by (rule ledger_inv_move [OF inv open_exclusively(3)]) (use pc same ledger_invD(1,2) [OF inv] in \<open>auto simp: pc_ok_def\<close>)
next
  case (open_refused ps p c r fs)
  note inv = assms(2) [unfolded open_refused]
  from ledger_invD(4) [OF inv open_refused(3)] have "ar_runId c = run" by (simp add: pc_ok_def)
  then show ?thesis unfolding open_refused
    using ledger_inv_move [OF inv open_refused(3) ledger_invD(1,2) [OF inv]] open_refused_ok [OF ledger_invD(1) [OF inv]] by blast
next
  case (write_record ps p c r fs)
  note inv = assms(2) [unfolded write_record]
  from ledger_invD(4) [OF inv write_record(3)]
  have pc: "ar_runId c = run" "admission_guard c (slot root run fs (otherRole (ar_role c))) = Inr r" by (simp_all add: pc_ok_def)
  then have "valid_record run (ar_role c) r" "ar_role r = ar_role c" by (auto simp: admission_guard_ok)
  then show ?thesis unfolding write_record
    using guard_consistent [of c "slot root run fs" r, OF pc(2)] ledger_invD(1) [OF inv]
    by (intro ledger_inv_move [OF inv write_record(3)]) (auto simp: pc_ok_def)
next
  case (write_fails ps p c r fs)
  note inv = assms(2) [unfolded write_fails]
  show ?thesis unfolding write_fails
    by (rule ledger_inv_move [OF inv write_fails(3) ledger_invD(1,2) [OF inv]]) (simp_all add: pc_ok_def)
next
  case (release ps p res fs)
  note inv = assms(2) [unfolded release]
  show ?thesis unfolding release
    by (rule ledger_inv_leave [OF inv release(3)]) (use ledger_invD(1) [OF inv] in simp_all)
next
  case (crash ps p fs)
  note inv = assms(2) [unfolded crash]
  from crash(3) obtain x where "ps p = Some x" by auto
  from ledger_inv_leave [OF inv this] ledger_invD(1) [OF inv] show ?thesis unfolding crash by simp
next
  case (elsewhere fs' fs ps)
  then have "slot root run fs' = slot root run fs" "sound_file root run fs' = sound_file root run fs"
    by (auto simp: fun_eq_iff slot_def sound_file_def)
  moreover have "pc_ok root run fs' x = pc_ok root run fs x" for x
    using elsewhere calculation(1) by (simp add: pc_ok_def split: admission_pc.split sum.split)
  ultimately show ?thesis using assms(2) elsewhere by (auto simp: ledger_inv_def)
qed

lemma ledger_step_grows:
  assumes "ledger_step root run s t" "ledger_inv root run s"
  shows "ledger_grows root run s t"
  using assms
proof cases
  case (open_exclusively ps p c r fs)
  then show ?thesis using ledger_invD(4) [OF assms(2) [unfolded open_exclusively] open_exclusively(3)]
    by (auto simp: ledger_grows_def map_le_def pc_ok_def)
next
  case (write_record ps p c r fs)
  then have "slot root run fs (ar_role c) = None"
    using ledger_invD(4) [OF assms(2) [unfolded write_record] write_record(3)] by (simp add: pc_ok_def slot_def)
  then show ?thesis using write_record by (auto simp: ledger_grows_def map_le_def dom_def)
qed (auto simp: ledger_grows_def map_le_def slot_def)

interpretation admission_ledger: growing_store "ledger_inv root run" "ledger_step root run" "ledger_grows root run"
proof
  show "ledger_grows root run s s" for s by (simp add: ledger_grows_def map_le_def)
  show "ledger_grows root run s u" if "ledger_grows root run s t" "ledger_grows root run t u" for s t u
    using that by (auto simp: ledger_grows_def intro: map_le_trans)
qed (blast intro: ledger_step_inv ledger_step_grows)+


lemma fresh_ledger_inv:
  assumes "\<And>role. fs (admissionRecordPath root run role) = None"
  shows "ledger_inv root run (fs, Map.empty)"
  using assms by (simp add: ledger_inv_def sound_file_def consistent_def slot_def)

lemma readAdmissions_sound:
  assumes "\<forall>role. sound_file root run fs role"
  shows "readAdmissions root run fs = Inr (slot root run fs)"
proof -
  have "(\<lambda>role. case role of PARTICIPANT_A \<Rightarrow> slot root run fs PARTICIPANT_A | PARTICIPANT_B \<Rightarrow> slot root run fs PARTICIPANT_B)
      = slot root run fs"
    by (auto split: ParticipantRole.split)
  then show ?thesis using assms by (simp add: readAdmissions_def readAdmission_sound)
qed

text \<open>C13: Whatever processes race for the roles of a case, crash or fail in the middle of a write, the ledger
  always reads: every admitted record is valid for its run and role, Participant B is admitted only beside an
  admitted Participant A, and the two hold different wallets (up to letter case) and different nonces.\<close>

theorem ledger_consistent_under_concurrency:
  assumes "\<And>role. fs (admissionRecordPath root run role) = None"
    and "(ledger_step root run)\<^sup>*\<^sup>* (fs, Map.empty) (fs', ps)"
  shows "\<exists>m. readAdmissions root run fs' = Inr m
     \<and> (\<forall>role r. m role = Some r \<longrightarrow> assertAdmissionRecord r run role = Inr ())
     \<and> (\<forall>b. m PARTICIPANT_B = Some b \<longrightarrow> (\<exists>a. m PARTICIPANT_A = Some a
          \<and> toLowerCase (ar_participantWallet a) \<noteq> toLowerCase (ar_participantWallet b)
          \<and> ar_authorizationNonce a \<noteq> ar_authorizationNonce b))"
proof -
  from admission_ledger.run_inv [OF assms(2) fresh_ledger_inv [of fs, OF assms(1)]]
  have "\<forall>role. sound_file root run fs' role" "consistent (slot root run fs')" by (rule ledger_invD)+
  then show ?thesis using sound_slot [of root run fs'] by (auto simp: readAdmissions_sound valid_record_def consistent_def compatible_def)
qed

text \<open>C14: An admitted role is never reassigned: once its record reads back it reads back unchanged after any
  further activity, and every call that is about to return success, whether it wrote the record or
  recognised its own, returns a record that is durably in the ledger.\<close>

theorem admitted_role_never_reassigned:
  assumes "\<And>role. fs (admissionRecordPath root run role) = None"
    and "(ledger_step root run)\<^sup>*\<^sup>* (fs, Map.empty) (fs1, ps1)" "(ledger_step root run)\<^sup>*\<^sup>* (fs1, ps1) (fs2, ps2)"
    and "readAdmission root run role fs1 = Inr (Some r)"
  shows "readAdmission root run role fs2 = Inr (Some r)
     \<and> (\<forall>p out. ps2 p = Some (Returning (Inr out)) \<longrightarrow> readAdmission root run (ar_role (ao_record out)) fs2 = Inr (Some (ao_record out)))"
proof -
  note inv1 = admission_ledger.run_inv [OF assms(2) fresh_ledger_inv [of fs, OF assms(1)]]
  note inv2 = admission_ledger.run_inv [OF assms(3) inv1]
  have "slot root run fs1 role = Some r" using assms(4) by (simp add: readAdmission_Inr)
  moreover have "slot root run fs1 \<subseteq>\<^sub>m slot root run fs2"
    using admission_ledger.run_grows [OF assms(3) inv1] by (simp add: ledger_grows_def)
  ultimately have "slot root run fs2 role = Some r" by (metis domI map_le_def)
  moreover have "slot root run fs2 (ar_role (ao_record out)) = Some (ao_record out)" if "ps2 p = Some (Returning (Inr out))" for p out
    using ledger_invD(4) [OF inv2 that] by (simp add: pc_ok_def)
  ultimately show ?thesis using ledger_invD(1) [OF inv2] by (simp add: readAdmission_sound)
qed

subsection \<open>One call\<close>

text \<open>The effect of a call when the role files read.\<close>

lemma admit_eq:
  assumes "\<forall>role. sound_file root (ar_runId c) fs role"
  shows "admitParticipantRole root c fs =
    (if fs (admissionLockPath root (ar_runId c)) \<noteq> None then (fs, Inl (ledger_error ''ADMISSION_BUSY'' 409))
     else case slot root (ar_runId c) fs (ar_role c) of
        Some r \<Rightarrow> (fs, recognise (Some r) c)
      | None \<Rightarrow> (case admission_guard c (slot root (ar_runId c) fs (otherRole (ar_role c))) of
          Inl e \<Rightarrow> (fs, Inl e)
        | Inr r \<Rightarrow> if fs (admissionRecordPath root (ar_runId c) (ar_role c)) = None
            then (fs(admissionRecordPath root (ar_runId c) (ar_role c) \<mapsto> Whole (AdmissionFile r)), Inr \<lparr>ao_record = r, ao_admitted = True\<rparr>)
            else (fs, Inl (ledger_error ''ROLE_OCCUPIED'' 409))))"
proof -
  have unlocked: "fs(admissionLockPath root (ar_runId c) := None) = fs" if "fs (admissionLockPath root (ar_runId c)) = None"
    using that by auto
  have upd: "(fs(admissionLockPath root (ar_runId c) := x, admissionRecordPath root (ar_runId c) (ar_role c) := y))(admissionLockPath root (ar_runId c) := None)
      = fs(admissionRecordPath root (ar_runId c) (ar_role c) := y)" if "fs (admissionLockPath root (ar_runId c)) = None" for x y
    using that by (auto simp: fun_eq_iff)
  show ?thesis
    using assms
    by (auto simp: admitParticipantRole_def withRunAdmissionLock_def admission_operation_def readAdmission_sound writeCreateOnly_def
        Let_def unlocked upd recognise_def split: option.splits sum.splits)
qed


lemma recognise_never_new: "recognise x c \<noteq> Inr \<lparr>ao_record = r, ao_admitted = True\<rparr>"
  by (auto simp: recognise_def split: option.splits)

lemma all_sound: "(\<forall>role. sound_file root run fs role) \<longleftrightarrow> (\<forall>role. is_ok (readAdmission root run role fs))"
  by (auto simp: is_ok_iff readAdmission_Inr)

lemma admit_iff:
  assumes "\<forall>role. sound_file root (ar_runId c) fs role"
  shows "admitParticipantRole root c fs = (fs', Inr \<lparr>ao_record = r, ao_admitted = True\<rparr>) \<longleftrightarrow>
     fs (admissionLockPath root (ar_runId c)) = None
     \<and> fs (admissionRecordPath root (ar_runId c) (ar_role c)) = None
     \<and> admission_guard c (slot root (ar_runId c) fs (otherRole (ar_role c))) = Inr r
     \<and> fs' = fs(admissionRecordPath root (ar_runId c) (ar_role c) \<mapsto> Whole (AdmissionFile r))"
proof -
  have "slot root (ar_runId c) fs (ar_role c) = None" if "fs (admissionRecordPath root (ar_runId c) (ar_role c)) = None"
    using that by (simp add: slot_def)
  then show ?thesis using recognise_never_new by (auto simp: admit_eq [OF assms] split: option.splits sum.splits)
qed

text \<open>When the role files read, a call admits a role exactly when the lock is free, no file of the role
  exists, the record is valid and the sibling allows it (none for Participant A; a compatible one for
  Participant B). It then adds exactly that record; every other call leaves the disk as it was.\<close>

theorem admission_exact:
  assumes "\<And>role. is_ok (readAdmission root (ar_runId c) role fs)"
  shows "(admitParticipantRole root c fs = (fs', Inr \<lparr>ao_record = r, ao_admitted = True\<rparr>) \<longleftrightarrow>
      fs (admissionLockPath root (ar_runId c)) = None
      \<and> fs (admissionRecordPath root (ar_runId c) (ar_role c)) = None
      \<and> r = admission_record c \<and> assertAdmissionRecord r (ar_runId c) (ar_role c) = Inr ()
      \<and> (case ar_role c of
           PARTICIPANT_A \<Rightarrow> readAdmission root (ar_runId c) PARTICIPANT_B fs = Inr None
         | PARTICIPANT_B \<Rightarrow> \<exists>a. readAdmission root (ar_runId c) PARTICIPANT_A fs = Inr (Some a) \<and> compatible a r)
      \<and> fs' = fs(admissionRecordPath root (ar_runId c) (ar_role c) \<mapsto> Whole (AdmissionFile r)))
   \<and> ((\<nexists>r. snd (admitParticipantRole root c fs) = Inr \<lparr>ao_record = r, ao_admitted = True\<rparr>)
      \<longrightarrow> fst (admitParticipantRole root c fs) = fs)"
proof -
  have sound: "\<forall>role. sound_file root (ar_runId c) fs role" unfolding all_sound using assms by blast
  show ?thesis
    unfolding admit_iff [OF sound]
    using sound by (cases "ar_role c") (auto simp: admission_guard_ok valid_record_def readAdmission_sound admit_eq split: option.splits sum.splits)
qed

text \<open>An exact retry is idempotent: after an admission, repeating the same authorization (also with another
  clock, block or retained struct) returns the first record, reports it as not newly admitted and changes
  nothing; any other authorization for the role is refused and changes nothing.\<close>

theorem admission_retry_idempotent:
  assumes "admitParticipantRole root c fs = (fs', Inr \<lparr>ao_record = r, ao_admitted = True\<rparr>)"
    and "\<And>role. is_ok (readAdmission root (ar_runId c) role fs)"
    and "ar_runId c' = ar_runId c" "ar_role c' = ar_role c"
  shows "admitParticipantRole root c' fs' = (fs', if sameAuthorization (admission_record c) c'
      then Inr \<lparr>ao_record = r, ao_admitted = False\<rparr> else Inl (ledger_error ''ROLE_OCCUPIED'' 409))"
proof -
  have sound: "\<forall>role. sound_file root (ar_runId c) fs role" unfolding all_sound using assms(2) by blast
  from assms(1) have admitted: "fs (admissionLockPath root (ar_runId c)) = None" "r = admission_record c"
    "valid_record (ar_runId c) (ar_role c) (admission_record c)"
    "fs' = fs(admissionRecordPath root (ar_runId c) (ar_role c) \<mapsto> Whole (AdmissionFile r))"
    by (auto simp: admit_iff [OF sound] admission_guard_ok)
  then have "\<forall>role. sound_file root (ar_runId c') fs' role" using sound assms(3) by simp
  then show ?thesis using admitted assms(3,4) by (simp add: admit_eq recognise_def)
qed

lemma call_is_a_run:
  assumes sound: "\<forall>role. sound_file root (ar_runId c) fs role"
    and "admitParticipantRole root c fs = (fs', res)"
  shows "(ledger_step root (ar_runId c))\<^sup>*\<^sup>* (fs, Map.empty) (fs', Map.empty)"
proof (cases "fs' = fs")
  case True
  then show ?thesis by simp
next
  case False
  let ?lock = "admissionLockPath root (ar_runId c)" and ?path = "admissionRecordPath root (ar_runId c) (ar_role c)"
  from False assms(2) sound obtain r where vacant: "slot root (ar_runId c) fs (ar_role c) = None"
    and guard: "admission_guard c (slot root (ar_runId c) fs (otherRole (ar_role c))) = Inr r"
    and free: "fs ?lock = None" "fs ?path = None" and fs': "fs' = fs(?path \<mapsto> Whole (AdmissionFile r))"
    by (auto simp: admit_eq split: option.splits sum.splits if_splits)
  let ?step = "ledger_step root (ar_runId c)" and ?l = "fs(?lock \<mapsto> Whole (LockFile (ar_runId c)))"
  let ?out = "Returning (Inr \<lparr>ao_record = r, ao_admitted = True\<rparr>)"
  have "?step (fs, Map.empty) (?l, [0 \<mapsto> Holding c])" using ledger_step.acquire [of fs root "ar_runId c" Map.empty 0 c] free by simp
  moreover have "?step (?l, [0 \<mapsto> Holding c]) (?l, [0 \<mapsto> Vacant c])"
    using ledger_step.read_own [of "[0 \<mapsto> Holding c]" 0 c root "ar_runId c" ?l] sound vacant
    by (simp add: after_own_read_def readAdmission_sound)
  moreover have "?step (?l, [0 \<mapsto> Vacant c]) (?l, [0 \<mapsto> Guarded c r])"
    using ledger_step.read_sibling [of "[0 \<mapsto> Vacant c]" 0 c root "ar_runId c" ?l] sound guard
    by (simp add: after_sibling_read_def readAdmission_sound)
  moreover have "?step (?l, [0 \<mapsto> Guarded c r]) (?l(?path \<mapsto> Torn), [0 \<mapsto> Opened c r])"
    using ledger_step.open_exclusively [of "[0 \<mapsto> Guarded c r]" 0 c r ?l root "ar_runId c"] free by simp
  moreover have "?step (?l(?path \<mapsto> Torn), [0 \<mapsto> Opened c r]) (?l(?path \<mapsto> Whole (AdmissionFile r)), [0 \<mapsto> ?out])"
    using ledger_step.write_record [of "[0 \<mapsto> Opened c r]" 0 c r root "ar_runId c" "?l(?path \<mapsto> Torn)"] by simp
  moreover have "?step (?l(?path \<mapsto> Whole (AdmissionFile r)), [0 \<mapsto> ?out]) (fs', Map.empty)"
  proof -
    have "(?l(?path \<mapsto> Whole (AdmissionFile r)))(?lock := None) = fs'" using free fs' by (auto simp: fun_eq_iff)
    then show ?thesis
      using ledger_step.release [of "[0 \<mapsto> ?out]" 0 _ root "ar_runId c" "?l(?path \<mapsto> Whole (AdmissionFile r))"] by simp
  qed
  ultimately show ?thesis by (meson rtranclp.rtrancl_refl converse_rtranclp_into_rtranclp)
qed


text \<open>The sequential function is one of the interleavings: on a case whose lock is free a call that runs
  without interference leads, step by step, from the disk before to the disk after, with no process left inside.\<close>

theorem admission_call_is_a_run:
  assumes "\<And>role. is_ok (readAdmission root (ar_runId c) role fs)"
    and "admitParticipantRole root c fs = (fs', res)"
  shows "(ledger_step root (ar_runId c))\<^sup>*\<^sup>* (fs, Map.empty) (fs', Map.empty)"
  using assms(1) by (intro call_is_a_run [OF _ assms(2)]) (simp add: all_sound)

subsection \<open>Interrupted writes\<close>

text \<open>A torn role file that nobody is writing: the role never becomes admitted.\<close>

definition stuck :: "string \<Rightarrow> string \<Rightarrow> ParticipantRole \<Rightarrow> ledger_state \<Rightarrow> bool" where
  "stuck root run role s = (case s of (fs, ps) \<Rightarrow>
     fs (admissionRecordPath root run role) = Some Torn \<and> (\<forall>p c r. ps p = Some (Opened c r) \<longrightarrow> ar_role c \<noteq> role))"

lemma stuck_step:
  assumes "ledger_step root run s t" "stuck root run role s"
  shows "stuck root run role t"
  using assms
proof cases
  case (read_own ps p c fs)
  have "after_own_read root c fs \<noteq> Opened c' r" for c' r by (auto simp: after_own_read_def split: sum.splits option.splits)
  then show ?thesis using assms(2) read_own by (auto simp: stuck_def)
next
  case (read_sibling ps p c fs)
  have "after_sibling_read root c fs \<noteq> Opened c' r" for c' r by (auto simp: after_sibling_read_def split: sum.splits)
  then show ?thesis using assms(2) read_sibling by (auto simp: stuck_def)
qed (use assms(2) in \<open>auto simp: stuck_def\<close>)

lemma stuck_run: "(ledger_step root run)\<^sup>*\<^sup>* s t \<Longrightarrow> stuck root run role s \<Longrightarrow> stuck root run role t"
  by (induction rule: rtranclp_induct) (auto intro: stuck_step)

lemma stuck_refuses:
  assumes "stuck root (ar_runId c) (ar_role c) (fs, ps)" "ledger_inv root (ar_runId c) (fs, ps)"
  shows "readAdmission root (ar_runId c) (ar_role c) fs = Inr None \<and> \<not> is_ok (snd (admitParticipantRole root c fs))"
proof -
  have "slot root (ar_runId c) fs (ar_role c) = None" using assms(1) by (simp add: stuck_def slot_def)
  then show ?thesis using assms ledger_invD(1) [OF assms(2)]
    by (auto simp: readAdmission_sound admit_eq stuck_def split: sum.splits)
qed

text \<open>C15: Not every interruption can be completed by a later attempt. From an untouched case the process that
  admits Participant A can crash between the exclusive open of its file and the write; from then on,
  whatever any process does, the role reads as not admitted and every call for it is refused.\<close>

theorem interrupted_admission_never_completes:
  assumes "\<And>role. fs (admissionRecordPath root (ar_runId c) role) = None" "fs (admissionLockPath root (ar_runId c)) = None"
    and "ar_role c = PARTICIPANT_A" "assertAdmissionRecord (admission_record c) (ar_runId c) PARTICIPANT_A = Inr ()"
  shows "\<exists>s. (ledger_step root (ar_runId c))\<^sup>*\<^sup>* (fs, Map.empty) s \<and> (\<forall>fs' ps'. (ledger_step root (ar_runId c))\<^sup>*\<^sup>* s (fs', ps') \<longrightarrow>
     readAdmission root (ar_runId c) PARTICIPANT_A fs' = Inr None \<and> \<not> is_ok (snd (admitParticipantRole root c fs')))"
proof -
  let ?step = "ledger_step root (ar_runId c)" and ?l = "fs(admissionLockPath root (ar_runId c) \<mapsto> Whole (LockFile (ar_runId c)))"
  let ?t = "?l(admissionRecordPath root (ar_runId c) (ar_role c) \<mapsto> Torn)"
  have sound: "\<forall>role. sound_file root (ar_runId c) ?l role" "slot root (ar_runId c) ?l = Map.empty"
    using assms(1) by (auto simp: sound_file_def slot_def fun_eq_iff)
  have guard: "admission_guard c None = Inr (admission_record c)" using assms(3,4) by (simp add: admission_guard_ok valid_record_def)
  have "?step (fs, Map.empty) (?l, [0 \<mapsto> Holding c])" using ledger_step.acquire [of fs root "ar_runId c" Map.empty 0 c] assms(2) by simp
  moreover have "?step (?l, [0 \<mapsto> Holding c]) (?l, [0 \<mapsto> Vacant c])"
    using ledger_step.read_own [of "[0 \<mapsto> Holding c]" 0 c root "ar_runId c" ?l] sound
    by (simp add: after_own_read_def readAdmission_sound)
  moreover have "?step (?l, [0 \<mapsto> Vacant c]) (?l, [0 \<mapsto> Guarded c (admission_record c)])"
    using ledger_step.read_sibling [of "[0 \<mapsto> Vacant c]" 0 c root "ar_runId c" ?l] sound guard
    by (simp add: after_sibling_read_def readAdmission_sound)
  moreover have "?step (?l, [0 \<mapsto> Guarded c (admission_record c)]) (?t, [0 \<mapsto> Opened c (admission_record c)])"
    using ledger_step.open_exclusively [of "[0 \<mapsto> Guarded c (admission_record c)]" 0 c _ ?l root "ar_runId c"] assms(1) by simp
  moreover have "?step (?t, [0 \<mapsto> Opened c (admission_record c)]) (?t, Map.empty)"
    using ledger_step.crash [of "[0 \<mapsto> Opened c (admission_record c)]" 0 root "ar_runId c" ?t] by simp
  ultimately have reach: "?step\<^sup>*\<^sup>* (fs, Map.empty) (?t, Map.empty)" by (meson rtranclp.rtrancl_refl converse_rtranclp_into_rtranclp)
  have "readAdmission root (ar_runId c) PARTICIPANT_A fs' = Inr None \<and> \<not> is_ok (snd (admitParticipantRole root c fs'))"
    if "?step\<^sup>*\<^sup>* (?t, Map.empty) (fs', ps')" for fs' ps'
  proof -
    have "stuck root (ar_runId c) (ar_role c) (?t, Map.empty)" by (simp add: stuck_def)
    from stuck_refuses [OF stuck_run [OF that this]] show ?thesis
      using admission_ledger.run_inv [OF rtranclp_trans [OF reach that] fresh_ledger_inv [of fs, OF assms(1)]] assms(3) by simp
  qed
  with reach show ?thesis by blast
qed

subsection \<open>Case codes\<close>

lemma alphabet_matches:
  "list_all (\<lambda>c. char_range CHR ''0'' CHR ''9'' c \<or> char_range CHR ''A'' CHR ''H'' c \<or> c \<in> set ''JKMN''
     \<or> char_range CHR ''P'' CHR ''T'' c \<or> char_range CHR ''V'' CHR ''Z'' c) CASE_CODE_ALPHABET" "length CASE_CODE_ALPHABET = 32"
  by code_simp+

lemma generated_code_accepted:
  assumes "length bytes = CASE_CODE_LENGTH"
  shows "caseCodePath root (generateCaseCode bytes) = Inr (root @ ''/case-codes/'' @ generateCaseCode bytes @ ''.json'')"
proof -
  have "CASE_CODE_ALPHABET ! (of_char b mod 32) \<in> set CASE_CODE_ALPHABET" for b :: char
    using alphabet_matches(2) by (simp add: nth_mem)
  then have "fixed_regex CASE_CODE_PATTERN (generateCaseCode bytes)"
    using assms alphabet_matches(1)
    by (auto simp: fixed_regex_def CASE_CODE_PATTERN_def replicate_match generateCaseCode_def CASE_CODE_LENGTH_def list_all_iff)
  then show ?thesis by (simp add: caseCodePath_def)
qed

lemma caseCodePath_inj: "caseCodePath root x = Inr p \<Longrightarrow> caseCodePath root y = Inr p \<Longrightarrow> x = y"
  by (auto simp: caseCodePath_def ebind_eq_Inr check_eq_Inr)

text \<open>Every code generated from sixteen random bytes is a valid code. Binding a free one succeeds and
  resolves to its run; the retry for the same run succeeds and changes nothing, a binding to another run
  is refused and changes nothing, and binding any other code leaves it resolved as it was.\<close>

theorem case_code_binds_once:
  assumes "length bytes = CASE_CODE_LENGTH" "fs (root @ ''/case-codes/'' @ generateCaseCode bytes @ ''.json'') = None"
  shows "fixed_regex CASE_CODE_PATTERN (generateCaseCode bytes)
     \<and> (\<exists>fs'. bindCaseCode root (generateCaseCode bytes) run fs = (fs', Inr ())
     \<and> resolveCaseCode root (generateCaseCode bytes) fs' = Inr (Some run)
     \<and> bindCaseCode root (generateCaseCode bytes) run' fs'
         = (fs', if run' = run then Inr () else Inl (ledger_error ''CASE_CODE_TAKEN'' 409))
     \<and> (code \<noteq> generateCaseCode bytes \<longrightarrow>
          resolveCaseCode root (generateCaseCode bytes) (fst (bindCaseCode root code run' fs')) = Inr (Some run)))"
proof -
  note accepted = generated_code_accepted [of bytes root, OF assms(1)]
  then have valid: "fixed_regex CASE_CODE_PATTERN (generateCaseCode bytes)" by (simp add: caseCodePath_def ebind_check split: if_splits)
  have "fs'' (root @ ''/case-codes/'' @ generateCaseCode bytes @ ''.json'') = fs' (root @ ''/case-codes/'' @ generateCaseCode bytes @ ''.json'')"
    if "code \<noteq> generateCaseCode bytes" "fs'' = fst (bindCaseCode root code run' fs')" for fs' fs''
    using that caseCodePath_inj [OF accepted, of code]
    by (auto simp: bindCaseCode_def writeCreateOnly_def Let_def split: sum.splits)
  then show ?thesis
    using valid accepted assms(2)
    by (auto simp: bindCaseCode_def resolveCaseCode_def writeCreateOnly_def readJsonOrNull_def Let_def check_def)
qed

subsection \<open>A concrete ledger\<close>

definition sample_candidate :: AdmissionCandidate where
  "sample_candidate = \<lparr>ar_runId = ''run'', ar_authorization = None, ar_signature = None, ar_role = PARTICIPANT_A,
     ar_participantWallet = sample_wallet CHR ''1'', ar_authorizationDigest = sample_bytes32, ar_claimCommitment = sample_bytes32,
     ar_authorizationNonce = sample_bytes32, ar_chainId = 10143, ar_issuedAt = 1, ar_expiresAt = 2,
     ar_participantSigningKeyDigest = None, ar_eligibilityBlock = 0, ar_admittedAtUnix = 1\<rparr>"

lemma sample_bytes32_ok: "fixed_regex BYTES32_LOWER sample_bytes32"
  using hex_digest_regex(2) [OF zero_sha_hex] by (simp add: sample_bytes32_def)

lemma sample_wallet_ok: "any_hex c \<Longrightarrow> fixed_regex ADDRESS_ANY (sample_wallet c)"
  by (simp add: ADDRESS_ANY_def sample_wallet_def prefix_regex_append list_all_iff del: append_Cons)

lemma sample_record_valid: "assertAdmissionRecord (admission_record sample_candidate) ''run'' PARTICIPANT_A = Inr ()"
  using sample_bytes32_ok sample_wallet_ok [of "CHR ''1''"]
  by (simp add: assertAdmissionRecord_def check_eq_Inr sample_candidate_def admission_record_def AdmissionCandidate.extend_def
      isSafeInteger_def MAX_SAFE_INTEGER_def any_hex_def)

lemma sample_candidate_fields [simp]: "ar_runId sample_candidate = ''run''" "ar_role sample_candidate = PARTICIPANT_A"
  by (simp_all add: sample_candidate_def)

definition sample_ledger :: admission_disk where
  "sample_ledger = [admissionRecordPath ''root'' ''run'' PARTICIPANT_A \<mapsto> Whole (AdmissionFile (admission_record sample_candidate))]"

lemma empty_reads [simp]: "readAdmission root run role Map.empty = Inr None"
  by (simp add: readAdmission_def readJsonOrNull_def)

lemma sample_admitted:
  "admitParticipantRole ''root'' sample_candidate Map.empty = (sample_ledger, Inr \<lparr>ao_record = admission_record sample_candidate, ao_admitted = True\<rparr>)"
  using sample_record_valid
  by (subst admit_iff) (auto simp: sound_file_def admission_guard_ok valid_record_def slot_def sample_ledger_def)

lemma sample_ledger_reads: "readAdmission ''root'' ''run'' PARTICIPANT_A sample_ledger = Inr (Some (admission_record sample_candidate))"
  using sample_record_valid by (simp add: sample_ledger_def readAdmission_def readJsonOrNull_def)

theorem admission_exact_witness:
  "fst (admitParticipantRole ''root'' sample_candidate Map.empty) = sample_ledger
   \<and> assertAdmissionRecord (admission_record sample_candidate) ''run'' PARTICIPANT_A = Inr ()"
  using admission_exact [of "''root''" sample_candidate Map.empty sample_ledger "admission_record sample_candidate"] sample_admitted
  by simp

theorem admission_retry_idempotent_witness:
  "admitParticipantRole ''root'' sample_candidate sample_ledger
     = (sample_ledger, Inr \<lparr>ao_record = admission_record sample_candidate, ao_admitted = False\<rparr>)"
  using admission_retry_idempotent [OF sample_admitted _ refl refl] by simp

theorem admission_call_is_a_run_witness:
  "(ledger_step ''root'' ''run'')\<^sup>*\<^sup>* (Map.empty, Map.empty) (sample_ledger, Map.empty)"
  using admission_call_is_a_run [OF _ sample_admitted] by simp

lemma sample_run: "(ledger_step ''root'' ''run'')\<^sup>*\<^sup>* (Map.empty, Map.empty) (sample_ledger, Map.empty)"
  using call_is_a_run [OF _ sample_admitted] by (simp add: all_sound)

lemma sample_later: "(ledger_step ''root'' ''run'')\<^sup>*\<^sup>* (sample_ledger, Map.empty) (sample_ledger(''other'' \<mapsto> Torn), Map.empty)"
  by (rule r_into_rtranclp, rule ledger_step.elsewhere) (simp_all add: admissionRecordPath_def admissionLockPath_def admissionRoot_def)

theorem ledger_consistent_under_concurrency_witness:
  "\<exists>m. readAdmissions ''root'' ''run'' sample_ledger = Inr m"
  using ledger_consistent_under_concurrency [of Map.empty, OF _ sample_run] by blast

theorem admitted_role_never_reassigned_witness:
  "readAdmission ''root'' ''run'' PARTICIPANT_A (sample_ledger(''other'' \<mapsto> Torn)) = Inr (Some (admission_record sample_candidate))"
  using admitted_role_never_reassigned [of Map.empty, OF _ sample_run sample_later sample_ledger_reads] by blast

theorem interrupted_admission_never_completes_witness:
  "\<exists>s. (ledger_step ''root'' ''run'')\<^sup>*\<^sup>* (Map.empty, Map.empty) s \<and> \<not> is_ok (snd (admitParticipantRole ''root'' sample_candidate (fst s)))"
proof -
  obtain s where s: "(ledger_step ''root'' ''run'')\<^sup>*\<^sup>* (Map.empty, Map.empty) s"
    and never: "\<forall>fs' ps'. (ledger_step ''root'' ''run'')\<^sup>*\<^sup>* s (fs', ps') \<longrightarrow> \<not> is_ok (snd (admitParticipantRole ''root'' sample_candidate fs'))"
    using interrupted_admission_never_completes [of Map.empty "''root''" sample_candidate] sample_record_valid by auto
  have "\<not> is_ok (snd (admitParticipantRole ''root'' sample_candidate (fst s)))"
    using never [rule_format, of "fst s" "snd s"] by simp
  with s show ?thesis by blast
qed

theorem case_code_binds_once_witness:
  "\<exists>fs. resolveCaseCode ''root'' (generateCaseCode (replicate 16 CHR ''a'')) fs = Inr (Some ''run'')"
  using case_code_binds_once [of "replicate 16 CHR ''a''" Map.empty "''root''" "''run''"] by (auto simp: CASE_CODE_LENGTH_def)

end
