(* ===== verification/Canonical_Configuration.thy ===== *)
theory Canonical_Configuration
  imports Pledge_Windows Text_Encoding
begin

text \<open>
  The canonical recourse configuration of \<^verbatim>\<open>adapter-compatibility.ts\<close>: the parse of the reviewed public
  artifact and the loader that only accepts its pinned bytes.

  Parameters: \<open>getAddress\<close> (\<open>None\<close> when it throws), SHA-256 in hexadecimal, \<open>JSON.parse\<close> (\<open>None\<close> when it
  throws) and the files of the repository. The labels of the error messages are left out.
\<close>

subsection \<open>Typed members of an untyped value\<close>

abbreviation adapter_error :: "string \<Rightarrow> merror" where
  "adapter_error \<equiv> AdapterCompatibilityError"

definition object :: "jsval \<Rightarrow> jsval result" where
  "object v = (case v of VObject _ _ \<Rightarrow> Inr v | _ \<Rightarrow> Inl (adapter_error ''CANONICAL_SHAPE''))"

definition member :: "jsval \<Rightarrow> string \<Rightarrow> jsval result" where
  "member v name = ebind (check (name \<in> set (own_keys v)) (adapter_error ''CANONICAL_MISSING'')) (\<lambda>_. Inr (js_member v name))"

definition section_of :: "jsval \<Rightarrow> string \<Rightarrow> jsval result" where
  "section_of v name = ebind (member v name) object"

definition requiredTrue :: "jsval \<Rightarrow> unit result" where
  "requiredTrue v = check (v = VBool True) (adapter_error ''CANONICAL_ASSERTION'')"

definition address :: "(string \<Rightarrow> string option) \<Rightarrow> jsval \<Rightarrow> string \<Rightarrow> string result" where
  "address getAddress v code = (case v of
     VString s \<Rightarrow> if \<not> fixed_regex ADDRESS_ANY s then Inl (adapter_error code)
       else (case getAddress s of None \<Rightarrow> Inl (adapter_error code) | Some a \<Rightarrow> Inr a)
   | _ \<Rightarrow> Inl (adapter_error code))"

definition bytes32 :: "jsval \<Rightarrow> string \<Rightarrow> string result" where
  "bytes32 v code = (case v of
     VString s \<Rightarrow> if \<not> fixed_regex BYTES32_ANY s then Inl (adapter_error code) else Inr s
   | _ \<Rightarrow> Inl (adapter_error code))"

text \<open>A decimal string of any length, leading zeros included, or a non-negative safe number.\<close>

definition amount :: "jsval \<Rightarrow> string \<Rightarrow> int result" where
  "amount v code = (case v of
     VString s \<Rightarrow> if s \<noteq> [] \<and> list_all is_digit s then Inr (int (read_nat s)) else Inl (adapter_error code)
   | VNumber (NInt i) \<Rightarrow> if isSafeInteger i \<and> i \<ge> 0 then Inr i else Inl (adapter_error code)
   | VNumber NNegZero \<Rightarrow> Inr 0
   | _ \<Rightarrow> Inl (adapter_error code))"

definition positiveInteger :: "jsval \<Rightarrow> string \<Rightarrow> int result" where
  "positiveInteger v code = (case v of
     VNumber (NInt i) \<Rightarrow> if \<not> isSafeInteger i \<or> i \<le> 0 then Inl (adapter_error code) else Inr i
   | _ \<Rightarrow> Inl (adapter_error code))"

definition equalAddress :: "string \<Rightarrow> string \<Rightarrow> unit result" where
  "equalAddress actual expected = check (toLowerCase actual = toLowerCase expected) (adapter_error ''CANONICAL_CONFLICT'')"

definition equalAmount :: "int \<Rightarrow> int \<Rightarrow> unit result" where
  "equalAmount actual expected = check (actual = expected) (adapter_error ''CANONICAL_CONFLICT'')"

text \<open>A member that has to be \<open>true\<close>, and one that has to be an address.\<close>

definition member_true :: "jsval \<Rightarrow> string \<Rightarrow> unit result" where
  "member_true v name = ebind (member v name) requiredTrue"

definition member_address :: "(string \<Rightarrow> string option) \<Rightarrow> jsval \<Rightarrow> string \<Rightarrow> string \<Rightarrow> string result" where
  "member_address getAddress v name code = ebind (member v name) (\<lambda>x. address getAddress x code)"

definition member_amount :: "jsval \<Rightarrow> string \<Rightarrow> string \<Rightarrow> int result" where
  "member_amount v name code = ebind (member v name) (\<lambda>x. amount x code)"

fun all_true :: "jsval \<Rightarrow> string list \<Rightarrow> unit result" where
  "all_true v [] = Inr ()"
| "all_true v (name # names) = ebind (member_true v name) (\<lambda>_. all_true v names)"

subsection \<open>The configuration\<close>

definition MONAD_TESTNET_CHAIN_ID :: int where
  "MONAD_TESTNET_CHAIN_ID = 10143"

record CanonicalRecourseConfiguration =
  cn_schemaVersion :: string
  cn_adapterAddress :: string
  cn_adapterChainId :: int
  cn_codeHash :: string
  cn_runtimeBytes :: int
  cn_settlementToken :: string
  cn_verifier :: string
  cn_attestor :: string
  cn_facility :: string
  cn_holderA :: string
  cn_holderB :: string
  cn_negativeControl :: string
  cn_uncontrolledApassWallet :: string
  cn_payoutA :: int
  cn_payoutB :: int
  cn_availableReserve :: int
  cn_openReserved :: int
  cn_entitledUnpaid :: int
  cn_tokenBalance :: int
  cn_cureWindowSeconds :: int

definition CANONICAL_GATES :: "string list" where
  "CANONICAL_GATES = [
     ''holderA A-Pass valid'', ''holderB A-Pass valid'', ''holderA holder role'', ''holderB holder role'',
     ''holderA and holderB distinct'', ''adapter to holderA permitted'', ''adapter to holderB permitted'',
     ''payouts fit available reserve'', ''adapter solvent'', ''negative control still refused'',
     ''holders separate from privileged roles'', ''holders are not the uncontrolled A-Pass wallet'']"

text \<open>The contracts, the facility and the attestor.\<close>

record canonical_contracts =
  cc_adapter :: string
  cc_codeHash :: string
  cc_runtimeBytes :: int
  cc_verifier :: string
  cc_settlementToken :: string
  cc_facility :: string
  cc_attestor :: string

definition parse_contracts :: "(string \<Rightarrow> string option) \<Rightarrow> jsval \<Rightarrow> canonical_contracts result" where
  "parse_contracts getAddress raw =
     ebind (section_of raw ''contracts'') (\<lambda>contracts.
     ebind (section_of contracts ''adapter'') (\<lambda>adapterRecord.
     ebind (member_address getAddress adapterRecord ''address'' ''CANONICAL_ADAPTER'') (\<lambda>adapterAddress.
     ebind (member adapterRecord ''deployedCodeHash'') (\<lambda>codeHashValue.
     ebind (bytes32 codeHashValue ''CANONICAL_CODE_HASH'') (\<lambda>codeHash.
     ebind (member adapterRecord ''runtimeBytes'') (\<lambda>runtimeBytesValue.
     ebind (positiveInteger runtimeBytesValue ''CANONICAL_RUNTIME_BYTES'') (\<lambda>runtimeBytes.
     ebind (member_address getAddress contracts ''verifier'' ''CANONICAL_VERIFIER'') (\<lambda>verifier.
     ebind (section_of contracts ''settlementToken'') (\<lambda>token.
     ebind (member_address getAddress token ''address'' ''CANONICAL_TOKEN'') (\<lambda>settlementToken.
     ebind (section_of raw ''facility'') (\<lambda>facilityRecord.
     ebind (member_address getAddress facilityRecord ''address'' ''CANONICAL_FACILITY'') (\<lambda>facility.
     ebind (section_of raw ''bridgeAttestor'') (\<lambda>attestorRecord.
     ebind (member_address getAddress attestorRecord ''address'' ''CANONICAL_ATTESTOR'') (\<lambda>attestor.
     ebind (member_true facilityRecord ''isEligibleForRoleFacility'') (\<lambda>_.
     ebind (member_true facilityRecord ''cureAuthorizationWillPass'') (\<lambda>_.
     ebind (section_of facilityRecord ''roleCorrection'') (\<lambda>roleCorrection.
     ebind (member roleCorrection ''role'') (\<lambda>role.
     ebind (check (role = VString ''ROLE_FACILITY (3)'') (adapter_error ''CANONICAL_FACILITY_ROLE'')) (\<lambda>_.
     Inr \<lparr>cc_adapter = adapterAddress, cc_codeHash = codeHash, cc_runtimeBytes = runtimeBytes, cc_verifier = verifier,
       cc_settlementToken = settlementToken, cc_facility = facility, cc_attestor = attestor\<rparr>)))))))))))))))))))"

text \<open>The two holders and the two excluded wallets.\<close>

record canonical_wallets =
  cw_holderA :: string
  cw_holderB :: string
  cw_negativeControl :: string
  cw_uncontrolledApassWallet :: string

definition excluded_separate :: "string \<Rightarrow> string \<Rightarrow> string \<Rightarrow> unit result" where
  "excluded_separate excluded holderA holderB =
     check (\<not> (toLowerCase excluded = toLowerCase holderA \<or> toLowerCase excluded = toLowerCase holderB))
       (adapter_error ''CANONICAL_EXCLUDED_PARTICIPANT'')"

definition parse_participants :: "(string \<Rightarrow> string option) \<Rightarrow> jsval \<Rightarrow> canonical_wallets result" where
  "parse_participants getAddress raw =
     ebind (section_of raw ''participants'') (\<lambda>participants.
     ebind (section_of participants ''holderA'') (\<lambda>holderARecord.
     ebind (section_of participants ''holderB'') (\<lambda>holderBRecord.
     ebind (section_of participants ''negativeControl'') (\<lambda>negativeControlRecord.
     ebind (member_address getAddress holderARecord ''address'' ''CANONICAL_HOLDER_A'') (\<lambda>holderA.
     ebind (member_address getAddress holderBRecord ''address'' ''CANONICAL_HOLDER_B'') (\<lambda>holderB.
     ebind (member_address getAddress negativeControlRecord ''address'' ''CANONICAL_NEGATIVE'') (\<lambda>negativeControl.
     ebind (section_of raw ''walletControl'') (\<lambda>walletControl.
     ebind (section_of walletControl ''supersededHolderA'') (\<lambda>superseded.
     ebind (member_address getAddress superseded ''address'' ''CANONICAL_UNCONTROLLED'') (\<lambda>uncontrolled.
     ebind (member_true participants ''distinct'') (\<lambda>_.
     ebind (member_true holderARecord ''roleHolderEligible'') (\<lambda>_.
     ebind (member_true holderBRecord ''roleHolderEligible'') (\<lambda>_.
     ebind (member_true holderARecord ''keyControlled'') (\<lambda>_.
     ebind (member_true holderBRecord ''keyControlled'') (\<lambda>_.
     ebind (check (toLowerCase holderA \<noteq> toLowerCase holderB) (adapter_error ''CANONICAL_PARTICIPANTS'')) (\<lambda>_.
     ebind (excluded_separate negativeControl holderA holderB) (\<lambda>_.
     ebind (excluded_separate uncontrolled holderA holderB) (\<lambda>_.
     Inr \<lparr>cw_holderA = holderA, cw_holderB = holderB, cw_negativeControl = negativeControl,
       cw_uncontrolledApassWallet = uncontrolled\<rparr>))))))))))))))))))"

text \<open>The payouts and the reserve that covers them.\<close>

record canonical_economics =
  ce_payoutA :: int
  ce_payoutB :: int
  ce_availableReserve :: int
  ce_openReserved :: int
  ce_entitledUnpaid :: int
  ce_tokenBalance :: int

definition parse_settlement :: "jsval \<Rightarrow> canonical_economics result" where
  "parse_settlement raw =
     ebind (section_of raw ''settlement'') (\<lambda>settlement.
     ebind (member_amount settlement ''payoutAAtomic'' ''CANONICAL_PAYOUT_A'') (\<lambda>payoutA.
     ebind (member_amount settlement ''payoutBAtomic'' ''CANONICAL_PAYOUT_B'') (\<lambda>payoutB.
     ebind (member_amount settlement ''totalAtomic'' ''CANONICAL_TOTAL'') (\<lambda>total.
     ebind (section_of settlement ''reserve'') (\<lambda>reserve.
     ebind (member_amount reserve ''availableReserve'' ''CANONICAL_RESERVE'') (\<lambda>availableReserve.
     ebind (member_amount reserve ''openReserved'' ''CANONICAL_RESERVE'') (\<lambda>openReserved.
     ebind (member_amount reserve ''entitledUnpaid'' ''CANONICAL_RESERVE'') (\<lambda>entitledUnpaid.
     ebind (member_amount reserve ''tokenBalance'' ''CANONICAL_RESERVE'') (\<lambda>tokenBalance.
     ebind (check (\<not> (payoutA \<le> 0 \<or> payoutB \<le> 0 \<or> payoutA + payoutB \<noteq> total \<or> total \<noteq> availableReserve))
       (adapter_error ''CANONICAL_RESERVE'')) (\<lambda>_.
     ebind (check (\<not> (openReserved \<noteq> 0 \<or> entitledUnpaid \<noteq> 0 \<or> tokenBalance \<noteq> availableReserve))
       (adapter_error ''CANONICAL_RESERVE'')) (\<lambda>_.
     ebind (member_true settlement ''fitsAvailableReserve'') (\<lambda>_.
     ebind (member_true reserve ''solvent'') (\<lambda>_.
     Inr \<lparr>ce_payoutA = payoutA, ce_payoutB = payoutB, ce_availableReserve = availableReserve, ce_openReserved = openReserved,
       ce_entitledUnpaid = entitledUnpaid, ce_tokenBalance = tokenBalance\<rparr>)))))))))))))"

definition assertTransfer :: "(string \<Rightarrow> string option) \<Rightarrow> jsval \<Rightarrow> string \<Rightarrow> string \<Rightarrow> string \<Rightarrow> int \<Rightarrow> unit result" where
  "assertTransfer getAddress transferReadbacks adapterAddress name holder payout =
     ebind (section_of transferReadbacks name) (\<lambda>transfer.
     ebind (member_address getAddress transfer ''from'' ''CANONICAL_TRANSFER'') (\<lambda>source.
     ebind (equalAddress source adapterAddress) (\<lambda>_.
     ebind (member_address getAddress transfer ''to'' ''CANONICAL_TRANSFER'') (\<lambda>target.
     ebind (equalAddress target holder) (\<lambda>_.
     ebind (member_amount transfer ''amount'' ''CANONICAL_TRANSFER'') (\<lambda>value.
     ebind (equalAmount value payout) (\<lambda>_.
     member_true transfer ''allowed'')))))))"

definition parse_privileged :: "(string \<Rightarrow> string option) \<Rightarrow> jsval \<Rightarrow> canonical_contracts \<Rightarrow> canonical_wallets \<Rightarrow> unit result" where
  "parse_privileged getAddress raw c w =
     ebind (section_of raw ''privilegedAddressesKeptSeparate'') (\<lambda>privileged.
     ebind (member_address getAddress privileged ''facility'' ''CANONICAL_PRIVILEGED'') (\<lambda>facility.
     ebind (equalAddress facility (cc_facility c)) (\<lambda>_.
     ebind (member_address getAddress privileged ''bridgeAttestor'' ''CANONICAL_PRIVILEGED'') (\<lambda>attestor.
     ebind (equalAddress attestor (cc_attestor c)) (\<lambda>_.
     ebind (member_address getAddress privileged ''negativeControl'' ''CANONICAL_PRIVILEGED'') (\<lambda>negative.
     ebind (equalAddress negative (cw_negativeControl w)) (\<lambda>_.
     ebind (member_address getAddress privileged ''uncontrolledApassWallet'' ''CANONICAL_PRIVILEGED'') (\<lambda>uncontrolled.
     ebind (equalAddress uncontrolled (cw_uncontrolledApassWallet w)) (\<lambda>_.
     member_true privileged ''noneIsAHolder'')))))))))"

definition parseCanonicalRecourseConfiguration :: "(string \<Rightarrow> string option) \<Rightarrow> jsval \<Rightarrow> CanonicalRecourseConfiguration result" where
  "parseCanonicalRecourseConfiguration getAddress v =
     ebind (object v) (\<lambda>raw.
     ebind (member raw ''schemaVersion'') (\<lambda>schema.
     ebind (check (schema = VString ''mordant.recourse-v2-demo-config/1'') (adapter_error ''CANONICAL_SCHEMA'')) (\<lambda>_.
     ebind (member raw ''containsNoSecrets'') (\<lambda>noSecrets.
     ebind (check (noSecrets = VBool True) (adapter_error ''CANONICAL_SECRETS'')) (\<lambda>_.
     ebind (section_of raw ''network'') (\<lambda>network.
     ebind (member network ''name'') (\<lambda>name.
     ebind (check (name = VString ''monad-testnet'') (adapter_error ''CANONICAL_CHAIN'')) (\<lambda>_.
     ebind (member network ''chainId'') (\<lambda>chainId.
     ebind (check (chainId = VNumber (NInt MONAD_TESTNET_CHAIN_ID)) (adapter_error ''CANONICAL_CHAIN'')) (\<lambda>_.
     ebind (parse_contracts getAddress raw) (\<lambda>c.
     ebind (parse_participants getAddress raw) (\<lambda>w.
     ebind (parse_settlement raw) (\<lambda>e.
     ebind (section_of raw ''aUsdcTransferPolicyReadbacks'') (\<lambda>transferReadbacks.
     ebind (assertTransfer getAddress transferReadbacks (cc_adapter c) ''adapterToHolderA'' (cw_holderA w) (ce_payoutA e)) (\<lambda>_.
     ebind (assertTransfer getAddress transferReadbacks (cc_adapter c) ''adapterToHolderB'' (cw_holderB w) (ce_payoutB e)) (\<lambda>_.
     ebind (section_of raw ''gates'') (\<lambda>gates.
     ebind (all_true gates CANONICAL_GATES) (\<lambda>_.
     ebind (parse_privileged getAddress raw c w) (\<lambda>_.
     ebind (section_of raw ''facility'') (\<lambda>facilityRecord.
     ebind (member facilityRecord ''cureWindowSeconds'') (\<lambda>cure.
     ebind (positiveInteger cure ''CANONICAL_CURE_WINDOW'') (\<lambda>cureWindowSeconds.
     Inr \<lparr>cn_schemaVersion = ''mordant.recourse-v2-demo-config/1'', cn_adapterAddress = cc_adapter c,
       cn_adapterChainId = MONAD_TESTNET_CHAIN_ID, cn_codeHash = cc_codeHash c, cn_runtimeBytes = cc_runtimeBytes c,
       cn_settlementToken = cc_settlementToken c, cn_verifier = cc_verifier c, cn_attestor = cc_attestor c, cn_facility = cc_facility c,
       cn_holderA = cw_holderA w, cn_holderB = cw_holderB w, cn_negativeControl = cw_negativeControl w,
       cn_uncontrolledApassWallet = cw_uncontrolledApassWallet w, cn_payoutA = ce_payoutA e, cn_payoutB = ce_payoutB e,
       cn_availableReserve = ce_availableReserve e, cn_openReserved = ce_openReserved e, cn_entitledUnpaid = ce_entitledUnpaid e,
       cn_tokenBalance = ce_tokenBalance e, cn_cureWindowSeconds = cureWindowSeconds\<rparr>))))))))))))))))))))))"


subsection \<open>The pinned artifacts\<close>

definition RECOURSE_V2_DEMO_CONFIG_PATH :: string where
  "RECOURSE_V2_DEMO_CONFIG_PATH = ''docs/evidence/recourse-v2-demo-config-2026-08-06.json''"

definition CANONICAL_RECOURSE_CONFIG_SHA256 :: string where
  "CANONICAL_RECOURSE_CONFIG_SHA256 = ''c9dd3cec8bad266afd985c5f80d357ee3ab79a3f32cdf20c2d5cb826af2a3126''"

definition CASE_PARTICIPANT_CONFIG_PATH :: string where
  "CASE_PARTICIPANT_CONFIG_PATH = ''docs/evidence/fresh-case-participant-config.json''"

definition CASE_PARTICIPANT_CONFIG_SHA256 :: string where
  "CASE_PARTICIPANT_CONFIG_SHA256 = ''3b80cffa91fd251574198dde930defc0c2a0dc324c87195bdeb893494d857833''"

text \<open>Name, path and hash of each reviewed artifact.\<close>

definition PINNED_PARTICIPANT_CONFIGS :: "(string \<times> string \<times> string) list" where
  "PINNED_PARTICIPANT_CONFIGS = [
     (''retained'', RECOURSE_V2_DEMO_CONFIG_PATH, CANONICAL_RECOURSE_CONFIG_SHA256),
     (''case'', CASE_PARTICIPANT_CONFIG_PATH, CASE_PARTICIPANT_CONFIG_SHA256)]"

definition readParticipantConfigSelection :: "string option \<Rightarrow> string result" where
  "readParticipantConfigSelection requested = (case requested of
     None \<Rightarrow> Inr ''retained''
   | Some r \<Rightarrow> if trim r = [] then Inr ''retained''
       else ebind (check (map_of PINNED_PARTICIPANT_CONFIGS (trim r) \<noteq> None) (adapter_error ''CANONICAL_CONFIG_SELECTION'')) (\<lambda>_. Inr (trim r)))"

definition readArtifact :: "(string \<rightharpoonup> string) \<Rightarrow> string \<Rightarrow> string \<Rightarrow> string result" where
  "readArtifact files repositoryRoot path = (case files (repositoryRoot @ ''/'' @ path) of
     None \<Rightarrow> Inl (adapter_error ''CANONICAL_MISSING'') | Some raw \<Rightarrow> Inr raw)"

definition parseJson :: "(string \<Rightarrow> jsval option) \<Rightarrow> string \<Rightarrow> jsval result" where
  "parseJson parse raw = (case parse raw of None \<Rightarrow> Inl (adapter_error ''CANONICAL_JSON'') | Some v \<Rightarrow> Inr v)"

text \<open>The selection is one of the pinned names, by its type.\<close>

definition loadCanonicalRecourseConfiguration ::
  "(string \<Rightarrow> string option) \<Rightarrow> (string \<Rightarrow> string) \<Rightarrow> (string \<Rightarrow> jsval option) \<Rightarrow> (string \<rightharpoonup> string) \<Rightarrow> string \<Rightarrow> string
     \<Rightarrow> CanonicalRecourseConfiguration result" where
  "loadCanonicalRecourseConfiguration getAddress sha parse files repositoryRoot selection =
     (case map_of PINNED_PARTICIPANT_CONFIGS selection of
        None \<Rightarrow> Inl DependencyError
      | Some (path, sha256) \<Rightarrow>
          ebind (readArtifact files repositoryRoot path) (\<lambda>raw.
          ebind (check (sha raw = sha256) (adapter_error ''CANONICAL_CONFIG_BYTES'')) (\<lambda>_.
          ebind (parseJson parse raw) (parseCanonicalRecourseConfiguration getAddress))))"

definition load_selected_configuration ::
  "(string \<Rightarrow> string option) \<Rightarrow> (string \<Rightarrow> string) \<Rightarrow> (string \<Rightarrow> jsval option) \<Rightarrow> (string \<rightharpoonup> string) \<Rightarrow> string \<Rightarrow> string option
     \<Rightarrow> CanonicalRecourseConfiguration result" where
  "load_selected_configuration getAddress sha parse files repositoryRoot environment =
     ebind (readParticipantConfigSelection environment) (loadCanonicalRecourseConfiguration getAddress sha parse files repositoryRoot)"

subsection \<open>What a configuration promises\<close>

lemma object_bind: "ebind (object v) f = Inr x \<longleftrightarrow> object v = Inr v \<and> f v = Inr x"
  by (cases v) (simp_all add: object_def)

lemma address_ok [result_simps]: "address getAddress v code = Inr a \<longleftrightarrow> (\<exists>s. v = VString s \<and> fixed_regex ADDRESS_ANY s \<and> getAddress s = Some a)"
  by (auto simp: address_def split: jsval.splits option.splits)

lemma amount_ok: "amount v code = Inr i \<Longrightarrow> 0 \<le> i"
  by (auto simp: amount_def split: jsval.splits jsnum.splits if_splits)

lemma positiveInteger_ok [result_simps]:
  "positiveInteger v code = Inr i \<longleftrightarrow> v = VNumber (NInt i) \<and> 0 < i \<and> i \<le> MAX_SAFE_INTEGER"
  by (auto simp: positiveInteger_def isSafeInteger_def split: jsval.splits jsnum.splits)

lemma member_true_ok [result_simps]: "member_true v name = Inr u \<longleftrightarrow> name \<in> set (own_keys v) \<and> js_member v name = VBool True"
  by (auto simp: member_true_def member_def requiredTrue_def ebind_eq_Inr check_eq_Inr)

lemma all_true_ok [result_simps]: "all_true v names = Inr u \<longleftrightarrow> (\<forall>name \<in> set names. name \<in> set (own_keys v) \<and> js_member v name = VBool True)"
  by (induction names) (auto simp: ebind_eq_Inr member_true_ok)

lemma member_address_ok [result_simps]:
  "member_address getAddress v name code = Inr a \<longleftrightarrow>
     (\<exists>s. name \<in> set (own_keys v) \<and> js_member v name = VString s \<and> fixed_regex ADDRESS_ANY s \<and> getAddress s = Some a)"
  by (auto simp: member_address_def member_def ebind_eq_Inr check_eq_Inr address_ok)

lemma parse_participants_ok:
  assumes "parse_participants getAddress raw = Inr w"
  shows "toLowerCase (cw_holderA w) \<noteq> toLowerCase (cw_holderB w)
     \<and> (\<forall>excluded \<in> {cw_negativeControl w, cw_uncontrolledApassWallet w}. \<forall>holder \<in> {cw_holderA w, cw_holderB w}.
          toLowerCase excluded \<noteq> toLowerCase holder)
     \<and> {cw_holderA w, cw_holderB w, cw_negativeControl w, cw_uncontrolledApassWallet w} \<subseteq> {a. \<exists>s. fixed_regex ADDRESS_ANY s \<and> getAddress s = Some a}"
  using assms unfolding parse_participants_def ebind_eq_Inr
  by (auto simp: check_eq_Inr excluded_separate_def member_address_ok)

lemma parse_settlement_ok:
  assumes "parse_settlement raw = Inr e"
  shows "0 < ce_payoutA e \<and> 0 < ce_payoutB e \<and> ce_payoutA e + ce_payoutB e = ce_availableReserve e
     \<and> ce_openReserved e = 0 \<and> ce_entitledUnpaid e = 0 \<and> ce_tokenBalance e = ce_availableReserve e"
  using assms unfolding parse_settlement_def ebind_eq_Inr by (auto simp: check_eq_Inr)

lemma transfer_ok:
  assumes "assertTransfer getAddress readbacks adapter name holder payout = Inr ()"
  shows "\<exists>transfer source target. section_of readbacks name = Inr transfer
     \<and> member_address getAddress transfer ''from'' ''CANONICAL_TRANSFER'' = Inr source \<and> toLowerCase source = toLowerCase adapter
     \<and> member_address getAddress transfer ''to'' ''CANONICAL_TRANSFER'' = Inr target \<and> toLowerCase target = toLowerCase holder
     \<and> member_amount transfer ''amount'' ''CANONICAL_TRANSFER'' = Inr payout \<and> js_member transfer ''allowed'' = VBool True"
  using assms unfolding assertTransfer_def ebind_eq_Inr
  by (auto simp: equalAddress_def equalAmount_def check_eq_Inr member_true_ok)

text \<open>A configuration that parses is one the settlement can run on: the two holders are different wallets,
  neither is an excluded wallet (whatever the letter case), every participant address went through the
  checksum, the payouts are positive and exhaust a reserve with no other liabilities, the artifact records an
  allowed transfer of exactly each payout from the adapter to its holder, and every reviewed gate is true.\<close>

theorem canonical_configuration_sound:
  assumes "parseCanonicalRecourseConfiguration getAddress v = Inr c"
  shows "cn_adapterChainId c = 10143 \<and> toLowerCase (cn_holderA c) \<noteq> toLowerCase (cn_holderB c)
     \<and> (\<forall>excluded \<in> {cn_negativeControl c, cn_uncontrolledApassWallet c}. \<forall>holder \<in> {cn_holderA c, cn_holderB c}.
          toLowerCase excluded \<noteq> toLowerCase holder)
     \<and> (\<forall>a \<in> {cn_holderA c, cn_holderB c}. \<exists>s. fixed_regex ADDRESS_ANY s \<and> getAddress s = Some a)
     \<and> 0 < cn_payoutA c \<and> 0 < cn_payoutB c \<and> cn_payoutA c + cn_payoutB c = cn_availableReserve c
     \<and> cn_openReserved c = 0 \<and> cn_entitledUnpaid c = 0 \<and> cn_tokenBalance c = cn_availableReserve c
     \<and> 0 < cn_cureWindowSeconds c \<and> cn_cureWindowSeconds c \<le> MAX_SAFE_INTEGER
     \<and> (\<forall>(name, holder, payout) \<in> {(''adapterToHolderA'', cn_holderA c, cn_payoutA c), (''adapterToHolderB'', cn_holderB c, cn_payoutB c)}.
          \<exists>readbacks transfer target. section_of v ''aUsdcTransferPolicyReadbacks'' = Inr readbacks \<and> section_of readbacks name = Inr transfer
            \<and> member_address getAddress transfer ''to'' ''CANONICAL_TRANSFER'' = Inr target \<and> toLowerCase target = toLowerCase holder
            \<and> member_amount transfer ''amount'' ''CANONICAL_TRANSFER'' = Inr payout \<and> js_member transfer ''allowed'' = VBool True)
     \<and> (\<exists>gates. section_of v ''gates'' = Inr gates \<and> (\<forall>gate \<in> set CANONICAL_GATES. js_member gates gate = VBool True))"
proof -
  from assms obtain k w e readbacks gates cure where
    k: "parse_contracts getAddress v = Inr k" and w: "parse_participants getAddress v = Inr w" and e: "parse_settlement v = Inr e"
    and readbacks: "section_of v ''aUsdcTransferPolicyReadbacks'' = Inr readbacks"
    and transfers: "assertTransfer getAddress readbacks (cc_adapter k) ''adapterToHolderA'' (cw_holderA w) (ce_payoutA e) = Inr ()"
      "assertTransfer getAddress readbacks (cc_adapter k) ''adapterToHolderB'' (cw_holderB w) (ce_payoutB e) = Inr ()"
    and gates: "section_of v ''gates'' = Inr gates" "all_true gates CANONICAL_GATES = Inr ()"
    and cure: "positiveInteger cure ''CANONICAL_CURE_WINDOW'' = Inr (cn_cureWindowSeconds c)"
    and c: "cn_adapterChainId c = MONAD_TESTNET_CHAIN_ID" "cn_holderA c = cw_holderA w" "cn_holderB c = cw_holderB w"
      "cn_negativeControl c = cw_negativeControl w" "cn_uncontrolledApassWallet c = cw_uncontrolledApassWallet w"
      "cn_payoutA c = ce_payoutA e" "cn_payoutB c = ce_payoutB e" "cn_availableReserve c = ce_availableReserve e"
      "cn_openReserved c = ce_openReserved e" "cn_entitledUnpaid c = ce_entitledUnpaid e" "cn_tokenBalance c = ce_tokenBalance e"
    unfolding parseCanonicalRecourseConfiguration_def object_bind unfolding ebind_eq_Inr by auto
  note parts = parse_participants_ok [OF w] parse_settlement_ok [OF e]
  have transfer: "\<exists>readbacks transfer target. section_of v ''aUsdcTransferPolicyReadbacks'' = Inr readbacks \<and> section_of readbacks name = Inr transfer
      \<and> member_address getAddress transfer ''to'' ''CANONICAL_TRANSFER'' = Inr target \<and> toLowerCase target = toLowerCase holder
      \<and> member_amount transfer ''amount'' ''CANONICAL_TRANSFER'' = Inr payout \<and> js_member transfer ''allowed'' = VBool True"
    if "assertTransfer getAddress readbacks (cc_adapter k) name holder payout = Inr ()" for name holder payout
    using transfer_ok [OF that] readbacks by blast
  show ?thesis
    using parts gates cure transfer [OF transfers(1)] transfer [OF transfers(2)] unfolding c all_true_ok positiveInteger_ok
    by (simp add: MONAD_TESTNET_CHAIN_ID_def)
qed

text \<open>The loader only ever answers from reviewed bytes. An environment that names no artifact stays on the
  retained one, an unknown name is refused, and whatever is returned is the parse of a file whose hash
  is the pinned hash of the selected artifact; any two answers for one artifact are equal, or the two files
  are a SHA-256 collision.\<close>

theorem loaded_configuration_is_pinned:
  assumes "load_selected_configuration getAddress sha parse files root environment = Inr c"
    and "load_selected_configuration getAddress sha parse files' root' environment = Inr c'"
  shows "\<exists>name path pin raw raw'. (name, path, pin) \<in> set PINNED_PARTICIPANT_CONFIGS
     \<and> (environment = None \<longrightarrow> name = ''retained'') \<and> (\<forall>r. environment = Some r \<longrightarrow> trim r \<in> {name, []})
     \<and> files (root @ ''/'' @ path) = Some raw \<and> files' (root' @ ''/'' @ path) = Some raw' \<and> sha raw = pin \<and> sha raw' = pin
     \<and> (\<exists>v. parse raw = Some v \<and> parseCanonicalRecourseConfiguration getAddress v = Inr c)
     \<and> (c = c' \<or> raw \<noteq> raw' \<and> sha raw = sha raw')"
proof -
  obtain name where name: "readParticipantConfigSelection environment = Inr name"
    and loads: "loadCanonicalRecourseConfiguration getAddress sha parse files root name = Inr c"
      "loadCanonicalRecourseConfiguration getAddress sha parse files' root' name = Inr c'"
    using assms by (auto simp: load_selected_configuration_def ebind_eq_Inr)
  obtain path pin where pin: "map_of PINNED_PARTICIPANT_CONFIGS name = Some (path, pin)"
    using loads(1) by (auto simp: loadCanonicalRecourseConfiguration_def split: option.splits)
  have load: "\<exists>raw v. fs (rt @ ''/'' @ path) = Some raw \<and> sha raw = pin \<and> parse raw = Some v
      \<and> parseCanonicalRecourseConfiguration getAddress v = Inr x"
    if "loadCanonicalRecourseConfiguration getAddress sha parse fs rt name = Inr x" for fs rt x
    using that pin by (auto simp: loadCanonicalRecourseConfiguration_def readArtifact_def parseJson_def ebind_eq_Inr check_eq_Inr split: option.splits)
  have "(environment = None \<longrightarrow> name = ''retained'') \<and> (\<forall>r. environment = Some r \<longrightarrow> trim r \<in> {name, []})"
    using name by (auto simp: readParticipantConfigSelection_def ebind_eq_Inr split: option.splits if_splits)
  moreover obtain raw v raw' v' where "files (root @ ''/'' @ path) = Some raw" "sha raw = pin" "parse raw = Some v"
      "parseCanonicalRecourseConfiguration getAddress v = Inr c" "files' (root' @ ''/'' @ path) = Some raw'" "sha raw' = pin"
      "parse raw' = Some v'" "parseCanonicalRecourseConfiguration getAddress v' = Inr c'"
    using load [OF loads(1)] load [OF loads(2)] by blast
  moreover have "c = c' \<or> raw \<noteq> raw' \<and> sha raw = sha raw'" using calculation by auto
  ultimately show ?thesis using map_of_SomeD [OF pin] by blast
qed


subsection \<open>A concrete artifact\<close>

definition sample_address :: "char \<Rightarrow> jsval" where
  "sample_address c = VString (''0x'' @ replicate 40 c)"

definition plain :: "(string \<times> jsval) list \<Rightarrow> jsval" where
  "plain kvs = VObject ObjectPrototype kvs"

definition sample_config :: jsval where
  "sample_config = plain [
     (''schemaVersion'', VString ''mordant.recourse-v2-demo-config/1''), (''containsNoSecrets'', VBool True),
     (''network'', plain [(''name'', VString ''monad-testnet''), (''chainId'', VNumber (NInt 10143))]),
     (''contracts'', plain [
        (''adapter'', plain [(''address'', sample_address CHR ''1''), (''deployedCodeHash'', VString (''0x'' @ replicate 64 CHR ''a'')),
           (''runtimeBytes'', VNumber (NInt 100))]),
        (''verifier'', sample_address CHR ''2''), (''settlementToken'', plain [(''address'', sample_address CHR ''3'')])]),
     (''facility'', plain [(''address'', sample_address CHR ''4''), (''isEligibleForRoleFacility'', VBool True),
        (''cureAuthorizationWillPass'', VBool True), (''roleCorrection'', plain [(''role'', VString ''ROLE_FACILITY (3)'')]),
        (''cureWindowSeconds'', VNumber (NInt 60))]),
     (''bridgeAttestor'', plain [(''address'', sample_address CHR ''5'')]),
     (''participants'', plain [
        (''holderA'', plain [(''address'', sample_address CHR ''6''), (''roleHolderEligible'', VBool True), (''keyControlled'', VBool True)]),
        (''holderB'', plain [(''address'', sample_address CHR ''7''), (''roleHolderEligible'', VBool True), (''keyControlled'', VBool True)]),
        (''negativeControl'', plain [(''address'', sample_address CHR ''8'')]), (''distinct'', VBool True)]),
     (''walletControl'', plain [(''supersededHolderA'', plain [(''address'', sample_address CHR ''9'')])]),
     (''settlement'', plain [(''payoutAAtomic'', VString ''6''), (''payoutBAtomic'', VNumber (NInt 4)), (''totalAtomic'', VString ''10''),
        (''reserve'', plain [(''availableReserve'', VString ''10''), (''openReserved'', VNumber (NInt 0)), (''entitledUnpaid'', VString ''0''),
           (''tokenBalance'', VString ''10''), (''solvent'', VBool True)]),
        (''fitsAvailableReserve'', VBool True)]),
     (''aUsdcTransferPolicyReadbacks'', plain [
        (''adapterToHolderA'', plain [(''from'', sample_address CHR ''1''), (''to'', sample_address CHR ''6''), (''amount'', VString ''6''), (''allowed'', VBool True)]),
        (''adapterToHolderB'', plain [(''from'', sample_address CHR ''1''), (''to'', sample_address CHR ''7''), (''amount'', VString ''4''), (''allowed'', VBool True)])]),
     (''gates'', plain (map (\<lambda>gate. (gate, VBool True)) CANONICAL_GATES)),
     (''privilegedAddressesKeptSeparate'', plain [(''facility'', sample_address CHR ''4''), (''bridgeAttestor'', sample_address CHR ''5''),
        (''negativeControl'', sample_address CHR ''8''), (''uncontrolledApassWallet'', sample_address CHR ''9''), (''noneIsAHolder'', VBool True)])]"

lemma sample_config_parses: "is_ok (parseCanonicalRecourseConfiguration Some sample_config)"
  by code_simp

theorem canonical_configuration_sound_witness:
  "\<exists>c. parseCanonicalRecourseConfiguration Some sample_config = Inr c \<and> toLowerCase (cn_holderA c) \<noteq> toLowerCase (cn_holderB c)
     \<and> cn_payoutA c + cn_payoutB c = cn_availableReserve c"
proof -
  obtain c where c: "parseCanonicalRecourseConfiguration Some sample_config = Inr c"
    using sample_config_parses by (auto simp: is_ok_iff)
  from canonical_configuration_sound [OF this] c show ?thesis by blast
qed

lemma sample_config_loads:
  "load_selected_configuration Some (\<lambda>_. CANONICAL_RECOURSE_CONFIG_SHA256) (\<lambda>_. Some sample_config) (\<lambda>_. Some []) root None
     = parseCanonicalRecourseConfiguration Some sample_config"
  by (simp add: load_selected_configuration_def readParticipantConfigSelection_def loadCanonicalRecourseConfiguration_def
      PINNED_PARTICIPANT_CONFIGS_def readArtifact_def parseJson_def)

theorem loaded_configuration_is_pinned_witness:
  "\<exists>c. load_selected_configuration Some (\<lambda>_. CANONICAL_RECOURSE_CONFIG_SHA256) (\<lambda>_. Some sample_config) (\<lambda>_. Some []) ''repo'' None = Inr c
     \<and> (\<exists>v. parseCanonicalRecourseConfiguration Some v = Inr c)"
proof -
  obtain c where c: "load_selected_configuration Some (\<lambda>_. CANONICAL_RECOURSE_CONFIG_SHA256) (\<lambda>_. Some sample_config) (\<lambda>_. Some []) ''repo'' None = Inr c"
    using sample_config_parses by (auto simp: is_ok_iff sample_config_loads)
  from loaded_configuration_is_pinned [OF c c] c show ?thesis by blast
qed

end
