(* ===== verification/Admission_Service.thy ===== *)
theory Admission_Service
  imports Admission_Store Canonical_Configuration
begin

text \<open>
  Two-wallet participant admission (\<^verbatim>\<open>participant-admission-service.ts\<close>): the operations that create a case,
  issue the challenge a wallet signs, and admit one participant.

  The world is the shared volume and everything else the dependencies act on (\<open>'e\<close>: the engine, the chain,
  the clock). A dependency is an action on the world, so what other processes do while the service
  awaits it is part of its effect. The values the service imports (SHA-256, the Ethereum library, the canonical
  configuration) are a record of parameters; the error messages are left out.
\<close>

subsection \<open>Dependencies\<close>

record 'e world =
  w_disk :: admission_disk
  w_env :: 'e

record 'v CustomSupervisedProtectionView =
  cv_stage :: string
  cv_rest :: 'v

record ParticipantAdmissionContext =
  px_runId :: string
  px_stage :: string
  px_fheCaseId :: string
  px_assetIdentityDigest :: string
  px_protectionBindingDigest :: string
  px_participantSigningKey :: string

record AdmittedParticipantClaim =
  ac_participantWallet :: string
  ac_authorizationDigest :: string
  ac_claimCommitment :: string
  ac_authorizationNonce :: string
  ac_chainId :: int
  ac_issuedAt :: int
  ac_expiresAt :: int
  ac_claim :: SupervisedPledgeWindow

record ('e, 'v) AdmissionOrchestrator =
  or_createNeutralParticipantCase :: "string \<Rightarrow> ('e world, string) action"
  or_createNeutralCoalitionParticipantCase :: "(string \<Rightarrow> ('e world, string) action) option"
  or_readCustomSupervisedCase :: "string \<Rightarrow> ('e world, 'v CustomSupervisedProtectionView) action"
  or_readParticipantAdmissionContext :: "string \<Rightarrow> ParticipantRole \<Rightarrow> ('e world, ParticipantAdmissionContext) action"
  or_preparePrivateMatch :: "string \<Rightarrow> ('e world, unit) action"
  or_admitParticipantClaim :: "string \<Rightarrow> ParticipantRole \<Rightarrow> AdmittedParticipantClaim \<Rightarrow> ('e world, unit) action"
  or_submitParticipantPledge :: "string \<Rightarrow> ParticipantRole \<Rightarrow> ('e world, unit) action"

record ApassVerdict =
  av_eligible :: bool
  av_holderAddress :: jsval
  av_observedBlock :: int

record ('e, 'v) AdmissionDependencies =
  dp_orchestrator :: "('e, 'v) AdmissionOrchestrator"
  dp_runRoot :: string
  dp_directParticipantAdmissionEnabled :: "bool option"
  dp_coalitionRelease :: "bool option"
  dp_verifyingService :: string
  dp_chainId :: "int option"
  dp_verifyApass :: "string \<Rightarrow> ('e world, ApassVerdict) action"
  dp_verifyTypedData :: "'e world \<Rightarrow> string \<Rightarrow> TypedData \<Rightarrow> string \<Rightarrow> string \<Rightarrow> bool result"
  dp_now :: "'e world \<Rightarrow> 'e world \<times> int"
  dp_caseLifetimeSeconds :: "int option"
  dp_onParticipantCaseCreated :: "(string \<Rightarrow> string \<Rightarrow> ('e world, unit) action) option"

record 'e AdmissionImports =
  im_sha :: "string \<Rightarrow> string"
  im_keccak :: "string \<Rightarrow> string"
  im_hashTypedData :: "TypedData \<Rightarrow> string"
  im_loadCanonicalRecourseConfiguration :: "'e world \<Rightarrow> CanonicalRecourseConfiguration result"

definition PARTICIPANT_CASE_SCHEMA :: string where
  "PARTICIPANT_CASE_SCHEMA = ''mordant.participant-case/1''"

definition PARTICIPANT_CHALLENGE_SCHEMA :: string where
  "PARTICIPANT_CHALLENGE_SCHEMA = ''mordant.participant-admission-challenge/1''"

definition PARTICIPANT_CASE_LIFETIME_SECONDS :: int where
  "PARTICIPANT_CASE_LIFETIME_SECONDS = 30 * 60"

definition PARTICIPANT_CHALLENGE_LIFETIME_SECONDS :: int where
  "PARTICIPANT_CHALLENGE_LIFETIME_SECONDS = 10 * 60"

abbreviation admission_error :: "string \<Rightarrow> nat \<Rightarrow> merror" where
  "admission_error \<equiv> ParticipantAdmissionError"

definition now_action :: "('e, 'v) AdmissionDependencies \<Rightarrow> ('e world, int) action" where
  "now_action deps w = (let (w', t) = dp_now deps w in (w', Inr t))"

text \<open>A function of the store that reads the volume, and one that changes it.\<close>

definition disk_read :: "(admission_disk \<Rightarrow> 'a result) \<Rightarrow> ('e world, 'a) action" where
  "disk_read f = areads (\<lambda>w. f (w_disk w))"

definition disk_call :: "(admission_disk \<Rightarrow> admission_disk \<times> 'a result) \<Rightarrow> ('e world, 'a) action" where
  "disk_call f w = (let (fs, r) = f (w_disk w) in (w\<lparr>w_disk := fs\<rparr>, r))"

subsection \<open>Configuration and roles\<close>

definition canonicalDirectAdmissionConfiguration ::
  "'e AdmissionImports \<Rightarrow> ('e, 'v) AdmissionDependencies \<Rightarrow> 'e world \<Rightarrow> CanonicalRecourseConfiguration result" where
  "canonicalDirectAdmissionConfiguration im deps w =
     ebind (check (dp_directParticipantAdmissionEnabled deps = Some True) (admission_error ''DIRECT_ADMISSION_DISABLED'' 403)) (\<lambda>_.
     ebind (check (dp_chainId deps = Some MONAD_TESTNET_CHAIN_ID) (admission_error ''DIRECT_ADMISSION_CHAIN'' 403)) (\<lambda>_.
     case im_loadCanonicalRecourseConfiguration im w of
       Inl (ParticipantAdmissionError code status) \<Rightarrow> Inl (ParticipantAdmissionError code status)
     | Inl _ \<Rightarrow> Inl (admission_error ''CANONICAL_CONFIGURATION'' 503)
     | Inr canonical \<Rightarrow>
         ebind (check (cn_adapterChainId canonical = MONAD_TESTNET_CHAIN_ID) (admission_error ''DIRECT_ADMISSION_CHAIN'' 503)) (\<lambda>_.
         Inr canonical)))"

definition assertCanonicalParticipantWallet :: "CanonicalRecourseConfiguration \<Rightarrow> ParticipantRole \<Rightarrow> jsval \<Rightarrow> string result" where
  "assertCanonicalParticipantWallet configuration role wallet =
     (let expected = (case role of PARTICIPANT_A \<Rightarrow> cn_holderA configuration | PARTICIPANT_B \<Rightarrow> cn_holderB configuration)
      in case wallet of
           VString s \<Rightarrow> if toLowerCase s \<noteq> toLowerCase expected then Inl (admission_error ''CANONICAL_PARTICIPANT'' 403) else Inr expected
         | _ \<Rightarrow> Inl (admission_error ''CANONICAL_PARTICIPANT'' 403))"

subsection \<open>Lifecycle\<close>

datatype ParticipantLifecycle =
    CASE_CREATED_NEUTRAL | LIFECYCLE_MATCH_PREPARED | PARTICIPANT_A_ADMITTED | PARTICIPANT_B_ADMITTED
  | SUBMISSIONS_FINALIZED | LIFECYCLE_EVALUATED | LIFECYCLE_RELEASED | EXECUTION_ABORTED | ABANDONED

definition known_stages :: "string list" where
  "known_stages = [''CASE_CREATED'', ''MATCH_PREPARED'', ''PARTICIPANT_A_SUBMITTED'', ''PARTICIPANT_B_PUBLISHED'',
     ''PARTICIPANT_B_SUBMITTED'', ''EVALUATED'', ''RELEASED'', ''RECOURSE_OPENED'', ''CHRONOLOGY_COMPLETE'', ''COMPLETE'', ''ABORTED'']"

definition participantLifecycle :: "string \<Rightarrow> AdmissionProgress \<Rightarrow> bool \<Rightarrow> ParticipantLifecycle result" where
  "participantLifecycle stage progress abandoned =
     ebind (check (stage \<in> set known_stages) (admission_error ''ADMISSION_STAGE'' 500)) (\<lambda>_.
     if stage = ''ABORTED'' then Inr EXECUTION_ABORTED
     else if abandoned then Inr ABANDONED
     else if stage = ''CASE_CREATED'' then Inr CASE_CREATED_NEUTRAL
     else if stage = ''MATCH_PREPARED'' then Inr (if pg_participantA progress then PARTICIPANT_A_ADMITTED else LIFECYCLE_MATCH_PREPARED)
     else if stage = ''PARTICIPANT_A_SUBMITTED'' then Inr (if pg_participantB progress then PARTICIPANT_B_ADMITTED else PARTICIPANT_A_ADMITTED)
     else if stage = ''PARTICIPANT_B_PUBLISHED'' then Inr PARTICIPANT_B_ADMITTED
     else if stage = ''PARTICIPANT_B_SUBMITTED'' then Inr SUBMISSIONS_FINALIZED
     else if stage = ''EVALUATED'' then Inr LIFECYCLE_EVALUATED
     else if stage \<in> set [''RELEASED'', ''RECOURSE_OPENED'', ''CHRONOLOGY_COMPLETE'', ''COMPLETE''] then Inr LIFECYCLE_RELEASED
     else Inl (admission_error ''ADMISSION_STAGE'' 500))"

record ParticipantAdmissionProjection =
  pp_schemaVersion :: string
  pp_caseCode :: string
  pp_runId :: string
  pp_lifecycle :: ParticipantLifecycle
  pp_participantA :: "bool \<times> string option"
  pp_participantB :: "bool \<times> string option"
  pp_bothAdmitted :: bool
  pp_abandoned :: bool

definition case_lifetime :: "('e, 'v) AdmissionDependencies \<Rightarrow> int" where
  "case_lifetime deps = (case dp_caseLifetimeSeconds deps of None \<Rightarrow> PARTICIPANT_CASE_LIFETIME_SECONDS | Some s \<Rightarrow> s)"

definition projectAdmission ::
  "('e, 'v) AdmissionDependencies \<Rightarrow> string \<Rightarrow> string \<Rightarrow> string \<Rightarrow> int \<Rightarrow> ('e world, ParticipantAdmissionProjection) action" where
  "projectAdmission deps caseCode runId stage createdAtUnix =
     abind (disk_read (admissionProgress (dp_runRoot deps) runId)) (\<lambda>progress.
     abind (alift (check (\<not> (pg_participantB progress \<and> \<not> pg_participantA progress)) (admission_error ''ADMISSION_INTEGRITY'' 500))) (\<lambda>_.
     abind (now_action deps) (\<lambda>now.
     abind (disk_read (admissionAbandoned (dp_runRoot deps) runId createdAtUnix now (case_lifetime deps))) (\<lambda>abandoned.
     abind (alift (participantLifecycle stage progress abandoned)) (\<lambda>lifecycle.
     alift (Inr \<lparr>pp_schemaVersion = PARTICIPANT_CASE_SCHEMA, pp_caseCode = caseCode, pp_runId = runId, pp_lifecycle = lifecycle,
       pp_participantA = (pg_participantA progress, pg_walletA progress), pp_participantB = (pg_participantB progress, pg_walletB progress),
       pp_bothAdmitted = pg_bothAdmitted progress, pp_abandoned = abandoned\<rparr>))))))"


subsection \<open>Creating and reading a case\<close>

record 'v CreatedParticipantCase =
  cp_runId :: string
  cp_caseCode :: string
  cp_view :: "'v CustomSupervisedProtectionView"
  cp_admission :: ParticipantAdmissionProjection

text \<open>What follows once the code is bound.\<close>

definition finish_creation :: "('e, 'v) AdmissionDependencies \<Rightarrow> string \<Rightarrow> string \<Rightarrow> ('e world, 'v CreatedParticipantCase) action" where
  "finish_creation deps caseCode runId =
     abind (case dp_onParticipantCaseCreated deps of None \<Rightarrow> alift (Inr ()) | Some f \<Rightarrow> f runId caseCode) (\<lambda>_.
     abind (or_preparePrivateMatch (dp_orchestrator deps) runId) (\<lambda>_.
     abind (or_readCustomSupervisedCase (dp_orchestrator deps) runId) (\<lambda>view.
     abind (now_action deps) (\<lambda>now.
     abind (projectAdmission deps caseCode runId (cv_stage view) now) (\<lambda>admission.
     alift (Inr \<lparr>cp_runId = runId, cp_caseCode = caseCode, cp_view = view, cp_admission = admission\<rparr>))))))"

text \<open>The request id is the caller's or a fresh UUID; the random bytes of the case code are an argument.\<close>

definition createParticipantCase ::
  "'e AdmissionImports \<Rightarrow> ('e, 'v) AdmissionDependencies \<Rightarrow> char list \<Rightarrow> string \<Rightarrow> ('e world, 'v CreatedParticipantCase) action" where
  "createParticipantCase im deps bytes creationRequestId =
     abind (areads (canonicalDirectAdmissionConfiguration im deps)) (\<lambda>_.
     abind (alift (check (\<not> (dp_coalitionRelease deps = Some True
         \<and> or_createNeutralCoalitionParticipantCase (dp_orchestrator deps) = None)) (admission_error ''COALITION_UNAVAILABLE'' 500))) (\<lambda>_.
     abind (case (dp_coalitionRelease deps, or_createNeutralCoalitionParticipantCase (dp_orchestrator deps)) of
         (Some True, Some create) \<Rightarrow> create creationRequestId
       | _ \<Rightarrow> or_createNeutralParticipantCase (dp_orchestrator deps) creationRequestId) (\<lambda>runId.
     let caseCode = generateCaseCode bytes in
     abind (disk_call (bindCaseCode (dp_runRoot deps) caseCode runId)) (\<lambda>_.
     finish_creation deps caseCode runId))))"

text \<open>The run of a case code, or \<open>UNKNOWN_CASE\<close>.\<close>

definition resolved_case :: "('e, 'v) AdmissionDependencies \<Rightarrow> string \<Rightarrow> ('e world, string) action" where
  "resolved_case deps caseCode =
     abind (disk_read (resolveCaseCode (dp_runRoot deps) caseCode)) (\<lambda>runId.
     alift (require runId (admission_error ''UNKNOWN_CASE'' 404)))"

definition created_or_now :: "('e, 'v) AdmissionDependencies \<Rightarrow> int option \<Rightarrow> ('e world, int) action" where
  "created_or_now deps createdAtUnix = (case createdAtUnix of Some t \<Rightarrow> alift (Inr t) | None \<Rightarrow> now_action deps)"

definition readParticipantCase ::
  "('e, 'v) AdmissionDependencies \<Rightarrow> string \<Rightarrow> int option \<Rightarrow> ('e world, 'v CreatedParticipantCase) action" where
  "readParticipantCase deps caseCode createdAtUnix =
     abind (created_or_now deps createdAtUnix) (\<lambda>created.
     abind (resolved_case deps caseCode) (\<lambda>runId.
     abind (or_readCustomSupervisedCase (dp_orchestrator deps) runId) (\<lambda>view.
     abind (projectAdmission deps caseCode runId (cv_stage view) created) (\<lambda>admission.
     alift (Inr \<lparr>cp_runId = runId, cp_caseCode = caseCode, cp_view = view, cp_admission = admission\<rparr>)))))"

subsection \<open>The challenge\<close>

definition not_abandoned :: "('e, 'v) AdmissionDependencies \<Rightarrow> string \<Rightarrow> int \<Rightarrow> ('e world, unit) action" where
  "not_abandoned deps runId caseCreatedAt =
     abind (now_action deps) (\<lambda>now.
     abind (disk_read (admissionAbandoned (dp_runRoot deps) runId caseCreatedAt now (case_lifetime deps))) (\<lambda>abandoned.
     alift (check (\<not> abandoned) (admission_error ''CASE_ABANDONED'' 410))))"

fun expected_stage :: "ParticipantRole \<Rightarrow> string" where
  "expected_stage PARTICIPANT_A = ''MATCH_PREPARED''"
| "expected_stage PARTICIPANT_B = ''PARTICIPANT_A_SUBMITTED''"

text \<open>\<open>Buffer.toString("hex")\<close>.\<close>

definition hex_digit :: "nat \<Rightarrow> char" where
  "hex_digit n = ''0123456789abcdef'' ! n"

definition to_hex :: "char list \<Rightarrow> string" where
  "to_hex bytes = concat (map (\<lambda>b. [hex_digit (of_char b div 16), hex_digit (of_char b mod 16)]) bytes)"

record ParticipantChallenge =
  ch_schemaVersion :: string
  ch_typed :: TypedData

text \<open>The message of the challenge, from the context, the canonical wallet, the claim, the nonce and the clock.\<close>

definition challenge_message ::
  "string \<Rightarrow> string \<Rightarrow> ParticipantRole \<Rightarrow> string \<Rightarrow> SupervisedPledgeWindow \<Rightarrow> ParticipantAdmissionContext \<Rightarrow> string \<Rightarrow> char list
     \<Rightarrow> int \<Rightarrow> ParticipantAdmissionV2Message result" where
  "challenge_message service runId role wallet window context keyDigest bytes issuedAt =
     ebind (digestToBytes32 (px_fheCaseId context)) (\<lambda>fheCaseId.
     ebind (digestToBytes32 (px_protectionBindingDigest context)) (\<lambda>binding.
     ebind (digestToBytes32 (px_assetIdentityDigest context)) (\<lambda>asset.
     Inr \<lparr>mv_verifyingService = VString service, mv_runId = VString runId, mv_fheCaseId = fheCaseId,
       mv_protectionBindingDigest = binding, mv_assetIdentityDigest = asset, mv_role = role,
       mv_activeFrom = pw_activeFrom window, mv_activeUntil = pw_activeUntil window, mv_participantWallet = wallet,
       mv_authorizationNonce = ''0x'' @ to_hex bytes, mv_issuedAt = issuedAt,
       mv_expiresAt = issuedAt + PARTICIPANT_CHALLENGE_LIFETIME_SECONDS, mv_participantSigningKeyDigest = keyDigest\<rparr>)))"

definition participantAdmissionChallenge ::
  "'e AdmissionImports \<Rightarrow> ('e, 'v) AdmissionDependencies \<Rightarrow> char list \<Rightarrow> string \<Rightarrow> jsval \<Rightarrow> jsval \<Rightarrow> jsval \<Rightarrow> int option
     \<Rightarrow> ('e world, ParticipantChallenge) action" where
  "participantAdmissionChallenge im deps bytes caseCode roleValue participantWallet claim createdAtUnix =
     abind (areads (canonicalDirectAdmissionConfiguration im deps)) (\<lambda>canonical.
     abind (alift (require (isParticipantRole roleValue) (admission_error ''ROLE'' 400))) (\<lambda>role.
     abind (alift (assertCanonicalParticipantWallet canonical role participantWallet)) (\<lambda>canonicalWallet.
     abind (resolved_case deps caseCode) (\<lambda>runId.
     abind (created_or_now deps createdAtUnix) (\<lambda>caseCreatedAt.
     abind (not_abandoned deps runId caseCreatedAt) (\<lambda>_.
     abind (disk_read (readAdmission (dp_runRoot deps) runId role)) (\<lambda>existing.
     abind (alift (check (existing = None) (admission_error ''ROLE_OCCUPIED'' 409))) (\<lambda>_.
     abind (alift (assertSupervisedPledgeWindow claim)) (\<lambda>window.
     abind (or_readParticipantAdmissionContext (dp_orchestrator deps) runId role) (\<lambda>context.
     abind (alift (check (px_stage context = expected_stage role) (admission_error ''ADMISSION_OUT_OF_ORDER'' 409))) (\<lambda>_.
     abind (alift (participantSigningKeyDigest (im_sha im) (px_participantSigningKey context))) (\<lambda>keyDigest.
     abind (now_action deps) (\<lambda>issuedAt.
     abind (alift (challenge_message (dp_verifyingService deps) runId role canonicalWallet window context keyDigest bytes issuedAt)) (\<lambda>message.
     alift (Inr \<lparr>ch_schemaVersion = PARTICIPANT_CHALLENGE_SCHEMA,
       ch_typed = participantAdmissionV2TypedData (im_keccak im) message (dp_chainId deps)\<rparr>)))))))))))))))"


subsection \<open>Admission\<close>

record AdmissionRequest =
  rq_caseCode :: string
  rq_role :: ParticipantRole
  rq_authorization :: jsval
  rq_signature :: jsval
  rq_claim :: jsval

definition assertAdmissionRequest :: "jsval \<Rightarrow> AdmissionRequest result" where
  "assertAdmissionRequest v =
     ebind (check (case v of VObject _ _ \<Rightarrow> True | _ \<Rightarrow> False) (admission_error ''BODY_SHAPE'' 400)) (\<lambda>_.
     ebind (check (sort (own_keys v) = [''authorization'', ''caseCode'', ''claim'', ''role'', ''signature'']) (admission_error ''BODY_MEMBERS'' 400)) (\<lambda>_.
     ebind (require (js_string (js_member v ''caseCode'')) (admission_error ''CASE_CODE'' 400)) (\<lambda>caseCode.
     ebind (require (isParticipantRole (js_member v ''role'')) (admission_error ''ROLE'' 400)) (\<lambda>role.
     Inr \<lparr>rq_caseCode = caseCode, rq_role = role, rq_authorization = js_member v ''authorization'',
       rq_signature = js_member v ''signature'', rq_claim = js_member v ''claim''\<rparr>))))"

text \<open>The values that all checks have passed for, and the response.\<close>

record VerifiedAdmission =
  vd_canonical :: CanonicalRecourseConfiguration
  vd_runId :: string
  vd_caseCreatedAt :: int
  vd_claim :: SupervisedPledgeWindow
  vd_message :: ParticipantAdmissionV2Message
  vd_signingKeyDigest :: string
  vd_authorizationDigest :: string
  vd_signature :: jsval
  vd_claimCommitment :: string
  vd_observedBlock :: int

record 'v AdmissionResult =
  rs_runId :: string
  rs_caseCode :: string
  rs_role :: ParticipantRole
  rs_participantWallet :: string
  rs_eligibilityBlock :: int
  rs_newlyAdmitted :: bool
  rs_admission :: ParticipantAdmissionProjection
  rs_view :: "'v CustomSupervisedProtectionView"

text \<open>What the server expects of the authorization, from its own context; the clock is read last.\<close>

definition expected_admission ::
  "('e, 'v) AdmissionDependencies \<Rightarrow> string \<Rightarrow> ParticipantRole \<Rightarrow> SupervisedPledgeWindow \<Rightarrow> ParticipantAdmissionContext
     \<Rightarrow> (int \<Rightarrow> ExpectedV2) result" where
  "expected_admission deps runId role claim context =
     ebind (digestToBytes32 (px_fheCaseId context)) (\<lambda>fheCaseId.
     ebind (digestToBytes32 (px_protectionBindingDigest context)) (\<lambda>binding.
     ebind (digestToBytes32 (px_assetIdentityDigest context)) (\<lambda>asset.
     Inr (\<lambda>now. \<lparr>ev_verifyingService = dp_verifyingService deps, ev_runId = runId, ev_fheCaseId = fheCaseId,
       ev_protectionBindingDigest = binding, ev_assetIdentityDigest = asset, ev_role = role,
       ev_participantSigningKeyBase64 = px_participantSigningKey context,
       ev_activeFrom = pw_activeFrom claim, ev_activeUntil = pw_activeUntil claim, ev_chainId = dp_chainId deps, ev_now = now\<rparr>))))"

text \<open>The verifier the service hands to the V2 check.\<close>

definition service_verifier :: "'e AdmissionImports \<Rightarrow> ('e, 'v) AdmissionDependencies \<Rightarrow> 'e world \<Rightarrow> string \<Rightarrow> TypedData \<Rightarrow> string \<Rightarrow> bool result" where
  "service_verifier im deps w signer typedData signature =
     dp_verifyTypedData deps w signer typedData (im_hashTypedData im typedData) signature"

text \<open>First half of \<open>admitParticipant\<close>: every check that precedes the ledger write.\<close>

definition authorize_admission ::
  "'e AdmissionImports \<Rightarrow> ('e, 'v) AdmissionDependencies \<Rightarrow> AdmissionRequest \<Rightarrow> int option \<Rightarrow> ('e world, VerifiedAdmission) action" where
  "authorize_admission im deps request createdAtUnix =
     abind (areads (canonicalDirectAdmissionConfiguration im deps)) (\<lambda>canonical.
     abind (resolved_case deps (rq_caseCode request)) (\<lambda>runId.
     abind (created_or_now deps createdAtUnix) (\<lambda>caseCreatedAt.
     abind (not_abandoned deps runId caseCreatedAt) (\<lambda>_.
     abind (alift (assertSupervisedPledgeWindow (rq_claim request))) (\<lambda>claim.
     abind (or_readParticipantAdmissionContext (dp_orchestrator deps) runId (rq_role request)) (\<lambda>context.
     abind (disk_read (readAdmission (dp_runRoot deps) runId (rq_role request))) (\<lambda>existing.
     abind (alift (check (\<not> (existing = None \<and> px_stage context \<noteq> expected_stage (rq_role request)))
       (admission_error ''ADMISSION_OUT_OF_ORDER'' 409))) (\<lambda>_.
     abind (alift (assertParticipantAdmissionV2Message (rq_authorization request))) (\<lambda>message.
     abind (alift (expected_admission deps runId (rq_role request) claim context)) (\<lambda>expected.
     abind (now_action deps) (\<lambda>now.
     abind (areads (\<lambda>w. verifyParticipantAdmissionV2 (im_sha im) (im_keccak im) (service_verifier im deps w) message
       (rq_signature request) (expected now))) (\<lambda>(admitted, signingKeyDigest).
     abind (alift (participantClaimCommitment (im_sha im) runId (mv_role admitted) claim)) (\<lambda>claimCommitment.
     abind (alift (assertCanonicalParticipantWallet canonical (rq_role request) (VString (mv_participantWallet admitted)))) (\<lambda>_.
     abind (dp_verifyApass deps (mv_participantWallet admitted)) (\<lambda>verdict.
     abind (alift (check (av_eligible verdict) (admission_error ''APASS_DENIED'' 403))) (\<lambda>_.
     abind (alift (check (case av_holderAddress verdict of
         VString holder \<Rightarrow> toLowerCase holder = toLowerCase (mv_participantWallet admitted) | _ \<Rightarrow> False)
       (admission_error ''APASS_IDENTITY'' 403))) (\<lambda>_.
     alift (Inr \<lparr>vd_canonical = canonical, vd_runId = runId, vd_caseCreatedAt = caseCreatedAt, vd_claim = claim, vd_message = admitted,
       vd_signingKeyDigest = signingKeyDigest,
       vd_authorizationDigest = im_hashTypedData im (participantAdmissionV2TypedData (im_keccak im) admitted (dp_chainId deps)),
       vd_signature = rq_signature request, vd_claimCommitment = claimCommitment, vd_observedBlock = av_observedBlock verdict\<rparr>))))))))))))))))))"

definition admission_candidate :: "VerifiedAdmission \<Rightarrow> ParticipantRole \<Rightarrow> int \<Rightarrow> AdmissionCandidate" where
  "admission_candidate v role now = \<lparr>ar_runId = vd_runId v, ar_authorization = Some (v2_members (vd_message v)),
     ar_signature = js_string (vd_signature v), ar_role = role, ar_participantWallet = mv_participantWallet (vd_message v),
     ar_authorizationDigest = vd_authorizationDigest v, ar_claimCommitment = vd_claimCommitment v,
     ar_authorizationNonce = mv_authorizationNonce (vd_message v), ar_chainId = cn_adapterChainId (vd_canonical v),
     ar_issuedAt = mv_issuedAt (vd_message v), ar_expiresAt = mv_expiresAt (vd_message v),
     ar_participantSigningKeyDigest = Some (vd_signingKeyDigest v), ar_eligibilityBlock = vd_observedBlock v, ar_admittedAtUnix = now\<rparr>"

definition engine_claim :: "VerifiedAdmission \<Rightarrow> AdmittedParticipantClaim" where
  "engine_claim v = \<lparr>ac_participantWallet = mv_participantWallet (vd_message v), ac_authorizationDigest = vd_authorizationDigest v,
     ac_claimCommitment = vd_claimCommitment v, ac_authorizationNonce = mv_authorizationNonce (vd_message v),
     ac_chainId = cn_adapterChainId (vd_canonical v), ac_issuedAt = mv_issuedAt (vd_message v),
     ac_expiresAt = mv_expiresAt (vd_message v), ac_claim = vd_claim v\<rparr>"

text \<open>Second half: the ledger write, the engine's own record, the submission and the readback.\<close>

definition commit_admission ::
  "('e, 'v) AdmissionDependencies \<Rightarrow> AdmissionRequest \<Rightarrow> VerifiedAdmission \<Rightarrow> ('e world, 'v AdmissionResult) action" where
  "commit_admission deps request v =
     abind (now_action deps) (\<lambda>now.
     abind (disk_call (admitParticipantRole (dp_runRoot deps) (admission_candidate v (rq_role request) now))) (\<lambda>outcome.
     abind (or_admitParticipantClaim (dp_orchestrator deps) (vd_runId v) (rq_role request) (engine_claim v)) (\<lambda>_.
     abind (or_submitParticipantPledge (dp_orchestrator deps) (vd_runId v) (rq_role request)) (\<lambda>_.
     abind (or_readCustomSupervisedCase (dp_orchestrator deps) (vd_runId v)) (\<lambda>view.
     abind (projectAdmission deps (rq_caseCode request) (vd_runId v) (cv_stage view) (vd_caseCreatedAt v)) (\<lambda>admission.
     alift (Inr \<lparr>rs_runId = vd_runId v, rs_caseCode = rq_caseCode request, rs_role = rq_role request,
       rs_participantWallet = mv_participantWallet (vd_message v), rs_eligibilityBlock = vd_observedBlock v,
       rs_newlyAdmitted = ao_admitted outcome, rs_admission = admission, rs_view = view\<rparr>)))))))"

definition admitParticipant ::
  "'e AdmissionImports \<Rightarrow> ('e, 'v) AdmissionDependencies \<Rightarrow> AdmissionRequest \<Rightarrow> int option \<Rightarrow> ('e world, 'v AdmissionResult) action" where
  "admitParticipant im deps request createdAtUnix =
     abind (authorize_admission im deps request createdAtUnix) (commit_admission deps request)"

definition admittedWallets :: "string \<Rightarrow> string \<Rightarrow> admission_disk \<Rightarrow> (ParticipantRole \<rightharpoonup> string) result" where
  "admittedWallets runRoot runId fs =
     ebind (readAdmissions runRoot runId fs) (\<lambda>admitted. Inr (\<lambda>role. map_option ar_participantWallet (admitted role)))"

text \<open>Status and code of the response to a failure.\<close>

fun admissionFailure :: "merror \<Rightarrow> nat \<times> string" where
  "admissionFailure (ParticipantAdmissionError code status) = (status, code)"
| "admissionFailure (ParticipantAuthorizationError code status) = (status, code)"
| "admissionFailure (ParticipantAdmissionStoreError code status) = (status, code)"
| "admissionFailure (ParticipantAdmissionV2Error code status) = (status, code)"
| "admissionFailure (SupervisedPledgeWindowsError code) = (400, code)"
| "admissionFailure _ = (500, ''ADMISSION'')"


subsection \<open>What the actions leave alone\<close>

definition same_disk :: "'e world \<Rightarrow> 'e world \<Rightarrow> bool" where
  "same_disk w w' \<longleftrightarrow> w_disk w' = w_disk w"

definition ledger_kept :: "string \<Rightarrow> 'e world \<Rightarrow> 'e world \<Rightarrow> bool" where
  "ledger_kept root w w' \<longleftrightarrow> (\<forall>run. slot root run (w_disk w) \<subseteq>\<^sub>m slot root run (w_disk w'))"

interpretation same_disk: kept_relation same_disk
  by unfold_locales (auto simp: same_disk_def)

interpretation ledger_kept: kept_relation "ledger_kept root"
  by unfold_locales (auto simp: ledger_kept_def intro: map_le_trans)

lemma keeps_now: "(\<And>w. R w (fst (dp_now deps w))) \<Longrightarrow> keeps R (now_action deps)"
  by (auto simp: keeps_def now_action_def Let_def split: prod.splits) (metis fst_conv)

lemma keeps_disk_read: "keeps same_disk (disk_read f)" "keeps (ledger_kept root) (disk_read f)"
  by (simp_all add: disk_read_def same_disk.keeps_areads ledger_kept.keeps_areads)

text \<open>The dependencies that are called before the ledger write do not write the volume.\<close>

definition quiet_checks :: "('e, 'v) AdmissionDependencies \<Rightarrow> bool" where
  "quiet_checks deps \<longleftrightarrow> (\<forall>w. w_disk (fst (dp_now deps w)) = w_disk w)
     \<and> (\<forall>run role w. w_disk (fst (or_readParticipantAdmissionContext (dp_orchestrator deps) run role w)) = w_disk w)
     \<and> (\<forall>wallet w. w_disk (fst (dp_verifyApass deps wallet w)) = w_disk w)"

lemma authorize_quiet:
  assumes "quiet_checks deps"
  shows "keeps same_disk (authorize_admission im deps request created)"
proof -
  have now: "keeps same_disk (now_action deps)" by (rule keeps_now) (use assms in \<open>simp add: quiet_checks_def same_disk_def\<close>)
  have ctx: "keeps same_disk (or_readParticipantAdmissionContext (dp_orchestrator deps) run role)" for run role
    using assms by (simp add: quiet_checks_def same_disk_def keeps_def)
  have apass: "keeps same_disk (dp_verifyApass deps wallet)" for wallet
    using assms by (simp add: quiet_checks_def same_disk_def keeps_def)
  have created: "keeps same_disk (created_or_now deps created)"
    using now by (auto simp: created_or_now_def same_disk.keeps_alift split: option.split)
  show ?thesis
    unfolding authorize_admission_def resolved_case_def not_abandoned_def case_prod_unfold
    by (intro same_disk.keeps_intros keeps_disk_read now ctx apass created)
qed

subsection \<open>What the checks establish\<close>

lemma canonical_wallet_ok:
  "assertCanonicalParticipantWallet canonical role (VString wallet) = Inr x \<longleftrightarrow>
     x = (case role of PARTICIPANT_A \<Rightarrow> cn_holderA canonical | PARTICIPANT_B \<Rightarrow> cn_holderB canonical) \<and> toLowerCase wallet = toLowerCase x"
  by (auto simp: assertCanonicalParticipantWallet_def Let_def)

text \<open>Everything that holds when the first half returns.\<close>

definition admission_authorized ::
  "'e AdmissionImports \<Rightarrow> ('e, 'v) AdmissionDependencies \<Rightarrow> AdmissionRequest \<Rightarrow> VerifiedAdmission \<Rightarrow> bool" where
  "admission_authorized im deps request v \<longleftrightarrow>
     assertParticipantAdmissionV2Message (rq_authorization request) = Inr (vd_message v)
     \<and> assertSupervisedPledgeWindow (rq_claim request) = Inr (vd_claim v)
     \<and> (\<exists>w signature. rq_signature request = VString signature \<and> vd_signature v = VString signature
          \<and> dp_verifyTypedData deps w (mv_participantWallet (vd_message v))
              (participantAdmissionV2TypedData (im_keccak im) (vd_message v) (dp_chainId deps)) (vd_authorizationDigest v) signature = Inr True)
     \<and> vd_authorizationDigest v = im_hashTypedData im (participantAdmissionV2TypedData (im_keccak im) (vd_message v) (dp_chainId deps))
     \<and> mv_verifyingService (vd_message v) = VString (dp_verifyingService deps)
     \<and> mv_runId (vd_message v) = VString (vd_runId v) \<and> mv_role (vd_message v) = rq_role request
     \<and> mv_activeFrom (vd_message v) = pw_activeFrom (vd_claim v) \<and> mv_activeUntil (vd_message v) = pw_activeUntil (vd_claim v)
     \<and> participantClaimCommitment (im_sha im) (vd_runId v) (rq_role request) (vd_claim v) = Inr (vd_claimCommitment v)
     \<and> (\<exists>w w' context. or_readParticipantAdmissionContext (dp_orchestrator deps) (vd_runId v) (rq_role request) w = (w', Inr context)
          \<and> digestToBytes32 (px_fheCaseId context) = Inr (mv_fheCaseId (vd_message v))
          \<and> digestToBytes32 (px_protectionBindingDigest context) = Inr (mv_protectionBindingDigest (vd_message v))
          \<and> digestToBytes32 (px_assetIdentityDigest context) = Inr (mv_assetIdentityDigest (vd_message v))
          \<and> participantSigningKeyDigest (im_sha im) (px_participantSigningKey context) = Inr (mv_participantSigningKeyDigest (vd_message v)))
     \<and> toLowerCase (mv_participantWallet (vd_message v)) =
          toLowerCase (case rq_role request of PARTICIPANT_A \<Rightarrow> cn_holderA (vd_canonical v) | PARTICIPANT_B \<Rightarrow> cn_holderB (vd_canonical v))
     \<and> (\<exists>w w' verdict. dp_verifyApass deps (mv_participantWallet (vd_message v)) w = (w', Inr verdict) \<and> av_eligible verdict)"

lemma authorize_sound:
  assumes "authorize_admission im deps request created w = (w', Inr v)"
  shows "admission_authorized im deps request v"
proof -
  from assms obtain w1 w2 w3 w4 w5 cx message expected now admitted key commitment x verdict claim run where
    ctx: "or_readParticipantAdmissionContext (dp_orchestrator deps) run (rq_role request) w1 = (w2, Inr cx)"
    and claim: "assertSupervisedPledgeWindow (rq_claim request) = Inr claim"
    and message: "assertParticipantAdmissionV2Message (rq_authorization request) = Inr message"
    and expected: "expected_admission deps run (rq_role request) claim cx = Inr expected"
    and verified: "verifyParticipantAdmissionV2 (im_sha im) (im_keccak im) (service_verifier im deps w3) message (rq_signature request)
       (expected now) = Inr (admitted, key)"
    and commitment: "participantClaimCommitment (im_sha im) run (mv_role admitted) claim = Inr commitment"
    and wallet: "assertCanonicalParticipantWallet (vd_canonical v) (rq_role request) (VString (mv_participantWallet admitted)) = Inr x"
    and apass: "dp_verifyApass deps (mv_participantWallet admitted) w4 = (w5, Inr verdict)" "av_eligible verdict"
    and v: "vd_runId v = run" "vd_claim v = claim" "vd_message v = admitted" "vd_signature v = rq_signature request"
       "vd_authorizationDigest v = im_hashTypedData im (participantAdmissionV2TypedData (im_keccak im) admitted (dp_chainId deps))"
       "vd_claimCommitment v = commitment"
    unfolding authorize_admission_def abind_eq_Inr case_prod_unfold
    by (auto simp: check_eq_Inr)
  have "mv_role admitted = rq_role request" and m: "admitted = message"
    using verified expected by (auto simp: verifyV2_iff expected_admission_def ebind_eq_Inr)
  then show ?thesis
    using ctx claim message expected verified commitment wallet apass v
    unfolding admission_authorized_def verifyV2_iff expected_admission_def ebind_eq_Inr canonical_wallet_ok service_verifier_def
    by auto blast
qed


lemma authorize_case:
  assumes "authorize_admission im deps request created w = (w', Inr v)"
  shows "resolveCaseCode (dp_runRoot deps) (rq_caseCode request) (w_disk w) = Inr (Some (vd_runId v))"
    and "canonicalDirectAdmissionConfiguration im deps w = Inr (vd_canonical v)"
  using assms unfolding authorize_admission_def abind_eq_Inr case_prod_unfold resolved_case_def
  by (auto simp: check_eq_Inr require_eq_Inr disk_read_def)


subsection \<open>What success establishes\<close>

lemma recognise_ok: "recognise x c = Inr out \<Longrightarrow> x = Some (ao_record out) \<and> sameAuthorization (ao_record out) c"
  by (auto simp: recognise_def split: option.splits if_splits)

lemma operation_success:
  assumes "admission_operation root c fs = (fs', Inr out)"
  shows "slot root (ar_runId c) fs' (ar_role c) = Some (ao_record out) \<and> valid_record (ar_runId c) (ar_role c) (ao_record out)
     \<and> sameAuthorization (ao_record out) c"
proof -
  let ?path = "admissionRecordPath root (ar_runId c) (ar_role c)"
  have read: ?thesis if "readAdmission root (ar_runId c) (ar_role c) fs' = Inr x" "recognise x c = Inr out" for x
    using that recognise_ok [OF that(2)] sound_slot by (fastforce simp: readAdmission_Inr)
  consider (seen) x where "readAdmission root (ar_runId c) (ar_role c) fs' = Inr x" "recognise x c = Inr out"
    | (wrote) r other where "admission_guard c other = Inr r" "fs' = fs(?path \<mapsto> Whole (AdmissionFile r))" "out = \<lparr>ao_record = r, ao_admitted = True\<rparr>"
    using assms
    by (auto simp: admission_operation_def writeCreateOnly_def ebind_eq_Inr split: sum.splits option.splits if_splits)
  then show ?thesis
  proof cases
    case seen
    then show ?thesis by (rule read)
  next
    case wrote
    then show ?thesis by (auto simp: admission_guard_ok)
  qed
qed

lemma admit_success:
  assumes "admitParticipantRole root c fs = (fs', Inr out)"
  shows "slot root (ar_runId c) fs' (ar_role c) = Some (ao_record out) \<and> valid_record (ar_runId c) (ar_role c) (ao_record out)
     \<and> sameAuthorization (ao_record out) c"
proof -
  obtain fs1 where op: "admission_operation root c (fs(admissionLockPath root (ar_runId c) \<mapsto> Whole (LockFile (ar_runId c)))) = (fs1, Inr out)"
    and fs': "fs' = fs1(admissionLockPath root (ar_runId c) := None)"
    using assms by (auto simp: admitParticipantRole_def withRunAdmissionLock_def Let_def split: if_splits prod.splits)
  have "slot root (ar_runId c) fs1 (ar_role c) = Some (ao_record out) \<and> valid_record (ar_runId c) (ar_role c) (ao_record out)
     \<and> sameAuthorization (ao_record out) c"
    by (rule operation_success [OF op])
  then show ?thesis using fs' by simp
qed

lemma slot_reads: "slot root run fs role = Some r \<Longrightarrow> valid_record run role r \<Longrightarrow> readAdmission root run role fs = Inr (Some r)"
  by (auto simp: slot_def readAdmission_def readJsonOrNull_def valid_record_def split: option.splits stored.splits admission_file.splits)

text \<open>The engine, the policy service and the clock leave admitted records alone, as every run of the ledger does.\<close>

definition ledger_respected :: "('e, 'v) AdmissionDependencies \<Rightarrow> bool" where
  "ledger_respected deps \<longleftrightarrow> (\<forall>w. ledger_kept (dp_runRoot deps) w (fst (dp_now deps w)))
     \<and> (\<forall>run role claim. keeps (ledger_kept (dp_runRoot deps)) (or_admitParticipantClaim (dp_orchestrator deps) run role claim))
     \<and> (\<forall>run role. keeps (ledger_kept (dp_runRoot deps)) (or_submitParticipantPledge (dp_orchestrator deps) run role))
     \<and> (\<forall>run. keeps (ledger_kept (dp_runRoot deps)) (or_readCustomSupervisedCase (dp_orchestrator deps) run))"

lemma project_keeps:
  assumes "ledger_respected deps"
  shows "keeps (ledger_kept (dp_runRoot deps)) (projectAdmission deps code run stage created)"
proof -
  have "keeps (ledger_kept (dp_runRoot deps)) (now_action deps)" by (rule keeps_now) (use assms in \<open>simp add: ledger_respected_def\<close>)
  then show ?thesis unfolding projectAdmission_def by (intro ledger_kept.keeps_intros keeps_disk_read)
qed

lemma keptD: "keeps R m \<Longrightarrow> m s = (t, x) \<Longrightarrow> R s t"
  by (auto simp: keeps_def dest: spec [of _ s])

lemma commit_recorded:
  assumes "ledger_respected deps" "commit_admission deps request v w = (w', Inr out)"
  shows "\<exists>r now. readAdmission (dp_runRoot deps) (vd_runId v) (rq_role request) (w_disk w') = Inr (Some r)
     \<and> sameAuthorization r (admission_candidate v (rq_role request) now)
     \<and> rs_runId out = vd_runId v \<and> rs_role out = rq_role request \<and> rs_participantWallet out = mv_participantWallet (vd_message v)"
proof -
  obtain w1 w2 w3 w4 w5 now outcome view p where
    admit: "disk_call (admitParticipantRole (dp_runRoot deps) (admission_candidate v (rq_role request) now)) w1 = (w2, Inr outcome)"
    and rest: "or_admitParticipantClaim (dp_orchestrator deps) (vd_runId v) (rq_role request) (engine_claim v) w2 = (w3, Inr ())"
      "or_submitParticipantPledge (dp_orchestrator deps) (vd_runId v) (rq_role request) w3 = (w4, Inr ())"
      "or_readCustomSupervisedCase (dp_orchestrator deps) (vd_runId v) w4 = (w5, Inr view)"
      "projectAdmission deps (rq_caseCode request) (vd_runId v) (cv_stage view) (vd_caseCreatedAt v) w5 = (w', Inr p)"
    and out: "rs_runId out = vd_runId v" "rs_role out = rq_role request" "rs_participantWallet out = mv_participantWallet (vd_message v)"
    using assms(2) unfolding commit_admission_def abind_eq_Inr by auto
  let ?slot = "\<lambda>w. slot (dp_runRoot deps) (vd_runId v) (w_disk w)"
  have "ledger_kept (dp_runRoot deps) w2 w3" "ledger_kept (dp_runRoot deps) w3 w4" "ledger_kept (dp_runRoot deps) w4 w5"
    using assms(1) rest(1-3) unfolding ledger_respected_def keeps_def by (metis fst_conv)+
  moreover have "ledger_kept (dp_runRoot deps) w5 w'" by (rule keptD [OF project_keeps [OF assms(1)] rest(4)])
  ultimately have "ledger_kept (dp_runRoot deps) w2 w'" by (meson ledger_kept.kept_trans)
  then have kept: "?slot w2 \<subseteq>\<^sub>m ?slot w'" by (simp add: ledger_kept_def)
  obtain fs' where "admitParticipantRole (dp_runRoot deps) (admission_candidate v (rq_role request) now) (w_disk w1) = (fs', Inr outcome)"
    and "w_disk w2 = fs'"
    using admit by (auto simp: disk_call_def Let_def split: prod.splits)
  with admit_success [OF this(1)]
  have s: "?slot w2 (rq_role request) = Some (ao_record outcome)" "valid_record (vd_runId v) (rq_role request) (ao_record outcome)"
    and same: "sameAuthorization (ao_record outcome) (admission_candidate v (rq_role request) now)"
    by (simp_all add: admission_candidate_def)
  from s(1) kept have "?slot w' (rq_role request) = Some (ao_record outcome)" by (auto simp: map_le_def dom_def)
  from slot_reads [OF this s(2)] same out show ?thesis by blast
qed


text \<open>A call that returns has a durable effect to show for it: the request was authorized, and the ledger,
  as it stands when the call returns, holds for this run and role a valid record of exactly this
  authorization: its wallet, digest, nonce and window, and the commitment of the claim that was sent.\<close>

theorem admission_success_is_recorded:
  assumes "ledger_respected deps" "admitParticipant im deps request created w = (w', Inr out)"
  shows "\<exists>v r. admission_authorized im deps request v
     \<and> readAdmission (dp_runRoot deps) (rs_runId out) (rq_role request) (w_disk w') = Inr (Some r)
     \<and> rs_runId out = vd_runId v \<and> rs_role out = rq_role request \<and> rs_participantWallet out = ar_participantWallet r
     \<and> ar_participantWallet r = mv_participantWallet (vd_message v) \<and> ar_authorizationDigest r = vd_authorizationDigest v
     \<and> ar_authorizationNonce r = mv_authorizationNonce (vd_message v)
     \<and> ar_issuedAt r = mv_issuedAt (vd_message v) \<and> ar_expiresAt r = mv_expiresAt (vd_message v)
     \<and> participantClaimCommitment (im_sha im) (rs_runId out) (rq_role request) (vd_claim v) = Inr (ar_claimCommitment r)"
proof -
  obtain w1 v where first: "authorize_admission im deps request created w = (w1, Inr v)"
    and second: "commit_admission deps request v w1 = (w', Inr out)"
    using assms(2) unfolding admitParticipant_def abind_eq_Inr by blast
  note authorized = authorize_sound [OF first]
  then have "participantClaimCommitment (im_sha im) (vd_runId v) (rq_role request) (vd_claim v) = Inr (vd_claimCommitment v)"
    by (simp add: admission_authorized_def)
  with authorized commit_recorded [OF assms(1) second] show ?thesis
    by (auto simp: sameAuthorization_def admission_candidate_def)
qed

subsection \<open>From the challenge to the admission\<close>

lemma digestToBytes32_regex: "digestToBytes32 d = Inr x \<Longrightarrow> fixed_regex BYTES32_LOWER x"
  by (auto simp: digestToBytes32_def BYTES32_LOWER_def prefix_regex_append Let_def simp del: append_Cons split: if_splits)

lemma hex_digit_lower: "n < 16 \<Longrightarrow> lower_hex (hex_digit n)"
  using nth_mem [of n "''0123456789abcdef''"] by (simp add: lower_hex_def hex_digit_def)

lemma of_char_div_16: "of_char (b :: char) div 16 < (16 :: nat)"
  using nat_of_char_less_256 [of b] by (simp add: less_mult_imp_div_less)

lemma to_hex_lower: "length (to_hex bytes) = 2 * length bytes \<and> list_all lower_hex (to_hex bytes)"
  by (induction bytes) (simp_all add: to_hex_def hex_digit_lower of_char_div_16)

lemma hex_nonce: "length bytes = 32 \<Longrightarrow> fixed_regex BYTES32_LOWER (''0x'' @ to_hex bytes)"
  using to_hex_lower [of bytes] unfolding BYTES32_LOWER_def prefix_regex_append by simp

lemma v2_members_keys: "map fst (v2_members m) = map fst PARTICIPANT_ADMISSION_V2_TYPES"
  by (simp add: v2_members_def PARTICIPANT_ADMISSION_V2_TYPES_def)

lemma role_roundtrip [simp]: "isParticipantRole (VString (role_name r)) = Some r"
  by (simp add: isParticipantRole_iff)

text \<open>Well-formed messages survive being sent as an object and parsed again.\<close>

lemma v2_message_roundtrip:
  assumes "fixed_regex BYTES32_LOWER (mv_fheCaseId m)" "fixed_regex BYTES32_LOWER (mv_protectionBindingDigest m)"
    "fixed_regex BYTES32_LOWER (mv_assetIdentityDigest m)" "fixed_regex BYTES32_LOWER (mv_authorizationNonce m)"
    "fixed_regex BYTES32_LOWER (mv_participantSigningKeyDigest m)" "fixed_regex ADDRESS_ANY (mv_participantWallet m)"
    and "0 < mv_activeFrom m" "mv_activeFrom m < mv_activeUntil m" "mv_activeUntil m \<le> MAX_SAFE_INTEGER"
    and "0 < mv_issuedAt m" "mv_issuedAt m < mv_expiresAt m" "mv_expiresAt m \<le> mv_issuedAt m + 900" "mv_expiresAt m \<le> MAX_SAFE_INTEGER"
  shows "assertParticipantAdmissionV2Message (VObject ObjectPrototype (v2_members m)) = Inr m"
proof -
  have members: "js_member (VObject ObjectPrototype (v2_members m)) k = (case map_of (v2_members m) k of None \<Rightarrow> VUndefined | Some x \<Rightarrow> x)" for k
    by simp
  have keys: "sort (own_keys (VObject ObjectPrototype (v2_members m))) = sort (map fst PARTICIPANT_ADMISSION_V2_TYPES)"
    by (simp add: v2_members_keys)
  show ?thesis
    using assms unfolding assertParticipantAdmissionV2Message_def keys members
    by (simp add: v2_members_def v2_bytes32_def v2_seconds_def isSafeInteger_def js_string_def require_def
        PARTICIPANT_AUTHORIZATION_MAX_LIFETIME_SECONDS_def)
qed

lemma challenge_inv:
  assumes "participantAdmissionChallenge im deps bytes code roleValue wallet claim created w = (w', Inr ch)"
  shows "\<exists>canonical role run window cx w1 w2 key issued message holder.
     canonicalDirectAdmissionConfiguration im deps w = Inr canonical \<and> isParticipantRole roleValue = Some role
     \<and> assertCanonicalParticipantWallet canonical role wallet = Inr holder
     \<and> assertSupervisedPledgeWindow claim = Inr window
     \<and> or_readParticipantAdmissionContext (dp_orchestrator deps) run role w1 = (w2, Inr cx)
     \<and> participantSigningKeyDigest (im_sha im) (px_participantSigningKey cx) = Inr key
     \<and> challenge_message (dp_verifyingService deps) run role holder window cx key bytes issued = Inr message
     \<and> ch_typed ch = participantAdmissionV2TypedData (im_keccak im) message (dp_chainId deps)"
  using assms unfolding participantAdmissionChallenge_def abind_eq_Inr
  by (auto simp: require_eq_Inr) blast


text \<open>A challenge can be used. Its typed data are those of one message, which, sent back as an object, parses
  to itself (unless its interval starts at instant zero); signed in the ten minutes after it was issued,
  it passes the server's verification against the context it was issued from, and yields the key it names.\<close>

theorem challenge_is_admissible:
  assumes "participantAdmissionChallenge im deps bytes code roleValue wallet claim created w = (w', Inr ch)"
    and "hex_digest (im_sha im)" "length bytes = 32"
    and "\<And>canonical. im_loadCanonicalRecourseConfiguration im w = Inr canonical \<Longrightarrow>
       fixed_regex ADDRESS_ANY (cn_holderA canonical) \<and> fixed_regex ADDRESS_ANY (cn_holderB canonical)"
  shows "\<exists>m run role window cx w1 w2.
     or_readParticipantAdmissionContext (dp_orchestrator deps) run role w1 = (w2, Inr cx)
     \<and> assertSupervisedPledgeWindow claim = Inr window \<and> isParticipantRole roleValue = Some role
     \<and> ch_typed ch = participantAdmissionV2TypedData (im_keccak im) m (dp_chainId deps)
     \<and> (0 < mv_activeFrom m \<and> 0 < mv_issuedAt m \<and> mv_expiresAt m \<le> MAX_SAFE_INTEGER
         \<longrightarrow> assertParticipantAdmissionV2Message (VObject ObjectPrototype (td_message (ch_typed ch))) = Inr m)
     \<and> mv_expiresAt m = mv_issuedAt m + 600
     \<and> (\<forall>now verify signature. mv_issuedAt m \<le> now \<and> now \<le> mv_expiresAt m \<and> signature_format signature
          \<and> verify (mv_participantWallet m) (ch_typed ch) signature = Inr True
         \<longrightarrow> (\<exists>expected. expected_admission deps run role window cx = Inr expected
           \<and> verifyParticipantAdmissionV2 (im_sha im) (im_keccak im) verify m (VString signature) (expected now)
               = Inr (m, mv_participantSigningKeyDigest m)))"
proof -
  from challenge_inv [OF assms(1)] obtain canonical role run window cx w1 w2 key issued m holder where
    canonical: "canonicalDirectAdmissionConfiguration im deps w = Inr canonical" and role: "isParticipantRole roleValue = Some role"
    and holder: "assertCanonicalParticipantWallet canonical role wallet = Inr holder"
    and window: "assertSupervisedPledgeWindow claim = Inr window"
    and ctx: "or_readParticipantAdmissionContext (dp_orchestrator deps) run role w1 = (w2, Inr cx)"
    and key: "participantSigningKeyDigest (im_sha im) (px_participantSigningKey cx) = Inr key"
    and message: "challenge_message (dp_verifyingService deps) run role holder window cx key bytes issued = Inr m"
    and typed: "ch_typed ch = participantAdmissionV2TypedData (im_keccak im) m (dp_chainId deps)"
    by blast
  from canonical have "im_loadCanonicalRecourseConfiguration im w = Inr canonical"
    by (auto simp: canonicalDirectAdmissionConfiguration_def ebind_eq_Inr check_eq_Inr split: sum.splits merror.splits)
  with holder assms(4) have address: "fixed_regex ADDRESS_ANY holder"
    by (auto simp: assertCanonicalParticipantWallet_def Let_def split: jsval.splits if_splits ParticipantRole.splits)
  from key assms(2) have keyhex: "fixed_regex BYTES32_LOWER key" by (auto simp: signingKeyDigest_ok hex_digest_regex(2) simp del: append_Cons)
  have bounds: "pw_activeFrom window < pw_activeUntil window" "pw_activeUntil window \<le> MAX_SAFE_INTEGER"
    using window by (auto simp: assertSupervisedPledgeWindow_def exactWindow_Inr window_bounds_def)
  note fields = message [unfolded challenge_message_def ebind_eq_Inr PARTICIPANT_CHALLENGE_LIFETIME_SECONDS_def]
  have "assertParticipantAdmissionV2Message (VObject ObjectPrototype (v2_members m)) = Inr m"
    if "0 < mv_activeFrom m" "0 < mv_issuedAt m" "mv_expiresAt m \<le> MAX_SAFE_INTEGER"
    by (rule v2_message_roundtrip)
      (use fields that bounds address keyhex hex_nonce [OF assms(3)] digestToBytes32_regex in \<open>auto simp del: append_Cons\<close>)
  moreover have "td_message (ch_typed ch) = v2_members m" by (simp add: typed typed_data_defs)
  moreover have "\<exists>expected. expected_admission deps run role window cx = Inr expected
      \<and> verifyParticipantAdmissionV2 (im_sha im) (im_keccak im) verify m (VString signature) (expected now) = Inr (m, mv_participantSigningKeyDigest m)"
    if "mv_issuedAt m \<le> now" "now \<le> mv_expiresAt m" "signature_format signature"
      "verify (mv_participantWallet m) (ch_typed ch) signature = Inr True" for now verify signature
    using fields key that unfolding verifyV2_iff expected_admission_def typed by auto
  moreover have "mv_expiresAt m = mv_issuedAt m + 600" using fields by auto
  ultimately show ?thesis using ctx window role typed by metis
qed

subsection \<open>The lifecycle a participant sees\<close>

fun lifecycle_rank :: "ParticipantLifecycle \<Rightarrow> nat" where
  "lifecycle_rank CASE_CREATED_NEUTRAL = 0"
| "lifecycle_rank LIFECYCLE_MATCH_PREPARED = 1"
| "lifecycle_rank PARTICIPANT_A_ADMITTED = 2"
| "lifecycle_rank PARTICIPANT_B_ADMITTED = 3"
| "lifecycle_rank SUBMISSIONS_FINALIZED = 4"
| "lifecycle_rank LIFECYCLE_EVALUATED = 5"
| "lifecycle_rank LIFECYCLE_RELEASED = 6"
| "lifecycle_rank EXECUTION_ABORTED = 7"
| "lifecycle_rank ABANDONED = 8"

definition stage_rank :: "nat \<Rightarrow> bool \<Rightarrow> bool \<Rightarrow> nat" where
  "stage_rank i a b = (if i = 0 then 0 else if i = 1 then (if a then 2 else 1) else if i = 2 then (if b then 3 else 2)
     else if i = 3 then 3 else if i = 4 then 4 else if i = 5 then 5 else 6)"

lemma lifecycle_stage_rank:
  assumes "i < 10"
  shows "\<exists>l. participantLifecycle (known_stages ! i) progress False = Inr l
     \<and> lifecycle_rank l = stage_rank i (pg_participantA progress) (pg_participantB progress)"
proof -
  have "i \<in> {0, 1, 2, 3, 4, 5, 6, 7, 8, 9}" using assms by auto
  then show ?thesis
    by (elim insertE emptyE) (simp_all add: participantLifecycle_def known_stages_def stage_rank_def)
qed

text \<open>What a participant sees never goes backwards. While a case is neither aborted nor abandoned, a later
  stage of the engine over a ledger that has only grown is shown as the same or a later point of the
  lifecycle, and every stage is shown as one; and once both roles are admitted the case is never reported
  abandoned, whatever the clock says.\<close>

theorem lifecycle_never_regresses:
  assumes "i \<le> j" "j < 10"
    and "admissionProgress root run fs = Inr progress" "admissionProgress root run fs' = Inr progress'"
    and "slot root run fs \<subseteq>\<^sub>m slot root run fs'"
  shows "\<exists>l l'. participantLifecycle (known_stages ! i) progress False = Inr l
       \<and> participantLifecycle (known_stages ! j) progress' False = Inr l' \<and> lifecycle_rank l \<le> lifecycle_rank l'
     \<and> (pg_bothAdmitted progress \<longrightarrow> admissionAbandoned root run created now lifetime fs' = Inr False)"
proof -
  have A: "pg_participantA p \<longleftrightarrow> slot root run d PARTICIPANT_A \<noteq> None" and B: "pg_participantB p \<longleftrightarrow> slot root run d PARTICIPANT_B \<noteq> None"
    and AB: "pg_bothAdmitted p \<longleftrightarrow> pg_participantA p \<and> pg_participantB p"
    if "admissionProgress root run d = Inr p" for d p
    using that by (auto simp: admissionProgress_def readAdmissions_def readAdmission_Inr ebind_eq_Inr Let_def)
  have grown: "pg_participantA progress \<Longrightarrow> pg_participantA progress'" "pg_participantB progress \<Longrightarrow> pg_participantB progress'"
    using A [OF assms(3)] B [OF assms(3)] A [OF assms(4)] B [OF assms(4)] assms(5) by (auto simp: map_le_def dom_def)
  have "stage_rank i (pg_participantA progress) (pg_participantB progress) \<le> stage_rank j (pg_participantA progress') (pg_participantB progress')"
    using assms(1) grown by (auto simp: stage_rank_def)
  moreover have "admissionAbandoned root run created now lifetime fs' = Inr False" if "pg_bothAdmitted progress"
    using that grown AB [OF assms(3)] AB [OF assms(4)] assms(4) by (simp add: admissionAbandoned_def)
  ultimately show ?thesis
    using lifecycle_stage_rank [of i progress] lifecycle_stage_rank [OF assms(2), of progress'] assms(1,2) by auto
qed


subsection \<open>A created case can be found\<close>

definition case_code_file :: "string \<Rightarrow> string \<Rightarrow> string" where
  "case_code_file root code = root @ ''/case-codes/'' @ code @ ''.json''"

definition code_kept :: "string \<Rightarrow> string \<Rightarrow> 'e world \<Rightarrow> 'e world \<Rightarrow> bool" where
  "code_kept root code w w' \<longleftrightarrow> w_disk w' (case_code_file root code) = w_disk w (case_code_file root code)"

interpretation code_kept: kept_relation "code_kept root code"
  by unfold_locales (auto simp: code_kept_def)

text \<open>The engine and the caller's hook leave the file of this case code alone.\<close>

definition code_respected :: "('e, 'v) AdmissionDependencies \<Rightarrow> string \<Rightarrow> bool" where
  "code_respected deps code \<longleftrightarrow>
     (\<forall>w. code_kept (dp_runRoot deps) code w (fst (dp_now deps w)))
     \<and> (\<forall>x. keeps (code_kept (dp_runRoot deps) code) (or_createNeutralParticipantCase (dp_orchestrator deps) x))
     \<and> (\<forall>f x. or_createNeutralCoalitionParticipantCase (dp_orchestrator deps) = Some f \<longrightarrow> keeps (code_kept (dp_runRoot deps) code) (f x))
     \<and> (\<forall>f x y. dp_onParticipantCaseCreated deps = Some f \<longrightarrow> keeps (code_kept (dp_runRoot deps) code) (f x y))
     \<and> (\<forall>x. keeps (code_kept (dp_runRoot deps) code) (or_preparePrivateMatch (dp_orchestrator deps) x))
     \<and> (\<forall>x. keeps (code_kept (dp_runRoot deps) code) (or_readCustomSupervisedCase (dp_orchestrator deps) x))"

lemma keeps_code_read: "keeps (code_kept root code) (disk_read f)"
  by (simp add: disk_read_def code_kept.keeps_areads)

lemma finish_creation_keeps:
  assumes "code_respected deps code"
  shows "keeps (code_kept (dp_runRoot deps) code) (finish_creation deps caseCode runId)"
proof -
  have now: "keeps (code_kept (dp_runRoot deps) code) (now_action deps)" by (rule keeps_now) (use assms in \<open>simp add: code_respected_def\<close>)
  have hook: "keeps (code_kept (dp_runRoot deps) code) (case dp_onParticipantCaseCreated deps of None \<Rightarrow> alift (Inr ()) | Some f \<Rightarrow> f runId caseCode)"
    using assms by (auto simp: code_respected_def code_kept.keeps_alift split: option.split)
  have ops: "keeps (code_kept (dp_runRoot deps) code) (or_preparePrivateMatch (dp_orchestrator deps) runId)"
    "keeps (code_kept (dp_runRoot deps) code) (or_readCustomSupervisedCase (dp_orchestrator deps) runId)"
    using assms by (simp_all add: code_respected_def)
  show ?thesis unfolding finish_creation_def projectAdmission_def
    by (intro code_kept.keeps_intros hook ops now keeps_code_read)
qed

lemma finish_creation_result: "finish_creation deps code run w = (w', Inr out) \<Longrightarrow> cp_caseCode out = code \<and> cp_runId out = run"
  unfolding finish_creation_def abind_eq_Inr by auto

text \<open>The code of a created case leads back to it: when creation returns, the code it returns is valid and
  resolves to the run the engine created, provided no other case had drawn the same code before.\<close>

theorem created_case_resolves:
  assumes "createParticipantCase im deps bytes request w = (w', Inr out)" "length bytes = CASE_CODE_LENGTH"
    and "code_respected deps (generateCaseCode bytes)" "w_disk w (case_code_file (dp_runRoot deps) (generateCaseCode bytes)) = None"
  shows "cp_caseCode out = generateCaseCode bytes
     \<and> resolveCaseCode (dp_runRoot deps) (cp_caseCode out) (w_disk w') = Inr (Some (cp_runId out))"
proof -
  let ?code = "generateCaseCode bytes" and ?path = "case_code_file (dp_runRoot deps) (generateCaseCode bytes)"
  let ?create = "case (dp_coalitionRelease deps, or_createNeutralCoalitionParticipantCase (dp_orchestrator deps)) of
         (Some True, Some create) \<Rightarrow> create request
       | _ \<Rightarrow> or_createNeutralParticipantCase (dp_orchestrator deps) request"
  obtain w1 w2 run where create: "?create w = (w1, Inr run)"
    and bind: "disk_call (bindCaseCode (dp_runRoot deps) ?code run) w1 = (w2, Inr ())"
    and tail: "finish_creation deps ?code run w2 = (w', Inr out)"
    using assms(1) unfolding createParticipantCase_def Let_def abind_eq_Inr by (auto simp del: prod.case)
  have "keeps (code_kept (dp_runRoot deps) ?code) ?create"
    using assms(3) by (auto simp: code_respected_def split: option.split bool.split)
  from keptD [OF this create] assms(4) have free: "w_disk w1 ?path = None" by (simp add: code_kept_def)
  have path: "caseCodePath (dp_runRoot deps) ?code = Inr ?path"
    using generated_code_accepted [OF assms(2)] by (simp add: case_code_file_def)
  with bind free have "w_disk w2 ?path = Some (Whole (CaseCodeFile \<lparr>cc_schemaVersion = PARTICIPANT_CASE_CODE_SCHEMA, cc_caseCode = ?code, cc_runId = run\<rparr>))"
    by (auto simp: disk_call_def bindCaseCode_def writeCreateOnly_def Let_def)
  moreover have "w_disk w' ?path = w_disk w2 ?path"
    using keptD [OF finish_creation_keeps [OF assms(3)] tail] by (simp add: code_kept_def)
  ultimately show ?thesis
    using path finish_creation_result [OF tail] by (simp add: resolveCaseCode_def readJsonOrNull_def)
qed


subsection \<open>A concrete service\<close>

definition sample_code :: string where
  "sample_code = generateCaseCode (replicate 16 CHR ''a'')"

definition service_context :: ParticipantAdmissionContext where
  "service_context = \<lparr>px_runId = ''run'', px_stage = ''MATCH_PREPARED'', px_fheCaseId = sha256Digest zero_sha [] JNull,
     px_assetIdentityDigest = sha256Digest zero_sha [] JNull, px_protectionBindingDigest = sha256Digest zero_sha [] JNull,
     px_participantSigningKey = sample_signing_key\<rparr>"

definition service_orchestrator :: "(unit, unit) AdmissionOrchestrator" where
  "service_orchestrator = \<lparr>or_createNeutralParticipantCase = \<lambda>_. alift (Inr ''run''),
     or_createNeutralCoalitionParticipantCase = None,
     or_readCustomSupervisedCase = \<lambda>_. alift (Inr \<lparr>cv_stage = ''MATCH_PREPARED'', cv_rest = ()\<rparr>),
     or_readParticipantAdmissionContext = \<lambda>_ _. alift (Inr service_context),
     or_preparePrivateMatch = \<lambda>_. alift (Inr ()), or_admitParticipantClaim = \<lambda>_ _ _. alift (Inr ()),
     or_submitParticipantPledge = \<lambda>_ _. alift (Inr ())\<rparr>"

definition service_deps :: "(unit, unit) AdmissionDependencies" where
  "service_deps = \<lparr>dp_orchestrator = service_orchestrator, dp_runRoot = ''root'', dp_directParticipantAdmissionEnabled = Some True,
     dp_coalitionRelease = None, dp_verifyingService = ''mordant'', dp_chainId = Some 10143,
     dp_verifyApass = \<lambda>wallet. alift (Inr \<lparr>av_eligible = True, av_holderAddress = VString wallet, av_observedBlock = 7\<rparr>),
     dp_verifyTypedData = \<lambda>_ _ _ _ _. Inr True, dp_now = \<lambda>w. (w, 1700000300), dp_caseLifetimeSeconds = None,
     dp_onParticipantCaseCreated = None\<rparr>"

definition service_configuration :: CanonicalRecourseConfiguration where
  "service_configuration = \<lparr>cn_schemaVersion = ''mordant.recourse-v2-demo-config/1'', cn_adapterAddress = [], cn_adapterChainId = 10143,
     cn_codeHash = [], cn_runtimeBytes = 1, cn_settlementToken = [], cn_verifier = [], cn_attestor = [], cn_facility = [],
     cn_holderA = sample_wallet CHR ''1'', cn_holderB = sample_wallet CHR ''2'', cn_negativeControl = [], cn_uncontrolledApassWallet = [],
     cn_payoutA = 1, cn_payoutB = 1, cn_availableReserve = 2, cn_openReserved = 0, cn_entitledUnpaid = 0, cn_tokenBalance = 2,
     cn_cureWindowSeconds = 60\<rparr>"

lemma service_configuration_fields [simp]:
  "cn_adapterChainId service_configuration = 10143" "cn_holderA service_configuration = sample_wallet CHR ''1''"
  "cn_holderB service_configuration = sample_wallet CHR ''2''"
  by (simp_all add: service_configuration_def)

definition service_imports :: "unit AdmissionImports" where
  "service_imports = \<lparr>im_sha = zero_sha, im_keccak = zero_sha, im_hashTypedData = \<lambda>_. sample_bytes32,
     im_loadCanonicalRecourseConfiguration =
       \<lambda>_. Inr service_configuration\<rparr>"

definition service_world :: "unit world" where
  "service_world = \<lparr>w_disk = [case_code_file ''root'' sample_code \<mapsto> Whole (CaseCodeFile
     \<lparr>cc_schemaVersion = PARTICIPANT_CASE_CODE_SCHEMA, cc_caseCode = sample_code, cc_runId = ''run''\<rparr>)], w_env = ()\<rparr>"

definition service_claim :: jsval where
  "service_claim = VObject ObjectPrototype [(''activeFrom'', VNumber (NInt 1)), (''activeUntil'', VNumber (NInt 100))]"

definition service_request :: AdmissionRequest where
  "service_request = \<lparr>rq_caseCode = sample_code, rq_role = PARTICIPANT_A,
     rq_authorization = VObject ObjectPrototype (v2_members sample_v2_message), rq_signature = VString sample_signature_text,
     rq_claim = service_claim\<rparr>"

lemmas service_defs = service_context_def service_orchestrator_def service_deps_def service_imports_def service_request_def

lemma sample_code_path: "caseCodePath root sample_code = Inr (case_code_file root sample_code)"
  unfolding sample_code_def case_code_file_def by (rule generated_code_accepted) (simp add: CASE_CODE_LENGTH_def)

lemma service_deps_fields [simp]:
  "dp_runRoot service_deps = ''root''" "dp_orchestrator service_deps = service_orchestrator" "dp_chainId service_deps = Some 10143"
  "dp_verifyingService service_deps = ''mordant''" "case_lifetime service_deps = 1800"
  "dp_verifyApass service_deps wallet w = (w, Inr \<lparr>av_eligible = True, av_holderAddress = VString wallet, av_observedBlock = 7\<rparr>)"
  "dp_onParticipantCaseCreated service_deps = None" "dp_coalitionRelease service_deps = None"
  by (simp_all add: service_deps_def case_lifetime_def PARTICIPANT_CASE_LIFETIME_SECONDS_def)

lemma service_imports_fields [simp]:
  "im_sha service_imports = zero_sha" "im_keccak service_imports = zero_sha" "im_hashTypedData service_imports t = sample_bytes32"
  by (simp_all add: service_imports_def)

lemma service_quiet: "quiet_checks service_deps"
  by (simp add: quiet_checks_def service_defs)

lemma service_respects: "ledger_respected service_deps" "code_respected service_deps sample_code"
  by (simp_all add: ledger_respected_def code_respected_def service_deps_def service_orchestrator_def ledger_kept.keeps_alift
      ledger_kept.kept_refl code_kept.keeps_alift code_kept.kept_refl)

lemma service_canonical:
  "canonicalDirectAdmissionConfiguration service_imports service_deps w =
     Inr service_configuration"
  by (simp add: canonicalDirectAdmissionConfiguration_def service_deps_def service_imports_def MONAD_TESTNET_CHAIN_ID_def)

lemma service_resolves: "resolved_case service_deps sample_code service_world = (service_world, Inr ''run'')"
  by (simp add: resolved_case_def abind_def disk_read_def resolveCaseCode_def service_deps_def sample_code_path service_world_def
      readJsonOrNull_def require_def)

lemma service_now: "now_action service_deps w = (w, Inr 1700000300)"
  by (simp add: now_action_def service_deps_def)

lemma service_window: "assertSupervisedPledgeWindow service_claim = Inr \<lparr>pw_activeFrom = 1, pw_activeUntil = 100\<rparr>"
  by (simp add: assertSupervisedPledgeWindow_def service_claim_def exactWindow_Inr window_values_def plain_pair_def window_bounds_def
      MAX_SAFE_INTEGER_def)

lemma service_role_free: "readAdmission ''root'' ''run'' role (w_disk service_world) = Inr None"
proof -
  have "admissionRecordPath ''root'' ''run'' role \<noteq> case_code_file ''root'' code" for code
    by (simp add: admissionRecordPath_def admissionRoot_def case_code_file_def)
  then show ?thesis by (simp add: readAdmission_def readJsonOrNull_def service_world_def)
qed

lemma service_open: "not_abandoned service_deps ''run'' 1700000300 service_world = (service_world, Inr ())"
  by (simp add: not_abandoned_def abind_def service_now disk_read_def admissionAbandoned_def)

lemma service_message_parses: "assertParticipantAdmissionV2Message (VObject ObjectPrototype (v2_members sample_v2_message)) = Inr sample_v2_message"
  by (rule v2_message_roundtrip)
    (use sample_bytes32_ok sample_wallet_ok [of "CHR ''1''"] in \<open>simp_all add: sample_v2_message_def any_hex_def MAX_SAFE_INTEGER_def\<close>)

lemma service_digest: "digestToBytes32 (sha256Digest zero_sha d v) = Inr sample_bytes32"
  using digestToBytes32_ok [OF zero_sha_hex] by (simp add: sample_bytes32_def zero_sha_def)


definition service_verified :: VerifiedAdmission where
  "service_verified = \<lparr>vd_canonical = service_configuration,
     vd_runId = ''run'', vd_caseCreatedAt = 1700000300, vd_claim = \<lparr>pw_activeFrom = 1, pw_activeUntil = 100\<rparr>,
     vd_message = sample_v2_message, vd_signingKeyDigest = sample_bytes32, vd_authorizationDigest = sample_bytes32,
     vd_signature = VString sample_signature_text, vd_claimCommitment = sample_bytes32, vd_observedBlock = 7\<rparr>"

lemma service_expected: "expected_admission service_deps ''run'' PARTICIPANT_A \<lparr>pw_activeFrom = 1, pw_activeUntil = 100\<rparr> service_context
    = Inr (\<lambda>now. sample_expected\<lparr>ev_now := now\<rparr>)"
  by (simp add: expected_admission_def service_context_def service_digest sample_expected_def)

lemma service_sample_fields [simp]:
  "mv_participantWallet sample_v2_message = sample_wallet CHR ''1''" "mv_role sample_v2_message = PARTICIPANT_A"
  "px_stage service_context = ''MATCH_PREPARED''" "px_participantSigningKey service_context = sample_signing_key"
  "rq_role service_request = PARTICIPANT_A" "rq_caseCode service_request = sample_code" "rq_claim service_request = service_claim"
  "rq_signature service_request = VString sample_signature_text"
  "rq_authorization service_request = VObject ObjectPrototype (v2_members sample_v2_message)"
  "or_readParticipantAdmissionContext service_orchestrator run role w = (w, Inr service_context)"
  by (simp_all add: sample_v2_message_def service_context_def service_request_def service_orchestrator_def)

lemma service_authorizes: "authorize_admission service_imports service_deps service_request (Some 1700000300) service_world = (service_world, Inr service_verified)"
proof -
  have now: "sample_expected\<lparr>ev_now := 1700000300\<rparr> = sample_expected" by (simp add: sample_expected_def)
  have verifier: "service_verifier service_imports service_deps service_world = (\<lambda>_ _ _. Inr True)"
    by (auto simp: service_verifier_def service_deps_def fun_eq_iff)
  have commitment: "participantClaimCommitment zero_sha ''run'' PARTICIPANT_A claim = Inr sample_bytes32" for claim
    by (simp add: participantClaimCommitment_def service_digest)
  show ?thesis
    by (simp add: authorize_admission_def abind_def service_canonical service_resolves created_or_now_def service_open service_window
        disk_read_def service_role_free service_message_parses service_expected service_now now verifier sample_v2_verified commitment
        assertCanonicalParticipantWallet_def service_verified_def)
qed


definition service_ledger :: admission_disk where
  "service_ledger = (w_disk service_world)(admissionRecordPath ''root'' ''run'' PARTICIPANT_A
     \<mapsto> Whole (AdmissionFile (admission_record (admission_candidate service_verified PARTICIPANT_A 1700000300))))"

lemma service_files: "admissionRecordPath ''root'' ''run'' role \<noteq> case_code_file ''root'' code"
    "admissionLockPath ''root'' ''run'' \<noteq> case_code_file ''root'' code"
  by (simp_all add: admissionRecordPath_def admissionLockPath_def admissionRoot_def case_code_file_def)

lemma service_record_valid: "assertAdmissionRecord (admission_record (admission_candidate service_verified PARTICIPANT_A 1700000300)) ''run'' PARTICIPANT_A = Inr ()"
  using sample_bytes32_ok sample_wallet_ok [of "CHR ''1''"]
  by (simp add: assertAdmissionRecord_def check_eq_Inr admission_candidate_def service_verified_def sample_v2_message_def admission_record_def
      AdmissionCandidate.extend_def isSafeInteger_def MAX_SAFE_INTEGER_def any_hex_def)

lemma service_admits:
  "admitParticipantRole ''root'' (admission_candidate service_verified PARTICIPANT_A 1700000300) (w_disk service_world)
     = (service_ledger, Inr \<lparr>ao_record = admission_record (admission_candidate service_verified PARTICIPANT_A 1700000300), ao_admitted = True\<rparr>)"
proof -
  have fields: "ar_runId (admission_candidate service_verified PARTICIPANT_A 1700000300) = ''run''"
    "ar_role (admission_candidate service_verified PARTICIPANT_A 1700000300) = PARTICIPANT_A"
    by (simp_all add: admission_candidate_def service_verified_def)
  have free: "w_disk service_world (admissionRecordPath ''root'' ''run'' role) = None" "w_disk service_world (admissionLockPath ''root'' ''run'') = None" for role
    using service_files by (simp_all add: service_world_def)
  have sound: "\<forall>role. sound_file ''root'' (ar_runId (admission_candidate service_verified PARTICIPANT_A 1700000300)) (w_disk service_world) role"
    by (simp add: sound_file_def fields free)
  show ?thesis
    unfolding admit_iff [OF sound] fields
    using service_record_valid free fields by (simp add: admission_guard_ok valid_record_def slot_def service_ledger_def)
qed

lemma service_progress: "admissionProgress ''root'' ''run'' service_ledger = Inr \<lparr>pg_participantA = True, pg_participantB = False,
    pg_bothAdmitted = False, pg_walletA = Some (sample_wallet CHR ''1''), pg_walletB = None\<rparr>"
proof -
  have "readAdmission ''root'' ''run'' PARTICIPANT_A service_ledger
      = Inr (Some (admission_record (admission_candidate service_verified PARTICIPANT_A 1700000300)))"
    using service_record_valid by (simp add: readAdmission_def readJsonOrNull_def service_ledger_def)
  moreover have "readAdmission ''root'' ''run'' PARTICIPANT_B service_ledger = Inr None"
    using service_role_free [of PARTICIPANT_B] by (simp add: readAdmission_def readJsonOrNull_def service_ledger_def)
  ultimately show ?thesis
    by (simp add: admissionProgress_def readAdmissions_def admission_candidate_def service_verified_def)
qed

lemma service_commits: "\<exists>out. commit_admission service_deps service_request service_verified service_world = (\<lparr>w_disk = service_ledger, w_env = ()\<rparr>, Inr out)"
proof -
  have stage: "participantLifecycle ''MATCH_PREPARED'' p False = Inr (if pg_participantA p then PARTICIPANT_A_ADMITTED else LIFECYCLE_MATCH_PREPARED)" for p
    by (simp add: participantLifecycle_def known_stages_def)
  have run: "vd_runId service_verified = ''run''" "vd_caseCreatedAt service_verified = 1700000300" by (simp_all add: service_verified_def)
  have engine: "or_admitParticipantClaim service_orchestrator r x y w = (w, Inr ())" "or_submitParticipantPledge service_orchestrator r x w = (w, Inr ())"
    "or_readCustomSupervisedCase service_orchestrator r w = (w, Inr \<lparr>cv_stage = ''MATCH_PREPARED'', cv_rest = ()\<rparr>)" for r x y w
    by (simp_all add: service_orchestrator_def)
  show ?thesis
    by (simp add: commit_admission_def abind_def service_now disk_call_def service_admits run engine projectAdmission_def disk_read_def
        service_progress admissionAbandoned_def stage world.defs)
qed

lemma service_succeeds: "\<exists>w out. admitParticipant service_imports service_deps service_request (Some 1700000300) service_world = (w, Inr out)
    \<and> w_disk w = service_ledger"
proof -
  obtain out where "commit_admission service_deps service_request service_verified service_world = (\<lparr>w_disk = service_ledger, w_env = ()\<rparr>, Inr out)"
    using service_commits by blast
  then show ?thesis by (simp add: admitParticipant_def abind_def service_authorizes)
qed


theorem admission_success_is_recorded_witness:
  "\<exists>run r. readAdmission ''root'' run PARTICIPANT_A service_ledger = Inr (Some r)"
proof -
  obtain w out where r: "admitParticipant service_imports service_deps service_request (Some 1700000300) service_world = (w, Inr out)" "w_disk w = service_ledger"
    using service_succeeds by blast
  from admission_success_is_recorded [OF service_respects(1) r(1)] r(2) show ?thesis by auto
qed

lemma service_challenge:
  "\<exists>ch. participantAdmissionChallenge service_imports service_deps (replicate 32 CHR ''a'') sample_code (VString ''PARTICIPANT_A'')
     (VString (sample_wallet CHR ''1'')) service_claim (Some 1700000300) service_world = (service_world, Inr ch)"
proof -
  have role: "isParticipantRole (VString ''PARTICIPANT_A'') = Some PARTICIPANT_A" by (simp add: isParticipantRole_def)
  have message: "\<exists>m. challenge_message service run role wallet window service_context key bytes issued = Inr m" for service run role wallet window key bytes issued
    by (simp add: challenge_message_def service_context_def service_digest)
  then obtain m where "challenge_message ''mordant'' ''run'' PARTICIPANT_A (sample_wallet CHR ''1'') \<lparr>pw_activeFrom = 1, pw_activeUntil = 100\<rparr>
      service_context sample_bytes32 (replicate 32 CHR ''a'') 1700000300 = Inr m" by blast
  then show ?thesis
    by (simp add: participantAdmissionChallenge_def abind_def service_canonical role require_def assertCanonicalParticipantWallet_def
        service_resolves created_or_now_def service_open disk_read_def service_role_free service_window service_now sample_signing_key_digest)
qed

theorem challenge_is_admissible_witness:
  "\<exists>ch m. participantAdmissionChallenge service_imports service_deps (replicate 32 CHR ''a'') sample_code (VString ''PARTICIPANT_A'')
       (VString (sample_wallet CHR ''1'')) service_claim (Some 1700000300) service_world = (service_world, Inr ch)
     \<and> ch_typed ch = participantAdmissionV2TypedData (im_keccak service_imports) m (dp_chainId service_deps)
     \<and> mv_expiresAt m = mv_issuedAt m + 600"
proof -
  obtain ch where ch: "participantAdmissionChallenge service_imports service_deps (replicate 32 CHR ''a'') sample_code (VString ''PARTICIPANT_A'')
     (VString (sample_wallet CHR ''1'')) service_claim (Some 1700000300) service_world = (service_world, Inr ch)"
    using service_challenge by blast
  have sha: "hex_digest (im_sha service_imports)" by (simp add: zero_sha_hex)
  have bytes: "length (replicate 32 CHR ''a'') = 32" by simp
  have addresses: "fixed_regex ADDRESS_ANY (cn_holderA canonical) \<and> fixed_regex ADDRESS_ANY (cn_holderB canonical)"
    if "im_loadCanonicalRecourseConfiguration service_imports service_world = Inr canonical" for canonical
    using that sample_wallet_ok [of "CHR ''1''"] sample_wallet_ok [of "CHR ''2''"] by (auto simp: service_imports_def any_hex_def)
  from challenge_is_admissible [OF ch sha bytes addresses] ch show ?thesis by blast
qed

theorem lifecycle_never_regresses_witness:
  "\<exists>l l'. participantLifecycle (known_stages ! 1) \<lparr>pg_participantA = False, pg_participantB = False, pg_bothAdmitted = False,
        pg_walletA = None, pg_walletB = None\<rparr> False = Inr l
     \<and> participantLifecycle (known_stages ! 2) \<lparr>pg_participantA = True, pg_participantB = False, pg_bothAdmitted = False,
        pg_walletA = Some (sample_wallet CHR ''1''), pg_walletB = None\<rparr> False = Inr l'
     \<and> lifecycle_rank l \<le> lifecycle_rank l'"
proof -
  have before: "admissionProgress ''root'' ''run'' Map.empty = Inr \<lparr>pg_participantA = False, pg_participantB = False, pg_bothAdmitted = False,
        pg_walletA = None, pg_walletB = None\<rparr>"
    by (simp add: admissionProgress_def readAdmissions_def)
  have grown: "slot ''root'' ''run'' Map.empty \<subseteq>\<^sub>m slot ''root'' ''run'' service_ledger" by (simp add: map_le_def slot_def dom_def)
  from lifecycle_never_regresses [of 1 2, OF _ _ before service_progress grown] show ?thesis by auto
qed

theorem created_case_resolves_witness:
  "\<exists>w out. createParticipantCase service_imports service_deps (replicate 16 CHR ''a'') ''request'' \<lparr>w_disk = Map.empty, w_env = ()\<rparr> = (w, Inr out)
     \<and> resolveCaseCode ''root'' (cp_caseCode out) (w_disk w) = Inr (Some (cp_runId out))"
proof -
  have bind: "bindCaseCode ''root'' sample_code ''run'' Map.empty = (w_disk service_world, Inr ())"
    by (simp add: bindCaseCode_def sample_code_path writeCreateOnly_def Let_def service_world_def)
  have progress: "admissionProgress ''root'' ''run'' (w_disk service_world) = Inr \<lparr>pg_participantA = False, pg_participantB = False,
      pg_bothAdmitted = False, pg_walletA = None, pg_walletB = None\<rparr>"
    by (simp add: admissionProgress_def readAdmissions_def service_role_free)
  have stage: "participantLifecycle ''MATCH_PREPARED'' p False = Inr (if pg_participantA p then PARTICIPANT_A_ADMITTED else LIFECYCLE_MATCH_PREPARED)" for p
    by (simp add: participantLifecycle_def known_stages_def)
  have engine: "or_createNeutralParticipantCase service_orchestrator r w = (w, Inr ''run'')" "or_preparePrivateMatch service_orchestrator r w = (w, Inr ())"
    "or_readCustomSupervisedCase service_orchestrator r w = (w, Inr \<lparr>cv_stage = ''MATCH_PREPARED'', cv_rest = ()\<rparr>)" for r w
    by (simp_all add: service_orchestrator_def)
  have code: "generateCaseCode (replicate 16 CHR ''a'') = sample_code" by (simp only: sample_code_def)
  obtain w out where created: "createParticipantCase service_imports service_deps (replicate 16 CHR ''a'') ''request''
      \<lparr>w_disk = Map.empty, w_env = ()\<rparr> = (w, Inr out)"
    unfolding createParticipantCase_def code Let_def
    by (simp add: abind_def service_canonical engine disk_call_def bind finish_creation_def service_now projectAdmission_def disk_read_def
        progress admissionAbandoned_def stage)
  have respected: "code_respected service_deps (generateCaseCode (replicate 16 CHR ''a''))" unfolding code by (rule service_respects)
  have bytes: "length (replicate 16 CHR ''a'') = CASE_CODE_LENGTH" by (simp only: length_replicate CASE_CODE_LENGTH_def)
  have free: "w_disk \<lparr>w_disk = Map.empty :: admission_disk, w_env = ()\<rparr> (case_code_file (dp_runRoot service_deps) (generateCaseCode (replicate 16 CHR ''a''))) = None"
    by simp
  from created_case_resolves [OF created bytes respected free] created show ?thesis unfolding service_deps_fields by blast
qed

end
