(* ===== verification/Coalition_Evidence.thy ===== *)
theory Coalition_Evidence
  imports Governed_Result Settlement_Authority
begin

text \<open>
  The settlement authority's view of a coalition release (\<^verbatim>\<open>coalition-evidence.ts\<close>): a result is accepted
  when the threshold manifest it names is the published one, a quorum of the published operators served,
  each of them attested both released bits, and each of them signed the settlement statement rebuilt from
  the result. Ed25519 verification on raw keys, messages and signatures is the parameter \<open>ed25519\<close>.
\<close>

subsection \<open>Data\<close>

abbreviation coalition_error :: "string \<Rightarrow> merror" where
  "coalition_error \<equiv> CoalitionEvidenceError"

definition COALITION_RESULT_SCHEMA :: string where
  "COALITION_RESULT_SCHEMA = ''mordant.coalition-conflict-result/1''"

definition COALITION_MANIFEST_SCHEMA :: string where
  "COALITION_MANIFEST_SCHEMA = ''mordant.fhe-coalition-threshold-manifest/1''"

definition MINIMUM_QUORUM :: int where
  "MINIMUM_QUORUM = 2"

definition BYTES32_HEX :: "(char \<Rightarrow> bool) list" where
  "BYTES32_HEX = lit ''0x'' @ replicate 64 lower_hex"

definition SIGNATURE_HEX :: "(char \<Rightarrow> bool) list" where
  "SIGNATURE_HEX = lit ''0x'' @ replicate 128 lower_hex"

record ThresholdOperatorRecord =
  to_operatorId :: string
  to_point :: int
  to_signingPublicKey :: string

record CoalitionThresholdManifest =
  tm_schemaVersion :: string
  tm_caseId :: string
  tm_keyId :: string
  tm_parameterFingerprint :: string
  tm_threshold :: int
  tm_operators :: "ThresholdOperatorRecord list"
  tm_operatorTopology :: string

record CoalitionSettlementAttestation =
  sa_point :: int
  sa_signature :: string

record CoalitionOperatorStatement =
  os_point :: int
  os_slot :: int
  os_statementDigest :: string
  os_signature :: string

text \<open>The members the module and its callers read; the index signature of the source adds no others.\<close>

record CoalitionConflictResult =
  cr_schemaVersion :: string
  cr_caseId :: string
  cr_caseBindingDigest :: string
  cr_assetIdentity :: string
  cr_sameEconomicAsset :: bool
  cr_policyConflict :: bool
  cr_releaseMode :: string
  cr_releaseAuthorityId :: string
  cr_threshold :: int
  cr_coalition :: "int list"
  cr_operatorTopology :: string
  cr_operatorStatements :: "CoalitionOperatorStatement list"
  cr_releaseTranscript :: string
  cr_settlementAttestations :: "CoalitionSettlementAttestation list option"
  cr_policyId :: string
  cr_serviceId :: string
  cr_evaluatedArtifactDigest :: string

definition SETTLEMENT_STATEMENT_SCHEMA :: string where
  "SETTLEMENT_STATEMENT_SCHEMA = ''mordant.coalition-settlement-statement/1''"

definition SETTLEMENT_STATEMENT_DOMAIN :: string where
  "SETTLEMENT_STATEMENT_DOMAIN = ''MordantCoalitionSettlementStatement/v1''"

definition settlement_statement :: "CoalitionConflictResult \<Rightarrow> int \<Rightarrow> json" where
  "settlement_statement r point = JObj [
     (''schemaVersion'', JStr SETTLEMENT_STATEMENT_SCHEMA),
     (''caseId'', JStr (cr_caseId r)),
     (''caseBindingDigest'', JStr (cr_caseBindingDigest r)),
     (''assetIdentity'', JStr (cr_assetIdentity r)),
     (''releaseAuthorityId'', JStr (cr_releaseAuthorityId r)),
     (''releaseMode'', JStr (cr_releaseMode r)),
     (''releaseTranscript'', JStr (cr_releaseTranscript r)),
     (''coalition'', JArr (map JNum (cr_coalition r))),
     (''threshold'', JNum (cr_threshold r)),
     (''sameEconomicAsset'', JBool (cr_sameEconomicAsset r)),
     (''policyConflict'', JBool (cr_policyConflict r)),
     (''point'', JNum point)]"

definition settlementStatementMessage :: "CoalitionConflictResult \<Rightarrow> int \<Rightarrow> string" where
  "settlementStatementMessage r point = SETTLEMENT_STATEMENT_DOMAIN @ [CHR 0x00] @ stringify (settlement_statement r point)"

record VerifiedCoalitionEvidence =
  ve_facts :: GovernedResultFacts
  ve_coalitionAuthorityId :: string
  ve_servingQuorum :: int
  ve_operatorTopology :: string
  ve_sameEconomicAsset :: bool
  ve_policyConflict :: bool

subsection \<open>The manifest\<close>

definition operator_json :: "ThresholdOperatorRecord \<Rightarrow> json" where
  "operator_json p = JObj [(''operatorId'', JStr (to_operatorId p)), (''point'', JNum (to_point p)),
     (''signingPublicKey'', JStr (to_signingPublicKey p))]"

definition manifest_json :: "CoalitionThresholdManifest \<Rightarrow> json" where
  "manifest_json m = JObj [
     (''schemaVersion'', JStr (tm_schemaVersion m)),
     (''caseId'', JStr (tm_caseId m)),
     (''keyId'', JStr (tm_keyId m)),
     (''parameterFingerprint'', JStr (tm_parameterFingerprint m)),
     (''threshold'', JNum (tm_threshold m)),
     (''operators'', JArr (map operator_json (tm_operators m))),
     (''operatorTopology'', JStr (tm_operatorTopology m))]"

definition thresholdManifestDigest :: "(string \<Rightarrow> string) \<Rightarrow> CoalitionThresholdManifest \<Rightarrow> string" where
  "thresholdManifestDigest sha m = ''sha256:'' @ sha (stringify (manifest_json m))"

definition ed25519PublicKey :: "string \<Rightarrow> string result" where
  "ed25519PublicKey base64 = (case canonical_base64 32 base64 of
     None \<Rightarrow> Inl (coalition_error ''OPERATOR_KEY'') | Some raw \<Rightarrow> Inr raw)"

fun assert_operators :: "int list \<Rightarrow> ThresholdOperatorRecord list \<Rightarrow> unit result" where
  "assert_operators points [] = Inr ()"
| "assert_operators points (p # ps) =
     ebind (check (to_point p > 0) (coalition_error ''MANIFEST_OPERATORS'')) (\<lambda>_.
     ebind (check (to_point p \<notin> set points) (coalition_error ''MANIFEST_OPERATORS'')) (\<lambda>_.
     ebind (ed25519PublicKey (to_signingPublicKey p)) (\<lambda>_. assert_operators (to_point p # points) ps)))"

definition assertManifest :: "CoalitionThresholdManifest \<Rightarrow> unit result" where
  "assertManifest m =
     ebind (check (tm_schemaVersion m = COALITION_MANIFEST_SCHEMA) (coalition_error ''MANIFEST_SCHEMA'')) (\<lambda>_.
     ebind (check (fixed_regex SHA256_LOWER (tm_caseId m) \<and> fixed_regex SHA256_LOWER (tm_keyId m))
       (coalition_error ''MANIFEST_FIELDS'')) (\<lambda>_.
     ebind (check (\<not> tm_threshold m < MINIMUM_QUORUM) (coalition_error ''MANIFEST_THRESHOLD'')) (\<lambda>_.
     ebind (check (\<not> int (length (tm_operators m)) < tm_threshold m) (coalition_error ''MANIFEST_OPERATORS'')) (\<lambda>_.
     assert_operators [] (tm_operators m)))))"

subsection \<open>Verification\<close>

text \<open>A \<open>Map\<close> built from a list keeps the last entry of a key.\<close>

definition keyByPoint :: "CoalitionThresholdManifest \<Rightarrow> int \<rightharpoonup> string" where
  "keyByPoint m = map_of (rev (map (\<lambda>p. (to_point p, to_signingPublicKey p)) (tm_operators m)))"

fun serving_set :: "(int \<rightharpoonup> string) \<Rightarrow> int list \<Rightarrow> int list \<Rightarrow> int list result" where
  "serving_set keys serving [] = Inr serving"
| "serving_set keys serving (p # ps) =
     ebind (check (keys p \<noteq> None) (coalition_error ''QUORUM_MEMBERSHIP'')) (\<lambda>_.
     ebind (check (p \<notin> set serving) (coalition_error ''QUORUM_MEMBERSHIP'')) (\<lambda>_.
     serving_set keys (serving @ [p]) ps))"

text \<open>\<open>Buffer.from(text, "hex")\<close> on an even number of hexadecimal digits.\<close>

fun from_hex :: "string \<Rightarrow> string" where
  "from_hex (a # b # s) = char_of (hex_value a * 16 + hex_value b) # from_hex s"
| "from_hex s = []"

text \<open>The released bits attested so far are pairs of a point and a slot.\<close>

fun attest_statements ::
  "(string \<Rightarrow> string \<Rightarrow> string \<Rightarrow> bool) \<Rightarrow> (int \<rightharpoonup> string) \<Rightarrow> int list \<Rightarrow> (int \<times> int) list \<Rightarrow> CoalitionOperatorStatement list
     \<Rightarrow> (int \<times> int) list result" where
  "attest_statements ed25519 keys serving attested [] = Inr attested"
| "attest_statements ed25519 keys serving attested (s # ss) =
     ebind (check (fixed_regex BYTES32_HEX (os_statementDigest s) \<and> fixed_regex SIGNATURE_HEX (os_signature s))
       (coalition_error ''STATEMENT_ENCODING'')) (\<lambda>_.
     ebind (check (os_point s \<in> set serving) (coalition_error ''STATEMENT_ATTRIBUTION'')) (\<lambda>_.
     case keys (os_point s) of
       None \<Rightarrow> Inl (coalition_error ''STATEMENT_ATTRIBUTION'')
     | Some publicKey \<Rightarrow>
         ebind (ed25519PublicKey publicKey) (\<lambda>key.
         ebind (check (ed25519 key (from_hex (drop 2 (os_statementDigest s))) (from_hex (drop 2 (os_signature s))))
           (coalition_error ''STATEMENT_SIGNATURE'')) (\<lambda>_.
         ebind (check ((os_point s, os_slot s) \<notin> set attested) (coalition_error ''STATEMENT_REPLAY'')) (\<lambda>_.
         attest_statements ed25519 keys serving ((os_point s, os_slot s) # attested) ss)))))"

fun statement_coverage :: "(int \<times> int) list \<Rightarrow> int list \<Rightarrow> unit result" where
  "statement_coverage attested [] = Inr ()"
| "statement_coverage attested (p # ps) =
     ebind (check ((p, 0) \<in> set attested \<and> (p, 1) \<in> set attested) (coalition_error ''STATEMENT_COVERAGE'')) (\<lambda>_.
     statement_coverage attested ps)"

fun confirm_release ::
  "(string \<Rightarrow> string \<Rightarrow> string \<Rightarrow> bool) \<Rightarrow> (int \<rightharpoonup> string) \<Rightarrow> CoalitionConflictResult \<Rightarrow> int list \<Rightarrow> int list
     \<Rightarrow> CoalitionSettlementAttestation list \<Rightarrow> int list result" where
  "confirm_release ed25519 keys r serving confirmed [] = Inr confirmed"
| "confirm_release ed25519 keys r serving confirmed (a # as) =
     ebind (check (sa_point a \<in> set serving) (coalition_error ''SETTLEMENT_ATTRIBUTION'')) (\<lambda>_.
     ebind (check (sa_point a \<notin> set confirmed) (coalition_error ''SETTLEMENT_REPLAY'')) (\<lambda>_.
     case keys (sa_point a) of
       None \<Rightarrow> Inl (coalition_error ''SETTLEMENT_ATTRIBUTION'')
     | Some publicKey \<Rightarrow>
         (case canonical_base64 64 (sa_signature a) of
            None \<Rightarrow> Inl (coalition_error ''SETTLEMENT_ENCODING'')
          | Some signature \<Rightarrow>
              ebind (ed25519PublicKey publicKey) (\<lambda>key.
              ebind (check (ed25519 key (settlementStatementMessage r (sa_point a)) signature)
                (coalition_error ''SETTLEMENT_SIGNATURE'')) (\<lambda>_.
              confirm_release ed25519 keys r serving (sa_point a # confirmed) as)))))"

definition verifyCoalitionEvidence ::
  "(string \<Rightarrow> string) \<Rightarrow> (string \<Rightarrow> string \<Rightarrow> string \<Rightarrow> bool) \<Rightarrow> CoalitionConflictResult \<Rightarrow> CoalitionThresholdManifest
     \<Rightarrow> string \<Rightarrow> string \<Rightarrow> VerifiedCoalitionEvidence result" where
  "verifyCoalitionEvidence sha ed25519 r m resultDigest runId =
     ebind (check (cr_schemaVersion r = COALITION_RESULT_SCHEMA) (coalition_error ''RESULT_SCHEMA'')) (\<lambda>_.
     ebind (assertManifest m) (\<lambda>_.
     let authority = thresholdManifestDigest sha m; keys = keyByPoint m in
     ebind (check (authority = cr_releaseAuthorityId r) (coalition_error ''AUTHORITY_NOT_DERIVED'')) (\<lambda>_.
     ebind (check (tm_caseId m = cr_caseId r) (coalition_error ''MANIFEST_CASE'')) (\<lambda>_.
     ebind (check (cr_threshold r = tm_threshold m) (coalition_error ''QUORUM_MISMATCH'')) (\<lambda>_.
     ebind (check (int (length (cr_coalition r)) = cr_threshold r) (coalition_error ''QUORUM_SIZE'')) (\<lambda>_.
     ebind (serving_set keys [] (cr_coalition r)) (\<lambda>serving.
     ebind (attest_statements ed25519 keys serving [] (cr_operatorStatements r)) (\<lambda>attested.
     ebind (statement_coverage attested serving) (\<lambda>_.
     ebind (confirm_release ed25519 keys r serving []
       (case cr_settlementAttestations r of None \<Rightarrow> [] | Some as \<Rightarrow> as)) (\<lambda>confirmed.
     ebind (check (\<not> int (length confirmed) < cr_threshold r) (coalition_error ''SETTLEMENT_QUORUM'')) (\<lambda>_.
     ebind (check (\<not> (cr_policyConflict r \<and> \<not> cr_sameEconomicAsset r)) (coalition_error ''NON_CANONICAL_DECISION'')) (\<lambda>_.
     Inr \<lparr>ve_facts = \<lparr>gf_governedResultDigest = resultDigest, gf_runId = runId, gf_releaseAuthorityId = authority,
            gf_conflict = cr_policyConflict r, gf_caseId = cr_caseId r, gf_caseBindingDigest = cr_caseBindingDigest r\<rparr>,
          ve_coalitionAuthorityId = authority, ve_servingQuorum = cr_threshold r,
          ve_operatorTopology = cr_operatorTopology r, ve_sameEconomicAsset = cr_sameEconomicAsset r,
          ve_policyConflict = cr_policyConflict r\<rparr>))))))))))))"

subsection \<open>What an accepted manifest publishes\<close>

text \<open>An operator of the manifest whose published key verifies the signature of a message.\<close>

definition operator_signed ::
  "(string \<Rightarrow> string \<Rightarrow> string \<Rightarrow> bool) \<Rightarrow> CoalitionThresholdManifest \<Rightarrow> int \<Rightarrow> string \<Rightarrow> string \<Rightarrow> bool" where
  "operator_signed ed25519 m p message signature \<longleftrightarrow>
     (\<exists>operator \<in> set (tm_operators m). \<exists>key. to_point operator = p \<and> to_signingPublicKey operator = base64_encode key
        \<and> length key = 32 \<and> ed25519 key message signature)"

lemma ed25519PublicKey_ok [result_simps]: "ed25519PublicKey s = Inr raw \<longleftrightarrow> s = base64_encode raw \<and> length raw = 32"
  unfolding canonical_base64_iff [symmetric] by (simp add: ed25519PublicKey_def split: option.splits)

lemma keyByPoint_published: "keyByPoint m p = Some k \<Longrightarrow> \<exists>operator \<in> set (tm_operators m). to_point operator = p \<and> to_signingPublicKey operator = k"
  by (auto simp: keyByPoint_def dest!: map_of_SomeD)

lemma keyByPoint_signed:
  assumes "keyByPoint m p = Some k" and "ed25519PublicKey k = Inr key" and "ed25519 key message signature"
  shows "operator_signed ed25519 m p message signature"
  using keyByPoint_published [OF assms(1)] assms(2,3) unfolding operator_signed_def ed25519PublicKey_ok by metis

lemma assert_operators_ok:
  "assert_operators points ps = Inr () \<longleftrightarrow>
     distinct (map to_point ps) \<and> set (map to_point ps) \<inter> set points = {}
     \<and> (\<forall>p \<in> set ps. to_point p > 0 \<and> is_ok (ed25519PublicKey (to_signingPublicKey p)))"
  by (induction ps arbitrary: points) (auto simp: result_simps is_ok_def split: sum.splits)

lemma assertManifest_ok:
  assumes "assertManifest m = Inr ()"
  shows "2 \<le> tm_threshold m" and "tm_threshold m \<le> int (length (tm_operators m))" and "distinct (map to_point (tm_operators m))"
  using assms by (auto simp: assertManifest_def MINIMUM_QUORUM_def assert_operators_ok result_simps)

subsection \<open>The loops\<close>

lemma serving_set_ok:
  "serving_set keys serving ps = Inr out \<longleftrightarrow>
     out = serving @ ps \<and> distinct ps \<and> set ps \<inter> set serving = {} \<and> (\<forall>p \<in> set ps. keys p \<noteq> None)"
  by (induction ps arbitrary: serving) (auto simp: result_simps)

lemma attest_statements_ok:
  assumes "attest_statements ed25519 (keyByPoint m) serving attested ss = Inr out"
  shows "set out = set attested \<union> (\<lambda>s. (os_point s, os_slot s)) ` set ss
    \<and> (\<forall>s \<in> set ss. os_point s \<in> set serving \<and> operator_signed ed25519 m (os_point s)
         (from_hex (drop 2 (os_statementDigest s))) (from_hex (drop 2 (os_signature s))))"
  using assms
proof (induction ss arbitrary: attested)
  case (Cons s ss)
  then obtain k key where k: "keyByPoint m (os_point s) = Some k" "ed25519PublicKey k = Inr key"
      "ed25519 key (from_hex (drop 2 (os_statementDigest s))) (from_hex (drop 2 (os_signature s)))"
    and here: "os_point s \<in> set serving"
    and rest: "attest_statements ed25519 (keyByPoint m) serving ((os_point s, os_slot s) # attested) ss = Inr out"
    by (auto simp: ebind_eq_Inr check_eq_Inr split: option.splits)
  show ?case using Cons.IH [OF rest] here keyByPoint_signed [OF k(1,2), of ed25519, OF k(3)] by auto
qed simp

lemma statement_coverage_ok:
  "statement_coverage attested ps = Inr () \<longleftrightarrow> (\<forall>p \<in> set ps. (p, 0) \<in> set attested \<and> (p, 1) \<in> set attested)"
  by (induction ps) (auto simp: result_simps)

lemma confirm_release_ok:
  assumes "confirm_release ed25519 (keyByPoint m) r serving confirmed as = Inr out" and "distinct confirmed"
  shows "distinct out \<and> set confirmed \<subseteq> set out \<and> set out \<subseteq> set confirmed \<union> set serving
    \<and> (\<forall>p \<in> set out - set confirmed. \<exists>signature. operator_signed ed25519 m p (settlementStatementMessage r p) signature)"
  using assms
proof (induction as arbitrary: confirmed)
  case (Cons a as)
  then obtain k key signature where k: "keyByPoint m (sa_point a) = Some k" "ed25519PublicKey k = Inr key"
      "ed25519 key (settlementStatementMessage r (sa_point a)) signature"
    and here: "sa_point a \<in> set serving" "sa_point a \<notin> set confirmed"
    and rest: "confirm_release ed25519 (keyByPoint m) r serving (sa_point a # confirmed) as = Inr out"
    by (auto simp: ebind_eq_Inr check_eq_Inr split: option.splits)
  have "distinct (sa_point a # confirmed)" using here Cons.prems(2) by simp
  note IH = Cons.IH [OF rest this]
  have here_signed: "operator_signed ed25519 m (sa_point a) (settlementStatementMessage r (sa_point a)) signature"
    by (rule keyByPoint_signed [OF k(1,2), of ed25519, OF k(3)])
  show ?case
  proof (intro conjI ballI)
    fix p assume "p \<in> set out - set confirmed"
    then show "\<exists>signature. operator_signed ed25519 m p (settlementStatementMessage r p) signature"
      using IH here_signed by (cases "p = sa_point a") auto
  qed (use IH here in auto)
qed simp

subsection \<open>Soundness\<close>

text \<open>What a verified release establishes of its result, its manifest and the signatures.\<close>

definition quorum_released ::
  "(string \<Rightarrow> string) \<Rightarrow> (string \<Rightarrow> string \<Rightarrow> string \<Rightarrow> bool) \<Rightarrow> CoalitionThresholdManifest \<Rightarrow> CoalitionConflictResult \<Rightarrow> bool" where
  "quorum_released sha ed25519 m r \<longleftrightarrow>
     cr_releaseAuthorityId r = thresholdManifestDigest sha m \<and> cr_caseId r = tm_caseId m
     \<and> 2 \<le> cr_threshold r \<and> cr_threshold r = tm_threshold m
     \<and> distinct (map to_point (tm_operators m))
     \<and> distinct (cr_coalition r) \<and> int (length (cr_coalition r)) = cr_threshold r
     \<and> (\<forall>p \<in> set (cr_coalition r).
          (\<exists>signature. operator_signed ed25519 m p (settlementStatementMessage r p) signature)
          \<and> (\<forall>slot \<in> {0, 1}. \<exists>s \<in> set (cr_operatorStatements r). os_point s = p \<and> os_slot s = slot
               \<and> operator_signed ed25519 m p (from_hex (drop 2 (os_statementDigest s))) (from_hex (drop 2 (os_signature s)))))
     \<and> (cr_policyConflict r \<longrightarrow> cr_sameEconomicAsset r)"

lemma verified_quorum:
  assumes "verifyCoalitionEvidence sha ed25519 r m resultDigest runId = Inr v"
  shows "quorum_released sha ed25519 m r"
    and "ve_facts v = \<lparr>gf_governedResultDigest = resultDigest, gf_runId = runId,
      gf_releaseAuthorityId = thresholdManifestDigest sha m, gf_conflict = cr_policyConflict r,
      gf_caseId = cr_caseId r, gf_caseBindingDigest = cr_caseBindingDigest r\<rparr>"
    and "ve_coalitionAuthorityId v = thresholdManifestDigest sha m" "ve_servingQuorum v = cr_threshold r"
    and "ve_policyConflict v = cr_policyConflict r" "ve_sameEconomicAsset v = cr_sameEconomicAsset r"
proof -
  let ?as = "case cr_settlementAttestations r of None \<Rightarrow> [] | Some as \<Rightarrow> as"
  from assms obtain serving attested confirmed where
    manifest: "assertManifest m = Inr ()" and
    fixed: "thresholdManifestDigest sha m = cr_releaseAuthorityId r" "tm_caseId m = cr_caseId r"
      "cr_threshold r = tm_threshold m" "int (length (cr_coalition r)) = cr_threshold r" and
    serving: "serving_set (keyByPoint m) [] (cr_coalition r) = Inr serving" and
    attested: "attest_statements ed25519 (keyByPoint m) serving [] (cr_operatorStatements r) = Inr attested" and
    coverage: "statement_coverage attested serving = Inr ()" and
    confirmed: "confirm_release ed25519 (keyByPoint m) r serving [] ?as = Inr confirmed" and
    quorum: "\<not> int (length confirmed) < cr_threshold r" and
    bits: "\<not> (cr_policyConflict r \<and> \<not> cr_sameEconomicAsset r)" and
    v: "v = \<lparr>ve_facts = \<lparr>gf_governedResultDigest = resultDigest, gf_runId = runId,
          gf_releaseAuthorityId = thresholdManifestDigest sha m, gf_conflict = cr_policyConflict r,
          gf_caseId = cr_caseId r, gf_caseBindingDigest = cr_caseBindingDigest r\<rparr>,
        ve_coalitionAuthorityId = thresholdManifestDigest sha m, ve_servingQuorum = cr_threshold r,
        ve_operatorTopology = cr_operatorTopology r, ve_sameEconomicAsset = cr_sameEconomicAsset r,
        ve_policyConflict = cr_policyConflict r\<rparr>"
    unfolding verifyCoalitionEvidence_def Let_def ebind_eq_Inr check_eq_Inr sum.inject by auto
  from serving have s: "serving = cr_coalition r" "distinct (cr_coalition r)"
    unfolding serving_set_ok by auto
  have c: "distinct confirmed" "set confirmed \<subseteq> set (cr_coalition r)"
    "\<forall>p \<in> set confirmed. \<exists>signature. operator_signed ed25519 m p (settlementStatementMessage r p) signature"
    using confirm_release_ok [OF confirmed] s(1) by auto
  have "card (set (cr_coalition r)) \<le> card (set confirmed)"
    using c(1) s(2) quorum fixed(4) by (simp add: distinct_card)
  then have all: "set confirmed = set (cr_coalition r)" using c(2) by (metis card_seteq List.finite_set)
  have slots: "\<exists>st \<in> set (cr_operatorStatements r). os_point st = p \<and> os_slot st = slot
      \<and> operator_signed ed25519 m p (from_hex (drop 2 (os_statementDigest st))) (from_hex (drop 2 (os_signature st)))"
    if "p \<in> set (cr_coalition r)" "slot \<in> {0, 1}" for p slot
  proof -
    have "(p, slot) \<in> set attested" using coverage that s(1) unfolding statement_coverage_ok by auto
    then show ?thesis using attest_statements_ok [OF attested] by auto
  qed
  show "quorum_released sha ed25519 m r"
    unfolding quorum_released_def using fixed s(2) assertManifest_ok [OF manifest] c(3) all slots bits by auto
  show "ve_facts v = \<lparr>gf_governedResultDigest = resultDigest, gf_runId = runId,
      gf_releaseAuthorityId = thresholdManifestDigest sha m, gf_conflict = cr_policyConflict r,
      gf_caseId = cr_caseId r, gf_caseBindingDigest = cr_caseBindingDigest r\<rparr>"
    "ve_coalitionAuthorityId v = thresholdManifestDigest sha m" "ve_servingQuorum v = cr_threshold r"
    "ve_policyConflict v = cr_policyConflict r" "ve_sameEconomicAsset v = cr_sameEconomicAsset r"
    using v by simp_all
qed

text \<open>An accepted coalition release is a quorum's. The release authority is the digest of the published
  manifest, at least two and exactly the manifest's threshold of distinct published operators served, each of
  them signed the settlement statement rebuilt from this very result and attested both released bits, a policy
  conflict never comes without the asset match, and the facts handed to settlement carry the policy bit alone.
\<close>

theorem coalition_evidence_sound:
  assumes "verifyCoalitionEvidence sha ed25519 r m resultDigest runId = Inr v"
  shows "quorum_released sha ed25519 m r \<and> gf_conflict (ve_facts v) = cr_policyConflict r
    \<and> gf_releaseAuthorityId (ve_facts v) = thresholdManifestDigest sha m \<and> gf_caseId (ve_facts v) = tm_caseId m
    \<and> gf_governedResultDigest (ve_facts v) = resultDigest \<and> gf_runId (ve_facts v) = runId"
  using verified_quorum [OF assms] by (auto simp: quorum_released_def)

subsection \<open>One release per case\<close>

lemma map_JNum_inj [simp]: "map JNum xs = map JNum ys \<longleftrightarrow> xs = ys"
  by (rule inj_map_eq_map) (simp add: inj_def)

text \<open>What the settlement statement says of a result.\<close>

definition released_facts :: "CoalitionConflictResult \<Rightarrow> string \<times> string \<times> string \<times> string \<times> string \<times> string \<times> int list \<times> int \<times> bool \<times> bool" where
  "released_facts r = (cr_caseId r, cr_caseBindingDigest r, cr_assetIdentity r, cr_releaseAuthorityId r, cr_releaseMode r,
     cr_releaseTranscript r, cr_coalition r, cr_threshold r, cr_sameEconomicAsset r, cr_policyConflict r)"

interpretation settlement_message: commitment "\<lambda>(f, p). SETTLEMENT_STATEMENT_DOMAIN @ [CHR 0x00] @ stringify
  (case f of (c, b, a, i, mode, t, q, n, e, x) \<Rightarrow> JObj [
     (''schemaVersion'', JStr SETTLEMENT_STATEMENT_SCHEMA), (''caseId'', JStr c), (''caseBindingDigest'', JStr b),
     (''assetIdentity'', JStr a), (''releaseAuthorityId'', JStr i), (''releaseMode'', JStr mode), (''releaseTranscript'', JStr t),
     (''coalition'', JArr (map JNum q)), (''threshold'', JNum n), (''sameEconomicAsset'', JBool e),
     (''policyConflict'', JBool x), (''point'', JNum p)])"
  by unfold_locales (auto dest!: stringify_inj)

lemma settlement_message_binds:
  "settlementStatementMessage r p = settlementStatementMessage s q \<longleftrightarrow> released_facts r = released_facts s \<and> p = q"
  using settlement_message.encode_eq_iff [of "(released_facts r, p)" "(released_facts s, q)"]
  by (auto simp: settlementStatementMessage_def settlement_statement_def released_facts_def)

text \<open>Two quorums of more than half the operators meet.\<close>

lemma quorums_meet:
  assumes "set xs \<subseteq> P" "set ys \<subseteq> P" "finite P" "distinct xs" "distinct ys" "card P < length xs + length ys"
  shows "set xs \<inter> set ys \<noteq> {}"
proof
  assume "set xs \<inter> set ys = {}"
  then have "card (set xs \<union> set ys) = length xs + length ys"
    using assms(4,5) by (simp add: card_Un_disjoint distinct_card)
  moreover have "card (set xs \<union> set ys) \<le> card P" using assms(1-3) by (intro card_mono) auto
  ultimately show False using assms(6) by simp
qed

lemma quorum_members_published:
  assumes "quorum_released sha ed25519 m r"
  shows "set (cr_coalition r) \<subseteq> to_point ` set (tm_operators m)"
  using assms by (auto simp: quorum_released_def operator_signed_def)

text \<open>
  The one-shot discipline of the operators: a published key verifies settlement statements of one release
  only.
\<close>

definition one_shot :: "(string \<Rightarrow> string \<Rightarrow> string \<Rightarrow> bool) \<Rightarrow> CoalitionThresholdManifest \<Rightarrow> bool" where
  "one_shot ed25519 m \<longleftrightarrow> (\<forall>p r s t u.
     operator_signed ed25519 m p (settlementStatementMessage r p) t \<and> operator_signed ed25519 m p (settlementStatementMessage s p) u
     \<longrightarrow> settlementStatementMessage r p = settlementStatementMessage s p)"

text \<open>A coalition case has one outcome. When the quorum is more than half of the published operators (two of
  three in the managed service) and no operator signs settlement statements of two releases, any two results
  accepted under one manifest agree on the case, the binding, the asset, the release identity, the transcript,
  the serving coalition and both released bits; an edited copy of an accepted result is refused.
\<close>

theorem coalition_release_unique:
  assumes "verifyCoalitionEvidence sha ed25519 r m d run = Inr v"
    and "verifyCoalitionEvidence sha ed25519 s m d' run' = Inr w"
    and "int (length (tm_operators m)) < 2 * tm_threshold m" and "one_shot ed25519 m"
  shows "released_facts r = released_facts s"
proof -
  have r: "quorum_released sha ed25519 m r" and s: "quorum_released sha ed25519 m s"
    using verified_quorum(1) assms(1,2) by blast+
  have "card (to_point ` set (tm_operators m)) \<le> length (tm_operators m)"
    by (metis card_image_le card_length le_trans List.finite_set)
  then have "set (cr_coalition r) \<inter> set (cr_coalition s) \<noteq> {}"
    using r s assms(3) quorum_members_published [OF r] quorum_members_published [OF s]
    by (intro quorums_meet [where P = "to_point ` set (tm_operators m)"]) (auto simp: quorum_released_def)
  then obtain p where "p \<in> set (cr_coalition r)" "p \<in> set (cr_coalition s)" by blast
  then obtain t u where "operator_signed ed25519 m p (settlementStatementMessage r p) t"
      "operator_signed ed25519 m p (settlementStatementMessage s p) u"
    using r s unfolding quorum_released_def by blast
  then have "settlementStatementMessage r p = settlementStatementMessage s p"
    using assms(4) unfolding one_shot_def by blast
  then show ?thesis unfolding settlement_message_binds by blast
qed

subsection \<open>A concrete release\<close>

definition sample_key :: string where
  "sample_key = base64_encode (replicate 32 CHR 0x00)"

definition sample_digest :: string where
  "sample_digest = ''sha256:'' @ replicate 64 CHR ''0''"

definition sample_manifest :: CoalitionThresholdManifest where
  "sample_manifest = \<lparr>tm_schemaVersion = COALITION_MANIFEST_SCHEMA, tm_caseId = sample_digest, tm_keyId = sample_digest,
     tm_parameterFingerprint = [], tm_threshold = 2,
     tm_operators = map (\<lambda>p. \<lparr>to_operatorId = [], to_point = p, to_signingPublicKey = sample_key\<rparr>) [1, 2, 3],
     tm_operatorTopology = []\<rparr>"

definition sample_release :: CoalitionConflictResult where
  "sample_release = \<lparr>cr_schemaVersion = COALITION_RESULT_SCHEMA, cr_caseId = sample_digest, cr_caseBindingDigest = sample_digest,
     cr_assetIdentity = sample_digest, cr_sameEconomicAsset = True, cr_policyConflict = True, cr_releaseMode = ''coalition-v5'',
     cr_releaseAuthorityId = sample_digest, cr_threshold = 2, cr_coalition = [1, 3], cr_operatorTopology = [],
     cr_operatorStatements = [\<lparr>os_point = p, os_slot = k, os_statementDigest = ''0x'' @ replicate 64 CHR ''0'',
       os_signature = ''0x'' @ replicate 128 CHR ''0''\<rparr>. p \<leftarrow> [1, 3], k \<leftarrow> [0, 1]],
     cr_releaseTranscript = [],
     cr_settlementAttestations = Some (map (\<lambda>p. \<lparr>sa_point = p, sa_signature = base64_encode (replicate 64 CHR 0x00)\<rparr>) [1, 3]),
     cr_policyId = [], cr_serviceId = [], cr_evaluatedArtifactDigest = sample_digest\<rparr>"

text \<open>A verifier that accepts the statement digest and the settlement statements of this release only.\<close>

definition sample_verifier :: "string \<Rightarrow> string \<Rightarrow> string \<Rightarrow> bool" where
  "sample_verifier key message signature \<longleftrightarrow> message = replicate 32 CHR 0x00
     \<or> message \<in> set (map (settlementStatementMessage sample_release) [1, 3])"

lemma canonical_base64_encode [simp]: "canonical_base64 n (base64_encode raw) = (if length raw = n then Some raw else None)"
  by (simp add: canonical_base64_def base64_decode_encode)

lemma from_hex_zero [simp]: "from_hex (replicate 64 CHR ''0'') = replicate 32 CHR 0x00"
  by code_simp

lemma sample_digest_ok [simp]: "fixed_regex SHA256_LOWER sample_digest"
  unfolding SHA256_LOWER_def sample_digest_def prefix_regex_append by (simp add: lower_hex_def list_all_iff)

lemma sample_hex_ok [simp]:
  "fixed_regex BYTES32_HEX (''0x'' @ replicate 64 CHR ''0'')" "fixed_regex SIGNATURE_HEX (''0x'' @ replicate 128 CHR ''0'')"
  unfolding BYTES32_HEX_def SIGNATURE_HEX_def prefix_regex_append by (simp_all add: lower_hex_def list_all_iff)

lemma sample_key_ok [simp]: "ed25519PublicKey sample_key = Inr (replicate 32 CHR 0x00)"
  by (simp add: ed25519PublicKey_def sample_key_def)

lemma sample_fields:
  "cr_schemaVersion sample_release = COALITION_RESULT_SCHEMA" "cr_releaseAuthorityId sample_release = sample_digest"
  "tm_caseId sample_manifest = sample_digest" "cr_caseId sample_release = sample_digest" "cr_threshold sample_release = 2"
  "tm_threshold sample_manifest = 2" "cr_coalition sample_release = [1, 3]" "cr_policyConflict sample_release"
  "cr_sameEconomicAsset sample_release" "length (tm_operators sample_manifest) = 3"
  "cr_settlementAttestations sample_release
     = Some (map (\<lambda>p. \<lparr>sa_point = p, sa_signature = base64_encode (replicate 64 CHR 0x00)\<rparr>) [1, 3])"
  by (simp_all add: sample_release_def sample_manifest_def)

lemma sample_verified_by:
  assumes "\<And>key t. ed key (replicate 32 CHR 0x00) t"
    and "\<And>key p t. p \<in> {1, 3} \<Longrightarrow> ed key (settlementStatementMessage (sample_release\<lparr>cr_policyConflict := b\<rparr>) p) t"
  shows "is_ok (verifyCoalitionEvidence zero_sha ed (sample_release\<lparr>cr_policyConflict := b\<rparr>) sample_manifest d run)"
proof -
  have manifest: "assertManifest sample_manifest = Inr ()"
    by (simp add: assertManifest_def sample_manifest_def MINIMUM_QUORUM_def)
  have keys: "keyByPoint sample_manifest 1 = Some sample_key" "keyByPoint sample_manifest 3 = Some sample_key"
    by (simp_all add: keyByPoint_def sample_manifest_def)
  have statement: "fixed_regex BYTES32_HEX (CHR ''0'' # CHR ''x'' # replicate 64 CHR ''0'')"
      "fixed_regex SIGNATURE_HEX (CHR ''0'' # CHR ''x'' # replicate 128 CHR ''0'')"
    using sample_hex_ok by simp_all
  have "thresholdManifestDigest zero_sha sample_manifest = sample_digest"
    by (simp add: thresholdManifestDigest_def zero_sha_def sample_digest_def)
  moreover have "attest_statements ed (keyByPoint sample_manifest) [1, 3] [] (cr_operatorStatements sample_release)
      = Inr [(3, 1), (3, 0), (1, 1), (1, 0)]"
    by (simp add: sample_release_def keys statement assms(1))
  moreover have "confirm_release ed (keyByPoint sample_manifest) (sample_release\<lparr>cr_policyConflict := b\<rparr>) [1, 3] []
      (map (\<lambda>p. \<lparr>sa_point = p, sa_signature = base64_encode (replicate 64 CHR 0x00)\<rparr>) [1, 3]) = Inr [3, 1]"
    by (simp add: keys assms(2))
  ultimately show ?thesis
    by (simp add: verifyCoalitionEvidence_def manifest keys Let_def sample_fields del: list.map)
qed

lemma sample_verified: "is_ok (verifyCoalitionEvidence zero_sha sample_verifier sample_release sample_manifest d run)"
proof -
  have "sample_release\<lparr>cr_policyConflict := True\<rparr> = sample_release" by (simp add: sample_release_def)
  then show ?thesis using sample_verified_by [of sample_verifier True d run] by (auto simp: sample_verifier_def)
qed

lemma sample_one_shot: "one_shot sample_verifier sample_manifest"
proof -
  have zero: "settlementStatementMessage r p \<noteq> replicate 32 CHR 0x00" for r p
    by (simp add: settlementStatementMessage_def SETTLEMENT_STATEMENT_DOMAIN_def numeral_eq_Suc)
  have "settlementStatementMessage r p = settlementStatementMessage sample_release p"
    if "operator_signed sample_verifier sample_manifest p (settlementStatementMessage r p) t" for r p t
    using that by (auto simp: operator_signed_def sample_verifier_def zero settlement_message_binds)
  then show ?thesis unfolding one_shot_def by metis
qed

theorem coalition_evidence_sound_witness:
  "\<exists>v. verifyCoalitionEvidence zero_sha sample_verifier sample_release sample_manifest [] [] = Inr v
     \<and> quorum_released zero_sha sample_verifier sample_manifest sample_release \<and> gf_conflict (ve_facts v)"
proof -
  from sample_verified obtain v where
    v: "verifyCoalitionEvidence zero_sha sample_verifier sample_release sample_manifest [] [] = Inr v"
    unfolding is_ok_iff by blast
  then show ?thesis using coalition_evidence_sound [OF v] by (simp add: sample_fields)
qed

theorem coalition_release_unique_witness:
  "is_ok (verifyCoalitionEvidence zero_sha sample_verifier sample_release sample_manifest [] [])
   \<and> \<not> is_ok (verifyCoalitionEvidence zero_sha sample_verifier (sample_release\<lparr>cr_policyConflict := False\<rparr>) sample_manifest [] [])"
proof -
  let ?verify = "\<lambda>r. verifyCoalitionEvidence zero_sha sample_verifier r sample_manifest [] []"
  from sample_verified obtain v where v: "?verify sample_release = Inr v" unfolding is_ok_iff by blast
  have False if "?verify (sample_release\<lparr>cr_policyConflict := False\<rparr>) = Inr w" for w
    using coalition_release_unique [OF that v] sample_one_shot by (simp add: sample_fields released_facts_def)
  then show ?thesis using sample_verified by (metis is_ok_iff)
qed

end
