(* ===== verification/Custom_Receipt.thy ===== *)
theory Custom_Receipt
  imports Protection_Case Pledge_Windows
begin

text \<open>
  The receipt of a supervised custom run (\<^verbatim>\<open>custom-supervised-receipt.ts\<close>) and the exact disclosure
  contract it carries (\<^verbatim>\<open>custom-supervised-receipt-disclosures.ts\<close>). The gate is shown to bind the whole
  receipt to its digest, to make the terminal state follow the governed Boolean, and to keep every private
  name out of the document, as a member name and as a value.
\<close>

subsection \<open>Disclosures\<close>

definition CUSTOM_RECEIPT_EXECUTION_DISCLOSURE :: string where
  "CUSTOM_RECEIPT_EXECUTION_DISCLOSURE = ''Supervised local single-host execution; not production authorized.''"

definition CUSTOM_RECEIPT_PARTICIPANT_DISCLOSURE :: string where
  "CUSTOM_RECEIPT_PARTICIPANT_DISCLOSURE = ''Participant-admitted pledge windows under verified durable wallet authorizations; synthetic lender fixtures and no real funds.''"

definition CUSTOM_RECEIPT_OPERATOR_DISCLOSURE :: string where
  "CUSTOM_RECEIPT_OPERATOR_DISCLOSURE = ''Operator-entered pledge windows; synthetic lender fixtures and no real funds.''"

definition CUSTOM_RECEIPT_DECRYPTOR_DISCLOSURE :: string where
  "CUSTOM_RECEIPT_DECRYPTOR_DISCLOSURE = ''Designated trusted decryptor; no threshold release and no native Monad FHE.''"

definition CUSTOM_RECEIPT_BOOLEAN_AUTHORITY_DISCLOSURE :: string where
  "CUSTOM_RECEIPT_BOOLEAN_AUTHORITY_DISCLOSURE = ''The governed Boolean establishes conflict status. It is an authenticated input to the precommitted policy, not an authorization for recourse or settlement by itself.''"

definition CUSTOM_RECEIPT_RECOURSE_BOUNDARY_DISCLOSURE :: string where
  "CUSTOM_RECEIPT_RECOURSE_BOUNDARY_DISCLOSURE = ''The precommitted policy selects a bounded managed action branch; it establishes no legal truth and does not authorize settlement.''"

definition PRE_POLICY_CUSTOM_RECEIPT_BOOLEAN_AUTHORITY_DISCLOSURE :: string where
  "PRE_POLICY_CUSTOM_RECEIPT_BOOLEAN_AUTHORITY_DISCLOSURE = ''The governed signed Boolean is the sole authority for the conflict/no-conflict result.''"

definition PRE_POLICY_CUSTOM_RECEIPT_RECOURSE_BOUNDARY_DISCLOSURE :: string where
  "PRE_POLICY_CUSTOM_RECEIPT_RECOURSE_BOUNDARY_DISCLOSURE = ''Configured demo policy determines the recourse path; the Boolean does not assign legal responsibility, action ownership, deadline or payout amount.''"

definition LEGACY_CUSTOM_RECEIPT_BOOLEAN_AUTHORITY_DISCLOSURE :: string where
  "LEGACY_CUSTOM_RECEIPT_BOOLEAN_AUTHORITY_DISCLOSURE = ''The governed signed Boolean is the sole authority for the terminal outcome.''"

datatype CustomReceiptDisclosureVersion = CURRENT | PRE_POLICY | LEGACY

datatype CustomReceiptIntake = PARTICIPANT | OPERATOR

definition isIntakeDisclosure :: "jsval \<Rightarrow> bool" where
  "isIntakeDisclosure v \<longleftrightarrow> v = VString CUSTOM_RECEIPT_PARTICIPANT_DISCLOSURE \<or> v = VString CUSTOM_RECEIPT_OPERATOR_DISCLOSURE"

definition currentCustomReceiptDisclosures :: "CustomReceiptIntake \<Rightarrow> string list" where
  "currentCustomReceiptDisclosures intake = [CUSTOM_RECEIPT_EXECUTION_DISCLOSURE,
     (case intake of PARTICIPANT \<Rightarrow> CUSTOM_RECEIPT_PARTICIPANT_DISCLOSURE | OPERATOR \<Rightarrow> CUSTOM_RECEIPT_OPERATOR_DISCLOSURE),
     CUSTOM_RECEIPT_DECRYPTOR_DISCLOSURE, CUSTOM_RECEIPT_BOOLEAN_AUTHORITY_DISCLOSURE,
     CUSTOM_RECEIPT_RECOURSE_BOUNDARY_DISCLOSURE]"

text \<open>An element of an array; out of range it is \<open>undefined\<close>.\<close>

definition js_index :: "jsval list \<Rightarrow> nat \<Rightarrow> jsval" where
  "js_index vs i = (if i < length vs then vs ! i else VUndefined)"

definition classifyCustomReceiptDisclosures :: "jsval \<Rightarrow> CustomReceiptDisclosureVersion option" where
  "classifyCustomReceiptDisclosures v = (case v of
     VArray vs \<Rightarrow>
       if js_index vs 0 \<noteq> VString CUSTOM_RECEIPT_EXECUTION_DISCLOSURE
         \<or> \<not> isIntakeDisclosure (js_index vs 1)
         \<or> js_index vs 2 \<noteq> VString CUSTOM_RECEIPT_DECRYPTOR_DISCLOSURE then None
       else if length vs = 5 \<and> js_index vs 3 = VString CUSTOM_RECEIPT_BOOLEAN_AUTHORITY_DISCLOSURE
         \<and> js_index vs 4 = VString CUSTOM_RECEIPT_RECOURSE_BOUNDARY_DISCLOSURE then Some CURRENT
       else if length vs = 5 \<and> js_index vs 3 = VString PRE_POLICY_CUSTOM_RECEIPT_BOOLEAN_AUTHORITY_DISCLOSURE
         \<and> js_index vs 4 = VString PRE_POLICY_CUSTOM_RECEIPT_RECOURSE_BOUNDARY_DISCLOSURE then Some PRE_POLICY
       else if length vs = 4 \<and> js_index vs 3 = VString LEGACY_CUSTOM_RECEIPT_BOOLEAN_AUTHORITY_DISCLOSURE then Some LEGACY
       else None
   | _ \<Rightarrow> None)"

subsection \<open>The receipt\<close>

definition CUSTOM_SUPERVISED_RECEIPT_SCHEMA :: string where
  "CUSTOM_SUPERVISED_RECEIPT_SCHEMA = ''mordant.custom-supervised-protection-receipt/1''"

text \<open>The receipt without its digest; the groups of the source are flattened into prefixed members.\<close>

record CustomSupervisedReceiptBody =
  rc_schemaVersion :: string
  rc_runId :: string
  rc_sourceCommit :: string
  rc_governedFheCommit :: string
  rc_executionVariant :: string
  rc_protectionBindingSchema :: string
  rc_protectionBindingDigest :: string
  rc_fheCaseId :: string
  rc_caseBindingDigest :: string
  rc_participantArtifactDigests :: "string \<times> string"
  rc_evaluatedArtifactDigest :: string
  rc_evaluatorProvenance :: string
  rc_decryptorProvenance :: string
  rc_circuitId :: string
  rc_parameterProfile :: string
  rc_conflict :: bool
  rc_resultDigest :: string
  rc_releaseMode :: string
  rc_releaseOrdinal :: int
  rc_resultCiphertextDigest :: string
  rc_independentlyRecomputedResultDigest :: string
  rc_incidentState :: string
  rc_recourseState :: string
  rc_recourseOpened :: bool
  rc_recourseRefusal :: "string option"
  rc_recourseRecordDigest :: "string option"
  rc_originalReceivableState :: string
  rc_clockClass :: string
  rc_signedAtUnix :: int
  rc_events :: "(int \<times> string \<times> int option) list"
  rc_disclosures :: "string list"

record CustomSupervisedProtectionReceipt = CustomSupervisedReceiptBody +
  rc_receiptDigest :: string

definition null_or :: "('a \<Rightarrow> json) \<Rightarrow> 'a option \<Rightarrow> json" where
  "null_or f x = (case x of None \<Rightarrow> JNull | Some y \<Rightarrow> f y)"

definition chronology_event_json :: "int \<times> string \<times> int option \<Rightarrow> json" where
  "chronology_event_json e = (case e of (ordinal, kind, at) \<Rightarrow>
     JObj [(''ordinal'', JNum ordinal), (''kind'', JStr kind), (''atUnix'', null_or JNum at)])"

definition receipt_members :: "('a :: type) CustomSupervisedReceiptBody_scheme \<Rightarrow> (string \<times> json) list" where
  "receipt_members r = [
     (''schemaVersion'', JStr (rc_schemaVersion r)),
     (''runId'', JStr (rc_runId r)),
     (''sourceCommit'', JStr (rc_sourceCommit r)),
     (''governedFheCommit'', JStr (rc_governedFheCommit r)),
     (''executionVariant'', JStr (rc_executionVariant r)),
     (''authorization'', JObj [(''protectionBindingSchema'', JStr (rc_protectionBindingSchema r)),
        (''protectionBindingDigest'', JStr (rc_protectionBindingDigest r)),
        (''fheCaseId'', JStr (rc_fheCaseId r)), (''caseBindingDigest'', JStr (rc_caseBindingDigest r))]),
     (''execution'', JObj [(''participantArtifactDigests'',
          JArr [JStr (fst (rc_participantArtifactDigests r)), JStr (snd (rc_participantArtifactDigests r))]),
        (''evaluatedArtifactDigest'', JStr (rc_evaluatedArtifactDigest r)),
        (''evaluatorProvenance'', JStr (rc_evaluatorProvenance r)), (''decryptorProvenance'', JStr (rc_decryptorProvenance r)),
        (''circuitId'', JStr (rc_circuitId r)), (''parameterProfile'', JStr (rc_parameterProfile r))]),
     (''governedResult'', JObj [(''conflict'', JBool (rc_conflict r)), (''digest'', JStr (rc_resultDigest r)),
        (''releaseMode'', JStr (rc_releaseMode r)), (''releaseOrdinal'', JNum (rc_releaseOrdinal r)),
        (''resultCiphertextDigest'', JStr (rc_resultCiphertextDigest r)),
        (''independentlyRecomputedResultDigest'', JStr (rc_independentlyRecomputedResultDigest r))]),
     (''terminal'', JObj [(''incidentState'', JStr (rc_incidentState r)), (''recourseState'', JStr (rc_recourseState r)),
        (''recourseOpened'', JBool (rc_recourseOpened r)), (''recourseRefusal'', null_or JStr (rc_recourseRefusal r)),
        (''recourseRecordDigest'', null_or JStr (rc_recourseRecordDigest r)),
        (''originalReceivableState'', JStr (rc_originalReceivableState r))]),
     (''chronology'', JObj [(''clockClass'', JStr (rc_clockClass r)), (''signedAtUnix'', JNum (rc_signedAtUnix r)),
        (''events'', JArr (map chronology_event_json (rc_events r)))]),
     (''disclosures'', JArr (map JStr (rc_disclosures r)))]"

definition receipt_json :: "CustomSupervisedProtectionReceipt \<Rightarrow> json" where
  "receipt_json r = JObj ((''receiptDigest'', JStr (rc_receiptDigest r)) # receipt_members r)"

definition FORBIDDEN_RECEIPT_KEYS :: "string list" where
  "FORBIDDEN_RECEIPT_KEYS = [
     ''activeFrom'', ''activeUntil'', ''supervisedPledgeWindows'', ''pledges'', ''participantA'', ''participantB'',
     ''receivableId'', ''obligationId'', ''authorizationCommitment'', ''privateMetadataCommitment'',
     ''privateKey'', ''signingKey'', ''decryptorPrivate'', ''participantPrivate'', ''path'', ''root'']"

definition customSupervisedReceiptDigest :: "(string \<Rightarrow> string) \<Rightarrow> CustomSupervisedReceiptBody \<Rightarrow> string" where
  "customSupervisedReceiptDigest sha body =
     ''sha256:'' @ sha (''MordantCustomSupervisedReceipt/v1'' @ [CHR 0x00] @ canonicalJson (JObj (receipt_members body)))"

abbreviation receipt_error :: "string \<Rightarrow> merror" where
  "receipt_error \<equiv> CustomSupervisedReceiptError"

fun no_private_leak :: "string \<Rightarrow> string list \<Rightarrow> unit result" where
  "no_private_leak encoded [] = Inr ()"
| "no_private_leak encoded (k # ks) =
     ebind (check (\<not> str_includes encoded ([CHR 0x22] @ k @ [CHR 0x22])) (receipt_error ''PRIVATE_LEAK'')) (\<lambda>_.
     no_private_leak encoded ks)"

definition assertCustomSupervisedReceipt :: "(string \<Rightarrow> string) \<Rightarrow> CustomSupervisedProtectionReceipt \<Rightarrow> unit result" where
  "assertCustomSupervisedReceipt sha r =
     ebind (check (rc_schemaVersion r = CUSTOM_SUPERVISED_RECEIPT_SCHEMA) (receipt_error ''SCHEMA'')) (\<lambda>_.
     ebind (check (rc_executionVariant r = CUSTOM_SUPERVISED_EXECUTION_VARIANT) (receipt_error ''EXECUTION_VARIANT'')) (\<lambda>_.
     ebind (check (classifyCustomReceiptDisclosures (VArray (map VString (rc_disclosures r))) \<noteq> None)
       (receipt_error ''DISCLOSURES'')) (\<lambda>_.
     ebind (check (rc_receiptDigest r = customSupervisedReceiptDigest sha (CustomSupervisedReceiptBody.truncate r))
       (receipt_error ''RECEIPT_DIGEST'')) (\<lambda>_.
     ebind (check (rc_incidentState r = (if rc_conflict r then ''CONFLICT_CONFIRMED'' else ''CLEARED''))
       (receipt_error ''TERMINAL_INCIDENT'')) (\<lambda>_.
     ebind (check (rc_recourseOpened r = rc_conflict r) (receipt_error ''TERMINAL_RECOURSE'')) (\<lambda>_.
     ebind (check (\<not> (\<not> rc_conflict r \<and> rc_recourseRefusal r \<noteq> Some ''SIGNED_RESULT_FALSE''))
       (receipt_error ''TERMINAL_REFUSAL'')) (\<lambda>_.
     ebind (check (\<not> (rc_conflict r \<and> rc_recourseRecordDigest r = None)) (receipt_error ''TERMINAL_RECORD'')) (\<lambda>_.
     ebind (check (rc_resultCiphertextDigest r = rc_independentlyRecomputedResultDigest r) (receipt_error ''RECOMPUTATION'')) (\<lambda>_.
     ebind (check (rc_originalReceivableState r = ''OUTSTANDING_INTACT'') (receipt_error ''RECEIVABLE'')) (\<lambda>_.
     no_private_leak (canonicalJson (receipt_json r)) FORBIDDEN_RECEIPT_KEYS))))))))))"

subsection \<open>Names in a text\<close>

lemma str_includes_iff: "str_includes s t \<longleftrightarrow> (\<exists>a b. s = a @ t @ b)"
proof (induction s)
  case (Cons c s)
  have "take (length t) (c # s) = t \<longleftrightarrow> (\<exists>b. c # s = t @ b)"
    by (metis append_eq_conv_conj append_take_drop_id)
  moreover have "(\<exists>a b. c # s = a @ t @ b) \<longleftrightarrow> (\<exists>b. c # s = t @ b) \<or> (\<exists>a b. s = a @ t @ b)"
    by (metis Cons_eq_append_conv append_Cons)
  ultimately show ?case using Cons.IH by simp
qed simp

text \<open>Every member name and every text value inside a value.\<close>

fun json_strings :: "json \<Rightarrow> string set" where
  "json_strings (JStr s) = {s}"
| "json_strings (JArr vs) = (\<Union>v \<in> set vs. json_strings v)"
| "json_strings (JObj kvs) = (\<Union>kv \<in> set kvs. insert (fst kv) (json_strings (snd kv)))"
| "json_strings _ = {}"

lemma join_comma_infix: "x \<in> set xs \<Longrightarrow> \<exists>a b. join_comma xs = a @ x @ b"
proof (induction xs rule: join_comma.induct)
  case (2 y)
  then show ?case by (metis append_Nil append_Nil2 join_comma.simps(2) list.set(1,2) empty_iff insert_iff)
next
  case (3 y z zs)
  show ?case
  proof (cases "x = y")
    case True
    then show ?thesis by (metis append_Nil join_comma.simps(3))
  next
    case False
    then obtain a b where "join_comma (z # zs) = a @ x @ b" using 3 by auto
    then show ?thesis by (metis append_assoc join_comma.simps(3))
  qed
qed simp

lemma stringify_contains: "s \<in> json_strings v \<Longrightarrow> str_includes (stringify v) (json_quote s)"
proof (induction v)
  case (JStr t)
  then have "stringify (JStr t) = [] @ json_quote s @ []" by simp
  then show ?case unfolding str_includes_iff by blast
next
  case (JArr vs)
  then obtain v where v: "v \<in> set vs" "str_includes (stringify v) (json_quote s)" by auto
  from v(2) obtain a b where "stringify v = a @ json_quote s @ b" unfolding str_includes_iff by blast
  moreover from v(1) obtain c d where "join_comma (map stringify vs) = c @ stringify v @ d"
    using join_comma_infix [of "stringify v" "map stringify vs"] by auto
  ultimately have "stringify (JArr vs) = (''['' @ c @ a) @ json_quote s @ (b @ d @ '']'')" by simp
  then show ?case unfolding str_includes_iff by blast
next
  case (JObj kvs)
  from JObj.prems obtain k v where kv: "(k, v) \<in> set kvs" and "s = k \<or> s \<in> json_strings v" by auto
  then have inner: "s = k \<or> str_includes (stringify v) (json_quote s)" using JObj.IH [OF kv] by auto
  let ?f = "\<lambda>(k, v). json_quote k @ '':'' @ stringify v"
  have "\<exists>a b. ?f (k, v) = a @ json_quote s @ b"
  proof (cases "s = k")
    case True
    then have "?f (k, v) = [] @ json_quote s @ ('':'' @ stringify v)" by simp
    then show ?thesis by blast
  next
    case False
    then obtain a b where "stringify v = a @ json_quote s @ b" using inner unfolding str_includes_iff by blast
    then have "?f (k, v) = (json_quote k @ '':'' @ a) @ json_quote s @ b" by simp
    then show ?thesis by blast
  qed
  then obtain a b where ab: "?f (k, v) = a @ json_quote s @ b" by blast
  obtain c d where "join_comma (map ?f kvs) = c @ ?f (k, v) @ d"
    using join_comma_infix [of "?f (k, v)" "map ?f kvs"] kv by (metis (no_types, lifting) image_eqI list.set_map)
  then have "stringify (JObj kvs) = (''{'' @ c @ a) @ json_quote s @ (b @ d @ ''}'')" unfolding ab by simp
  then show ?case unfolding str_includes_iff by blast
qed (auto simp: str_includes_iff)

lemma sort_members_strings: "json_strings (sort_members v) = json_strings v"
proof (induction v)
  case (JObj kvs)
  have "insert (fst kv) (json_strings (sort_members (snd kv))) = insert (fst kv) (json_strings (snd kv))" if "kv \<in> set kvs" for kv
    using JObj that by (cases kv) (auto simp: snds.simps)
  then show ?case by (auto simp: case_prod_beta)
qed simp_all

lemma plain_quote: "json_quote k = [CHR 0x22] @ k @ [CHR 0x22]" if "k \<in> set FORBIDDEN_RECEIPT_KEYS"
proof -
  have "list_all (\<lambda>k. json_quote k = [CHR 0x22] @ k @ [CHR 0x22]) FORBIDDEN_RECEIPT_KEYS" by code_simp
  then show ?thesis using that by (simp add: list_all_iff)
qed

lemma no_private_leak_ok:
  "no_private_leak encoded ks = Inr () \<longleftrightarrow> (\<forall>k \<in> set ks. \<not> str_includes encoded ([CHR 0x22] @ k @ [CHR 0x22]))"
  by (induction ks) (auto simp: result_simps)

lemma accepted_no_private:
  assumes "assertCustomSupervisedReceipt sha r = Inr ()"
  shows "set FORBIDDEN_RECEIPT_KEYS \<inter> json_strings (receipt_json r) = {}"
proof -
  have leak: "no_private_leak (canonicalJson (receipt_json r)) FORBIDDEN_RECEIPT_KEYS = Inr ()"
    using assms unfolding assertCustomSupervisedReceipt_def ebind_eq_Inr check_eq_Inr by blast
  show ?thesis
  proof (rule equals0I)
    fix k assume k: "k \<in> set FORBIDDEN_RECEIPT_KEYS \<inter> json_strings (receipt_json r)"
    then have "str_includes (canonicalJson (receipt_json r)) (json_quote k)"
      unfolding canonicalJson_def by (intro stringify_contains) (simp add: sort_members_strings)
    then show False using leak k unfolding no_private_leak_ok by (metis IntE plain_quote)
  qed
qed

subsection \<open>The gate on plain documents\<close>

text \<open>
  Cut at its quotes, the text of a value without quotes, backslashes and control characters shows its names and
  values as whole segments, and every other segment carries a separator.
\<close>

fun quote_split :: "string \<Rightarrow> string list" where
  "quote_split [] = [[]]"
| "quote_split (c # s) = (if c = CHR 0x22 then [] # quote_split s else (c # hd (quote_split s)) # tl (quote_split s))"

lemma quote_split_nonempty [simp]: "quote_split s \<noteq> []"
  by (cases s) auto

lemma quote_split_append:
  "quote_split (x @ y) = butlast (quote_split x) @ (last (quote_split x) @ hd (quote_split y)) # tl (quote_split y)"
proof (induction x)
  case (Cons c x)
  obtain u us where "quote_split x = u # us" by (meson list.exhaust quote_split_nonempty)
  then show ?case using Cons by (cases us) auto
qed simp

lemma quote_split_plain: "CHR 0x22 \<notin> set s \<Longrightarrow> quote_split s = [s]"
  by (induction s) auto

lemma quote_split_quote: "quote_split (a @ CHR 0x22 # b) = quote_split a @ quote_split b"
  by (simp add: quote_split_append)

definition inner_segments :: "string \<Rightarrow> string list" where
  "inner_segments t = butlast (tl (quote_split t))"

lemma included_segment:
  assumes "str_includes t ([CHR 0x22] @ k @ [CHR 0x22])" and "CHR 0x22 \<notin> set k"
  shows "k \<in> set (inner_segments t)"
proof -
  obtain a b where "t = a @ CHR 0x22 # k @ CHR 0x22 # b" using assms(1) unfolding str_includes_iff by auto
  then have "quote_split t = quote_split a @ k # quote_split b"
    using assms(2) by (simp add: quote_split_quote quote_split_plain)
  then show ?thesis unfolding inner_segments_def
    by (cases "quote_split a") (auto simp: butlast_append)
qed

definition marked :: "string \<Rightarrow> bool" where
  "marked s \<longleftrightarrow> list_ex (\<lambda>c. c \<in> set '',:[]{}'') s"

lemma inner_append:
  assumes "CHR 0x22 \<notin> set m" "marked m"
  shows "set (inner_segments (x @ m @ y)) \<subseteq> set (inner_segments x) \<union> set (inner_segments y) \<union> Collect marked"
proof -
  obtain u us where x: "quote_split x = u # us" by (meson list.exhaust quote_split_nonempty)
  obtain w ws where y: "quote_split y = w # ws" by (meson list.exhaust quote_split_nonempty)
  have "quote_split (x @ m @ y) = butlast (u # us) @ (last (u # us) @ m @ w) # ws"
    by (simp add: quote_split_append quote_split_plain [OF assms(1)] x y)
  moreover have "marked (last (u # us) @ m @ w)" using assms(2) by (simp add: marked_def)
  ultimately show ?thesis unfolding inner_segments_def
    by (cases us rule: rev_cases; cases ws) (auto simp: butlast_append x y)
qed

definition framed :: "string set \<Rightarrow> string \<Rightarrow> bool" where
  "framed S t \<longleftrightarrow> set (inner_segments t) \<subseteq> S \<union> Collect marked"

lemma framed_join: "CHR 0x22 \<notin> set m \<Longrightarrow> marked m \<Longrightarrow> framed S x \<Longrightarrow> framed S y \<Longrightarrow> framed S (x @ m @ y)"
  using inner_append [of m x y] unfolding framed_def by blast

lemma framed_plain: "CHR 0x22 \<notin> set s \<Longrightarrow> framed S s"
  by (simp add: framed_def inner_segments_def quote_split_plain)

definition plain_text :: "string \<Rightarrow> bool" where
  "plain_text s \<longleftrightarrow> list_all (\<lambda>c. c \<noteq> CHR 0x22 \<and> c \<noteq> CHR 0x5C \<and> 32 \<le> (of_char c :: nat)) s"

lemma plain_text_quote: "plain_text s \<Longrightarrow> json_quote s = CHR 0x22 # s @ [CHR 0x22]"
proof -
  assume "plain_text s"
  then have "concat (map json_escape s) = s"
    by (induction s) (auto simp: plain_text_def json_escape_def Let_def)
  then show ?thesis by (simp add: json_quote_def)
qed

lemma framed_quoted:
  assumes "plain_text s" "s \<in> S"
  shows "framed S (json_quote s)"
proof -
  have "CHR 0x22 \<notin> set s" using assms(1) by (auto simp: plain_text_def list_all_iff)
  then have "quote_split (CHR 0x22 # s @ [CHR 0x22]) = [[], s, []]"
    by (simp add: quote_split_quote quote_split_plain)
  then show ?thesis unfolding plain_text_quote [OF assms(1)] framed_def inner_segments_def using assms(2) by simp
qed

lemma framed_commas: "(\<And>x. x \<in> set xs \<Longrightarrow> framed S x) \<Longrightarrow> framed S (join_comma xs)"
proof (induction xs rule: join_comma.induct)
  case (3 x y ys)
  then show ?case using framed_join [of "'',''" S x "join_comma (y # ys)"] by (simp add: marked_def)
qed (auto simp: framed_plain)

lemma framed_bracket:
  "framed S t \<Longrightarrow> framed S (''['' @ t @ '']'')" "framed S t \<Longrightarrow> framed S (''{'' @ t @ ''}'')"
  using framed_join [of "''[''" S "[]" "t @ '']''"] framed_join [of "'']''" S t "[]"]
    framed_join [of "''{''" S "[]" "t @ ''}''"] framed_join [of "''}''" S t "[]"]
  by (simp_all add: marked_def framed_plain)

lemma quote_not_in_number: "CHR 0x22 \<notin> set (show_nat n)"
proof
  assume "CHR 0x22 \<in> set (show_nat n)"
  then have "is_digit CHR 0x22" using show_nat_digits [of n] unfolding list_all_iff by blast
  then show False by (simp add: is_digit_def)
qed

lemma framed_number: "framed S (show_int i)"
  by (rule framed_plain) (simp add: show_int_def quote_not_in_number)

lemma framed_stringify:
  "(\<And>s. s \<in> json_strings v \<Longrightarrow> plain_text s \<and> s \<in> S) \<Longrightarrow> framed S (stringify v)"
proof (induction v)
  case (JArr vs)
  then have "framed S (join_comma (map stringify vs))" by (intro framed_commas) auto
  then show ?case by (simp only: stringify.simps framed_bracket)
next
  case (JObj kvs)
  have member: "framed S (json_quote k @ '':'' @ stringify v)" if "(k, v) \<in> set kvs" for k v
  proof (rule framed_join)
    show "framed S (json_quote k)" using JObj.prems [of k] that by (intro framed_quoted) force+
    show "framed S (stringify v)" using JObj.prems that by (intro JObj.IH [OF that]) force+
  qed (simp_all add: marked_def)
  then have "framed S (join_comma (map (\<lambda>(k, v). json_quote k @ '':'' @ stringify v) kvs))" by (intro framed_commas) auto
  then show ?case by (simp only: stringify.simps framed_bracket)
qed (auto simp: framed_plain framed_quoted framed_number)

text \<open>The gate is exact on documents without quotes, backslashes and control characters.\<close>

lemma leak_exact:
  assumes "\<And>s. s \<in> json_strings v \<Longrightarrow> plain_text s" and "plain_text k" "\<not> marked k"
  shows "str_includes (canonicalJson v) ([CHR 0x22] @ k @ [CHR 0x22]) \<longleftrightarrow> k \<in> json_strings v"
proof
  assume "k \<in> json_strings v"
  then show "str_includes (canonicalJson v) ([CHR 0x22] @ k @ [CHR 0x22])"
    using stringify_contains [of k "sort_members v"] plain_text_quote [OF assms(2)] 
    by (simp add: canonicalJson_def sort_members_strings)
next
  assume "str_includes (canonicalJson v) ([CHR 0x22] @ k @ [CHR 0x22])"
  moreover have "CHR 0x22 \<notin> set k" using assms(2) by (auto simp: plain_text_def list_all_iff)
  ultimately have "k \<in> set (inner_segments (canonicalJson v))" by (rule included_segment)
  moreover have "framed (json_strings v) (canonicalJson v)"
    unfolding canonicalJson_def by (rule framed_stringify) (simp add: sort_members_strings assms(1))
  ultimately show "k \<in> json_strings v" using assms(3) unfolding framed_def by blast
qed

subsection \<open>What an accepted receipt binds\<close>

lemma null_or_members [simp]:
  "sort_members (null_or JStr x) = null_or JStr x" "sort_members (null_or JNum n) = null_or JNum n"
  "null_or JStr x = null_or JStr y \<longleftrightarrow> x = y" "null_or JNum n = null_or JNum k \<longleftrightarrow> n = k"
  by (auto simp: null_or_def split: option.splits)

lemma event_members_inj:
  "sort_members (chronology_event_json e) = sort_members (chronology_event_json f) \<longleftrightarrow> e = f"
proof (cases e, cases f)
  fix o1 k1 t1 o2 k2 t2 assume "e = (o1, k1, t1)" "f = (o2, k2, t2)"
  then show ?thesis
    by (simp add: chronology_event_json_def sort_members_record del: sort_members.simps(2))
qed

lemma events_inj: "map (sort_members \<circ> chronology_event_json) es = map (sort_members \<circ> chronology_event_json) fs \<longleftrightarrow> es = fs"
  by (rule inj_map_eq_map) (simp add: inj_def event_members_inj)

lemma texts_members: "map (sort_members \<circ> JStr) xs = map JStr xs"
  by simp

lemma texts_inj: "map JStr xs = map JStr ys \<longleftrightarrow> xs = ys"
  by (rule inj_map_eq_map) (simp add: inj_def)

lemma receipt_members_inj:
  fixes b c :: CustomSupervisedReceiptBody
  assumes "sort_members (JObj (receipt_members b)) = sort_members (JObj (receipt_members c))"
  shows "b = c"
proof -
  have "map (\<lambda>kv. sort_members (snd kv)) (receipt_members b) = map (\<lambda>kv. sort_members (snd kv)) (receipt_members c)"
    using assms by (subst (asm) sort_members_record) (simp_all add: receipt_members_def)
  then show ?thesis
    unfolding receipt_members_def
    by (simp add: sort_members_record texts_members texts_inj events_inj prod_eq_iff del: sort_members.simps(2))
qed

lemma receipt_digest_binds:
  "customSupervisedReceiptDigest sha b = customSupervisedReceiptDigest sha c \<longleftrightarrow> b = c
     \<or> collides sha (digest_text ''MordantCustomSupervisedReceipt/v1'' (JObj (receipt_members b)))
          (digest_text ''MordantCustomSupervisedReceipt/v1'' (JObj (receipt_members c)))"
proof -
  have "customSupervisedReceiptDigest sha b = sha256Digest sha ''MordantCustomSupervisedReceipt/v1'' (JObj (receipt_members b))"
    for b by (simp add: customSupervisedReceiptDigest_def sha256Digest_def digest_text_def)
  then show ?thesis using receipt_members_inj [of b c] by (auto simp: sha256Digest_same_domain simp del: sort_members.simps)
qed

text \<open>The text whose digest a receipt carries.\<close>

definition receipt_text :: "CustomSupervisedProtectionReceipt \<Rightarrow> string" where
  "receipt_text r = digest_text ''MordantCustomSupervisedReceipt/v1'' (JObj (receipt_members (CustomSupervisedReceiptBody.truncate r)))"

lemma receipt_determined:
  fixes r s :: CustomSupervisedProtectionReceipt
  assumes "CustomSupervisedReceiptBody.truncate r = CustomSupervisedReceiptBody.truncate s" "rc_receiptDigest r = rc_receiptDigest s"
  shows "r = s"
  using assms by (cases r, cases s) (simp add: CustomSupervisedReceiptBody.defs)

lemma accepted_receipt_cases:
  assumes "assertCustomSupervisedReceipt sha r = Inr ()"
  shows "rc_receiptDigest r = customSupervisedReceiptDigest sha (CustomSupervisedReceiptBody.truncate r)"
    and "rc_incidentState r = (if rc_conflict r then ''CONFLICT_CONFIRMED'' else ''CLEARED'')"
    and "rc_recourseOpened r = rc_conflict r"
    and "\<not> rc_conflict r \<longrightarrow> rc_recourseRefusal r = Some ''SIGNED_RESULT_FALSE''"
    and "rc_conflict r \<longrightarrow> rc_recourseRecordDigest r \<noteq> None"
    and "rc_originalReceivableState r = ''OUTSTANDING_INTACT''"
  using assms by (auto simp: assertCustomSupervisedReceipt_def ebind_eq_Inr check_eq_Inr)

text \<open>C22:
  An accepted receipt tells the governed Boolean and nothing private. Incident state, recourse and refusal
  follow the released Boolean, the receivable is intact, no private name occurs anywhere in the document as a
  member name or as a text value, and another accepted receipt with the same digest is the same receipt unless
  the digested texts of the two are a SHA-256 collision.
\<close>

theorem accepted_receipt_sound:
  assumes "assertCustomSupervisedReceipt sha r = Inr ()"
  shows "rc_incidentState r = (if rc_conflict r then ''CONFLICT_CONFIRMED'' else ''CLEARED'')
    \<and> rc_recourseOpened r = rc_conflict r
    \<and> (if rc_conflict r then rc_recourseRecordDigest r \<noteq> None else rc_recourseRefusal r = Some ''SIGNED_RESULT_FALSE'')
    \<and> rc_originalReceivableState r = ''OUTSTANDING_INTACT''
    \<and> set FORBIDDEN_RECEIPT_KEYS \<inter> json_strings (receipt_json r) = {}
    \<and> (\<forall>s. assertCustomSupervisedReceipt sha s = Inr () \<and> rc_receiptDigest s = rc_receiptDigest r
        \<longrightarrow> s = r \<or> collides sha (receipt_text s) (receipt_text r))"
proof -
  have "s = r \<or> collides sha (receipt_text s) (receipt_text r)"
    if "assertCustomSupervisedReceipt sha s = Inr ()" "rc_receiptDigest s = rc_receiptDigest r" for s
    using that accepted_receipt_cases(1) [OF assms] accepted_receipt_cases(1) [OF that(1)]
      receipt_digest_binds [of sha "CustomSupervisedReceiptBody.truncate s" "CustomSupervisedReceiptBody.truncate r"] receipt_determined [of s r]
    by (auto simp: receipt_text_def)
  with accepted_no_private [OF assms] accepted_receipt_cases [OF assms] show ?thesis by auto
qed

definition sample_receipt :: "(string \<Rightarrow> string) \<Rightarrow> bool \<Rightarrow> CustomSupervisedProtectionReceipt" where
  "sample_receipt sha conflict =
     (let body = \<lparr>rc_schemaVersion = CUSTOM_SUPERVISED_RECEIPT_SCHEMA, rc_runId = ''run'', rc_sourceCommit = [], rc_governedFheCommit = [],
        rc_executionVariant = CUSTOM_SUPERVISED_EXECUTION_VARIANT, rc_protectionBindingSchema = [], rc_protectionBindingDigest = [],
        rc_fheCaseId = [], rc_caseBindingDigest = [], rc_participantArtifactDigests = ([], []), rc_evaluatedArtifactDigest = [],
        rc_evaluatorProvenance = [], rc_decryptorProvenance = [], rc_circuitId = [], rc_parameterProfile = [],
        rc_conflict = conflict, rc_resultDigest = [], rc_releaseMode = [], rc_releaseOrdinal = 1, rc_resultCiphertextDigest = [],
        rc_independentlyRecomputedResultDigest = [], rc_incidentState = (if conflict then ''CONFLICT_CONFIRMED'' else ''CLEARED''),
        rc_recourseState = [], rc_recourseOpened = conflict,
        rc_recourseRefusal = (if conflict then None else Some ''SIGNED_RESULT_FALSE''),
        rc_recourseRecordDigest = (if conflict then Some [] else None),
        rc_originalReceivableState = ''OUTSTANDING_INTACT'', rc_clockClass = [], rc_signedAtUnix = 1, rc_events = [(1, ''K'', None)],
        rc_disclosures = take 3 (currentCustomReceiptDisclosures OPERATOR) @ [LEGACY_CUSTOM_RECEIPT_BOOLEAN_AUTHORITY_DISCLOSURE]\<rparr>
      in CustomSupervisedReceiptBody.extend body (CustomSupervisedProtectionReceipt.fields (customSupervisedReceiptDigest sha body)))"

lemma list_all_replicate: "list_all P (replicate n x) \<longleftrightarrow> n = 0 \<or> P x"
  by (auto simp: list_all_iff)

lemma sample_receipt_plain:
  "\<forall>s \<in> json_strings (receipt_json (sample_receipt zero_sha True)). plain_text s \<and> s \<notin> set FORBIDDEN_RECEIPT_KEYS"
  by (simp add: receipt_json_def receipt_members_def sample_receipt_def Let_def CustomSupervisedReceiptBody.defs
      CustomSupervisedProtectionReceipt.defs customSupervisedReceiptDigest_def zero_sha_def chronology_event_json_def null_or_def
      currentCustomReceiptDisclosures_def FORBIDDEN_RECEIPT_KEYS_def plain_text_def
      CUSTOM_RECEIPT_EXECUTION_DISCLOSURE_def CUSTOM_RECEIPT_OPERATOR_DISCLOSURE_def CUSTOM_RECEIPT_DECRYPTOR_DISCLOSURE_def
      LEGACY_CUSTOM_RECEIPT_BOOLEAN_AUTHORITY_DISCLOSURE_def CUSTOM_SUPERVISED_RECEIPT_SCHEMA_def
      CUSTOM_SUPERVISED_EXECUTION_VARIANT_def list_all_replicate)

lemma forbidden_plain: "\<forall>k \<in> set FORBIDDEN_RECEIPT_KEYS. plain_text k \<and> \<not> marked k"
  by code_simp

lemma sample_receipt_accepted: "assertCustomSupervisedReceipt zero_sha (sample_receipt zero_sha True) = Inr ()"
proof -
  have "no_private_leak (canonicalJson (receipt_json (sample_receipt zero_sha True))) FORBIDDEN_RECEIPT_KEYS = Inr ()"
    unfolding no_private_leak_ok using leak_exact sample_receipt_plain forbidden_plain by metis
  moreover have "classifyCustomReceiptDisclosures (VArray (map VString (rc_disclosures (sample_receipt zero_sha True)))) = Some LEGACY"
    by (simp add: sample_receipt_def Let_def CustomSupervisedReceiptBody.defs classifyCustomReceiptDisclosures_def currentCustomReceiptDisclosures_def js_index_def isIntakeDisclosure_def)
  ultimately show ?thesis
    by (simp add: assertCustomSupervisedReceipt_def sample_receipt_def Let_def CustomSupervisedReceiptBody.defs
        CustomSupervisedProtectionReceipt.defs)
qed

theorem accepted_receipt_sound_witness:
  "assertCustomSupervisedReceipt zero_sha (sample_receipt zero_sha True) = Inr ()
   \<and> set FORBIDDEN_RECEIPT_KEYS \<inter> json_strings (receipt_json (sample_receipt zero_sha True)) = {}
   \<and> rc_incidentState (sample_receipt zero_sha True) = ''CONFLICT_CONFIRMED''"
  using accepted_receipt_sound [OF sample_receipt_accepted] sample_receipt_accepted
  by (simp add: sample_receipt_def Let_def CustomSupervisedReceiptBody.defs CustomSupervisedProtectionReceipt.defs)

end
