(* ===== verification/Engine_State.thy ===== *)
theory Engine_State
  imports Recourse_Policy Settlement_Store Coalition_Evidence Custom_Receipt Admission_Service
begin

text \<open>
  The state of the protection engine (\<^verbatim>\<open>governed-fhe-product-server.ts\<close>): the execution record of a run, what
  may be read back of it, and the pure decisions the operations are made of: disk preflight, authorization
  binding, pledge derivation, participant keys and views.

  The world of the engine is the one of the admission service. Beside the shared admission ledger it holds the
  files the server itself writes (execution records, operation journals, settlement profiles, participant keys,
  transient JSON) and \<open>'e\<close>: the directories of the Go commands, the clock and the random source. A Go command may
  read all of it and changes \<open>'e\<close> only.
\<close>

subsection \<open>Stages and outputs\<close>

datatype ExecutionStage =
    Stage_CASE_CREATED | Stage_MATCH_PREPARED | Stage_PARTICIPANT_A_SUBMITTED | Stage_PARTICIPANT_B_PUBLISHED
  | Stage_PARTICIPANT_B_SUBMITTED | Stage_EVALUATED | Stage_RELEASED | Stage_RECOURSE_OPENED
  | Stage_CHRONOLOGY_COMPLETE | Stage_COMPLETE | Stage_ABORTED

fun stage_name :: "ExecutionStage \<Rightarrow> string" where
  "stage_name Stage_CASE_CREATED = ''CASE_CREATED''"
| "stage_name Stage_MATCH_PREPARED = ''MATCH_PREPARED''"
| "stage_name Stage_PARTICIPANT_A_SUBMITTED = ''PARTICIPANT_A_SUBMITTED''"
| "stage_name Stage_PARTICIPANT_B_PUBLISHED = ''PARTICIPANT_B_PUBLISHED''"
| "stage_name Stage_PARTICIPANT_B_SUBMITTED = ''PARTICIPANT_B_SUBMITTED''"
| "stage_name Stage_EVALUATED = ''EVALUATED''"
| "stage_name Stage_RELEASED = ''RELEASED''"
| "stage_name Stage_RECOURSE_OPENED = ''RECOURSE_OPENED''"
| "stage_name Stage_CHRONOLOGY_COMPLETE = ''CHRONOLOGY_COMPLETE''"
| "stage_name Stage_COMPLETE = ''COMPLETE''"
| "stage_name Stage_ABORTED = ''ABORTED''"

record KeygenOutput =
  kg_bindingDigest :: string
  kg_protectionBindingDigest :: string
  kg_durationNanos :: int
  kg_report :: jsval

record SubmissionArtifact =
  so_artifactDigest :: string
  so_ciphertextBytes :: int
  so_artifactBytes :: int

record SubmissionOutput = SubmissionArtifact +
  so_durationNanos :: int

record EvaluationArtifact =
  ev_artifactDigest :: string
  ev_resultBytes :: int
  ev_artifactBytes :: int

record EvaluationOutput = EvaluationArtifact +
  ev_durationNanos :: int

record TrustedRecoursePins =
  tp_participantArtifactDigestA :: string
  tp_participantArtifactDigestB :: string
  tp_evaluatedArtifactDigest :: string
  tp_recomputedResultCiphertextDigest :: string
  tp_resultCiphertextCommitment :: string
  tp_decryptorProvenance :: string
  tp_releaseMode :: string
  tp_releaseAuthorityId :: string

record ReleaseArtifact =
  ro_resultDigest :: string
  ro_conflict :: bool
  ro_releaseMode :: string
  ro_resultBytes :: int
  ro_exactRetry :: bool
  ro_trustedRecoursePins :: TrustedRecoursePins

record ReleaseOutput = ReleaseArtifact +
  ro_durationNanos :: int

record CoalitionReleaseOutput =
  cl_resultDigest :: string
  cl_sameEconomicAsset :: bool
  cl_policyConflict :: bool
  cl_releaseMode :: string
  cl_releaseAuthorityId :: string
  cl_threshold :: int
  cl_coalition :: "int list"
  cl_operatorTopology :: string
  cl_durationNanos :: int
  cl_resultBytes :: int
  cl_exactRetry :: bool

record CoalitionCliOutput =
  ci_resultDigest :: string
  ci_sameEconomicAsset :: bool
  ci_policyConflict :: bool
  ci_releaseMode :: string
  ci_durationNanos :: int
  ci_resultBytes :: int

datatype settlement_status = EXECUTION_READY | NO_CONFLICT_NO_SETTLEMENT

record CoalitionSettlementProjection =
  cp_status :: settlement_status
  cp_settlementProfileDigest :: string
  cp_planHash :: "string option"
  cp_authorizationHash :: "string option"

record CoalitionInspection =
  in_resultDigest :: string
  in_sameEconomicAsset :: bool
  in_policyConflict :: bool
  in_resultBytes :: int

record ProductInspection =
  pi_foundation :: "(string \<times> jsval) option"
  pi_submissionA :: "SubmissionArtifact option"
  pi_submissionB :: "SubmissionArtifact option"
  pi_finalized :: bool
  pi_evaluationAdmission :: bool
  pi_evaluation :: "EvaluationArtifact option"
  pi_releaseAdmission :: bool
  pi_foundationPrivateComplete :: bool
  pi_releasePrivateComplete :: bool
  pi_release :: "ReleaseArtifact option"
  pi_coalitionRelease :: "CoalitionInspection option"
  pi_recourse :: "jsval option"
  pi_protectionBindingDigest :: "string option"
  pi_evidence :: "jsval option"
  pi_ambiguous :: bool
  pi_ambiguousReason :: "string option"

subsection \<open>The execution record\<close>

record run_paths =
  pa_root :: string
  pa_publicRoot :: string
  pa_decryptorPrivateRoot :: string
  pa_participantPrivateRoot :: string
  pa_coalitionOperatorRoots :: "string list option"
  pa_coalitionLedgerRoot :: "string option"

text \<open>
  An absent \<open>submissions\<close> or \<open>admittedClaims\<close> object and one without members are read alike, so both are maps.
  \<open>recourse\<close> is what the recourse command printed, with whatever keys it has.
\<close>

record InternalState =
  is_runId :: string
  is_stage :: ExecutionStage
  is_protectionCase :: MordantProtectionCase
  is_paths :: run_paths
  is_participantKeys :: "(ParticipantRole \<Rightarrow> string) option"
  is_keygen :: "KeygenOutput option"
  is_submissions :: "ParticipantRole \<rightharpoonup> SubmissionOutput"
  is_evaluation :: "EvaluationOutput option"
  is_release :: "ReleaseOutput option"
  is_coalitionRelease :: "CoalitionReleaseOutput option"
  is_coalitionSettlement :: "CoalitionSettlementProjection option"
  is_recourse :: "jsval option"
  is_evidence :: "jsval option"
  is_abortedReason :: "string option"
  is_startedAtUnix :: int
  is_supervisedPledgeWindows :: "SupervisedPledgeWindows option"
  is_admittedClaims :: "ParticipantRole \<rightharpoonup> AdmittedParticipantClaim"
  is_executionVariant :: "string option"
  is_governedRecoursePolicySelection :: "GovernedRecoursePolicySelection jsobject option"
  is_governedActionPlan :: "GovernedActionPlan jsobject option"
  is_governedRecourseOperation :: "GovernedRecourseOperationRecord jsobject option"
  is_customReceipt :: "CustomSupervisedProtectionReceipt option"

text \<open>A participant key file is a regular file with one link, or some other node.\<close>

datatype key_file = RegularFile string | OtherNode

record 'e engine =
  en_states :: "InternalState disk"
  en_journal :: "ProductOperationJournal disk"
  en_run :: run_disk
  en_keys :: "string \<rightharpoonup> key_file"
  en_json :: "jsval disk"
  en_locks :: "string list"
  en_go :: 'e

type_synonym 'e engine_world = "'e engine world"

text \<open>What is outside the server: it may look at the whole world, and changes \<open>'e\<close>.\<close>

type_synonym ('e, 'a) external = "'e engine_world \<Rightarrow> 'e \<times> 'a result"

definition with_go :: "'e \<Rightarrow> 'e engine_world \<Rightarrow> 'e engine_world" where
  "with_go e w = w\<lparr>w_env := (w_env w)\<lparr>en_go := e\<rparr>\<rparr>"

definition external_call :: "('e, 'a) external \<Rightarrow> ('e engine_world, 'a) action" where
  "external_call f w = (let (e, r) = f w in (with_go e w, r))"

record 'e ProtectionRuntime =
  rt_runRoot :: string
  rt_binRoot :: string
  rt_sha :: "string \<Rightarrow> string"
  rt_keccak :: "string \<Rightarrow> string"
  rt_ed25519 :: "string \<Rightarrow> string \<Rightarrow> string \<Rightarrow> bool"
  rt_directParticipantAdmissionEnabled :: bool
  rt_skipBinaryBuild :: bool
  rt_production :: bool
  rt_now :: "'e engine_world \<Rightarrow> 'e \<times> int"
  rt_randomUUID :: "'e engine_world \<Rightarrow> 'e \<times> string"
  rt_caseNonce :: "'e engine_world \<Rightarrow> 'e \<times> string"
  rt_writer :: "'e engine_world \<Rightarrow> writer"
  rt_failpoint :: "string \<Rightarrow> ('e, unit) external"
  rt_generateKeyPair :: "('e, string) external"
  rt_statfsAvailableBytes :: "(string \<Rightarrow> 'e engine_world \<Rightarrow> int) option"
  rt_statfs :: "string \<Rightarrow> 'e engine_world \<Rightarrow> int \<times> int"
  rt_exists :: "'e \<Rightarrow> string \<Rightarrow> bool"
  rt_build :: "string \<Rightarrow> ('e, unit) external"
  rt_keygen_create :: "string list \<Rightarrow> ('e, KeygenOutput) external"
  rt_keygen_finalize :: "string list \<Rightarrow> ('e, unit) external"
  rt_client :: "string list \<Rightarrow> ('e, SubmissionOutput) external"
  rt_evaluator :: "string list \<Rightarrow> ('e, EvaluationOutput) external"
  rt_decryptor :: "string list \<Rightarrow> ('e, ReleaseOutput) external"
  rt_coalition_decryptor :: "string list \<Rightarrow> ('e, CoalitionCliOutput) external"
  rt_recourse :: "string list \<Rightarrow> ('e, jsval) external"
  rt_inspect :: "string list \<Rightarrow> ('e, ProductInspection) external"
  rt_readJson :: "'e \<Rightarrow> string \<Rightarrow> jsval result"
  rt_readGovernedResult :: "'e \<Rightarrow> string \<Rightarrow> GovernedSignedResult jsobject result"
  rt_readCoalitionResult :: "'e \<Rightarrow> string \<Rightarrow> CoalitionConflictResult result"
  rt_readThresholdManifest :: "'e \<Rightarrow> string \<Rightarrow> CoalitionThresholdManifest result"
  rt_readFile :: "'e \<Rightarrow> string \<Rightarrow> string result"
  rt_participantConfig :: "'e \<Rightarrow> string option"
  rt_loadConfiguration :: "'e \<Rightarrow> string \<Rightarrow> CanonicalRecourseConfiguration result"
  rt_recoverEvidence :: "InternalState \<Rightarrow> ProductInspection \<Rightarrow> ('e, jsval option) external"
  rt_retained :: "InternalState \<Rightarrow> ProductOperationRecord \<Rightarrow> ('e, bool) external"

abbreviation product_error :: "string \<Rightarrow> nat \<Rightarrow> merror" where
  "product_error \<equiv> ProtectionProductError"

definition engine_go :: "'e engine_world \<Rightarrow> 'e" where
  "engine_go w = en_go (w_env w)"

definition now_ms :: "'e ProtectionRuntime \<Rightarrow> ('e engine_world, int) action" where
  "now_ms rt = external_call (\<lambda>w. let (e, t) = rt_now rt w in (e, Inr t))"

definition now_iso :: "'e ProtectionRuntime \<Rightarrow> ('e engine_world, string) action" where
  "now_iso rt = abind (now_ms rt) (\<lambda>t. alift (Inr (toISOString t)))"

definition path_join :: "string \<Rightarrow> string \<Rightarrow> string" where
  "path_join a b = a @ ''/'' @ b"

subsection \<open>Disk space\<close>

definition estimatedCaseBytes :: int where "estimatedCaseBytes = 576716800"
definition twoCaseRetainedBytes :: int where "twoCaseRetainedBytes = 1153433600"
definition retainedEvidenceBytes :: int where "retainedEvidenceBytes = 131072"
definition safetyMarginBytes :: int where "safetyMarginBytes = 1610612736"
definition binaryAndCacheBytes :: int where "binaryAndCacheBytes = 805306368"

record DiskPreflight =
  dk_availableBytes :: int
  dk_estimatedCaseBytes :: int
  dk_safetyMarginBytes :: int
  dk_requiredBytes :: int
  dk_sufficient :: bool

definition evaluateDiskSpace :: "int \<Rightarrow> int \<Rightarrow> int \<Rightarrow> DiskPreflight" where
  "evaluateDiskSpace availableBytes estimated safety =
     (let requiredBytes = estimated + safety
      in \<lparr>dk_availableBytes = availableBytes, dk_estimatedCaseBytes = estimated, dk_safetyMarginBytes = safety,
          dk_requiredBytes = requiredBytes, dk_sufficient = (isSafeInteger availableBytes \<and> availableBytes \<ge> requiredBytes)\<rparr>)"

definition diskSpacePreflight :: "'e ProtectionRuntime \<Rightarrow> string \<Rightarrow> int \<Rightarrow> int \<Rightarrow> 'e engine_world \<Rightarrow> DiskPreflight" where
  "diskSpacePreflight rt root estimated safety w =
     (let available = (case rt_statfsAvailableBytes rt of
            Some f \<Rightarrow> f root w
          | None \<Rightarrow> (let (bavail, bsize) = rt_statfs rt root w; a = bavail * bsize
                     in if a > MAX_SAFE_INTEGER then MAX_SAFE_INTEGER else a))
      in evaluateDiskSpace available estimated safety)"

definition assertDiskSpace :: "'e ProtectionRuntime \<Rightarrow> ('e engine_world, unit) action" where
  "assertDiskSpace rt = areads (\<lambda>w.
     check (dk_sufficient (diskSpacePreflight rt (rt_runRoot rt) estimatedCaseBytes safetyMarginBytes w))
       (product_error ''Insufficient disk for one N15 case'' 507))"

definition assertBinaryBuildSpace :: "'e ProtectionRuntime \<Rightarrow> ('e engine_world, unit) action" where
  "assertBinaryBuildSpace rt = areads (\<lambda>w.
     check (dk_sufficient (diskSpacePreflight rt (rt_binRoot rt) binaryAndCacheBytes 0 w))
       (product_error ''Insufficient disk for governed-FHE command binaries'' 507))"

subsection \<open>Commands\<close>

definition BINARIES :: "string list" where
  "BINARIES = [''mordant-fhe-keygen'', ''mordant-fhe-client'', ''mordant-fhe-evaluator'', ''mordant-fhe-decryptor'',
     ''mordant-fhe-recourse'', ''mordant-fhe-inspect'', ''mordant-fhe-retain'']"

definition pathForBinary :: "'e ProtectionRuntime \<Rightarrow> string \<Rightarrow> string" where
  "pathForBinary rt binary = path_join (rt_binRoot rt) binary"

fun build_missing :: "'e ProtectionRuntime \<Rightarrow> string list \<Rightarrow> ('e engine_world, unit) action" where
  "build_missing rt [] = alift (Inr ())"
| "build_missing rt (b # bs) = abind (areads (\<lambda>w. Inr (rt_exists rt (engine_go w) (pathForBinary rt b)))) (\<lambda>there.
     abind (if there then alift (Inr ()) else external_call (rt_build rt b)) (\<lambda>_. build_missing rt bs))"

definition ensureBinaries :: "'e ProtectionRuntime \<Rightarrow> ('e engine_world, unit) action" where
  "ensureBinaries rt =
     (if rt_skipBinaryBuild rt then alift (Inr ())
      else abind (areads (\<lambda>w. Inr (list_all (\<lambda>b. rt_exists rt (engine_go w) (pathForBinary rt b)) BINARIES))) (\<lambda>all.
        if all then alift (Inr ())
        else if rt_production rt then alift (Inl (product_error ''Local BGV execution is unavailable in the deployed web runtime'' 404))
        else build_missing rt BINARIES))"

text \<open>A command that fails, or prints no JSON, is one error.\<close>

definition runJSON :: "('e, 'a) external \<Rightarrow> ('e engine_world, 'a) action" where
  "runJSON f w = (case external_call f w of
     (w', Inr x) \<Rightarrow> (w', Inr x) | (w', Inl _) \<Rightarrow> (w', Inl (product_error ''Governed FHE operation failed'' 500)))"

subsection \<open>Instants as text\<close>

text \<open>\<open>Date.parse\<close> on the two layouts \<open>toISOString\<close> prints; other texts are \<open>NaN\<close> here.\<close>

definition days_from_civil :: "int \<Rightarrow> int \<Rightarrow> int \<Rightarrow> int" where
  "days_from_civil y m d =
     (let y' = (if m \<le> 2 then y - 1 else y); era = y' div 400; yoe = y' mod 400;
          doy = (153 * (if m > 2 then m - 3 else m + 9) + 2) div 5 + d - 1;
          doe = yoe * 365 + yoe div 4 - yoe div 100 + doy
      in era * 146097 + doe - 719468)"

definition ISO_TAIL :: "(char \<Rightarrow> bool) list" where
  "ISO_TAIL = lit ''-'' @ replicate 2 is_digit @ lit ''-'' @ replicate 2 is_digit @ lit ''T'' @ replicate 2 is_digit @ lit '':''
     @ replicate 2 is_digit @ lit '':'' @ replicate 2 is_digit @ lit ''.'' @ replicate 3 is_digit @ lit ''Z''"

definition digits_at :: "nat \<Rightarrow> nat \<Rightarrow> string \<Rightarrow> int" where
  "digits_at i n s = int (read_nat (take n (drop i s)))"

definition date_parse :: "string \<Rightarrow> int option" where
  "date_parse s =
     (let long = (length s = 27 \<and> (hd s = CHR ''+'' \<or> hd s = CHR ''-''));
          head = (if long then take 6 (tl s) else take 4 s); tail = drop (if long then 7 else 4) s;
          year = (if long \<and> hd s = CHR ''-'' then - int (read_nat head) else int (read_nat head))
      in if fixed_regex (replicate (length head) is_digit @ ISO_TAIL) (head @ tail)
         then Some (days_from_civil year (digits_at 1 2 tail) (digits_at 4 2 tail) * 86400000 + digits_at 7 2 tail * 3600000
                + digits_at 10 2 tail * 60000 + digits_at 13 2 tail * 1000 + digits_at 16 3 tail)
         else None)"

definition unix :: "string \<Rightarrow> int option" where
  "unix t = map_option (\<lambda>ms. ms div 1000) (date_parse t)"

subsection \<open>Reading the execution record\<close>

definition assertRunId :: "string \<Rightarrow> unit result" where
  "assertRunId runId = check (fixed_regex UUID_PATTERN runId) (product_error ''Invalid protection run id'' 400)"

definition run_directory :: "'e ProtectionRuntime \<Rightarrow> string \<Rightarrow> string" where
  "run_directory rt runId = path_join (rt_runRoot rt) runId"

definition state_file :: "'e ProtectionRuntime \<Rightarrow> string \<Rightarrow> string" where
  "state_file rt runId = path_join (run_directory rt runId) ''execution.json''"

definition statePath :: "'e ProtectionRuntime \<Rightarrow> string \<Rightarrow> string result" where
  "statePath rt runId = ebind (assertRunId runId) (\<lambda>_. Inr (state_file rt runId))"

definition governedOperationAuthorizationForState ::
  "(string \<Rightarrow> string) \<Rightarrow> InternalState \<Rightarrow> GovernedRecourseOperationAuthorization option result" where
  "governedOperationAuthorizationForState sha s =
     (case (is_governedRecoursePolicySelection s, is_governedActionPlan s) of
        (Some selection, Some plan) \<Rightarrow>
          ebind (authorizeManagedDemoGovernedRecourseOperation sha selection plan) (\<lambda>a. Inr (Some a))
      | _ \<Rightarrow> Inr None)"

text \<open>The authorization as it is retained in the journal, and read back from there.\<close>

definition authorization_object :: "GovernedRecourseOperationAuthorization \<Rightarrow> json" where
  "authorization_object a = (case authorization_json (GovernedRecourseOperationAuthorizationBody.truncate a) of
     JObj kvs \<Rightarrow> JObj (kvs @ [(''authorizationHash'', JStr (ga_authorizationHash a))]) | v \<Rightarrow> v)"

definition json_text :: "string \<Rightarrow> json \<Rightarrow> string option" where
  "json_text k v = (case json_member k v of Some (JStr s) \<Rightarrow> Some s | _ \<Rightarrow> None)"

definition json_null_or_number :: "string \<Rightarrow> json \<Rightarrow> int option option" where
  "json_null_or_number k v = (case json_member k v of Some JNull \<Rightarrow> Some None | Some (JNum i) \<Rightarrow> Some (Some i) | _ \<Rightarrow> None)"

definition authorization_of_json :: "json \<Rightarrow> GovernedRecourseOperationAuthorization jsobject option" where
  "authorization_of_json v =
     (case (v, json_text ''schemaVersion'' v, json_text ''caseId'' v, json_text ''policySelectionHash'' v, json_text ''planHash'' v,
            json_text ''resultDigest'' v, json_text ''selectedGovernedAction'' v, json_null_or_number ''cureWindowSeconds'' v,
            json_text ''deadlineRule'' v, json_text ''settlementAuthorization'' v, json_text ''authorizationHash'' v) of
        (JObj kvs, Some a, Some b, Some c, Some d, Some e, Some f, Some g, Some h, Some i, Some j) \<Rightarrow>
          Some (plain_object (map fst kvs)
            (GovernedRecourseOperationAuthorizationBody.extend
              \<lparr>ga_schemaVersion = a, ga_caseId = b, ga_policySelectionHash = c, ga_planHash = d, ga_resultDigest = e,
               ga_selectedGovernedAction = f, ga_cureWindowSeconds = g, ga_deadlineRule = h, ga_settlementAuthorization = i\<rparr>
              (GovernedRecourseOperationAuthorization.fields j)))
      | _ \<Rightarrow> None)"

text \<open>A retained object that is not shaped like an authorization is none the verifier accepts.\<close>

definition verify_retained ::
  "(string \<Rightarrow> string) \<Rightarrow> json \<Rightarrow> GovernedRecoursePolicySelection jsobject \<Rightarrow> GovernedActionPlan jsobject \<Rightarrow> string result" where
  "verify_retained sha retained selection plan =
     (case authorization_of_json retained of
        None \<Rightarrow> Inl (policy_error ''AUTHORIZATION_FIELDS'')
      | Some a \<Rightarrow> ebind (verifyManagedDemoGovernedRecourseOperationAuthorization sha a selection plan)
          (\<lambda>_. Inr (ga_authorizationHash (ob_view a))))"

definition is_object :: "json option \<Rightarrow> bool" where
  "is_object v = (case v of Some (JObj _) \<Rightarrow> True | _ \<Rightarrow> False)"

definition assertGovernedOperationJournalBinding ::
  "'e ProtectionRuntime \<Rightarrow> InternalState \<Rightarrow> GovernedRecourseOperationRecord \<Rightarrow> GovernedRecourseOperationAuthorization
     \<Rightarrow> 'e engine_world \<Rightarrow> unit result" where
  "assertGovernedOperationJournalBinding rt s operationRecord authorization w =
     ebind (readOperationJournal (rt_sha rt) (rt_runRoot rt) (en_journal (w_env w)) (is_runId s)) (\<lambda>journal.
     case find (\<lambda>r. jr_operationId r = go_operationId operationRecord) (jj_records journal) of
       None \<Rightarrow> Inl (product_error ''Governed recourse operation journal binding rejected'' 500)
     | Some r \<Rightarrow>
         let retained = json_member ''governedActionAuthorization'' (jr_immutableParameters r) in
         ebind (check (\<not> (jr_operation r \<noteq> Op_openRecourseCase \<or> jr_phase r \<noteq> OPENING_RECOURSE \<or> jr_outcome r = OUTCOME_ABORTED
             \<or> jr_immutableParametersDigest r \<noteq> go_operationParametersDigest operationRecord \<or> \<not> is_object retained))
           (product_error ''Governed recourse operation journal binding rejected'' 500)) (\<lambda>_.
         case (retained, is_governedRecoursePolicySelection s, is_governedActionPlan s) of
           (Some v, Some selection, Some plan) \<Rightarrow>
             ebind (verify_retained (rt_sha rt) v selection plan) (\<lambda>h.
             check (\<not> (h \<noteq> ga_authorizationHash authorization
                 \<or> go_operationAuthorizationHash operationRecord \<noteq> ga_authorizationHash authorization))
               (product_error ''Governed recourse operation authorization binding rejected'' 500))
         | _ \<Rightarrow> Inl DependencyError))"

definition coalition_case :: "InternalState \<Rightarrow> bool" where
  "coalition_case s \<longleftrightarrow> pc_releaseMode (is_protectionCase s) = COALITION_RELEASE_MODE"

text \<open>The consistency of the two release paths, of the policy chain and of the recorded operation.\<close>

definition assert_release_paths :: "InternalState \<Rightarrow> unit result" where
  "assert_release_paths s =
     ebind (if coalition_case s
       then check (\<not> (is_release s \<noteq> None \<or> is_recourse s \<noteq> None \<or> is_governedActionPlan s \<noteq> None))
         (product_error ''A coalition case cannot carry governed-decryptor release state'' 500)
       else check (\<not> (is_coalitionRelease s \<noteq> None \<or> is_coalitionSettlement s \<noteq> None))
         (product_error ''A governed case cannot carry coalition release state'' 500)) (\<lambda>_.
     case is_coalitionRelease s of
       Some release \<Rightarrow>
         ebind (check (\<not> (cl_policyConflict release \<and> \<not> cl_sameEconomicAsset release))
           (product_error ''Coalition release state carries the non-canonical bit combination'' 500)) (\<lambda>_.
         (case is_coalitionSettlement s of
            None \<Rightarrow> Inl (product_error ''Coalition settlement projection binding rejected'' 500)
          | Some settlement \<Rightarrow> check ((cp_status settlement = EXECUTION_READY) = cl_policyConflict release)
              (product_error ''Coalition settlement projection binding rejected'' 500)))
     | None \<Rightarrow> check (is_coalitionSettlement s = None)
         (product_error ''Coalition settlement projection without a release rejected'' 500))"

definition assert_policy_chain :: "(string \<Rightarrow> string) \<Rightarrow> InternalState \<Rightarrow> unit result" where
  "assert_policy_chain sha s =
     ebind (case is_governedRecoursePolicySelection s of
         None \<Rightarrow> Inr ()
       | Some selection \<Rightarrow>
           ebind (verifyManagedDemoGovernedRecoursePolicySelection sha selection) (\<lambda>_.
           check (gs_caseId (ob_view selection) = pc_fheCaseId (is_protectionCase s))
             (product_error ''Governed recourse policy case binding rejected'' 500))) (\<lambda>_.
     ebind (case is_governedActionPlan s of
         None \<Rightarrow> Inr ()
       | Some plan \<Rightarrow>
           ebind (verifyManagedDemoGovernedActionPlan sha plan) (\<lambda>_.
           (case (is_governedRecoursePolicySelection s, is_release s) of
              (Some selection, Some release) \<Rightarrow>
                check (\<not> (gp_policySelectionHash (ob_view plan) \<noteq> gs_selectionHash (ob_view selection)
                    \<or> gp_resultDigest (ob_view plan) \<noteq> ro_resultDigest release
                    \<or> gp_resultOutcome (ob_view plan) \<noteq> (if ro_conflict release then ''CONFLICT'' else ''NO_CONFLICT'')))
                  (product_error ''Governed action plan binding rejected'' 500)
            | _ \<Rightarrow> Inl (product_error ''Governed action plan binding rejected'' 500)))) (\<lambda>_.
     check (\<not> (is_governedRecoursePolicySelection s \<noteq> None \<and> is_release s \<noteq> None \<and> is_governedActionPlan s = None))
       (product_error ''Governed action plan is missing after release'' 500)))"

definition assert_recorded_operation :: "'e ProtectionRuntime \<Rightarrow> InternalState \<Rightarrow> 'e engine_world \<Rightarrow> unit result" where
  "assert_recorded_operation rt s w =
     ebind (governedOperationAuthorizationForState (rt_sha rt) s) (\<lambda>authorization.
     ebind (case is_governedRecourseOperation s of
         None \<Rightarrow> Inr ()
       | Some ob \<Rightarrow>
           (case (authorization, is_recourse s) of
              (Some a, Some recourse) \<Rightarrow>
                ebind (verifyManagedDemoGovernedRecourseOperationRecord (rt_sha rt) ob) (\<lambda>_.
                ebind (recordManagedDemoGovernedRecourseOperation (rt_sha rt) a (go_operationId (ob_view ob))
                  (go_operationParametersDigest (ob_view ob)) recourse) (\<lambda>expected.
                ebind (check (go_operationRecordHash (ob_view ob) = go_operationRecordHash expected)
                  (product_error ''Governed recourse operation outcome binding rejected'' 500)) (\<lambda>_.
                assertGovernedOperationJournalBinding rt s (ob_view ob) a w)))
            | _ \<Rightarrow> Inl (product_error ''Governed recourse operation context rejected'' 500))) (\<lambda>_.
     check (\<not> (is_governedRecoursePolicySelection s \<noteq> None \<and> is_recourse s \<noteq> None \<and> is_governedRecourseOperation s = None))
       (product_error ''Governed recourse operation authorization record is missing'' 500)))"

definition loadStateRaw :: "'e ProtectionRuntime \<Rightarrow> string \<Rightarrow> 'e engine_world \<Rightarrow> InternalState result" where
  "loadStateRaw rt runId w =
     ebind (statePath rt runId) (\<lambda>path.
     case en_states (w_env w) path of
       None \<Rightarrow> Inl (product_error ''Protection case not found'' 404)
     | Some Torn \<Rightarrow> Inl SyntaxError
     | Some (Whole s) \<Rightarrow>
         ebind (check (\<not> (is_runId s \<noteq> runId \<or> pa_root (is_paths s) \<noteq> run_directory rt runId))
           (product_error ''Protection execution record rejected'' 500)) (\<lambda>_.
         ebind (assertProtectionAssetBinding (rt_sha rt) (is_protectionCase s) (CANONICAL_CLEANVERSE_ASSET_DIGEST (rt_sha rt))) (\<lambda>_.
         ebind (assert_release_paths s) (\<lambda>_.
         ebind (assert_policy_chain (rt_sha rt) s) (\<lambda>_.
         ebind (assert_recorded_operation rt s w) (\<lambda>_.
         ebind (case is_customReceipt s of None \<Rightarrow> Inr () | Some receipt \<Rightarrow> assertCustomSupervisedReceipt (rt_sha rt) receipt) (\<lambda>_.
         Inr s)))))))"

definition saveState :: "'e ProtectionRuntime \<Rightarrow> InternalState \<Rightarrow> ('e engine_world, InternalState) action" where
  "saveState rt s w =
     (case ebind (statePath rt (is_runId s)) (\<lambda>path.
             writeDurableJsonAtomic path (fst (rt_writer rt w)) (snd (rt_writer rt w)) s (en_states (w_env w))) of
        Inl e \<Rightarrow> (w, Inl e)
      | Inr fs \<Rightarrow> (w\<lparr>w_env := (w_env w)\<lparr>en_states := fs\<rparr>\<rparr>, Inr s))"

subsection \<open>The next operation and the views\<close>

fun nextOperationBeforeRelease :: "ExecutionStage \<Rightarrow> string option" where
  "nextOperationBeforeRelease Stage_CASE_CREATED = Some ''preparePrivateMatch''"
| "nextOperationBeforeRelease Stage_MATCH_PREPARED = Some ''submitParticipantPledge:PARTICIPANT_A''"
| "nextOperationBeforeRelease Stage_PARTICIPANT_A_SUBMITTED = Some ''submitParticipantPledge:PARTICIPANT_B''"
| "nextOperationBeforeRelease Stage_PARTICIPANT_B_PUBLISHED = Some ''submitParticipantPledge:PARTICIPANT_B''"
| "nextOperationBeforeRelease Stage_PARTICIPANT_B_SUBMITTED = Some ''evaluatePrivateConflict''"
| "nextOperationBeforeRelease Stage_EVALUATED = Some ''releaseGovernedResult''"
| "nextOperationBeforeRelease _ = None"

fun nextOperation :: "ExecutionStage \<Rightarrow> ProductScenario \<Rightarrow> string option" where
  "nextOperation Stage_CASE_CREATED scenario = Some ''preparePrivateMatch''"
| "nextOperation Stage_MATCH_PREPARED scenario = Some ''submitParticipantPledge:PARTICIPANT_A''"
| "nextOperation Stage_PARTICIPANT_A_SUBMITTED scenario = Some ''submitParticipantPledge:PARTICIPANT_B''"
| "nextOperation Stage_PARTICIPANT_B_PUBLISHED scenario = Some ''submitParticipantPledge:PARTICIPANT_B''"
| "nextOperation Stage_PARTICIPANT_B_SUBMITTED scenario = Some ''evaluatePrivateConflict''"
| "nextOperation Stage_EVALUATED scenario = Some ''releaseGovernedResult''"
| "nextOperation Stage_RELEASED scenario = Some ''openRecourseCase''"
| "nextOperation Stage_RECOURSE_OPENED scenario =
     Some (if scenario = ScenarioConflict then ''completeCureChronology'' else ''exportProtectionEvidence'')"
| "nextOperation Stage_CHRONOLOGY_COMPLETE scenario = Some ''exportProtectionEvidence''"
| "nextOperation Stage_COMPLETE scenario = None"
| "nextOperation Stage_ABORTED scenario = None"

definition custom_run :: "InternalState \<Rightarrow> bool" where
  "custom_run s \<longleftrightarrow> is_executionVariant s = Some CUSTOM_SUPERVISED_EXECUTION_VARIANT"

definition scenario_of :: "bool \<Rightarrow> ProductScenario" where
  "scenario_of conflict = (if conflict then ScenarioConflict else ScenarioNoConflict)"

definition terminalScenarioAfterRelease :: "InternalState \<Rightarrow> ProductScenario result" where
  "terminalScenarioAfterRelease s =
     (if \<not> custom_run s then Inr (pc_productScenario (is_protectionCase s))
      else case is_coalitionRelease s of
        Some release \<Rightarrow> Inr (scenario_of (cl_policyConflict release))
      | None \<Rightarrow> (case is_release s of
          None \<Rightarrow> Inl (product_error ''A custom supervised run has no scenario before governed release'' 500)
        | Some release \<Rightarrow> Inr (scenario_of (ro_conflict release))))"

datatype result_projection =
    GovernedProjection bool string
  | CoalitionProjection string bool bool int "int list" string

record CustomSupervisedView =
  cw_schemaVersion :: string
  cw_runId :: string
  cw_stage :: ExecutionStage
  cw_nextOperation :: "string option"
  cw_terminalScenario :: "ProductScenario option"
  cw_cleanverseAssetDigest :: string
  cw_fheCaseId :: string
  cw_incidentState :: IncidentState
  cw_recourseState :: RecourseState
  cw_cureDeadline :: "string option"
  cw_participantA :: "string option"
  cw_participantB :: "string option"
  cw_evaluatedArtifactDigest :: "string option"
  cw_governedResult :: "result_projection option"
  cw_recourse :: "(jsval \<times> jsval) option"
  cw_receipt :: "CustomSupervisedProtectionReceipt option"
  cw_settlement :: "CoalitionSettlementProjection option"
  cw_governedPolicy :: "(GovernedRecoursePolicySelection jsobject \<times> GovernedActionPlan jsobject option
      \<times> GovernedActionEvidenceReference option) option"

text \<open>The members the three schemas share.\<close>

definition view_common :: "InternalState \<Rightarrow> CustomSupervisedView" where
  "view_common s = (let c = is_protectionCase s in
     \<lparr>cw_schemaVersion = [], cw_runId = is_runId s, cw_stage = is_stage s, cw_nextOperation = None, cw_terminalScenario = None,
      cw_cleanverseAssetDigest = pc_cleanverseAssetDigest c, cw_fheCaseId = pc_fheCaseId c, cw_incidentState = pc_incidentState c,
      cw_recourseState = pc_recourseState c, cw_cureDeadline = pc_cureDeadline c,
      cw_participantA = map_option so_artifactDigest (is_submissions s PARTICIPANT_A),
      cw_participantB = map_option so_artifactDigest (is_submissions s PARTICIPANT_B),
      cw_evaluatedArtifactDigest = map_option ev_artifactDigest (is_evaluation s),
      cw_governedResult = None, cw_recourse = None, cw_receipt = None, cw_settlement = None, cw_governedPolicy = None\<rparr>)"

definition coalition_view :: "InternalState \<Rightarrow> CustomSupervisedView" where
  "coalition_view s = (view_common s)\<lparr>
     cw_schemaVersion := ''mordant.custom-supervised-protection-view/3'',
     cw_nextOperation := (if is_coalitionRelease s = None then nextOperationBeforeRelease (is_stage s) else None),
     cw_terminalScenario := map_option (\<lambda>r. scenario_of (cl_policyConflict r)) (is_coalitionRelease s),
     cw_governedResult := map_option (\<lambda>r. CoalitionProjection (cl_resultDigest r) (cl_sameEconomicAsset r) (cl_policyConflict r)
       (cl_threshold r) (cl_coalition r) (cl_operatorTopology r)) (is_coalitionRelease s),
     cw_settlement := is_coalitionSettlement s\<rparr>"

definition customSupervisedView :: "(string \<Rightarrow> string) \<Rightarrow> InternalState \<Rightarrow> CustomSupervisedView result" where
  "customSupervisedView sha s =
     (if coalition_case s then Inr (coalition_view s)
      else
        ebind (case is_release s of
            None \<Rightarrow> Inr (nextOperationBeforeRelease (is_stage s))
          | Some _ \<Rightarrow> ebind (terminalScenarioAfterRelease s) (\<lambda>scenario. Inr (nextOperation (is_stage s) scenario))) (\<lambda>next.
        let common = (view_common s)\<lparr>cw_nextOperation := next,
              cw_terminalScenario := map_option (\<lambda>r. scenario_of (ro_conflict r)) (is_release s),
              cw_governedResult := map_option (\<lambda>r. GovernedProjection (ro_conflict r) (ro_resultDigest r)) (is_release s),
              cw_recourse := map_option (\<lambda>v. (js_member v ''opened'',
                if js_member v ''reason'' \<in> {VUndefined, VNull} then VNull else js_member v ''reason'')) (is_recourse s),
              cw_receipt := is_customReceipt s\<rparr> in
        case is_governedRecoursePolicySelection s of
          None \<Rightarrow> Inr (common\<lparr>cw_schemaVersion := ''mordant.custom-supervised-protection-view/1''\<rparr>)
        | Some selection \<Rightarrow>
            ebind (case (is_customReceipt s, is_governedActionPlan s, is_governedRecourseOperation s) of
                (Some receipt, Some plan, Some operation) \<Rightarrow>
                  ebind (referenceGovernedActionEvidence sha plan operation (rc_receiptDigest receipt)) (\<lambda>e. Inr (Some e))
              | _ \<Rightarrow> Inr None) (\<lambda>evidence.
            Inr (common\<lparr>cw_schemaVersion := ''mordant.custom-supervised-protection-view/2'',
              cw_governedPolicy := Some (selection, is_governedActionPlan s, evidence)\<rparr>))))"

subsection \<open>Participant keys\<close>

definition key_path :: "string \<Rightarrow> ParticipantRole \<Rightarrow> string" where
  "key_path root role = path_join root (toLowerCase (role_name role) @ ''.ed25519'')"

definition participantKeyPaths :: "InternalState \<Rightarrow> ParticipantRole \<Rightarrow> string" where
  "participantKeyPaths s role = key_path (pa_participantPrivateRoot (is_paths s)) role"

definition readRegularNoFollow :: "string \<Rightarrow> 'e engine_world \<Rightarrow> string result" where
  "readRegularNoFollow path w = (case en_keys (w_env w) path of
     Some (RegularFile raw) \<Rightarrow> Inr raw
   | Some OtherNode \<Rightarrow> Inl (product_error ''Private key path rejected'' 500)
   | None \<Rightarrow> Inl DependencyError)"

definition set_key :: "string \<Rightarrow> key_file option \<Rightarrow> ('e engine_world, unit) action" where
  "set_key path f w = (w\<lparr>w_env := (w_env w)\<lparr>en_keys := (en_keys (w_env w))(path := f)\<rparr>\<rparr>, Inr ())"

text \<open>The key pair is written to a temporary file that is linked to its name: linking fails where a file is.\<close>

definition mint_key :: "'e ProtectionRuntime \<Rightarrow> string \<Rightarrow> ('e engine_world, string \<times> string) action" where
  "mint_key rt path =
     abind (external_call (rt_generateKeyPair rt)) (\<lambda>raw.
     abind (areads (\<lambda>w. check (en_keys (w_env w) path = None) DependencyError)) (\<lambda>_.
     abind (set_key path (Some (RegularFile raw))) (\<lambda>_.
     alift (Inr (path, base64_encode (drop 32 raw))))))"

definition rawParticipantKey ::
  "'e ProtectionRuntime \<Rightarrow> ParticipantRole \<Rightarrow> string \<Rightarrow> bool \<Rightarrow> string option \<Rightarrow> ('e engine_world, string \<times> string) action" where
  "rawParticipantKey rt role root recoverTruncated admittedDigest =
     (let path = key_path root role in
      abind (areads (\<lambda>w. Inr (en_keys (w_env w) path \<noteq> None))) (\<lambda>there.
      if there then
        abind (areads (readRegularNoFollow path)) (\<lambda>retained.
        if length retained = 64 then
          let publicBase64 = base64_encode (drop 32 retained) in
          abind (alift (case admittedDigest of
              None \<Rightarrow> Inr ()
            | Some d \<Rightarrow> ebind (participantSigningKeyDigest (rt_sha rt) publicBase64) (\<lambda>actual.
                check (actual = d) (product_error ''The retained key is not the key the wallet admitted'' 409)))) (\<lambda>_.
          alift (Inr (path, publicBase64)))
        else
          abind (alift (check (admittedDigest = None)
            (product_error ''The key is truncated and that role is already admitted'' 409))) (\<lambda>_.
          abind (alift (check recoverTruncated (product_error ''Truncated participant key after foundation admission'' 500))) (\<lambda>_.
          abind (set_key path None) (\<lambda>_. mint_key rt path))))
      else
        abind (alift (check (admittedDigest = None)
          (product_error ''The key is missing and that role is already admitted'' 409))) (\<lambda>_.
        abind (alift (check recoverTruncated (product_error ''Missing participant key after foundation admission'' 500))) (\<lambda>_.
        mint_key rt path))))"

definition admittedSigningKeyDigest :: "'e ProtectionRuntime \<Rightarrow> string \<Rightarrow> ParticipantRole \<Rightarrow> 'e engine_world \<Rightarrow> string option result" where
  "admittedSigningKeyDigest rt runId role w =
     ebind (readAdmission (rt_runRoot rt) runId role (w_disk w)) (\<lambda>record.
       Inr (case record of None \<Rightarrow> None | Some r \<Rightarrow> ar_participantSigningKeyDigest r))"

definition published_key_admitted ::
  "'e ProtectionRuntime \<Rightarrow> InternalState \<Rightarrow> ParticipantRole \<Rightarrow> string \<Rightarrow> 'e engine_world \<Rightarrow> unit result" where
  "published_key_admitted rt s role published w =
     ebind (readAdmission (rt_runRoot rt) (is_runId s) role (w_disk w)) (\<lambda>record.
     case (case record of None \<Rightarrow> None | Some r \<Rightarrow> ar_participantSigningKeyDigest r) of
       None \<Rightarrow> Inr ()
     | Some admitted \<Rightarrow> ebind (participantSigningKeyDigest (rt_sha rt) published) (\<lambda>actual.
         check (admitted = actual) (product_error ''The case would publish a signing key never authorized'' 409)))"

definition assertPublishedKeysWereAdmitted ::
  "'e ProtectionRuntime \<Rightarrow> InternalState \<Rightarrow> (ParticipantRole \<Rightarrow> string) \<Rightarrow> 'e engine_world \<Rightarrow> unit result" where
  "assertPublishedKeysWereAdmitted rt s published w =
     ebind (published_key_admitted rt s PARTICIPANT_A (published PARTICIPANT_A) w) (\<lambda>_.
     published_key_admitted rt s PARTICIPANT_B (published PARTICIPANT_B) w)"

subsection \<open>The authorization both participants sign\<close>

definition digestText :: "(string \<Rightarrow> string) \<Rightarrow> string \<Rightarrow> string \<Rightarrow> string" where
  "digestText sha domain v = ''sha256:'' @ sha (domain @ [CHR 0x00] @ v)"

definition protectionBindingValue :: "MordantProtectionBinding \<Rightarrow> json" where
  "protectionBindingValue b = JObj [
     (''schemaVersion'', JStr (pb_schemaVersion b)),
     (''cleanverseAssetRecordDigest'', JStr (pb_cleanverseAssetRecordDigest b)),
     (''protectionService'', JStr (pb_protectionService b)),
     (''protectionServiceVersion'', JNum (pb_protectionServiceVersion b)),
     (''policyId'', JStr (pb_policyId b)),
     (''policyVersion'', JNum (pb_policyVersion b)),
     (''productScenario'', JStr (pb_productScenario b)),
     (''fixtureClassification'', JStr (pb_fixtureClassification b)),
     (''protectedAmount'', amount_json (pb_protectedAmount b)),
     (''reserveBasisPoints'', JNum (pb_reserveBasisPoints b)),
     (''reserveAmount'', amount_json (pb_reserveAmount b)),
     (''holderRecordDate'', JStr (pb_holderRecordDate b)),
     (''holderSnapshot'', JArr (map holder_json (pb_holderSnapshot b))),
     (''holderAllocationDigest'', JStr (pb_holderAllocationDigest b)),
     (''caseNonce'', JStr (pb_caseNonce b)),
     (''fheCaseId'', JStr (pb_fheCaseId b)),
     (''governedReleaseMode'', JStr (pb_governedReleaseMode b))]"

definition protectionBindingDigest :: "(string \<Rightarrow> string) \<Rightarrow> MordantProtectionBinding \<Rightarrow> string" where
  "protectionBindingDigest sha b = sha256Raw sha (stringify (protectionBindingValue b))"

text \<open>The custom binding has the members of its record and no scenario among them.\<close>

definition CUSTOM_BINDING_KEYS :: "string list" where
  "CUSTOM_BINDING_KEYS = [''schemaVersion'', ''cleanverseAssetRecordDigest'', ''protectionService'', ''protectionServiceVersion'',
     ''policyId'', ''policyVersion'', ''fixtureClassification'', ''protectedAmount'', ''reserveBasisPoints'', ''reserveAmount'',
     ''holderRecordDate'', ''holderSnapshot'', ''holderAllocationDigest'', ''caseNonce'', ''fheCaseId'', ''governedReleaseMode'',
     ''executionVariant'']"

definition protectionAuthorizationBinding :: "InternalState \<Rightarrow> (MordantProtectionBinding + MordantCustomSupervisedBindingV2) result" where
  "protectionAuthorizationBinding s =
     (if \<not> custom_run s then Inr (Inl (protectionBindingFromCase (is_protectionCase s)))
      else let binding = customBindingFromCase (is_protectionCase s)
           in ebind (assertNeutralCustomBinding CUSTOM_BINDING_KEYS binding) (\<lambda>_. Inr (Inr binding)))"

definition authorization_binding_json :: "MordantProtectionBinding + MordantCustomSupervisedBindingV2 \<Rightarrow> json" where
  "authorization_binding_json b = (case b of Inl v1 \<Rightarrow> protectionBindingValue v1 | Inr v2 \<Rightarrow> customSupervisedBindingValue v2)"

definition protectionAuthorizationBindingDigest :: "(string \<Rightarrow> string) \<Rightarrow> InternalState \<Rightarrow> string result" where
  "protectionAuthorizationBindingDigest sha s =
     ebind (protectionAuthorizationBinding s) (\<lambda>b. Inr (case b of
       Inl v1 \<Rightarrow> protectionBindingDigest sha v1 | Inr v2 \<Rightarrow> customSupervisedBindingDigestV2 sha v2))"

subsection \<open>Admissions and pledges\<close>

definition load_canonical :: "'e ProtectionRuntime \<Rightarrow> 'e engine_world \<Rightarrow> CanonicalRecourseConfiguration result" where
  "load_canonical rt w =
     ebind (readParticipantConfigSelection (rt_participantConfig rt (engine_go w))) (rt_loadConfiguration rt (engine_go w))"

definition assertDirectParticipantAdmissionEnabled :: "'e ProtectionRuntime \<Rightarrow> 'e engine_world \<Rightarrow> unit result" where
  "assertDirectParticipantAdmissionEnabled rt w =
     ebind (check (rt_directParticipantAdmissionEnabled rt) (product_error ''Direct participant admission is disabled'' 403)) (\<lambda>_.
     case load_canonical rt w of
       Inl (ProtectionProductError m n) \<Rightarrow> Inl (ProtectionProductError m n)
     | Inl _ \<Rightarrow> Inl (product_error ''The canonical direct-admission configuration is unavailable'' 503)
     | Inr canonical \<Rightarrow> check (cn_adapterChainId canonical = MONAD_TESTNET_CHAIN_ID)
         (product_error ''The canonical direct-admission chain is unavailable'' 503))"

text \<open>The object a typed window is at run time.\<close>

definition window_object :: "SupervisedPledgeWindow \<Rightarrow> jsval" where
  "window_object w = VObject ObjectPrototype [(''activeFrom'', VNumber (NInt (pw_activeFrom w))), (''activeUntil'', VNumber (NInt (pw_activeUntil w)))]"

definition canonical_holder :: "CanonicalRecourseConfiguration \<Rightarrow> ParticipantRole \<Rightarrow> string" where
  "canonical_holder c role = (case role of PARTICIPANT_A \<Rightarrow> cn_holderA c | PARTICIPANT_B \<Rightarrow> cn_holderB c)"

definition assertVerifiedDurableAdmission ::
  "'e ProtectionRuntime \<Rightarrow> InternalState \<Rightarrow> ParticipantRole \<Rightarrow> AdmittedParticipantClaim \<Rightarrow> 'e engine_world \<Rightarrow> unit result" where
  "assertVerifiedDurableAdmission rt s role admission w =
     ebind (readAdmission (rt_runRoot rt) (is_runId s) role (w_disk w)) (\<lambda>record.
     ebind (require record (product_error ''No verified durable admission'' 409)) (\<lambda>durable.
     ebind (assertSupervisedPledgeWindow (window_object (ac_claim admission))) (\<lambda>claim.
     ebind (participantClaimCommitment (rt_sha rt) (is_runId s) role claim) (\<lambda>recomputed.
     case load_canonical rt w of
       Inl _ \<Rightarrow> Inl (product_error ''The canonical direct-admission configuration is unavailable'' 503)
     | Inr canonical \<Rightarrow> check (\<not> (
           ar_chainId durable \<noteq> MONAD_TESTNET_CHAIN_ID
         \<or> ac_chainId admission \<noteq> MONAD_TESTNET_CHAIN_ID
         \<or> toLowerCase (ar_participantWallet durable) \<noteq> toLowerCase (canonical_holder canonical role)
         \<or> toLowerCase (ar_participantWallet durable) \<noteq> toLowerCase (ac_participantWallet admission)
         \<or> ar_authorizationDigest durable \<noteq> ac_authorizationDigest admission
         \<or> ar_claimCommitment durable \<noteq> ac_claimCommitment admission
         \<or> ar_authorizationNonce durable \<noteq> ac_authorizationNonce admission
         \<or> ar_chainId durable \<noteq> ac_chainId admission
         \<or> ar_issuedAt durable \<noteq> ac_issuedAt admission
         \<or> ar_expiresAt durable \<noteq> ac_expiresAt admission
         \<or> ar_claimCommitment durable \<noteq> recomputed))
         (product_error ''Durable admission does not match this pledge'' 409)))))"

record Pledge =
  pl_activeFrom :: int
  pl_activeUntil :: int
  pl_amount :: "int list"
  pl_currency :: string
  pl_obligationId :: string
  pl_receivableId :: string
  pl_exclusive :: bool
  pl_authorizationCommitment :: string
  pl_privateMetadataCommitment :: string

definition fixture_from :: "InternalState \<Rightarrow> ParticipantRole \<Rightarrow> int" where
  "fixture_from s role = (case role of PARTICIPANT_A \<Rightarrow> 100
     | PARTICIPANT_B \<Rightarrow> if pc_productScenario (is_protectionCase s) = ScenarioConflict then 200 else 500)"

definition fixture_until :: "InternalState \<Rightarrow> ParticipantRole \<Rightarrow> int" where
  "fixture_until s role = (case role of PARTICIPANT_A \<Rightarrow> 400
     | PARTICIPANT_B \<Rightarrow> if pc_productScenario (is_protectionCase s) = ScenarioConflict then 500 else 700)"

definition pledge_window :: "InternalState \<Rightarrow> ParticipantRole \<Rightarrow> SupervisedPledgeWindow option" where
  "pledge_window s role = (case is_admittedClaims s role of
     Some admitted \<Rightarrow> Some (ac_claim admitted)
   | None \<Rightarrow> (case is_supervisedPledgeWindows s of
       None \<Rightarrow> None
     | Some windows \<Rightarrow> Some (case role of PARTICIPANT_A \<Rightarrow> pws_participantA windows | PARTICIPANT_B \<Rightarrow> pws_participantB windows)))"

definition role_text :: "InternalState \<Rightarrow> ParticipantRole \<Rightarrow> string" where
  "role_text s role = path_join (is_runId s) (role_name role)"

definition pledgeFor :: "(string \<Rightarrow> string) \<Rightarrow> InternalState \<Rightarrow> ParticipantRole \<Rightarrow> Pledge result" where
  "pledgeFor sha s role =
     (let window = pledge_window s role; admitted = is_admittedClaims s role in
      ebind (check (\<not> (custom_run s \<and> is_supervisedPledgeWindows s = None \<and> admitted = None))
        (product_error ''No verified durable admission'' 409)) (\<lambda>_.
      Inr \<lparr>pl_activeFrom = (case window of Some w \<Rightarrow> pw_activeFrom w | None \<Rightarrow> fixture_from s role),
           pl_activeUntil = (case window of Some w \<Rightarrow> pw_activeUntil w | None \<Rightarrow> fixture_until s role),
           pl_amount = [0, 0, 0, 100000000],
           pl_currency = drop 7 (digestText sha ''MordantProtectionCurrency/v1'' ''aUSDC''),
           pl_obligationId = drop 7 (digestText sha ''MordantProtectionObligation/v1'' (role_text s role)),
           pl_receivableId = drop 7 (digestText sha ''MordantProtectionReceivable/v1'' (pc_cleanverseAssetDigest (is_protectionCase s))),
           pl_exclusive = True,
           pl_authorizationCommitment = (case admitted of
               None \<Rightarrow> drop 7 (digestText sha ''MordantProtectionAuthorization/v1'' (role_text s role))
             | Some a \<Rightarrow> drop 2 (ac_authorizationDigest a)),
           pl_privateMetadataCommitment = (case admitted of
               None \<Rightarrow> drop 7 (digestText sha ''MordantProtectionPrivateMetadata/v1'' (role_text s role))
             | Some a \<Rightarrow> drop 2 (ac_claimCommitment a))\<rparr>))"

definition pledge_object :: "Pledge \<Rightarrow> jsval" where
  "pledge_object p = VObject ObjectPrototype [
     (''activeFrom'', VNumber (NInt (pl_activeFrom p))), (''activeUntil'', VNumber (NInt (pl_activeUntil p))),
     (''amount'', VArray (map (\<lambda>n. VNumber (NInt n)) (pl_amount p))), (''currency'', VString (pl_currency p)),
     (''obligationId'', VString (pl_obligationId p)), (''receivableId'', VString (pl_receivableId p)),
     (''exclusive'', VBool (pl_exclusive p)), (''authorizationCommitment'', VString (pl_authorizationCommitment p)),
     (''privateMetadataCommitment'', VString (pl_privateMetadataCommitment p))]"

end
