(* ===== verification/Engine.thy ===== *)
theory Engine
  imports Engine_State
begin

text \<open>
  The operations of the protection engine (\<^verbatim>\<open>governed-fhe-product-server.ts\<close>): the in-process lock, the journal
  calls, the reconciliation of an execution record with what the Go commands published, and the commands that
  create, prepare, admit, submit, evaluate, release, open recourse and complete the cure chronology.

  An operation returns the execution record it hands to the view function. Every write of the server is atomic;
  an operation that throws leaves what it wrote before, so a process loss between two writes is a run that
  throws there, which is what the failpoints of the source are for. The assembly and the retention of the public
  evidence are not modelled: what reconciliation concludes in the two phases that belong to them is the parameters
  \<open>rt_recoverEvidence\<close> and \<open>rt_retained\<close>.
\<close>

subsection \<open>Lock, journal and files\<close>

definition set_env :: "('e engine \<Rightarrow> 'e engine) \<Rightarrow> ('e engine_world, unit) action" where
  "set_env f w = (w\<lparr>w_env := f (w_env w)\<rparr>, Inr ())"

text \<open>The lock is released however the operation ends.\<close>

definition exclusive :: "string \<Rightarrow> ('e engine_world, 'a) action \<Rightarrow> ('e engine_world, 'a) action" where
  "exclusive name operation w =
     (if name \<in> set (en_locks (w_env w)) then (w, Inl (product_error ''A protection operation is already running'' 423))
      else let (w', r) = operation (fst (set_env (\<lambda>v. v\<lparr>en_locks := name # en_locks v\<rparr>) w))
           in (fst (set_env (\<lambda>v. v\<lparr>en_locks := removeAll name (en_locks v)\<rparr>) w'), r))"

definition begin_operation ::
  "'e ProtectionRuntime \<Rightarrow> string \<Rightarrow> BeginOperation \<Rightarrow> ('e engine_world, ProductOperationRecord) action" where
  "begin_operation rt runId inp =
     abind (external_call (\<lambda>w. let (e, u) = rt_randomUUID rt w in (e, Inr u))) (\<lambda>opId w.
     case beginOperation (rt_sha rt) (rt_runRoot rt) (rt_writer rt w) opId (en_journal (w_env w)) runId inp of
       Inl e \<Rightarrow> (w, Inl e)
     | Inr (fs, r) \<Rightarrow> (w\<lparr>w_env := (w_env w)\<lparr>en_journal := fs\<rparr>\<rparr>, Inr r))"

definition finish_operation ::
  "'e ProtectionRuntime \<Rightarrow> string \<Rightarrow> string \<Rightarrow> JournalOutcome \<Rightarrow> string option \<Rightarrow> ('e engine_world, unit) action" where
  "finish_operation rt runId opId outcome reason =
     abind (now_iso rt) (\<lambda>at w.
     case finishOperation (rt_sha rt) (rt_runRoot rt) (rt_writer rt w) (en_journal (w_env w)) runId opId outcome at reason of
       Inl e \<Rightarrow> (w, Inl e)
     | Inr (fs, r) \<Rightarrow> (w\<lparr>w_env := (w_env w)\<lparr>en_journal := fs\<rparr>\<rparr>, Inr ()))"

definition write_json :: "'e ProtectionRuntime \<Rightarrow> string \<Rightarrow> jsval \<Rightarrow> ('e engine_world, unit) action" where
  "write_json rt path v w =
     (case writeDurableJsonAtomic path (fst (rt_writer rt w)) (snd (rt_writer rt w)) v (en_json (w_env w)) of
        Inl e \<Rightarrow> (w, Inl e) | Inr fs \<Rightarrow> (w\<lparr>w_env := (w_env w)\<lparr>en_json := fs\<rparr>\<rparr>, Inr ()))"

definition remove_json :: "string \<Rightarrow> ('e engine_world, unit) action" where
  "remove_json path = set_env (\<lambda>v. v\<lparr>en_json := (en_json v)(path := None)\<rparr>)"

definition failpoint :: "'e ProtectionRuntime \<Rightarrow> string \<Rightarrow> ('e engine_world, unit) action" where
  "failpoint rt name = external_call (rt_failpoint rt name)"

definition public_file :: "InternalState \<Rightarrow> string \<Rightarrow> string" where
  "public_file s name = path_join (pa_publicRoot (is_paths s)) name"

definition root_file :: "InternalState \<Rightarrow> string \<Rightarrow> string" where
  "root_file s name = path_join (pa_root (is_paths s)) name"

definition case_json :: "InternalState \<Rightarrow> (string \<times> json) list" where
  "case_json s = [(''caseId'', JStr (pc_fheCaseId (is_protectionCase s)))]"

definition opt_text :: "string \<Rightarrow> string option \<Rightarrow> (string \<times> json) list" where
  "opt_text k x = (case x of None \<Rightarrow> [] | Some t \<Rightarrow> [(k, JStr t)])"

definition submission_digest :: "InternalState \<Rightarrow> ParticipantRole \<Rightarrow> string option" where
  "submission_digest s role = map_option so_artifactDigest (is_submissions s role)"

definition event :: "string \<Rightarrow> string \<Rightarrow> string \<Rightarrow> SourceClassification \<Rightarrow> string \<Rightarrow> ProtectionTimelineEvent" where
  "event kind at label classification ref = \<lparr>te_ordinal = 0, te_kind = kind, te_at = at, te_label = label,
     te_classification = classification, te_evidenceRef = Some ref\<rparr>"

subsection \<open>The timeline of the operations\<close>

definition case_after_preparation :: "InternalState \<Rightarrow> string \<Rightarrow> MordantProtectionCase" where
  "case_after_preparation s at = appendEventOnce (is_protectionCase s)
     (event ''HOLDER_SNAPSHOT_RECORDED'' at ''Record-date holder allocation fixed at 60 / 40 and reserve held separately''
       PROTOCOL_DOUBLE (pc_holderAllocationDigest (is_protectionCase s)))
     (NO_PATCH\<lparr>cp_incidentState := Some PRIVATE_MATCH_OPEN\<rparr>)"

definition case_after_submission :: "InternalState \<Rightarrow> ParticipantRole \<Rightarrow> string \<Rightarrow> string \<Rightarrow> MordantProtectionCase" where
  "case_after_submission s role at artifactDigest = appendEventOnce (is_protectionCase s)
     (event (role_name role @ ''_ENCRYPTED_PLEDGE_RECEIVED'') at
       ((case role of PARTICIPANT_A \<Rightarrow> ''Participant A'' | PARTICIPANT_B \<Rightarrow> ''Participant B'') @ '' encrypted pledge received'')
       LOCAL_EXECUTION artifactDigest) NO_PATCH"

definition case_after_evaluation :: "InternalState \<Rightarrow> string \<Rightarrow> string \<Rightarrow> MordantProtectionCase" where
  "case_after_evaluation s at artifactDigest = appendEventOnce (is_protectionCase s)
     (event ''FHE_EVALUATION_COMPLETE'' at ''Fixed N15 BGV conflict circuit evaluated without an evaluator decryption key''
       LOCAL_EXECUTION artifactDigest) (NO_PATCH\<lparr>cp_incidentState := Some EVALUATED\<rparr>)"

definition incident_of :: "bool \<Rightarrow> IncidentState" where
  "incident_of conflict = (if conflict then CONFLICT_CONFIRMED else CLEARED)"

definition case_after_release :: "InternalState \<Rightarrow> ('a :: type) ReleaseArtifact_scheme \<Rightarrow> string \<Rightarrow> MordantProtectionCase" where
  "case_after_release s release at =
     (let c = appendEventOnce (is_protectionCase s)
            (event ''GOVERNED_RECOMPUTATION_VERIFIED'' at ''Governed decryptor independently recomputed the fixed circuit''
              LOCAL_EXECUTION (tp_recomputedResultCiphertextDigest (ro_trustedRecoursePins release))) NO_PATCH
      in appendEventOnce c
            (event (if ro_conflict release then ''SIGNED_CONFLICT_CONFIRMED'' else ''SIGNED_CONFLICT_CLEARED'') at
              (if ro_conflict release then ''Signed Boolean confirmed a conflicting pledge''
               else ''Signed Boolean cleared the conflicting-pledge check'')
              LOCAL_EXECUTION (ro_resultDigest release))
            (NO_PATCH\<lparr>cp_incidentState := Some (incident_of (ro_conflict release))\<rparr>))"

definition coalitionProtectionCaseAfterRelease ::
  "InternalState \<Rightarrow> CoalitionConflictResult \<Rightarrow> string \<Rightarrow> string \<Rightarrow> string \<Rightarrow> MordantProtectionCase" where
  "coalitionProtectionCaseAfterRelease s result resultDigest authority at =
     (let c = appendEventOnce (is_protectionCase s)
            (event ''COALITION_QUORUM_RECOMPUTED'' at
              (''A '' @ show_int (cr_threshold result) @ ''-of-3 operator coalition recomputed the fixed circuit'')
              LOCAL_EXECUTION authority) NO_PATCH
      in appendEventOnce c
            (event (if cr_policyConflict result then ''COALITION_CONFLICT_CONFIRMED'' else ''COALITION_CONFLICT_CLEARED'') at
              (if cr_policyConflict result then ''Coalition quorum confirmed a conflicting pledge on the same economic asset''
               else ''Coalition quorum cleared the conflicting-pledge check'')
              LOCAL_EXECUTION resultDigest)
            (NO_PATCH\<lparr>cp_incidentState := Some (incident_of (cr_policyConflict result))\<rparr>))"

text \<open>\<open>Number(x)\<close> on what a JSON document holds, and truthiness.\<close>

fun js_number :: "jsval \<Rightarrow> int option" where
  "js_number (VNumber (NInt i)) = Some i"
| "js_number (VNumber NNegZero) = Some 0"
| "js_number VNull = Some 0"
| "js_number (VBool b) = Some (if b then 1 else 0)"
| "js_number (VString t) = (if t = [] then Some 0 else if list_all is_digit t then Some (int (read_nat t)) else None)"
| "js_number _ = None"

fun js_truthy :: "jsval \<Rightarrow> bool" where
  "js_truthy VUndefined = False"
| "js_truthy VNull = False"
| "js_truthy (VBool b) = b"
| "js_truthy (VNumber n) = (n \<noteq> NInt 0 \<and> n \<noteq> NNegZero \<and> n \<noteq> NNaN)"
| "js_truthy (VString t) = (t \<noteq> [])"
| "js_truthy (VBigint i) = (i \<noteq> 0)"
| "js_truthy _ = True"

definition cure_deadline :: "jsval \<Rightarrow> string result" where
  "cure_deadline recourse = (case js_number (js_member (js_member recourse ''record'') ''cureDeadlineUnix'') of
     None \<Rightarrow> Inl RangeError
   | Some t \<Rightarrow> if \<bar>t * 1000\<bar> \<le> - MIN_TIME_VALUE then Inr (toISOString (t * 1000)) else Inl RangeError)"

definition protectionCaseAfterRecourse ::
  "InternalState \<Rightarrow> jsval \<Rightarrow> string \<Rightarrow> GovernedRecourseOperationAuthorization option \<Rightarrow> MordantProtectionCase result" where
  "protectionCaseAfterRecourse s recourse at authorization =
     (let action = map_option ga_selectedGovernedAction authorization in
      if action = Some ''OPEN_LOCAL_CURE_PATH'' \<or> authorization = None \<and> js_truthy (js_member recourse ''opened'') then
        ebind (cure_deadline recourse) (\<lambda>deadline.
        Inr (appendEventOnce (is_protectionCase s)
          (event ''CURE_WINDOW_OPENED'' at ''Record-date holders remain fixed while the cure / dispute window runs''
            PROTOCOL_DOUBLE (pc_holderAllocationDigest (is_protectionCase s)))
          (NO_PATCH\<lparr>cp_cureDeadline := Some (Some deadline), cp_recourseState := Some CURE_WINDOW\<rparr>)))
      else if action = Some ''RECORD_AND_CLOSE'' \<or> authorization = None then
        (case is_release s of
           None \<Rightarrow> Inl DependencyError
         | Some release \<Rightarrow> Inr (appendEventOnce (is_protectionCase s)
             (event ''RECOURSE_REFUSED'' at ''A signed false result cannot open conflicting-pledge recourse''
               PROTOCOL_DOUBLE (ro_resultDigest release))
             (NO_PATCH\<lparr>cp_recourseState := Some REFUSED\<rparr>)))
      else Inl (product_error ''Unsupported governed recourse operation authorization'' 500))"

subsection \<open>The coalition release\<close>

text \<open>The volume of the settlement store: the profile the server wrote, and which artifacts exist.\<close>

definition run_view :: "'e ProtectionRuntime \<Rightarrow> 'e engine_world \<Rightarrow> run_disk" where
  "run_view rt w path = (case en_run (w_env w) path of
     Some x \<Rightarrow> Some x
   | None \<Rightarrow> if en_json (w_env w) path \<noteq> None \<or> rt_exists rt (engine_go w) path then Some (Whole OtherArtifact) else None)"

definition digest_public_text :: "(string \<Rightarrow> string) \<Rightarrow> string \<Rightarrow> string" where
  "digest_public_text sha raw =
     ''sha256:'' @ sha (if raw \<noteq> [] \<and> last raw = CHR 0x0A then butlast raw else raw)"

definition digestPublicFile :: "'e ProtectionRuntime \<Rightarrow> string \<Rightarrow> 'e engine_world \<Rightarrow> string result" where
  "digestPublicFile rt path w = ebind (rt_readFile rt (engine_go w) path) (\<lambda>raw. Inr (digest_public_text (rt_sha rt) raw))"

record VerifiedCoalitionRelease =
  vr_result :: CoalitionConflictResult
  vr_resultDigest :: string
  vr_coalitionAuthorityId :: string
  vr_operatorTopology :: string
  vr_servingQuorum :: int
  vr_coalitionSettlement :: CoalitionSettlementProjection

definition coalition_settlement ::
  "'e ProtectionRuntime \<Rightarrow> InternalState \<Rightarrow> GovernedResultFacts \<Rightarrow> 'e engine_world \<Rightarrow> CoalitionSettlementProjection result" where
  "coalition_settlement rt s facts w =
     (if gf_conflict facts then
        ebind (settlementAuthorityForRun (rt_sha rt) (run_view rt w) (rt_runRoot rt) (is_runId s) facts) (\<lambda>(plan, authorization, committed).
        Inr \<lparr>cp_status = EXECUTION_READY, cp_settlementProfileDigest = committed, cp_planHash = Some (sa_planHash authorization),
             cp_authorizationHash = Some (settlementAuthorizationHash (rt_sha rt) authorization)\<rparr>)
      else
        ebind (readCommittedSettlementProfile (rt_sha rt) (run_view rt w) (rt_runRoot rt) (is_runId s)) (\<lambda>committed.
        Inr \<lparr>cp_status = NO_CONFLICT_NO_SETTLEMENT, cp_settlementProfileDigest = cm_committedDigest committed, cp_planHash = None,
             cp_authorizationHash = None\<rparr>))"

definition verifiedCoalitionReleaseFromArtifacts ::
  "'e ProtectionRuntime \<Rightarrow> InternalState \<Rightarrow> 'e engine_world \<Rightarrow> VerifiedCoalitionRelease result" where
  "verifiedCoalitionReleaseFromArtifacts rt s w =
     ebind (rt_readCoalitionResult rt (engine_go w) (public_file s ''coalition-conflict-result.json'')) (\<lambda>result.
     ebind (rt_readThresholdManifest rt (engine_go w) (public_file s ''threshold-manifest.json'')) (\<lambda>manifest.
     ebind (digestPublicFile rt (public_file s ''coalition-conflict-result.json'') w) (\<lambda>resultDigest.
     ebind (digestToBytes32 resultDigest) (\<lambda>bytes.
     ebind (verifyCoalitionEvidence (rt_sha rt) (rt_ed25519 rt) result manifest bytes (rt_keccak rt (is_runId s))) (\<lambda>verified.
     ebind (check (\<not> (cr_assetIdentity result \<noteq> pc_cleanverseAssetDigest (is_protectionCase s)
         \<or> cr_caseId result \<noteq> pc_fheCaseId (is_protectionCase s)
         \<or> cr_policyId result \<noteq> pc_policyId (is_protectionCase s)
         \<or> cr_releaseMode result \<noteq> COALITION_RELEASE_MODE
         \<or> Some (cr_caseBindingDigest result) \<noteq> map_option kg_bindingDigest (is_keygen s)
         \<or> Some (cr_evaluatedArtifactDigest result) \<noteq> map_option ev_artifactDigest (is_evaluation s)))
       (product_error ''Coalition result case binding mismatch'' 500)) (\<lambda>_.
     ebind (coalition_settlement rt s (ve_facts verified) w) (\<lambda>settlement.
     Inr \<lparr>vr_result = result, vr_resultDigest = resultDigest, vr_coalitionAuthorityId = ve_coalitionAuthorityId verified,
          vr_operatorTopology = ve_operatorTopology verified, vr_servingQuorum = ve_servingQuorum verified,
          vr_coalitionSettlement = settlement\<rparr>)))))))"

definition coalition_output :: "VerifiedCoalitionRelease \<Rightarrow> int \<Rightarrow> int \<Rightarrow> bool \<Rightarrow> CoalitionReleaseOutput" where
  "coalition_output r nanos bytes exactRetry =
     \<lparr>cl_resultDigest = vr_resultDigest r, cl_sameEconomicAsset = cr_sameEconomicAsset (vr_result r),
      cl_policyConflict = cr_policyConflict (vr_result r), cl_releaseMode = COALITION_RELEASE_MODE,
      cl_releaseAuthorityId = vr_coalitionAuthorityId r, cl_threshold = vr_servingQuorum r,
      cl_coalition = cr_coalition (vr_result r), cl_operatorTopology = vr_operatorTopology r, cl_durationNanos = nanos,
      cl_resultBytes = bytes, cl_exactRetry = exactRetry\<rparr>"

subsection \<open>Reconciliation\<close>

definition inspectCase ::
  "'e ProtectionRuntime \<Rightarrow> InternalState \<Rightarrow> ProductOperationRecord option \<Rightarrow> bool \<Rightarrow> ('e engine_world, ProductInspection) action" where
  "inspectCase rt s pending allowPrivateInspection =
     abind (ensureBinaries rt) (\<lambda>_.
     abind (runJSON (rt_inspect rt [''-mode'', ''public'', ''-public-root'', pa_publicRoot (is_paths s)])) (\<lambda>public.
     case pending of
       None \<Rightarrow> alift (Inr public)
     | Some p \<Rightarrow>
         if \<not> allowPrivateInspection \<or> pi_ambiguous public \<or> jr_phase p = PREPARING \<and> pi_foundation public = None
           \<or> jr_phase p \<noteq> PREPARING \<and> jr_phase p \<noteq> RELEASING
         then alift (Inr public)
         else abind (runJSON (rt_inspect rt [''-mode'', ''pending-private'', ''-public-root'', pa_publicRoot (is_paths s),
             ''-private-root'', pa_decryptorPrivateRoot (is_paths s), ''-pending-phase'',
             (if jr_phase p = PREPARING then ''PREPARING'' else ''RELEASING'')])) (\<lambda>private.
           alift (Inr (public\<lparr>pi_foundationPrivateComplete := pi_foundationPrivateComplete private,
             pi_releaseAdmission := pi_releaseAdmission private, pi_releasePrivateComplete := pi_releasePrivateComplete private,
             pi_ambiguous := pi_ambiguous private,
             pi_ambiguousReason := (case pi_ambiguousReason private of None \<Rightarrow> pi_ambiguousReason public | Some t \<Rightarrow> Some t)\<rparr>)))))"

definition abortState ::
  "'e ProtectionRuntime \<Rightarrow> InternalState \<Rightarrow> ProductOperationRecord \<Rightarrow> string \<Rightarrow> ('e engine_world, InternalState) action" where
  "abortState rt s pending reason =
     abind (finish_operation rt (is_runId s) (jr_operationId pending) OUTCOME_ABORTED (Some reason)) (\<lambda>_.
     saveState rt (s\<lparr>is_stage := Stage_ABORTED, is_abortedReason := Some reason\<rparr>))"

definition reconstructedSubmission :: "SubmissionArtifact \<Rightarrow> SubmissionOutput" where
  "reconstructedSubmission a = SubmissionArtifact.extend a (SubmissionOutput.fields 0)"

definition recourseFromRecord :: "jsval \<Rightarrow> jsval" where
  "recourseFromRecord record = VObject ObjectPrototype [(''opened'', VBool True), (''record'', record)]"

definition retainedGovernedOperationAuthorization ::
  "(string \<Rightarrow> string) \<Rightarrow> InternalState \<Rightarrow> ProductOperationRecord \<Rightarrow> GovernedRecourseOperationAuthorization option result" where
  "retainedGovernedOperationAuthorization sha s operation =
     ebind (governedOperationAuthorizationForState sha s) (\<lambda>expected.
     case expected of
       None \<Rightarrow> Inr None
     | Some a \<Rightarrow>
         let retained = json_member ''governedActionAuthorization'' (jr_immutableParameters operation) in
         ebind (check (is_object retained) (product_error ''Governed recourse operation authorization is missing'' 500)) (\<lambda>_.
         case (retained, is_governedRecoursePolicySelection s, is_governedActionPlan s) of
           (Some v, Some selection, Some plan) \<Rightarrow>
             ebind (verify_retained sha v selection plan) (\<lambda>h.
             ebind (check (h = ga_authorizationHash a)
               (product_error ''Governed recourse operation authorization disagrees with the action plan'' 500)) (\<lambda>_. Inr (Some a)))
         | _ \<Rightarrow> Inl DependencyError))"

text \<open>An action plan and an operation record as the objects their creators return.\<close>

definition plan_object :: "GovernedActionPlan \<Rightarrow> GovernedActionPlan jsobject" where
  "plan_object p = plain_object PLAN_KEYS p"

definition operation_object :: "GovernedRecourseOperationRecord \<Rightarrow> GovernedRecourseOperationRecord jsobject" where
  "operation_object r = plain_object OPERATION_RECORD_KEYS r"

definition selection_object :: "GovernedRecoursePolicySelection \<Rightarrow> GovernedRecoursePolicySelection jsobject" where
  "selection_object x = plain_object SELECTION_KEYS x"

definition reconcile_preparation :: "InternalState \<Rightarrow> string \<Rightarrow> ProductInspection \<Rightarrow> InternalState option" where
  "reconcile_preparation s at i = (case (pi_foundation i, pi_protectionBindingDigest i) of
     (Some (bindingDigest, report), Some protectionDigest) \<Rightarrow>
       if pi_foundationPrivateComplete i then
         Some (s\<lparr>is_stage := Stage_MATCH_PREPARED, is_protectionCase := case_after_preparation s at,
           is_keygen := Some \<lparr>kg_bindingDigest = bindingDigest, kg_protectionBindingDigest = protectionDigest, kg_durationNanos = 0,
             kg_report = report\<rparr>,
           is_participantKeys := Some (participantKeyPaths s)\<rparr>)
       else None
   | _ \<Rightarrow> None)"

fun submitted_stage :: "ParticipantRole \<Rightarrow> ExecutionStage" where
  "submitted_stage PARTICIPANT_A = Stage_PARTICIPANT_A_SUBMITTED"
| "submitted_stage PARTICIPANT_B = Stage_PARTICIPANT_B_PUBLISHED"

definition reconcile_submission :: "InternalState \<Rightarrow> ParticipantRole \<Rightarrow> string \<Rightarrow> SubmissionArtifact option \<Rightarrow> InternalState option" where
  "reconcile_submission s role at output = (case output of
     None \<Rightarrow> None
   | Some a \<Rightarrow> Some (s\<lparr>is_stage := submitted_stage role,
       is_protectionCase := case_after_submission s role at (so_artifactDigest a),
       is_submissions := (is_submissions s)(role \<mapsto> reconstructedSubmission a)\<rparr>))"

definition reconcile_evaluation :: "InternalState \<Rightarrow> string \<Rightarrow> ProductInspection \<Rightarrow> InternalState option" where
  "reconcile_evaluation s at i = (case pi_evaluation i of
     None \<Rightarrow> None
   | Some a \<Rightarrow> Some (s\<lparr>is_stage := Stage_EVALUATED, is_protectionCase := case_after_evaluation s at (ev_artifactDigest a),
       is_evaluation := Some (EvaluationArtifact.extend a (EvaluationOutput.fields 0))\<rparr>))"

definition reconcile_coalition_release ::
  "'e ProtectionRuntime \<Rightarrow> InternalState \<Rightarrow> string \<Rightarrow> ProductInspection \<Rightarrow> 'e engine_world \<Rightarrow> InternalState option result" where
  "reconcile_coalition_release rt s at i w = (case pi_coalitionRelease i of
     None \<Rightarrow> Inr None
   | Some a \<Rightarrow>
       if \<not> pi_releasePrivateComplete i then Inr None
       else ebind (verifiedCoalitionReleaseFromArtifacts rt s w) (\<lambda>recovered.
         Inr (Some (s\<lparr>is_stage := Stage_RELEASED,
           is_protectionCase := coalitionProtectionCaseAfterRelease s (vr_result recovered) (vr_resultDigest recovered)
             (vr_coalitionAuthorityId recovered) at,
           is_coalitionRelease := Some (coalition_output recovered 0 (in_resultBytes a) True),
           is_coalitionSettlement := Some (vr_coalitionSettlement recovered)\<rparr>))))"

definition reconcile_release ::
  "'e ProtectionRuntime \<Rightarrow> InternalState \<Rightarrow> string \<Rightarrow> ProductInspection \<Rightarrow> 'e engine_world \<Rightarrow> InternalState option result" where
  "reconcile_release rt s at i w = (case pi_release i of
     None \<Rightarrow> Inr None
   | Some a \<Rightarrow>
       if \<not> pi_releasePrivateComplete i then Inr None
       else let release = ReleaseArtifact.extend a (ReleaseOutput.fields 0) in
         ebind (case is_governedRecoursePolicySelection s of
             None \<Rightarrow> Inr (is_governedActionPlan s)
           | Some selection \<Rightarrow>
               ebind (rt_readGovernedResult rt (engine_go w) (public_file s ''governed-conflict-result.json'')) (\<lambda>result.
               ebind (check (\<not> (governedResultDigest (rt_sha rt) (ob_view result) \<noteq> ro_resultDigest release
                   \<or> gr_conflict (ob_view result) \<noteq> ro_conflict release))
                 (product_error ''Reconciled governed result does not match the release'' 500)) (\<lambda>_.
               ebind (evaluateManagedDemoGovernedRecoursePolicy (rt_sha rt) (rt_ed25519 rt) selection result) (\<lambda>plan.
               Inr (Some (plan_object plan)))))) (\<lambda>plan.
         Inr (Some (s\<lparr>is_stage := Stage_RELEASED, is_protectionCase := case_after_release s release at,
           is_release := Some release, is_governedActionPlan := plan\<rparr>))))"

definition recorded_operation ::
  "(string \<Rightarrow> string) \<Rightarrow> InternalState \<Rightarrow> GovernedRecourseOperationAuthorization option \<Rightarrow> ProductOperationRecord \<Rightarrow> jsval
     \<Rightarrow> GovernedRecourseOperationRecord jsobject option result" where
  "recorded_operation sha s authorization operation recourse = (case authorization of
     None \<Rightarrow> Inr (is_governedRecourseOperation s)
   | Some a \<Rightarrow> ebind (recordManagedDemoGovernedRecourseOperation sha a (jr_operationId operation)
       (jr_immutableParametersDigest operation) recourse) (\<lambda>r. Inr (Some (operation_object r))))"

definition reconcile_recourse ::
  "'e ProtectionRuntime \<Rightarrow> InternalState \<Rightarrow> ProductOperationRecord \<Rightarrow> string \<Rightarrow> ProductInspection \<Rightarrow> 'e engine_world \<Rightarrow> InternalState option result" where
  "reconcile_recourse rt s pending at i w =
     (let outcome = en_json (w_env w) (root_file s ''recourse-outcome.json'') in
      if pi_recourse i = None \<and> outcome = None then Inr None
      else
        ebind (case pi_recourse i of
            Some record \<Rightarrow> Inr (recourseFromRecord record)
          | None \<Rightarrow> (case outcome of Some (Whole v) \<Rightarrow> Inr v | _ \<Rightarrow> Inl SyntaxError)) (\<lambda>recourse.
        case is_release s of
          None \<Rightarrow> Inr None
        | Some release \<Rightarrow>
            ebind (retainedGovernedOperationAuthorization (rt_sha rt) s pending) (\<lambda>authorization.
            if authorization = None \<and> js_member recourse ''opened'' \<noteq> VBool (ro_conflict release) then Inr None
            else
              ebind (recorded_operation (rt_sha rt) s authorization pending recourse) (\<lambda>operation.
              ebind (protectionCaseAfterRecourse s recourse at authorization) (\<lambda>c.
              Inr (Some (s\<lparr>is_stage := Stage_RECOURSE_OPENED, is_protectionCase := c, is_recourse := Some recourse,
                is_governedRecourseOperation := operation\<rparr>)))))))"

definition reconcileProtectionProjection ::
  "'e ProtectionRuntime \<Rightarrow> InternalState \<Rightarrow> ProductOperationRecord \<Rightarrow> ProductInspection \<Rightarrow> ('e engine_world, InternalState option) action" where
  "reconcileProtectionProjection rt s pending i =
     (let at = jr_createdAt pending in
      case jr_phase pending of
        PREPARING \<Rightarrow> alift (Inr (reconcile_preparation s at i))
      | SUBMITTING_A \<Rightarrow> alift (Inr (reconcile_submission s PARTICIPANT_A at (pi_submissionA i)))
      | SUBMITTING_B \<Rightarrow> alift (Inr (reconcile_submission s PARTICIPANT_B at (pi_submissionB i)))
      | FINALIZING \<Rightarrow> alift (Inr (if pi_finalized i then Some (s\<lparr>is_stage := Stage_PARTICIPANT_B_SUBMITTED\<rparr>) else None))
      | EVALUATING \<Rightarrow> alift (Inr (reconcile_evaluation s at i))
      | RELEASING \<Rightarrow> areads (if coalition_case s then reconcile_coalition_release rt s at i else reconcile_release rt s at i)
      | OPENING_RECOURSE \<Rightarrow> areads (reconcile_recourse rt s pending at i)
      | ADVANCING_CURE \<Rightarrow> alift (Inr (if is_stage s = Stage_CHRONOLOGY_COMPLETE then Some s else None))
      | EXPORTING \<Rightarrow> abind (external_call (rt_recoverEvidence rt s i)) (\<lambda>evidence.
          alift (Inr (case evidence of None \<Rightarrow> None | Some v \<Rightarrow> Some (s\<lparr>is_stage := Stage_COMPLETE, is_evidence := Some v\<rparr>))))
      | RETAINING \<Rightarrow> abind (external_call (rt_retained rt s pending)) (\<lambda>confirmed. alift (Inr (if confirmed then Some s else None)))
      | PHASE_ABORTED \<Rightarrow> alift (Inr (Some s)))"

definition pledge_path :: "InternalState \<Rightarrow> ParticipantRole \<Rightarrow> string" where
  "pledge_path s role = path_join (pa_participantPrivateRoot (is_paths s)) (toLowerCase (role_name role) @ ''-pledge.json'')"

definition remove_transients :: "InternalState \<Rightarrow> ProductOperationPhase \<Rightarrow> ('e engine_world, unit) action" where
  "remove_transients s phase =
     abind (remove_json (pledge_path s PARTICIPANT_A)) (\<lambda>_.
     abind (remove_json (pledge_path s PARTICIPANT_B)) (\<lambda>_.
     case phase of
       SUBMITTING_A \<Rightarrow> set_key (participantKeyPaths s PARTICIPANT_A) None
     | SUBMITTING_B \<Rightarrow> set_key (participantKeyPaths s PARTICIPANT_B) None
     | _ \<Rightarrow> alift (Inr ())))"

definition reconcile_pending ::
  "'e ProtectionRuntime \<Rightarrow> InternalState \<Rightarrow> bool \<Rightarrow> ProductOperationRecord \<Rightarrow> ProductInspection \<Rightarrow> ('e engine_world, InternalState) action" where
  "reconcile_pending rt s allowPrivateInspection p i =
     abind (reconcileProtectionProjection rt s p i) (\<lambda>reconstructed.
     case reconstructed of
       Some t \<Rightarrow>
         abind (saveState rt t) (\<lambda>saved.
         abind (finish_operation rt (is_runId s) (jr_operationId p) RECONCILED None) (\<lambda>_.
         abind (remove_transients s (jr_phase p)) (\<lambda>_. alift (Inr saved))))
     | None \<Rightarrow>
         if jr_phase p = EVALUATING \<and> pi_evaluationAdmission i
         then abortState rt s p ''IRREVERSIBLE_EVALUATION_WITHOUT_TERMINAL_ARTIFACT''
         else if allowPrivateInspection \<and> jr_phase p = RELEASING \<and> pi_releaseAdmission i
         then abortState rt s p ''IRREVERSIBLE_RELEASE_WITHOUT_TERMINAL_RESULT''
         else alift (Inr s))"

definition journal_of :: "'e ProtectionRuntime \<Rightarrow> string \<Rightarrow> 'e engine_world \<Rightarrow> ProductOperationJournal result" where
  "journal_of rt runId w = readOperationJournal (rt_sha rt) (rt_runRoot rt) (en_journal (w_env w)) runId"

text \<open>The rest of the reconciliation, with the operation that is open.\<close>

definition reconcile_open ::
  "'e ProtectionRuntime \<Rightarrow> InternalState \<Rightarrow> bool \<Rightarrow> ProductOperationRecord option \<Rightarrow> ('e engine_world, InternalState) action" where
  "reconcile_open rt s allowPrivateInspection pending =
     abind (inspectCase rt s pending allowPrivateInspection) (\<lambda>i.
     case pending of
       None \<Rightarrow> if pi_ambiguous i then alift (Inl (product_error ''Ambiguous cryptographic terminal state'' 500)) else alift (Inr s)
     | Some p \<Rightarrow>
         if pi_ambiguous i
         then abortState rt s p (case pi_ambiguousReason i of None \<Rightarrow> ''AMBIGUOUS_CRYPTOGRAPHIC_ACTION'' | Some t \<Rightarrow> t)
         else reconcile_pending rt s allowPrivateInspection p i)"

definition reconcileState :: "'e ProtectionRuntime \<Rightarrow> InternalState \<Rightarrow> bool \<Rightarrow> ('e engine_world, InternalState) action" where
  "reconcileState rt s allowPrivateInspection =
     abind (areads (journal_of rt (is_runId s))) (\<lambda>journal.
     case at_last (jj_records journal) of
       Some r \<Rightarrow>
         if jr_outcome r = OUTCOME_ABORTED \<and> is_stage s \<noteq> Stage_ABORTED then
           saveState rt (s\<lparr>is_stage := Stage_ABORTED,
             is_abortedReason := Some (case jr_outcomeReason r of None \<Rightarrow> ''OPERATION_ABORTED'' | Some t \<Rightarrow> t)\<rparr>)
         else reconcile_open rt s allowPrivateInspection (pending_tail journal)
     | None \<Rightarrow> reconcile_open rt s allowPrivateInspection (pending_tail journal))"

definition loadState :: "'e ProtectionRuntime \<Rightarrow> string \<Rightarrow> bool \<Rightarrow> ('e engine_world, InternalState) action" where
  "loadState rt runId allowPrivateInspection =
     abind (areads (loadStateRaw rt runId)) (\<lambda>s. reconcileState rt s allowPrivateInspection)"

subsection \<open>The settlement profile of a coalition run\<close>

definition pinned_config :: "string \<Rightarrow> CommittedParticipantConfig result" where
  "pinned_config selection = (case map_of PINNED_PARTICIPANT_CONFIGS selection of
     None \<Rightarrow> Inl DependencyError | Some (path, sha256) \<Rightarrow> Inr \<lparr>cg_path = path, cg_sha256 = sha256\<rparr>)"

definition coalition_profile ::
  "InternalState \<Rightarrow> KeygenOutput \<Rightarrow> CommittedParticipantConfig \<Rightarrow> CanonicalRecourseConfiguration \<Rightarrow> string \<Rightarrow> int \<Rightarrow> SettlementProfile" where
  "coalition_profile s keygen pinned canonical releaseAuthorityId committedAt = \<lparr>
     sp_schemaVersion = SETTLEMENT_PROFILE_SCHEMA, sp_profileId = ''mordant.coalition-live.execution-ready'', sp_profileVersion = 1,
     sp_caseBinding = CommittedCaseBinding.make (is_runId s) (pc_fheCaseId (is_protectionCase s)) (kg_bindingDigest keygen)
       (kg_protectionBindingDigest keygen) COALITION_RELEASE_MODE,
     sp_participantConfig = pinned, sp_committedAtUnix = committedAt, sp_chainId = cn_adapterChainId canonical,
     sp_adapter = cn_adapterAddress canonical, sp_settlementToken = cn_settlementToken canonical, sp_cviVerifier = cn_verifier canonical,
     sp_facility = cn_facility canonical, sp_attestor = cn_attestor canonical, sp_holderA = cn_holderA canonical,
     sp_holderB = cn_holderB canonical, sp_payoutA = show_int (cn_payoutA canonical), sp_payoutB = show_int (cn_payoutB canonical),
     sp_cureWindowSeconds = cn_cureWindowSeconds canonical, sp_releaseAuthorityId = releaseAuthorityId,
     sp_settlementAuthorization = ''AUTHORIZED''\<rparr>"

definition commit_profile :: "'e ProtectionRuntime \<Rightarrow> InternalState \<Rightarrow> SettlementProfile \<Rightarrow> ('e engine_world, unit) action" where
  "commit_profile rt s profile w =
     (case commitSettlementProfile (rt_sha rt) (run_view rt w) (rt_runRoot rt) (is_runId s) profile of
        Inl e \<Rightarrow> (w, Inl e)
      | Inr (fs, committed) \<Rightarrow>
          let path = settlementProfilePath (rt_runRoot rt) (is_runId s)
          in (w\<lparr>w_env := (w_env w)\<lparr>en_run := (en_run (w_env w))(path := fs path)\<rparr>\<rparr>, Inr ()))"

definition ensureCoalitionSettlementProfileCommitted :: "'e ProtectionRuntime \<Rightarrow> InternalState \<Rightarrow> ('e engine_world, unit) action" where
  "ensureCoalitionSettlementProfileCommitted rt s =
     (if \<not> coalition_case s then alift (Inr ())
      else abind (areads (\<lambda>w. Inr (run_view rt w (settlementProfilePath (rt_runRoot rt) (is_runId s)) \<noteq> None))) (\<lambda>there.
        if there then
          areads (\<lambda>w. ebind (readCommittedSettlementProfile (rt_sha rt) (run_view rt w) (rt_runRoot rt) (is_runId s)) (\<lambda>_. Inr ()))
        else
          abind (alift (require (is_keygen s) (product_error ''A settlement profile needs the published case foundation'' 500))) (\<lambda>keygen.
          abind (areads (\<lambda>w. rt_readJson rt (engine_go w) (public_file s ''case-binding.json''))) (\<lambda>binding.
          abind (alift (case js_member binding ''releaseAuthorityId'' of
              VString t \<Rightarrow> if fixed_regex SHA256_LOWER t then Inr t
                else Inl (product_error ''The coalition case binding names no release authority'' 500)
            | _ \<Rightarrow> Inl (product_error ''The coalition case binding names no release authority'' 500))) (\<lambda>authority.
          abind (areads (\<lambda>w. readParticipantConfigSelection (rt_participantConfig rt (engine_go w)))) (\<lambda>selection.
          abind (areads (\<lambda>w. rt_loadConfiguration rt (engine_go w) selection)) (\<lambda>canonical.
          abind (alift (pinned_config selection)) (\<lambda>pinned.
          abind (now_ms rt) (\<lambda>now.
          commit_profile rt s (coalition_profile s keygen pinned canonical authority (now div 1000)))))))))))"

subsection \<open>Creation and preparation\<close>

definition COALITION_OPERATOR_DIRECTORIES :: "string list" where
  "COALITION_OPERATOR_DIRECTORIES = [''coalition-operator-1'', ''coalition-operator-2'', ''coalition-operator-3'']"

definition COALITION_LEDGER_DIRECTORY :: string where
  "COALITION_LEDGER_DIRECTORY = ''coalition-ledger''"

definition new_state ::
  "string \<Rightarrow> string \<Rightarrow> MordantProtectionCase \<Rightarrow> bool \<Rightarrow> GovernedRecoursePolicySelection option \<Rightarrow> SupervisedPledgeWindows option \<Rightarrow> bool
     \<Rightarrow> int \<Rightarrow> InternalState" where
  "new_state runId root c custom selection windows coalition startedAt = \<lparr>
     is_runId = runId, is_stage = Stage_CASE_CREATED, is_protectionCase = c,
     is_paths = \<lparr>pa_root = root, pa_publicRoot = path_join root ''public'', pa_decryptorPrivateRoot = path_join root ''decryptor-private'',
       pa_participantPrivateRoot = path_join root ''participant-private'',
       pa_coalitionOperatorRoots = (if coalition then Some (map (path_join root) COALITION_OPERATOR_DIRECTORIES) else None),
       pa_coalitionLedgerRoot = (if coalition then Some (path_join root COALITION_LEDGER_DIRECTORY) else None)\<rparr>,
     is_participantKeys = None, is_keygen = None, is_submissions = Map.empty, is_evaluation = None, is_release = None,
     is_coalitionRelease = None, is_coalitionSettlement = None, is_recourse = None, is_evidence = None, is_abortedReason = None,
     is_startedAtUnix = startedAt, is_supervisedPledgeWindows = windows, is_admittedClaims = Map.empty,
     is_executionVariant = (if custom then Some CUSTOM_SUPERVISED_EXECUTION_VARIANT else None),
     is_governedRecoursePolicySelection = map_option selection_object selection, is_governedActionPlan = None,
     is_governedRecourseOperation = None, is_customReceipt = None\<rparr>"

text \<open>A creation request that found its run.\<close>

definition same_shape :: "InternalState \<Rightarrow> bool \<Rightarrow> ProductScenario option \<Rightarrow> bool \<Rightarrow> bool \<Rightarrow> bool" where
  "same_shape existing custom scenario policy coalition =
     (if custom then custom_run existing \<and> (is_governedRecoursePolicySelection existing \<noteq> None) = policy
        \<and> coalition_case existing = coalition
      else is_executionVariant existing = None \<and> Some (pc_productScenario (is_protectionCase existing)) = scenario)"

definition create_fresh ::
  "'e ProtectionRuntime \<Rightarrow> ProductScenario option \<Rightarrow> string \<Rightarrow> SupervisedPledgeWindows option \<Rightarrow> bool \<Rightarrow> bool \<Rightarrow> bool
     \<Rightarrow> ('e engine_world, InternalState) action" where
  "create_fresh rt scenario runId windows custom policy coalition =
     abind (now_ms rt) (\<lambda>created.
     abind (external_call (\<lambda>w. let (e, n) = rt_caseNonce rt w in (e, Inr n))) (\<lambda>nonce.
     abind (alift (createProtectionCase (rt_sha rt) \<lparr>
         co_scenario = (if custom then ScenarioConflict else case scenario of Some x \<Rightarrow> x | None \<Rightarrow> ScenarioConflict),
         co_createdAt = Some created, co_caseNonce = nonce,
         co_releaseMode = (if coalition then Some COALITION_RELEASE_MODE else None), co_assetRecord = None, co_custom = custom\<rparr>)) (\<lambda>c.
     abind (alift (if policy then
         ebind (selectManagedDemoGovernedRecoursePolicy (rt_sha rt) (pc_fheCaseId c) (pc_policyId c) (pc_policyVersion c) (created div 1000))
           (\<lambda>x. Inr (Some x)) else Inr None)) (\<lambda>selection.
     saveState rt (new_state runId (run_directory rt runId) c custom selection windows coalition (created div 1000))))))"

definition createProtectionCaseRuntime ::
  "'e ProtectionRuntime \<Rightarrow> ProductScenario option \<Rightarrow> string \<Rightarrow> jsval option \<Rightarrow> bool \<Rightarrow> bool \<Rightarrow> bool \<Rightarrow> ('e engine_world, InternalState) action" where
  "createProtectionCaseRuntime rt scenario creationRequestId pledgeWindows participantAdmission policy coalition =
     abind (alift (case pledgeWindows of None \<Rightarrow> Inr None
       | Some v \<Rightarrow> ebind (assertSupervisedPledgeWindows v) (\<lambda>ws. Inr (Some ws)))) (\<lambda>windows.
     abind (alift (check (\<not> (windows \<noteq> None \<and> participantAdmission))
       (product_error ''A participant-admitted case cannot carry operator windows'' 400))) (\<lambda>_.
     let custom = (windows \<noteq> None \<or> participantAdmission) in
     abind (alift (check (custom \<or> scenario \<noteq> None) (product_error ''Unsupported product scenario'' 400))) (\<lambda>_.
     abind (alift (assertRunId creationRequestId)) (\<lambda>_.
     exclusive (''creation:'' @ creationRequestId)
       (abind (areads (\<lambda>w. Inr (en_states (w_env w) (state_file rt creationRequestId) \<noteq> None))) (\<lambda>there.
        if there then
          abind (loadState rt creationRequestId False) (\<lambda>existing.
          abind (alift (check (same_shape existing custom scenario policy coalition)
            (product_error ''Creation request scenario mismatch'' 409))) (\<lambda>_. alift (Inr existing)))
        else create_fresh rt scenario creationRequestId windows custom policy coalition))))))"

definition participant_id :: "(string \<Rightarrow> string) \<Rightarrow> InternalState \<Rightarrow> ParticipantRole \<Rightarrow> string" where
  "participant_id sha s role = digestText sha ''MordantProtectionParticipant/v1'' (role_text s role)"

definition unix_json :: "int option \<Rightarrow> json" where
  "unix_json t = (case t of None \<Rightarrow> JNull | Some n \<Rightarrow> JNum n)"

definition participant_spec :: "(string \<Rightarrow> string) \<Rightarrow> InternalState \<Rightarrow> ParticipantRole \<Rightarrow> string \<Rightarrow> json" where
  "participant_spec sha s role key = JObj [(''id'', JStr (participant_id sha s role)), (''role'', JStr (role_name role)),
     (''signingPublicKey'', JStr key)]"

definition case_spec ::
  "(string \<Rightarrow> string) \<Rightarrow> InternalState \<Rightarrow> (ParticipantRole \<Rightarrow> string) \<Rightarrow> (MordantProtectionBinding + MordantCustomSupervisedBindingV2) \<Rightarrow> json" where
  "case_spec sha s keys binding = (let c = is_protectionCase s; createdAt = unix (pc_createdAt c) in JObj [
     (''caseId'', JStr (pc_fheCaseId c)), (''assetIdentity'', JStr (pc_cleanverseAssetDigest c)), (''policyId'', JStr (pc_policyId c)),
     (''participantA'', participant_spec sha s PARTICIPANT_A (keys PARTICIPANT_A)),
     (''participantB'', participant_spec sha s PARTICIPANT_B (keys PARTICIPANT_B)),
     (''caseNonce'', JStr (pc_caseNonce c)), (''createdAtUnix'', unix_json createdAt),
     (''expiresAtUnix'', unix_json (map_option (\<lambda>t. t + 4 * 60 * 60) createdAt)),
     (''protectionBinding'', authorization_binding_json binding)])"

definition FHE_PARAMETER_PROFILE :: string where
  "FHE_PARAMETER_PROFILE = ''mordant.bgv.identity-full-fhe-256.n15/v1''"

definition FHE_CIRCUIT :: string where
  "FHE_CIRCUIT = ''mordant.identity-full-fhe-256''"

definition prepare_input :: "InternalState \<Rightarrow> string \<Rightarrow> BeginOperation" where
  "prepare_input s at = \<lparr>bo_operation = Op_preparePrivateMatch, bo_phase = PREPARING,
     bo_immutableParameters = JObj (case_json s @ [(''assetIdentity'', JStr (pc_cleanverseAssetDigest (is_protectionCase s))),
       (''policyId'', JStr (pc_policyId (is_protectionCase s)))]),
     bo_expectedCurrentStage = ''CASE_CREATED'', bo_expectedTargetStage = ''MATCH_PREPARED'', bo_fixedNowUnix = None,
     bo_expectedArtifacts = [''case-binding.json'', ''case-crypto.json'', ''release-authority.json'', ''private-case.json'',
       ''protection-binding.json'', ''protection-binding-signature-a.json'', ''protection-binding-signature-b.json''],
     bo_createdAt = at\<rparr>"

text \<open>The two keys, the second lock on them and the case specification.\<close>

definition prepare_keys :: "'e ProtectionRuntime \<Rightarrow> InternalState \<Rightarrow> ('e engine_world, ParticipantRole \<Rightarrow> string) action" where
  "prepare_keys rt s =
     (let root = pa_participantPrivateRoot (is_paths s) in
      abind (areads (\<lambda>w. Inr (\<not> rt_exists rt (engine_go w) (public_file s ''case-binding.json'')))) (\<lambda>preFoundation.
      abind (areads (admittedSigningKeyDigest rt (is_runId s) PARTICIPANT_A)) (\<lambda>admittedA.
      abind (rawParticipantKey rt PARTICIPANT_A root preFoundation admittedA) (\<lambda>(pathA, keyA).
      abind (failpoint rt ''after-participant-key-a'') (\<lambda>_.
      abind (areads (admittedSigningKeyDigest rt (is_runId s) PARTICIPANT_B)) (\<lambda>admittedB.
      abind (rawParticipantKey rt PARTICIPANT_B root preFoundation admittedB) (\<lambda>(pathB, keyB).
      abind (failpoint rt ''after-both-participant-keys'') (\<lambda>_.
      let keys = (\<lambda>role. case role of PARTICIPANT_A \<Rightarrow> keyA | PARTICIPANT_B \<Rightarrow> keyB) in
      abind (areads (assertPublishedKeysWereAdmitted rt s keys)) (\<lambda>_.
      abind (alift (protectionAuthorizationBinding s)) (\<lambda>binding.
      abind (write_json rt (path_join root ''case-spec.json'') (js_of_json (case_spec (rt_sha rt) s keys binding))) (\<lambda>_.
      abind (failpoint rt ''after-case-spec'') (\<lambda>_. alift (Inr keys)))))))))))))"

definition coalition_create_args :: "InternalState \<Rightarrow> string list" where
  "coalition_create_args s = (case pa_coalitionOperatorRoots (is_paths s) of
     None \<Rightarrow> [] | Some roots \<Rightarrow> [''-release-mode'', COALITION_RELEASE_MODE] @ concat (map (\<lambda>r. [''-operator-root'', r]) roots))"

definition create_args :: "InternalState \<Rightarrow> string list" where
  "create_args s = [''-mode'', ''create'', ''-public-root'', pa_publicRoot (is_paths s), ''-private-root'', pa_decryptorPrivateRoot (is_paths s),
     ''-spec'', path_join (pa_participantPrivateRoot (is_paths s)) ''case-spec.json'',
     ''-participant-a-key'', participantKeyPaths s PARTICIPANT_A, ''-participant-b-key'', participantKeyPaths s PARTICIPANT_B]
     @ coalition_create_args s"

definition assert_generated_case :: "(string \<Rightarrow> string) \<Rightarrow> InternalState \<Rightarrow> KeygenOutput \<Rightarrow> jsval \<Rightarrow> unit result" where
  "assert_generated_case sha s output binding =
     (let c = is_protectionCase s in
      ebind (protectionAuthorizationBindingDigest sha s) (\<lambda>d.
      check (\<not> (js_member binding ''caseId'' \<noteq> VString (pc_fheCaseId c)
        \<or> js_member binding ''assetIdentity'' \<noteq> VString (pc_cleanverseAssetDigest c)
        \<or> js_member binding ''policyId'' \<noteq> VString (pc_policyId c)
        \<or> js_member binding ''releaseMode'' \<noteq> VString (pc_releaseMode c)
        \<or> js_member binding ''parameterProfile'' \<noteq> VString FHE_PARAMETER_PROFILE
        \<or> js_member binding ''circuitId'' \<noteq> VString FHE_CIRCUIT
        \<or> kg_protectionBindingDigest output \<noteq> d))
        (product_error ''Generated FHE case does not match the protection case'' 500)))"

definition preparePrivateMatchRuntime :: "'e ProtectionRuntime \<Rightarrow> string \<Rightarrow> ('e engine_world, InternalState) action" where
  "preparePrivateMatchRuntime rt runId = exclusive runId (
     abind (loadState rt runId True) (\<lambda>s.
     if is_stage s = Stage_MATCH_PREPARED then alift (Inr s)
     else
       abind (alift (check (is_stage s = Stage_CASE_CREATED) (product_error ''Private match is already prepared'' 409))) (\<lambda>_.
       abind (now_iso rt) (\<lambda>at.
       abind (begin_operation rt runId (prepare_input s at)) (\<lambda>operation.
       abind (assertDiskSpace rt) (\<lambda>_.
       abind (assertBinaryBuildSpace rt) (\<lambda>_.
       abind (ensureBinaries rt) (\<lambda>_.
       abind (assertDiskSpace rt) (\<lambda>_.
       abind (prepare_keys rt s) (\<lambda>keys.
       abind (runJSON (rt_keygen_create rt (create_args s))) (\<lambda>output.
       abind (failpoint rt ''after-keygen-before-state-save'') (\<lambda>_.
       abind (areads (\<lambda>w. rt_readJson rt (engine_go w) (public_file s ''case-binding.json''))) (\<lambda>binding.
       abind (alift (assert_generated_case (rt_sha rt) s output binding)) (\<lambda>_.
       abind (saveState rt (s\<lparr>is_stage := Stage_MATCH_PREPARED,
         is_protectionCase := case_after_preparation s (jr_createdAt operation),
         is_keygen := Some output, is_participantKeys := Some (participantKeyPaths s)\<rparr>)) (\<lambda>saved.
       abind (ensureCoalitionSettlementProfileCommitted rt saved) (\<lambda>_.
       abind (finish_operation rt runId (jr_operationId operation) COMPLETED None) (\<lambda>_.
       alift (Inr saved))))))))))))))))))"

subsection \<open>Admission\<close>

definition readParticipantAdmissionContextRuntime ::
  "'e ProtectionRuntime \<Rightarrow> string \<Rightarrow> ParticipantRole \<Rightarrow> ('e engine_world, ParticipantAdmissionContext) action" where
  "readParticipantAdmissionContextRuntime rt runId role =
     abind (areads (assertDirectParticipantAdmissionEnabled rt)) (\<lambda>_.
     abind (loadState rt runId False) (\<lambda>s.
     abind (alift (check (custom_run s) (product_error ''This case does not admit participants'' 409))) (\<lambda>_.
     abind (areads (\<lambda>w. Inr (\<not> rt_exists rt (engine_go w) (public_file s ''case-binding.json'')))) (\<lambda>preFoundation.
     abind (areads (admittedSigningKeyDigest rt (is_runId s) role)) (\<lambda>admitted.
     abind (rawParticipantKey rt role (pa_participantPrivateRoot (is_paths s)) preFoundation admitted) (\<lambda>(path, key).
     abind (alift (protectionAuthorizationBindingDigest (rt_sha rt) s)) (\<lambda>d.
     alift (Inr \<lparr>px_runId = is_runId s, px_stage = stage_name (is_stage s), px_fheCaseId = pc_fheCaseId (is_protectionCase s),
       px_assetIdentityDigest = pc_cleanverseAssetDigest (is_protectionCase s), px_protectionBindingDigest = d,
       px_participantSigningKey = key\<rparr>))))))))"

fun admission_stage :: "ParticipantRole \<Rightarrow> ExecutionStage" where
  "admission_stage PARTICIPANT_A = Stage_MATCH_PREPARED"
| "admission_stage PARTICIPANT_B = Stage_PARTICIPANT_A_SUBMITTED"

definition admitParticipantClaimRuntime ::
  "'e ProtectionRuntime \<Rightarrow> string \<Rightarrow> ParticipantRole \<Rightarrow> AdmittedParticipantClaim \<Rightarrow> ('e engine_world, InternalState) action" where
  "admitParticipantClaimRuntime rt runId role admission = exclusive runId (
     abind (areads (assertDirectParticipantAdmissionEnabled rt)) (\<lambda>_.
     abind (loadState rt runId True) (\<lambda>s.
     abind (alift (check (custom_run s) (product_error ''This case does not admit participants'' 409))) (\<lambda>_.
     abind (alift (check (is_supervisedPledgeWindows s = None) (product_error ''This case was created with operator windows'' 409))) (\<lambda>_.
     case is_admittedClaims s role of
       Some existing \<Rightarrow>
         abind (alift (check (\<not> (ac_authorizationDigest existing \<noteq> ac_authorizationDigest admission
             \<or> ac_claimCommitment existing \<noteq> ac_claimCommitment admission
             \<or> ac_participantWallet existing \<noteq> ac_participantWallet admission
             \<or> ac_authorizationNonce existing \<noteq> ac_authorizationNonce admission))
           (product_error ''The role has already been admitted for this case'' 409))) (\<lambda>_.
         abind (areads (assertVerifiedDurableAdmission rt s role admission)) (\<lambda>_. alift (Inr s)))
     | None \<Rightarrow>
         abind (alift (check (is_stage s = admission_stage role) (product_error ''Participant admission is out of order'' 409))) (\<lambda>_.
         abind (areads (assertVerifiedDurableAdmission rt s role admission)) (\<lambda>_.
         saveState rt (s\<lparr>is_admittedClaims := (is_admittedClaims s)(role \<mapsto> admission)\<rparr>))))))))"

subsection \<open>Submission and evaluation\<close>

definition finalize_input :: "InternalState \<Rightarrow> string \<Rightarrow> BeginOperation" where
  "finalize_input s at = \<lparr>bo_operation = Op_finalizeParticipantSubmissions, bo_phase = FINALIZING,
     bo_immutableParameters = JObj (case_json s @ opt_text ''participantA'' (submission_digest s PARTICIPANT_A)
       @ opt_text ''participantB'' (submission_digest s PARTICIPANT_B)),
     bo_expectedCurrentStage = ''PARTICIPANT_B_PUBLISHED'', bo_expectedTargetStage = ''PARTICIPANT_B_SUBMITTED'', bo_fixedNowUnix = None,
     bo_expectedArtifacts = [''case-manifest.json''], bo_createdAt = at\<rparr>"

definition finalizeParticipantSubmissions :: "'e ProtectionRuntime \<Rightarrow> InternalState \<Rightarrow> ('e engine_world, InternalState) action" where
  "finalizeParticipantSubmissions rt s =
     (if is_stage s = Stage_PARTICIPANT_B_SUBMITTED then alift (Inr s)
      else
        abind (alift (check (is_stage s = Stage_PARTICIPANT_B_PUBLISHED)
          (product_error ''Participant B publication is required before finalization'' 409))) (\<lambda>_.
        abind (now_iso rt) (\<lambda>at.
        abind (begin_operation rt (is_runId s) (finalize_input s at)) (\<lambda>operation.
        abind (runJSON (rt_keygen_finalize rt [''-mode'', ''finalize'', ''-public-root'', pa_publicRoot (is_paths s)])) (\<lambda>_.
        abind (failpoint rt ''after-participant-b-finalize-before-state-save'') (\<lambda>_.
        abind (saveState rt (s\<lparr>is_stage := Stage_PARTICIPANT_B_SUBMITTED\<rparr>)) (\<lambda>saved.
        abind (finish_operation rt (is_runId s) (jr_operationId operation) COMPLETED None) (\<lambda>_. alift (Inr saved)))))))))"

definition submission_nonce :: "(string \<Rightarrow> string) \<Rightarrow> InternalState \<Rightarrow> ParticipantRole \<Rightarrow> string" where
  "submission_nonce sha s role = digestText sha ''MordantProtectionSubmission/v1'' (role_text s role)"

fun submission_manifest :: "ParticipantRole \<Rightarrow> string" where
  "submission_manifest PARTICIPANT_A = ''submission-a.json''"
| "submission_manifest PARTICIPANT_B = ''submission-b.json''"

definition submit_input :: "(string \<Rightarrow> string) \<Rightarrow> InternalState \<Rightarrow> ParticipantRole \<Rightarrow> string \<Rightarrow> string \<Rightarrow> BeginOperation" where
  "submit_input sha s role expectedAssetDigest at = \<lparr>
     bo_operation = (case role of PARTICIPANT_A \<Rightarrow> Op_submitParticipantA | PARTICIPANT_B \<Rightarrow> Op_submitParticipantB),
     bo_phase = (case role of PARTICIPANT_A \<Rightarrow> SUBMITTING_A | PARTICIPANT_B \<Rightarrow> SUBMITTING_B),
     bo_immutableParameters = JObj (case_json s @ [(''assetIdentity'', JStr expectedAssetDigest), (''role'', JStr (role_name role)),
       (''submissionNonce'', JStr (submission_nonce sha s role))]),
     bo_expectedCurrentStage = stage_name (admission_stage role), bo_expectedTargetStage = stage_name (submitted_stage role),
     bo_fixedNowUnix = None, bo_expectedArtifacts = [submission_manifest role], bo_createdAt = at\<rparr>"

text \<open>The gate of a participant-admitted case.\<close>

definition submission_admitted :: "'e ProtectionRuntime \<Rightarrow> InternalState \<Rightarrow> ParticipantRole \<Rightarrow> 'e engine_world \<Rightarrow> unit result" where
  "submission_admitted rt s role w =
     (if custom_run s \<and> is_supervisedPledgeWindows s = None then
        ebind (assertDirectParticipantAdmissionEnabled rt w) (\<lambda>_.
        ebind (require (is_admittedClaims s role) (product_error ''No verified durable admission'' 409)) (\<lambda>admitted.
        assertVerifiedDurableAdmission rt s role admitted w))
      else Inr ())"

definition client_args :: "(string \<Rightarrow> string) \<Rightarrow> InternalState \<Rightarrow> ParticipantRole \<Rightarrow> string \<Rightarrow> string list" where
  "client_args sha s role keyPath = [''-public-root'', pa_publicRoot (is_paths s), ''-role'', role_name role, ''-signing-key'', keyPath,
     ''-pledge'', pledge_path s role, ''-submission-nonce'', submission_nonce sha s role, ''-expires-at'',
     (case unix (pc_createdAt (is_protectionCase s)) of None \<Rightarrow> ''NaN'' | Some t \<Rightarrow> show_int (t + 3 * 60 * 60))]"

definition assert_artifact_binding :: "InternalState \<Rightarrow> jsval \<Rightarrow> string \<Rightarrow> unit result" where
  "assert_artifact_binding s artifact message =
     check (\<not> (js_member artifact ''assetIdentity'' \<noteq> VString (pc_cleanverseAssetDigest (is_protectionCase s))
        \<or> js_member artifact ''caseId'' \<noteq> VString (pc_fheCaseId (is_protectionCase s)))) (product_error message 500)"

definition publish_pledge ::
  "'e ProtectionRuntime \<Rightarrow> InternalState \<Rightarrow> ParticipantRole \<Rightarrow> (ParticipantRole \<Rightarrow> string) \<Rightarrow> ('e engine_world, SubmissionOutput) action" where
  "publish_pledge rt s role keys =
     abind (alift (pledgeFor (rt_sha rt) s role)) (\<lambda>pledge.
     abind (write_json rt (pledge_path s role) (pledge_object pledge)) (\<lambda>_.
     abind (runJSON (rt_client rt (client_args (rt_sha rt) s role (keys role)))) (\<lambda>output.
     abind (failpoint rt ''after-submission-publication-before-unlink'') (\<lambda>_.
     abind (remove_json (pledge_path s role)) (\<lambda>_.
     abind (set_key (keys role) None) (\<lambda>_.
     abind (failpoint rt ''after-submission-unlink-before-state-save'') (\<lambda>_.
     abind (areads (\<lambda>w. rt_readJson rt (engine_go w) (public_file s (submission_manifest role)))) (\<lambda>artifact.
     abind (alift (assert_artifact_binding s artifact ''Participant artifact asset binding mismatch'')) (\<lambda>_.
     alift (Inr output))))))))))"

definition submitParticipantPledgeRuntime ::
  "'e ProtectionRuntime \<Rightarrow> string \<Rightarrow> ParticipantRole \<Rightarrow> string \<Rightarrow> ('e engine_world, InternalState) action" where
  "submitParticipantPledgeRuntime rt runId role expectedAssetDigest = exclusive runId (
     abind (loadState rt runId True) (\<lambda>s.
     abind (alift (assertProtectionAssetBinding (rt_sha rt) (is_protectionCase s) expectedAssetDigest)) (\<lambda>_.
     abind (areads (submission_admitted rt s role)) (\<lambda>_.
     if role = PARTICIPANT_B \<and> is_stage s = Stage_PARTICIPANT_B_PUBLISHED then finalizeParticipantSubmissions rt s
     else if is_submissions s role \<noteq> None then alift (Inr s)
     else
       abind (alift (require (if is_stage s = admission_stage role then is_participantKeys s else None)
         (product_error ''Participant submission is out of order'' 409))) (\<lambda>keys.
       abind (now_iso rt) (\<lambda>at.
       abind (begin_operation rt runId (submit_input (rt_sha rt) s role expectedAssetDigest at)) (\<lambda>operation.
       abind (publish_pledge rt s role keys) (\<lambda>output.
       abind (saveState rt (s\<lparr>is_stage := submitted_stage role,
         is_protectionCase := case_after_submission s role (jr_createdAt operation) (so_artifactDigest output),
         is_submissions := (is_submissions s)(role \<mapsto> output)\<rparr>)) (\<lambda>saved.
       abind (finish_operation rt runId (jr_operationId operation) COMPLETED None) (\<lambda>_.
       if role = PARTICIPANT_B then finalizeParticipantSubmissions rt saved else alift (Inr saved)))))))))))"

definition evaluate_input :: "InternalState \<Rightarrow> string \<Rightarrow> BeginOperation" where
  "evaluate_input s at = \<lparr>bo_operation = Op_evaluatePrivateConflict, bo_phase = EVALUATING,
     bo_immutableParameters = JObj (case_json s @ opt_text ''participantA'' (submission_digest s PARTICIPANT_A)
       @ opt_text ''participantB'' (submission_digest s PARTICIPANT_B)),
     bo_expectedCurrentStage = ''PARTICIPANT_B_SUBMITTED'', bo_expectedTargetStage = ''EVALUATED'', bo_fixedNowUnix = None,
     bo_expectedArtifacts = [''evaluation-admitted.json'', ''evaluated-conflict.json'', ''evaluation-completed.json''], bo_createdAt = at\<rparr>"

definition evaluatePrivateConflictRuntime :: "'e ProtectionRuntime \<Rightarrow> string \<Rightarrow> ('e engine_world, InternalState) action" where
  "evaluatePrivateConflictRuntime rt runId = exclusive runId (
     abind (loadState rt runId True) (\<lambda>s.
     if is_stage s = Stage_EVALUATED then alift (Inr s)
     else
       abind (alift (check (is_stage s = Stage_PARTICIPANT_B_SUBMITTED) (product_error ''Both encrypted submissions are required'' 409))) (\<lambda>_.
       abind (ensureCoalitionSettlementProfileCommitted rt s) (\<lambda>_.
       abind (now_iso rt) (\<lambda>at.
       abind (begin_operation rt runId (evaluate_input s at)) (\<lambda>operation.
       abind (runJSON (rt_evaluator rt [''-public-root'', pa_publicRoot (is_paths s)])) (\<lambda>output.
       abind (failpoint rt ''after-evaluation-completion-before-state-save'') (\<lambda>_.
       abind (areads (\<lambda>w. rt_readJson rt (engine_go w) (public_file s ''evaluated-conflict.json''))) (\<lambda>artifact.
       abind (alift (assert_artifact_binding s artifact ''Evaluated artifact asset binding mismatch'')) (\<lambda>_.
       abind (saveState rt (s\<lparr>is_stage := Stage_EVALUATED,
         is_protectionCase := case_after_evaluation s (jr_createdAt operation) (ev_artifactDigest output),
         is_evaluation := Some output\<rparr>)) (\<lambda>saved.
       abind (finish_operation rt runId (jr_operationId operation) COMPLETED None) (\<lambda>_. alift (Inr saved)))))))))))))"

subsection \<open>Release\<close>

definition release_input :: "InternalState \<Rightarrow> string list \<Rightarrow> string \<Rightarrow> BeginOperation" where
  "release_input s artifacts at = \<lparr>bo_operation = Op_releaseGovernedResult, bo_phase = RELEASING,
     bo_immutableParameters = JObj (case_json s @ opt_text ''evaluatedArtifactDigest'' (map_option ev_artifactDigest (is_evaluation s))
       @ [(''releaseMode'', JStr (pc_releaseMode (is_protectionCase s))), (''releaseOrdinal'', JNum 1)]),
     bo_expectedCurrentStage = ''EVALUATED'', bo_expectedTargetStage = ''RELEASED'', bo_fixedNowUnix = None,
     bo_expectedArtifacts = artifacts, bo_createdAt = at\<rparr>"

definition coalition_release_args :: "InternalState \<Rightarrow> string list \<Rightarrow> string \<Rightarrow> string list" where
  "coalition_release_args s operatorRoots ledgerRoot = [''-public-root'', pa_publicRoot (is_paths s), ''-release-mode'', COALITION_RELEASE_MODE,
     ''-ledger-root'', ledgerRoot] @ concat (map (\<lambda>r. [''-operator-root'', r]) operatorRoots)"

definition cli_agrees :: "CoalitionCliOutput option \<Rightarrow> VerifiedCoalitionRelease \<Rightarrow> bool" where
  "cli_agrees cli release = (case cli of None \<Rightarrow> True | Some c \<Rightarrow> \<not> (
     ci_resultDigest c \<noteq> vr_resultDigest release
     \<or> ci_sameEconomicAsset c \<noteq> cr_sameEconomicAsset (vr_result release)
     \<or> ci_policyConflict c \<noteq> cr_policyConflict (vr_result release)
     \<or> ci_releaseMode c \<noteq> COALITION_RELEASE_MODE))"

definition releaseCoalitionResult :: "'e ProtectionRuntime \<Rightarrow> string \<Rightarrow> InternalState \<Rightarrow> ('e engine_world, InternalState) action" where
  "releaseCoalitionResult rt runId s =
     (case (pa_coalitionOperatorRoots (is_paths s), pa_coalitionLedgerRoot (is_paths s)) of
        (Some operatorRoots, Some ledgerRoot) \<Rightarrow>
          abind (areads (\<lambda>w. readCommittedSettlementProfile (rt_sha rt) (run_view rt w) (rt_runRoot rt) runId)) (\<lambda>_.
          abind (now_iso rt) (\<lambda>at.
          abind (begin_operation rt runId (release_input s
            [''coalition-release-admitted.json'', ''coalition-conflict-result.json'', ''coalition-release-consumed.json''] at)) (\<lambda>operation.
          abind (areads (\<lambda>w. Inr (rt_exists rt (engine_go w) (public_file s ''coalition-conflict-result.json'')))) (\<lambda>exactRetry.
          abind (if exactRetry then alift (Inr None)
            else abind (runJSON (rt_coalition_decryptor rt (coalition_release_args s operatorRoots ledgerRoot))) (\<lambda>c. alift (Inr (Some c)))) (\<lambda>cli.
          abind (failpoint rt ''after-release-publication-before-state-save'') (\<lambda>_.
          abind (areads (verifiedCoalitionReleaseFromArtifacts rt s)) (\<lambda>release.
          abind (alift (check (cli_agrees cli release) (product_error ''Coalition release output does not match the published result'' 500))) (\<lambda>_.
          abind (saveState rt (s\<lparr>is_stage := Stage_RELEASED,
            is_protectionCase := coalitionProtectionCaseAfterRelease s (vr_result release) (vr_resultDigest release)
              (vr_coalitionAuthorityId release) (jr_createdAt operation),
            is_coalitionRelease := Some (coalition_output release
              (case cli of None \<Rightarrow> 0 | Some c \<Rightarrow> ci_durationNanos c) (case cli of None \<Rightarrow> 0 | Some c \<Rightarrow> ci_resultBytes c) exactRetry),
            is_coalitionSettlement := Some (vr_coalitionSettlement release)\<rparr>)) (\<lambda>saved.
          abind (finish_operation rt runId (jr_operationId operation) (if exactRetry then RECONCILED else COMPLETED) None) (\<lambda>_.
          alift (Inr saved)))))))))))
      | _ \<Rightarrow> alift (Inl (product_error ''A coalition case must name its operator and ledger roots'' 500)))"

definition release_matches_scenario :: "InternalState \<Rightarrow> ReleaseOutput \<Rightarrow> bool" where
  "release_matches_scenario s output =
     (let customRun = (is_supervisedPledgeWindows s \<noteq> None)
      in \<not> (ro_releaseMode output \<noteq> pc_releaseMode (is_protectionCase s)
         \<or> \<not> customRun \<and> ro_conflict output \<noteq> (pc_productScenario (is_protectionCase s) = ScenarioConflict)))"

definition result_matches_release :: "(string \<Rightarrow> string) \<Rightarrow> InternalState \<Rightarrow> ReleaseOutput \<Rightarrow> GovernedSignedResult \<Rightarrow> bool" where
  "result_matches_release sha s output r =
     (let c = is_protectionCase s; pins = ro_trustedRecoursePins output
      in \<not> (gr_assetIdentity r \<noteq> pc_cleanverseAssetDigest c
         \<or> gr_caseId r \<noteq> pc_fheCaseId c
         \<or> gr_policyId r \<noteq> pc_policyId c
         \<or> gr_policyVersion r \<noteq> pc_policyVersion c
         \<or> gr_releaseMode r \<noteq> pc_releaseMode c
         \<or> governedResultDigest sha r \<noteq> ro_resultDigest output
         \<or> gr_conflict r \<noteq> ro_conflict output
         \<or> js_index (map VString (gr_participantArtifactDigests r)) 0 \<noteq> VString (tp_participantArtifactDigestA pins)
         \<or> js_index (map VString (gr_participantArtifactDigests r)) 1 \<noteq> VString (tp_participantArtifactDigestB pins)
         \<or> gr_evaluatedArtifactDigest r \<noteq> tp_evaluatedArtifactDigest pins
         \<or> gr_resultCiphertextDigest r \<noteq> tp_recomputedResultCiphertextDigest pins
         \<or> gr_resultCiphertextCommitment r \<noteq> tp_resultCiphertextCommitment pins
         \<or> gr_sourceProvenance r \<noteq> tp_decryptorProvenance pins
         \<or> gr_releaseAuthorityId r \<noteq> tp_releaseAuthorityId pins))"

definition release_governed :: "'e ProtectionRuntime \<Rightarrow> string \<Rightarrow> InternalState \<Rightarrow> ('e engine_world, InternalState) action" where
  "release_governed rt runId s =
     abind (now_iso rt) (\<lambda>at.
     abind (begin_operation rt runId (release_input s
       [''release-admitted.json'', ''retained-governed-result.json'', ''governed-conflict-result.json''] at)) (\<lambda>operation.
     abind (runJSON (rt_decryptor rt [''-public-root'', pa_publicRoot (is_paths s), ''-private-root'', pa_decryptorPrivateRoot (is_paths s)])) (\<lambda>output.
     abind (failpoint rt ''after-release-publication-before-state-save'') (\<lambda>_.
     abind (alift (check (release_matches_scenario s output) (product_error ''Governed release does not match the protection scenario'' 500))) (\<lambda>_.
     abind (areads (\<lambda>w. rt_readGovernedResult rt (engine_go w) (public_file s ''governed-conflict-result.json''))) (\<lambda>result.
     abind (alift (verifyGovernedResultSignature (rt_ed25519 rt) result)) (\<lambda>_.
     abind (alift (check (result_matches_release (rt_sha rt) s output (ob_view result)) (product_error ''Governed result asset binding mismatch'' 500))) (\<lambda>_.
     abind (alift (case is_governedRecoursePolicySelection s of
         None \<Rightarrow> Inr (is_governedActionPlan s)
       | Some selection \<Rightarrow> ebind (evaluateManagedDemoGovernedRecoursePolicy (rt_sha rt) (rt_ed25519 rt) selection result)
           (\<lambda>plan. Inr (Some (plan_object plan))))) (\<lambda>plan.
     abind (saveState rt (s\<lparr>is_stage := Stage_RELEASED, is_protectionCase := case_after_release s output (jr_createdAt operation),
       is_release := Some output, is_governedActionPlan := plan\<rparr>)) (\<lambda>saved.
     abind (finish_operation rt runId (jr_operationId operation) (if ro_exactRetry output then RECONCILED else COMPLETED) None) (\<lambda>_.
     alift (Inr saved))))))))))))"

definition releaseGovernedResultRuntime :: "'e ProtectionRuntime \<Rightarrow> string \<Rightarrow> ('e engine_world, InternalState) action" where
  "releaseGovernedResultRuntime rt runId = exclusive runId (
     abind (loadState rt runId True) (\<lambda>s.
     if is_stage s = Stage_RELEASED \<and> (is_release s \<noteq> None \<or> is_coalitionRelease s \<noteq> None) then alift (Inr s)
     else
       abind (alift (check (is_stage s = Stage_EVALUATED) (product_error ''FHE evaluation is not complete'' 409))) (\<lambda>_.
       if coalition_case s then releaseCoalitionResult rt runId s else release_governed rt runId s)))"

subsection \<open>Recourse and cure\<close>

definition pins_json :: "TrustedRecoursePins \<Rightarrow> json" where
  "pins_json p = JObj [(''participantArtifactDigestA'', JStr (tp_participantArtifactDigestA p)),
     (''participantArtifactDigestB'', JStr (tp_participantArtifactDigestB p)), (''evaluatedArtifactDigest'', JStr (tp_evaluatedArtifactDigest p)),
     (''recomputedResultCiphertextDigest'', JStr (tp_recomputedResultCiphertextDigest p)),
     (''resultCiphertextCommitment'', JStr (tp_resultCiphertextCommitment p)), (''decryptorProvenance'', JStr (tp_decryptorProvenance p)),
     (''releaseMode'', JStr (tp_releaseMode p)), (''releaseAuthorityId'', JStr (tp_releaseAuthorityId p))]"

definition recourse_request :: "InternalState \<Rightarrow> ReleaseOutput \<Rightarrow> (string \<times> json) list" where
  "recourse_request s release = [(''assetIdentity'', JStr (pc_cleanverseAssetDigest (is_protectionCase s)))] @ case_json s
     @ [(''expectedPins'', pins_json (ro_trustedRecoursePins release))]"

definition expects_cure_path :: "ReleaseOutput \<Rightarrow> GovernedRecourseOperationAuthorization option \<Rightarrow> bool" where
  "expects_cure_path release authorization = (case authorization of
     None \<Rightarrow> ro_conflict release | Some a \<Rightarrow> ga_selectedGovernedAction a = ''OPEN_LOCAL_CURE_PATH'')"

definition recourse_input ::
  "InternalState \<Rightarrow> ReleaseOutput \<Rightarrow> GovernedRecourseOperationAuthorization option \<Rightarrow> string \<Rightarrow> BeginOperation" where
  "recourse_input s release authorization at = \<lparr>bo_operation = Op_openRecourseCase, bo_phase = OPENING_RECOURSE,
     bo_immutableParameters = JObj (recourse_request s release @ (case authorization of None \<Rightarrow> []
       | Some a \<Rightarrow> [(''governedActionAuthorization'', authorization_object a)])),
     bo_expectedCurrentStage = ''RELEASED'', bo_expectedTargetStage = ''RECOURSE_OPENED'', bo_fixedNowUnix = None,
     bo_expectedArtifacts = (if expects_cure_path release authorization
       then [''recourse-clock-binding.json'', ''recourse-record.json'', ''recourse-outcome.json''] else [''recourse-outcome.json'']),
     bo_createdAt = at\<rparr>"

text \<open>
  The dispatch on the authorized action: with a policy the released Boolean is not consulted. The authorization is
  created from the plan, whose action is one of the two.
\<close>

definition run_recourse ::
  "'e ProtectionRuntime \<Rightarrow> InternalState \<Rightarrow> GovernedRecourseOperationAuthorization option \<Rightarrow> ('e engine_world, jsval) action" where
  "run_recourse rt s authorization =
     (let operation = runJSON (rt_recourse rt [''-mode'', ''recourse'', ''-public-root'', pa_publicRoot (is_paths s), ''-request'',
            root_file s ''recourse-request.json''])
      in case authorization of
        None \<Rightarrow> operation
      | Some a \<Rightarrow>
          if ga_selectedGovernedAction a = ''OPEN_LOCAL_CURE_PATH'' then operation
          else if ga_selectedGovernedAction a = ''RECORD_AND_CLOSE'' then operation
          else alift (Inl DependencyError))"

definition open_recourse ::
  "'e ProtectionRuntime \<Rightarrow> string \<Rightarrow> InternalState \<Rightarrow> ReleaseOutput \<Rightarrow> GovernedRecourseOperationAuthorization option
     \<Rightarrow> ('e engine_world, InternalState) action" where
  "open_recourse rt runId s release authorization =
     abind (now_iso rt) (\<lambda>at.
     abind (begin_operation rt runId (recourse_input s release authorization at)) (\<lambda>operation.
     abind (write_json rt (root_file s ''recourse-request.json'') (js_of_json (JObj (recourse_request s release)))) (\<lambda>_.
     abind (run_recourse rt s authorization) (\<lambda>recourse.
     abind (write_json rt (root_file s ''recourse-outcome.json'') recourse) (\<lambda>_.
     abind (failpoint rt ''after-recourse-publication-before-state-save'') (\<lambda>_.
     abind (remove_json (root_file s ''recourse-request.json'')) (\<lambda>_.
     abind (alift (check (\<not> (authorization = None \<and> VBool (ro_conflict release) \<noteq> js_member recourse ''opened''))
       (product_error ''Recourse admission does not match the signed Boolean'' 500))) (\<lambda>_.
     abind (alift (recorded_operation (rt_sha rt) s authorization operation recourse)) (\<lambda>recorded.
     abind (alift (protectionCaseAfterRecourse s recourse (jr_createdAt operation) authorization)) (\<lambda>c.
     abind (saveState rt (s\<lparr>is_stage := Stage_RECOURSE_OPENED, is_protectionCase := c, is_recourse := Some recourse,
       is_governedRecourseOperation := recorded\<rparr>)) (\<lambda>saved.
     abind (finish_operation rt runId (jr_operationId operation) COMPLETED None) (\<lambda>_. alift (Inr saved)))))))))))))"

definition openRecourseCaseRuntime :: "'e ProtectionRuntime \<Rightarrow> string \<Rightarrow> string \<Rightarrow> ('e engine_world, InternalState) action" where
  "openRecourseCaseRuntime rt runId expectedAssetDigest = exclusive runId (
     abind (loadState rt runId True) (\<lambda>s.
     abind (alift (assertProtectionAssetBinding (rt_sha rt) (is_protectionCase s) expectedAssetDigest)) (\<lambda>_.
     if is_recourse s \<noteq> None \<and> is_stage s \<in> {Stage_RECOURSE_OPENED, Stage_CHRONOLOGY_COMPLETE, Stage_COMPLETE} then alift (Inr s)
     else
       abind (alift (require (if is_stage s = Stage_RELEASED then is_release s else None)
         (product_error ''A signed governed result is required'' 409))) (\<lambda>release.
       abind (alift (governedOperationAuthorizationForState (rt_sha rt) s)) (\<lambda>authorization.
       abind (alift (check (\<not> (is_governedRecoursePolicySelection s \<noteq> None \<and> authorization = None))
         (product_error ''Governed action plan is required to authorize recourse'' 500))) (\<lambda>_.
       open_recourse rt runId s release authorization))))))"

definition cure_input :: "InternalState \<Rightarrow> string \<Rightarrow> string \<Rightarrow> BeginOperation" where
  "cure_input s deadline at = \<lparr>bo_operation = Op_completeCureChronology, bo_phase = ADVANCING_CURE,
     bo_immutableParameters = JObj (case_json s @ [(''cureDeadline'', JStr deadline)]
       @ opt_text ''resultDigest'' (map_option ro_resultDigest (is_release s))),
     bo_expectedCurrentStage = ''RECOURSE_OPENED'', bo_expectedTargetStage = ''CHRONOLOGY_COMPLETE'', bo_fixedNowUnix = None,
     bo_expectedArtifacts = [''execution.json''], bo_createdAt = at\<rparr>"

definition cure_open :: "InternalState \<Rightarrow> string option" where
  "cure_open s = (if is_stage s = Stage_RECOURSE_OPENED \<and> (case is_recourse s of None \<Rightarrow> False | Some v \<Rightarrow> js_truthy (js_member v ''opened''))
     then pc_cureDeadline (is_protectionCase s) else None)"

definition completeCureChronologyRuntime :: "'e ProtectionRuntime \<Rightarrow> string \<Rightarrow> ('e engine_world, InternalState) action" where
  "completeCureChronologyRuntime rt runId = exclusive runId (
     abind (loadState rt runId True) (\<lambda>s.
     abind (alift (require (cure_open s) (product_error ''No conflict cure window is open'' 409))) (\<lambda>deadline.
     abind (now_iso rt) (\<lambda>at.
     abind (begin_operation rt runId (cure_input s deadline at)) (\<lambda>operation.
     abind (saveState rt (s\<lparr>is_stage := Stage_CHRONOLOGY_COMPLETE\<rparr>)) (\<lambda>saved.
     abind (finish_operation rt runId (jr_operationId operation) COMPLETED None) (\<lambda>_. alift (Inr saved))))))))"

subsection \<open>Reading and the orchestrator\<close>

definition unlocked :: "string \<Rightarrow> 'e engine_world \<Rightarrow> unit result" where
  "unlocked runId w = check (runId \<notin> set (en_locks (w_env w))) (product_error ''A protection operation is still running'' 423)"

definition readProtectionCaseRuntime :: "'e ProtectionRuntime \<Rightarrow> string \<Rightarrow> ('e engine_world, InternalState) action" where
  "readProtectionCaseRuntime rt runId = abind (areads (unlocked runId)) (\<lambda>_. loadState rt runId False)"

definition readCustomSupervisedCase :: "'e ProtectionRuntime \<Rightarrow> string \<Rightarrow> ('e engine_world, CustomSupervisedView) action" where
  "readCustomSupervisedCase rt runId =
     abind (areads (unlocked runId)) (\<lambda>_.
     abind (loadState rt runId False) (\<lambda>s.
     abind (alift (check (custom_run s) (product_error ''This run is not a supervised custom case'' 400))) (\<lambda>_.
     alift (customSupervisedView (rt_sha rt) s))))"

definition createNeutralParticipantCase :: "'e ProtectionRuntime \<Rightarrow> string \<Rightarrow> ('e engine_world, InternalState) action" where
  "createNeutralParticipantCase rt creationRequestId =
     abind (areads (assertDirectParticipantAdmissionEnabled rt)) (\<lambda>_.
     createProtectionCaseRuntime rt (Some ScenarioConflict) creationRequestId None True False False)"

definition createNeutralCoalitionParticipantCase :: "'e ProtectionRuntime \<Rightarrow> string \<Rightarrow> ('e engine_world, InternalState) action" where
  "createNeutralCoalitionParticipantCase rt creationRequestId =
     abind (areads (assertDirectParticipantAdmissionEnabled rt)) (\<lambda>_.
     createProtectionCaseRuntime rt (Some ScenarioConflict) creationRequestId None True False True)"

definition createManagedGovernedPolicyCase :: "'e ProtectionRuntime \<Rightarrow> string \<Rightarrow> jsval \<Rightarrow> ('e engine_world, InternalState) action" where
  "createManagedGovernedPolicyCase rt creationRequestId windows =
     createProtectionCaseRuntime rt (Some ScenarioConflict) creationRequestId (Some windows) False True False"

definition createManagedCoalitionCase :: "'e ProtectionRuntime \<Rightarrow> string \<Rightarrow> jsval \<Rightarrow> ('e engine_world, InternalState) action" where
  "createManagedCoalitionCase rt creationRequestId windows =
     createProtectionCaseRuntime rt (Some ScenarioConflict) creationRequestId (Some windows) False False True"

end
