(* ===== verification/Engine_Invariant.thy ===== *)
theory Engine_Invariant
  imports Engine
begin

text \<open>
  What the operations of the protection engine keep, whether they return or throw.

  A run of the engine is described by its execution record and its operation journal. The invariant ties the two
  together: an open journal operation belongs to the stage the record is in, the record carries the artifacts its
  stage promises, and every admitted claim in it is backed by a record of the admission ledger. Along every sequence
  of operations the record is only continued: its stage never decreases, its identity never changes, its timeline
  only grows and an admitted claim is never replaced.

  Operations are judged by triples \<open>steps R P m Q\<close>: from a state with \<open>P\<close> the action \<open>m\<close> moves along \<open>R\<close>
  however it ends, and when it returns \<open>x\<close> then \<open>Q x\<close> holds.
\<close>

subsection \<open>Triples with a guarantee\<close>

definition steps :: "('s \<Rightarrow> 's \<Rightarrow> bool) \<Rightarrow> ('s \<Rightarrow> bool) \<Rightarrow> ('s, 'a) action \<Rightarrow> ('a \<Rightarrow> 's \<Rightarrow> bool) \<Rightarrow> bool" where
  "steps R P m Q \<longleftrightarrow> (\<forall>s. P s \<longrightarrow> R s (fst (m s)) \<and> (\<forall>x. snd (m s) = Inr x \<longrightarrow> Q x (fst (m s))))"

lemma stepsI:
  assumes "\<And>s. P s \<Longrightarrow> R s (fst (m s))" "\<And>s x. P s \<Longrightarrow> snd (m s) = Inr x \<Longrightarrow> Q x (fst (m s))"
  shows "steps R P m Q"
  using assms by (simp add: steps_def)

lemma steps_weaken: "steps R P m Q \<Longrightarrow> (\<And>x s. Q x s \<Longrightarrow> Q' x s) \<Longrightarrow> steps R P m Q'"
  by (simp add: steps_def)

lemma steps_pre: "steps R P m Q \<Longrightarrow> (\<And>s. P' s \<Longrightarrow> P s) \<Longrightarrow> steps R P' m Q"
  by (simp add: steps_def)

context kept_relation
begin

lemma steps_abind:
  assumes "steps R P m Q" "\<And>x. steps R (Q x) (f x) Q'"
  shows "steps R P (abind m f) Q'"
proof (rule stepsI)
  fix s assume P: "P s"
  show "R s (fst (abind m f s))"
    using assms P unfolding steps_def abind_def
    by (auto split: prod.split sum.split) (metis fst_conv kept_trans snd_conv)+
  show "Q' y (fst (abind m f s))" if "snd (abind m f s) = Inr y" for y
    using assms P that unfolding steps_def abind_def by (auto split: prod.splits sum.splits)
qed

lemma steps_alift: "(\<And>x s. r = Inr x \<Longrightarrow> P s \<Longrightarrow> Q x s) \<Longrightarrow> steps R P (alift r) Q"
  by (simp add: steps_def kept_refl)

lemma steps_return: "(\<And>s. P s \<Longrightarrow> Q x s) \<Longrightarrow> steps R P (alift (Inr x)) Q"
  by (simp add: steps_def kept_refl)

lemma steps_throw: "steps R P (alift (Inl e)) Q"
  by (simp add: steps_def kept_refl)

lemma alift_bind: "(\<And>x. r = Inr x \<Longrightarrow> steps R P (f x) Q) \<Longrightarrow> steps R P (abind (alift r) f) Q"
  by (cases r) (auto simp: steps_def abind_def kept_refl)

lemma areads_bind: "(\<And>x. steps R (\<lambda>s. P s \<and> g s = Inr x) (f x) Q) \<Longrightarrow> steps R P (abind (areads g) f) Q"
  by (fastforce simp: steps_def abind_def kept_refl split: sum.splits prod.splits)

end

subsection \<open>The order of the stages\<close>

fun stage_index :: "ExecutionStage \<Rightarrow> nat" where
  "stage_index Stage_CASE_CREATED = 0"
| "stage_index Stage_MATCH_PREPARED = 1"
| "stage_index Stage_PARTICIPANT_A_SUBMITTED = 2"
| "stage_index Stage_PARTICIPANT_B_PUBLISHED = 3"
| "stage_index Stage_PARTICIPANT_B_SUBMITTED = 4"
| "stage_index Stage_EVALUATED = 5"
| "stage_index Stage_RELEASED = 6"
| "stage_index Stage_RECOURSE_OPENED = 7"
| "stage_index Stage_CHRONOLOGY_COMPLETE = 8"
| "stage_index Stage_COMPLETE = 9"
| "stage_index Stage_ABORTED = 10"

lemma stage_index_inject: "stage_index a = stage_index b \<Longrightarrow> a = b"
  by (cases a; cases b) simp_all

instantiation ExecutionStage :: linorder
begin

definition less_eq_ExecutionStage :: "ExecutionStage \<Rightarrow> ExecutionStage \<Rightarrow> bool" where
  "a \<le> b \<longleftrightarrow> stage_index a \<le> stage_index b"

definition less_ExecutionStage :: "ExecutionStage \<Rightarrow> ExecutionStage \<Rightarrow> bool" where
  "a < b \<longleftrightarrow> stage_index a < stage_index b"

instance
  by standard (auto simp: less_eq_ExecutionStage_def less_ExecutionStage_def intro: stage_index_inject)

end

lemmas stage_order = less_eq_ExecutionStage_def less_ExecutionStage_def

text \<open>The stages between which a journaled phase moves.\<close>

fun phase_stages :: "ProductOperationPhase \<Rightarrow> ExecutionStage list" where
  "phase_stages PREPARING = [Stage_CASE_CREATED, Stage_MATCH_PREPARED]"
| "phase_stages SUBMITTING_A = [Stage_MATCH_PREPARED, Stage_PARTICIPANT_A_SUBMITTED]"
| "phase_stages SUBMITTING_B = [Stage_PARTICIPANT_A_SUBMITTED, Stage_PARTICIPANT_B_PUBLISHED]"
| "phase_stages FINALIZING = [Stage_PARTICIPANT_B_PUBLISHED, Stage_PARTICIPANT_B_SUBMITTED]"
| "phase_stages EVALUATING = [Stage_PARTICIPANT_B_SUBMITTED, Stage_EVALUATED]"
| "phase_stages RELEASING = [Stage_EVALUATED, Stage_RELEASED]"
| "phase_stages OPENING_RECOURSE = [Stage_RELEASED, Stage_RECOURSE_OPENED]"
| "phase_stages ADVANCING_CURE = [Stage_RECOURSE_OPENED, Stage_CHRONOLOGY_COMPLETE]"
| "phase_stages EXPORTING = [Stage_RECOURSE_OPENED, Stage_CHRONOLOGY_COMPLETE, Stage_COMPLETE]"
| "phase_stages RETAINING = [Stage_COMPLETE]"
| "phase_stages PHASE_ABORTED = []"

subsection \<open>Well-staged records\<close>

definition reached :: "InternalState \<Rightarrow> ExecutionStage \<Rightarrow> bool" where
  "reached s stage \<longleftrightarrow> stage \<le> is_stage s \<and> is_stage s \<noteq> Stage_ABORTED"

text \<open>A stage that was reached has its artifacts, and an artifact is not there before its stage.\<close>

definition well_staged :: "InternalState \<Rightarrow> bool" where
  "well_staged s \<longleftrightarrow>
     (reached s Stage_MATCH_PREPARED \<longrightarrow> is_keygen s \<noteq> None \<and> is_participantKeys s = Some (participantKeyPaths s))
     \<and> (reached s Stage_PARTICIPANT_A_SUBMITTED \<longrightarrow> is_submissions s PARTICIPANT_A \<noteq> None)
     \<and> (reached s Stage_PARTICIPANT_B_PUBLISHED \<longrightarrow> is_submissions s PARTICIPANT_B \<noteq> None)
     \<and> (reached s Stage_EVALUATED \<longrightarrow> is_evaluation s \<noteq> None)
     \<and> (reached s Stage_RELEASED \<longrightarrow>
          (if coalition_case s then is_coalitionRelease s \<noteq> None \<and> is_coalitionSettlement s \<noteq> None else is_release s \<noteq> None))
     \<and> (reached s Stage_RECOURSE_OPENED \<longrightarrow> is_recourse s \<noteq> None)
     \<and> (reached s Stage_COMPLETE \<longrightarrow> is_evidence s \<noteq> None)
     \<and> (is_keygen s \<noteq> None \<longrightarrow> Stage_MATCH_PREPARED \<le> is_stage s)
     \<and> (is_submissions s PARTICIPANT_A \<noteq> None \<longrightarrow> Stage_PARTICIPANT_A_SUBMITTED \<le> is_stage s)
     \<and> (is_submissions s PARTICIPANT_B \<noteq> None \<longrightarrow> Stage_PARTICIPANT_B_PUBLISHED \<le> is_stage s)
     \<and> (is_evaluation s \<noteq> None \<longrightarrow> Stage_EVALUATED \<le> is_stage s)
     \<and> (is_release s \<noteq> None \<or> is_governedActionPlan s \<noteq> None \<longrightarrow> Stage_RELEASED \<le> is_stage s \<and> \<not> coalition_case s)
     \<and> (is_coalitionRelease s \<noteq> None \<or> is_coalitionSettlement s \<noteq> None \<longrightarrow> Stage_RELEASED \<le> is_stage s \<and> coalition_case s)
     \<and> (is_recourse s \<noteq> None \<longrightarrow> Stage_RECOURSE_OPENED \<le> is_stage s \<and> \<not> coalition_case s)
     \<and> (is_evidence s \<noteq> None \<longrightarrow> Stage_COMPLETE \<le> is_stage s)"

lemmas staged = well_staged_def reached_def stage_order

text \<open>A case and a record that another one continues.\<close>

definition case_continues :: "MordantProtectionCase \<Rightarrow> MordantProtectionCase \<Rightarrow> bool" where
  "case_continues c c' \<longleftrightarrow> (\<exists>i d r es. c' = c\<lparr>pc_incidentState := i, pc_cureDeadline := d, pc_recourseState := r,
     pc_timeline := pc_timeline c @ es\<rparr>)"

definition continues :: "InternalState \<Rightarrow> InternalState \<Rightarrow> bool" where
  "continues s s' \<longleftrightarrow> is_stage s \<le> is_stage s' \<and> is_runId s' = is_runId s \<and> is_paths s' = is_paths s
     \<and> is_startedAtUnix s' = is_startedAtUnix s \<and> is_executionVariant s' = is_executionVariant s
     \<and> is_supervisedPledgeWindows s' = is_supervisedPledgeWindows s
     \<and> is_governedRecoursePolicySelection s' = is_governedRecoursePolicySelection s
     \<and> case_continues (is_protectionCase s) (is_protectionCase s')
     \<and> is_admittedClaims s \<subseteq>\<^sub>m is_admittedClaims s'"

lemma case_continues_refl [simp]: "case_continues c c"
  unfolding case_continues_def
  by (rule exI [of _ "pc_incidentState c"], rule exI [of _ "pc_cureDeadline c"], rule exI [of _ "pc_recourseState c"],
      rule exI [of _ "[]"]) simp

lemma case_continues_trans: "case_continues c d \<Longrightarrow> case_continues d e \<Longrightarrow> case_continues c e"
  by (force simp: case_continues_def)

lemma case_continues_append: "case_continues c (appendEventOnce c e patch)"
proof (cases "list_ex (\<lambda>x. te_kind x = te_kind e) (pc_timeline c)")
  case False
  then show ?thesis
    by (simp add: appendEventOnce_def appendProtectionEvent_def) (force simp: case_continues_def)
qed (simp add: appendEventOnce_def)

lemma case_continues_release: "case_continues c d \<Longrightarrow> pc_releaseMode d = pc_releaseMode c"
  by (auto simp: case_continues_def)

lemma continues_refl [simp]: "continues s s"
  by (simp add: continues_def)

lemma continues_trans: "continues s t \<Longrightarrow> continues t u \<Longrightarrow> continues s u"
  by (auto simp: continues_def intro: case_continues_trans map_le_trans)

subsection \<open>The invariant\<close>

definition record_of :: "'e ProtectionRuntime \<Rightarrow> string \<Rightarrow> 'e engine_world \<Rightarrow> InternalState stored option" where
  "record_of rt run w = en_states (w_env w) (state_file rt run)"

text \<open>An admitted claim that the ledger backs, commitment recomputed.\<close>

definition backed :: "'e ProtectionRuntime \<Rightarrow> string \<Rightarrow> ParticipantRole \<Rightarrow> AdmittedParticipantClaim \<Rightarrow> 'e engine_world \<Rightarrow> bool" where
  "backed rt run role a w \<longleftrightarrow> (\<exists>d. readAdmission (rt_runRoot rt) run role (w_disk w) = Inr (Some d)
     \<and> toLowerCase (ar_participantWallet d) = toLowerCase (ac_participantWallet a)
     \<and> ar_authorizationDigest d = ac_authorizationDigest a \<and> ar_claimCommitment d = ac_claimCommitment a
     \<and> ar_authorizationNonce d = ac_authorizationNonce a \<and> ar_chainId d = MONAD_TESTNET_CHAIN_ID
     \<and> ar_issuedAt d = ac_issuedAt a \<and> ar_expiresAt d = ac_expiresAt a
     \<and> participantClaimCommitment (rt_sha rt) run role (ac_claim a) = Inr (ar_claimCommitment d))"

definition record_inv ::
  "'e ProtectionRuntime \<Rightarrow> string \<Rightarrow> InternalState \<Rightarrow> ProductOperationJournal \<Rightarrow> 'e engine_world \<Rightarrow> bool" where
  "record_inv rt run s j w \<longleftrightarrow> is_runId s = run \<and> well_staged s
     \<and> (\<forall>p. pending_tail j = Some p \<longrightarrow> is_stage s \<in> set (phase_stages (jr_phase p)))
     \<and> (\<forall>role a. is_admittedClaims s role = Some a \<longrightarrow> backed rt run role a w)"

definition run_inv :: "'e ProtectionRuntime \<Rightarrow> string \<Rightarrow> 'e engine_world \<Rightarrow> bool" where
  "run_inv rt run w \<longleftrightarrow> (\<exists>j. journal_of rt run w = Inr j \<and> (case record_of rt run w of
     None \<Rightarrow> jj_records j = [] | Some Torn \<Rightarrow> False | Some (Whole s) \<Rightarrow> record_inv rt run s j w))"

definition is_uuid :: "string \<Rightarrow> bool" where
  "is_uuid run = fixed_regex UUID_PATTERN run"

definition engine_inv :: "'e ProtectionRuntime \<Rightarrow> 'e engine_world \<Rightarrow> bool" where
  "engine_inv rt w \<longleftrightarrow> (\<forall>run. is_uuid run \<longrightarrow> run_inv rt run w)"

definition run_continues :: "'e ProtectionRuntime \<Rightarrow> 'e engine_world \<Rightarrow> 'e engine_world \<Rightarrow> bool" where
  "run_continues rt w w' \<longleftrightarrow> (\<forall>run s. is_uuid run \<longrightarrow> record_of rt run w = Some (Whole s)
     \<longrightarrow> (\<exists>s'. record_of rt run w' = Some (Whole s') \<and> continues s s'))"

definition engine_keeps :: "'e ProtectionRuntime \<Rightarrow> 'e engine_world \<Rightarrow> 'e engine_world \<Rightarrow> bool" where
  "engine_keeps rt w w' \<longleftrightarrow> w_disk w' = w_disk w \<and> (engine_inv rt w \<longrightarrow> engine_inv rt w' \<and> run_continues rt w w')"

lemma run_continues_refl: "run_continues rt w w"
  by (simp add: run_continues_def)

lemma run_continues_trans: "run_continues rt w w' \<Longrightarrow> run_continues rt w' w'' \<Longrightarrow> run_continues rt w w''"
  unfolding run_continues_def by (meson continues_trans)

interpretation engine: kept_relation "engine_keeps rt"
  by unfold_locales (auto simp: engine_keeps_def intro: run_continues_refl run_continues_trans)

text \<open>A step that writes neither the ledger nor a record nor a journal.\<close>

definition silent :: "'e engine_world \<Rightarrow> 'e engine_world \<Rightarrow> bool" where
  "silent w w' \<longleftrightarrow> w_disk w' = w_disk w \<and> en_states (w_env w') = en_states (w_env w) \<and> en_journal (w_env w') = en_journal (w_env w)"

interpretation silent: kept_relation silent
  by unfold_locales (auto simp: silent_def)

definition stable :: "('e engine_world \<Rightarrow> bool) \<Rightarrow> bool" where
  "stable P \<longleftrightarrow> (\<forall>w w'. silent w w' \<longrightarrow> P w \<longrightarrow> P w')"

lemma silent_same:
  assumes "silent w w'"
  shows "record_of rt run w' = record_of rt run w" "journal_of rt run w' = journal_of rt run w"
    "engine_inv rt w' = engine_inv rt w" "backed rt run role a w' = backed rt run role a w"
  using assms by (simp_all add: silent_def record_of_def journal_of_def engine_inv_def run_inv_def record_inv_def backed_def
      split: option.split stored.split)

lemma silent_keeps: "silent w w' \<Longrightarrow> engine_keeps rt w w'"
  by (simp add: engine_keeps_def run_continues_def silent_same) (simp add: silent_def)

lemma steps_silent: "keeps silent m \<Longrightarrow> stable P \<Longrightarrow> steps (engine_keeps rt) P m (\<lambda>_. P)"
  by (auto simp: keeps_def stable_def steps_def intro: silent_keeps)

lemma silent_bind:
  "keeps silent m \<Longrightarrow> stable P \<Longrightarrow> (\<And>x. steps (engine_keeps rt) P (f x) Q) \<Longrightarrow> steps (engine_keeps rt) P (abind m f) Q"
  by (rule engine.steps_abind [OF steps_silent])

subsection \<open>Quiet actions\<close>

text \<open>
  What every operation leaves alone: the admission ledger is not written, a file of the settlement store that is there
  stays as it is, and the locks are as before.
\<close>

definition frame :: "'e engine_world \<Rightarrow> 'e engine_world \<Rightarrow> bool" where
  "frame w w' \<longleftrightarrow> w_disk w' = w_disk w \<and> en_run (w_env w) \<subseteq>\<^sub>m en_run (w_env w') \<and> en_locks (w_env w') = en_locks (w_env w)"

interpretation frame: kept_relation frame
  by unfold_locales (auto simp: frame_def intro: map_le_trans)

definition quiet :: "'e engine_world \<Rightarrow> 'e engine_world \<Rightarrow> bool" where
  "quiet w w' \<longleftrightarrow> silent w w' \<and> frame w w'"

interpretation quiet: kept_relation quiet
  by unfold_locales (auto simp: quiet_def intro: silent.kept_refl frame.kept_refl silent.kept_trans frame.kept_trans)

lemmas quiet_defs = quiet_def silent_def frame_def

lemma quiet_silent: "keeps quiet m \<Longrightarrow> keeps silent m" and quiet_frame: "keeps quiet m \<Longrightarrow> keeps frame m"
  by (simp_all add: keeps_def quiet_def)

lemma quiet_bind:
  "keeps quiet m \<Longrightarrow> stable P \<Longrightarrow> (\<And>x. steps (engine_keeps rt) P (f x) Q) \<Longrightarrow> steps (engine_keeps rt) P (abind m f) Q"
  by (rule silent_bind [OF quiet_silent])

named_theorems quiet_intros

lemmas quiet.keeps_intros [quiet_intros]

lemma quiet_external [quiet_intros]: "keeps quiet (external_call f)"
  by (simp add: keeps_def external_call_def with_go_def quiet_defs case_prod_unfold Let_def)

lemma quiet_now [quiet_intros]: "keeps quiet (now_ms rt)" "keeps quiet (now_iso rt)" "keeps quiet (failpoint rt name)"
  by (simp_all add: now_ms_def now_iso_def failpoint_def quiet_external quiet.keeps_abind quiet.keeps_alift)

lemma quiet_runJSON [quiet_intros]: "keeps quiet (runJSON f)"
  using quiet_external [of f] by (auto simp: keeps_def runJSON_def split: prod.split sum.split) (metis fst_conv)+

lemma quiet_json [quiet_intros]: "keeps quiet (write_json rt path v)" "keeps quiet (remove_json path)" "keeps quiet (set_key path f)"
  by (simp_all add: keeps_def write_json_def remove_json_def set_env_def set_key_def quiet_defs split: sum.split)

lemma profile_only_added:
  assumes "commitSettlementProfile sha (run_view rt w) root run profile = Inr (fs, c)"
  shows "en_run (w_env w) \<subseteq>\<^sub>m (en_run (w_env w))(settlementProfilePath root run := x)"
  using assms by (auto simp: commitSettlementProfile_def commit_guard_def run_view_def ebind_eq_Inr check_eq_Inr map_le_def split: option.splits)

lemma quiet_commit_profile [quiet_intros]: "keeps quiet (commit_profile rt s profile)"
  using profile_only_added [of "rt_sha rt" rt _ "rt_runRoot rt" "is_runId s" profile]
  by (auto simp: keeps_def commit_profile_def quiet_defs Let_def split: sum.split prod.split)

lemma quiet_if [quiet_intros]: "keeps quiet a \<Longrightarrow> keeps quiet b \<Longrightarrow> keeps quiet (if c then a else b)"
  by simp

lemma quiet_build [quiet_intros]: "keeps quiet (build_missing rt bs)"
  by (induction bs) (auto simp: quiet.keeps_alift simp del: alift_apply intro!: quiet_intros)

lemma quiet_disk [quiet_intros]: "keeps quiet (assertDiskSpace rt)" "keeps quiet (assertBinaryBuildSpace rt)" "keeps quiet (ensureBinaries rt)"
  by (auto simp: assertDiskSpace_def assertBinaryBuildSpace_def ensureBinaries_def intro!: quiet_intros)

lemma quiet_inspect [quiet_intros]: "keeps quiet (inspectCase rt s pending allow)"
  by (auto simp: inspectCase_def intro!: quiet_intros split: option.split)

lemma quiet_profile [quiet_intros]: "keeps quiet (ensureCoalitionSettlementProfileCommitted rt s)"
  by (auto simp: ensureCoalitionSettlementProfileCommitted_def intro!: quiet_intros)

lemma quiet_mint [quiet_intros]: "keeps quiet (mint_key rt path)"
  by (auto simp: mint_key_def intro!: quiet_intros)

lemma quiet_raw_key [quiet_intros]: "keeps quiet (rawParticipantKey rt role root recover admitted)"
  by (auto simp: rawParticipantKey_def Let_def intro!: quiet_intros)

lemma quiet_prepare_keys [quiet_intros]: "keeps quiet (prepare_keys rt s)"
  by (auto simp: prepare_keys_def Let_def intro!: quiet_intros split: prod.split)

lemma quiet_publish [quiet_intros]: "keeps quiet (publish_pledge rt s role keys)"
  by (auto simp: publish_pledge_def intro!: quiet_intros)

lemma quiet_recourse [quiet_intros]: "keeps quiet (run_recourse rt s authorization)"
  by (auto simp: run_recourse_def Let_def intro!: quiet_intros split: option.split)

lemma quiet_transients [quiet_intros]: "keeps quiet (remove_transients s phase)"
  by (auto simp: remove_transients_def intro!: quiet_intros split: ProductOperationPhase.split)

lemma quiet_projection [quiet_intros]: "keeps quiet (reconcileProtectionProjection rt s p i)"
  by (auto simp: reconcileProtectionProjection_def Let_def intro!: quiet_intros split: ProductOperationPhase.split)

subsection \<open>Writes of one run\<close>

lemma uuid_length: "is_uuid run \<Longrightarrow> length run = 36"
  by (simp add: is_uuid_def UUID_PATTERN_def fixed_regex_length)

lemma run_paths_apart:
  assumes "is_uuid run" "is_uuid run'"
  shows "state_file rt run = state_file rt run' \<longleftrightarrow> run = run'"
    "state_file rt run \<noteq> temporary_path (state_file rt run') pid uuid"
    "journalPath root run = journalPath root run' \<longleftrightarrow> run = run'"
    "journalPath root run \<noteq> temporary_path (journalPath root run') pid uuid"
  using uuid_length [OF assms(1)] uuid_length [OF assms(2)]
  by (auto simp: state_file_def run_directory_def path_join_def journalPath_def temporary_path_def append_eq_append_conv)

lemma write_elsewhere:
  "writeDurableJsonAtomic path pid uuid v fs = Inr fs' \<Longrightarrow> q \<noteq> path \<Longrightarrow> q \<noteq> temporary_path path pid uuid \<Longrightarrow> fs' q = fs q"
  by (auto simp: writeDurableJsonAtomic_def write_trace_def Let_def split: if_splits)

lemma save_throws: "saveState rt s w = (w', Inl e) \<Longrightarrow> w' = w"
  by (auto simp: saveState_def split: sum.splits)

lemma save_writes:
  assumes "saveState rt s w = (w', Inr t)"
  shows "t = s \<and> is_uuid (is_runId s) \<and> w_disk w' = w_disk w \<and> en_journal (w_env w') = en_journal (w_env w)
     \<and> record_of rt (is_runId s) w' = Some (Whole s)
     \<and> (\<forall>run. is_uuid run \<and> run \<noteq> is_runId s \<longrightarrow> record_of rt run w' = record_of rt run w)"
proof -
  let ?path = "state_file rt (is_runId s)"
  have uuid: "is_uuid (is_runId s)"
    using assms by (cases "is_uuid (is_runId s)") (simp_all add: saveState_def statePath_def assertRunId_def is_uuid_def)
  then have path: "statePath rt (is_runId s) = Inr ?path" by (simp add: statePath_def assertRunId_def is_uuid_def)
  from assms obtain fs where fs: "writeDurableJsonAtomic ?path (fst (rt_writer rt w)) (snd (rt_writer rt w)) s (en_states (w_env w)) = Inr fs"
    and w': "w' = w\<lparr>w_env := (w_env w)\<lparr>en_states := fs\<rparr>\<rparr>" "t = s"
    unfolding saveState_def path ebind_Inr by (auto split: sum.splits)
  have "fs (state_file rt run) = en_states (w_env w) (state_file rt run)" if "is_uuid run" "run \<noteq> is_runId s" for run
    using write_elsewhere [OF fs] run_paths_apart [OF that(1) uuid] that(2) by blast
  then show ?thesis using write_result [OF fs] uuid w' by (simp add: record_of_def)
qed

lemma run_inv_same:
  "record_of rt run w' = record_of rt run w \<Longrightarrow> journal_of rt run w' = journal_of rt run w \<Longrightarrow> w_disk w' = w_disk w
     \<Longrightarrow> run_inv rt run w' = run_inv rt run w"
  by (simp add: run_inv_def record_inv_def backed_def split: option.split stored.split)

text \<open>A save of a record that fits the journal and continues what was stored.\<close>

lemma save_inv:
  assumes "engine_inv rt w" "saveState rt s' w = (w', Inr t)" "journal_of rt (is_runId s') w = Inr j" "record_inv rt (is_runId s') s' j w"
    and "\<And>s. record_of rt (is_runId s') w = Some (Whole s) \<Longrightarrow> continues s s'"
  shows "engine_inv rt w'" "run_continues rt w w'"
proof -
  note writes = save_writes [OF assms(2)]
  have journal: "journal_of rt run w' = journal_of rt run w" for run using writes by (simp add: journal_of_def)
  have backed: "record_inv rt run x j w' = record_inv rt run x j w" for run x j using writes by (simp add: record_inv_def backed_def)
  have "run_inv rt run w'" if "is_uuid run" for run
  proof (cases "run = is_runId s'")
    case True
    then show ?thesis using assms(3,4) writes by (simp add: run_inv_def journal backed)
  next
    case False
    then have "record_of rt run w' = record_of rt run w" using writes that by blast
    moreover have "run_inv rt run w" using assms(1) that by (simp add: engine_inv_def)
    ultimately show ?thesis using run_inv_same [of rt run w' w] writes journal by simp
  qed
  then show "engine_inv rt w'" by (simp add: engine_inv_def)
  show "run_continues rt w w'"
    unfolding run_continues_def using assms(5) writes by (metis continues_refl)
qed

subsection \<open>The journal calls\<close>

lemma journal_write:
  assumes "writeJournal root wr fs j = Inr fs'" "is_uuid (jj_runId j)" "valid_journal sha (jj_runId j) j"
  shows "readOperationJournal sha root fs' (jj_runId j) = Inr j"
    "\<And>run. is_uuid run \<Longrightarrow> run \<noteq> jj_runId j \<Longrightarrow> readOperationJournal sha root fs' run = readOperationJournal sha root fs run"
proof -
  have w: "writeDurableJsonAtomic (journalPath root (jj_runId j)) (fst wr) (snd wr) j fs = Inr fs'"
    using assms(1) by (simp add: writeJournal_def)
  show "readOperationJournal sha root fs' (jj_runId j) = Inr j"
    using write_result [OF w] assms(3) by (simp add: readOperationJournal_iff)
  show "readOperationJournal sha root fs' run = readOperationJournal sha root fs run" if "is_uuid run" "run \<noteq> jj_runId j" for run
    using write_elsewhere [OF w] run_paths_apart [OF that(1) assms(2)] that(2) by (simp add: readOperationJournal_def)
qed

lemma begin_writes:
  assumes "begin_operation rt run inp w = (w', Inr p)" "is_uuid run" "bo_fixedNowUnix inp = None"
  shows "w_disk w' = w_disk w \<and> en_states (w_env w') = en_states (w_env w) \<and> jr_phase p = bo_phase inp
     \<and> (\<exists>j. journal_of rt run w' = Inr j \<and> pending_tail j = Some p)
     \<and> (\<forall>r. is_uuid r \<and> r \<noteq> run \<longrightarrow> journal_of rt r w' = journal_of rt r w)"
proof -
  obtain e u where u: "rt_randomUUID rt w = (e, u)" by fastforce
  define v where "v = with_go e w"
  have v: "w_disk v = w_disk w" "en_states (w_env v) = en_states (w_env w)" "en_journal (w_env v) = en_journal (w_env w)"
    by (simp_all add: v_def with_go_def)
  from assms(1) obtain fs where b: "beginOperation (rt_sha rt) (rt_runRoot rt) (rt_writer rt v) u (en_journal (w_env w)) run inp = Inr (fs, p)"
    and w': "w' = v\<lparr>w_env := (w_env v)\<lparr>en_journal := fs\<rparr>\<rparr>"
    by (auto simp: begin_operation_def abind_def external_call_def u v_def with_go_def split: sum.splits)
  from b obtain j where j: "readOperationJournal (rt_sha rt) (rt_runRoot rt) (en_journal (w_env w)) run = Inr j"
    by (auto simp: beginOperation_def ebind_eq_Inr)
  note valid = read_valid [OF j]
  have run: "jj_runId j = run" using valid by (simp add: valid_journal_def)
  show ?thesis
  proof (cases "pending_tail j")
    case (Some q)
    then have "fs = en_journal (w_env w)" "p = q" "jr_phase p = bo_phase inp"
      using b j by (auto simp: beginOperation_def ebind_check split: if_splits)
    then show ?thesis using Some j v w' by (simp add: journal_of_def)
  next
    case None
    let ?r = "new_record (rt_sha rt) u run (length (jj_records j) + 1) inp"
    let ?j = "j\<lparr>jj_records := jj_records j @ [?r]\<rparr>"
    from None have written: "writeJournal (rt_runRoot rt) (rt_writer rt v) (en_journal (w_env w)) ?j = Inr fs" and p: "p = ?r"
      using b j by (auto simp: beginOperation_def ebind_eq_Inr Let_def)
    have "valid_journal (rt_sha rt) run ?j" by (rule valid_append [OF valid None]) (simp add: assms(3))
    with journal_write [OF written, of "rt_sha rt"] assms(2) run
    have "journal_of rt run w' = Inr ?j" "\<forall>r. is_uuid r \<and> r \<noteq> run \<longrightarrow> journal_of rt r w' = journal_of rt r w"
      using v w' by (simp_all add: journal_of_def)
    moreover have "pending_tail ?j = Some p" "jr_phase p = bo_phase inp" by (simp_all add: pending_tail_def at_last_def p new_record_def)
    ultimately show ?thesis using v w' by auto
  qed
qed

lemma begin_throws: "begin_operation rt run inp w = (w', Inl e) \<Longrightarrow> silent w w'"
  by (auto simp: begin_operation_def abind_def external_call_def with_go_def silent_def split: sum.splits prod.splits)

lemma finish_writes:
  assumes "finish_operation rt run opId outcome reason w = (w', Inr x)" "is_uuid run" "outcome \<noteq> PENDING"
  shows "w_disk w' = w_disk w \<and> en_states (w_env w') = en_states (w_env w)
     \<and> (\<exists>j. journal_of rt run w' = Inr j \<and> pending_tail j = None \<and> jj_records j \<noteq> [])
     \<and> (\<forall>r. is_uuid r \<and> r \<noteq> run \<longrightarrow> journal_of rt r w' = journal_of rt r w)"
proof -
  obtain v t where now: "now_iso rt w = (v, Inr t)" and "silent w v"
    using assms(1) quiet_silent [OF quiet_now(2) [of rt]] unfolding finish_operation_def abind_eq_Inr keeps_def by (metis fst_conv)
  then have v: "w_disk v = w_disk w" "en_states (w_env v) = en_states (w_env w)" "en_journal (w_env v) = en_journal (w_env w)"
    by (simp_all add: silent_def)
  from assms(1) obtain fs r where f: "finishOperation (rt_sha rt) (rt_runRoot rt) (rt_writer rt v) (en_journal (w_env w)) run opId outcome t reason = Inr (fs, r)"
    and w': "w' = v\<lparr>w_env := (w_env v)\<lparr>en_journal := fs\<rparr>\<rparr>"
    by (auto simp: finish_operation_def abind_def now v split: sum.splits)
  from f obtain j where j: "readOperationJournal (rt_sha rt) (rt_runRoot rt) (en_journal (w_env w)) run = Inr j"
    by (auto simp: finishOperation_def ebind_eq_Inr)
  note valid = read_valid [OF j]
  let ?t = "terminal_record (last (jj_records j)) outcome t reason"
  let ?j = "j\<lparr>jj_records := butlast (jj_records j) @ [?t]\<rparr>"
  from f j have ne: "jj_records j \<noteq> []" and written: "writeJournal (rt_runRoot rt) (rt_writer rt v) (en_journal (w_env w)) ?j = Inr fs"
    by (auto simp: finishOperation_def ebind_eq_Inr at_last_def Let_def split: if_splits)
  have run: "jj_runId j = run" using valid by (simp add: valid_journal_def)
  have "journal_of rt run w' = Inr ?j" "\<forall>r. is_uuid r \<and> r \<noteq> run \<longrightarrow> journal_of rt r w' = journal_of rt r w"
    using journal_write [OF written, of "rt_sha rt"] valid_finish [OF valid ne] assms(2) run v w' by (simp_all add: journal_of_def)
  moreover have "pending_tail ?j = None" using assms(3) by (simp add: pending_tail_def at_last_def terminal_record_def)
  ultimately show ?thesis using v w' by auto
qed

lemma finish_throws: "finish_operation rt run opId outcome reason w = (w', Inl e) \<Longrightarrow> silent w w'"
  using quiet_silent [OF quiet_now(2) [of rt]] unfolding finish_operation_def abind_def keeps_def
  by (auto split: sum.splits prod.splits) (metis fst_conv)+

subsection \<open>The triples of the engine\<close>

definition loaded :: "'e ProtectionRuntime \<Rightarrow> string \<Rightarrow> InternalState \<Rightarrow> 'e engine_world \<Rightarrow> bool" where
  "loaded rt run s w \<longleftrightarrow> engine_inv rt w \<and> is_uuid run \<and> record_of rt run w = Some (Whole s)"

definition pending :: "'e ProtectionRuntime \<Rightarrow> string \<Rightarrow> InternalState \<Rightarrow> ProductOperationRecord \<Rightarrow> 'e engine_world \<Rightarrow> bool" where
  "pending rt run s p w \<longleftrightarrow> loaded rt run s w \<and> (\<exists>j. journal_of rt run w = Inr j \<and> pending_tail j = Some p)"

lemma loaded_inv: "loaded rt run s w \<Longrightarrow> \<exists>j. journal_of rt run w = Inr j \<and> record_inv rt run s j w"
  by (auto simp: loaded_def engine_inv_def run_inv_def)

lemma loaded_facts: "loaded rt run s w \<Longrightarrow> is_runId s = run \<and> well_staged s"
  by (auto dest: loaded_inv simp: record_inv_def)

lemma stable_assertions [intro, simp]:
  "stable (engine_inv rt)" "stable (loaded rt run s)" "stable (pending rt run s p)"
  by (simp_all add: stable_def loaded_def pending_def silent_same)

lemma begin_bind:
  assumes "is_stage s \<in> set (phase_stages (bo_phase inp))" "bo_fixedNowUnix inp = None"
    and "\<And>p. jr_phase p = bo_phase inp \<Longrightarrow> steps (engine_keeps rt) (pending rt run s p) (f p) Q"
  shows "steps (engine_keeps rt) (loaded rt run s) (abind (begin_operation rt run inp) f) Q"
proof (rule engine.steps_abind [where Q = "\<lambda>p w. pending rt run s p w \<and> jr_phase p = bo_phase inp"])
  have begun: "engine_keeps rt w w' \<and> pending rt run s p w' \<and> jr_phase p = bo_phase inp"
    if l: "loaded rt run s w" and b: "begin_operation rt run inp w = (w', Inr p)" for w w' p
  proof -
    have uuid: "is_uuid run" and inv: "engine_inv rt w" and rec: "record_of rt run w = Some (Whole s)"
      using l by (simp_all add: loaded_def)
    note writes = begin_writes [OF b uuid assms(2)]
    have same: "record_of rt r w' = record_of rt r w" for r using writes by (simp add: record_of_def)
    obtain j where j: "journal_of rt run w' = Inr j" "pending_tail j = Some p" using writes by blast
    have "run_inv rt r w'" if "is_uuid r" for r
    proof (cases "r = run")
      case True
      then show ?thesis using loaded_inv [OF l] assms(1) j rec writes by (auto simp: run_inv_def same record_inv_def backed_def)
    next
      case False
      then show ?thesis using inv that writes same run_inv_same [of rt r w' w] by (simp add: engine_inv_def)
    qed
    then have "engine_inv rt w'" by (simp add: engine_inv_def)
    moreover have "run_continues rt w w'" by (simp add: run_continues_def same)
    ultimately show ?thesis using writes uuid rec j by (simp add: engine_keeps_def pending_def loaded_def same)
  qed
  show "steps (engine_keeps rt) (loaded rt run s) (begin_operation rt run inp) (\<lambda>p w. pending rt run s p w \<and> jr_phase p = bo_phase inp)"
    unfolding steps_def
  proof (intro allI impI)
    fix w assume "loaded rt run s w"
    then show "engine_keeps rt w (fst (begin_operation rt run inp w)) \<and> (\<forall>p. snd (begin_operation rt run inp w) = Inr p \<longrightarrow>
        pending rt run s p (fst (begin_operation rt run inp w)) \<and> jr_phase p = bo_phase inp)"
      using begun [of w] begin_throws [of rt run inp w]
      by (cases "begin_operation rt run inp w"; cases "snd (begin_operation rt run inp w)") (auto intro: silent_keeps)
  qed
  show "steps (engine_keeps rt) (\<lambda>w. pending rt run s p w \<and> jr_phase p = bo_phase inp) (f p) Q" for p
    using assms(3) [of p] by (auto simp: steps_def)
qed

lemma save_steps:
  assumes "\<And>w j. P w \<Longrightarrow> journal_of rt (is_runId s') w = Inr j \<Longrightarrow> engine_inv rt w \<and> record_inv rt (is_runId s') s' j w"
    and "\<And>w s. P w \<Longrightarrow> record_of rt (is_runId s') w = Some (Whole s) \<Longrightarrow> continues s s'"
    and "\<And>w. P w \<Longrightarrow> \<exists>j. journal_of rt (is_runId s') w = Inr j"
    and "\<And>w j. P w \<Longrightarrow> journal_of rt (is_runId s') w = Inr j \<Longrightarrow> M j"
  shows "steps (engine_keeps rt) P (saveState rt s')
    (\<lambda>t w. t = s' \<and> loaded rt (is_runId s') s' w \<and> (\<exists>j. journal_of rt (is_runId s') w = Inr j \<and> M j))"
  unfolding steps_def
proof (intro allI impI)
  fix w assume P: "P w"
  obtain j where j: "journal_of rt (is_runId s') w = Inr j" using assms(3) [OF P] by blast
  show "engine_keeps rt w (fst (saveState rt s' w)) \<and> (\<forall>t. snd (saveState rt s' w) = Inr t \<longrightarrow> t = s'
      \<and> loaded rt (is_runId s') s' (fst (saveState rt s' w)) \<and> (\<exists>j. journal_of rt (is_runId s') (fst (saveState rt s' w)) = Inr j \<and> M j))"
  proof (cases "saveState rt s' w")
    case (Pair w' r)
    show ?thesis
    proof (cases r)
      case (Inl e)
      then show ?thesis using save_throws [of rt s' w w' e] Pair by (simp add: engine.kept_refl)
    next
      case (Inr t)
      note writes = save_writes [OF Pair [unfolded Inr]]
      have "engine_inv rt w'" "run_continues rt w w'"
        using save_inv [OF _ Pair [unfolded Inr] j] assms(1) [OF P j] assms(2) [OF P] by blast+
      moreover have "journal_of rt (is_runId s') w' = Inr j" using writes j by (simp add: journal_of_def)
      ultimately show ?thesis using writes Pair Inr assms(4) [OF P j] by (auto simp: engine_keeps_def loaded_def)
    qed
  qed
qed

lemma steps_vacuous: "(\<And>w. P w \<Longrightarrow> steps R P m Q) \<Longrightarrow> steps R P m Q"
  by (auto simp: steps_def)

text \<open>A record that another one may replace while the journal holds \<open>tail\<close>.\<close>

definition replaces :: "InternalState \<Rightarrow> InternalState \<Rightarrow> bool" where
  "replaces s s' \<longleftrightarrow> continues s s' \<and> (well_staged s \<longrightarrow> well_staged s')"

lemma replaces_refl [simp]: "replaces s s"
  by (simp add: replaces_def)

definition tail_is :: "'e ProtectionRuntime \<Rightarrow> string \<Rightarrow> (ProductOperationRecord option \<Rightarrow> bool) \<Rightarrow> 'e engine_world \<Rightarrow> bool" where
  "tail_is rt run M w \<longleftrightarrow> (\<exists>j. journal_of rt run w = Inr j \<and> M (pending_tail j))"

lemma replace_steps:
  assumes "replaces s s'"
    and "\<And>p. M (Some p) \<Longrightarrow> is_stage s \<in> set (phase_stages (jr_phase p)) \<Longrightarrow> is_stage s' \<in> set (phase_stages (jr_phase p))"
    and "\<And>w role a. P w \<Longrightarrow> is_admittedClaims s' role = Some a \<Longrightarrow> is_admittedClaims s role = Some a \<or> backed rt run role a w"
    and "\<And>w. P w \<Longrightarrow> loaded rt run s w \<and> tail_is rt run M w"
  shows "steps (engine_keeps rt) P (saveState rt s') (\<lambda>t w. t = s' \<and> loaded rt run s' w \<and> tail_is rt run M w)"
proof (rule steps_vacuous)
  fix w0 assume "P w0"
  from loaded_facts [of rt run s w0] assms(1) assms(4) [OF this] have run: "is_runId s' = run" by (simp add: replaces_def continues_def)
  have tail: "M (pending_tail j)" if "P w" "journal_of rt run w = Inr j" for w j
    using assms(4) [OF that(1)] that(2) by (auto simp: tail_is_def)
  have fits: "engine_inv rt w \<and> record_inv rt run s' j w" if P: "P w" and j: "journal_of rt run w = Inr j" for w j
  proof -
    have l: "loaded rt run s w" using assms(4) [OF P] by simp
    obtain j' where "journal_of rt run w = Inr j'" "record_inv rt run s j' w" using loaded_inv [OF l] by blast
    with j have r: "record_inv rt run s j w" by simp
    have "is_stage s' \<in> set (phase_stages (jr_phase p))" if "pending_tail j = Some p" for p
      using assms(2) [of p] tail [OF P j] r that by (simp add: record_inv_def)
    moreover have "backed rt run role a w" if "is_admittedClaims s' role = Some a" for role a
      using assms(3) [OF P that] r by (auto simp: record_inv_def)
    ultimately show ?thesis using l r run assms(1) by (simp add: record_inv_def replaces_def loaded_def)
  qed
  show "steps (engine_keeps rt) P (saveState rt s') (\<lambda>t w. t = s' \<and> loaded rt run s' w \<and> tail_is rt run M w)"
    unfolding tail_is_def
  proof (rule save_steps [where s' = s' and M = "\<lambda>j. M (pending_tail j)", unfolded run])
    show "engine_inv rt w \<and> record_inv rt run s' j w" if "P w" "journal_of rt run w = Inr j" for w j by (rule fits [OF that])
    show "continues x s'" if "P w" "record_of rt run w = Some (Whole x)" for w x
      using assms(1) assms(4) [OF that(1)] that(2) by (simp add: loaded_def replaces_def)
    show "\<exists>j. journal_of rt run w = Inr j" if "P w" for w using assms(4) [OF that] by (auto simp: tail_is_def)
    show "M (pending_tail j)" if "P w" "journal_of rt run w = Inr j" for w j by (rule tail [OF that])
  qed
qed

lemma pending_tail_is: "pending rt run s p w \<longleftrightarrow> loaded rt run s w \<and> tail_is rt run (\<lambda>t. t = Some p) w"
  by (auto simp: pending_def tail_is_def)

lemma loaded_tail: "loaded rt run s w \<Longrightarrow> tail_is rt run (\<lambda>_. True) w"
  by (auto dest: loaded_inv simp: tail_is_def)

lemma stable_tail [intro, simp]: "stable (\<lambda>w. loaded rt run s w \<and> tail_is rt run M w)"
  by (simp add: stable_def loaded_def tail_is_def silent_same)

text \<open>Saving inside an operation.\<close>

lemma save_bind:
  assumes "replaces s s'" "is_admittedClaims s' = is_admittedClaims s" "is_stage s' \<in> set (phase_stages (jr_phase p))"
    and "steps (engine_keeps rt) (pending rt run s' p) (f s') Q"
  shows "steps (engine_keeps rt) (pending rt run s p) (abind (saveState rt s') f) Q"
proof (rule engine.steps_abind [OF replace_steps [where s = s and s' = s' and M = "\<lambda>t. t = Some p" and run = run]])
  show "steps (engine_keeps rt) (\<lambda>w. t = s' \<and> loaded rt run s' w \<and> tail_is rt run (\<lambda>t. t = Some p) w) (f t) Q" for t
    using assms(4) by (auto simp: steps_def pending_tail_is)
qed (use assms in \<open>simp_all add: pending_tail_is\<close>)

lemma finish_steps:
  assumes "outcome \<noteq> PENDING"
  shows "steps (engine_keeps rt) (pending rt run s p) (finish_operation rt run opId outcome reason)
    (\<lambda>_ w. loaded rt run s w \<and> tail_is rt run (\<lambda>t. t = None) w)"
  unfolding steps_def
proof (intro allI impI)
  fix w assume pend: "pending rt run s p w"
  then have l: "loaded rt run s w" and uuid: "is_uuid run" and inv: "engine_inv rt w" and rec: "record_of rt run w = Some (Whole s)"
    by (simp_all add: pending_def loaded_def)
  let ?m = "finish_operation rt run opId outcome reason w"
  show "engine_keeps rt w (fst ?m) \<and> (\<forall>x. snd ?m = Inr x \<longrightarrow> loaded rt run s (fst ?m) \<and> tail_is rt run (\<lambda>t. t = None) (fst ?m))"
  proof (cases ?m)
    case (Pair w' r)
    show ?thesis
    proof (cases r)
      case (Inl e)
      then show ?thesis using finish_throws [of rt run opId outcome reason w w' e] Pair by (simp add: silent_keeps)
    next
      case (Inr x)
      note writes = finish_writes [OF Pair [unfolded Inr] uuid assms]
      have same: "record_of rt r w' = record_of rt r w" for r using writes by (simp add: record_of_def)
      obtain j where j: "journal_of rt run w' = Inr j" "pending_tail j = None" using writes by blast
      have "run_inv rt r w'" if "is_uuid r" for r
      proof (cases "r = run")
        case True
        then show ?thesis using loaded_inv [OF l] j rec writes by (auto simp: run_inv_def same record_inv_def backed_def)
      next
        case False
        then show ?thesis using inv that writes same run_inv_same [of rt r w' w] by (simp add: engine_inv_def)
      qed
      then have "engine_inv rt w'" by (simp add: engine_inv_def)
      moreover have "run_continues rt w w'" by (simp add: run_continues_def same)
      ultimately show ?thesis using writes uuid rec j Pair Inr by (auto simp: engine_keeps_def loaded_def same tail_is_def)
    qed
  qed
qed

lemma finish_bind:
  assumes "outcome \<noteq> PENDING" "\<And>x. steps (engine_keeps rt) (loaded rt run s) (f x) Q"
  shows "steps (engine_keeps rt) (pending rt run s p) (abind (finish_operation rt run opId outcome reason) f) Q"
  by (rule engine.steps_abind [OF finish_steps [OF assms(1)]]) (use assms(2) in \<open>auto simp: steps_def\<close>)

text \<open>Saving outside of one: the stage stays, or nothing is open.\<close>

lemma save_idle:
  assumes "replaces s s'" "is_stage s' = is_stage s"
    and "\<And>w role a. P w \<Longrightarrow> is_admittedClaims s' role = Some a \<Longrightarrow> is_admittedClaims s role = Some a \<or> backed rt run role a w"
    and "\<And>w. P w \<Longrightarrow> loaded rt run s w"
  shows "steps (engine_keeps rt) P (saveState rt s') (\<lambda>t w. t = s' \<and> loaded rt run s' w)"
  by (rule steps_weaken [OF replace_steps [where s = s and s' = s' and M = "\<lambda>_. True" and run = run]])
    (use assms loaded_tail [of rt run s] in \<open>auto\<close>)

lemma save_closed:
  assumes "replaces s s'" "is_admittedClaims s' = is_admittedClaims s"
  shows "steps (engine_keeps rt) (\<lambda>w. loaded rt run s w \<and> tail_is rt run (\<lambda>t. t = None) w) (saveState rt s')
    (\<lambda>t w. t = s' \<and> loaded rt run s' w)"
  by (rule steps_weaken [OF replace_steps [where s = s and s' = s' and M = "\<lambda>t. t = None" and run = run]])
    (use assms in \<open>auto\<close>)

lemma aborted_replaces: "replaces s (s\<lparr>is_stage := Stage_ABORTED, is_abortedReason := reason\<rparr>)"
  by (cases "is_stage s") (auto simp: replaces_def continues_def staged coalition_case_def)

lemma abort_steps:
  "steps (engine_keeps rt) (pending rt run s p) (abortState rt s p reason) (\<lambda>t w. loaded rt run t w)"
proof (rule steps_vacuous)
  fix w assume "pending rt run s p w"
  then have run: "is_runId s = run" using loaded_facts by (auto simp: pending_def)
  show ?thesis
    unfolding abortState_def run
    by (rule engine.steps_abind [OF finish_steps], simp,
        rule steps_weaken [OF save_closed [OF aborted_replaces]]) auto
qed

subsection \<open>The records the operations write\<close>

lemma case_continues_appends: "case_continues c d \<Longrightarrow> case_continues c (appendEventOnce d e patch)"
  by (rule case_continues_trans [OF _ case_continues_append])

lemma case_after [simp]:
  "case_continues (is_protectionCase s) (case_after_preparation s at)"
  "case_continues (is_protectionCase s) (case_after_submission s role at d)"
  "case_continues (is_protectionCase s) (case_after_evaluation s at d)"
  "case_continues (is_protectionCase s) (case_after_release s release at)"
  "case_continues (is_protectionCase s) (coalitionProtectionCaseAfterRelease s result d authority at)"
  by (simp_all add: case_after_preparation_def case_after_submission_def case_after_evaluation_def case_after_release_def
      coalitionProtectionCaseAfterRelease_def Let_def case_continues_appends)

lemma case_after_recourse: "protectionCaseAfterRecourse s recourse at a = Inr c \<Longrightarrow> case_continues (is_protectionCase s) c"
  by (auto simp: protectionCaseAfterRecourse_def Let_def ebind_eq_Inr case_continues_appends split: if_splits option.splits)

lemma prepared_replaces:
  assumes "is_stage s \<in> {Stage_CASE_CREATED, Stage_MATCH_PREPARED}" "case_continues (is_protectionCase s) c"
  shows "replaces s (s\<lparr>is_stage := Stage_MATCH_PREPARED, is_protectionCase := c, is_keygen := Some k,
    is_participantKeys := Some (participantKeyPaths s)\<rparr>)"
  using assms case_continues_release [OF assms(2)]
  by (elim insertE emptyE; simp add: replaces_def continues_def staged coalition_case_def participantKeyPaths_def [abs_def])

lemma submitted_replaces:
  assumes "is_stage s \<in> {admission_stage role, submitted_stage role}" "case_continues (is_protectionCase s) c"
  shows "replaces s (s\<lparr>is_stage := submitted_stage role, is_protectionCase := c, is_submissions := (is_submissions s)(role \<mapsto> x)\<rparr>)"
  using assms case_continues_release [OF assms(2)]
  by (cases role; elim insertE emptyE; simp add: replaces_def continues_def staged coalition_case_def participantKeyPaths_def [abs_def])

lemma finalized_replaces:
  "is_stage s \<in> {Stage_PARTICIPANT_B_PUBLISHED, Stage_PARTICIPANT_B_SUBMITTED} \<Longrightarrow> replaces s (s\<lparr>is_stage := Stage_PARTICIPANT_B_SUBMITTED\<rparr>)"
  by (elim insertE emptyE; simp add: replaces_def continues_def staged coalition_case_def participantKeyPaths_def [abs_def])

lemma evaluated_replaces:
  assumes "is_stage s \<in> {Stage_PARTICIPANT_B_SUBMITTED, Stage_EVALUATED}" "case_continues (is_protectionCase s) c"
  shows "replaces s (s\<lparr>is_stage := Stage_EVALUATED, is_protectionCase := c, is_evaluation := Some x\<rparr>)"
  using assms case_continues_release [OF assms(2)]
  by (elim insertE emptyE; simp add: replaces_def continues_def staged coalition_case_def participantKeyPaths_def [abs_def])

lemma released_replaces:
  assumes "is_stage s \<in> {Stage_EVALUATED, Stage_RELEASED}" "case_continues (is_protectionCase s) c" "\<not> coalition_case s"
  shows "replaces s (s\<lparr>is_stage := Stage_RELEASED, is_protectionCase := c, is_release := Some x, is_governedActionPlan := plan\<rparr>)"
  using assms case_continues_release [OF assms(2)]
  by (elim insertE emptyE; simp add: replaces_def continues_def staged coalition_case_def participantKeyPaths_def [abs_def])

lemma coalition_released_replaces:
  assumes "is_stage s \<in> {Stage_EVALUATED, Stage_RELEASED}" "case_continues (is_protectionCase s) c" "coalition_case s"
  shows "replaces s (s\<lparr>is_stage := Stage_RELEASED, is_protectionCase := c, is_coalitionRelease := Some x, is_coalitionSettlement := Some y\<rparr>)"
  using assms case_continues_release [OF assms(2)]
  by (elim insertE emptyE; simp add: replaces_def continues_def staged coalition_case_def participantKeyPaths_def [abs_def])

lemma recourse_replaces:
  assumes "is_stage s \<in> {Stage_RELEASED, Stage_RECOURSE_OPENED}" "case_continues (is_protectionCase s) c" "is_release s = Some r"
  shows "replaces s (s\<lparr>is_stage := Stage_RECOURSE_OPENED, is_protectionCase := c, is_recourse := Some x, is_governedRecourseOperation := y\<rparr>)"
  using assms case_continues_release [OF assms(2)]
  by (elim insertE emptyE; simp add: replaces_def continues_def staged coalition_case_def participantKeyPaths_def [abs_def])

lemma cured_replaces: "is_stage s = Stage_RECOURSE_OPENED \<Longrightarrow> replaces s (s\<lparr>is_stage := Stage_CHRONOLOGY_COMPLETE\<rparr>)"
  by (simp add: replaces_def continues_def staged coalition_case_def participantKeyPaths_def [abs_def]) auto

lemma exported_replaces:
  "is_stage s \<in> {Stage_RECOURSE_OPENED, Stage_CHRONOLOGY_COMPLETE, Stage_COMPLETE}
     \<Longrightarrow> replaces s (s\<lparr>is_stage := Stage_COMPLETE, is_evidence := Some x\<rparr>)"
  by (elim insertE emptyE; simp add: replaces_def continues_def staged coalition_case_def participantKeyPaths_def [abs_def]; auto)

subsection \<open>Reconciliation\<close>

text \<open>What reconciliation reconstructs is the record at the target stage of the operation that was open.\<close>

definition reconstructs :: "InternalState \<Rightarrow> ProductOperationPhase \<Rightarrow> InternalState \<Rightarrow> bool" where
  "reconstructs s phase t \<longleftrightarrow> replaces s t \<and> is_admittedClaims t = is_admittedClaims s \<and> is_stage t \<in> set (phase_stages phase)"

lemma preparation_reconstructs:
  "reconcile_preparation s at i = Some t \<Longrightarrow> is_stage s \<in> set (phase_stages PREPARING) \<Longrightarrow> reconstructs s PREPARING t"
  by (auto simp: reconcile_preparation_def reconstructs_def prepared_replaces split: option.splits prod.splits if_splits)

lemma submission_reconstructs:
  "reconcile_submission s role at a = Some t \<Longrightarrow> is_stage s \<in> {admission_stage role, submitted_stage role}
     \<Longrightarrow> replaces s t \<and> is_admittedClaims t = is_admittedClaims s \<and> is_stage t = submitted_stage role"
  by (auto simp: reconcile_submission_def submitted_replaces split: option.splits)

lemma evaluation_reconstructs:
  "reconcile_evaluation s at i = Some t \<Longrightarrow> is_stage s \<in> set (phase_stages EVALUATING) \<Longrightarrow> reconstructs s EVALUATING t"
  by (auto simp: reconcile_evaluation_def reconstructs_def evaluated_replaces split: option.splits)

lemma coalition_release_reconstructs:
  "reconcile_coalition_release rt s at i w = Inr (Some t) \<Longrightarrow> is_stage s \<in> set (phase_stages RELEASING) \<Longrightarrow> coalition_case s
     \<Longrightarrow> reconstructs s RELEASING t"
  by (auto simp: reconcile_coalition_release_def reconstructs_def ebind_eq_Inr coalition_released_replaces
      split: option.splits if_splits)

lemma release_reconstructs:
  "reconcile_release rt s at i w = Inr (Some t) \<Longrightarrow> is_stage s \<in> set (phase_stages RELEASING) \<Longrightarrow> \<not> coalition_case s
     \<Longrightarrow> reconstructs s RELEASING t"
  using released_replaces [where s = s and plan = "is_governedActionPlan s"]
  by (auto simp: reconcile_release_def reconstructs_def ebind_eq_Inr Let_def released_replaces split: option.splits if_splits)

lemma recourse_reconstructs:
  assumes "reconcile_recourse rt s p at i w = Inr (Some t)" "is_stage s \<in> set (phase_stages OPENING_RECOURSE)"
  shows "reconstructs s OPENING_RECOURSE t"
proof -
  obtain c recourse r a operation where "protectionCaseAfterRecourse s recourse at a = Inr c" "is_release s = Some r"
    and t: "t = s\<lparr>is_stage := Stage_RECOURSE_OPENED, is_protectionCase := c, is_recourse := Some recourse, is_governedRecourseOperation := operation\<rparr>"
    using assms(1) unfolding reconcile_recourse_def Let_def
    by (auto simp: ebind_eq_Inr split: if_splits option.splits)
  then have "replaces s t" using assms(2) case_after_recourse recourse_replaces by simp
  then show ?thesis by (simp add: reconstructs_def t)
qed

lemma projection_reconstructs:
  assumes "snd (reconcileProtectionProjection rt s p i w) = Inr (Some t)" "is_stage s \<in> set (phase_stages (jr_phase p))"
  shows "reconstructs s (jr_phase p) t"
proof (cases "jr_phase p")
  case RELEASING
  then show ?thesis
    using assms coalition_release_reconstructs [of rt s "jr_createdAt p" i w t] release_reconstructs [of rt s "jr_createdAt p" i w t]
    by (cases "coalition_case s") (simp_all add: reconcileProtectionProjection_def)
next
  case EXPORTING
  then obtain v w' where "external_call (rt_recoverEvidence rt s i) w = (w', Inr (Some v))" "t = s\<lparr>is_stage := Stage_COMPLETE, is_evidence := Some v\<rparr>"
    using assms(1) by (auto simp: reconcileProtectionProjection_def abind_def split: prod.splits sum.splits option.splits)
  then show ?thesis using assms(2) EXPORTING exported_replaces [of s v] by (simp add: reconstructs_def)
next
  case RETAINING
  then have "t = s" using assms(1) by (auto simp: reconcileProtectionProjection_def abind_def split: prod.splits sum.splits if_splits)
  then show ?thesis using assms(2) by (simp add: reconstructs_def)
qed (use assms submission_reconstructs [of s PARTICIPANT_A "jr_createdAt p" "pi_submissionA i" t]
      submission_reconstructs [of s PARTICIPANT_B "jr_createdAt p" "pi_submissionB i" t]
      preparation_reconstructs [of s "jr_createdAt p" i t] evaluation_reconstructs [of s "jr_createdAt p" i t]
      recourse_reconstructs [of rt s p "jr_createdAt p" i w t] finalized_replaces [of s]
   in \<open>auto simp: reconcileProtectionProjection_def reconstructs_def split: if_splits\<close>)

lemma save_reconstructed:
  "reconstructs s (jr_phase p) t \<Longrightarrow> steps (engine_keeps rt) (pending rt run t p) (f t) Q
     \<Longrightarrow> steps (engine_keeps rt) (pending rt run s p) (abind (saveState rt t) f) Q"
  by (rule save_bind) (simp_all add: reconstructs_def)

lemma pending_stage: "pending rt run s p w \<Longrightarrow> is_stage s \<in> set (phase_stages (jr_phase p)) \<and> is_runId s = run"
  using loaded_inv [of rt run s w] by (auto simp: pending_def record_inv_def)

lemma reconcile_pending_steps:
  "steps (engine_keeps rt) (pending rt run s p) (reconcile_pending rt s allow p i) (\<lambda>t w. loaded rt run t w)"
proof (rule steps_vacuous)
  fix w0 assume "pending rt run s p w0"
  then have stage: "is_stage s \<in> set (phase_stages (jr_phase p))" and run: "is_runId s = run" using pending_stage by blast+
  have keep: "steps (engine_keeps rt) (pending rt run s p) (reconcileProtectionProjection rt s p i)
      (\<lambda>r w. pending rt run s p w \<and> (\<forall>t. r = Some t \<longrightarrow> reconstructs s (jr_phase p) t))"
    using steps_silent [OF quiet_silent [OF quiet_projection [of rt s p i]], of "pending rt run s p" rt] projection_reconstructs [OF _ stage]
    by (auto simp: steps_def)
  have undone: "steps (engine_keeps rt) (pending rt run s p) (alift (Inr s)) (\<lambda>t w. loaded rt run t w)"
    by (rule engine.steps_return) (simp add: pending_def)
  have saved: "steps (engine_keeps rt) (pending rt run s p) (abind (saveState rt t) (\<lambda>saved.
      abind (finish_operation rt run (jr_operationId p) RECONCILED None) (\<lambda>_.
      abind (remove_transients s (jr_phase p)) (\<lambda>_. alift (Inr saved))))) (\<lambda>t w. loaded rt run t w)"
    if "reconstructs s (jr_phase p) t" for t
    by (rule save_reconstructed [OF that]) (intro finish_bind quiet_bind quiet_intros stable_assertions engine.steps_return; simp)
  show ?thesis
    unfolding reconcile_pending_def run
  proof (rule engine.steps_abind [OF keep])
    fix r
    show "steps (engine_keeps rt) (\<lambda>w. pending rt run s p w \<and> (\<forall>t. r = Some t \<longrightarrow> reconstructs s (jr_phase p) t))
      (case r of None \<Rightarrow>
         if jr_phase p = EVALUATING \<and> pi_evaluationAdmission i then abortState rt s p ''IRREVERSIBLE_EVALUATION_WITHOUT_TERMINAL_ARTIFACT''
         else if allow \<and> jr_phase p = RELEASING \<and> pi_releaseAdmission i then abortState rt s p ''IRREVERSIBLE_RELEASE_WITHOUT_TERMINAL_RESULT''
         else alift (Inr s)
       | Some t \<Rightarrow> abind (saveState rt t) (\<lambda>saved. abind (finish_operation rt run (jr_operationId p) RECONCILED None) (\<lambda>_.
           abind (remove_transients s (jr_phase p)) (\<lambda>_. alift (Inr saved))))) (\<lambda>t w. loaded rt run t w)"
      using undone saved abort_steps [of rt run s p] by (cases r) (auto simp: steps_def)
  qed
qed

lemma reconcile_open_steps:
  "steps (engine_keeps rt) (\<lambda>w. loaded rt run s w \<and> tail_is rt run (\<lambda>t. t = tail) w) (reconcile_open rt s allow tail)
    (\<lambda>t w. loaded rt run t w)"
proof (cases tail)
  case None
  then show ?thesis
    unfolding reconcile_open_def
    by (intro quiet_bind quiet_intros stable_tail) (auto intro: engine.steps_throw engine.steps_return)
next
  case (Some p)
  have "steps (engine_keeps rt) (pending rt run s p) (reconcile_open rt s allow (Some p)) (\<lambda>t w. loaded rt run t w)"
    unfolding reconcile_open_def
    by (intro quiet_bind quiet_intros stable_assertions) (auto intro: abort_steps reconcile_pending_steps)
  then show ?thesis by (simp add: Some pending_tail_is [abs_def])
qed

lemma reconcile_steps: "steps (engine_keeps rt) (loaded rt run s) (reconcileState rt s allow) (\<lambda>t w. loaded rt run t w)"
proof (rule steps_vacuous)
  fix w0 assume "loaded rt run s w0"
  then have run: "is_runId s = run" using loaded_facts by blast
  show ?thesis
    unfolding reconcileState_def run
  proof (rule engine.areads_bind)
    fix j
    let ?P = "\<lambda>w. loaded rt run s w \<and> journal_of rt run w = Inr j"
    have opened: "steps (engine_keeps rt) ?P (reconcile_open rt s allow (pending_tail j)) (\<lambda>t w. loaded rt run t w)"
      using reconcile_open_steps [of rt run s "pending_tail j" allow] by (auto simp: steps_def tail_is_def)
    have aborted: "steps (engine_keeps rt) ?P (saveState rt (s\<lparr>is_stage := Stage_ABORTED, is_abortedReason := reason\<rparr>)) (\<lambda>t w. loaded rt run t w)"
      if "pending_tail j = None" for reason
      using save_closed [OF aborted_replaces [of s reason], of rt run] that by (auto simp: steps_def tail_is_def)
    show "steps (engine_keeps rt) ?P (case at_last (jj_records j) of
        None \<Rightarrow> reconcile_open rt s allow (pending_tail j)
      | Some r \<Rightarrow> if jr_outcome r = OUTCOME_ABORTED \<and> is_stage s \<noteq> Stage_ABORTED
          then saveState rt (s\<lparr>is_stage := Stage_ABORTED, is_abortedReason := Some (case jr_outcomeReason r of None \<Rightarrow> ''OPERATION_ABORTED'' | Some t \<Rightarrow> t)\<rparr>)
          else reconcile_open rt s allow (pending_tail j)) (\<lambda>t w. loaded rt run t w)"
      using opened aborted by (auto simp: pending_tail_def split: option.split)
  qed
qed

lemma load_raw: "engine_inv rt w \<Longrightarrow> loadStateRaw rt run w = Inr s \<Longrightarrow> loaded rt run s w"
  by (auto simp: loadStateRaw_def statePath_def assertRunId_def ebind_eq_Inr check_eq_Inr loaded_def record_of_def is_uuid_def
      split: option.splits stored.splits)

lemma load_steps: "steps (engine_keeps rt) (engine_inv rt) (loadState rt run allow) (\<lambda>s w. loaded rt run s w)"
  unfolding loadState_def
proof (rule engine.areads_bind)
  fix s
  show "steps (engine_keeps rt) (\<lambda>w. engine_inv rt w \<and> loadStateRaw rt run w = Inr s) (reconcileState rt s allow) (\<lambda>t w. loaded rt run t w)"
    by (rule steps_pre [OF reconcile_steps]) (blast intro: load_raw)
qed

lemma load_bind:
  "(\<And>s. steps (engine_keeps rt) (loaded rt run s) (f s) Q) \<Longrightarrow> steps (engine_keeps rt) (engine_inv rt) (abind (loadState rt run allow) f) Q"
  by (rule engine.steps_abind [OF load_steps])

subsection \<open>The operations\<close>

lemma exclusive_steps:
  assumes "steps (engine_keeps rt) (engine_inv rt) m Q" "\<And>x. stable (Q x)"
  shows "steps (engine_keeps rt) (engine_inv rt) (exclusive name m) Q"
  unfolding steps_def
proof (intro allI impI)
  fix w assume inv: "engine_inv rt w"
  define v where "v = fst (set_env (\<lambda>v. v\<lparr>en_locks := name # en_locks v\<rparr>) w)"
  obtain u r where m: "m v = (u, r)" by fastforce
  define w' where "w' = fst (set_env (\<lambda>v. v\<lparr>en_locks := removeAll name (en_locks v)\<rparr>) u)"
  have s: "silent w v" "silent u w'" by (simp_all add: v_def w'_def set_env_def silent_def)
  have "engine_inv rt v" using inv s(1) by (simp add: silent_same)
  then have "engine_keeps rt v u" "\<And>x. r = Inr x \<Longrightarrow> Q x u" using assms(1) m by (auto simp: steps_def)
  then have "engine_keeps rt w w'" "\<And>x. r = Inr x \<Longrightarrow> Q x w'"
    using s silent_keeps engine.kept_trans assms(2) unfolding stable_def by blast+
  then show "engine_keeps rt w (fst (exclusive name m w)) \<and> (\<forall>x. snd (exclusive name m w) = Inr x \<longrightarrow> Q x (fst (exclusive name m w)))"
    by (simp add: exclusive_def m flip: v_def) (simp add: w'_def engine.kept_refl)
qed

lemma steps_if: "(c \<Longrightarrow> steps R P a Q) \<Longrightarrow> (\<not> c \<Longrightarrow> steps R P b Q) \<Longrightarrow> steps R P (if c then a else b) Q"
  by simp

lemma pending_loaded: "pending rt run s p w \<Longrightarrow> loaded rt run s w"
  by (simp add: pending_def)

lemmas operation_rules = exclusive_steps load_bind steps_if begin_bind save_bind finish_bind engine.alift_bind quiet_bind
  engine.steps_return engine.steps_throw stable_assertions

lemma prepare_steps:
  "steps (engine_keeps rt) (engine_inv rt) (preparePrivateMatchRuntime rt run) (\<lambda>s w. loaded rt run s w)"
  unfolding preparePrivateMatchRuntime_def
  by (intro operation_rules quiet_intros) (auto simp: prepare_input_def check_eq_Inr prepared_replaces)

lemma finalize_steps:
  "steps (engine_keeps rt) (loaded rt run s) (finalizeParticipantSubmissions rt s) (\<lambda>t w. loaded rt run t w)"
proof (rule steps_vacuous)
  fix w assume "loaded rt run s w"
  then have run: "is_runId s = run" using loaded_facts by blast
  show ?thesis
    unfolding finalizeParticipantSubmissions_def run
    by (intro operation_rules quiet_intros) (auto simp: finalize_input_def check_eq_Inr finalized_replaces)
qed

lemma submit_steps:
  "steps (engine_keeps rt) (engine_inv rt) (submitParticipantPledgeRuntime rt run role asset) (\<lambda>s w. loaded rt run s w)"
  unfolding submitParticipantPledgeRuntime_def
  by (intro operation_rules finalize_steps quiet_intros)
    (auto simp: submit_input_def require_eq_Inr submitted_replaces split: if_splits ParticipantRole.splits)

lemma evaluate_steps:
  "steps (engine_keeps rt) (engine_inv rt) (evaluatePrivateConflictRuntime rt run) (\<lambda>s w. loaded rt run s w)"
  unfolding evaluatePrivateConflictRuntime_def
  by (intro operation_rules quiet_intros) (auto simp: evaluate_input_def check_eq_Inr evaluated_replaces)

lemma coalition_release_steps:
  assumes "is_stage s = Stage_EVALUATED" "coalition_case s"
  shows "steps (engine_keeps rt) (loaded rt run s) (releaseCoalitionResult rt run s) (\<lambda>t w. loaded rt run t w)"
proof (cases "pa_coalitionOperatorRoots (is_paths s)")
  case roots: (Some roots)
  show ?thesis
  proof (cases "pa_coalitionLedgerRoot (is_paths s)")
    case (Some ledger)
    show ?thesis
      unfolding releaseCoalitionResult_def roots Some prod.case option.case
      by (intro operation_rules quiet_intros) (use assms in \<open>auto simp: release_input_def coalition_released_replaces\<close>)
  qed (simp add: releaseCoalitionResult_def roots engine.steps_throw)
qed (simp add: releaseCoalitionResult_def engine.steps_throw)

lemma governed_release_steps:
  assumes "is_stage s = Stage_EVALUATED" "\<not> coalition_case s"
  shows "steps (engine_keeps rt) (loaded rt run s) (release_governed rt run s) (\<lambda>t w. loaded rt run t w)"
  unfolding release_governed_def
  by (intro operation_rules quiet_intros) (use assms in \<open>auto simp: release_input_def released_replaces\<close>)

lemma release_steps:
  "steps (engine_keeps rt) (engine_inv rt) (releaseGovernedResultRuntime rt run) (\<lambda>s w. loaded rt run s w)"
  unfolding releaseGovernedResultRuntime_def
  by (intro operation_rules coalition_release_steps governed_release_steps quiet_intros) (auto simp: check_eq_Inr)

lemma open_recourse_steps:
  assumes "is_stage s = Stage_RELEASED" "is_release s = Some release"
  shows "steps (engine_keeps rt) (loaded rt run s) (open_recourse rt run s release authorization) (\<lambda>t w. loaded rt run t w)"
  unfolding open_recourse_def
  by (intro operation_rules quiet_intros)
    (use assms in \<open>auto simp: recourse_input_def intro!: recourse_replaces dest: case_after_recourse\<close>)

lemma recourse_steps:
  "steps (engine_keeps rt) (engine_inv rt) (openRecourseCaseRuntime rt run asset) (\<lambda>s w. loaded rt run s w)"
  unfolding openRecourseCaseRuntime_def
  by (intro operation_rules open_recourse_steps quiet_intros) (auto simp: require_eq_Inr split: if_splits)

lemma cure_steps:
  "steps (engine_keeps rt) (engine_inv rt) (completeCureChronologyRuntime rt run) (\<lambda>s w. loaded rt run s w)"
  unfolding completeCureChronologyRuntime_def
  by (intro operation_rules quiet_intros)
    (auto simp: cure_input_def require_eq_Inr cure_open_def cured_replaces split: if_splits option.splits)

subsection \<open>Admission and creation\<close>

lemma window_object_exact: "assertSupervisedPledgeWindow (window_object c) = Inr c' \<Longrightarrow> c' = c"
  by (auto simp: assertSupervisedPledgeWindow_def exactWindow_def exactInstant_Inr window_object_def result_simps)

lemma durable_backed:
  assumes "assertVerifiedDurableAdmission rt s role a w = Inr ()"
  shows "backed rt (is_runId s) role a w"
  using assms window_object_exact [of "ac_claim a"]
  by (cases "load_canonical rt w")
    (auto simp: assertVerifiedDurableAdmission_def backed_def ebind_eq_Inr check_eq_Inr require_eq_Inr)

lemma well_staged_claims: "well_staged (s\<lparr>is_admittedClaims := m\<rparr>) = well_staged s"
  by (cases s) (simp only: well_staged_def reached_def coalition_case_def participantKeyPaths_def [abs_def] InternalState.simps)

lemma admitted_replaces: "is_admittedClaims s role = None \<Longrightarrow> replaces s (s\<lparr>is_admittedClaims := (is_admittedClaims s)(role \<mapsto> a)\<rparr>)"
  by (auto simp: replaces_def continues_def well_staged_claims map_le_def)

lemma admit_steps:
  "steps (engine_keeps rt) (engine_inv rt) (admitParticipantClaimRuntime rt run role a) (\<lambda>s w. loaded rt run s w \<and>
     (\<exists>b. is_admittedClaims s role = Some b \<and> ac_authorizationDigest b = ac_authorizationDigest a
       \<and> ac_claimCommitment b = ac_claimCommitment a \<and> ac_participantWallet b = ac_participantWallet a
       \<and> ac_authorizationNonce b = ac_authorizationNonce a))"
  (is "steps _ _ _ ?Q")
proof -
  have old: "steps (engine_keeps rt) (loaded rt run s) (abind (alift (check (\<not> (ac_authorizationDigest b \<noteq> ac_authorizationDigest a
      \<or> ac_claimCommitment b \<noteq> ac_claimCommitment a \<or> ac_participantWallet b \<noteq> ac_participantWallet a
      \<or> ac_authorizationNonce b \<noteq> ac_authorizationNonce a)) e)) (\<lambda>_.
      abind (areads (assertVerifiedDurableAdmission rt s role a)) (\<lambda>_. alift (Inr s)))) ?Q"
    if "is_admittedClaims s role = Some b" for s b e
    by (intro operation_rules quiet_intros) (auto simp: check_eq_Inr that)
  have save: "steps (engine_keeps rt) (loaded rt run s) (abind (areads (assertVerifiedDurableAdmission rt s role a)) (\<lambda>_.
      saveState rt (s\<lparr>is_admittedClaims := (is_admittedClaims s)(role \<mapsto> a)\<rparr>))) ?Q"
    if none: "is_admittedClaims s role = None" for s
  proof (rule engine.areads_bind)
    fix u
    show "steps (engine_keeps rt) (\<lambda>w. loaded rt run s w \<and> assertVerifiedDurableAdmission rt s role a w = Inr u)
      (saveState rt (s\<lparr>is_admittedClaims := (is_admittedClaims s)(role \<mapsto> a)\<rparr>)) ?Q"
      by (rule steps_weaken [OF save_idle [where run = run, OF admitted_replaces [of s role a, OF none]]])
        (use durable_backed [of rt s role a] loaded_facts [of rt run s] in \<open>auto split: if_splits\<close>)
  qed
  have new: "steps (engine_keeps rt) (loaded rt run s) (abind (alift (check c e)) (\<lambda>_.
      abind (areads (assertVerifiedDurableAdmission rt s role a)) (\<lambda>_.
      saveState rt (s\<lparr>is_admittedClaims := (is_admittedClaims s)(role \<mapsto> a)\<rparr>)))) ?Q"
    if "is_admittedClaims s role = None" for s c e
    by (rule engine.alift_bind) (rule save [OF that])
  have claims: "steps (engine_keeps rt) (loaded rt run s) (case is_admittedClaims s role of None \<Rightarrow> m | Some b \<Rightarrow> f b) ?Q"
    if "is_admittedClaims s role = None \<Longrightarrow> steps (engine_keeps rt) (loaded rt run s) m ?Q"
      "\<And>b. is_admittedClaims s role = Some b \<Longrightarrow> steps (engine_keeps rt) (loaded rt run s) (f b) ?Q" for s m f
    using that by (cases "is_admittedClaims s role") auto
  show ?thesis
    unfolding admitParticipantClaimRuntime_def
    by (intro claims old new operation_rules quiet_intros) (auto simp: stable_def loaded_def silent_same)
qed

lemma context_steps:
  "steps (engine_keeps rt) (engine_inv rt) (readParticipantAdmissionContextRuntime rt run role) (\<lambda>_. engine_inv rt)"
  unfolding readParticipantAdmissionContextRuntime_def case_prod_unfold
  by (intro quiet_bind [where m = "areads _"] operation_rules quiet_intros) (auto simp: loaded_def)

lemma read_steps:
  "steps (engine_keeps rt) (engine_inv rt) (readProtectionCaseRuntime rt run) (\<lambda>s w. loaded rt run s w)"
  "steps (engine_keeps rt) (engine_inv rt) (readCustomSupervisedCase rt run) (\<lambda>_. engine_inv rt)"
  unfolding readProtectionCaseRuntime_def readCustomSupervisedCase_def
  by (intro quiet_bind [where m = "areads _"] load_steps operation_rules quiet_intros engine.steps_alift; auto simp: loaded_def)+

lemma new_state_staged: "well_staged (new_state run root c custom selection windows coalition started)"
  by (simp add: new_state_def staged)

lemma create_fresh_steps:
  assumes "is_uuid run"
  shows "steps (engine_keeps rt) (\<lambda>w. engine_inv rt w \<and> record_of rt run w = None)
    (create_fresh rt scenario run windows custom policy coalition) (\<lambda>s w. loaded rt run s w)"
proof -
  have save: "steps (engine_keeps rt) (\<lambda>w. engine_inv rt w \<and> record_of rt run w = None)
      (saveState rt (new_state run root c custom selection windows coalition started)) (\<lambda>s w. loaded rt run s w)" for root c selection started
  proof (rule steps_weaken [OF save_steps [where s' = "new_state run root c custom selection windows coalition started"
        and M = "\<lambda>_. True" and P = "\<lambda>w. engine_inv rt w \<and> record_of rt run w = None"]])
    have empty: "jj_records j = []" if "engine_inv rt w \<and> record_of rt run w = None" "journal_of rt run w = Inr j" for w j
      using that assms by (auto simp: engine_inv_def run_inv_def)
    have id: "is_runId (new_state run root c custom selection windows coalition started) = run" by (simp add: new_state_def)
    show "engine_inv rt w \<and> record_inv rt (is_runId (new_state run root c custom selection windows coalition started))
        (new_state run root c custom selection windows coalition started) j w"
      if "engine_inv rt w \<and> record_of rt run w = None"
        "journal_of rt (is_runId (new_state run root c custom selection windows coalition started)) w = Inr j" for w j
      using that empty [OF that(1)] new_state_staged unfolding id by (auto simp: record_inv_def pending_tail_def at_last_def id) (simp add: new_state_def)
  qed (use assms in \<open>auto simp: new_state_def engine_inv_def run_inv_def\<close>)
  have stable: "stable (\<lambda>w. engine_inv rt w \<and> record_of rt run w = None)" by (simp add: stable_def silent_same)
  show ?thesis
    unfolding create_fresh_def
    by (intro engine.alift_bind quiet_bind save stable quiet_intros)
qed

lemma create_steps:
  "steps (engine_keeps rt) (engine_inv rt) (createProtectionCaseRuntime rt scenario run windows participant policy coalition)
    (\<lambda>s w. loaded rt run s w)"
proof -
  have found: "steps (engine_keeps rt) (engine_inv rt) (abind (areads (\<lambda>w. Inr (en_states (w_env w) (state_file rt run) \<noteq> None))) (\<lambda>there.
      if there then abind (loadState rt run False) (\<lambda>existing. abind (alift (check (same_shape existing custom scenario policy coalition) e))
        (\<lambda>_. alift (Inr existing)))
      else create_fresh rt scenario run ws custom policy coalition)) (\<lambda>s w. loaded rt run s w)"
    if "is_uuid run" for custom ws e
  proof (rule engine.areads_bind)
    fix there :: bool
    have yes: "steps (engine_keeps rt) (engine_inv rt) (abind (loadState rt run False) (\<lambda>existing.
        abind (alift (check (same_shape existing custom scenario policy coalition) e)) (\<lambda>_. alift (Inr existing)))) (\<lambda>s w. loaded rt run s w)"
      by (intro operation_rules)
    show "steps (engine_keeps rt) (\<lambda>w. engine_inv rt w \<and> Inr (en_states (w_env w) (state_file rt run) \<noteq> None) = Inr there)
      (if there then abind (loadState rt run False) (\<lambda>existing. abind (alift (check (same_shape existing custom scenario policy coalition) e))
        (\<lambda>_. alift (Inr existing)))
      else create_fresh rt scenario run ws custom policy coalition) (\<lambda>s w. loaded rt run s w)"
    proof (cases there)
      case True
      then show ?thesis using yes by (auto simp: steps_def)
    next
      case False
      have "steps (engine_keeps rt) (\<lambda>w. engine_inv rt w \<and> Inr (en_states (w_env w) (state_file rt run) \<noteq> None) = Inr there)
          (create_fresh rt scenario run ws custom policy coalition) (\<lambda>s w. loaded rt run s w)"
        by (rule steps_pre [OF create_fresh_steps [OF that]]) (use False in \<open>auto simp: record_of_def\<close>)
      with False show ?thesis by simp
    qed
  qed
  show ?thesis
    unfolding createProtectionCaseRuntime_def Let_def
    by (intro engine.alift_bind exclusive_steps found stable_assertions) (simp add: assertRunId_def check_eq_Inr is_uuid_def)
qed

lemma neutral_steps:
  "steps (engine_keeps rt) (engine_inv rt) (createNeutralParticipantCase rt run) (\<lambda>s w. loaded rt run s w)"
  "steps (engine_keeps rt) (engine_inv rt) (createNeutralCoalitionParticipantCase rt run) (\<lambda>s w. loaded rt run s w)"
  "steps (engine_keeps rt) (engine_inv rt) (createManagedGovernedPolicyCase rt run ws) (\<lambda>s w. loaded rt run s w)"
  "steps (engine_keeps rt) (engine_inv rt) (createManagedCoalitionCase rt run ws) (\<lambda>s w. loaded rt run s w)"
  unfolding createNeutralParticipantCase_def createNeutralCoalitionParticipantCase_def createManagedGovernedPolicyCase_def
    createManagedCoalitionCase_def
  by (intro quiet_bind create_steps quiet_intros stable_assertions)+

subsection \<open>Runs of the engine\<close>

text \<open>
  The operations in any order, for any runs, returning or throwing, and whatever else happens to the world: the ledger
  grows, the Go commands, the clock and other processes change their part, the process restarts and loses its locks.
\<close>

inductive engine_call :: "'e ProtectionRuntime \<Rightarrow> 'e engine_world \<Rightarrow> 'e engine_world \<Rightarrow> bool" for rt where
  create: "engine_call rt w (fst (createProtectionCaseRuntime rt scenario run windows participant policy coalition w))"
| create_neutral: "engine_call rt w (fst (createNeutralParticipantCase rt run w))"
| create_neutral_coalition: "engine_call rt w (fst (createNeutralCoalitionParticipantCase rt run w))"
| create_policy: "engine_call rt w (fst (createManagedGovernedPolicyCase rt run ws w))"
| create_coalition: "engine_call rt w (fst (createManagedCoalitionCase rt run ws w))"
| prepare: "engine_call rt w (fst (preparePrivateMatchRuntime rt run w))"
| read_context: "engine_call rt w (fst (readParticipantAdmissionContextRuntime rt run role w))"
| admit: "engine_call rt w (fst (admitParticipantClaimRuntime rt run role a w))"
| submit: "engine_call rt w (fst (submitParticipantPledgeRuntime rt run role asset w))"
| evaluate: "engine_call rt w (fst (evaluatePrivateConflictRuntime rt run w))"
| release: "engine_call rt w (fst (releaseGovernedResultRuntime rt run w))"
| open_recourse: "engine_call rt w (fst (openRecourseCaseRuntime rt run asset w))"
| complete_cure: "engine_call rt w (fst (completeCureChronologyRuntime rt run w))"
| read: "engine_call rt w (fst (readProtectionCaseRuntime rt run w))"
| read_custom: "engine_call rt w (fst (readCustomSupervisedCase rt run w))"

inductive_cases engine_callE: "engine_call rt w w'"

inductive engine_step :: "'e ProtectionRuntime \<Rightarrow> 'e engine_world \<Rightarrow> 'e engine_world \<Rightarrow> bool" for rt where
  call: "engine_call rt w w' \<Longrightarrow> engine_step rt w w'"
| environment: "ledger_kept (rt_runRoot rt) w w'
    \<Longrightarrow> (\<And>run. is_uuid run \<Longrightarrow> record_of rt run w' = record_of rt run w \<and> journal_of rt run w' = journal_of rt run w)
    \<Longrightarrow> engine_step rt w w'"

lemma steps_inv:
  assumes "steps (engine_keeps rt) (engine_inv rt) m Q" "engine_inv rt w"
  shows "engine_inv rt (fst (m w)) \<and> run_continues rt w (fst (m w))"
  using assms by (auto simp: steps_def engine_keeps_def)

lemma backed_kept: "ledger_kept (rt_runRoot rt) w w' \<Longrightarrow> backed rt run role a w \<Longrightarrow> backed rt run role a w'"
proof -
  assume k: "ledger_kept (rt_runRoot rt) w w'" and "backed rt run role a w"
  have "readAdmission (rt_runRoot rt) run role (w_disk w') = Inr (Some d)" if "readAdmission (rt_runRoot rt) run role (w_disk w) = Inr (Some d)" for d
  proof -
    from that have "slot (rt_runRoot rt) run (w_disk w) role = Some d" "valid_record run role d"
      using sound_slot [of "rt_runRoot rt" run "w_disk w" role d] by (auto simp: readAdmission_Inr)
    moreover from this(1) k have "slot (rt_runRoot rt) run (w_disk w') role = Some d" by (auto simp: ledger_kept_def map_le_def dom_def)
    ultimately show ?thesis by (rule_tac slot_reads)
  qed
  with \<open>backed rt run role a w\<close> show ?thesis by (auto simp: backed_def)
qed

lemma environment_inv:
  assumes "engine_inv rt w" "ledger_kept (rt_runRoot rt) w w'"
    and "\<And>run. is_uuid run \<Longrightarrow> record_of rt run w' = record_of rt run w \<and> journal_of rt run w' = journal_of rt run w"
  shows "engine_inv rt w' \<and> run_continues rt w w'"
proof
  show "run_continues rt w w'" using assms(3) by (simp add: run_continues_def)
  have "run_inv rt run w'" if "is_uuid run" for run
  proof -
    from assms(1) that obtain j where "journal_of rt run w = Inr j" and "case record_of rt run w of
        None \<Rightarrow> jj_records j = [] | Some Torn \<Rightarrow> False | Some (Whole s) \<Rightarrow> record_inv rt run s j w"
      by (auto simp: engine_inv_def run_inv_def)
    then show ?thesis using assms(3) [OF that] backed_kept [OF assms(2)]
      by (auto simp: run_inv_def record_inv_def split: option.splits stored.splits)
  qed
  then show "engine_inv rt w'" by (simp add: engine_inv_def)
qed

lemma engine_call_keeps: "engine_call rt w w' \<Longrightarrow> engine_inv rt w \<Longrightarrow> engine_inv rt w' \<and> run_continues rt w w'"
  by (erule engine_callE; simp)
    (rule steps_inv [OF create_steps] steps_inv [OF neutral_steps(1)] steps_inv [OF neutral_steps(2)] steps_inv [OF neutral_steps(3)]
      steps_inv [OF neutral_steps(4)] steps_inv [OF prepare_steps] steps_inv [OF context_steps] steps_inv [OF admit_steps]
      steps_inv [OF submit_steps] steps_inv [OF evaluate_steps] steps_inv [OF release_steps] steps_inv [OF recourse_steps]
      steps_inv [OF cure_steps] steps_inv [OF read_steps(1)] steps_inv [OF read_steps(2)]; assumption)+

lemma engine_step_keeps: "engine_step rt w w' \<Longrightarrow> engine_inv rt w \<Longrightarrow> engine_inv rt w' \<and> run_continues rt w w'"
  by (erule engine_step.cases) (auto dest: engine_call_keeps environment_inv)

interpretation engine_run: growing_store "engine_inv rt" "engine_step rt" "run_continues rt"
  by unfold_locales (auto dest: engine_step_keeps intro: run_continues_refl run_continues_trans)

text \<open>A volume on which no run was created yet.\<close>

definition fresh_volume :: "'e ProtectionRuntime \<Rightarrow> 'e engine_world \<Rightarrow> bool" where
  "fresh_volume rt w \<longleftrightarrow> (\<forall>run. en_states (w_env w) (state_file rt run) = None \<and> en_journal (w_env w) (journalPath (rt_runRoot rt) run) = None)"

lemma fresh_volume_inv: "fresh_volume rt w \<Longrightarrow> engine_inv rt w"
  by (simp add: fresh_volume_def engine_inv_def run_inv_def record_of_def journal_of_def readOperationJournal_def empty_journal_def)

subsection \<open>A concrete runtime\<close>

text \<open>For the witnesses: a server whose commands all fail, with a fixed clock and source of names.\<close>

definition sample_runtime :: "unit ProtectionRuntime" where
  "sample_runtime = \<lparr>rt_runRoot = ''root'', rt_binRoot = ''bin'', rt_sha = zero_sha, rt_keccak = zero_sha, rt_ed25519 = \<lambda>_ _ _. True,
     rt_directParticipantAdmissionEnabled = True, rt_skipBinaryBuild = True, rt_production = False,
     rt_now = \<lambda>_. ((), 1785000000000), rt_randomUUID = \<lambda>_. ((), ''operation''), rt_caseNonce = \<lambda>_. ((), ''0123456789abcdef''),
     rt_writer = \<lambda>_. (''1'', ''u''), rt_failpoint = \<lambda>_ _. ((), Inr ()), rt_generateKeyPair = \<lambda>_. ((), Inl DependencyError),
     rt_statfsAvailableBytes = None, rt_statfs = \<lambda>_ _. (1000000, 4096), rt_exists = \<lambda>_ _. False, rt_build = \<lambda>_ _. ((), Inl DependencyError),
     rt_keygen_create = \<lambda>_ _. ((), Inl DependencyError), rt_keygen_finalize = \<lambda>_ _. ((), Inl DependencyError),
     rt_client = \<lambda>_ _. ((), Inl DependencyError), rt_evaluator = \<lambda>_ _. ((), Inl DependencyError),
     rt_decryptor = \<lambda>_ _. ((), Inl DependencyError), rt_coalition_decryptor = \<lambda>_ _. ((), Inl DependencyError),
     rt_recourse = \<lambda>_ _. ((), Inl DependencyError), rt_inspect = \<lambda>_ _. ((), Inl DependencyError),
     rt_readJson = \<lambda>_ _. Inl DependencyError, rt_readGovernedResult = \<lambda>_ _. Inl DependencyError,
     rt_readCoalitionResult = \<lambda>_ _. Inl DependencyError, rt_readThresholdManifest = \<lambda>_ _. Inl DependencyError,
     rt_readFile = \<lambda>_ _. Inl DependencyError, rt_participantConfig = \<lambda>_. None, rt_loadConfiguration = \<lambda>_ _. Inl DependencyError,
     rt_recoverEvidence = \<lambda>_ _ _. ((), Inr None), rt_retained = \<lambda>_ _ _. ((), Inr False)\<rparr>"

definition sample_engine :: "unit engine" where
  "sample_engine = \<lparr>en_states = Map.empty, en_journal = Map.empty, en_run = Map.empty, en_keys = Map.empty, en_json = Map.empty,
     en_locks = [], en_go = ()\<rparr>"

definition sample_engine_world :: "unit engine_world" where
  "sample_engine_world = \<lparr>w_disk = Map.empty, w_env = sample_engine\<rparr>"

definition sample_run :: string where
  "sample_run = ''00000000-0000-1000-8000-000000000000''"

definition sample_state :: InternalState where
  "sample_state = new_state sample_run (run_directory sample_runtime sample_run) (sample_case zero_sha False) False None None False 1785000000"

lemma sample_run_uuid: "is_uuid sample_run"
  by code_simp

lemma sample_volume: "fresh_volume rt sample_engine_world"
  by (simp add: fresh_volume_def sample_engine_world_def sample_engine_def)

lemma sample_created_run:
  "\<exists>w. createProtectionCaseRuntime sample_runtime (Some ScenarioConflict) sample_run None False False False sample_engine_world
     = (w, Inr sample_state) \<and> record_of sample_runtime sample_run w = Some (Whole sample_state)"
proof -
  have id: "assertRunId sample_run = Inr ()" using sample_run_uuid by (simp add: assertRunId_def is_uuid_def)
  then have path: "statePath sample_runtime sample_run = Inr (state_file sample_runtime sample_run)" by (simp add: statePath_def)
  have made: "createProtectionCase zero_sha \<lparr>co_scenario = ScenarioConflict, co_createdAt = Some 1785000000000,
      co_caseNonce = ''0123456789abcdef'', co_releaseMode = None, co_assetRecord = None, co_custom = False\<rparr> = Inr (sample_case zero_sha False)"
    using sample_created [of zero_sha False] by (simp add: sample_options_def)
  show ?thesis
    using id path made
    by (simp add: createProtectionCaseRuntime_def exclusive_def create_fresh_def abind_def set_env_def saveState_def external_call_def
        with_go_def now_ms_def sample_engine_world_def sample_engine_def sample_state_def new_state_def record_of_def
        writeDurableJsonAtomic_def write_trace_def sample_runtime_def state_file_def run_directory_def Let_def)
qed

subsection \<open>What holds along every run\<close>





end
