(* ===== verification/Engine_Admission.thy ===== *)
theory Engine_Admission
  imports Engine_Invariant
begin

text \<open>
  The protection engine as the orchestrator of the admission service: what the service calls of the object
  \<^verbatim>\<open>createProtectionOrchestrator\<close> returns, and that the engine is what the service takes it to be. The service relies
  on an orchestrator that leaves the ledger and the case codes alone; the engine relies on a ledger in which an
  admitted role is never lost. Together they keep both invariants.
\<close>

subsection \<open>The orchestrator\<close>

definition engine_orchestrator :: "'e ProtectionRuntime \<Rightarrow> ('e engine, CustomSupervisedView) AdmissionOrchestrator" where
  "engine_orchestrator rt = \<lparr>
     or_createNeutralParticipantCase = (\<lambda>x. abind (createNeutralParticipantCase rt x) (\<lambda>s. alift (Inr (is_runId s)))),
     or_createNeutralCoalitionParticipantCase =
       Some (\<lambda>x. abind (createNeutralCoalitionParticipantCase rt x) (\<lambda>s. alift (Inr (is_runId s)))),
     or_readCustomSupervisedCase = (\<lambda>run. abind (readCustomSupervisedCase rt run) (\<lambda>v.
       alift (Inr \<lparr>cv_stage = stage_name (cw_stage v), cv_rest = v\<rparr>))),
     or_readParticipantAdmissionContext = readParticipantAdmissionContextRuntime rt,
     or_preparePrivateMatch = (\<lambda>run. abind (preparePrivateMatchRuntime rt run) (\<lambda>_. alift (Inr ()))),
     or_admitParticipantClaim = (\<lambda>run role a. abind (admitParticipantClaimRuntime rt run role a) (\<lambda>_. alift (Inr ()))),
     or_submitParticipantPledge = (\<lambda>run role. abind (submitParticipantPledgeRuntime rt run role
       (CANONICAL_CLEANVERSE_ASSET_DIGEST (rt_sha rt))) (\<lambda>_. alift (Inr ())))\<rparr>"

text \<open>The other dependencies of the service are a clock, a policy service and a hook: they write none of the files.\<close>

definition engine_dependencies :: "'e ProtectionRuntime \<Rightarrow> ('e engine, CustomSupervisedView) AdmissionDependencies \<Rightarrow> bool" where
  "engine_dependencies rt deps \<longleftrightarrow> dp_orchestrator deps = engine_orchestrator rt \<and> dp_runRoot deps = rt_runRoot rt
     \<and> (\<forall>w. silent w (fst (dp_now deps w))) \<and> (\<forall>wallet. keeps silent (dp_verifyApass deps wallet))
     \<and> (\<forall>f run code. dp_onParticipantCaseCreated deps = Some f \<longrightarrow> keeps silent (f run code))"

subsection \<open>What no call of the engine touches\<close>

named_theorems frame_intros

lemmas frame.keeps_abind [frame_intros] frame.keeps_alift [frame_intros] frame.keeps_areads [frame_intros]

lemma frame_quiet [frame_intros]:
  "keeps frame (external_call f)" "keeps frame (now_ms rt)" "keeps frame (now_iso rt)" "keeps frame (failpoint rt name)"
  "keeps frame (runJSON f)" "keeps frame (write_json rt path v)" "keeps frame (remove_json path)"
  "keeps frame (inspectCase rt s tail allow)" "keeps frame (ensureCoalitionSettlementProfileCommitted rt s)"
  "keeps frame (rawParticipantKey rt role root recover admitted)" "keeps frame (prepare_keys rt s)"
  "keeps frame (publish_pledge rt s role keys)" "keeps frame (run_recourse rt s authorization)"
  "keeps frame (remove_transients s phase)" "keeps frame (reconcileProtectionProjection rt s p i)"
  "keeps frame (assertDiskSpace rt)" "keeps frame (assertBinaryBuildSpace rt)" "keeps frame (ensureBinaries rt)"
  by (rule quiet_frame, rule quiet_intros)+

lemma frame_save [frame_intros]: "keeps frame (saveState rt s)"
  by (auto simp: keeps_def frame_def saveState_def split: sum.split)

lemma frame_begin [frame_intros]: "keeps frame (begin_operation rt run inp)"
  by (auto simp: keeps_def frame_def begin_operation_def abind_def external_call_def with_go_def Let_def split: sum.split prod.split)

lemma frame_finish [frame_intros]: "keeps frame (finish_operation rt run opId outcome reason)"
  unfolding finish_operation_def
  by (intro frame_intros) (auto simp: keeps_def frame_def split: sum.split)

text \<open>The lock is free again however the operation ends.\<close>

lemma frame_exclusive [frame_intros]:
  assumes "keeps frame m"
  shows "keeps frame (exclusive name m)"
  unfolding keeps_def
proof
  fix w
  show "frame w (fst (exclusive name m w))"
  proof (cases "name \<in> set (en_locks (w_env w))")
    case False
    define v where "v = fst (set_env (\<lambda>v. v\<lparr>en_locks := name # en_locks v\<rparr>) w)"
    obtain u r where m: "m v = (u, r)" by fastforce
    have "frame v u" using assms m unfolding keeps_def by (metis fst_conv)
    then show ?thesis using False by (simp add: exclusive_def m flip: v_def) (simp add: frame_def v_def set_env_def)
  qed (simp add: exclusive_def frame.kept_refl)
qed

lemma frame_if [frame_intros]: "keeps frame a \<Longrightarrow> keeps frame b \<Longrightarrow> keeps frame (if c then a else b)"
  by simp

lemma frame_option [frame_intros]: "keeps frame a \<Longrightarrow> (\<And>x. keeps frame (f x)) \<Longrightarrow> keeps frame (case c of None \<Rightarrow> a | Some x \<Rightarrow> f x)"
  by (cases c) simp_all

lemma frame_abort [frame_intros]: "keeps frame (abortState rt s p reason)"
  unfolding abortState_def by (intro frame_intros)

lemma frame_load [frame_intros]: "keeps frame (loadState rt run allow)"
  unfolding loadState_def reconcileState_def reconcile_open_def reconcile_pending_def by (intro frame_intros)

lemma frame_finalize [frame_intros]: "keeps frame (finalizeParticipantSubmissions rt s)"
  unfolding finalizeParticipantSubmissions_def by (intro frame_intros)

lemma frame_coalition_release [frame_intros]: "keeps frame (releaseCoalitionResult rt run s)"
proof (cases "pa_coalitionOperatorRoots (is_paths s)"; cases "pa_coalitionLedgerRoot (is_paths s)")
  fix roots ledger assume r: "pa_coalitionOperatorRoots (is_paths s) = Some roots" "pa_coalitionLedgerRoot (is_paths s) = Some ledger"
  show ?thesis unfolding releaseCoalitionResult_def r prod.case option.case by (intro frame_intros)
qed (simp_all add: releaseCoalitionResult_def frame.keeps_alift)

lemma engine_frame:
  "keeps frame (createProtectionCaseRuntime rt scenario run windows participant policy coalition)"
  "keeps frame (preparePrivateMatchRuntime rt run)"
  "keeps frame (readParticipantAdmissionContextRuntime rt run role)"
  "keeps frame (admitParticipantClaimRuntime rt run role a)"
  "keeps frame (submitParticipantPledgeRuntime rt run role asset)"
  "keeps frame (evaluatePrivateConflictRuntime rt run)"
  "keeps frame (releaseGovernedResultRuntime rt run)"
  "keeps frame (openRecourseCaseRuntime rt run asset)"
  "keeps frame (completeCureChronologyRuntime rt run)"
  "keeps frame (readProtectionCaseRuntime rt run)"
  "keeps frame (readCustomSupervisedCase rt run)"
  unfolding createProtectionCaseRuntime_def create_fresh_def preparePrivateMatchRuntime_def readParticipantAdmissionContextRuntime_def
    admitParticipantClaimRuntime_def submitParticipantPledgeRuntime_def evaluatePrivateConflictRuntime_def
    releaseGovernedResultRuntime_def release_governed_def openRecourseCaseRuntime_def open_recourse_def completeCureChronologyRuntime_def
    readProtectionCaseRuntime_def readCustomSupervisedCase_def Let_def case_prod_unfold
  by (intro frame_intros)+

lemma neutral_frame:
  "keeps frame (createNeutralParticipantCase rt run)" "keeps frame (createNeutralCoalitionParticipantCase rt run)"
  "keeps frame (createManagedGovernedPolicyCase rt run ws)" "keeps frame (createManagedCoalitionCase rt run ws)"
  unfolding createNeutralParticipantCase_def createNeutralCoalitionParticipantCase_def createManagedGovernedPolicyCase_def
    createManagedCoalitionCase_def
  by (intro frame_intros engine_frame)+

lemma call_frame: "engine_call rt w w' \<Longrightarrow> frame w w'"
  by (induction rule: engine_call.induct)
    (rule engine_frame [unfolded keeps_def, THEN spec] neutral_frame [unfolded keeps_def, THEN spec])+

lemma silent_disk_kept: "keeps silent m \<Longrightarrow> keeps same_disk m" and frame_disk: "keeps frame m \<Longrightarrow> keeps same_disk m"
  by (simp_all add: keeps_def silent_def frame_def same_disk_def)

lemma orchestrator_disk:
  "keeps same_disk (or_createNeutralParticipantCase (engine_orchestrator rt) x)"
  "or_createNeutralCoalitionParticipantCase (engine_orchestrator rt) = Some f \<Longrightarrow> keeps same_disk (f x)"
  "keeps same_disk (or_readCustomSupervisedCase (engine_orchestrator rt) run)"
  "keeps same_disk (or_readParticipantAdmissionContext (engine_orchestrator rt) run role)"
  "keeps same_disk (or_preparePrivateMatch (engine_orchestrator rt) run)"
  "keeps same_disk (or_admitParticipantClaim (engine_orchestrator rt) run role a)"
  "keeps same_disk (or_submitParticipantPledge (engine_orchestrator rt) run role)"
  by (auto simp: engine_orchestrator_def intro!: frame_disk frame_intros engine_frame neutral_frame)

lemma same_disk_weaker: "keeps same_disk m \<Longrightarrow> keeps (ledger_kept root) m" "keeps same_disk m \<Longrightarrow> keeps (code_kept root code) m"
  by (simp_all add: keeps_def same_disk_def ledger_kept_def code_kept_def map_le_def)

subsection \<open>The service on the engine\<close>

text \<open>The ledger is only added to.\<close>

lemma create_only_grows: "fs \<subseteq>\<^sub>m fst (writeCreateOnly path v fs)"
  by (auto simp: writeCreateOnly_def map_le_def)

lemma operation_grows: "fs \<subseteq>\<^sub>m fst (admission_operation root c fs)"
  using create_only_grows [of fs] unfolding admission_operation_def
  by (auto simp: map_le_def Let_def split: sum.splits option.splits prod.splits) (metis domI fst_conv)+

lemma admit_grows: "fs \<subseteq>\<^sub>m fst (admitParticipantRole root c fs)"
proof (cases "fs (admissionLockPath root (ar_runId c))")
  case None
  let ?fs = "fs(admissionLockPath root (ar_runId c) \<mapsto> Whole (LockFile (ar_runId c)))"
  have "fst (admitParticipantRole root c fs) = (fst (admission_operation root c ?fs))(admissionLockPath root (ar_runId c) := None)"
    by (simp add: admitParticipantRole_def withRunAdmissionLock_def None Let_def case_prod_unfold)
  moreover have "fst (admission_operation root c ?fs) q = fs q" if "q \<in> dom fs" for q
    using operation_grows [of ?fs root c] that None by (auto simp: map_le_def dom_def split: if_splits)
  ultimately show ?thesis using None by (auto simp: map_le_def)
qed (simp add: admitParticipantRole_def withRunAdmissionLock_def)

lemma bind_grows: "fs \<subseteq>\<^sub>m fst (bindCaseCode root code run fs)"
  using create_only_grows [of fs]
  by (auto simp: bindCaseCode_def Let_def case_prod_unfold split: sum.split)

lemma slot_grows: "fs \<subseteq>\<^sub>m fs' \<Longrightarrow> slot root run fs \<subseteq>\<^sub>m slot root run fs'"
  by (auto simp: slot_def map_le_def dom_def split: option.splits stored.splits admission_file.splits)

definition service_keeps :: "'e ProtectionRuntime \<Rightarrow> 'e engine_world \<Rightarrow> 'e engine_world \<Rightarrow> bool" where
  "service_keeps rt w w' \<longleftrightarrow> ledger_kept (rt_runRoot rt) w w' \<and> (engine_inv rt w \<longrightarrow> engine_inv rt w' \<and> run_continues rt w w')"

interpretation service: kept_relation "service_keeps rt"
  by unfold_locales
    (auto simp: service_keeps_def intro: ledger_kept.kept_refl ledger_kept.kept_trans run_continues_refl run_continues_trans)

lemma service_engine:
  assumes "steps (engine_keeps rt) (engine_inv rt) m Q" "keeps same_disk m"
  shows "keeps (service_keeps rt) m"
  using same_disk_weaker(1) [OF assms(2)] steps_inv [OF assms(1)] by (simp add: keeps_def service_keeps_def)

lemma service_silent: "keeps silent m \<Longrightarrow> keeps (service_keeps rt) m"
  by (rule service_engine [OF steps_silent [where P = "engine_inv rt"]]) (simp_all add: silent_disk_kept)

lemma service_disk_call:
  fixes rt :: "'e ProtectionRuntime"
  assumes "\<And>fs. fs \<subseteq>\<^sub>m fst (f fs)"
  shows "keeps (service_keeps rt) (disk_call f)"
  unfolding keeps_def
proof
  fix w :: "'e engine_world"
  let ?w = "fst (disk_call f w)"
  have kept: "ledger_kept (rt_runRoot rt) w ?w"
    using assms slot_grows by (auto simp: ledger_kept_def disk_call_def Let_def split: prod.split) (metis fst_conv)
  have "w_env ?w = w_env w" by (simp add: disk_call_def Let_def split: prod.split)
  then have "record_of rt run ?w = record_of rt run w \<and> journal_of rt run ?w = journal_of rt run w" for run
    by (simp add: record_of_def journal_of_def)
  with kept environment_inv [of rt w ?w] show "service_keeps rt w ?w" by (auto simp: service_keeps_def)
qed

lemma service_disk_read: "keeps (service_keeps rt) (disk_read f)"
  by (simp add: disk_read_def service.keeps_areads)

lemma steps_mapped:
  "steps (engine_keeps rt) (engine_inv rt) m Q \<Longrightarrow> steps (engine_keeps rt) (engine_inv rt) (abind m (\<lambda>x. alift (Inr (f x)))) (\<lambda>_ _. True)"
  by (rule engine.steps_abind, assumption, rule engine.steps_return) simp

lemma orchestrator_keeps:
  "keeps (service_keeps rt) (or_createNeutralParticipantCase (engine_orchestrator rt) x)"
  "or_createNeutralCoalitionParticipantCase (engine_orchestrator rt) = Some f \<Longrightarrow> keeps (service_keeps rt) (f x)"
  "keeps (service_keeps rt) (or_readCustomSupervisedCase (engine_orchestrator rt) run)"
  "keeps (service_keeps rt) (or_readParticipantAdmissionContext (engine_orchestrator rt) run role)"
  "keeps (service_keeps rt) (or_preparePrivateMatch (engine_orchestrator rt) run)"
  "keeps (service_keeps rt) (or_admitParticipantClaim (engine_orchestrator rt) run role a)"
  "keeps (service_keeps rt) (or_submitParticipantPledge (engine_orchestrator rt) run role)"
  using orchestrator_disk [of rt]
  by (auto simp: engine_orchestrator_def
      intro: service_engine [OF steps_mapped [OF neutral_steps(1)]] service_engine [OF steps_mapped [OF neutral_steps(2)]]
        service_engine [OF steps_mapped [OF read_steps(2)]] service_engine [OF context_steps] service_engine [OF steps_mapped [OF prepare_steps]]
        service_engine [OF steps_mapped [OF admit_steps]] service_engine [OF steps_mapped [OF submit_steps]])

lemma silent_service: "silent w w' \<Longrightarrow> service_keeps rt w w'"
  using silent_keeps [of w w' rt] by (auto simp: service_keeps_def engine_keeps_def ledger_kept_def)

lemma service_callbacks:
  assumes "engine_dependencies rt deps"
  shows "keeps (service_keeps rt) (now_action deps)" "keeps (service_keeps rt) (dp_verifyApass deps wallet)"
    "dp_onParticipantCaseCreated deps = Some f \<Longrightarrow> keeps (service_keeps rt) (f run code)"
    "keeps (service_keeps rt) (created_or_now deps created)"
proof -
  show now: "keeps (service_keeps rt) (now_action deps)"
    by (rule keeps_now) (use assms in \<open>simp add: engine_dependencies_def silent_service\<close>)
  then show "keeps (service_keeps rt) (created_or_now deps created)"
    by (auto simp: created_or_now_def service.keeps_alift split: option.split)
qed (use assms in \<open>simp_all add: engine_dependencies_def service_silent\<close>)

lemma service_project: "engine_dependencies rt deps \<Longrightarrow> keeps (service_keeps rt) (projectAdmission deps code run stage created)"
  unfolding projectAdmission_def by (intro service.keeps_intros service_disk_read service_callbacks)

lemma service_admit:
  assumes "engine_dependencies rt deps"
  shows "keeps (service_keeps rt) (admitParticipant im deps request created)"
proof -
  have orch: "dp_orchestrator deps = engine_orchestrator rt" using assms by (simp add: engine_dependencies_def)
  show ?thesis
    unfolding admitParticipant_def authorize_admission_def resolved_case_def not_abandoned_def case_prod_unfold commit_admission_def orch
    by (intro service.keeps_intros service_disk_read service_disk_call admit_grows orchestrator_keeps service_callbacks [OF assms]
        service_project [OF assms])
qed

lemma service_create:
  assumes "engine_dependencies rt deps"
  shows "keeps (service_keeps rt) (createParticipantCase im deps bytes x)"
proof -
  have orch: "dp_orchestrator deps = engine_orchestrator rt" using assms by (simp add: engine_dependencies_def)
  have hook: "keeps (service_keeps rt) (case dp_onParticipantCaseCreated deps of None \<Rightarrow> alift (Inr ()) | Some f \<Rightarrow> f run code)" for run code
    using service_callbacks(3) [OF assms] by (auto simp: service.keeps_alift split: option.split)
  have made: "keeps (service_keeps rt) (case (dp_coalitionRelease deps, or_createNeutralCoalitionParticipantCase (engine_orchestrator rt)) of
      (Some True, Some create) \<Rightarrow> create x | _ \<Rightarrow> or_createNeutralParticipantCase (engine_orchestrator rt) x)"
    by (auto split: option.split bool.split intro: orchestrator_keeps)
  show ?thesis
    unfolding createParticipantCase_def finish_creation_def Let_def orch
    by (intro service.keeps_intros service_disk_call bind_grows orchestrator_keeps service_callbacks(1) [OF assms] hook made
        service_project [OF assms])
qed

subsection \<open>Each relies on the other\<close>

definition engine_sample_deps :: "(unit engine, CustomSupervisedView) AdmissionDependencies" where
  "engine_sample_deps = \<lparr>dp_orchestrator = engine_orchestrator sample_runtime, dp_runRoot = ''root'',
     dp_directParticipantAdmissionEnabled = Some True, dp_coalitionRelease = None, dp_verifyingService = ''service'',
     dp_chainId = Some MONAD_TESTNET_CHAIN_ID, dp_verifyApass = \<lambda>_ w. (w, Inl DependencyError), dp_verifyTypedData = \<lambda>_ _ _ _ _. Inr True,
     dp_now = \<lambda>w. (w, 1700000300), dp_caseLifetimeSeconds = None, dp_onParticipantCaseCreated = None\<rparr>"

lemma engine_sample_dependencies: "engine_dependencies sample_runtime engine_sample_deps"
  by (simp add: engine_dependencies_def engine_sample_deps_def sample_runtime_def keeps_def silent.kept_refl)



text \<open>The service keeps the engine's invariant in turn. Whatever a request to admit a participant or to create a case
  does, and wherever it stops, no admitted role is lost from the ledger, every run still satisfies the invariant of the
  engine (in particular its admitted claims are still backed by the ledger) and every execution record is continued.\<close>

theorem service_keeps_engine_invariant:
  assumes "engine_dependencies rt deps" "engine_inv rt w"
    and "w' \<in> {fst (admitParticipant im deps request created w), fst (createParticipantCase im deps bytes x w)}"
  shows "engine_inv rt w' \<and> run_continues rt w w' \<and> (\<forall>run. slot (rt_runRoot rt) run (w_disk w) \<subseteq>\<^sub>m slot (rt_runRoot rt) run (w_disk w'))"
  using service_admit [OF assms(1), of im request created] service_create [OF assms(1), of im bytes x] assms(2,3)
  by (auto simp: keeps_def service_keeps_def ledger_kept_def)

theorem service_keeps_engine_invariant_witness:
  "\<forall>im. engine_inv sample_runtime (fst (createParticipantCase im engine_sample_deps (replicate 16 CHR ''a'') sample_run sample_engine_world))"
  using service_keeps_engine_invariant [OF engine_sample_dependencies fresh_volume_inv [OF sample_volume]] by blast

subsection \<open>Every admitted claim is in the ledger\<close>

text \<open>A prepared participant run with one admitted claim, and the ledger record behind it.\<close>

definition admitted_claim :: AdmittedParticipantClaim where
  "admitted_claim = \<lparr>ac_participantWallet = sample_wallet CHR ''1'', ac_authorizationDigest = sample_bytes32, ac_claimCommitment = sample_bytes32,
     ac_authorizationNonce = sample_bytes32, ac_chainId = 10143, ac_issuedAt = 1, ac_expiresAt = 2,
     ac_claim = \<lparr>pw_activeFrom = 1, pw_activeUntil = 100\<rparr>\<rparr>"

definition admitted_state :: InternalState where
  "admitted_state = (new_state sample_run (run_directory sample_runtime sample_run) (sample_case zero_sha True) True None None False 1785000000)
     \<lparr>is_stage := Stage_MATCH_PREPARED,
      is_keygen := Some \<lparr>kg_bindingDigest = [], kg_protectionBindingDigest = [], kg_durationNanos = 0, kg_report = VNull\<rparr>,
      is_participantKeys := Some (key_path (path_join (run_directory sample_runtime sample_run) ''participant-private'')),
      is_admittedClaims := [PARTICIPANT_A \<mapsto> admitted_claim]\<rparr>"

definition admitted_record :: ParticipantAdmissionRecord where
  "admitted_record = admission_record (sample_candidate\<lparr>ar_runId := sample_run\<rparr>)"

definition admitted_world :: "unit engine_world" where
  "admitted_world = \<lparr>w_disk = [admissionRecordPath ''root'' sample_run PARTICIPANT_A \<mapsto> Whole (AdmissionFile admitted_record)],
     w_env = sample_engine\<lparr>en_states := [state_file sample_runtime sample_run \<mapsto> Whole admitted_state]\<rparr>\<rparr>"

lemma admitted_record_reads: "readAdmission ''root'' sample_run PARTICIPANT_A (w_disk admitted_world) = Inr (Some admitted_record)"
proof -
  have "assertAdmissionRecord admitted_record sample_run PARTICIPANT_A = Inr ()"
    using sample_record_valid by (simp add: assertAdmissionRecord_def check_eq_Inr admitted_record_def admission_record_def
        AdmissionCandidate.extend_def sample_candidate_def)
  then show ?thesis by (simp add: readAdmission_def readJsonOrNull_def admitted_world_def)
qed

lemma admitted_backed: "backed sample_runtime sample_run PARTICIPANT_A admitted_claim admitted_world"
proof -
  have "participantClaimCommitment zero_sha sample_run PARTICIPANT_A (ac_claim admitted_claim) = Inr sample_bytes32"
    by (simp add: participantClaimCommitment_def service_digest)
  then show ?thesis
    using admitted_record_reads
    by (simp add: backed_def sample_runtime_def admitted_record_def admission_record_def AdmissionCandidate.extend_def sample_candidate_def
        admitted_claim_def MONAD_TESTNET_CHAIN_ID_def)
qed

lemma admitted_world_record: "record_of sample_runtime sample_run admitted_world = Some (Whole admitted_state)"
  by (simp add: record_of_def admitted_world_def)

lemma admitted_world_inv: "engine_inv sample_runtime admitted_world"
proof -
  have staged: "well_staged admitted_state" and id: "is_runId admitted_state = sample_run"
    and claims: "is_admittedClaims admitted_state = [PARTICIPANT_A \<mapsto> admitted_claim]"
    by (simp_all add: admitted_state_def new_state_def staged coalition_case_def participantKeyPaths_def [abs_def])
  have none: "record_of sample_runtime run admitted_world = None" if "is_uuid run" "run \<noteq> sample_run" for run
    using run_paths_apart(1) [OF that(1) sample_run_uuid] that(2) by (simp add: record_of_def admitted_world_def sample_engine_def)
  have journal: "journal_of sample_runtime run admitted_world = Inr (empty_journal run)" for run
    by (simp add: journal_of_def readOperationJournal_def admitted_world_def sample_engine_def)
  have "run_inv sample_runtime run admitted_world" if "is_uuid run" for run
  proof (cases "run = sample_run")
    case True
    then show ?thesis
      using staged id claims admitted_backed admitted_world_record
      by (auto simp: run_inv_def journal record_inv_def pending_tail_def at_last_def empty_journal_def split: if_splits)
  next
    case False
    then show ?thesis using none [OF that] by (simp add: run_inv_def journal empty_journal_def)
  qed
  then show ?thesis by (simp add: engine_inv_def)
qed

text \<open>C20: The engine knows no claim that the ledger does not know. Along every run of the engine, other processes included
  as long as the ledger loses no admitted role, each claim in an execution record has a durable admission of the same
  run and role with the same wallet, authorization, nonce, validity and chain, and the commitment in it is the one
  recomputed from the interval the engine will encrypt.\<close>

theorem admitted_claims_are_durable:
  assumes "engine_inv rt w" "(engine_step rt)\<^sup>*\<^sup>* w w'" "is_uuid run"
    and "record_of rt run w' = Some (Whole s)" "is_admittedClaims s role = Some a"
  shows "\<exists>d. readAdmission (rt_runRoot rt) run role (w_disk w') = Inr (Some d)
     \<and> toLowerCase (ar_participantWallet d) = toLowerCase (ac_participantWallet a)
     \<and> ar_authorizationDigest d = ac_authorizationDigest a \<and> ar_authorizationNonce d = ac_authorizationNonce a
     \<and> ar_chainId d = MONAD_TESTNET_CHAIN_ID \<and> ar_issuedAt d = ac_issuedAt a \<and> ar_expiresAt d = ac_expiresAt a
     \<and> ar_claimCommitment d = ac_claimCommitment a
     \<and> participantClaimCommitment (rt_sha rt) run role (ac_claim a) = Inr (ac_claimCommitment a)"
proof -
  have "run_inv rt run w'" using engine_run.run_inv [OF assms(2,1)] assms(3) by (simp add: engine_inv_def)
  then have "backed rt run role a w'" using assms(4,5) by (auto simp: run_inv_def record_inv_def)
  then show ?thesis by (auto simp: backed_def)
qed

theorem admitted_claims_are_durable_witness:
  "\<exists>d. readAdmission ''root'' sample_run PARTICIPANT_A (w_disk admitted_world) = Inr (Some d)
     \<and> participantClaimCommitment zero_sha sample_run PARTICIPANT_A (ac_claim admitted_claim) = Inr (ar_claimCommitment d)"
proof -
  have "is_admittedClaims admitted_state PARTICIPANT_A = Some admitted_claim" by (simp add: admitted_state_def)
  from admitted_claims_are_durable [OF admitted_world_inv rtranclp.rtrancl_refl sample_run_uuid admitted_world_record this]
  show ?thesis by (auto simp: sample_runtime_def)
qed

end
