(* ===== verification/Engine_Guarantees.thy ===== *)
theory Engine_Guarantees
  imports Engine_Admission
begin

text \<open>
  Guarantees of single steps of the protection engine: the disk preflight, the participant keys, the pledge that is
  encrypted, what a record that loads carries, the settlement projection of a coalition release, and the governed
  release of a case without operator windows.
\<close>

subsection \<open>Disk space\<close>

text \<open>The disk preflight decides on the exact number of free bytes. The operation that generates keys starts exactly
  when the product of the two file-system counters, of any size, is at least the estimate of one case plus the safety
  margin; clamping the product to a safe integer never changes the decision. It writes nothing, and refuses with status 507.\<close>

theorem disk_preflight_exact:
  assumes "rt_statfsAvailableBytes rt = None" "rt_statfs rt (rt_runRoot rt) w = (bavail, bsize)"
  shows "assertDiskSpace rt w =
    (w, if 2187329536 \<le> bavail * bsize then Inr () else Inl (ProtectionProductError ''Insufficient disk for one N15 case'' 507))"
  using assms
  by (auto simp: assertDiskSpace_def diskSpacePreflight_def evaluateDiskSpace_def estimatedCaseBytes_def safetyMarginBytes_def
      isSafeInteger_def MAX_SAFE_INTEGER_def Let_def)

theorem disk_preflight_exact_witness:
  "assertDiskSpace sample_runtime sample_engine_world = (sample_engine_world, Inr ())
   \<and> assertDiskSpace (sample_runtime\<lparr>rt_statfs := \<lambda>_ _. (534015, 4096)\<rparr>) sample_engine_world
      = (sample_engine_world, Inl (ProtectionProductError ''Insufficient disk for one N15 case'' 507))"
  using disk_preflight_exact [of sample_runtime sample_engine_world 1000000 4096]
    disk_preflight_exact [of "sample_runtime\<lparr>rt_statfs := \<lambda>_ _. (534015, 4096)\<rparr>" sample_engine_world 534015 4096]
  by (simp add: sample_runtime_def)

subsection \<open>Participant keys\<close>

text \<open>A signing key that a wallet authorized is never minted again. For a role whose admission names a key digest,
  asking for the key changes nothing, neither a file nor the random source, and when it succeeds the key is the one
  stored for that role, complete, and has the authorized digest.\<close>

theorem admitted_key_never_reminted:
  "fst (rawParticipantKey rt role root recover (Some d) w) = w
   \<and> (\<forall>path key. snd (rawParticipantKey rt role root recover (Some d) w) = Inr (path, key) \<longrightarrow>
       path = key_path root role \<and> participantSigningKeyDigest (rt_sha rt) key = Inr d
       \<and> (\<exists>raw. en_keys (w_env w) path = Some (RegularFile raw) \<and> length raw = 64 \<and> key = base64_encode (drop 32 raw)))"
proof (cases "en_keys (w_env w) (key_path root role)")
  case None
  then show ?thesis by (simp add: rawParticipantKey_def abind_def Let_def)
next
  case (Some f)
  show ?thesis
  proof (cases f)
    case (RegularFile raw)
    show ?thesis
      using Some RegularFile
      by (cases "participantSigningKeyDigest (rt_sha rt) (base64_encode (drop 32 raw))")
        (auto simp: rawParticipantKey_def abind_def readRegularNoFollow_def Let_def check_def split: if_splits)
  qed (use Some in \<open>simp add: rawParticipantKey_def abind_def readRegularNoFollow_def Let_def\<close>)
qed

definition keyed_world :: "unit engine_world" where
  "keyed_world = sample_engine_world\<lparr>w_env := sample_engine\<lparr>en_keys := [key_path ''keys'' PARTICIPANT_A \<mapsto> RegularFile (replicate 64 CHR ''k'')]\<rparr>\<rparr>"

lemma keyed_digest: "participantSigningKeyDigest zero_sha (base64_encode (drop 32 (replicate 64 CHR ''k''))) = Inr sample_bytes32"
  by code_simp

lemma matching_key_returned:
  assumes "en_keys (w_env w) (key_path root role) = Some (RegularFile raw)" "length raw = 64"
    and "participantSigningKeyDigest (rt_sha rt) (base64_encode (drop 32 raw)) = Inr d"
  shows "rawParticipantKey rt role root recover (Some d) w = (w, Inr (key_path root role, base64_encode (drop 32 raw)))"
  using assms by (simp add: rawParticipantKey_def abind_def readRegularNoFollow_def Let_def)

theorem admitted_key_never_reminted_witness:
  "\<exists>key. rawParticipantKey sample_runtime PARTICIPANT_A ''keys'' True (Some sample_bytes32) keyed_world
      = (keyed_world, Inr (key_path ''keys'' PARTICIPANT_A, key)) \<and> participantSigningKeyDigest zero_sha key = Inr sample_bytes32"
proof -
  have sha: "rt_sha sample_runtime = zero_sha" by (simp add: sample_runtime_def)
  have "en_keys (w_env keyed_world) (key_path ''keys'' PARTICIPANT_A) = Some (RegularFile (replicate 64 CHR ''k''))"
    by (simp add: keyed_world_def)
  from matching_key_returned [OF this length_replicate, of sample_runtime sample_bytes32, unfolded sha, OF keyed_digest]
  have r: "rawParticipantKey sample_runtime PARTICIPANT_A ''keys'' True (Some sample_bytes32) keyed_world
      = (keyed_world, Inr (key_path ''keys'' PARTICIPANT_A, base64_encode (drop 32 (replicate 64 CHR ''k''))))" .
  show ?thesis
    using admitted_key_never_reminted [of sample_runtime PARTICIPANT_A "''keys''" True sample_bytes32 keyed_world] unfolding r sha by auto
qed

subsection \<open>The pledge\<close>


definition pledge_runtime :: "unit ProtectionRuntime" where
  "pledge_runtime = sample_runtime\<lparr>rt_loadConfiguration := \<lambda>_ _. Inr service_configuration\<rparr>"

lemma pledge_admitted: "submission_admitted pledge_runtime admitted_state PARTICIPANT_A admitted_world = Inr ()"
proof -
  have facts: "custom_run admitted_state" "is_supervisedPledgeWindows admitted_state = None" "is_runId admitted_state = sample_run"
    "is_admittedClaims admitted_state PARTICIPANT_A = Some admitted_claim"
    by (simp_all add: admitted_state_def new_state_def custom_run_def)
  have rt: "rt_runRoot pledge_runtime = ''root''" "rt_sha pledge_runtime = zero_sha" "rt_directParticipantAdmissionEnabled pledge_runtime"
    "load_canonical pledge_runtime admitted_world = Inr service_configuration"
    by (simp_all add: pledge_runtime_def sample_runtime_def load_canonical_def readParticipantConfigSelection_def)
  have commitment: "participantClaimCommitment zero_sha sample_run PARTICIPANT_A (ac_claim admitted_claim) = Inr sample_bytes32"
    by (simp add: participantClaimCommitment_def service_digest)
  have window: "assertSupervisedPledgeWindow (window_object (ac_claim admitted_claim)) = Inr (ac_claim admitted_claim)"
    using service_window by (simp add: window_object_def admitted_claim_def service_claim_def)
  show ?thesis
    using facts rt commitment window admitted_record_reads
    by (simp add: submission_admitted_def assertDirectParticipantAdmissionEnabled_def assertVerifiedDurableAdmission_def require_def
        canonical_holder_def admitted_record_def admission_record_def AdmissionCandidate.extend_def sample_candidate_def
        MONAD_TESTNET_CHAIN_ID_def) (simp add: admitted_claim_def)
qed


subsection \<open>Records that load\<close>

lemma loaded_checks:
  assumes "loadStateRaw rt run w = Inr s"
  shows "record_of rt run w = Some (Whole s)" "is_runId s = run" "pa_root (is_paths s) = run_directory rt run"
    "pc_cleanverseAssetDigest (is_protectionCase s) = CANONICAL_CLEANVERSE_ASSET_DIGEST (rt_sha rt)"
    "assert_release_paths s = Inr ()" "assert_policy_chain (rt_sha rt) s = Inr ()" "assert_recorded_operation rt s w = Inr ()"
  using assms
  by (auto simp: loadStateRaw_def statePath_def record_of_def ebind_eq_Inr check_eq_Inr assertProtectionAssetBinding_def
      split: option.splits stored.splits if_splits)

lemma release_paths_ok:
  assumes "assert_release_paths s = Inr ()"
  shows "if coalition_case s then is_release s = None \<and> is_recourse s = None \<and> is_governedActionPlan s = None
      else is_coalitionRelease s = None \<and> is_coalitionSettlement s = None"
    and "is_coalitionRelease s = Some r \<Longrightarrow> (cl_policyConflict r \<longrightarrow> cl_sameEconomicAsset r)
      \<and> (\<exists>p. is_coalitionSettlement s = Some p \<and> (cp_status p = EXECUTION_READY \<longleftrightarrow> cl_policyConflict r))"
  using assms
  by (auto simp: assert_release_paths_def ebind_eq_Inr check_eq_Inr split: option.splits if_splits)

lemma policy_chain_ok:
  assumes "assert_policy_chain sha s = Inr ()" "is_governedRecoursePolicySelection s = Some x" "is_release s = Some r"
  shows "\<exists>plan. is_governedActionPlan s = Some plan
      \<and> ob_view plan = policy_plan sha (ro_conflict r) (gs_selectionHash (ob_view x)) (ro_resultDigest r)"
proof -
  from assms obtain plan where p: "is_governedActionPlan s = Some plan" "verifyManagedDemoGovernedActionPlan sha plan = Inr ()"
      "gp_policySelectionHash (ob_view plan) = gs_selectionHash (ob_view x)" "gp_resultDigest (ob_view plan) = ro_resultDigest r"
      "gp_resultOutcome (ob_view plan) = (if ro_conflict r then ''CONFLICT'' else ''NO_CONFLICT'')"
    by (auto simp: assert_policy_chain_def ebind_eq_Inr check_eq_Inr split: option.splits)
  from p(2) obtain c where c: "ob_view plan = policy_plan sha c (gs_selectionHash (ob_view x)) (ro_resultDigest r)"
    unfolding verify_plan_iff p(3,4) by blast
  from p(5) have "c = ro_conflict r" unfolding c by (simp split: if_splits)
  with p(1) c show ?thesis by blast
qed

text \<open>C24: A record that loads can be interpreted. It is the stored record of the run and asset asked for; it follows one release path
  only; a coalition release never claims a policy conflict without the asset match and its settlement is ready exactly
  when the policy bit is set; and a released case with a selected policy has exactly the plan that policy derives from
  the released Boolean: the cure path for a conflict, record and close otherwise.\<close>

theorem loaded_record_is_interpretable:
  assumes "loadStateRaw rt run w = Inr s"
  shows "record_of rt run w = Some (Whole s) \<and> is_runId s = run \<and> pa_root (is_paths s) = run_directory rt run
    \<and> pc_cleanverseAssetDigest (is_protectionCase s) = CANONICAL_CLEANVERSE_ASSET_DIGEST (rt_sha rt)
    \<and> (if coalition_case s then is_release s = None \<and> is_recourse s = None \<and> is_governedActionPlan s = None
        else is_coalitionRelease s = None \<and> is_coalitionSettlement s = None)
    \<and> (\<forall>r. is_coalitionRelease s = Some r \<longrightarrow> (cl_policyConflict r \<longrightarrow> cl_sameEconomicAsset r)
        \<and> (\<exists>p. is_coalitionSettlement s = Some p \<and> (cp_status p = EXECUTION_READY \<longleftrightarrow> cl_policyConflict r)))
    \<and> (\<forall>x r. is_governedRecoursePolicySelection s = Some x \<and> is_release s = Some r \<longrightarrow>
        (\<exists>plan. is_governedActionPlan s = Some plan \<and> gp_resultDigest (ob_view plan) = ro_resultDigest r
          \<and> gp_policySelectionHash (ob_view plan) = gs_selectionHash (ob_view x)
          \<and> gp_selectedGovernedAction (ob_view plan) = (if ro_conflict r then ''OPEN_LOCAL_CURE_PATH'' else ''RECORD_AND_CLOSE'')
          \<and> gp_settlementAuthorization (ob_view plan) = ''NOT_AUTHORIZED''))"
proof -
  note c = loaded_checks [OF assms]
  have "\<exists>plan. is_governedActionPlan s = Some plan \<and> gp_resultDigest (ob_view plan) = ro_resultDigest r
      \<and> gp_policySelectionHash (ob_view plan) = gs_selectionHash (ob_view x)
      \<and> gp_selectedGovernedAction (ob_view plan) = (if ro_conflict r then ''OPEN_LOCAL_CURE_PATH'' else ''RECORD_AND_CLOSE'')
      \<and> gp_settlementAuthorization (ob_view plan) = ''NOT_AUTHORIZED''"
    if "is_governedRecoursePolicySelection s = Some x" "is_release s = Some r" for x r
    using policy_chain_ok [OF c(6) that] by auto
  with c(1-4) release_paths_ok [OF c(5)] show ?thesis by simp
qed


definition released_state :: InternalState where
  "released_state = sample_state\<lparr>is_stage := Stage_RELEASED,
     is_protectionCase := (is_protectionCase sample_state)\<lparr>pc_releaseMode := COALITION_RELEASE_MODE\<rparr>,
     is_coalitionRelease := Some \<lparr>cl_resultDigest = [], cl_sameEconomicAsset = True, cl_policyConflict = True,
       cl_releaseMode = COALITION_RELEASE_MODE, cl_releaseAuthorityId = [], cl_threshold = 2, cl_coalition = [1, 3],
       cl_operatorTopology = [], cl_durationNanos = 0, cl_resultBytes = 0, cl_exactRetry = False\<rparr>,
     is_coalitionSettlement := Some \<lparr>cp_status = EXECUTION_READY, cp_settlementProfileDigest = [], cp_planHash = None, cp_authorizationHash = None\<rparr>\<rparr>"

definition stored_world :: "InternalState \<Rightarrow> unit engine_world" where
  "stored_world s = sample_engine_world\<lparr>w_env := sample_engine\<lparr>en_states := [state_file sample_runtime sample_run \<mapsto> Whole s]\<rparr>\<rparr>"

lemma released_state_loads: "loadStateRaw sample_runtime sample_run (stored_world released_state) = Inr released_state"
proof -
  have "statePath sample_runtime sample_run = Inr (state_file sample_runtime sample_run)"
    using sample_run_uuid by (simp add: statePath_def assertRunId_def is_uuid_def)
  moreover have "assertProtectionAssetBinding zero_sha (is_protectionCase released_state) (CANONICAL_CLEANVERSE_ASSET_DIGEST zero_sha) = Inr ()"
    by (simp add: released_state_def sample_state_def new_state_def assertProtectionAssetBinding_def sample_case_def protection_case_literal_def
        Let_def)
  ultimately show ?thesis
    by (simp add: loadStateRaw_def stored_world_def sample_engine_world_def released_state_def sample_state_def new_state_def
        assert_release_paths_def assert_policy_chain_def assert_recorded_operation_def governedOperationAuthorizationForState_def
        coalition_case_def sample_runtime_def run_directory_def)
qed

theorem loaded_record_is_interpretable_witness:
  "loadStateRaw sample_runtime sample_run (stored_world released_state) = Inr released_state
   \<and> is_runId released_state = sample_run \<and> is_release released_state = None
   \<and> (\<exists>p. is_coalitionSettlement released_state = Some p \<and> cp_status p = EXECUTION_READY)"
  using loaded_record_is_interpretable [OF released_state_loads] released_state_loads
  by (auto simp: released_state_def coalition_case_def)


subsection \<open>The governed release of a participant-admitted case\<close>

text \<open>A case that admits participants has no operator windows, and the scenario in it is the placeholder of its creation.\<close>

definition participant_run :: "InternalState \<Rightarrow> bool" where
  "participant_run s \<longleftrightarrow> custom_run s \<and> is_supervisedPledgeWindows s = None
     \<and> pc_productScenario (is_protectionCase s) = ScenarioConflict \<and> is_governedRecoursePolicySelection s = None"

lemma created_participant_run:
  assumes "snd (create_fresh rt scenario run None True False coalition w) = Inr s"
  shows "participant_run s"
  using assms
  by (auto simp: create_fresh_def abind_def alift_def saveState_def createProtectionCase_def new_state_def participant_run_def custom_run_def
      protection_case_literal_def Let_def split: prod.splits sum.splits if_splits)

lemma participant_run_continues: "continues s s' \<Longrightarrow> participant_run s \<Longrightarrow> participant_run s'"
  by (auto simp: continues_def case_continues_def participant_run_def custom_run_def)

definition fails_unsaved :: "('e engine_world, 'a) action \<Rightarrow> bool" where
  "fails_unsaved m \<longleftrightarrow> (\<forall>w. (\<exists>e. snd (m w) = Inl e) \<and> en_states (w_env (fst (m w))) = en_states (w_env w))"

lemma fails_after:
  assumes "\<And>w. en_states (w_env (fst (m w))) = en_states (w_env w)"
    and "\<And>x w. snd (m w) = Inr x \<Longrightarrow> fails_unsaved (k x)"
  shows "fails_unsaved (abind m k)"
  unfolding fails_unsaved_def
proof
  fix w
  obtain u r where m: "m w = (u, r)" by fastforce
  show "(\<exists>e. snd (abind m k w) = Inl e) \<and> en_states (w_env (fst (abind m k w))) = en_states (w_env w)"
    using assms(1) [of w] assms(2) [of w] m by (cases r) (auto simp: abind_def fails_unsaved_def)
qed

lemma quiet_states: "keeps quiet m \<Longrightarrow> en_states (w_env (fst (m w))) = en_states (w_env w)"
  by (simp add: keeps_def quiet_defs)

lemma begin_states: "en_states (w_env (fst (begin_operation rt run inp w))) = en_states (w_env w)"
  by (auto simp: begin_operation_def abind_def external_call_def with_go_def Let_def split: sum.splits prod.splits)

text \<open>C25: A participant-admitted governed case cannot be released as cleared. Its scenario is a placeholder, but the release compares
  the released Boolean with it whenever there are no operator windows: if the decryptor answers that the pledges do
  not conflict, the release throws and saves nothing, although the decryptor has spent the one release of the case.
  The same answer is accepted when the interrupted operation is reconciled by the next call.\<close>

theorem cleared_participant_case_release_throws:
  assumes "snd (create_fresh rt scenario run None True False False v) = Inr s0" "continues s0 s"
    and "\<forall>args w e out. rt_decryptor rt args w = (e, Inr out) \<longrightarrow> \<not> ro_conflict out"
    and "pi_release i = Some a" "\<not> ro_conflict a" "pi_releasePrivateComplete i"
  shows "(\<exists>e. snd (release_governed rt run s w) = Inl e)
    \<and> en_states (w_env (fst (release_governed rt run s w))) = en_states (w_env w)
    \<and> (\<exists>s'. reconcile_release rt s at i w = Inr (Some s') \<and> is_stage s' = Stage_RELEASED
        \<and> map_option ro_conflict (is_release s') = Some False)"
proof -
  have p: "participant_run s" using participant_run_continues [OF assms(2) created_participant_run [OF assms(1)]] .
  have no: "\<not> release_matches_scenario s out" if "snd (runJSON (rt_decryptor rt args) w) = Inr out" for out args w
    using that p assms(3) [rule_format, of args w]
    by (auto simp: release_matches_scenario_def Let_def participant_run_def runJSON_def external_call_def split: prod.splits sum.splits)
  have "fails_unsaved (release_governed rt run s)"
    unfolding release_governed_def
    by (intro fails_after begin_states quiet_states quiet_now quiet_runJSON quiet.keeps_alift) (auto simp: check_def no)
  moreover have "\<exists>s'. reconcile_release rt s at i w = Inr (Some s') \<and> is_stage s' = Stage_RELEASED
      \<and> map_option ro_conflict (is_release s') = Some False"
    using p assms(4-6) by (simp add: participant_run_def reconcile_release_def Let_def ReleaseArtifact.defs ReleaseOutput.defs)
  ultimately show ?thesis unfolding fails_unsaved_def by blast
qed


definition cleared_release :: ReleaseOutput where
  "cleared_release = \<lparr>ro_resultDigest = [], ro_conflict = False, ro_releaseMode = GOVERNED_RELEASE_MODE, ro_resultBytes = 0,
     ro_exactRetry = False, ro_trustedRecoursePins = \<lparr>tp_participantArtifactDigestA = [], tp_participantArtifactDigestB = [],
       tp_evaluatedArtifactDigest = [], tp_recomputedResultCiphertextDigest = [], tp_resultCiphertextCommitment = [],
       tp_decryptorProvenance = [], tp_releaseMode = [], tp_releaseAuthorityId = []\<rparr>, ro_durationNanos = 0\<rparr>"

definition cleared_runtime :: "unit ProtectionRuntime" where
  "cleared_runtime = sample_runtime\<lparr>rt_decryptor := \<lambda>_ _. ((), Inr cleared_release)\<rparr>"

definition cleared_inspection :: ProductInspection where
  "cleared_inspection = \<lparr>pi_foundation = None, pi_submissionA = None, pi_submissionB = None, pi_finalized = True, pi_evaluationAdmission = True,
     pi_evaluation = None, pi_releaseAdmission = True, pi_foundationPrivateComplete = True, pi_releasePrivateComplete = True,
     pi_release = Some (ReleaseArtifact.truncate cleared_release), pi_coalitionRelease = None, pi_recourse = None,
     pi_protectionBindingDigest = None, pi_evidence = None, pi_ambiguous = False, pi_ambiguousReason = None\<rparr>"

definition participant_state :: InternalState where
  "participant_state = new_state sample_run (run_directory sample_runtime sample_run) (sample_case zero_sha True) True None None False 1785000000"

lemma participant_created:
  "snd (create_fresh cleared_runtime None sample_run None True False False sample_engine_world) = Inr participant_state"
  using sample_created [of zero_sha True] sample_run_uuid
  by (simp add: create_fresh_def abind_def alift_def saveState_def external_call_def with_go_def now_ms_def participant_state_def
      sample_options_def cleared_runtime_def sample_runtime_def sample_engine_world_def sample_engine_def statePath_def assertRunId_def
      is_uuid_def writeDurableJsonAtomic_def write_trace_def state_file_def run_directory_def Let_def new_state_def)

theorem cleared_participant_case_release_throws_witness:
  "(\<exists>e. snd (release_governed cleared_runtime sample_run participant_state sample_engine_world) = Inl e)
   \<and> (\<exists>s. reconcile_release cleared_runtime participant_state [] cleared_inspection sample_engine_world = Inr (Some s)
        \<and> map_option ro_conflict (is_release s) = Some False)"
proof -
  have answer: "\<forall>args w e out. rt_decryptor cleared_runtime args w = (e, Inr out) \<longrightarrow> \<not> ro_conflict out"
    by (auto simp: cleared_runtime_def cleared_release_def)
  have "pi_release cleared_inspection = Some (ReleaseArtifact.truncate cleared_release)" "pi_releasePrivateComplete cleared_inspection"
    "\<not> ro_conflict (ReleaseArtifact.truncate cleared_release)"
    by (simp_all add: cleared_inspection_def cleared_release_def ReleaseArtifact.defs)
  from cleared_participant_case_release_throws [OF participant_created continues_refl answer this(1,3,2)]
  show ?thesis by blast
qed

subsection \<open>What a coalition release rests on\<close>

lemma coalition_settlement_committed:
  assumes "coalition_settlement rt s facts w = Inr p"
  shows "\<exists>c. readCommittedSettlementProfile (rt_sha rt) (run_view rt w) (rt_runRoot rt) (is_runId s) = Inr c
    \<and> cp_settlementProfileDigest p = cm_committedDigest c
    \<and> (if gf_conflict facts then cp_status p = EXECUTION_READY
          \<and> (\<exists>plan. deriveSettlementPlan (rt_sha rt) (cm_profile c) (cm_committedDigest c) facts = Inr plan
               \<and> cp_planHash p = Some (sa_planHash (deriveSettlementAuthorization (rt_sha rt) plan))
               \<and> cp_authorizationHash p = Some (settlementAuthorizationHash (rt_sha rt) (deriveSettlementAuthorization (rt_sha rt) plan)))
        else cp_status p = NO_CONFLICT_NO_SETTLEMENT \<and> cp_planHash p = None \<and> cp_authorizationHash p = None)"
  using assms by (auto simp: coalition_settlement_def settlementAuthorityForRun_def ebind_eq_Inr split: if_splits)

text \<open>C23: What the engine accepts as a coalition release rests on a quorum and on the earlier commitment, whether it is read in the
  release itself or when a crash is reconciled. The published result is of this case, asset, policy, binding and
  evaluation, its operators confirmed it, and the settlement projected from it names the profile that is committed for
  the run: with the policy bit the hashes of exactly the plan that profile yields for these facts, without it none.\<close>

theorem coalition_release_rests_on_quorum_and_commitment:
  assumes "verifiedCoalitionReleaseFromArtifacts rt s w = Inr v"
  shows "\<exists>m c facts. quorum_released (rt_sha rt) (rt_ed25519 rt) m (vr_result v)
    \<and> vr_coalitionAuthorityId v = thresholdManifestDigest (rt_sha rt) m
    \<and> cr_caseId (vr_result v) = pc_fheCaseId (is_protectionCase s)
    \<and> cr_assetIdentity (vr_result v) = pc_cleanverseAssetDigest (is_protectionCase s)
    \<and> cr_policyId (vr_result v) = pc_policyId (is_protectionCase s)
    \<and> map_option kg_bindingDigest (is_keygen s) = Some (cr_caseBindingDigest (vr_result v))
    \<and> map_option ev_artifactDigest (is_evaluation s) = Some (cr_evaluatedArtifactDigest (vr_result v))
    \<and> gf_conflict facts = cr_policyConflict (vr_result v) \<and> gf_runId facts = rt_keccak rt (is_runId s)
    \<and> readCommittedSettlementProfile (rt_sha rt) (run_view rt w) (rt_runRoot rt) (is_runId s) = Inr c
    \<and> cp_settlementProfileDigest (vr_coalitionSettlement v) = cm_committedDigest c
    \<and> (if cr_policyConflict (vr_result v)
        then cp_status (vr_coalitionSettlement v) = EXECUTION_READY
          \<and> (\<exists>plan. deriveSettlementPlan (rt_sha rt) (cm_profile c) (cm_committedDigest c) facts = Inr plan
               \<and> cp_planHash (vr_coalitionSettlement v) = Some (sa_planHash (deriveSettlementAuthorization (rt_sha rt) plan)))
        else cp_status (vr_coalitionSettlement v) = NO_CONFLICT_NO_SETTLEMENT
          \<and> cp_planHash (vr_coalitionSettlement v) = None \<and> cp_authorizationHash (vr_coalitionSettlement v) = None)"
proof -
  from assms obtain m bytes e where v: "verifyCoalitionEvidence (rt_sha rt) (rt_ed25519 rt) (vr_result v) m bytes (rt_keccak rt (is_runId s)) = Inr e"
      and p: "coalition_settlement rt s (ve_facts e) w = Inr (vr_coalitionSettlement v)" "vr_coalitionAuthorityId v = ve_coalitionAuthorityId e"
      and b: "cr_caseId (vr_result v) = pc_fheCaseId (is_protectionCase s)"
        "cr_assetIdentity (vr_result v) = pc_cleanverseAssetDigest (is_protectionCase s)"
        "cr_policyId (vr_result v) = pc_policyId (is_protectionCase s)"
        "Some (cr_caseBindingDigest (vr_result v)) = map_option kg_bindingDigest (is_keygen s)"
        "Some (cr_evaluatedArtifactDigest (vr_result v)) = map_option ev_artifactDigest (is_evaluation s)"
    by (auto simp: verifiedCoalitionReleaseFromArtifacts_def ebind_eq_Inr check_eq_Inr)
  from coalition_settlement_committed [OF p(1)] obtain c where
    "readCommittedSettlementProfile (rt_sha rt) (run_view rt w) (rt_runRoot rt) (is_runId s) = Inr c"
    "cp_settlementProfileDigest (vr_coalitionSettlement v) = cm_committedDigest c"
    "if gf_conflict (ve_facts e) then cp_status (vr_coalitionSettlement v) = EXECUTION_READY
          \<and> (\<exists>plan. deriveSettlementPlan (rt_sha rt) (cm_profile c) (cm_committedDigest c) (ve_facts e) = Inr plan
               \<and> cp_planHash (vr_coalitionSettlement v) = Some (sa_planHash (deriveSettlementAuthorization (rt_sha rt) plan)))
        else cp_status (vr_coalitionSettlement v) = NO_CONFLICT_NO_SETTLEMENT \<and> cp_planHash (vr_coalitionSettlement v) = None
          \<and> cp_authorizationHash (vr_coalitionSettlement v) = None"
    by (auto split: if_splits)
  with b verified_quorum [OF v] p(2) show ?thesis
    by (intro exI [of _ m] exI [of _ c] exI [of _ "ve_facts e"]) simp
qed


definition coalition_runtime :: "unit ProtectionRuntime" where
  "coalition_runtime = sample_runtime\<lparr>rt_readCoalitionResult := \<lambda>_ _. Inr (sample_release\<lparr>cr_policyConflict := False\<rparr>),
     rt_readThresholdManifest := \<lambda>_ _. Inr sample_manifest, rt_readFile := \<lambda>_ _. Inr []\<rparr>"

definition coalition_state :: InternalState where
  "coalition_state = sample_state\<lparr>is_runId := ''run'',
     is_protectionCase := (is_protectionCase sample_state)\<lparr>pc_releaseMode := COALITION_RELEASE_MODE, pc_fheCaseId := sample_digest,
       pc_cleanverseAssetDigest := sample_digest, pc_policyId := []\<rparr>,
     is_keygen := Some \<lparr>kg_bindingDigest = sample_digest, kg_protectionBindingDigest = [], kg_durationNanos = 0, kg_report = VNull\<rparr>,
     is_evaluation := Some \<lparr>ev_artifactDigest = sample_digest, ev_resultBytes = 0, ev_artifactBytes = 0, ev_durationNanos = 0\<rparr>\<rparr>"

definition coalition_world :: "unit engine_world" where
  "coalition_world = sample_engine_world\<lparr>w_env := sample_engine\<lparr>en_run := committed_disk\<rparr>\<rparr>"

lemma coalition_release_reads:
  "\<exists>v. verifiedCoalitionReleaseFromArtifacts coalition_runtime coalition_state coalition_world = Inr v
     \<and> vr_result v = sample_release\<lparr>cr_policyConflict := False\<rparr>"
proof -
  obtain e where e: "verifyCoalitionEvidence zero_sha (\<lambda>_ _ _. True) (sample_release\<lparr>cr_policyConflict := False\<rparr>) sample_manifest
      (''0x'' @ replicate 64 CHR ''0'') (zero_sha ''run'') = Inr e"
    using sample_verified_by [of "\<lambda>_ _ _. True" False] unfolding is_ok_iff by blast
  have "run_view coalition_runtime coalition_world = committed_disk"
    by (rule ext) (simp add: run_view_def coalition_world_def coalition_runtime_def sample_runtime_def sample_engine_def split: option.split)
  then have "readCommittedSettlementProfile zero_sha (run_view coalition_runtime coalition_world) ''root'' ''run''
      = Inr \<lparr>cm_profile = sample_profile, cm_committedDigest = settlementProfileDigest zero_sha sample_profile\<rparr>"
    using read_after_commit(1) [OF sample_committed] by simp
  moreover have "digestToBytes32 (''sha256:'' @ replicate 64 CHR ''0'') = Inr (''0x'' @ replicate 64 CHR ''0'')"
    by (simp add: digestToBytes32_def Let_def list_all_replicate lower_hex_def)
  moreover have "rt_sha coalition_runtime = zero_sha" "rt_ed25519 coalition_runtime = (\<lambda>_ _ _. True)" "rt_runRoot coalition_runtime = ''root''"
    "rt_keccak coalition_runtime = zero_sha" "\<And>e p. rt_readFile coalition_runtime e p = Inr []"
    "\<And>e p. rt_readCoalitionResult coalition_runtime e p = Inr (sample_release\<lparr>cr_policyConflict := False\<rparr>)"
    "\<And>e p. rt_readThresholdManifest coalition_runtime e p = Inr sample_manifest"
    by (simp_all add: coalition_runtime_def sample_runtime_def)
  moreover have "cr_assetIdentity sample_release = sample_digest" "cr_policyId sample_release = []" "cr_releaseMode sample_release = COALITION_RELEASE_MODE"
    "cr_caseBindingDigest sample_release = sample_digest" "cr_evaluatedArtifactDigest sample_release = sample_digest"
    by (simp_all add: sample_release_def COALITION_RELEASE_MODE_def)
  ultimately show ?thesis
    using e verified_quorum(2) [OF e]
    by (simp add: verifiedCoalitionReleaseFromArtifacts_def digestPublicFile_def digest_public_text_def zero_sha_def coalition_settlement_def
        coalition_state_def sample_fields)
qed

theorem coalition_release_rests_on_quorum_and_commitment_witness:
  "\<exists>v. verifiedCoalitionReleaseFromArtifacts coalition_runtime coalition_state coalition_world = Inr v
     \<and> cp_status (vr_coalitionSettlement v) = NO_CONFLICT_NO_SETTLEMENT \<and> cp_planHash (vr_coalitionSettlement v) = None"
proof -
  from coalition_release_reads obtain v where v: "verifiedCoalitionReleaseFromArtifacts coalition_runtime coalition_state coalition_world = Inr v"
    "vr_result v = sample_release\<lparr>cr_policyConflict := False\<rparr>" by blast
  then show ?thesis using coalition_release_rests_on_quorum_and_commitment [OF v(1)] by auto
qed

end
