(* ===== verification/Governed_Bridge.thy ===== *)
theory Governed_Bridge
  imports Canonical_Configuration Admission_Authorization
begin

text \<open>
  The typed payload that carries a verified governed release to the recourse adapter on chain
  (\<^verbatim>\<open>governed-recourse-bridge.ts\<close>), and the reconciliation of a live adapter with the committed artifacts
  (\<^verbatim>\<open>checkAdapterV2Compatibility\<close> and \<^verbatim>\<open>retryReadOnly\<close> of \<^verbatim>\<open>adapter-compatibility.ts\<close>).

  Parameters: \<open>keccak\<close> on texts, \<open>hashTypedData\<close> and \<open>encodeAbiParameters\<close> of the Ethereum library, and the reads of
  the chain, which are actions on a state of their own: they may answer anything, differently every time, or fail.
\<close>

subsection \<open>The payload\<close>

definition GOVERNED_BRIDGE_SCHEMA :: string where
  "GOVERNED_BRIDGE_SCHEMA = ''mordant.governed-recourse-bridge/1''"

definition RECOURSE_ADAPTER_ABI_VERSION :: string where
  "RECOURSE_ADAPTER_ABI_VERSION = ''MordantRecourseAdapter/1''"

definition RELEASE_TYPE_STRING :: string where
  "RELEASE_TYPE_STRING =
     ''GovernedRelease(bytes32 runId,bytes32 fheCaseId,bytes32 caseBindingDigest,bytes32 assetIdentityDigest,''
     @ ''bytes32 governedResultDigest,bytes32 resultCiphertextDigest,bytes32 participantArtifactDigestA,''
     @ ''bytes32 participantArtifactDigestB,address holderA,address holderB,uint256 payoutA,uint256 payoutB,''
     @ ''bool conflict,bytes32 releaseAuthorityId,bytes32 releaseMode,bytes32 circuitHash,''
     @ ''bytes32 parameterFingerprint,uint256 nonce,uint64 issuedAt,uint64 expiry)''"

definition RELEASE_TYPEHASH :: "(string \<Rightarrow> string) \<Rightarrow> string" where
  "RELEASE_TYPEHASH keccak = keccak RELEASE_TYPE_STRING"

definition GOVERNED_RELEASE_TYPES :: "(string \<times> string) list" where
  "GOVERNED_RELEASE_TYPES = [
     (''runId'', ''bytes32''), (''fheCaseId'', ''bytes32''), (''caseBindingDigest'', ''bytes32''), (''assetIdentityDigest'', ''bytes32''),
     (''governedResultDigest'', ''bytes32''), (''resultCiphertextDigest'', ''bytes32''), (''participantArtifactDigestA'', ''bytes32''),
     (''participantArtifactDigestB'', ''bytes32''), (''holderA'', ''address''), (''holderB'', ''address''), (''payoutA'', ''uint256''),
     (''payoutB'', ''uint256''), (''conflict'', ''bool''), (''releaseAuthorityId'', ''bytes32''), (''releaseMode'', ''bytes32''),
     (''circuitHash'', ''bytes32''), (''parameterFingerprint'', ''bytes32''), (''nonce'', ''uint256''), (''issuedAt'', ''uint64''),
     (''expiry'', ''uint64'')]"

definition bridge_error :: "string \<Rightarrow> merror" where
  "bridge_error code = GovernedBridgeError code"

record AdapterPins =
  pn_address :: string
  pn_chainId :: int
  pn_assetIdentityDigest :: string
  pn_releaseAuthorityId :: string
  pn_releaseMode :: string
  pn_circuitHash :: string
  pn_parameterFingerprint :: string

datatype AuthorityInterpretation = PINS_GOVERNED_AUTHORITY | PINS_SEPARATE_BRIDGE_ATTESTOR

definition SUPERSEDED_ADAPTER_ADDRESS :: string where
  "SUPERSEDED_ADAPTER_ADDRESS = ''0x27677c837287b060D285d5C90096f06fBe675938''"

definition assertProductionInterpretation :: "AuthorityInterpretation \<Rightarrow> unit result" where
  "assertProductionInterpretation interpretation =
     check (interpretation = PINS_GOVERNED_AUTHORITY) (bridge_error ''SUPERSEDED_INTERPRETATION'')"

record VerifiedGovernedRelease =
  vg_runId :: string
  vg_fheCaseId :: string
  vg_caseBindingDigest :: string
  vg_assetIdentity :: string
  vg_governedResultDigest :: string
  vg_resultCiphertextDigest :: string
  vg_participantArtifactDigests :: "string \<times> string"
  vg_circuitDigest :: string
  vg_parameterFingerprint :: string
  vg_releaseAuthorityId :: string
  vg_releaseMode :: string
  vg_conflict :: bool

record BridgeParticipants =
  bp_holderA :: string
  bp_holderB :: string
  bp_payoutA :: int
  bp_payoutB :: int

record BridgeDomain =
  bd_name :: string
  bd_version :: string
  bd_chainId :: int
  bd_verifyingContract :: string

record GovernedReleaseMessage =
  rm_runId :: string
  rm_fheCaseId :: string
  rm_caseBindingDigest :: string
  rm_assetIdentityDigest :: string
  rm_governedResultDigest :: string
  rm_resultCiphertextDigest :: string
  rm_participantArtifactDigestA :: string
  rm_participantArtifactDigestB :: string
  rm_holderA :: string
  rm_holderB :: string
  rm_payoutA :: int
  rm_payoutB :: int
  rm_conflict :: bool
  rm_releaseAuthorityId :: string
  rm_releaseMode :: string
  rm_circuitHash :: string
  rm_parameterFingerprint :: string
  rm_nonce :: int
  rm_issuedAt :: int
  rm_expiry :: int

record GovernedBridgePayload =
  gb_schemaVersion :: string
  gb_abiVersion :: string
  gb_authorityInterpretation :: AuthorityInterpretation
  gb_domain :: BridgeDomain
  gb_primaryType :: string
  gb_types :: "(string \<times> string) list"
  gb_message :: GovernedReleaseMessage

definition bridgeRunId :: "(string \<Rightarrow> string) \<Rightarrow> string \<Rightarrow> string" where
  "bridgeRunId keccak runId = keccak runId"

text \<open>A comparison that fails adds its problem; a digest that is no digest throws at once.\<close>

definition digest_problem :: "string \<Rightarrow> string \<Rightarrow> string \<Rightarrow> string list result" where
  "digest_problem pin d problem =
     ebind (digestToBytes32 d) (\<lambda>expected. Inr (if toLowerCase pin \<noteq> expected then [problem] else []))"

definition reconcileAdapter ::
  "(string \<Rightarrow> string) \<Rightarrow> VerifiedGovernedRelease \<Rightarrow> AdapterPins \<Rightarrow> AuthorityInterpretation \<Rightarrow> string list result" where
  "reconcileAdapter keccak release pins interpretation =
     ebind (digest_problem (pn_assetIdentityDigest pins) (vg_assetIdentity release)
       ''assetIdentityDigest: the adapter is pinned to a different receivable'') (\<lambda>asset.
     let mode = (if toLowerCase (pn_releaseMode pins) \<noteq> keccak (vg_releaseMode release)
       then [''releaseMode: the adapter pin is not keccak of the governed release mode''] else []) in
     ebind (digest_problem (pn_circuitHash pins) (vg_circuitDigest release)
       ''circuitHash: the adapter pin is not the governed content-derived circuit digest'') (\<lambda>circuit.
     ebind (digest_problem (pn_parameterFingerprint pins) (vg_parameterFingerprint release)
       ''parameterFingerprint: the adapter pin is not the governed content-derived fingerprint'') (\<lambda>parameters.
     ebind (if interpretation = PINS_GOVERNED_AUTHORITY
       then digest_problem (pn_releaseAuthorityId pins) (vg_releaseAuthorityId release)
         ''releaseAuthorityId: the adapter does not pin the governed Ed25519 release authority''
       else Inr []) (\<lambda>authority.
     Inr (asset @ mode @ circuit @ parameters @ authority
       @ (if toLowerCase (pn_address pins) = toLowerCase SUPERSEDED_ADAPTER_ADDRESS
          then [''address: this is the superseded adapter and must not be used''] else []))))))"

record BridgeInput =
  bi_release :: VerifiedGovernedRelease
  bi_participants :: BridgeParticipants
  bi_pins :: AdapterPins
  bi_interpretation :: AuthorityInterpretation
  bi_nonce :: int
  bi_issuedAt :: int
  bi_expiry :: int

text \<open>The message: every identifier of the release in the form of the contract, in the order of the source.\<close>

definition release_message :: "(string \<Rightarrow> string) \<Rightarrow> BridgeInput \<Rightarrow> GovernedReleaseMessage result" where
  "release_message keccak inp = (let release = bi_release inp; participants = bi_participants inp; pins = bi_pins inp in
     ebind (digestToBytes32 (vg_fheCaseId release)) (\<lambda>fheCaseId.
     ebind (digestToBytes32 (vg_caseBindingDigest release)) (\<lambda>caseBindingDigest.
     ebind (digestToBytes32 (vg_assetIdentity release)) (\<lambda>assetIdentityDigest.
     ebind (digestToBytes32 (vg_governedResultDigest release)) (\<lambda>governedResultDigest.
     ebind (digestToBytes32 (vg_resultCiphertextDigest release)) (\<lambda>resultCiphertextDigest.
     ebind (digestToBytes32 (fst (vg_participantArtifactDigests release))) (\<lambda>artifactA.
     ebind (digestToBytes32 (snd (vg_participantArtifactDigests release))) (\<lambda>artifactB.
     Inr \<lparr>rm_runId = bridgeRunId keccak (vg_runId release), rm_fheCaseId = fheCaseId, rm_caseBindingDigest = caseBindingDigest,
          rm_assetIdentityDigest = assetIdentityDigest, rm_governedResultDigest = governedResultDigest,
          rm_resultCiphertextDigest = resultCiphertextDigest, rm_participantArtifactDigestA = artifactA,
          rm_participantArtifactDigestB = artifactB, rm_holderA = bp_holderA participants, rm_holderB = bp_holderB participants,
          rm_payoutA = bp_payoutA participants, rm_payoutB = bp_payoutB participants, rm_conflict = vg_conflict release,
          rm_releaseAuthorityId = pn_releaseAuthorityId pins, rm_releaseMode = pn_releaseMode pins,
          rm_circuitHash = pn_circuitHash pins, rm_parameterFingerprint = pn_parameterFingerprint pins,
          rm_nonce = bi_nonce inp, rm_issuedAt = bi_issuedAt inp, rm_expiry = bi_expiry inp\<rparr>))))))))"

definition buildGovernedBridgePayload :: "(string \<Rightarrow> string) \<Rightarrow> BridgeInput \<Rightarrow> GovernedBridgePayload result" where
  "buildGovernedBridgePayload keccak inp = (let release = bi_release inp; participants = bi_participants inp; pins = bi_pins inp in
     ebind (reconcileAdapter keccak release pins (bi_interpretation inp)) (\<lambda>problems.
     ebind (check (\<not> length problems > 0) (bridge_error ''ADAPTER_INCOMPATIBLE'')) (\<lambda>_.
     ebind (check (\<not> (\<not> isSafeInteger (bi_issuedAt inp) \<or> \<not> isSafeInteger (bi_expiry inp) \<or> bi_expiry inp \<le> bi_issuedAt inp))
       (bridge_error ''WINDOW'')) (\<lambda>_.
     ebind (check (\<not> (\<not> vg_conflict release \<and> (bp_payoutA participants \<noteq> 0 \<or> bp_payoutB participants \<noteq> 0)))
       (bridge_error ''PAYOUT_ON_NO_CONFLICT'')) (\<lambda>_.
     ebind (check (\<not> (vg_conflict release \<and> bp_payoutA participants + bp_payoutB participants = 0))
       (bridge_error ''PAYOUT_MISSING'')) (\<lambda>_.
     ebind (release_message keccak inp) (\<lambda>message.
     Inr \<lparr>gb_schemaVersion = GOVERNED_BRIDGE_SCHEMA, gb_abiVersion = RECOURSE_ADAPTER_ABI_VERSION,
          gb_authorityInterpretation = bi_interpretation inp,
          gb_domain = \<lparr>bd_name = ''MordantRecourseAdapter'', bd_version = ''1'', bd_chainId = pn_chainId pins,
            bd_verifyingContract = pn_address pins\<rparr>,
          gb_primaryType = ''GovernedRelease'', gb_types = GOVERNED_RELEASE_TYPES, gb_message = message\<rparr>)))))))"

datatype abi_value = AbiBytes32 string | AbiAddress string | AbiUint int | AbiBool bool

text \<open>The tuple of the contract (\<^verbatim>\<open>releaseTuple\<close> of the executor).\<close>

definition releaseTuple :: "GovernedReleaseMessage \<Rightarrow> abi_value list" where
  "releaseTuple m = [
     AbiBytes32 (rm_runId m), AbiBytes32 (rm_fheCaseId m), AbiBytes32 (rm_caseBindingDigest m), AbiBytes32 (rm_assetIdentityDigest m),
     AbiBytes32 (rm_governedResultDigest m), AbiBytes32 (rm_resultCiphertextDigest m), AbiBytes32 (rm_participantArtifactDigestA m),
     AbiBytes32 (rm_participantArtifactDigestB m), AbiAddress (rm_holderA m), AbiAddress (rm_holderB m), AbiUint (rm_payoutA m),
     AbiUint (rm_payoutB m), AbiBool (rm_conflict m), AbiBytes32 (rm_releaseAuthorityId m), AbiBytes32 (rm_releaseMode m),
     AbiBytes32 (rm_circuitHash m), AbiBytes32 (rm_parameterFingerprint m), AbiUint (rm_nonce m), AbiUint (rm_issuedAt m),
     AbiUint (rm_expiry m)]"

definition STRUCT_HASH_TYPES :: "string list" where
  "STRUCT_HASH_TYPES = [''bytes32'', ''bytes32'', ''bytes32'', ''bytes32'', ''bytes32'', ''bytes32'', ''bytes32'', ''bytes32'', ''bytes32'',
     ''address'', ''address'', ''uint256'', ''uint256'', ''bool'', ''bytes32'', ''bytes32'', ''bytes32'', ''bytes32'', ''uint256'',
     ''uint64'', ''uint64'']"

definition governedReleaseStructHash ::
  "(string \<Rightarrow> string) \<Rightarrow> (string list \<Rightarrow> abi_value list \<Rightarrow> string) \<Rightarrow> GovernedBridgePayload \<Rightarrow> string" where
  "governedReleaseStructHash keccak encodeAbiParameters payload =
     keccak (encodeAbiParameters STRUCT_HASH_TYPES (AbiBytes32 (RELEASE_TYPEHASH keccak) # releaseTuple (gb_message payload)))"

subsection \<open>Reads of the chain\<close>

text \<open>A read is tried again after it failed, at most three times in all; the last error is thrown.\<close>

fun retry_loop :: "nat \<Rightarrow> ('c, 'a) action \<Rightarrow> ('c, 'a) action" where
  "retry_loop n operation c = (case operation c of
     (c', Inr x) \<Rightarrow> (c', Inr x)
   | (c', Inl e) \<Rightarrow> if n \<le> 1 then (c', Inl e) else retry_loop (n - 1) operation c')"

definition retryReadOnly :: "int \<Rightarrow> ('c, 'a) action \<Rightarrow> ('c, 'a) action" where
  "retryReadOnly attempts operation =
     (if \<not> isSafeInteger attempts \<or> attempts < 1 \<or> attempts > 3 then alift (Inl (AdapterCompatibilityError ''READ_RETRY_BOUND''))
      else retry_loop (nat attempts) operation)"

record AdapterState =
  as_address :: string
  as_chainId :: int
  as_codeHash :: string
  as_runtimeBytes :: int
  as_settlementToken :: string
  as_cviVerifier :: string
  as_attestor :: string
  as_facility :: string
  as_assetIdentityDigest :: string
  as_expectedGovernedReleaseAuthorityId :: string
  as_releaseMode :: string
  as_circuitHash :: string
  as_parameterFingerprint :: string
  as_availableReserve :: int
  as_openReserved :: int
  as_entitledUnpaid :: int
  as_tokenBalance :: int
  as_solvent :: bool
  as_domainSeparator :: string
  as_roleHolder :: int
  as_roleFacility :: int

record 'c AdapterReader =
  rd_readAdapterState :: "('c, AdapterState) action"
  rd_isEligible :: "string \<Rightarrow> string \<Rightarrow> int \<Rightarrow> ('c, bool) action"
  rd_isAssetTransferAllowed :: "string \<Rightarrow> string \<Rightarrow> string \<Rightarrow> string \<Rightarrow> int \<Rightarrow> ('c, bool) action"
  rd_hashRelease :: "GovernedBridgePayload \<Rightarrow> ('c, string) action"
  rd_resultConsumed :: "string \<Rightarrow> ('c, bool) action"
  rd_readOwner :: "('c, string) action"
  rd_readCureWindow :: "('c, int) action"
  rd_readRuntimeCode :: "('c, string) action"
  rd_simulate :: "GovernedBridgePayload \<Rightarrow> string \<Rightarrow> string \<Rightarrow> ('c, unit) action"

definition withReadOnlyRetries :: "'c AdapterReader \<Rightarrow> 'c AdapterReader" where
  "withReadOnlyRetries reader = \<lparr>
     rd_readAdapterState = retryReadOnly 3 (rd_readAdapterState reader),
     rd_isEligible = (\<lambda>verifier account role. retryReadOnly 3 (rd_isEligible reader verifier account role)),
     rd_isAssetTransferAllowed = (\<lambda>verifier asset from to x. retryReadOnly 3 (rd_isAssetTransferAllowed reader verifier asset from to x)),
     rd_hashRelease = (\<lambda>payload. retryReadOnly 3 (rd_hashRelease reader payload)),
     rd_resultConsumed = (\<lambda>digest. retryReadOnly 3 (rd_resultConsumed reader digest)),
     rd_readOwner = retryReadOnly 3 (rd_readOwner reader),
     rd_readCureWindow = retryReadOnly 3 (rd_readCureWindow reader),
     rd_readRuntimeCode = retryReadOnly 3 (rd_readRuntimeCode reader),
     rd_simulate = (\<lambda>payload signature account. retryReadOnly 3 (rd_simulate reader payload signature account))\<rparr>"

subsection \<open>The committed artifacts and the live adapter\<close>

record CanonicalAdapterV2 =
  ca_address :: string
  ca_chainId :: int
  ca_codeHash :: string
  ca_runtimeBytes :: int
  ca_settlementToken :: string
  ca_cviVerifier :: string
  ca_attestor :: string
  ca_facility :: string
  ca_assetIdentityDigest :: string
  ca_releaseAuthorityId :: string
  ca_releaseMode :: string
  ca_circuitHash :: string
  ca_parameterFingerprint :: string
  ca_availableReserve :: int
  ca_openReserved :: int
  ca_entitledUnpaid :: int
  ca_tokenBalance :: int
  ca_solvent :: bool
  ca_domainSeparator :: string
  ca_roleHolder :: int
  ca_roleFacility :: int
  ca_cureWindowSeconds :: int

record EncodingVector =
  vc_nonce :: int
  vc_issuedAt :: int
  vc_expiry :: int
  vc_typedDataDigest :: string
  vc_structHash :: string
  vc_domainSeparator :: string

record CanonicalRecourseBridgeArtifacts =
  cb_configuration :: CanonicalRecourseConfiguration
  cb_adapter :: CanonicalAdapterV2
  cb_expectedSourceCommit :: string
  cb_release :: VerifiedGovernedRelease
  cb_encodingVector :: EncodingVector

record AdapterCompatibilityInput =
  ci_release :: VerifiedGovernedRelease
  ci_nonce :: int
  ci_issuedAt :: int
  ci_expiry :: int

record AdapterCompatibilityCheck =
  cc_adapter :: AdapterState
  cc_payload :: GovernedBridgePayload
  cc_typedDataDigest :: string
  cc_structHash :: string

definition adapterMismatch :: merror where
  "adapterMismatch = AdapterCompatibilityError ''ADAPTER_INCOMPATIBLE''"

definition same_hex :: "string \<Rightarrow> string \<Rightarrow> bool" where
  "same_hex a b \<longleftrightarrow> toLowerCase a = toLowerCase b"

text \<open>\<^verbatim>\<open>requireStateAddress\<close> and \<^verbatim>\<open>requireStateHex\<close> are one comparison.\<close>

definition requireState :: "string \<Rightarrow> string \<Rightarrow> unit result" where
  "requireState actual expected = check (same_hex actual expected) adapterMismatch"

definition assert_adapter_state :: "AdapterState \<Rightarrow> CanonicalAdapterV2 \<Rightarrow> unit result" where
  "assert_adapter_state s x =
     ebind (requireState (as_address s) (ca_address x)) (\<lambda>_.
     ebind (check (\<not> (as_chainId s \<noteq> MONAD_TESTNET_CHAIN_ID \<or> as_chainId s \<noteq> ca_chainId x)) adapterMismatch) (\<lambda>_.
     ebind (requireState (as_codeHash s) (ca_codeHash x)) (\<lambda>_.
     ebind (check (as_runtimeBytes s = ca_runtimeBytes x) adapterMismatch) (\<lambda>_.
     ebind (requireState (as_settlementToken s) (ca_settlementToken x)) (\<lambda>_.
     ebind (requireState (as_cviVerifier s) (ca_cviVerifier x)) (\<lambda>_.
     ebind (requireState (as_attestor s) (ca_attestor x)) (\<lambda>_.
     ebind (requireState (as_facility s) (ca_facility x)) (\<lambda>_.
     ebind (requireState (as_assetIdentityDigest s) (ca_assetIdentityDigest x)) (\<lambda>_.
     ebind (requireState (as_expectedGovernedReleaseAuthorityId s) (ca_releaseAuthorityId x)) (\<lambda>_.
     ebind (requireState (as_releaseMode s) (ca_releaseMode x)) (\<lambda>_.
     ebind (requireState (as_circuitHash s) (ca_circuitHash x)) (\<lambda>_.
     ebind (requireState (as_parameterFingerprint s) (ca_parameterFingerprint x)) (\<lambda>_.
     ebind (requireState (as_domainSeparator s) (ca_domainSeparator x)) (\<lambda>_.
     ebind (check (as_roleHolder s = ca_roleHolder x) adapterMismatch) (\<lambda>_.
     ebind (check (as_roleFacility s = ca_roleFacility x) adapterMismatch) (\<lambda>_.
     ebind (check (\<not> (\<not> as_solvent s \<or> as_tokenBalance s < as_availableReserve s + as_openReserved s + as_entitledUnpaid s))
       (AdapterCompatibilityError ''INSOLVENT'')) (\<lambda>_.
     check (\<not> (as_availableReserve s \<noteq> ca_availableReserve x \<or> as_openReserved s \<noteq> ca_openReserved x
       \<or> as_entitledUnpaid s \<noteq> ca_entitledUnpaid x \<or> as_tokenBalance s \<noteq> ca_tokenBalance x)) adapterMismatch)))))))))))))))))"

definition assert_participants :: "CanonicalRecourseConfiguration \<Rightarrow> unit result" where
  "assert_participants c =
     ebind (check (\<not> same_hex (cn_holderA c) (cn_holderB c)) (AdapterCompatibilityError ''CANONICAL_PARTICIPANTS'')) (\<lambda>_.
     check (\<not> list_ex (\<lambda>e. same_hex e (cn_holderA c) \<or> same_hex e (cn_holderB c)) [cn_negativeControl c, cn_uncontrolledApassWallet c])
       (AdapterCompatibilityError ''CANONICAL_EXCLUDED_PARTICIPANT''))"

definition pins_of :: "AdapterState \<Rightarrow> AdapterPins" where
  "pins_of s = \<lparr>pn_address = as_address s, pn_chainId = as_chainId s, pn_assetIdentityDigest = as_assetIdentityDigest s,
     pn_releaseAuthorityId = as_expectedGovernedReleaseAuthorityId s, pn_releaseMode = as_releaseMode s,
     pn_circuitHash = as_circuitHash s, pn_parameterFingerprint = as_parameterFingerprint s\<rparr>"

definition participants_of :: "CanonicalRecourseConfiguration \<Rightarrow> BridgeParticipants" where
  "participants_of c = \<lparr>bp_holderA = cn_holderA c, bp_holderB = cn_holderB c, bp_payoutA = cn_payoutA c, bp_payoutB = cn_payoutB c\<rparr>"

text \<open>The Ethereum library of the bridge.\<close>

record bridge_crypto =
  bc_keccak :: "string \<Rightarrow> string"
  bc_encodeAbiParameters :: "string list \<Rightarrow> abi_value list \<Rightarrow> string"
  bc_hashTypedData :: "BridgeDomain \<Rightarrow> (string \<times> string) list \<Rightarrow> string \<Rightarrow> GovernedReleaseMessage \<Rightarrow> string"
  bc_recoverAddress :: "string \<Rightarrow> string \<Rightarrow> string result"
  bc_getAddress :: "string \<Rightarrow> string option"

definition typed_data_digest :: "bridge_crypto \<Rightarrow> GovernedBridgePayload \<Rightarrow> string" where
  "typed_data_digest lib p = bc_hashTypedData lib (gb_domain p) (gb_types p) (gb_primaryType p) (gb_message p)"

text \<open>The eligibility of the canonical wallets and the two payout transfers, read from the verifier of the adapter.\<close>

definition read_eligibility :: "'c AdapterReader \<Rightarrow> AdapterState \<Rightarrow> CanonicalRecourseConfiguration \<Rightarrow> ('c, unit) action" where
  "read_eligibility reader s c =
     abind (rd_isEligible reader (as_cviVerifier s) (cn_holderA c) (as_roleHolder s)) (\<lambda>holderA.
     abind (rd_isEligible reader (as_cviVerifier s) (cn_holderB c) (as_roleHolder s)) (\<lambda>holderB.
     abind (rd_isEligible reader (as_cviVerifier s) (as_facility s) (as_roleFacility s)) (\<lambda>facility.
     abind (rd_isEligible reader (as_cviVerifier s) (cn_negativeControl c) (as_roleHolder s)) (\<lambda>negativeControl.
     abind (rd_isEligible reader (as_cviVerifier s) (cn_uncontrolledApassWallet c) (as_roleHolder s)) (\<lambda>uncontrolled.
     abind (rd_isAssetTransferAllowed reader (as_cviVerifier s) (as_settlementToken s) (as_address s) (cn_holderA c) (cn_payoutA c)) (\<lambda>transferA.
     abind (rd_isAssetTransferAllowed reader (as_cviVerifier s) (as_settlementToken s) (as_address s) (cn_holderB c) (cn_payoutB c)) (\<lambda>transferB.
     abind (alift (check (\<not> (\<not> holderA \<or> \<not> holderB)) (AdapterCompatibilityError ''PARTICIPANT_INELIGIBLE''))) (\<lambda>_.
     abind (alift (check facility (AdapterCompatibilityError ''FACILITY_INELIGIBLE''))) (\<lambda>_.
     abind (alift (check (\<not> negativeControl) (AdapterCompatibilityError ''NEGATIVE_CONTROL_ELIGIBLE''))) (\<lambda>_.
     abind (alift (check uncontrolled (AdapterCompatibilityError ''UNCONTROLLED_APASS_INELIGIBLE''))) (\<lambda>_.
     alift (check (\<not> (\<not> transferA \<or> \<not> transferB)) (AdapterCompatibilityError ''TRANSFER_POLICY'')))))))))))))"

definition checkAdapterV2Compatibility ::
  "bridge_crypto \<Rightarrow> 'c AdapterReader \<Rightarrow> CanonicalRecourseBridgeArtifacts \<Rightarrow> AdapterCompatibilityInput
     \<Rightarrow> ('c, AdapterCompatibilityCheck) action" where
  "checkAdapterV2Compatibility lib reader canonical inp =
     abind (rd_readAdapterState reader) (\<lambda>state.
     abind (alift (assert_adapter_state state (cb_adapter canonical))) (\<lambda>_.
     abind (alift (assert_participants (cb_configuration canonical))) (\<lambda>_.
     abind (read_eligibility reader state (cb_configuration canonical)) (\<lambda>_.
     abind (alift (buildGovernedBridgePayload (bc_keccak lib) \<lparr>bi_release = ci_release inp,
       bi_participants = participants_of (cb_configuration canonical), bi_pins = pins_of state,
       bi_interpretation = PINS_GOVERNED_AUTHORITY, bi_nonce = ci_nonce inp, bi_issuedAt = ci_issuedAt inp, bi_expiry = ci_expiry inp\<rparr>)) (\<lambda>payload.
     let typedDataDigest = typed_data_digest lib payload;
         structHash = governedReleaseStructHash (bc_keccak lib) (bc_encodeAbiParameters lib) payload in
     abind (rd_hashRelease reader payload) (\<lambda>onChainDigest.
     abind (rd_resultConsumed reader (rm_governedResultDigest (gb_message payload))) (\<lambda>consumed.
     abind (alift (check (\<not> consumed) (AdapterCompatibilityError ''RESULT_CONSUMED''))) (\<lambda>_.
     abind (alift (check (same_hex onChainDigest typedDataDigest) (AdapterCompatibilityError ''DIGEST_MISMATCH''))) (\<lambda>_.
     alift (Inr \<lparr>cc_adapter = state, cc_payload = payload, cc_typedDataDigest = typedDataDigest, cc_structHash = structHash\<rparr>))))))))))"

subsection \<open>The encodings of a release agree\<close>

text \<open>The type string of a structure in the standard of typed data: the name and the members, in order.\<close>

fun member_list :: "(string \<times> string) list \<Rightarrow> string" where
  "member_list [] = []"
| "member_list [(name, type)] = type @ '' '' @ name"
| "member_list ((name, type) # rest) = type @ '' '' @ name @ '','' @ member_list rest"

definition encode_type :: "string \<Rightarrow> (string \<times> string) list \<Rightarrow> string" where
  "encode_type primaryType members = primaryType @ ''('' @ member_list members @ '')''"

fun abi_typed :: "string \<Rightarrow> abi_value \<Rightarrow> bool" where
  "abi_typed t (AbiBytes32 _) \<longleftrightarrow> t = ''bytes32''"
| "abi_typed t (AbiAddress _) \<longleftrightarrow> t = ''address''"
| "abi_typed t (AbiUint _) \<longleftrightarrow> t = ''uint256'' \<or> t = ''uint64''"
| "abi_typed t (AbiBool _) \<longleftrightarrow> t = ''bool''"

lemma releaseTuple_inject: "releaseTuple m = releaseTuple m' \<Longrightarrow> m = m'"
  by (cases m; cases m') (simp add: releaseTuple_def)


subsection \<open>Bounded retries\<close>

text \<open>The state of the chain after a number of attempts.\<close>

definition after_attempts :: "('c, 'a) action \<Rightarrow> nat \<Rightarrow> 'c \<Rightarrow> 'c" where
  "after_attempts operation k c = ((\<lambda>c. fst (operation c)) ^^ k) c"

lemma retry_loop_attempts:
  "1 \<le> n \<Longrightarrow> \<exists>k < n. retry_loop n operation c = operation (after_attempts operation k c)
     \<and> (\<forall>j < k. \<not> is_ok (snd (operation (after_attempts operation j c)))) \<and> (k + 1 < n \<longrightarrow> is_ok (snd (retry_loop n operation c)))"
proof (induction n arbitrary: c)
  case (Suc n)
  obtain c' r where op: "operation c = (c', r)" by fastforce
  show ?case
  proof (cases "n = 0 \<or> is_ok r")
    case True
    then show ?thesis using op by (cases r) (auto simp: after_attempts_def is_ok_iff intro!: exI [of _ 0])
  next
    case False
    then obtain e where r: "r = Inl e" by (cases r) (auto simp: is_ok_iff)
    have loop: "retry_loop (Suc n) operation c = retry_loop n operation c'" using op r False by simp
    have shift: "after_attempts operation (Suc k) c = after_attempts operation k c'" for k
      by (simp add: after_attempts_def funpow_Suc_right op del: funpow.simps)
    from False have "1 \<le> n" by simp
    from Suc.IH [OF this, of c'] obtain k where k: "k < n" "retry_loop n operation c' = operation (after_attempts operation k c')"
      "\<forall>j < k. \<not> is_ok (snd (operation (after_attempts operation j c')))" "k + 1 < n \<longrightarrow> is_ok (snd (retry_loop n operation c'))" by blast
    have "\<not> is_ok (snd (operation (after_attempts operation j c)))" if "j < Suc k" for j
      using that k(3) shift op r by (cases j) (auto simp: after_attempts_def is_ok_iff)
    then show ?thesis using k loop shift by (intro exI [of _ "Suc k"]) (simp del: retry_loop.simps)
  qed
qed simp

text \<open>C32: A read of the chain always ends: it is attempted at most three times whatever it answers, each attempt follows
  failures only, it stops at the first good answer, and what it returns is what the last attempt returned. A number of
  attempts outside one to three is refused before the first attempt.\<close>

theorem retries_are_bounded:
  "if 1 \<le> n \<and> n \<le> 3
   then \<exists>k. k < nat n \<and> retryReadOnly n operation c = operation (after_attempts operation k c)
     \<and> (\<forall>j < k. \<not> is_ok (snd (operation (after_attempts operation j c))))
     \<and> (k + 1 < nat n \<longrightarrow> is_ok (snd (retryReadOnly n operation c)))
   else retryReadOnly n operation c = (c, Inl (AdapterCompatibilityError ''READ_RETRY_BOUND''))"
proof (cases "1 \<le> n \<and> n \<le> 3")
  case True
  then have "retryReadOnly n operation = retry_loop (nat n) operation" and "1 \<le> nat n"
    by (auto simp: retryReadOnly_def isSafeInteger_def MAX_SAFE_INTEGER_def)
  with True retry_loop_attempts [OF this(2), of operation c] show ?thesis by (simp only: if_True simp_thms)
qed (auto simp: retryReadOnly_def)

text \<open>A read that fails once and then answers.\<close>

definition flaky_read :: "(nat, nat) action" where
  "flaky_read c = (c + 1, if c = 0 then Inl (BridgeExecutionError ''RPC'') else Inr c)"

theorem retries_are_bounded_witness:
  "retryReadOnly 3 flaky_read 0 = (2, Inr 1)
   \<and> (\<exists>k < 3. retryReadOnly 3 flaky_read 0 = flaky_read (after_attempts flaky_read k 0))
   \<and> retryReadOnly 4 flaky_read 0 = (0, Inl (AdapterCompatibilityError ''READ_RETRY_BOUND''))"
proof -
  have "retryReadOnly 3 flaky_read 0 = (2, Inr 1)"
    by (simp add: retryReadOnly_def flaky_read_def isSafeInteger_def MAX_SAFE_INTEGER_def)
  then show ?thesis
    using retries_are_bounded [of 3 flaky_read 0] retries_are_bounded [of 4 flaky_read 0] by auto
qed

end
