(* ===== verification/Bridge_Executor.thy ===== *)
theory Bridge_Executor
  imports Governed_Bridge Settlement_Store
begin

text \<open>
  The bridge executor (\<^verbatim>\<open>bridge-executor.ts\<close>): preparation of a release against the live adapter, the simulation
  that produces a permit, the signing that consumes it and leaves one durable record per governed result, and the
  reconciliation of a receipt. Submission is a gate that always fails.

  The executor keeps its prepared, simulated and signed objects in weak maps keyed by object identity; an object is a
  number here, and what the executor issued under it is in the map of its kind. The record directory is a map from
  paths to values; a record is linked into place complete, so it is never torn by this code.
\<close>

subsection \<open>Prepared releases and durable records\<close>

definition BRIDGE_EXECUTION_SCHEMA :: string where
  "BRIDGE_EXECUTION_SCHEMA = ''mordant.bridge-execution/2''"

definition BRIDGE_SIMULATION_MAX_AGE_SECONDS :: int where
  "BRIDGE_SIMULATION_MAX_AGE_SECONDS = 30"

definition execution_error :: "string \<Rightarrow> merror" where
  "execution_error code = BridgeExecutionError code"

definition bridgeError :: "merror \<Rightarrow> string \<Rightarrow> merror" where
  "bridgeError e fallbackCode = (case e of
     BridgeExecutionError code \<Rightarrow> e
   | AdapterCompatibilityError code \<Rightarrow> BridgeExecutionError code
   | _ \<Rightarrow> BridgeExecutionError fallbackCode)"

text \<open>A step whose errors are rethrown as errors of the executor.\<close>

definition catching :: "string \<Rightarrow> ('s, 'a) action \<Rightarrow> ('s, 'a) action" where
  "catching fallbackCode m s = (case m s of (s', Inl e) \<Rightarrow> (s', Inl (bridgeError e fallbackCode)) | (s', Inr x) \<Rightarrow> (s', Inr x))"

record BridgeConfiguration =
  bg_rpcUrl :: string
  bg_adapterAddress :: string

type_synonym SettlementAuthorityInput = "SettlementAuthorization \<times> SettlementPlan"

record 'ev PrepareInput =
  pp_evidence :: 'ev
  pp_nonce :: int
  pp_issuedAt :: int
  pp_expiry :: int
  pp_settlement :: "SettlementAuthorityInput option"

record PreparedBridge =
  pb_payload :: GovernedBridgePayload
  pb_typedDataDigest :: string
  pb_structHash :: string
  pb_intentDigest :: string
  pb_adapter :: AdapterState
  pb_signerAddress :: string

record PreparedState =
  ps_prepared :: PreparedBridge
  ps_settlement :: "SettlementAuthorityInput option"

record SimulationState =
  ss_prepared :: PreparedBridge
  ss_signature :: string
  ss_simulatedAtUnix :: int

definition intentDigestOf :: "(string \<Rightarrow> string) \<Rightarrow> string \<Rightarrow> int \<Rightarrow> string \<Rightarrow> string \<Rightarrow> string \<Rightarrow> string" where
  "intentDigestOf sha adapter chainId typedDataDigest signer resultDigest =
     ''0x'' @ sha (''MordantBridgeIntent/v2'' @ [CHR 0x00] @ stringify (JObj [
       (''adapter'', JStr (toLowerCase adapter)), (''chainId'', JNum chainId),
       (''governedResultDigest'', JStr (toLowerCase resultDigest)), (''signer'', JStr (toLowerCase signer)),
       (''typedDataDigest'', JStr (toLowerCase typedDataDigest))]))"

definition assertConfiguredCanonicalAdapter :: "BridgeConfiguration \<Rightarrow> CanonicalRecourseBridgeArtifacts \<Rightarrow> unit result" where
  "assertConfiguredCanonicalAdapter configuration canonical =
     ebind (check (same_hex (bg_adapterAddress configuration) (ca_address (cb_adapter canonical))) (execution_error ''ADAPTER_MISMATCH'')) (\<lambda>_.
     check (ca_chainId (cb_adapter canonical) = MONAD_TESTNET_CHAIN_ID) (execution_error ''CHAIN_MISMATCH''))"

record BridgeOperationRecord =
  br_schemaVersion :: string
  br_governedResultDigest :: string
  br_adapterAddress :: string
  br_chainId :: int
  br_signerAddress :: string
  br_typedDataDigest :: string
  br_structHash :: string
  br_intentDigest :: string
  br_signature :: string
  br_preparedAtUnix :: int

definition BRIDGE_RECORD_FIELDS :: "string list" where
  "BRIDGE_RECORD_FIELDS = [''schemaVersion'', ''governedResultDigest'', ''adapterAddress'', ''chainId'', ''signerAddress'',
     ''typedDataDigest'', ''structHash'', ''intentDigest'', ''signature'', ''preparedAtUnix'', ''submitted'', ''transactionHash'']"

text \<open>The document that is written; \<open>submitted\<close> and \<open>transactionHash\<close> are constants of the type.\<close>

definition record_value :: "BridgeOperationRecord \<Rightarrow> jsval" where
  "record_value r = VObject ObjectPrototype [
     (''schemaVersion'', VString (br_schemaVersion r)), (''governedResultDigest'', VString (br_governedResultDigest r)),
     (''adapterAddress'', VString (br_adapterAddress r)), (''chainId'', VNumber (NInt (br_chainId r))),
     (''signerAddress'', VString (br_signerAddress r)), (''typedDataDigest'', VString (br_typedDataDigest r)),
     (''structHash'', VString (br_structHash r)), (''intentDigest'', VString (br_intentDigest r)),
     (''signature'', VString (br_signature r)), (''preparedAtUnix'', VNumber (NInt (br_preparedAtUnix r))),
     (''submitted'', VBool False), (''transactionHash'', VNull)]"

definition recordFailure :: merror where
  "recordFailure = execution_error ''RECORD_INVALID''"

definition canonicalRecordHex :: "jsval \<Rightarrow> nat \<Rightarrow> string result" where
  "canonicalRecordHex v bytes = (case v of
     VString s \<Rightarrow> if fixed_regex (lit ''0x'' @ replicate (2 * bytes) lower_hex) s then Inr s else Inl recordFailure
   | _ \<Rightarrow> Inl recordFailure)"

definition canonicalRecordAddress :: "(string \<Rightarrow> string option) \<Rightarrow> jsval \<Rightarrow> string result" where
  "canonicalRecordAddress getAddress v = (case v of
     VString s \<Rightarrow> if \<not> fixed_regex ADDRESS_ANY s then Inl recordFailure
       else (case getAddress s of None \<Rightarrow> Inl recordFailure | Some parsed \<Rightarrow> if parsed \<noteq> s then Inl recordFailure else Inr parsed)
   | _ \<Rightarrow> Inl recordFailure)"

definition canonicalRecordInteger :: "jsval \<Rightarrow> int \<Rightarrow> int result" where
  "canonicalRecordInteger v minimum = (case v of
     VNumber (NInt i) \<Rightarrow> if \<not> isSafeInteger i \<or> i < minimum then Inl recordFailure else Inr i
   | VNumber NNegZero \<Rightarrow> if 0 < minimum then Inl recordFailure else Inr 0
   | _ \<Rightarrow> Inl recordFailure)"

definition is_js_object :: "jsval \<Rightarrow> bool" where
  "is_js_object v = (case v of VObject _ _ \<Rightarrow> True | _ \<Rightarrow> False)"

definition parseBridgeOperationRecord :: "(string \<Rightarrow> string option) \<Rightarrow> jsval \<Rightarrow> string \<Rightarrow> BridgeOperationRecord result" where
  "parseBridgeOperationRecord getAddress raw expectedDigest =
     ebind (check (is_js_object raw) recordFailure) (\<lambda>_.
     ebind (check (sort (own_keys raw) = sort BRIDGE_RECORD_FIELDS) recordFailure) (\<lambda>_.
     ebind (check (js_member raw ''schemaVersion'' = VString BRIDGE_EXECUTION_SCHEMA) recordFailure) (\<lambda>_.
     ebind (canonicalRecordHex (js_member raw ''governedResultDigest'') 32) (\<lambda>resultDigest.
     ebind (canonicalRecordHex (VString expectedDigest) 32) (\<lambda>requestedDigest.
     ebind (check (resultDigest = requestedDigest) recordFailure) (\<lambda>_.
     ebind (canonicalRecordHex (js_member raw ''signature'') 65) (\<lambda>signature.
     ebind (check (\<not> (js_member raw ''submitted'' \<noteq> VBool False \<or> js_member raw ''transactionHash'' \<noteq> VNull)) recordFailure) (\<lambda>_.
     ebind (canonicalRecordInteger (js_member raw ''chainId'') 1) (\<lambda>chainId.
     ebind (check (chainId = MONAD_TESTNET_CHAIN_ID) recordFailure) (\<lambda>_.
     ebind (canonicalRecordAddress getAddress (js_member raw ''adapterAddress'')) (\<lambda>adapterAddress.
     ebind (canonicalRecordAddress getAddress (js_member raw ''signerAddress'')) (\<lambda>signerAddress.
     ebind (canonicalRecordHex (js_member raw ''typedDataDigest'') 32) (\<lambda>typedDataDigest.
     ebind (canonicalRecordHex (js_member raw ''structHash'') 32) (\<lambda>structHash.
     ebind (canonicalRecordHex (js_member raw ''intentDigest'') 32) (\<lambda>intentDigest.
     ebind (canonicalRecordInteger (js_member raw ''preparedAtUnix'') 0) (\<lambda>preparedAtUnix.
     Inr \<lparr>br_schemaVersion = BRIDGE_EXECUTION_SCHEMA, br_governedResultDigest = resultDigest, br_adapterAddress = adapterAddress,
          br_chainId = chainId, br_signerAddress = signerAddress, br_typedDataDigest = typedDataDigest, br_structHash = structHash,
          br_intentDigest = intentDigest, br_signature = signature, br_preparedAtUnix = preparedAtUnix\<rparr>))))))))))))))))"

definition bridgeRecordPath :: "string \<Rightarrow> string \<Rightarrow> string result" where
  "bridgeRecordPath runRoot resultDigest =
     ebind (canonicalRecordHex (VString resultDigest) 32) (\<lambda>digest.
     Inr (runRoot @ ''/bridge/'' @ drop 2 digest @ ''.json''))"

definition readBridgeRecord ::
  "(string \<Rightarrow> string option) \<Rightarrow> jsval disk \<Rightarrow> string \<Rightarrow> string \<Rightarrow> BridgeOperationRecord option result" where
  "readBridgeRecord getAddress fs runRoot resultDigest =
     ebind (bridgeRecordPath runRoot resultDigest) (\<lambda>path.
     case fs path of
       None \<Rightarrow> Inr None
     | Some Torn \<Rightarrow> Inl recordFailure
     | Some (Whole raw) \<Rightarrow> ebind (parseBridgeOperationRecord getAddress raw resultDigest) (\<lambda>r. Inr (Some r)))"

subsection \<open>Preparation\<close>

record 'c SigningCapability =
  sc_signerAddress :: string
  sc_sign :: "GovernedBridgePayload \<Rightarrow> ('c, string) action"

record ('c, 'ev) BridgeDependencies =
  bx_sha :: "string \<Rightarrow> string"
  bx_lib :: bridge_crypto
  bx_configuration :: BridgeConfiguration
  bx_reader :: "'c AdapterReader"
  bx_runRoot :: string
  bx_now :: "('c, int) action"
  bx_loadCanonical :: "('c, CanonicalRecourseBridgeArtifacts) action"
  bx_verifyEvidence :: "'ev \<Rightarrow> CanonicalRecourseBridgeArtifacts \<Rightarrow> VerifiedGovernedRelease result"
  bx_loadSigner :: "('c, 'c SigningCapability) action"

definition prepared_of :: "(string \<Rightarrow> string) \<Rightarrow> AdapterCompatibilityCheck \<Rightarrow> string \<Rightarrow> PreparedBridge" where
  "prepared_of sha checked signer = \<lparr>pb_payload = cc_payload checked, pb_typedDataDigest = cc_typedDataDigest checked,
     pb_structHash = cc_structHash checked,
     pb_intentDigest = intentDigestOf sha (as_address (cc_adapter checked)) (as_chainId (cc_adapter checked)) (cc_typedDataDigest checked)
       signer (rm_governedResultDigest (gb_message (cc_payload checked))),
     pb_adapter = cc_adapter checked, pb_signerAddress = signer\<rparr>"

definition buildPrepared :: "('c, 'ev) BridgeDependencies \<Rightarrow> 'ev PrepareInput \<Rightarrow> ('c, PreparedState) action" where
  "buildPrepared deps inp =
     abind (catching ''CANONICAL_LOAD'' (bx_loadCanonical deps)) (\<lambda>canonical.
     abind (alift (assertConfiguredCanonicalAdapter (bx_configuration deps) canonical)) (\<lambda>_.
     abind (catching ''GOVERNED_EVIDENCE'' (alift (bx_verifyEvidence deps (pp_evidence inp) canonical))) (\<lambda>release.
     abind (catching ''ADAPTER_READ'' (checkAdapterV2Compatibility (bx_lib deps) (withReadOnlyRetries (bx_reader deps)) canonical
       \<lparr>ci_release = release, ci_nonce = pp_nonce inp, ci_issuedAt = pp_issuedAt inp, ci_expiry = pp_expiry inp\<rparr>)) (\<lambda>checked.
     alift (Inr \<lparr>ps_prepared = prepared_of (bx_sha deps) checked (ca_attestor (cb_adapter canonical)), ps_settlement = pp_settlement inp\<rparr>)))))"

subsection \<open>The executor\<close>

record SignedBridge =
  sg_prepared :: PreparedBridge
  sg_signature :: string
  sg_record :: BridgeOperationRecord
  sg_newlySigned :: bool

text \<open>The simulations that are waiting for an answer are kept as the state they looked up when they were called.\<close>

record 'c bridge_world =
  bw_chain :: 'c
  bw_records :: "jsval disk"
  bw_prepared :: "nat \<rightharpoonup> PreparedState"
  bw_waiting :: "(nat \<times> PreparedState) list"
  bw_simulations :: "nat \<rightharpoonup> SimulationState"
  bw_signed :: "nat \<rightharpoonup> SignedBridge"
  bw_next :: nat

definition on_chain :: "('c, 'a) action \<Rightarrow> ('c bridge_world, 'a) action" where
  "on_chain m w = (case m (bw_chain w) of (c, r) \<Rightarrow> (w\<lparr>bw_chain := c\<rparr>, r))"

definition issue_prepared :: "PreparedState \<Rightarrow> ('c bridge_world, nat) action" where
  "issue_prepared st w = (w\<lparr>bw_prepared := (bw_prepared w)(bw_next w \<mapsto> st), bw_next := bw_next w + 1\<rparr>, Inr (bw_next w))"

definition prepare :: "('c, 'ev) BridgeDependencies \<Rightarrow> 'ev PrepareInput \<Rightarrow> ('c bridge_world, nat) action" where
  "prepare deps inp = abind (on_chain (buildPrepared deps inp)) issue_prepared"

text \<open>\<^verbatim>\<open>prepareDirect\<close>: what \<^verbatim>\<open>buildPreparedDirect\<close> returns is an argument; the executor treats it like any other preparation.\<close>

definition prepareDirect ::
  "('c, PreparedBridge) action \<Rightarrow> SettlementAuthorityInput option \<Rightarrow> ('c bridge_world, nat) action" where
  "prepareDirect buildPreparedDirect settlement =
     abind (on_chain buildPreparedDirect) (\<lambda>prepared. issue_prepared \<lparr>ps_prepared = prepared, ps_settlement = settlement\<rparr>)"

definition validSignature :: "string \<Rightarrow> bool" where
  "validSignature signature = fixed_regex (lit ''0x'' @ replicate 130 any_hex) signature"

definition release_facts :: "PreparedBridge \<Rightarrow> AuthorizedReleaseFacts" where
  "release_facts p = (let m = gb_message (pb_payload p) in
     \<lparr>rf_adapter = as_address (pb_adapter p), rf_chainId = as_chainId (pb_adapter p), rf_governedResultDigest = rm_governedResultDigest m,
      rf_runId = rm_runId m, rf_holderA = rm_holderA m, rf_holderB = rm_holderB m, rf_payoutA = rm_payoutA m, rf_payoutB = rm_payoutB m,
      rf_conflict = rm_conflict m\<rparr>)"

definition failing_as :: "string \<Rightarrow> ('s, 'a) action \<Rightarrow> ('s, 'a) action" where
  "failing_as code m s = (case m s of (s', Inl e) \<Rightarrow> (s', Inl (execution_error code)) | (s', Inr x) \<Rightarrow> (s', Inr x))"

definition simulation_candidate :: "('c, 'ev) BridgeDependencies \<Rightarrow> PreparedState \<Rightarrow> ('c, string \<times> int) action" where
  "simulation_candidate deps st =
     abind (alift (simulate_settlement_gate (bx_sha deps) (ps_settlement st) (release_facts (ps_prepared st)))) (\<lambda>_.
     abind (catching ''ATTESTOR_KEY_INVALID'' (bx_loadSigner deps)) (\<lambda>signing.
     abind (alift (check (same_hex (sc_signerAddress signing) (pb_signerAddress (ps_prepared st))) (execution_error ''SIGNER_MISMATCH''))) (\<lambda>_.
     abind (failing_as ''SIGNATURE_FAILED'' (sc_sign signing (pb_payload (ps_prepared st)))) (\<lambda>signature.
     abind (alift (check (validSignature signature) (execution_error ''SIGNATURE_FORMAT''))) (\<lambda>_.
     abind (failing_as ''SIMULATION_FAILED'' (rd_simulate (withReadOnlyRetries (bx_reader deps)) (pb_payload (ps_prepared st)) signature
       (sc_signerAddress signing))) (\<lambda>_.
     abind (bx_now deps) (\<lambda>simulatedAt. alift (Inr (signature, simulatedAt)))))))))"

text \<open>The end of a simulation: the preparation is spent and a permit is issued.\<close>

definition issue_permit :: "nat \<Rightarrow> PreparedState \<Rightarrow> string \<times> int \<Rightarrow> ('c bridge_world, nat) action" where
  "issue_permit h st x w =
     (w\<lparr>bw_prepared := (bw_prepared w)(h := None),
        bw_simulations := (bw_simulations w)(bw_next w \<mapsto>
          \<lparr>ss_prepared = ps_prepared st, ss_signature = fst x, ss_simulatedAtUnix = snd x\<rparr>),
        bw_next := bw_next w + 1\<rparr>, Inr (bw_next w))"

definition simulate_from :: "('c, 'ev) BridgeDependencies \<Rightarrow> nat \<Rightarrow> PreparedState \<Rightarrow> ('c bridge_world, nat) action" where
  "simulate_from deps h st = abind (on_chain (simulation_candidate deps st)) (issue_permit h st)"

definition simulate :: "('c, 'ev) BridgeDependencies \<Rightarrow> nat \<Rightarrow> ('c bridge_world, nat) action" where
  "simulate deps h = abind (areads (\<lambda>w. require (bw_prepared w h) (execution_error ''PREPARED_UNTRUSTED''))) (simulate_from deps h)"

text \<open>
  The record is written to a temporary file and linked to its path: the link is the commit, and it fails where a file
  is. A process that stops before leaves nothing there, one that stops later leaves the whole record.
\<close>

definition createBridgeRecordOnly :: "string \<Rightarrow> BridgeOperationRecord \<Rightarrow> ('c bridge_world, bool) action" where
  "createBridgeRecordOnly path r w =
     (if bw_records w path \<noteq> None then (w, Inr False)
      else (w\<lparr>bw_records := (bw_records w)(path \<mapsto> Whole (record_value r))\<rparr>, Inr True))"

definition cross_references :: "BridgeOperationRecord \<Rightarrow> PreparedBridge \<Rightarrow> bool" where
  "cross_references existing p \<longleftrightarrow> same_hex (br_governedResultDigest existing) (rm_governedResultDigest (gb_message (pb_payload p)))
     \<and> same_hex (br_adapterAddress existing) (as_address (pb_adapter p)) \<and> br_chainId existing = as_chainId (pb_adapter p)
     \<and> same_hex (br_signerAddress existing) (pb_signerAddress p) \<and> same_hex (br_typedDataDigest existing) (pb_typedDataDigest p)
     \<and> same_hex (br_structHash existing) (pb_structHash p) \<and> same_hex (br_intentDigest existing) (pb_intentDigest p)"

definition assertReusableBridgeRecord :: "bridge_crypto \<Rightarrow> BridgeOperationRecord \<Rightarrow> PreparedBridge \<Rightarrow> unit result" where
  "assertReusableBridgeRecord lib existing p =
     ebind (check (cross_references existing p) (execution_error ''CHANGED_PAYLOAD'')) (\<lambda>_.
     case bc_recoverAddress lib (pb_typedDataDigest p) (br_signature existing) of
       Inl e \<Rightarrow> Inl (execution_error ''RECORD_SIGNATURE'')
     | Inr recovered \<Rightarrow> check (same_hex recovered (pb_signerAddress p)) (execution_error ''RECORD_SIGNATURE''))"

definition bridge_record :: "PreparedBridge \<Rightarrow> string \<Rightarrow> int \<Rightarrow> BridgeOperationRecord" where
  "bridge_record p signature at = \<lparr>br_schemaVersion = BRIDGE_EXECUTION_SCHEMA,
     br_governedResultDigest = rm_governedResultDigest (gb_message (pb_payload p)), br_adapterAddress = as_address (pb_adapter p),
     br_chainId = as_chainId (pb_adapter p), br_signerAddress = pb_signerAddress p, br_typedDataDigest = pb_typedDataDigest p,
     br_structHash = pb_structHash p, br_intentDigest = pb_intentDigest p, br_signature = signature, br_preparedAtUnix = at\<rparr>"

definition persistSigned :: "('c, 'ev) BridgeDependencies \<Rightarrow> PreparedBridge \<Rightarrow> string \<Rightarrow> ('c bridge_world, SignedBridge) action" where
  "persistSigned deps p signature = (let resultDigest = rm_governedResultDigest (gb_message (pb_payload p)) in
     abind (on_chain (bx_now deps)) (\<lambda>at.
     let r = bridge_record p signature at in
     abind (alift (bridgeRecordPath (bx_runRoot deps) resultDigest)) (\<lambda>path.
     abind (createBridgeRecordOnly path r) (\<lambda>created.
     if created then alift (Inr \<lparr>sg_prepared = p, sg_signature = signature, sg_record = r, sg_newlySigned = True\<rparr>)
     else
       abind (areads (\<lambda>w. readBridgeRecord (bc_getAddress (bx_lib deps)) (bw_records w) (bx_runRoot deps) resultDigest)) (\<lambda>found.
       abind (alift (require found (execution_error ''RECORD_RACE''))) (\<lambda>existing.
       abind (alift (assertReusableBridgeRecord (bx_lib deps) existing p)) (\<lambda>_.
       alift (Inr \<lparr>sg_prepared = p, sg_signature = br_signature existing, sg_record = existing, sg_newlySigned = False\<rparr>))))))))"

definition drop_permit :: "nat \<Rightarrow> ('c bridge_world, unit) action" where
  "drop_permit h w = (w\<lparr>bw_simulations := (bw_simulations w)(h := None)\<rparr>, Inr ())"

definition issue_signed :: "SignedBridge \<Rightarrow> ('c bridge_world, nat) action" where
  "issue_signed sg w = (w\<lparr>bw_signed := (bw_signed w)(bw_next w \<mapsto> sg), bw_next := bw_next w + 1\<rparr>, Inr (bw_next w))"

definition stale :: "int \<Rightarrow> int \<Rightarrow> bool" where
  "stale simulatedAt signedAt \<longleftrightarrow> signedAt < simulatedAt \<or> signedAt - simulatedAt > BRIDGE_SIMULATION_MAX_AGE_SECONDS"

definition sign :: "('c, 'ev) BridgeDependencies \<Rightarrow> nat \<Rightarrow> ('c bridge_world, nat) action" where
  "sign deps h =
     abind (areads (\<lambda>w. require (bw_simulations w h) (execution_error ''SIMULATION_REQUIRED''))) (\<lambda>st.
     abind (on_chain (bx_now deps)) (\<lambda>signedAt.
     abind (drop_permit h) (\<lambda>_.
     abind (alift (check (\<not> stale (ss_simulatedAtUnix st) signedAt) (execution_error ''SIMULATION_STALE''))) (\<lambda>_.
     abind (persistSigned deps (ss_prepared st) (ss_signature st)) issue_signed))))"

definition submit :: "nat \<Rightarrow> ('c bridge_world, unit) action" where
  "submit signed = alift (Inl (execution_error ''SUBMISSION_DISABLED''))"

subsection \<open>Receipts\<close>

datatype BridgeReceipt =
    ReceiptSuccess (re_transactionHash: string) (re_runId: string) (re_conflict: bool) (re_governedResultDigest: string)
  | ReceiptReverted (re_transactionHash: string)

record ReleaseConsumedEvent =
  rc_eventRunId :: string
  rc_eventConflict :: bool
  rc_eventResultDigest :: string

text \<open>\<open>getAddress\<close>, and \<open>decodeEventLog\<close> on the data and the topics of a log: the name and the arguments of the event.\<close>

record receipt_decoder =
  de_getAddress :: "string \<Rightarrow> string option"
  de_decodeEventLog :: "string \<Rightarrow> string list \<Rightarrow> (string \<times> jsval) result"

definition receiptAddress :: "receipt_decoder \<Rightarrow> jsval \<Rightarrow> string result" where
  "receiptAddress de v = (case v of
     VString s \<Rightarrow> require (de_getAddress de s) (execution_error ''RECEIPT_ADAPTER'')
   | _ \<Rightarrow> Inl (execution_error ''RECEIPT_ADAPTER''))"

definition receiptHex :: "jsval \<Rightarrow> string result" where
  "receiptHex v = (case v of
     VString s \<Rightarrow> if take 2 s = ''0x'' \<and> list_all any_hex (drop 2 s) \<and> even (length s) then Inr s else Inl (execution_error ''RECEIPT_EVENT'')
   | _ \<Rightarrow> Inl (execution_error ''RECEIPT_EVENT''))"

definition decoded_event :: "string \<times> jsval \<Rightarrow> ReleaseConsumedEvent option result" where
  "decoded_event d =
     (if fst d \<noteq> ''ReleaseConsumed'' then Inr None
      else
        ebind (receiptHex (js_member (snd d) ''runId'')) (\<lambda>runId.
        ebind (receiptHex (js_member (snd d) ''governedResultDigest'')) (\<lambda>resultDigest.
        case js_member (snd d) ''conflict'' of
          VBool conflict \<Rightarrow>
            if length runId \<noteq> 66 \<or> length resultDigest \<noteq> 66 then Inl (execution_error ''RECEIPT_EVENT'')
            else Inr (Some \<lparr>rc_eventRunId = runId, rc_eventConflict = conflict, rc_eventResultDigest = resultDigest\<rparr>)
        | _ \<Rightarrow> Inl (execution_error ''RECEIPT_EVENT''))))"

definition consumed_event :: "receipt_decoder \<Rightarrow> string \<Rightarrow> jsval \<Rightarrow> ReleaseConsumedEvent option result" where
  "consumed_event de adapter log =
     ebind (check (is_js_object log) (execution_error ''RECEIPT_EVENT'')) (\<lambda>_.
     ebind (receiptAddress de (js_member log ''address'')) (\<lambda>source.
     if \<not> same_hex source adapter then Inr None
     else (case js_member log ''topics'' of
        VArray topics \<Rightarrow>
          ebind (traverse receiptHex topics) (\<lambda>decodedTopics.
          if decodedTopics = [] then Inr None
          else (case ebind (receiptHex (js_member log ''data'')) (\<lambda>d. de_decodeEventLog de d decodedTopics) of
                  Inl e \<Rightarrow> Inr None
                | Inr decoded \<Rightarrow> decoded_event decoded))
      | _ \<Rightarrow> Inl (execution_error ''RECEIPT_EVENT''))))"

definition releaseConsumedEvents :: "receipt_decoder \<Rightarrow> jsval \<Rightarrow> string \<Rightarrow> ReleaseConsumedEvent list result" where
  "releaseConsumedEvents de logs adapter = (case logs of
     VArray ls \<Rightarrow> ebind (traverse (consumed_event de adapter) ls) (\<lambda>es. Inr (List.map_filter (\<lambda>e. e) es))
   | _ \<Rightarrow> Inl (execution_error ''RECEIPT_EVENT''))"

definition event_matches :: "ReleaseConsumedEvent \<Rightarrow> SignedBridge \<Rightarrow> bool" where
  "event_matches e sg \<longleftrightarrow> same_hex (rc_eventRunId e) (rm_runId (gb_message (pb_payload (sg_prepared sg))))
     \<and> rc_eventConflict e = rm_conflict (gb_message (pb_payload (sg_prepared sg)))
     \<and> same_hex (rc_eventResultDigest e) (br_governedResultDigest (sg_record sg))"

definition reconcileReceipt :: "receipt_decoder \<Rightarrow> nat \<Rightarrow> jsval \<Rightarrow> 'c bridge_world \<Rightarrow> BridgeReceipt result" where
  "reconcileReceipt de h receipt w =
     ebind (require (bw_signed w h) (execution_error ''SIGNED_UNTRUSTED'')) (\<lambda>signed.
     ebind (case js_member receipt ''transactionHash'' of
         VString s \<Rightarrow> if fixed_regex BYTES32_ANY s then Inr s else Inl (execution_error ''RECEIPT_HASH'')
       | _ \<Rightarrow> Inl (execution_error ''RECEIPT_HASH'')) (\<lambda>hash.
     ebind (check (js_member receipt ''status'' = VString ''success'' \<or> js_member receipt ''status'' = VString ''reverted'')
       (execution_error ''RECEIPT_STATUS'')) (\<lambda>_.
     ebind (receiptAddress de (js_member receipt ''to'')) (\<lambda>receiptAdapter.
     ebind (check (same_hex receiptAdapter (br_adapterAddress (sg_record signed))) (execution_error ''RECEIPT_ADAPTER'')) (\<lambda>_.
     if js_member receipt ''status'' = VString ''reverted'' then Inr (ReceiptReverted hash)
     else
       ebind (releaseConsumedEvents de (js_member receipt ''logs'') (br_adapterAddress (sg_record signed))) (\<lambda>events.
       case events of
         [e] \<Rightarrow> ebind (check (event_matches e signed) (execution_error ''RECEIPT_EVENT'')) (\<lambda>_.
           Inr (ReceiptSuccess hash (rc_eventRunId e) (rc_eventConflict e) (rc_eventResultDigest e)))
       | _ \<Rightarrow> Inl (execution_error ''RECEIPT_EVENT'')))))))"

end
