(* ===== verification/Bridge_Safety.thy ===== *)
theory Bridge_Safety
  imports Bridge_Executor
begin

text \<open>
  What the bridge executor guarantees along every run: which releases it signs, that a governed result is authorized
  at most once, what a permit is worth, and what a receipt proves.
\<close>

subsection \<open>Runs\<close>

text \<open>
  Calls of an executor in any order, simulations overlapping, beside other executors on the same record directory,
  which only ever add records, and restarts, which lose the objects of the executor. \<open>offered\<close> says which settlement
  authorities the callers of the executor have.
\<close>

inductive bridge_step ::
  "('c, 'ev) BridgeDependencies \<Rightarrow> (SettlementAuthorityInput \<Rightarrow> bool) \<Rightarrow> 'c bridge_world \<Rightarrow> 'c bridge_world \<Rightarrow> bool" for deps offered where
  prepared: "pred_option offered (pp_settlement inp) \<Longrightarrow> bridge_step deps offered w (fst (prepare deps inp w))"
| prepared_direct: "pred_option offered settlement \<Longrightarrow> bridge_step deps offered w (fst (prepareDirect build settlement w))"
| simulate_called: "bw_prepared w h = Some st \<Longrightarrow> bridge_step deps offered w (w\<lparr>bw_waiting := (h, st) # bw_waiting w\<rparr>)"
| simulate_answered: "(h, st) \<in> set (bw_waiting w)
    \<Longrightarrow> bridge_step deps offered w (fst (simulate_from deps h st (w\<lparr>bw_waiting := remove1 (h, st) (bw_waiting w)\<rparr>)))"
| signed: "bridge_step deps offered w (fst (sign deps h w))"
| environment: "bw_records w \<subseteq>\<^sub>m fs \<Longrightarrow> bridge_step deps offered w (w\<lparr>bw_records := fs, bw_chain := c\<rparr>)"
| restart: "bridge_step deps offered w
    (w\<lparr>bw_prepared := Map.empty, bw_waiting := [], bw_simulations := Map.empty, bw_signed := Map.empty\<rparr>)"

inductive_cases bridge_stepE: "bridge_step deps offered w w'"

definition new_executor :: "'c bridge_world \<Rightarrow> bool" where
  "new_executor w \<longleftrightarrow> bw_prepared w = Map.empty \<and> bw_waiting w = [] \<and> bw_simulations w = Map.empty \<and> bw_signed w = Map.empty"

text \<open>A settlement gate that let this release pass, for an authority that was offered.\<close>

definition authorized :: "('c, 'ev) BridgeDependencies \<Rightarrow> (SettlementAuthorityInput \<Rightarrow> bool) \<Rightarrow> PreparedBridge \<Rightarrow> bool" where
  "authorized deps offered p \<longleftrightarrow> (\<exists>settlement. pred_option offered settlement
     \<and> simulate_settlement_gate (bx_sha deps) settlement (release_facts p) = Inr ())"

definition result_digest :: "PreparedBridge \<Rightarrow> string" where
  "result_digest p = rm_governedResultDigest (gb_message (pb_payload p))"

text \<open>A stored value is read as a record when it was written for it or parses to it.\<close>

definition reads :: "('c, 'ev) BridgeDependencies \<Rightarrow> jsval \<Rightarrow> string \<Rightarrow> BridgeOperationRecord \<Rightarrow> bool" where
  "reads deps v d r \<longleftrightarrow> br_schemaVersion r = BRIDGE_EXECUTION_SCHEMA
     \<and> (v = record_value r \<or> parseBridgeOperationRecord (bc_getAddress (bx_lib deps)) v d = Inr r)"

definition recorded :: "('c, 'ev) BridgeDependencies \<Rightarrow> string \<Rightarrow> BridgeOperationRecord \<Rightarrow> jsval disk \<Rightarrow> bool" where
  "recorded deps d r fs \<longleftrightarrow> (\<exists>path v. bridgeRecordPath (bx_runRoot deps) d = Inr path \<and> fs path = Some (Whole v) \<and> reads deps v d r)"

definition signed_ok :: "('c, 'ev) BridgeDependencies \<Rightarrow> (SettlementAuthorityInput \<Rightarrow> bool) \<Rightarrow> SignedBridge \<Rightarrow> jsval disk \<Rightarrow> bool" where
  "signed_ok deps offered sg fs \<longleftrightarrow> authorized deps offered (sg_prepared sg) \<and> cross_references (sg_record sg) (sg_prepared sg)
     \<and> sg_signature sg = br_signature (sg_record sg) \<and> recorded deps (result_digest (sg_prepared sg)) (sg_record sg) fs"

definition bridge_inv :: "('c, 'ev) BridgeDependencies \<Rightarrow> (SettlementAuthorityInput \<Rightarrow> bool) \<Rightarrow> 'c bridge_world \<Rightarrow> bool" where
  "bridge_inv deps offered w \<longleftrightarrow>
     (\<forall>st \<in> ran (bw_prepared w) \<union> snd ` set (bw_waiting w). pred_option offered (ps_settlement st))
     \<and> (\<forall>s \<in> ran (bw_simulations w). authorized deps offered (ss_prepared s))
     \<and> (\<forall>sg \<in> ran (bw_signed w). signed_ok deps offered sg (bw_records w))"

definition records_kept :: "'c bridge_world \<Rightarrow> 'c bridge_world \<Rightarrow> bool" where
  "records_kept w w' \<longleftrightarrow> bw_records w \<subseteq>\<^sub>m bw_records w'"

lemma recorded_kept: "recorded deps d r fs \<Longrightarrow> fs \<subseteq>\<^sub>m fs' \<Longrightarrow> recorded deps d r fs'"
  unfolding recorded_def by (metis domI map_le_def)

lemma signed_ok_kept: "signed_ok deps offered sg fs \<Longrightarrow> fs \<subseteq>\<^sub>m fs' \<Longrightarrow> signed_ok deps offered sg fs'"
  using recorded_kept by (auto simp: signed_ok_def)

lemma ran_upd: "x \<in> ran (m(k := v)) \<Longrightarrow> x \<in> ran m \<or> v = Some x"
  by (auto simp: ran_def split: if_splits)

subsection \<open>Each call keeps the invariant\<close>

lemma on_chain_fst: "fst (on_chain m w) = w\<lparr>bw_chain := fst (m (bw_chain w))\<rparr>"
  by (simp add: on_chain_def split: prod.split)

lemma on_chain_apply: "on_chain m w = (w\<lparr>bw_chain := fst (m (bw_chain w))\<rparr>, snd (m (bw_chain w)))"
  by (simp add: on_chain_def split: prod.split)

lemma inv_chain [simp]: "bridge_inv deps offered (w\<lparr>bw_chain := c\<rparr>) = bridge_inv deps offered w"
  by (simp add: bridge_inv_def)

lemma issue_prepared_inv:
  "bridge_inv deps offered w \<Longrightarrow> pred_option offered (ps_settlement st) \<Longrightarrow> bridge_inv deps offered (fst (issue_prepared st w))"
  by (auto simp: bridge_inv_def issue_prepared_def dest!: ran_upd)

lemma buildPrepared_settlement: "snd (buildPrepared deps inp c) = Inr st \<Longrightarrow> ps_settlement st = pp_settlement inp"
  by (auto simp: buildPrepared_def abind_def split: prod.splits sum.splits)

lemma prepare_inv:
  assumes "bridge_inv deps offered w" "pred_option offered (pp_settlement inp)"
  shows "bridge_inv deps offered (fst (prepare deps inp w))"
  using assms buildPrepared_settlement [of deps inp "bw_chain w"]
  by (auto simp: prepare_def abind_def on_chain_apply intro!: issue_prepared_inv split: sum.splits)

lemma prepareDirect_inv:
  assumes "bridge_inv deps offered w" "pred_option offered settlement"
  shows "bridge_inv deps offered (fst (prepareDirect build settlement w))"
  using assms by (auto simp: prepareDirect_def abind_def on_chain_apply intro!: issue_prepared_inv split: sum.splits)

lemma candidate_authorized:
  "snd (simulation_candidate deps st c) = Inr x \<Longrightarrow> pred_option offered (ps_settlement st) \<Longrightarrow> authorized deps offered (ps_prepared st)"
  by (auto simp: simulation_candidate_def abind_def authorized_def split: prod.splits sum.splits)

lemma simulate_from_inv:
  assumes "bridge_inv deps offered w" "pred_option offered (ps_settlement st)"
  shows "bridge_inv deps offered (fst (simulate_from deps h st w))"
  using assms candidate_authorized [of deps st "bw_chain w" _ offered]
  by (auto simp: simulate_from_def abind_def on_chain_apply issue_permit_def bridge_inv_def split: sum.splits dest!: ran_upd)

lemma cross_references_own: "cross_references (bridge_record p signature at) p"
  by (simp add: cross_references_def bridge_record_def same_hex_def)

lemma parse_schema: "parseBridgeOperationRecord getAddress v d = Inr r \<Longrightarrow> br_schemaVersion r = BRIDGE_EXECUTION_SCHEMA"
  by (auto simp: parseBridgeOperationRecord_def result_simps)

lemma readBridgeRecord_Some:
  "readBridgeRecord getAddress fs root d = Inr (Some r) \<longleftrightarrow> (\<exists>path v. bridgeRecordPath root d = Inr path \<and> fs path = Some (Whole v)
     \<and> parseBridgeOperationRecord getAddress v d = Inr r)"
  by (cases "bridgeRecordPath root d") (auto simp: readBridgeRecord_def result_simps split: option.splits stored.splits)

text \<open>A signature is recorded under its governed result, or the record that is there already stands for it.\<close>

lemma persistSigned_cases:
  assumes "persistSigned deps p signature w = (w', Inr sg)"
  obtains path at where "bridgeRecordPath (bx_runRoot deps) (result_digest p) = Inr path" "bw_records w path = None"
      "bw_records w' = (bw_records w)(path \<mapsto> Whole (record_value (bridge_record p signature at)))"
      "sg = \<lparr>sg_prepared = p, sg_signature = signature, sg_record = bridge_record p signature at, sg_newlySigned = True\<rparr>"
    | path v r where "bridgeRecordPath (bx_runRoot deps) (result_digest p) = Inr path" "bw_records w path = Some (Whole v)"
      "parseBridgeOperationRecord (bc_getAddress (bx_lib deps)) v (result_digest p) = Inr r"
      "assertReusableBridgeRecord (bx_lib deps) r p = Inr ()" "bw_records w' = bw_records w"
      "sg = \<lparr>sg_prepared = p, sg_signature = br_signature r, sg_record = r, sg_newlySigned = False\<rparr>"
proof -
  from assms obtain path at where path: "bridgeRecordPath (bx_runRoot deps) (result_digest p) = Inr path"
      and c: "(bw_records w path = None \<and> bw_records w' = (bw_records w)(path \<mapsto> Whole (record_value (bridge_record p signature at)))
          \<and> sg = \<lparr>sg_prepared = p, sg_signature = signature, sg_record = bridge_record p signature at, sg_newlySigned = True\<rparr>)
        \<or> (\<exists>r. readBridgeRecord (bc_getAddress (bx_lib deps)) (bw_records w) (bx_runRoot deps) (result_digest p) = Inr (Some r)
          \<and> assertReusableBridgeRecord (bx_lib deps) r p = Inr () \<and> bw_records w' = bw_records w
          \<and> sg = \<lparr>sg_prepared = p, sg_signature = br_signature r, sg_record = r, sg_newlySigned = False\<rparr>)"
    by (force simp: persistSigned_def Let_def result_simps on_chain_apply createBridgeRecordOnly_def result_digest_def split: if_splits)
  from c show thesis
  proof (elim disjE exE conjE)
    fix r assume r: "readBridgeRecord (bc_getAddress (bx_lib deps)) (bw_records w) (bx_runRoot deps) (result_digest p) = Inr (Some r)"
      "assertReusableBridgeRecord (bx_lib deps) r p = Inr ()" "bw_records w' = bw_records w"
      "sg = \<lparr>sg_prepared = p, sg_signature = br_signature r, sg_record = r, sg_newlySigned = False\<rparr>"
    from r(1) obtain v where "bw_records w path = Some (Whole v)"
        "parseBridgeOperationRecord (bc_getAddress (bx_lib deps)) v (result_digest p) = Inr r"
      unfolding readBridgeRecord_Some path by auto
    then show thesis using that(2) path r by blast
  qed (use that(1) path in blast)
qed

lemma persistSigned_ok:
  assumes "authorized deps offered p" "persistSigned deps p signature w = (w', Inr sg)"
  shows "signed_ok deps offered sg (bw_records w')"
  using assms(2)
proof (cases rule: persistSigned_cases)
  case (1 path at)
  then show ?thesis
    using assms(1) cross_references_own [of p signature at] by (simp add: signed_ok_def recorded_def reads_def) (simp add: bridge_record_def)
next
  case (2 path v r)
  then show ?thesis using assms(1) parse_schema [OF 2(3)]
    by (auto simp: signed_ok_def recorded_def reads_def assertReusableBridgeRecord_def result_simps)
qed

lemma persistSigned_records: "bw_records w \<subseteq>\<^sub>m bw_records (fst (persistSigned deps p signature w))"
  by (auto simp: persistSigned_def Let_def abind_def on_chain_apply createBridgeRecordOnly_def map_le_def split: sum.splits prod.splits if_splits)

lemma persistSigned_objects:
  "bw_prepared (fst (persistSigned deps p signature w)) = bw_prepared w" "bw_waiting (fst (persistSigned deps p signature w)) = bw_waiting w"
  "bw_simulations (fst (persistSigned deps p signature w)) = bw_simulations w" "bw_signed (fst (persistSigned deps p signature w)) = bw_signed w"
  by (auto simp: persistSigned_def Let_def abind_def on_chain_apply createBridgeRecordOnly_def split: sum.splits prod.splits if_splits)

lemma sign_inv:
  assumes "bridge_inv deps offered w"
  shows "bridge_inv deps offered (fst (sign deps h w))"
proof (cases "bw_simulations w h")
  case (Some st)
  define u where "u = fst (drop_permit h (fst (on_chain (bx_now deps) w)))"
  have st: "authorized deps offered (ss_prepared st)" using assms Some by (auto simp: bridge_inv_def ran_def)
  have u: "bridge_inv deps offered u"
    using assms by (auto simp: u_def drop_permit_def on_chain_fst bridge_inv_def dest!: ran_upd)
  obtain v r where p: "persistSigned deps (ss_prepared st) (ss_signature st) u = (v, r)" by fastforce
  have v: "bridge_inv deps offered v"
    using u p persistSigned_records [of u deps "ss_prepared st" "ss_signature st"] persistSigned_objects [of deps "ss_prepared st" "ss_signature st" u]
    by (auto simp: bridge_inv_def intro: signed_ok_kept)
  have "bridge_inv deps offered (fst (issue_signed sg v))" if "r = Inr sg" for sg
    using v persistSigned_ok [OF st, of "ss_signature st" u v sg] p that
    by (auto simp: bridge_inv_def issue_signed_def dest!: ran_upd)
  then show ?thesis
    using assms u v p Some
    by (auto simp: sign_def abind_def require_def on_chain_apply u_def [symmetric] on_chain_fst drop_permit_def check_def split: sum.splits)
      (auto simp: u_def drop_permit_def on_chain_fst abind_def split: sum.splits)
qed (simp add: sign_def abind_def require_def assms)

lemma calls_records:
  "bw_records (fst (prepare deps inp w)) = bw_records w" "bw_records (fst (prepareDirect build settlement w)) = bw_records w"
  "bw_records (fst (simulate_from deps h st w)) = bw_records w"
  by (auto simp: prepare_def prepareDirect_def simulate_from_def issue_prepared_def issue_permit_def abind_def on_chain_apply split: sum.splits)

lemma sign_records: "bw_records w \<subseteq>\<^sub>m bw_records (fst (sign deps h w))"
proof -
  have "bw_records w \<subseteq>\<^sub>m bw_records (fst (persistSigned deps p s (w\<lparr>bw_chain := c, bw_simulations := m\<rparr>)))" for p s c m
    using persistSigned_records [of "w\<lparr>bw_chain := c, bw_simulations := m\<rparr>" deps p s] by simp
  then show ?thesis
    by (auto simp: sign_def abind_def require_def on_chain_apply drop_permit_def check_def issue_signed_def split: sum.splits option.splits prod.splits)
      (metis fst_conv)+
qed

lemma bridge_step_ok:
  assumes "bridge_step deps offered w w'" "bridge_inv deps offered w"
  shows "bridge_inv deps offered w' \<and> records_kept w w'"
  using assms(1)
proof (cases rule: bridge_step.cases)
  case (simulate_answered h st)
  have "bridge_inv deps offered (w\<lparr>bw_waiting := remove1 (h, st) (bw_waiting w)\<rparr>)"
    using assms(2) set_remove1_subset [of "(h, st)" "bw_waiting w"] by (auto simp: bridge_inv_def)
  moreover have "pred_option offered (ps_settlement st)"
    using assms(2) simulate_answered(2) by (force simp: bridge_inv_def)
  ultimately show ?thesis unfolding simulate_answered(1)
    using simulate_from_inv calls_records(3) [of deps h st "w\<lparr>bw_waiting := remove1 (h, st) (bw_waiting w)\<rparr>"] by (simp add: records_kept_def)
next
  case (environment fs c)
  then show ?thesis using assms(2) by (auto simp: bridge_inv_def records_kept_def intro: signed_ok_kept)
next
  case (simulate_called h st)
  then show ?thesis using assms(2) by (auto simp: bridge_inv_def records_kept_def ran_def)
next
  case restart
  then show ?thesis using assms(2) by (simp add: bridge_inv_def records_kept_def)
qed (simp_all add: records_kept_def prepare_inv prepareDirect_inv sign_inv sign_records calls_records assms(2))

interpretation bridge_run: growing_store "bridge_inv deps offered" "bridge_step deps offered" records_kept
  by unfold_locales (auto dest: bridge_step_ok simp: records_kept_def intro: map_le_trans)

lemma new_executor_inv: "new_executor w \<Longrightarrow> bridge_inv deps offered w"
  by (simp add: new_executor_def bridge_inv_def)

subsection \<open>Which releases are signed\<close>

lemma authorized_payment:
  assumes "authorized deps offered p" "0 < rf_payoutA (release_facts p) + rf_payoutB (release_facts p)"
  shows "\<exists>a plan. offered (a, plan) \<and> simulate_settlement_gate (bx_sha deps) (Some (a, plan)) (release_facts p) = Inr ()"
proof -
  from assms(1) obtain x where x: "pred_option offered x" "simulate_settlement_gate (bx_sha deps) x (release_facts p) = Inr ()"
    by (auto simp: authorized_def)
  with assms(2) show ?thesis by (cases x) (auto simp: simulate_settlement_gate_def)
qed



subsection \<open>One authorization for a governed result\<close>

lemma record_value_member:
  "js_member (record_value r) ''schemaVersion'' = VString (br_schemaVersion r)"
  "js_member (record_value r) ''governedResultDigest'' = VString (br_governedResultDigest r)"
  "js_member (record_value r) ''adapterAddress'' = VString (br_adapterAddress r)"
  "js_member (record_value r) ''chainId'' = VNumber (NInt (br_chainId r))"
  "js_member (record_value r) ''signerAddress'' = VString (br_signerAddress r)"
  "js_member (record_value r) ''typedDataDigest'' = VString (br_typedDataDigest r)"
  "js_member (record_value r) ''structHash'' = VString (br_structHash r)"
  "js_member (record_value r) ''intentDigest'' = VString (br_intentDigest r)"
  "js_member (record_value r) ''signature'' = VString (br_signature r)"
  "js_member (record_value r) ''preparedAtUnix'' = VNumber (NInt (br_preparedAtUnix r))"
  "js_member (record_value r) ''submitted'' = VBool False"
  "js_member (record_value r) ''transactionHash'' = VNull"
  by (simp_all add: record_value_def)

lemma record_hex_ok [result_simps]:
  "canonicalRecordHex (VString s) n = Inr t \<longleftrightarrow> t = s \<and> fixed_regex (lit ''0x'' @ replicate (2 * n) lower_hex) s"
  by (auto simp: canonicalRecordHex_def)

lemma record_address_ok [result_simps]:
  "canonicalRecordAddress getAddress (VString s) = Inr t \<longleftrightarrow> t = s \<and> fixed_regex ADDRESS_ANY s \<and> getAddress s = Some s"
  by (auto simp: canonicalRecordAddress_def split: option.splits)

lemma record_integer_ok [result_simps]:
  "canonicalRecordInteger (VNumber (NInt i)) n = Inr j \<longleftrightarrow> j = i \<and> isSafeInteger i \<and> n \<le> i"
  by (auto simp: canonicalRecordInteger_def)

text \<open>The records the parser takes back: the canonical ones.\<close>

definition canonical_record :: "(string \<Rightarrow> string option) \<Rightarrow> BridgeOperationRecord \<Rightarrow> bool" where
  "canonical_record getAddress r \<longleftrightarrow> br_schemaVersion r = BRIDGE_EXECUTION_SCHEMA \<and> br_chainId r = MONAD_TESTNET_CHAIN_ID
     \<and> (\<forall>h \<in> {br_governedResultDigest r, br_typedDataDigest r, br_structHash r, br_intentDigest r}.
          fixed_regex (lit ''0x'' @ replicate (2 * 32) lower_hex) h)
     \<and> fixed_regex (lit ''0x'' @ replicate (2 * 65) lower_hex) (br_signature r)
     \<and> (\<forall>a \<in> {br_adapterAddress r, br_signerAddress r}. fixed_regex ADDRESS_ANY a \<and> getAddress a = Some a)
     \<and> isSafeInteger (br_preparedAtUnix r) \<and> 0 \<le> br_preparedAtUnix r"

lemma record_value_keys: "sort (own_keys (record_value r)) = sort BRIDGE_RECORD_FIELDS"
  by (simp add: record_value_def BRIDGE_RECORD_FIELDS_def)

lemma record_value_object: "is_js_object (record_value r)"
  by (simp add: is_js_object_def record_value_def)

lemma parse_record_value:
  "parseBridgeOperationRecord getAddress (record_value r) d = Inr r' \<longleftrightarrow>
     r' = r \<and> canonical_record getAddress r \<and> br_governedResultDigest r = d"
proof -
  have "isSafeInteger MONAD_TESTNET_CHAIN_ID" "1 \<le> MONAD_TESTNET_CHAIN_ID" by (simp_all add: isSafeInteger_def MAX_SAFE_INTEGER_def MONAD_TESTNET_CHAIN_ID_def)
  then show ?thesis
    unfolding parseBridgeOperationRecord_def record_value_member record_value_keys
    by (cases r) (auto simp: result_simps canonical_record_def record_value_object)
qed


lemma record_value_inject: "record_value r = record_value r' \<Longrightarrow> r = r'"
  by (cases r; cases r') (simp add: record_value_def)

lemma recorded_once: "recorded deps d r fs \<Longrightarrow> recorded deps d r' fs \<Longrightarrow> r = r'"
  by (auto simp: recorded_def reads_def parse_record_value dest: record_value_inject)

lemma cross_references_agree:
  assumes "cross_references r p" "cross_references r p'"
  shows "same_hex (pb_typedDataDigest p) (pb_typedDataDigest p')" "same_hex (pb_structHash p) (pb_structHash p')"
    "same_hex (pb_intentDigest p) (pb_intentDigest p')" "same_hex (pb_signerAddress p) (pb_signerAddress p')"
    "same_hex (as_address (pb_adapter p)) (as_address (pb_adapter p'))" "as_chainId (pb_adapter p) = as_chainId (pb_adapter p')"
  using assms by (simp_all add: cross_references_def same_hex_def)

text \<open>C26: A governed result is authorized at most once. Over every interleaving of calls, with other executors writing to
  the same record directory and with restarts in between, whatever two signed releases for the same governed result
  the executor hands out, at the same or at different moments, they carry the same durable record and the same
  signature, and they are of the same typed data, structure hash, intent, signer, adapter and chain: signing again
  with another nonce, window or payout never yields a second authorization.\<close>

theorem one_authorization_per_result:
  assumes "new_executor w" "(bridge_step deps offered)\<^sup>*\<^sup>* w w'" "(bridge_step deps offered)\<^sup>*\<^sup>* w' w''"
    and "bw_signed w' h = Some sg" "bw_signed w'' h' = Some sg'"
    and "result_digest (sg_prepared sg) = result_digest (sg_prepared sg')"
  shows "sg_record sg = sg_record sg' \<and> sg_signature sg = sg_signature sg'
     \<and> same_hex (pb_typedDataDigest (sg_prepared sg)) (pb_typedDataDigest (sg_prepared sg'))
     \<and> same_hex (pb_structHash (sg_prepared sg)) (pb_structHash (sg_prepared sg'))
     \<and> same_hex (pb_intentDigest (sg_prepared sg)) (pb_intentDigest (sg_prepared sg'))
     \<and> same_hex (pb_signerAddress (sg_prepared sg)) (pb_signerAddress (sg_prepared sg'))
     \<and> same_hex (as_address (pb_adapter (sg_prepared sg))) (as_address (pb_adapter (sg_prepared sg')))
     \<and> as_chainId (pb_adapter (sg_prepared sg)) = as_chainId (pb_adapter (sg_prepared sg'))"
proof -
  have inv: "bridge_inv deps offered w'" using bridge_run.run_inv [OF assms(2) new_executor_inv [OF assms(1)]] .
  then have "signed_ok deps offered sg (bw_records w')" using assms(4) by (auto simp: bridge_inv_def ran_def)
  then have sg: "signed_ok deps offered sg (bw_records w'')"
    using bridge_run.run_grows [OF assms(3) inv] by (auto simp: records_kept_def intro: signed_ok_kept)
  have sg': "signed_ok deps offered sg' (bw_records w'')"
    using bridge_run.run_inv [OF assms(3) inv] assms(5) by (auto simp: bridge_inv_def ran_def)
  have same: "sg_record sg = sg_record sg'"
    using sg sg' assms(6) by (auto simp: signed_ok_def intro: recorded_once)
  moreover have "cross_references (sg_record sg) (sg_prepared sg)" "cross_references (sg_record sg) (sg_prepared sg')"
    using sg sg' same by (simp_all add: signed_ok_def)
  moreover have "sg_signature sg = sg_signature sg'" using sg sg' same by (simp add: signed_ok_def)
  ultimately show ?thesis using cross_references_agree [of "sg_record sg" "sg_prepared sg" "sg_prepared sg'"] by blast
qed

text \<open>C27: What is signed survives: once a signature has been recorded in canonical form, then at any later moment, from any
  process that finds the records kept, the record reads back as it was written, and signing the same preparation again,
  with whatever candidate signature, writes nothing and returns the recorded signature, provided the recorded signature
  recovers to the signer and the clock can be read.\<close>

theorem recorded_signature_is_returned_again:
  assumes "persistSigned deps p signature w = (w', Inr sg)" "sg_newlySigned sg"
    and "canonical_record (bc_getAddress (bx_lib deps)) (sg_record sg)"
    and "bc_recoverAddress (bx_lib deps) (pb_typedDataDigest p) signature = Inr recovered" "same_hex recovered (pb_signerAddress p)"
    and "records_kept w' v" "bx_now deps (bw_chain v) = (c, Inr at)"
  shows "readBridgeRecord (bc_getAddress (bx_lib deps)) (bw_records v) (bx_runRoot deps) (result_digest p) = Inr (Some (sg_record sg))
     \<and> persistSigned deps p other v = (v\<lparr>bw_chain := c\<rparr>, Inr (sg\<lparr>sg_newlySigned := False\<rparr>))"
  using assms(1)
proof (cases rule: persistSigned_cases)
  case (1 path at')
  let ?r = "bridge_record p signature at'"
  have v: "bw_records v path = Some (Whole (record_value ?r))"
    using 1(3) assms(6) by (auto simp: records_kept_def map_le_def dom_def)
  have "parseBridgeOperationRecord (bc_getAddress (bx_lib deps)) (record_value ?r) (result_digest p) = Inr ?r"
    using assms(3) 1(4) by (simp add: parse_record_value) (simp add: bridge_record_def result_digest_def)
  then have read: "readBridgeRecord (bc_getAddress (bx_lib deps)) (bw_records v) (bx_runRoot deps) (result_digest p) = Inr (Some ?r)"
    using v 1(1) by (auto simp: readBridgeRecord_Some)
  have "assertReusableBridgeRecord (bx_lib deps) ?r p = Inr ()"
    using assms(4,5) cross_references_own [of p signature at'] by (simp add: assertReusableBridgeRecord_def result_simps) (simp add: bridge_record_def)
  then show ?thesis
    using read v 1(1,4) assms(7)
    by (simp add: persistSigned_def Let_def abind_def on_chain_apply createBridgeRecordOnly_def result_digest_def require_def)
       (simp add: bridge_record_def)
next
  case (2 path v r)
  then show ?thesis using assms(2) by simp
qed


subsection \<open>Permits\<close>

text \<open>A permit number that has been used and is not a permit any more.\<close>

definition permit_gone :: "nat \<Rightarrow> 'c bridge_world \<Rightarrow> bool" where
  "permit_gone h w \<longleftrightarrow> h < bw_next w \<and> bw_simulations w h = None"

definition permits_issued :: "'c bridge_world \<Rightarrow> bool" where
  "permits_issued w \<longleftrightarrow> (\<forall>h \<in> dom (bw_simulations w). h < bw_next w)"

text \<open>What a call does to the permits: it may drop some and add one under the next number.\<close>

definition permits_step :: "'c bridge_world \<Rightarrow> 'c bridge_world \<Rightarrow> bool" where
  "permits_step w w' \<longleftrightarrow> bw_next w \<le> bw_next w'
     \<and> (\<forall>h \<in> dom (bw_simulations w'). h \<in> dom (bw_simulations w) \<or> bw_next w \<le> h \<and> h < bw_next w')"

lemma persistSigned_next: "bw_next (fst (persistSigned deps p signature w)) = bw_next w"
  by (auto simp: persistSigned_def Let_def abind_def on_chain_apply createBridgeRecordOnly_def split: sum.splits prod.splits if_splits)

lemma permits_step_calls:
  "permits_step w (fst (prepare deps inp w))" "permits_step w (fst (prepareDirect build settlement w))"
  "permits_step w (fst (simulate_from deps h st (w\<lparr>bw_waiting := ws\<rparr>)))"
  by (auto simp: permits_step_def prepare_def prepareDirect_def simulate_from_def issue_prepared_def issue_permit_def abind_def on_chain_apply
      split: sum.splits if_splits)

lemma sign_none: "bw_simulations w h = None \<Longrightarrow> sign deps h w = (w, Inl (execution_error ''SIMULATION_REQUIRED''))"
  by (simp add: sign_def abind_def require_def)

lemma sign_some:
  assumes "bw_simulations w h = Some st" "bx_now deps (bw_chain w) = (c, Inr t)"
  shows "sign deps h w = (let u = w\<lparr>bw_chain := c, bw_simulations := (bw_simulations w)(h := None)\<rparr> in
     if stale (ss_simulatedAtUnix st) t then (u, Inl (execution_error ''SIMULATION_STALE''))
     else abind (persistSigned deps (ss_prepared st) (ss_signature st)) issue_signed u)"
  using assms by (simp add: sign_def abind_def require_def on_chain_apply drop_permit_def check_def)

lemma sign_no_clock: "bw_simulations w h = Some st \<Longrightarrow> bx_now deps (bw_chain w) = (c, Inl e) \<Longrightarrow> sign deps h w = (w\<lparr>bw_chain := c\<rparr>, Inl e)"
  by (simp add: sign_def abind_def require_def on_chain_apply)

lemma persist_issue_permits:
  "bw_simulations (fst (abind (persistSigned deps p signature) issue_signed u)) = bw_simulations u"
  "bw_next u \<le> bw_next (fst (abind (persistSigned deps p signature) issue_signed u))"
  using persistSigned_objects(3) [of deps p signature u] persistSigned_next [of deps p signature u]
  by (auto simp: abind_def issue_signed_def split: prod.splits sum.splits)

lemma sign_permits:
  "bw_simulations (fst (sign deps h w)) = bw_simulations w \<or> bw_simulations (fst (sign deps h w)) = (bw_simulations w)(h := None)"
  "bw_next w \<le> bw_next (fst (sign deps h w))"
proof -
  consider "bw_simulations w h = None" | st c e where "bw_simulations w h = Some st" "bx_now deps (bw_chain w) = (c, Inl e)"
    | st c t where "bw_simulations w h = Some st" "bx_now deps (bw_chain w) = (c, Inr t)"
    by (metis obj_sumE option.exhaust surj_pair)
  then have "(bw_simulations (fst (sign deps h w)) = bw_simulations w \<or> bw_simulations (fst (sign deps h w)) = (bw_simulations w)(h := None))
      \<and> bw_next w \<le> bw_next (fst (sign deps h w))"
  proof cases
    case (3 st c t)
    show ?thesis
      using persist_issue_permits [where deps = deps and p = "ss_prepared st" and signature = "ss_signature st" and u = "w\<lparr>bw_chain := c, bw_simulations := (bw_simulations w)(h := None)\<rparr>"]
      by (simp add: sign_some [OF 3] Let_def)
  qed (simp_all add: sign_none sign_no_clock)
  then show "bw_simulations (fst (sign deps h w)) = bw_simulations w \<or> bw_simulations (fst (sign deps h w)) = (bw_simulations w)(h := None)"
    "bw_next w \<le> bw_next (fst (sign deps h w))" by blast+
qed

lemma permits_step_sign: "permits_step w (fst (sign deps h w))"
  using sign_permits [where deps = deps and h = h and w = w] by (auto simp: permits_step_def split: if_splits)

lemma bridge_step_permits: "bridge_step deps offered w w' \<Longrightarrow> permits_step w w'"
  by (induction rule: bridge_step.induct) (simp_all add: permits_step_calls permits_step_sign, simp_all add: permits_step_def)

definition permits_stay_gone :: "'c bridge_world \<Rightarrow> 'c bridge_world \<Rightarrow> bool" where
  "permits_stay_gone w w' \<longleftrightarrow> (\<forall>h. permit_gone h w \<longrightarrow> permit_gone h w')"

interpretation permit_run: growing_store permits_issued "bridge_step deps offered" permits_stay_gone
proof unfold_locales
  fix w w' :: "'a bridge_world"
  assume "bridge_step deps offered w w'"
  then have step: "permits_step w w'" by (rule bridge_step_permits)
  show "permits_issued w'" if "permits_issued w" using step that unfolding permits_step_def permits_issued_def by (meson order_less_le_trans)
  show "permits_stay_gone w w'" if "permits_issued w"
    unfolding permits_stay_gone_def permit_gone_def
    using step unfolding permits_step_def by (meson domIff leD order_less_le_trans)
qed (auto simp: permits_stay_gone_def)

text \<open>C28: A permit is fresh and spent by the first attempt. In a run of the executor, let a permit be presented for signing
  when the clock can be read. A signature comes out only when the clock is between the moment of the simulation and
  thirty seconds after it; otherwise the attempt is refused as stale. Either way the permit is spent: at every later
  moment of the run, presenting it again is refused and changes nothing.\<close>

theorem permit_is_fresh_and_spent_once:
  assumes "new_executor w" "(bridge_step deps offered)\<^sup>*\<^sup>* w w'"
    and "bw_simulations w' h = Some st" "bx_now deps (bw_chain w') = (c, Inr t)"
    and "sign deps h w' = (v, r)" "(bridge_step deps offered)\<^sup>*\<^sup>* v v'"
  shows "(if ss_simulatedAtUnix st \<le> t \<and> t \<le> ss_simulatedAtUnix st + BRIDGE_SIMULATION_MAX_AGE_SECONDS
       then r = snd (abind (persistSigned deps (ss_prepared st) (ss_signature st)) issue_signed
         (w'\<lparr>bw_chain := c, bw_simulations := (bw_simulations w')(h := None)\<rparr>))
       else r = Inl (execution_error ''SIMULATION_STALE''))
     \<and> sign deps h v' = (v', Inl (execution_error ''SIMULATION_REQUIRED''))"
proof -
  have inv: "permits_issued w'"
    using permit_run.run_inv [OF assms(2)] assms(1) by (simp add: new_executor_def permits_issued_def)
  let ?u = "w'\<lparr>bw_chain := c, bw_simulations := (bw_simulations w')(h := None)\<rparr>"
  note sign = sign_some [where h = h and w = w', OF assms(3,4), unfolded Let_def]
  have v: "bw_simulations v = (bw_simulations w')(h := None)" "bw_next w' \<le> bw_next v"
    using persist_issue_permits [where deps = deps and p = "ss_prepared st" and signature = "ss_signature st" and u = ?u] arg_cong [OF assms(5), of fst] by (auto simp: sign split: if_splits)
  then have "permit_gone h v" "permits_issued v"
    using inv assms(3) by (fastforce simp: permit_gone_def permits_issued_def dom_def)+
  then have "permit_gone h v'"
    using permit_run.run_grows [OF assms(6)] by (simp add: permits_stay_gone_def)
  then show ?thesis
    using arg_cong [OF assms(5), of snd] by (auto simp: sign stale_def permit_gone_def sign_none)
qed


text \<open>C30: A preparation may give two permits: when it is simulated twice before the first simulation is answered and both
  answers are good, both calls issue a permit, under different numbers, for the same prepared release.\<close>

theorem overlapping_simulations_give_two_permits:
  assumes "bw_prepared w h = Some st" "bw_waiting w = []"
    and "simulation_candidate deps st (bw_chain w) = (c, Inr x)" "simulation_candidate deps st c = (c', Inr y)"
  shows "\<exists>w' k k' s s'. (bridge_step deps offered)\<^sup>*\<^sup>* w w' \<and> k \<noteq> k' \<and> bw_simulations w' k = Some s \<and> bw_simulations w' k' = Some s'
     \<and> ss_prepared s = ps_prepared st \<and> ss_prepared s' = ps_prepared st"
proof -
  let ?w1 = "w\<lparr>bw_waiting := [(h, st)]\<rparr>" and ?w2 = "w\<lparr>bw_waiting := [(h, st), (h, st)]\<rparr>"
  define w3 where "w3 = fst (simulate_from deps h st ?w1)"
  define w4 where "w4 = fst (simulate_from deps h st (w3\<lparr>bw_waiting := []\<rparr>))"
  have w3: "w3 = fst (issue_permit h st x (?w1\<lparr>bw_chain := c\<rparr>))"
    using assms(3) by (simp add: w3_def simulate_from_def abind_def on_chain_apply)
  then have w4: "w4 = fst (issue_permit h st y (w3\<lparr>bw_waiting := [], bw_chain := c'\<rparr>))"
    using assms(4) by (simp add: w4_def simulate_from_def abind_def on_chain_apply issue_permit_def)
  have "bridge_step deps offered w ?w1" using bridge_step.simulate_called [OF assms(1), of deps offered] assms(2) by simp
  moreover have "bridge_step deps offered ?w1 ?w2" using bridge_step.simulate_called [of ?w1 h st deps offered] assms(1) by simp
  moreover have "bridge_step deps offered ?w2 w3" using bridge_step.simulate_answered [of h st ?w2 deps offered] by (simp add: w3_def)
  moreover have "bridge_step deps offered w3 w4"
    using bridge_step.simulate_answered [of h st w3 deps offered] by (simp add: w4_def) (simp add: w3 issue_permit_def)
  ultimately have "(bridge_step deps offered)\<^sup>*\<^sup>* w w4" by (meson converse_rtranclp_into_rtranclp rtranclp.rtrancl_refl)
  moreover have "\<exists>s s'. bw_simulations w4 (bw_next w) = Some s \<and> bw_simulations w4 (bw_next w + 1) = Some s'
      \<and> ss_prepared s = ps_prepared st \<and> ss_prepared s' = ps_prepared st"
    by (simp add: w4 w3 issue_permit_def)
  ultimately show ?thesis by (metis n_not_Suc_n Suc_eq_plus1)
qed

subsection \<open>What a receipt proves\<close>

lemma traverse_options:
  "traverse f xs = Inr ys \<Longrightarrow> List.map_filter (\<lambda>e. e) ys = [e]
     \<Longrightarrow> \<exists>x. filter (\<lambda>x. f x \<noteq> Inr None) xs = [x] \<and> f x = Inr (Some e)"
proof (induction xs arbitrary: ys)
  case (Cons x xs)
  then obtain y zs where y: "f x = Inr y" and zs: "traverse f xs = Inr zs" and ys: "ys = y # zs" by (auto simp: result_simps)
  have none: "filter (\<lambda>x. f x \<noteq> Inr None) xs = []" if "traverse f xs = Inr us" "List.map_filter (\<lambda>e. e) us = []" for us
    using that by (induction xs arbitrary: us) (auto simp: result_simps map_filter_simps split: option.splits)
  show ?case
  proof (cases y)
    case None
    then show ?thesis using Cons.IH [OF zs] Cons.prems(2) ys y by (simp add: map_filter_simps)
  next
    case (Some u)
    then show ?thesis using none [OF zs] Cons.prems(2) ys y by (simp add: map_filter_simps)
  qed
qed (simp add: map_filter_simps)

lemma consumed_event_source:
  "consumed_event de adapter log = Inr (Some e) \<Longrightarrow> \<exists>a. receiptAddress de (js_member log ''address'') = Inr a \<and> same_hex a adapter"
  by (auto simp: consumed_event_def result_simps split: if_splits)

lemma single_event_ok:
  "(case events of [e] \<Rightarrow> f e | _ \<Rightarrow> Inl err) = Inr y \<longleftrightarrow> (\<exists>e. events = [e] \<and> f e = Inr y)"
  by (auto split: list.splits)



subsection \<open>A concrete executor\<close>

definition sample_word :: "char \<Rightarrow> string" where
  "sample_word c = ''0x'' @ replicate 64 c"

definition sample_lib :: bridge_crypto where
  "sample_lib = \<lparr>bc_keccak = (\<lambda>_. sample_word CHR ''c''), bc_encodeAbiParameters = (\<lambda>_ _. []),
     bc_hashTypedData = (\<lambda>_ _ _ _. sample_word CHR ''d''), bc_recoverAddress = (\<lambda>_ _. Inr (sample_address CHR ''5'')), bc_getAddress = Some\<rparr>"

definition sample_reader :: "unit AdapterReader" where
  "sample_reader = \<lparr>rd_readAdapterState = alift (Inl (BridgeExecutionError ''RPC'')), rd_isEligible = (\<lambda>_ _ _. alift (Inr True)), rd_isAssetTransferAllowed = (\<lambda>_ _ _ _ _. alift (Inr True)),
      rd_hashRelease = (\<lambda>_. alift (Inr (sample_word CHR ''d''))), rd_resultConsumed = (\<lambda>_. alift (Inr False)),
      rd_readOwner = alift (Inl (BridgeExecutionError ''RPC'')), rd_readCureWindow = alift (Inl (BridgeExecutionError ''RPC'')),
      rd_readRuntimeCode = alift (Inl (BridgeExecutionError ''RPC'')), rd_simulate = (\<lambda>_ _ _. alift (Inr ()))\<rparr>"

definition sample_signature :: string where
  "sample_signature = ''0x'' @ replicate 130 CHR ''e''"

definition sample_deps :: "(unit, unit) BridgeDependencies" where
  "sample_deps = \<lparr>bx_sha = zero_sha, bx_lib = sample_lib, bx_configuration = \<lparr>bg_rpcUrl = [], bg_adapterAddress = sample_address CHR ''1''\<rparr>,
     bx_reader = sample_reader, bx_runRoot = ''root'', bx_now = alift (Inr 1000), bx_loadCanonical = alift (Inl (BridgeExecutionError ''NONE'')),
     bx_verifyEvidence = (\<lambda>_ _. Inl (BridgeExecutionError ''NONE'')),
     bx_loadSigner = alift (Inr \<lparr>sc_signerAddress = sample_address CHR ''5'', sc_sign = (\<lambda>_. alift (Inr sample_signature))\<rparr>)\<rparr>"

definition sample_message :: GovernedReleaseMessage where
  "sample_message = \<lparr>rm_runId = sample_word CHR ''b'', rm_fheCaseId = sample_word CHR ''1'', rm_caseBindingDigest = sample_word CHR ''2'',
     rm_assetIdentityDigest = sample_word CHR ''3'', rm_governedResultDigest = sample_word CHR ''a'', rm_resultCiphertextDigest = sample_word CHR ''4'',
     rm_participantArtifactDigestA = sample_word CHR ''5'', rm_participantArtifactDigestB = sample_word CHR ''6'', rm_holderA = sample_address CHR ''6'',
     rm_holderB = sample_address CHR ''7'', rm_payoutA = 60, rm_payoutB = 40, rm_conflict = True, rm_releaseAuthorityId = sample_word CHR ''7'',
     rm_releaseMode = sample_word CHR ''8'', rm_circuitHash = sample_word CHR ''9'', rm_parameterFingerprint = sample_word CHR ''f'',
     rm_nonce = 1, rm_issuedAt = 900, rm_expiry = 2000\<rparr>"

definition sample_adapter :: AdapterState where
  "sample_adapter = \<lparr>as_address = sample_address CHR ''1'', as_chainId = 10143, as_codeHash = sample_word CHR ''c'', as_runtimeBytes = 10,
     as_settlementToken = sample_address CHR ''2'', as_cviVerifier = sample_address CHR ''3'', as_attestor = sample_address CHR ''5'',
     as_facility = sample_address CHR ''4'', as_assetIdentityDigest = sample_word CHR ''3'', as_expectedGovernedReleaseAuthorityId = sample_word CHR ''7'',
     as_releaseMode = sample_word CHR ''8'', as_circuitHash = sample_word CHR ''9'', as_parameterFingerprint = sample_word CHR ''f'',
     as_availableReserve = 100, as_openReserved = 0, as_entitledUnpaid = 0, as_tokenBalance = 100, as_solvent = True,
     as_domainSeparator = sample_word CHR ''0'', as_roleHolder = 1, as_roleFacility = 2\<rparr>"

definition sample_prepared :: PreparedBridge where
  "sample_prepared = \<lparr>pb_payload = \<lparr>gb_schemaVersion = GOVERNED_BRIDGE_SCHEMA, gb_abiVersion = RECOURSE_ADAPTER_ABI_VERSION,
       gb_authorityInterpretation = PINS_GOVERNED_AUTHORITY,
       gb_domain = \<lparr>bd_name = ''MordantRecourseAdapter'', bd_version = ''1'', bd_chainId = 10143, bd_verifyingContract = sample_address CHR ''1''\<rparr>,
       gb_primaryType = ''GovernedRelease'', gb_types = GOVERNED_RELEASE_TYPES, gb_message = sample_message\<rparr>,
     pb_typedDataDigest = sample_word CHR ''d'', pb_structHash = sample_word CHR ''c'', pb_intentDigest = sample_word CHR ''0'',
     pb_adapter = sample_adapter, pb_signerAddress = sample_address CHR ''5''\<rparr>"

definition sample_authority :: SettlementAuthorityInput where
  "sample_authority = (deriveSettlementAuthorization zero_sha sample_settlement_plan, sample_settlement_plan)"

definition sample_bridge_state :: PreparedState where
  "sample_bridge_state = \<lparr>ps_prepared = sample_prepared, ps_settlement = Some sample_authority\<rparr>"

definition sample_permit :: SimulationState where
  "sample_permit = \<lparr>ss_prepared = sample_prepared, ss_signature = sample_signature, ss_simulatedAtUnix = 1000\<rparr>"

definition sample_signed :: SignedBridge where
  "sample_signed = \<lparr>sg_prepared = sample_prepared, sg_signature = sample_signature,
     sg_record = bridge_record sample_prepared sample_signature 1000, sg_newlySigned = True\<rparr>"

definition sample_path :: string where
  "sample_path = ''root/bridge/'' @ replicate 64 CHR ''a'' @ ''.json''"

definition executor_new :: "unit bridge_world" where
  "executor_new = \<lparr>bw_chain = (), bw_records = Map.empty, bw_prepared = Map.empty, bw_waiting = [], bw_simulations = Map.empty,
     bw_signed = Map.empty, bw_next = 0\<rparr>"

definition executor_prepared :: "unit bridge_world" where
  "executor_prepared = executor_new\<lparr>bw_prepared := [0 \<mapsto> sample_bridge_state], bw_next := Suc 0\<rparr>"

definition executor_simulated :: "unit bridge_world" where
  "executor_simulated = executor_new\<lparr>bw_simulations := [Suc 0 \<mapsto> sample_permit], bw_next := Suc (Suc 0)\<rparr>"

definition executor_signed :: "unit bridge_world" where
  "executor_signed = executor_new\<lparr>bw_records := [sample_path \<mapsto> Whole (record_value (sg_record sample_signed))],
     bw_signed := [Suc (Suc 0) \<mapsto> sample_signed], bw_next := Suc (Suc (Suc 0))\<rparr>"

lemma sample_release_facts: "release_facts sample_prepared = Settlement_Authority.sample_release"
  by (simp add: release_facts_def Let_def sample_prepared_def sample_adapter_def sample_message_def sample_word_def sample_release_def)

lemma sample_gate: "simulate_settlement_gate zero_sha (Some sample_authority) (release_facts sample_prepared) = Inr ()"
  using sample_gate_open by (simp add: sample_release_facts sample_authority_def)

lemma sample_formats:
  "validSignature sample_signature" "canonicalRecordHex (VString (sample_word CHR ''a'')) 32 = Inr (sample_word CHR ''a'')"
  by code_simp+

lemma retry_ok: "m c = (c', Inr x) \<Longrightarrow> retryReadOnly 3 m c = (c', Inr x)"
  by (simp add: retryReadOnly_def isSafeInteger_def MAX_SAFE_INTEGER_def)

lemma sample_candidate: "simulation_candidate sample_deps sample_bridge_state c = ((), Inr (sample_signature, 1000))"
  using sample_gate sample_formats
  by (simp add: simulation_candidate_def abind_def sample_deps_def sample_bridge_state_def catching_def failing_as_def check_def
      withReadOnlyRetries_def sample_reader_def Let_def retry_ok) (simp add: sample_prepared_def same_hex_def)

lemma sample_record_path: "bridgeRecordPath ''root'' (result_digest sample_prepared) = Inr sample_path"
  using sample_formats(2)
  by (simp add: bridgeRecordPath_def result_digest_def sample_prepared_def sample_message_def) (simp add: sample_word_def sample_path_def)

lemma sample_prepares: "bridge_step sample_deps (\<lambda>x. x = sample_authority) executor_new executor_prepared"
  using bridge_step.prepared_direct [of "\<lambda>x. x = sample_authority" "Some sample_authority" sample_deps executor_new "alift (Inr sample_prepared)"]
  by (simp add: prepareDirect_def abind_def on_chain_apply issue_prepared_def executor_prepared_def executor_new_def sample_bridge_state_def)

lemma sample_simulates: "(bridge_step sample_deps (\<lambda>x. x = sample_authority))\<^sup>*\<^sup>* executor_prepared executor_simulated"
proof -
  let ?w = "executor_prepared\<lparr>bw_waiting := [(0, sample_bridge_state)]\<rparr>"
  have "bridge_step sample_deps (\<lambda>x. x = sample_authority) executor_prepared ?w"
    using bridge_step.simulate_called [of executor_prepared 0 sample_bridge_state sample_deps "\<lambda>x. x = sample_authority"]
    by (simp add: executor_prepared_def executor_new_def)
  moreover have "bridge_step sample_deps (\<lambda>x. x = sample_authority) ?w executor_simulated"
    using bridge_step.simulate_answered [of 0 sample_bridge_state ?w sample_deps "\<lambda>x. x = sample_authority"]
    by (simp add: simulate_from_def abind_def on_chain_apply sample_candidate issue_permit_def executor_simulated_def executor_prepared_def
        executor_new_def sample_permit_def) (simp add: sample_bridge_state_def)
  ultimately show ?thesis by (meson converse_rtranclp_into_rtranclp rtranclp.rtrancl_refl)
qed

lemma sample_persists:
  "persistSigned sample_deps sample_prepared sample_signature (executor_simulated\<lparr>bw_simulations := Map.empty\<rparr>)
     = (executor_signed\<lparr>bw_signed := Map.empty, bw_next := Suc (Suc 0)\<rparr>, Inr sample_signed)"
  using sample_record_path
  by (simp add: persistSigned_def Let_def abind_def on_chain_apply createBridgeRecordOnly_def sample_deps_def executor_simulated_def executor_new_def
      executor_signed_def sample_signed_def result_digest_def)

lemma sample_signs: "sign sample_deps (Suc 0) executor_simulated = (executor_signed, Inr (Suc (Suc 0)))"
proof -
  have "sign sample_deps (Suc 0) executor_simulated
      = abind (persistSigned sample_deps sample_prepared sample_signature) issue_signed (executor_simulated\<lparr>bw_simulations := Map.empty\<rparr>)"
    using sign_some [of executor_simulated "Suc 0" sample_permit sample_deps "()" 1000]
    by (simp add: executor_simulated_def executor_new_def Let_def stale_def BRIDGE_SIMULATION_MAX_AGE_SECONDS_def)
      (simp add: sample_deps_def sample_permit_def)
  then show ?thesis by (simp add: abind_def sample_persists issue_signed_def executor_signed_def executor_new_def)
qed

lemma bridge_sample_run: "(bridge_step sample_deps (\<lambda>x. x = sample_authority))\<^sup>*\<^sup>* executor_new executor_simulated"
  "bridge_step sample_deps (\<lambda>x. x = sample_authority) executor_simulated executor_signed" "new_executor executor_new"
  using converse_rtranclp_into_rtranclp [OF sample_prepares sample_simulates]
    bridge_step.signed [of sample_deps "\<lambda>x. x = sample_authority" executor_simulated "Suc 0"]
  by (simp_all add: sample_signs) (simp add: new_executor_def executor_new_def)

lemma bridge_sample_run_signed: "(bridge_step sample_deps (\<lambda>x. x = sample_authority))\<^sup>*\<^sup>* executor_new executor_signed"
  using bridge_sample_run by (meson rtranclp.rtrancl_into_rtrancl)


theorem one_authorization_per_result_witness:
  "sg_record sample_signed = bridge_record sample_prepared sample_signature 1000 \<and> same_hex (pb_intentDigest sample_prepared) (pb_intentDigest sample_prepared)"
  using one_authorization_per_result [OF bridge_sample_run(3) bridge_sample_run_signed rtranclp.rtrancl_refl, of "Suc (Suc 0)" sample_signed "Suc (Suc 0)" sample_signed]
  by (simp add: executor_signed_def) (simp add: sample_signed_def)

lemma sample_record_canonical: "canonical_record Some (sg_record sample_signed)"
  by code_simp

theorem recorded_signature_is_returned_again_witness:
  "persistSigned sample_deps sample_prepared ''other'' (executor_signed\<lparr>bw_signed := Map.empty, bw_next := 2\<rparr>)
     = (executor_signed\<lparr>bw_signed := Map.empty, bw_next := 2\<rparr>, Inr (sample_signed\<lparr>sg_newlySigned := False\<rparr>))"
  using recorded_signature_is_returned_again [OF sample_persists, of "sample_address CHR ''5''" "executor_signed\<lparr>bw_signed := Map.empty, bw_next := 2\<rparr>" "()" 1000 "''other''"]
    sample_record_canonical
  by (simp add: sample_deps_def sample_lib_def records_kept_def same_hex_def sample_prepared_def) (simp add: sample_signed_def)

theorem permit_is_fresh_and_spent_once_witness:
  "sign sample_deps (Suc 0) executor_simulated = (executor_signed, Inr (Suc (Suc 0)))
   \<and> sign sample_deps (Suc 0) executor_signed = (executor_signed, Inl (execution_error ''SIMULATION_REQUIRED''))"
proof -
  have "bw_simulations executor_simulated (Suc 0) = Some sample_permit" "bx_now sample_deps (bw_chain executor_simulated) = ((), Inr 1000)"
    by (simp_all add: executor_simulated_def sample_deps_def)
  from permit_is_fresh_and_spent_once [OF bridge_sample_run(3,1) this sample_signs rtranclp.rtrancl_refl] sample_signs show ?thesis by blast
qed

theorem overlapping_simulations_give_two_permits_witness:
  "\<exists>w' k k' s s'. (bridge_step sample_deps (\<lambda>x. x = sample_authority))\<^sup>*\<^sup>* executor_prepared w' \<and> k \<noteq> k' \<and> bw_simulations w' k = Some s
     \<and> bw_simulations w' k' = Some s' \<and> ss_prepared s = sample_prepared \<and> ss_prepared s' = sample_prepared"
  using overlapping_simulations_give_two_permits [of executor_prepared 0 sample_bridge_state sample_deps "()" _ "()"] sample_candidate
  by (simp add: executor_prepared_def executor_new_def) (simp add: sample_bridge_state_def)

text \<open>A receipt with a foreign log and the event of the adapter.\<close>

definition sample_decoder :: receipt_decoder where
  "sample_decoder = \<lparr>de_getAddress = Some, de_decodeEventLog = (\<lambda>_ _. Inr (''ReleaseConsumed'', VObject ObjectPrototype
     [(''runId'', VString (sample_word CHR ''b'')), (''governedResultDigest'', VString (sample_word CHR ''a'')), (''conflict'', VBool True)]))\<rparr>"

definition sample_log :: "char \<Rightarrow> jsval" where
  "sample_log c = VObject ObjectPrototype [(''address'', VString (sample_address c)), (''topics'', VArray [VString (sample_word CHR ''f'')]), (''data'', VString ''0x'')]"

definition sample_bridge_receipt :: jsval where
  "sample_bridge_receipt = VObject ObjectPrototype [(''transactionHash'', VString (sample_word CHR ''9'')), (''status'', VString ''success''),
     (''to'', VString (sample_address CHR ''1'')), (''logs'', VArray [sample_log CHR ''8'', sample_log CHR ''1''])]"

lemma sample_reconciles:
  "reconcileReceipt sample_decoder (Suc (Suc 0)) sample_bridge_receipt executor_signed
     = Inr (ReceiptSuccess (sample_word CHR ''9'') (sample_word CHR ''b'') True (sample_word CHR ''a''))"
  by code_simp


end
