(* ===== verification/Direct_Evidence.thy ===== *)
theory Direct_Evidence
  imports Admission_Service Custom_Receipt
begin

text \<open>
  The bridge evidence of a direct-participant run (\<^verbatim>\<open>direct-participant-bridge-evidence.ts\<close>): its exact fields, the digest
  that seals it, and the verifier that takes every terminal value out of the signed governed result it carries; and the
  offline proof of one wallet admission.

  The evidence is a document that was read with \<^verbatim>\<open>JSON.parse\<close>, so it is a \<open>json\<close> value here and the governed result in it
  too: the signed text is rebuilt from its members. A member of another type than the static one compares unequal and
  fails the check that reads it.
\<close>

subsection \<open>Members of a document\<close>

fun jfield :: "json \<Rightarrow> string \<Rightarrow> json option" where
  "jfield (JObj kvs) k = map_of kvs k"
| "jfield v k = None"

fun jkeys :: "json \<Rightarrow> string list" where
  "jkeys (JObj kvs) = map fst kvs"
| "jkeys v = []"

fun is_jobject :: "json \<Rightarrow> bool" where
  "is_jobject (JObj kvs) = True"
| "is_jobject v = False"

fun without :: "string \<Rightarrow> json \<Rightarrow> json" where
  "without k (JObj kvs) = JObj (filter (\<lambda>kv. fst kv \<noteq> k) kvs)"
| "without k v = v"

text \<open>A text member seen through its static type, once the verifier has established it.\<close>

definition jtext :: "json \<Rightarrow> string \<Rightarrow> string" where
  "jtext v k = (case jfield v k of Some (JStr s) \<Rightarrow> s | _ \<Rightarrow> [])"

definition jnumber :: "json \<Rightarrow> string \<Rightarrow> int" where
  "jnumber v k = (case jfield v k of Some (JNum i) \<Rightarrow> i | _ \<Rightarrow> 0)"

definition jelement :: "json option \<Rightarrow> nat \<Rightarrow> json option" where
  "jelement v i = (case v of Some (JArr vs) \<Rightarrow> if i < length vs then Some (vs ! i) else None | _ \<Rightarrow> None)"

subsection \<open>Constants and checks\<close>

definition DIRECT_PARTICIPANT_BRIDGE_EVIDENCE_SCHEMA :: string where
  "DIRECT_PARTICIPANT_BRIDGE_EVIDENCE_SCHEMA = ''mordant.direct-participant-bridge-evidence/1''"

definition DIRECT_PARTICIPANT_ROLES :: "ParticipantRole list" where
  "DIRECT_PARTICIPANT_ROLES = [PARTICIPANT_A, PARTICIPANT_B]"

definition FORBIDDEN_KEYS :: "string list" where
  "FORBIDDEN_KEYS = [
     ''activeFrom'', ''activeUntil'', ''supervisedPledgeWindows'', ''pledges'', ''pledge'', ''claim'',
     ''privateKey'', ''signingKey'', ''secretKey'', ''decryptorPrivate'', ''participantPrivate'',
     ''attestorPrivateKey'', ''path'', ''root'', ''publicRoot'', ''privateRoot'']"

definition EVIDENCE_FIELDS :: "string list" where
  "EVIDENCE_FIELDS = [
     ''schemaVersion'', ''evidenceDigest'', ''sourceCommit'', ''runId'', ''executionVariant'', ''fheCaseId'',
     ''protectionBindingDigest'', ''caseBindingDigest'', ''caseBinding'', ''participants'',
     ''participantArtifactDigestA'', ''participantArtifactDigestB'', ''evaluatedArtifactDigest'',
     ''governedResultDigest'', ''governedResult'', ''customReceiptDigest'']"

definition ADMISSION_FIELDS :: "string list" where
  "ADMISSION_FIELDS = [''role'', ''participantWallet'', ''authorizationDigest'', ''claimCommitment'',
     ''authorizationNonce'', ''chainId'', ''eligibilityBlock'']"

definition ADMISSION_FIELDS_WITH_PROOF :: "string list" where
  "ADMISSION_FIELDS_WITH_PROOF = ADMISSION_FIELDS @ [''authorization'', ''signature'']"

definition CASE_BINDING_FIELDS :: "string list" where
  "CASE_BINDING_FIELDS = [''caseId'', ''assetIdentity'', ''policyId'', ''circuitDigest'', ''parameterFingerprint'',
     ''releaseMode'', ''releaseAuthorityId'', ''releaseAuthorityPublicKey'']"

definition evidence_error :: "string \<Rightarrow> merror" where
  "evidence_error code = DirectParticipantBridgeEvidenceError code"

definition document_exactKeys :: "json option \<Rightarrow> string list \<Rightarrow> string \<Rightarrow> json result" where
  "document_exactKeys v expected code = (case v of
     Some doc \<Rightarrow> if is_jobject doc \<and> sort (jkeys doc) = sort expected then Inr doc else Inl (evidence_error code)
   | None \<Rightarrow> Inl (evidence_error code))"

definition matching_text :: "(string \<Rightarrow> bool) \<Rightarrow> json option \<Rightarrow> string \<Rightarrow> string result" where
  "matching_text P v code = (case v of Some (JStr s) \<Rightarrow> if P s then Inr s else Inl (evidence_error code) | _ \<Rightarrow> Inl (evidence_error code))"

definition digest_member :: "json option \<Rightarrow> string \<Rightarrow> string result" where
  "digest_member = matching_text (fixed_regex SHA256_LOWER)"

definition bytes32Hex :: "json option \<Rightarrow> string \<Rightarrow> string result" where
  "bytes32Hex = matching_text (fixed_regex BYTES32_LOWER)"

definition address_member :: "json option \<Rightarrow> string \<Rightarrow> string result" where
  "address_member = matching_text (fixed_regex ADDRESS_ANY)"

definition exactCommit :: "json option \<Rightarrow> string \<Rightarrow> string result" where
  "exactCommit = matching_text (fixed_regex (replicate 40 lower_hex))"

definition wholeNumber :: "json option \<Rightarrow> string \<Rightarrow> int result" where
  "wholeNumber v code = (case v of
     Some (JNum i) \<Rightarrow> if isSafeInteger i \<and> 0 \<le> i then Inr i else Inl (evidence_error code)
   | _ \<Rightarrow> Inl (evidence_error code))"

definition directParticipantBridgeEvidenceDigest :: "(string \<Rightarrow> string) \<Rightarrow> json \<Rightarrow> string" where
  "directParticipantBridgeEvidenceDigest sha evidence = ''sha256:'' @ sha (''MordantDirectParticipantBridgeEvidence/v1'' @ [CHR 0x00] @ canonicalJson evidence)"

subsection \<open>The signed result in the document\<close>

text \<open>\<^verbatim>\<open>governedResultValue\<close> on a published object: the members in the order of the literal, the signature blanked for signing.\<close>

definition result_value :: "json \<Rightarrow> bool \<Rightarrow> json" where
  "result_value result signing = JObj (map (\<lambda>k. (k, if k = ''signature'' \<and> signing then JNull
     else (case jfield result k of Some v \<Rightarrow> v | None \<Rightarrow> JNull))) GOVERNED_RESULT_KEYS)"

definition result_digest_of :: "(string \<Rightarrow> string) \<Rightarrow> json \<Rightarrow> string" where
  "result_digest_of sha result = sha256Raw sha (stringify (result_value result False))"

definition verify_result_signature :: "(string \<Rightarrow> string \<Rightarrow> string \<Rightarrow> bool) \<Rightarrow> json \<Rightarrow> unit result" where
  "verify_result_signature ed25519 result =
     (let expected = GOVERNED_RESULT_KEYS @ (if ''digest'' \<in> set (jkeys result) then [''digest''] else []) in
      ebind (check (is_jobject result \<and> sort (jkeys result) = sort expected) (ProtectionEvidenceError ''GOVERNED_RESULT_FIELDS'')) (\<lambda>_.
      case (jfield result ''releaseAuthorityPublicKey'', jfield result ''signature'') of
        (Some (JStr key), Some (JStr signature)) \<Rightarrow>
          verifyGoSignature ed25519 key ''MordantGovernedConflictResult/v1'' (result_value result True) signature ''GOVERNED_RESULT_SIGNATURE''
      | _ \<Rightarrow> Inl TypeError))"

definition releaseAuthorityIdentity :: "(string \<Rightarrow> string) \<Rightarrow> string \<Rightarrow> string \<Rightarrow> string result" where
  "releaseAuthorityIdentity sha releaseAuthorityPublicKey releaseMode =
     (case canonical_base64 32 releaseAuthorityPublicKey of
        None \<Rightarrow> Inl (ProtectionEvidenceError ''RELEASE_AUTHORITY_KEY'')
      | Some raw \<Rightarrow> Inr (sha256Raw sha (''MordantReleaseAuthorityIdentity/v1'' @ [CHR 0x00] @ releaseMode @ [CHR 0x00] @ raw)))"

definition assertReleaseAuthorityIdentity :: "(string \<Rightarrow> string) \<Rightarrow> string \<Rightarrow> string \<Rightarrow> string \<Rightarrow> string \<Rightarrow> string result" where
  "assertReleaseAuthorityIdentity sha releaseAuthorityPublicKey releaseMode claimedAuthorityId code =
     ebind (releaseAuthorityIdentity sha releaseAuthorityPublicKey releaseMode) (\<lambda>derived.
     ebind (check (derived = claimedAuthorityId) (ProtectionEvidenceError code)) (\<lambda>_. Inr derived))"

text \<open>A check of another module whose errors become errors of this one.\<close>

definition normalized :: "string \<Rightarrow> 'a result \<Rightarrow> 'a result" where
  "normalized code m = (case m of Inl e \<Rightarrow> Inl (evidence_error code) | Inr x \<Rightarrow> Inr x)"

subsection \<open>The verifier\<close>

record DirectParticipantBridgeExpectations =
  xp_sourceCommit :: string
  xp_assetIdentity :: string
  xp_holderA :: string
  xp_holderB :: string
  xp_excludedWallets :: "string list"
  xp_runId :: "string option"

text \<open>Shape, variant, seal and provenance.\<close>

definition check_provenance :: "(string \<Rightarrow> string) \<Rightarrow> json \<Rightarrow> DirectParticipantBridgeExpectations \<Rightarrow> unit result" where
  "check_provenance sha value x =
     ebind (document_exactKeys (Some value) EVIDENCE_FIELDS ''EVIDENCE_FIELDS'') (\<lambda>raw.
     ebind (check (jfield raw ''schemaVersion'' = Some (JStr DIRECT_PARTICIPANT_BRIDGE_EVIDENCE_SCHEMA)) (evidence_error ''SCHEMA'')) (\<lambda>_.
     ebind (check (jfield raw ''executionVariant'' = Some (JStr CUSTOM_SUPERVISED_EXECUTION_VARIANT)) (evidence_error ''EXECUTION_VARIANT'')) (\<lambda>_.
     ebind (digest_member (jfield raw ''evidenceDigest'') ''EVIDENCE_DIGEST'') (\<lambda>sealed.
     ebind (check (sealed = directParticipantBridgeEvidenceDigest sha (without ''evidenceDigest'' value)) (evidence_error ''EVIDENCE_DIGEST'')) (\<lambda>_.
     ebind (exactCommit (jfield raw ''sourceCommit'') ''SOURCE_COMMIT'') (\<lambda>sourceCommit.
     ebind (exactCommit (Some (JStr (xp_sourceCommit x))) ''SOURCE_COMMIT_PIN'') (\<lambda>expected.
     ebind (check (sourceCommit = expected) (evidence_error ''SOURCE_COMMIT'')) (\<lambda>_.
     ebind (matching_text (fixed_regex UUID_PATTERN) (jfield raw ''runId'') ''RUN_ID'') (\<lambda>runId.
     check (\<not> (xp_runId x \<noteq> None \<and> xp_runId x \<noteq> Some runId)) (evidence_error ''RUN_ID''))))))))))"

record evidence_digests =
  ed_fheCaseId :: string
  ed_protectionBindingDigest :: string
  ed_caseBindingDigest :: string
  ed_participantArtifactDigestA :: string
  ed_participantArtifactDigestB :: string
  ed_evaluatedArtifactDigest :: string
  ed_governedResultDigest :: string

definition check_digests :: "json \<Rightarrow> evidence_digests result" where
  "check_digests raw =
     ebind (digest_member (jfield raw ''fheCaseId'') ''CASE_ID'') (\<lambda>fheCaseId.
     ebind (digest_member (jfield raw ''protectionBindingDigest'') ''PROTECTION_BINDING'') (\<lambda>protectionBindingDigest.
     ebind (digest_member (jfield raw ''caseBindingDigest'') ''CASE_BINDING'') (\<lambda>caseBindingDigest.
     ebind (digest_member (jfield raw ''participantArtifactDigestA'') ''ARTIFACT_A'') (\<lambda>artifactA.
     ebind (digest_member (jfield raw ''participantArtifactDigestB'') ''ARTIFACT_B'') (\<lambda>artifactB.
     ebind (digest_member (jfield raw ''evaluatedArtifactDigest'') ''EVALUATED'') (\<lambda>evaluated.
     ebind (digest_member (jfield raw ''governedResultDigest'') ''RESULT_DIGEST'') (\<lambda>declared.
     ebind (digest_member (jfield raw ''customReceiptDigest'') ''RECEIPT_DIGEST'') (\<lambda>_.
     ebind (check (protectionBindingDigest \<noteq> caseBindingDigest) (evidence_error ''BINDING_DISTINCT'')) (\<lambda>_.
     ebind (check (artifactA \<noteq> artifactB) (evidence_error ''ARTIFACTS_DISTINCT'')) (\<lambda>_.
     Inr \<lparr>ed_fheCaseId = fheCaseId, ed_protectionBindingDigest = protectionBindingDigest, ed_caseBindingDigest = caseBindingDigest,
          ed_participantArtifactDigestA = artifactA, ed_participantArtifactDigestB = artifactB, ed_evaluatedArtifactDigest = evaluated,
          ed_governedResultDigest = declared\<rparr>))))))))))"

record DirectParticipantCaseBinding =
  db_caseId :: string
  db_assetIdentity :: string
  db_policyId :: string
  db_circuitDigest :: string
  db_parameterFingerprint :: string
  db_releaseMode :: string
  db_releaseAuthorityId :: string
  db_releaseAuthorityPublicKey :: string

definition check_case_binding :: "json \<Rightarrow> DirectParticipantCaseBinding result" where
  "check_case_binding raw =
     ebind (document_exactKeys (jfield raw ''caseBinding'') CASE_BINDING_FIELDS ''CASE_BINDING_FIELDS'') (\<lambda>binding.
     ebind (digest_member (jfield binding ''caseId'') ''CASE_BINDING'') (\<lambda>caseId.
     ebind (digest_member (jfield binding ''assetIdentity'') ''CASE_BINDING'') (\<lambda>asset.
     ebind (digest_member (jfield binding ''circuitDigest'') ''CASE_BINDING'') (\<lambda>circuit.
     ebind (digest_member (jfield binding ''parameterFingerprint'') ''CASE_BINDING'') (\<lambda>parameters.
     ebind (digest_member (jfield binding ''releaseAuthorityId'') ''CASE_BINDING'') (\<lambda>authority.
     ebind (digest_member (jfield binding ''policyId'') ''CASE_BINDING'') (\<lambda>policy.
     ebind (check (jfield binding ''releaseMode'' = Some (JStr ''governed-decryptor-v1'')) (evidence_error ''CASE_BINDING'')) (\<lambda>_.
     ebind (matching_text (\<lambda>s. s \<noteq> []) (jfield binding ''releaseAuthorityPublicKey'') ''CASE_BINDING'') (\<lambda>key.
     Inr \<lparr>db_caseId = caseId, db_assetIdentity = asset, db_policyId = policy, db_circuitDigest = circuit, db_parameterFingerprint = parameters,
          db_releaseMode = ''governed-decryptor-v1'', db_releaseAuthorityId = authority, db_releaseAuthorityPublicKey = key\<rparr>)))))))))"

definition member_is :: "json \<Rightarrow> string \<Rightarrow> string \<Rightarrow> string \<Rightarrow> unit result" where
  "member_is result k expected code = check (jfield result k = Some (JStr expected)) (evidence_error code)"

text \<open>The signature, the digest of the signed object, and the signed object against the case binding and the authority.\<close>

definition check_signed_result ::
  "(string \<Rightarrow> string) \<Rightarrow> (string \<Rightarrow> string \<Rightarrow> string \<Rightarrow> bool) \<Rightarrow> json \<Rightarrow> evidence_digests \<Rightarrow> DirectParticipantCaseBinding
     \<Rightarrow> DirectParticipantBridgeExpectations \<Rightarrow> unit result" where
  "check_signed_result sha ed25519 result ds binding x =
     ebind (normalized ''GOVERNED_RESULT_SIGNATURE'' (verify_result_signature ed25519 result)) (\<lambda>_.
     ebind (check (result_digest_of sha result = ed_governedResultDigest ds) (evidence_error ''RESULT_DIGEST'')) (\<lambda>_.
     ebind (member_is result ''caseId'' (ed_fheCaseId ds) ''CASE_ID'') (\<lambda>_.
     ebind (member_is result ''caseId'' (db_caseId binding) ''CASE_ID'') (\<lambda>_.
     ebind (member_is result ''caseBindingDigest'' (ed_caseBindingDigest ds) ''CASE_BINDING'') (\<lambda>_.
     ebind (member_is result ''assetIdentity'' (db_assetIdentity binding) ''ASSET_IDENTITY'') (\<lambda>_.
     ebind (digest_member (Some (JStr (xp_assetIdentity x))) ''ASSET_PIN'') (\<lambda>asset.
     ebind (member_is result ''assetIdentity'' asset ''ASSET_IDENTITY'') (\<lambda>_.
     ebind (member_is result ''releaseMode'' (db_releaseMode binding) ''RELEASE_MODE'') (\<lambda>_.
     ebind (member_is result ''releaseAuthorityId'' (db_releaseAuthorityId binding) ''RELEASE_AUTHORITY'') (\<lambda>_.
     ebind (member_is result ''releaseAuthorityPublicKey'' (db_releaseAuthorityPublicKey binding) ''RELEASE_AUTHORITY'') (\<lambda>_.
     ebind (normalized ''RELEASE_AUTHORITY_IDENTITY'' (assertReleaseAuthorityIdentity sha (jtext result ''releaseAuthorityPublicKey'')
       (jtext result ''releaseMode'') (jtext result ''releaseAuthorityId'') ''RELEASE_AUTHORITY_IDENTITY'')) (\<lambda>_.
     ebind (member_is result ''circuitDigest'' (db_circuitDigest binding) ''CIRCUIT'') (\<lambda>_.
     member_is result ''parameterFingerprint'' (db_parameterFingerprint binding) ''PARAMETERS'')))))))))))))"

text \<open>The signed object against the artifacts of the run.\<close>

definition check_artifacts :: "json \<Rightarrow> evidence_digests \<Rightarrow> unit result" where
  "check_artifacts result ds =
     ebind (check (jelement (jfield result ''participantArtifactDigests'') 0 = Some (JStr (ed_participantArtifactDigestA ds))
         \<and> jelement (jfield result ''participantArtifactDigests'') 1 = Some (JStr (ed_participantArtifactDigestB ds)))
       (evidence_error ''PARTICIPANT_ARTIFACTS'')) (\<lambda>_.
     ebind (member_is result ''evaluatedArtifactDigest'' (ed_evaluatedArtifactDigest ds) ''EVALUATED_ARTIFACT'') (\<lambda>_.
     ebind (case jfield result ''resultCiphertextDigest'' of
         Some (JStr s) \<Rightarrow> check (s = toLowerCase s) (evidence_error ''RESULT_CIPHERTEXT'')
       | _ \<Rightarrow> Inl TypeError) (\<lambda>_.
     ebind (digest_member (jfield result ''resultCiphertextCommitment'') ''RESULT_COMMITMENT'') (\<lambda>_.
     ebind (digest_member (jfield result ''sourceProvenance'') ''SOURCE_PROVENANCE'') (\<lambda>_. Inr ())))))"

definition check_admission :: "ParticipantRole \<Rightarrow> json \<Rightarrow> string result" where
  "check_admission role entry =
     ebind (document_exactKeys (Some entry) (if ''signature'' \<in> set (jkeys entry) then ADMISSION_FIELDS_WITH_PROOF else ADMISSION_FIELDS)
       ''ADMISSION_FIELDS'') (\<lambda>r.
     ebind (check (jfield r ''role'' = Some (JStr (role_name role))) (evidence_error ''ADMISSION_ROLE'')) (\<lambda>_.
     ebind (bytes32Hex (jfield r ''authorizationDigest'') ''ADMISSION_AUTHORIZATION'') (\<lambda>_.
     ebind (bytes32Hex (jfield r ''claimCommitment'') ''ADMISSION_COMMITMENT'') (\<lambda>_.
     ebind (bytes32Hex (jfield r ''authorizationNonce'') ''ADMISSION_NONCE'') (\<lambda>_.
     ebind (wholeNumber (jfield r ''eligibilityBlock'') ''ADMISSION_ELIGIBILITY'') (\<lambda>_.
     ebind (check (jfield r ''chainId'' = Some (JNum 10143)) (evidence_error ''ADMISSION_CHAIN'')) (\<lambda>_.
     address_member (jfield r ''participantWallet'') ''ADMISSION_WALLET'')))))))"

definition check_admissions :: "json \<Rightarrow> DirectParticipantBridgeExpectations \<Rightarrow> (string \<times> string) result" where
  "check_admissions raw x = (case jfield raw ''participants'' of
     Some (JArr [entryA, entryB]) \<Rightarrow>
       ebind (check_admission PARTICIPANT_A entryA) (\<lambda>walletA.
       ebind (check_admission PARTICIPANT_B entryB) (\<lambda>walletB.
       ebind (address_member (Some (JStr (xp_holderA x))) ''HOLDER_PIN'') (\<lambda>holderA.
       ebind (address_member (Some (JStr (xp_holderB x))) ''HOLDER_PIN'') (\<lambda>holderB.
       ebind (check (toLowerCase walletA = toLowerCase holderA) (evidence_error ''CANONICAL_PARTICIPANT'')) (\<lambda>_.
       ebind (check (toLowerCase walletB = toLowerCase holderB) (evidence_error ''CANONICAL_PARTICIPANT'')) (\<lambda>_.
       ebind (check (toLowerCase walletA \<noteq> toLowerCase walletB) (evidence_error ''PARTICIPANTS_DISTINCT'')) (\<lambda>_.
       ebind (check (\<not> list_ex (\<lambda>w. toLowerCase w \<in> set (map toLowerCase (xp_excludedWallets x))) [walletA, walletB])
         (evidence_error ''EXCLUDED_PARTICIPANT'')) (\<lambda>_.
       Inr (walletA, walletB)))))))))
   | _ \<Rightarrow> Inl (evidence_error ''PARTICIPANTS''))"

definition check_private :: "json \<Rightarrow> unit result" where
  "check_private value = check (\<not> list_ex (\<lambda>k. str_includes (canonicalJson value) ([CHR 0x22] @ k @ [CHR 0x22])) FORBIDDEN_KEYS)
     (evidence_error ''PRIVATE_LEAK'')"

record VerifiedDirectParticipantBridgeEvidence =
  vd_evidence :: json
  vd_conflict :: bool
  vd_governedResult :: json
  vd_holderA :: string
  vd_holderB :: string

definition assertDirectParticipantBridgeEvidence ::
  "(string \<Rightarrow> string) \<Rightarrow> (string \<Rightarrow> string \<Rightarrow> string \<Rightarrow> bool) \<Rightarrow> json \<Rightarrow> DirectParticipantBridgeExpectations
     \<Rightarrow> VerifiedDirectParticipantBridgeEvidence result" where
  "assertDirectParticipantBridgeEvidence sha ed25519 value x =
     ebind (check_provenance sha value x) (\<lambda>_.
     ebind (check_digests value) (\<lambda>ds.
     ebind (check_case_binding value) (\<lambda>binding.
     ebind (require (jfield value ''governedResult'') TypeError) (\<lambda>result.
     ebind (check_signed_result sha ed25519 result ds binding x) (\<lambda>_.
     ebind (check_artifacts result ds) (\<lambda>_.
     ebind (check_admissions value x) (\<lambda>wallets.
     ebind (check_private value) (\<lambda>_.
     case jfield result ''conflict'' of
       Some (JBool conflict) \<Rightarrow> Inr \<lparr>vd_evidence = value, vd_conflict = conflict, vd_governedResult = result,
         vd_holderA = fst wallets, vd_holderB = snd wallets\<rparr>
     | _ \<Rightarrow> Inl (evidence_error ''CONFLICT'')))))))))"

subsection \<open>Assembly\<close>

record DirectParticipantBridgeEvidenceInput =
  ei_sourceCommit :: string
  ei_runId :: string
  ei_fheCaseId :: string
  ei_protectionBindingDigest :: string
  ei_caseBindingDigest :: string
  ei_caseBinding :: DirectParticipantCaseBinding
  ei_participants :: "json \<times> json"
  ei_participantArtifactDigestA :: string
  ei_participantArtifactDigestB :: string
  ei_evaluatedArtifactDigest :: string
  ei_governedResult :: json
  ei_customReceiptDigest :: string

definition case_binding_json :: "DirectParticipantCaseBinding \<Rightarrow> json" where
  "case_binding_json b = JObj [(''caseId'', JStr (db_caseId b)), (''assetIdentity'', JStr (db_assetIdentity b)), (''policyId'', JStr (db_policyId b)),
     (''circuitDigest'', JStr (db_circuitDigest b)), (''parameterFingerprint'', JStr (db_parameterFingerprint b)), (''releaseMode'', JStr (db_releaseMode b)),
     (''releaseAuthorityId'', JStr (db_releaseAuthorityId b)), (''releaseAuthorityPublicKey'', JStr (db_releaseAuthorityPublicKey b))]"

definition evidence_body :: "(string \<Rightarrow> string) \<Rightarrow> DirectParticipantBridgeEvidenceInput \<Rightarrow> (string \<times> json) list" where
  "evidence_body sha inp = [
     (''schemaVersion'', JStr DIRECT_PARTICIPANT_BRIDGE_EVIDENCE_SCHEMA), (''sourceCommit'', JStr (ei_sourceCommit inp)),
     (''runId'', JStr (ei_runId inp)), (''executionVariant'', JStr CUSTOM_SUPERVISED_EXECUTION_VARIANT), (''fheCaseId'', JStr (ei_fheCaseId inp)),
     (''protectionBindingDigest'', JStr (ei_protectionBindingDigest inp)), (''caseBindingDigest'', JStr (ei_caseBindingDigest inp)),
     (''caseBinding'', case_binding_json (ei_caseBinding inp)), (''participants'', JArr [fst (ei_participants inp), snd (ei_participants inp)]),
     (''participantArtifactDigestA'', JStr (ei_participantArtifactDigestA inp)), (''participantArtifactDigestB'', JStr (ei_participantArtifactDigestB inp)),
     (''evaluatedArtifactDigest'', JStr (ei_evaluatedArtifactDigest inp)),
     (''governedResultDigest'', JStr (result_digest_of sha (ei_governedResult inp))), (''governedResult'', ei_governedResult inp),
     (''customReceiptDigest'', JStr (ei_customReceiptDigest inp))]"

definition buildDirectParticipantBridgeEvidence :: "(string \<Rightarrow> string) \<Rightarrow> DirectParticipantBridgeEvidenceInput \<Rightarrow> json" where
  "buildDirectParticipantBridgeEvidence sha inp =
     JObj (evidence_body sha inp @ [(''evidenceDigest'', JStr (directParticipantBridgeEvidenceDigest sha (JObj (evidence_body sha inp))))])"

subsection \<open>The proof of one admission\<close>

record DirectParticipantAdmissionFact =
  da_role :: ParticipantRole
  da_participantWallet :: string
  da_authorizationDigest :: string
  da_claimCommitment :: string
  da_authorizationNonce :: string
  da_chainId :: int
  da_eligibilityBlock :: int
  da_authorization :: "(string \<times> jsval) list option"
  da_signature :: "string option"

text \<open>The struct the wallet signed, of the schema that its members show.\<close>

datatype admission_message = SignedV1 ParticipantAdmissionMessage | SignedV2 ParticipantAdmissionV2Message

fun signed_role :: "admission_message \<Rightarrow> ParticipantRole" where
  "signed_role (SignedV1 m) = am_role m"
| "signed_role (SignedV2 m) = mv_role m"

fun signed_wallet :: "admission_message \<Rightarrow> string" where
  "signed_wallet (SignedV1 m) = am_participantWallet m"
| "signed_wallet (SignedV2 m) = mv_participantWallet m"

fun signed_runId :: "admission_message \<Rightarrow> jsval" where
  "signed_runId (SignedV1 m) = VString (am_runId m)"
| "signed_runId (SignedV2 m) = mv_runId m"

fun signed_fheCaseId :: "admission_message \<Rightarrow> string" where
  "signed_fheCaseId (SignedV1 m) = am_fheCaseId m"
| "signed_fheCaseId (SignedV2 m) = mv_fheCaseId m"

fun signed_bindingDigest :: "admission_message \<Rightarrow> string" where
  "signed_bindingDigest (SignedV1 m) = am_protectionBindingDigest m"
| "signed_bindingDigest (SignedV2 m) = mv_protectionBindingDigest m"

fun signed_nonce :: "admission_message \<Rightarrow> string" where
  "signed_nonce (SignedV1 m) = am_authorizationNonce m"
| "signed_nonce (SignedV2 m) = mv_authorizationNonce m"

fun signed_key :: "admission_message \<Rightarrow> string option" where
  "signed_key (SignedV1 m) = None"
| "signed_key (SignedV2 m) = Some (mv_participantSigningKeyDigest m)"

fun signed_typed_data :: "(string \<Rightarrow> string) \<Rightarrow> admission_message \<Rightarrow> int \<Rightarrow> TypedData" where
  "signed_typed_data keccak (SignedV1 m) chainId = participantAdmissionTypedData keccak m (Some chainId)"
| "signed_typed_data keccak (SignedV2 m) chainId = participantAdmissionV2TypedData keccak m (Some chainId)"

definition parse_admission_message :: "(string \<Rightarrow> string option) \<Rightarrow> (string \<times> jsval) list \<Rightarrow> admission_message result" where
  "parse_admission_message getAddress raw =
     (if ''participantSigningKeyDigest'' \<in> set (map fst raw)
      then ebind (assertParticipantAdmissionV2Message (VObject ObjectPrototype raw)) (\<lambda>m. Inr (SignedV2 m))
      else ebind (assertParticipantAdmissionMessage getAddress (VObject ObjectPrototype raw)) (\<lambda>m. Inr (SignedV1 m)))"

record admission_proof_crypto =
  pc_keccak :: "string \<Rightarrow> string"
  pc_getAddress :: "string \<Rightarrow> string option"
  pc_hashTypedData :: "TypedData \<Rightarrow> string"
  pc_recoverTypedDataAddress :: "TypedData \<Rightarrow> string \<Rightarrow> string result"

record admission_expected =
  pe_runId :: string
  pe_fheCaseId :: string
  pe_protectionBindingDigest :: string

record VerifiedAdmissionProof =
  vp_role :: ParticipantRole
  vp_wallet :: string
  vp_recoveredSigner :: string
  vp_authorizationDigest :: string
  vp_admissionSchema :: string
  vp_participantSigningKeyDigest :: "string option"

definition assertParticipantAdmissionProof ::
  "admission_proof_crypto \<Rightarrow> DirectParticipantAdmissionFact \<Rightarrow> admission_expected \<Rightarrow> VerifiedAdmissionProof result" where
  "assertParticipantAdmissionProof pc af expected =
     ebind (require (da_authorization af) (evidence_error ''ADMISSION_PROOF_MISSING'')) (\<lambda>raw.
     ebind (require (da_signature af) (evidence_error ''ADMISSION_PROOF_MISSING'')) (\<lambda>signature.
     ebind (check (fixed_regex (lit ''0x'' @ replicate 130 any_hex) signature) (evidence_error ''ADMISSION_PROOF_SIGNATURE'')) (\<lambda>_.
     ebind (parse_admission_message (pc_getAddress pc) raw) (\<lambda>m.
     ebind (check (signed_role m = da_role af) (evidence_error ''ADMISSION_PROOF_ROLE'')) (\<lambda>_.
     ebind (check (toLowerCase (signed_wallet m) = toLowerCase (da_participantWallet af)) (evidence_error ''ADMISSION_PROOF_WALLET'')) (\<lambda>_.
     ebind (check (signed_runId m = VString (pe_runId expected)) (evidence_error ''ADMISSION_PROOF_RUN'')) (\<lambda>_.
     ebind (digestToBytes32 (pe_fheCaseId expected)) (\<lambda>fheCaseId.
     ebind (check (signed_fheCaseId m = fheCaseId) (evidence_error ''ADMISSION_PROOF_CASE'')) (\<lambda>_.
     ebind (digestToBytes32 (pe_protectionBindingDigest expected)) (\<lambda>binding.
     ebind (check (signed_bindingDigest m = binding) (evidence_error ''ADMISSION_PROOF_BINDING'')) (\<lambda>_.
     ebind (check (toLowerCase (signed_nonce m) = toLowerCase (da_authorizationNonce af)) (evidence_error ''ADMISSION_PROOF_NONCE'')) (\<lambda>_.
     ebind (check (da_chainId af = 10143) (evidence_error ''ADMISSION_PROOF_CHAIN'')) (\<lambda>_.
     let typedData = signed_typed_data (pc_keccak pc) m (da_chainId af) in
     ebind (check (toLowerCase (pc_hashTypedData pc typedData) = toLowerCase (da_authorizationDigest af)) (evidence_error ''ADMISSION_PROOF_DIGEST'')) (\<lambda>_.
     ebind (normalized ''ADMISSION_PROOF_SIGNATURE'' (pc_recoverTypedDataAddress pc typedData signature)) (\<lambda>recovered.
     ebind (check (toLowerCase recovered = toLowerCase (da_participantWallet af)) (evidence_error ''ADMISSION_PROOF_SIGNER'')) (\<lambda>_.
     Inr \<lparr>vp_role = da_role af, vp_wallet = da_participantWallet af, vp_recoveredSigner = recovered,
          vp_authorizationDigest = da_authorizationDigest af,
          vp_admissionSchema = (case m of SignedV1 _ \<Rightarrow> ''ParticipantAdmissionV1'' | SignedV2 _ \<Rightarrow> ''ParticipantAdmissionV2''),
          vp_participantSigningKeyDigest = signed_key m\<rparr>))))))))))))))))"

subsection \<open>What each check establishes\<close>

lemma document_exactKeys_ok [result_simps]:
  "document_exactKeys v expected code = Inr doc \<longleftrightarrow> v = Some doc \<and> is_jobject doc \<and> sort (jkeys doc) = sort expected"
  by (auto simp: document_exactKeys_def split: option.splits if_splits)

lemma matching_text_ok [result_simps]: "matching_text P v code = Inr s \<longleftrightarrow> v = Some (JStr s) \<and> P s"
  by (auto simp: matching_text_def split: option.splits json.splits)

lemmas text_checks = digest_member_def bytes32Hex_def address_member_def exactCommit_def

lemma normalized_ok [result_simps]: "normalized code m = Inr x \<longleftrightarrow> m = Inr x"
  by (auto simp: normalized_def split: sum.splits)

lemma member_is_ok [result_simps]: "member_is result k expected code = Inr u \<longleftrightarrow> jfield result k = Some (JStr expected)"
  by (simp add: member_is_def check_eq_Inr)

lemma wholeNumber_ok [result_simps]: "wholeNumber v code = Inr i \<longleftrightarrow> v = Some (JNum i) \<and> isSafeInteger i \<and> 0 \<le> i"
  by (auto simp: wholeNumber_def split: option.splits json.splits)

lemma verify_result_signature_ok:
  "verify_result_signature ed25519 result = Inr () \<Longrightarrow> jfield result ''releaseAuthorityPublicKey'' = Some (JStr pk)
     \<Longrightarrow> \<exists>key raw. pk = base64_encode key \<and> length key = 32 \<and> length raw = 64
        \<and> jfield result ''signature'' = Some (JStr (base64_encode raw))
        \<and> ed25519 key (''MordantGovernedConflictResult/v1'' @ [CHR 0x00] @ stringify (result_value result True)) raw"
  by (auto simp: verify_result_signature_def Let_def result_simps verifyGoSignature_ok split: option.splits json.splits)

lemma authority_identity_ok:
  "assertReleaseAuthorityIdentity sha (base64_encode key) mode claimed code = Inr d \<Longrightarrow> length key = 32
     \<Longrightarrow> claimed = sha256Raw sha (''MordantReleaseAuthorityIdentity/v1'' @ [CHR 0x00] @ mode @ [CHR 0x00] @ key)"
  using canonical_base64_iff [of 32 "base64_encode key" key]
  by (auto simp: assertReleaseAuthorityIdentity_def releaseAuthorityIdentity_def result_simps)

text \<open>The text that identifies a release authority by its key.\<close>

definition authority_of_key :: "(string \<Rightarrow> string) \<Rightarrow> string \<Rightarrow> string \<Rightarrow> string" where
  "authority_of_key sha mode key = sha256Raw sha (''MordantReleaseAuthorityIdentity/v1'' @ [CHR 0x00] @ mode @ [CHR 0x00] @ key)"

lemma signed_result_ok:
  assumes "check_signed_result sha ed25519 result ds binding x = Inr ()"
  shows "\<exists>key raw. length key = 32 \<and> length raw = 64
      \<and> ed25519 key (''MordantGovernedConflictResult/v1'' @ [CHR 0x00] @ stringify (result_value result True)) raw
      \<and> jfield result ''releaseAuthorityId'' = Some (JStr (authority_of_key sha (jtext result ''releaseMode'') key))"
    and "result_digest_of sha result = ed_governedResultDigest ds" "jfield result ''caseId'' = Some (JStr (ed_fheCaseId ds))"
    and "jfield result ''caseBindingDigest'' = Some (JStr (ed_caseBindingDigest ds))"
    and "jfield result ''assetIdentity'' = Some (JStr (xp_assetIdentity x))"
    and "jfield result ''releaseMode'' = Some (JStr (db_releaseMode binding))"
    and "jfield result ''circuitDigest'' = Some (JStr (db_circuitDigest binding))"
    and "jfield result ''parameterFingerprint'' = Some (JStr (db_parameterFingerprint binding))"
proof -
  note facts = assms [unfolded check_signed_result_def result_simps text_checks]
  from facts have sig: "verify_result_signature ed25519 result = Inr ()"
    and pk: "jfield result ''releaseAuthorityPublicKey'' = Some (JStr (db_releaseAuthorityPublicKey binding))"
    and id: "jfield result ''releaseAuthorityId'' = Some (JStr (db_releaseAuthorityId binding))"
    and derived: "\<exists>d. assertReleaseAuthorityIdentity sha (jtext result ''releaseAuthorityPublicKey'') (jtext result ''releaseMode'')
      (jtext result ''releaseAuthorityId'') ''RELEASE_AUTHORITY_IDENTITY'' = Inr d" by auto
  from verify_result_signature_ok [OF sig pk] obtain key raw where k: "db_releaseAuthorityPublicKey binding = base64_encode key"
    "length key = 32" "length raw = 64" "ed25519 key (''MordantGovernedConflictResult/v1'' @ [CHR 0x00] @ stringify (result_value result True)) raw" by auto
  moreover have "db_releaseAuthorityId binding = authority_of_key sha (jtext result ''releaseMode'') key"
    using derived authority_identity_ok [OF _ k(2)] k(1) pk id unfolding authority_of_key_def by (auto simp: jtext_def)
  ultimately show "\<exists>key raw. length key = 32 \<and> length raw = 64
      \<and> ed25519 key (''MordantGovernedConflictResult/v1'' @ [CHR 0x00] @ stringify (result_value result True)) raw
      \<and> jfield result ''releaseAuthorityId'' = Some (JStr (authority_of_key sha (jtext result ''releaseMode'') key))" using id by metis
qed (use assms in \<open>auto simp: check_signed_result_def result_simps text_checks\<close>)

lemma jtext_is: "jfield v k = Some (JStr s) \<Longrightarrow> jtext v k = s"
  by (simp add: jtext_def)

lemma jfield_strings: "jfield v k = Some w \<Longrightarrow> json_strings w \<subseteq> json_strings v"
  by (cases v) (auto dest: map_of_SomeD)

lemma forbidden_quote: "json_quote k = [CHR 0x22] @ k @ [CHR 0x22]" if "k \<in> set FORBIDDEN_KEYS"
proof -
  have "\<forall>k \<in> set FORBIDDEN_KEYS. json_quote k = [CHR 0x22] @ k @ [CHR 0x22]" by code_simp
  with that show ?thesis by blast
qed

lemma private_refused:
  assumes "k \<in> set FORBIDDEN_KEYS" "k \<in> json_strings value"
  shows "check_private value \<noteq> Inr ()"
proof -
  have "str_includes (canonicalJson value) (json_quote k)"
    using stringify_contains [of k "sort_members value"] assms(2) by (simp add: sort_members_strings canonicalJson_def)
  then show ?thesis
    using forbidden_quote [OF assms(1)] assms(1) by (auto simp: check_private_def check_eq_Inr list_ex_iff)
qed

lemma check_admissions_ok:
  assumes "check_admissions value x = Inr (a, b)"
  shows "\<exists>p q. jfield value ''participants'' = Some (JArr [p, q]) \<and> check_admission PARTICIPANT_A p = Inr a \<and> check_admission PARTICIPANT_B q = Inr b"
    and "toLowerCase a = toLowerCase (xp_holderA x)" "toLowerCase b = toLowerCase (xp_holderB x)" "toLowerCase a \<noteq> toLowerCase b"
    and "toLowerCase ` set (xp_excludedWallets x) \<inter> {toLowerCase a, toLowerCase b} = {}"
  using assms by (auto simp: check_admissions_def result_simps text_checks split: option.splits json.splits list.splits)

lemma accepted_parts:
  assumes "assertDirectParticipantBridgeEvidence sha ed25519 value x = Inr v"
  obtains ds binding result where "check_provenance sha value x = Inr ()" "check_digests value = Inr ds" "check_case_binding value = Inr binding"
    "jfield value ''governedResult'' = Some result" "check_signed_result sha ed25519 result ds binding x = Inr ()"
    "check_artifacts result ds = Inr ()" "check_admissions value x = Inr (vd_holderA v, vd_holderB v)" "check_private value = Inr ()"
    "jfield result ''conflict'' = Some (JBool (vd_conflict v))" "vd_evidence v = value" "vd_governedResult v = result"
proof -
  from assms obtain ds binding result wallets where parts: "check_provenance sha value x = Inr ()" "check_digests value = Inr ds"
      "check_case_binding value = Inr binding" "jfield value ''governedResult'' = Some result"
      "check_signed_result sha ed25519 result ds binding x = Inr ()" "check_artifacts result ds = Inr ()"
      "check_admissions value x = Inr wallets" "check_private value = Inr ()"
      and last: "(case jfield result ''conflict'' of
         Some (JBool conflict) \<Rightarrow> Inr \<lparr>vd_evidence = value, vd_conflict = conflict, vd_governedResult = result,
           vd_holderA = fst wallets, vd_holderB = snd wallets\<rparr>
       | _ \<Rightarrow> Inl (evidence_error ''CONFLICT'')) = Inr v"
    unfolding assertDirectParticipantBridgeEvidence_def ebind_eq_Inr require_eq_Inr by auto
  from last obtain conflict where "jfield result ''conflict'' = Some (JBool conflict)"
      "v = \<lparr>vd_evidence = value, vd_conflict = conflict, vd_governedResult = result, vd_holderA = fst wallets, vd_holderB = snd wallets\<rparr>"
    by (cases "jfield result ''conflict''") (auto split: json.splits)
  with parts that show thesis by simp
qed


text \<open>C34: Evidence that carries the admission proof it may carry is never accepted: the signed struct of an admission has the
  member \<^verbatim>\<open>activeFrom\<close>, and the verifier refuses a document in which that name occurs, although the longer form of the
  admission facts is one of the two exact forms it recognises.\<close>

theorem evidence_with_admission_proof_refused:
  assumes "jfield value ''participants'' = Some (JArr entries)" "entry \<in> set entries"
    and "jfield entry ''authorization'' = Some (JObj struct)" "''activeFrom'' \<in> set (map fst struct)"
  shows "\<not> is_ok (assertDirectParticipantBridgeEvidence sha ed25519 value x)"
proof
  assume "is_ok (assertDirectParticipantBridgeEvidence sha ed25519 value x)"
  then obtain v where "assertDirectParticipantBridgeEvidence sha ed25519 value x = Inr v" by (auto simp: is_ok_iff)
  then have "check_private value = Inr ()" by (rule accepted_parts)
  moreover have "''activeFrom'' \<in> json_strings (JObj struct)" using assms(4) by force
  then have "''activeFrom'' \<in> json_strings value"
    using jfield_strings [OF assms(3)] jfield_strings [OF assms(1)] assms(2) by auto
  moreover have "''activeFrom'' \<in> set FORBIDDEN_KEYS" by (simp add: FORBIDDEN_KEYS_def)
  ultimately show False using private_refused by blast
qed

text \<open>An admission proof binds the wallet to this run: what is accepted carries a signature that recovers, over the typed data
  of a message naming this role, run, case, binding and nonce on the test network, to the wallet of the record; the
  retained digest is the digest of that typed data; and a message with a key digest is proved as the newer schema, with
  that key, never as the older one.\<close>

theorem admission_proof_binds_the_wallet:
  assumes "assertParticipantAdmissionProof pc af expected = Inr proof"
  shows "\<exists>raw signature m. da_authorization af = Some raw \<and> da_signature af = Some signature
     \<and> parse_admission_message (pc_getAddress pc) raw = Inr m
     \<and> signed_role m = da_role af \<and> signed_runId m = VString (pe_runId expected)
     \<and> digestToBytes32 (pe_fheCaseId expected) = Inr (signed_fheCaseId m)
     \<and> digestToBytes32 (pe_protectionBindingDigest expected) = Inr (signed_bindingDigest m)
     \<and> toLowerCase (signed_wallet m) = toLowerCase (da_participantWallet af)
     \<and> toLowerCase (signed_nonce m) = toLowerCase (da_authorizationNonce af)
     \<and> toLowerCase (pc_hashTypedData pc (signed_typed_data (pc_keccak pc) m 10143)) = toLowerCase (da_authorizationDigest af)
     \<and> pc_recoverTypedDataAddress pc (signed_typed_data (pc_keccak pc) m 10143) signature = Inr (vp_recoveredSigner proof)
     \<and> toLowerCase (vp_recoveredSigner proof) = toLowerCase (da_participantWallet af)
     \<and> vp_participantSigningKeyDigest proof = signed_key m
     \<and> (''participantSigningKeyDigest'' \<in> set (map fst raw)) = (vp_participantSigningKeyDigest proof \<noteq> None)"
proof -
  from assms obtain raw signature m where facts: "da_authorization af = Some raw" "da_signature af = Some signature"
      "parse_admission_message (pc_getAddress pc) raw = Inr m" "signed_role m = da_role af" "signed_runId m = VString (pe_runId expected)"
      "digestToBytes32 (pe_fheCaseId expected) = Inr (signed_fheCaseId m)"
      "digestToBytes32 (pe_protectionBindingDigest expected) = Inr (signed_bindingDigest m)"
      "toLowerCase (signed_wallet m) = toLowerCase (da_participantWallet af)" "toLowerCase (signed_nonce m) = toLowerCase (da_authorizationNonce af)"
      "toLowerCase (pc_hashTypedData pc (signed_typed_data (pc_keccak pc) m 10143)) = toLowerCase (da_authorizationDigest af)"
      "pc_recoverTypedDataAddress pc (signed_typed_data (pc_keccak pc) m 10143) signature = Inr (vp_recoveredSigner proof)"
      "toLowerCase (vp_recoveredSigner proof) = toLowerCase (da_participantWallet af)" "vp_participantSigningKeyDigest proof = signed_key m"
    by (auto simp: assertParticipantAdmissionProof_def result_simps require_eq_Inr Let_def)
  moreover have "(''participantSigningKeyDigest'' \<in> set (map fst raw)) = (signed_key m \<noteq> None)"
    using facts(3) by (auto simp: parse_admission_message_def result_simps split: if_splits)
  ultimately show ?thesis by metis
qed

subsection \<open>The seal\<close>

lemma sort_same_set: "distinct xs \<Longrightarrow> distinct ys \<Longrightarrow> set xs = set ys \<Longrightarrow> sort xs = sort ys"
  by (simp add: sorted_distinct_set_unique)

lemma built_keys: "map fst (evidence_body sha inp) @ [''evidenceDigest''] = jkeys (buildDirectParticipantBridgeEvidence sha inp)"
  by (simp add: buildDirectParticipantBridgeEvidence_def)

lemma built_exact: "sort (jkeys (buildDirectParticipantBridgeEvidence sha inp)) = sort EVIDENCE_FIELDS"
  by (rule sort_same_set) (auto simp: buildDirectParticipantBridgeEvidence_def evidence_body_def EVIDENCE_FIELDS_def)

lemma built_body: "without ''evidenceDigest'' (buildDirectParticipantBridgeEvidence sha inp) = JObj (evidence_body sha inp)"
  by (simp add: buildDirectParticipantBridgeEvidence_def evidence_body_def)

lemma built_member:
  "k \<noteq> ''evidenceDigest'' \<Longrightarrow> jfield (buildDirectParticipantBridgeEvidence sha inp) k = map_of (evidence_body sha inp) k"
  "jfield (buildDirectParticipantBridgeEvidence sha inp) ''evidenceDigest''
     = Some (JStr (directParticipantBridgeEvidenceDigest sha (JObj (evidence_body sha inp))))"
  by (simp_all add: buildDirectParticipantBridgeEvidence_def map_add_def evidence_body_def split: option.splits)

text \<open>The text that is sealed.\<close>

definition seal_text :: "json \<Rightarrow> string" where
  "seal_text evidence = ''MordantDirectParticipantBridgeEvidence/v1'' @ [CHR 0x00] @ canonicalJson evidence"

lemma seal_binds:
  assumes "directParticipantBridgeEvidenceDigest sha a = directParticipantBridgeEvidenceDigest sha b"
  shows "sort_members a = sort_members b \<or> collides sha (seal_text a) (seal_text b)"
proof (cases "seal_text a = seal_text b")
  case True
  then show ?thesis by (simp add: seal_text_def canonicalJson_def stringify_inj)
next
  case False
  have "directParticipantBridgeEvidenceDigest sha v = ''sha256:'' @ sha (seal_text v)" for v
    by (simp add: directParticipantBridgeEvidenceDigest_def seal_text_def)
  with assms False show ?thesis by (simp add: collides_def)
qed

lemma evidence_seal_provenance:
  assumes "hex_digest sha"
  shows "check_provenance sha (buildDirectParticipantBridgeEvidence sha inp) x = Inr () \<longleftrightarrow>
      fixed_regex (replicate 40 lower_hex) (ei_sourceCommit inp) \<and> ei_sourceCommit inp = xp_sourceCommit x
      \<and> fixed_regex UUID_PATTERN (ei_runId inp) \<and> (xp_runId x = None \<or> xp_runId x = Some (ei_runId inp))"
proof -
  let ?e = "buildDirectParticipantBridgeEvidence sha inp"
  have members: "jfield ?e ''schemaVersion'' = Some (JStr DIRECT_PARTICIPANT_BRIDGE_EVIDENCE_SCHEMA)"
    "jfield ?e ''executionVariant'' = Some (JStr CUSTOM_SUPERVISED_EXECUTION_VARIANT)" "jfield ?e ''sourceCommit'' = Some (JStr (ei_sourceCommit inp))"
    "jfield ?e ''runId'' = Some (JStr (ei_runId inp))"
    by (simp_all add: built_member(1)) (simp_all add: evidence_body_def)
  have "is_jobject ?e" by (simp add: buildDirectParticipantBridgeEvidence_def)
  moreover have "fixed_regex SHA256_LOWER (directParticipantBridgeEvidenceDigest sha v)" for v
    using hex_digest_regex(1) [OF assms] by (simp add: directParticipantBridgeEvidenceDigest_def)
  ultimately show "check_provenance sha ?e x = Inr () \<longleftrightarrow>
      fixed_regex (replicate 40 lower_hex) (ei_sourceCommit inp) \<and> ei_sourceCommit inp = xp_sourceCommit x
      \<and> fixed_regex UUID_PATTERN (ei_runId inp) \<and> (xp_runId x = None \<or> xp_runId x = Some (ei_runId inp))"
    by (auto simp: check_provenance_def result_simps text_checks members built_exact built_member(2) built_body)
qed

text \<open>Evidence that is assembled passes the shape, seal and provenance checks exactly when its source commit and its run are
  well formed and the expected ones; and no other document passes them under the same seal: its body is the assembled one
  up to the order of members, or the two sealed texts are a SHA-256 collision.\<close>

theorem evidence_seal_round_trip:
  assumes "hex_digest sha"
  shows "(check_provenance sha (buildDirectParticipantBridgeEvidence sha inp) x = Inr () \<longleftrightarrow>
       fixed_regex (replicate 40 lower_hex) (ei_sourceCommit inp) \<and> ei_sourceCommit inp = xp_sourceCommit x
       \<and> fixed_regex UUID_PATTERN (ei_runId inp) \<and> (xp_runId x = None \<or> xp_runId x = Some (ei_runId inp)))
     \<and> (\<forall>value. check_provenance sha value x = Inr ()
          \<and> jfield value ''evidenceDigest'' = jfield (buildDirectParticipantBridgeEvidence sha inp) ''evidenceDigest''
          \<longrightarrow> sort_members (without ''evidenceDigest'' value) = sort_members (JObj (evidence_body sha inp)) 
            \<or> collides sha (seal_text (without ''evidenceDigest'' value)) (seal_text (JObj (evidence_body sha inp))))"
proof (intro conjI allI impI)
  show "check_provenance sha (buildDirectParticipantBridgeEvidence sha inp) x = Inr () \<longleftrightarrow>
      fixed_regex (replicate 40 lower_hex) (ei_sourceCommit inp) \<and> ei_sourceCommit inp = xp_sourceCommit x
      \<and> fixed_regex UUID_PATTERN (ei_runId inp) \<and> (xp_runId x = None \<or> xp_runId x = Some (ei_runId inp))"
    by (rule evidence_seal_provenance [OF assms])
next
  fix v assume "check_provenance sha v x = Inr ()
    \<and> jfield v ''evidenceDigest'' = jfield (buildDirectParticipantBridgeEvidence sha inp) ''evidenceDigest''"
  then have "directParticipantBridgeEvidenceDigest sha (without ''evidenceDigest'' v) = directParticipantBridgeEvidenceDigest sha (JObj (evidence_body sha inp))"
    by (auto simp: check_provenance_def result_simps text_checks built_member(2))
  then show "sort_members (without ''evidenceDigest'' v) = sort_members (JObj (evidence_body sha inp))
      \<or> collides sha (seal_text (without ''evidenceDigest'' v)) (seal_text (JObj (evidence_body sha inp)))"
    by (rule seal_binds)
qed

subsection \<open>A concrete run\<close>

definition sample_sha :: "char \<Rightarrow> string" where
  "sample_sha c = ''sha256:'' @ replicate 64 c"

definition sample_hex32 :: "char \<Rightarrow> string" where
  "sample_hex32 c = ''0x'' @ replicate 64 c"

definition sample_wallet_text :: "char \<Rightarrow> string" where
  "sample_wallet_text c = ''0x'' @ replicate 40 c"

definition sample_authority_key :: string where
  "sample_authority_key = base64_encode (replicate 32 CHR ''k'')"

definition sample_result_signature :: string where
  "sample_result_signature = base64_encode (replicate 64 CHR ''s'')"

definition sample_run_text :: string where
  "sample_run_text = ''00000000-0000-4000-8000-000000000000''"

definition sample_signed_result :: json where
  "sample_signed_result = JObj [
     (''schemaVersion'', JStr ''result''), (''caseId'', JStr (sample_sha CHR ''1'')), (''caseBindingDigest'', JStr (sample_sha CHR ''2'')),
     (''assetIdentity'', JStr (sample_sha CHR ''3'')), (''serviceId'', JStr ''service''), (''serviceVersion'', JNum 1), (''policyId'', JStr (sample_sha CHR ''4'')),
     (''policyVersion'', JNum 1), (''circuitId'', JStr ''circuit''), (''circuitVersion'', JNum 1), (''circuitDigest'', JStr (sample_sha CHR ''5'')),
     (''parameterProfile'', JStr ''profile''), (''parameterFingerprint'', JStr (sample_sha CHR ''6'')),
     (''participantArtifactDigests'', JArr [JStr (sample_sha CHR ''7''), JStr (sample_sha CHR ''8'')]),
     (''evaluatedArtifactDigest'', JStr (sample_sha CHR ''9'')), (''resultCiphertextDigest'', JStr (sample_sha CHR ''a'')),
     (''resultCiphertextCommitment'', JStr (sample_sha CHR ''b'')), (''conflict'', JBool True), (''releaseOrdinal'', JNum 1),
     (''releaseMode'', JStr ''governed-decryptor-v1''), (''releaseAuthorityId'', JStr (sample_sha CHR ''0'')),
     (''releaseAuthorityPublicKey'', JStr sample_authority_key), (''releasedAtUnix'', JNum 1700000000),
     (''sourceProvenance'', JStr (sample_sha CHR ''c'')), (''signature'', JStr sample_result_signature)]"

definition sample_fact :: "ParticipantRole \<Rightarrow> json" where
  "sample_fact role = JObj [(''role'', JStr (role_name role)),
     (''participantWallet'', JStr (sample_wallet_text (case role of PARTICIPANT_A \<Rightarrow> CHR ''6'' | PARTICIPANT_B \<Rightarrow> CHR ''7''))),
     (''authorizationDigest'', JStr (sample_hex32 CHR ''d'')), (''claimCommitment'', JStr (sample_hex32 CHR ''e'')),
     (''authorizationNonce'', JStr (sample_hex32 CHR ''f'')), (''chainId'', JNum 10143), (''eligibilityBlock'', JNum 5)]"

definition sample_evidence_input :: DirectParticipantBridgeEvidenceInput where
  "sample_evidence_input = \<lparr>ei_sourceCommit = replicate 40 CHR ''0'', ei_runId = sample_run_text, ei_fheCaseId = sample_sha CHR ''1'',
     ei_protectionBindingDigest = sample_sha CHR ''d'', ei_caseBindingDigest = sample_sha CHR ''2'',
     ei_caseBinding = \<lparr>db_caseId = sample_sha CHR ''1'', db_assetIdentity = sample_sha CHR ''3'', db_policyId = sample_sha CHR ''4'',
       db_circuitDigest = sample_sha CHR ''5'', db_parameterFingerprint = sample_sha CHR ''6'', db_releaseMode = ''governed-decryptor-v1'',
       db_releaseAuthorityId = sample_sha CHR ''0'', db_releaseAuthorityPublicKey = sample_authority_key\<rparr>,
     ei_participants = (sample_fact PARTICIPANT_A, sample_fact PARTICIPANT_B), ei_participantArtifactDigestA = sample_sha CHR ''7'',
     ei_participantArtifactDigestB = sample_sha CHR ''8'', ei_evaluatedArtifactDigest = sample_sha CHR ''9'',
     ei_governedResult = sample_signed_result, ei_customReceiptDigest = sample_sha CHR ''e''\<rparr>"

definition sample_evidence :: json where
  "sample_evidence = buildDirectParticipantBridgeEvidence zero_sha sample_evidence_input"

definition sample_expectations :: DirectParticipantBridgeExpectations where
  "sample_expectations = \<lparr>xp_sourceCommit = replicate 40 CHR ''0'', xp_assetIdentity = sample_sha CHR ''3'', xp_holderA = sample_wallet_text CHR ''6'',
     xp_holderB = sample_wallet_text CHR ''7'', xp_excludedWallets = [sample_wallet_text CHR ''8''], xp_runId = Some sample_run_text\<rparr>"

lemma sample_formats_hex:
  "lower_hex c \<Longrightarrow> fixed_regex SHA256_LOWER (sample_sha c)" "lower_hex c \<Longrightarrow> fixed_regex BYTES32_LOWER (sample_hex32 c)"
  "lower_hex c \<Longrightarrow> fixed_regex ADDRESS_ANY (sample_wallet_text c)"
  unfolding SHA256_LOWER_def BYTES32_LOWER_def ADDRESS_ANY_def sample_sha_def sample_hex32_def sample_wallet_text_def
  by (simp_all add: prefix_regex list_all_iff lower_hex_any)

lemma sample_formats_at:
  "c \<in> set ''0123456789abcdef'' \<Longrightarrow> fixed_regex SHA256_LOWER (sample_sha c)" "c \<in> set ''0123456789abcdef'' \<Longrightarrow> fixed_regex BYTES32_LOWER (sample_hex32 c)"
  "c \<in> set ''0123456789abcdef'' \<Longrightarrow> fixed_regex ADDRESS_ANY (sample_wallet_text c)"
  by (rule sample_formats_hex; force simp: lower_hex_def)+

lemma sample_formats_ok:
  "fixed_regex UUID_PATTERN sample_run_text" "fixed_regex (replicate 40 lower_hex) (replicate 40 CHR ''0'')"
  "toLowerCase (sample_sha CHR ''a'') = sample_sha CHR ''a''" "sample_authority_key \<noteq> []"
  "toLowerCase (sample_wallet_text CHR ''6'') = sample_wallet_text CHR ''6''" "toLowerCase (sample_wallet_text CHR ''7'') = sample_wallet_text CHR ''7''"
  "toLowerCase (sample_wallet_text CHR ''8'') = sample_wallet_text CHR ''8''"
  by code_simp+

lemma sample_distinct: "sample_sha c = sample_sha d \<longleftrightarrow> c = d" "sample_wallet_text c = sample_wallet_text d \<longleftrightarrow> c = d"
  by (auto simp: sample_sha_def sample_wallet_text_def replicate_eq_replicate)

lemma sample_result_verifies: "verify_result_signature (\<lambda>_ _ _. True) sample_signed_result = Inr ()"
proof -
  have members: "is_jobject sample_signed_result" "jfield sample_signed_result ''releaseAuthorityPublicKey'' = Some (JStr sample_authority_key)"
    "jfield sample_signed_result ''signature'' = Some (JStr sample_result_signature)" by (simp_all add: sample_signed_result_def)
  have "canonical_base64 32 sample_authority_key = Some (replicate 32 CHR ''k'')" "canonical_base64 64 sample_result_signature = Some (replicate 64 CHR ''s'')"
    unfolding canonical_base64_iff by (simp_all add: sample_authority_key_def sample_result_signature_def)
  moreover have "jkeys sample_signed_result = GOVERNED_RESULT_KEYS" "''digest'' \<notin> set GOVERNED_RESULT_KEYS"
    by (simp_all add: sample_signed_result_def GOVERNED_RESULT_KEYS_def)
  ultimately show ?thesis
    by (simp add: verify_result_signature_def verifyGoSignature_def Let_def members)
qed

lemma sample_evidence_members:
  "jfield sample_evidence ''governedResult'' = Some sample_signed_result" "jfield sample_evidence ''fheCaseId'' = Some (JStr (sample_sha CHR ''1''))"
  "jfield sample_evidence ''protectionBindingDigest'' = Some (JStr (sample_sha CHR ''d''))"
  "jfield sample_evidence ''caseBindingDigest'' = Some (JStr (sample_sha CHR ''2''))"
  "jfield sample_evidence ''participantArtifactDigestA'' = Some (JStr (sample_sha CHR ''7''))"
  "jfield sample_evidence ''participantArtifactDigestB'' = Some (JStr (sample_sha CHR ''8''))"
  "jfield sample_evidence ''evaluatedArtifactDigest'' = Some (JStr (sample_sha CHR ''9''))"
  "jfield sample_evidence ''governedResultDigest'' = Some (JStr (sample_sha CHR ''0''))"
  "jfield sample_evidence ''customReceiptDigest'' = Some (JStr (sample_sha CHR ''e''))"
  "jfield sample_evidence ''caseBinding'' = Some (case_binding_json (ei_caseBinding sample_evidence_input))"
  "jfield sample_evidence ''participants'' = Some (JArr [sample_fact PARTICIPANT_A, sample_fact PARTICIPANT_B])"
  "jfield sample_evidence ''runId'' = Some (JStr sample_run_text)"
  by (simp_all add: sample_evidence_def built_member(1))
    (simp_all add: evidence_body_def sample_evidence_input_def result_digest_of_def sha256Raw_def zero_sha_def sample_sha_def)

definition sample_digests :: evidence_digests where
  "sample_digests = \<lparr>ed_fheCaseId = sample_sha CHR ''1'', ed_protectionBindingDigest = sample_sha CHR ''d'', ed_caseBindingDigest = sample_sha CHR ''2'',
     ed_participantArtifactDigestA = sample_sha CHR ''7'', ed_participantArtifactDigestB = sample_sha CHR ''8'',
     ed_evaluatedArtifactDigest = sample_sha CHR ''9'', ed_governedResultDigest = sample_sha CHR ''0''\<rparr>"

lemma sample_digests_ok: "check_digests sample_evidence = Inr sample_digests"
  using sample_formats_at(1)
  by (simp add: check_digests_def digest_member_def matching_text_def sample_evidence_members sample_distinct sample_digests_def)

lemma sample_binding_ok: "check_case_binding sample_evidence = Inr (ei_caseBinding sample_evidence_input)"
  using sample_formats_at(1) sample_formats_ok(4)
  by (simp add: check_case_binding_def document_exactKeys_def digest_member_def matching_text_def sample_evidence_members case_binding_json_def
      CASE_BINDING_FIELDS_def) (simp add: sample_evidence_input_def)

lemma sample_signed_ok:
  "check_signed_result zero_sha (\<lambda>_ _ _. True) sample_signed_result sample_digests (ei_caseBinding sample_evidence_input) sample_expectations = Inr ()"
proof -
  have "canonical_base64 32 sample_authority_key = Some (replicate 32 CHR ''k'')"
    unfolding canonical_base64_iff by (simp add: sample_authority_key_def)
  then have "assertReleaseAuthorityIdentity zero_sha sample_authority_key ''governed-decryptor-v1'' (sample_sha CHR ''0'') code = Inr (sample_sha CHR ''0'')" for code
    by (simp add: assertReleaseAuthorityIdentity_def releaseAuthorityIdentity_def sha256Raw_def zero_sha_def sample_sha_def)
  moreover have "result_digest_of zero_sha sample_signed_result = sample_sha CHR ''0''"
    by (simp add: result_digest_of_def sha256Raw_def zero_sha_def sample_sha_def)
  ultimately show ?thesis
    using sample_result_verifies sample_formats_at(1) [of "CHR ''3''"]
    by (simp add: check_signed_result_def normalized_def member_is_def digest_member_def matching_text_def sample_digests_def sample_expectations_def)
      (simp add: sample_signed_result_def sample_evidence_input_def jtext_def)
qed

lemma sample_artifacts_ok: "check_artifacts sample_signed_result sample_digests = Inr ()"
  using sample_formats_at(1) sample_formats_ok(3)
  by (simp add: check_artifacts_def jelement_def member_is_def digest_member_def matching_text_def sample_signed_result_def sample_digests_def)

lemma sample_admission_ok:
  "check_admission PARTICIPANT_A (sample_fact PARTICIPANT_A) = Inr (sample_wallet_text CHR ''6'')"
  "check_admission PARTICIPANT_B (sample_fact PARTICIPANT_B) = Inr (sample_wallet_text CHR ''7'')"
  using sample_formats_at(2,3)
  by (simp_all add: check_admission_def document_exactKeys_def bytes32Hex_def wholeNumber_def address_member_def matching_text_def sample_fact_def
      ADMISSION_FIELDS_def isSafeInteger_def MAX_SAFE_INTEGER_def)

lemma sample_admissions_ok: "check_admissions sample_evidence sample_expectations = Inr (sample_wallet_text CHR ''6'', sample_wallet_text CHR ''7'')"
  using sample_formats_at(3) sample_formats_ok(5-7)
  by (simp add: check_admissions_def sample_evidence_members sample_admission_ok address_member_def matching_text_def sample_expectations_def
      sample_distinct list_ex_iff)

lemma sample_texts_plain: "\<forall>s \<in> json_strings sample_evidence. plain_text s \<and> s \<notin> set FORBIDDEN_KEYS"
proof -
  have keys: "plain_text sample_authority_key" "plain_text sample_result_signature" "plain_text sample_run_text"
    "sample_authority_key \<notin> set FORBIDDEN_KEYS" "sample_result_signature \<notin> set FORBIDDEN_KEYS"
    "replicate 40 CHR ''0'' \<notin> set FORBIDDEN_KEYS" by code_simp+
  then show ?thesis
    by (simp add: sample_evidence_def buildDirectParticipantBridgeEvidence_def evidence_body_def sample_evidence_input_def case_binding_json_def
        sample_fact_def sample_signed_result_def directParticipantBridgeEvidenceDigest_def result_digest_of_def sha256Raw_def zero_sha_def
        DIRECT_PARTICIPANT_BRIDGE_EVIDENCE_SCHEMA_def CUSTOM_SUPERVISED_EXECUTION_VARIANT_def sample_sha_def sample_hex32_def sample_wallet_text_def
        FORBIDDEN_KEYS_def sample_run_text_def) (simp add: plain_text_def list_all_replicate)
qed

lemma sample_private_ok: "check_private sample_evidence = Inr ()"
proof -
  have "\<forall>k \<in> set FORBIDDEN_KEYS. plain_text k \<and> \<not> marked k" by code_simp
  then have "\<not> str_includes (canonicalJson sample_evidence) ([CHR 0x22] @ k @ [CHR 0x22])" if "k \<in> set FORBIDDEN_KEYS" for k
    using leak_exact [of sample_evidence k] sample_texts_plain that by blast
  then show ?thesis by (auto simp: check_private_def list_ex_iff)
qed

lemma sample_evidence_accepted:
  "assertDirectParticipantBridgeEvidence zero_sha (\<lambda>_ _ _. True) sample_evidence sample_expectations
     = Inr \<lparr>vd_evidence = sample_evidence, vd_conflict = True, vd_governedResult = sample_signed_result,
            vd_holderA = sample_wallet_text CHR ''6'', vd_holderB = sample_wallet_text CHR ''7''\<rparr>"
proof -
  have "check_provenance zero_sha sample_evidence sample_expectations = Inr ()"
    using evidence_seal_provenance [OF zero_sha_hex, of sample_evidence_input sample_expectations] sample_formats_ok(1,2)
    by (simp add: sample_evidence_def sample_expectations_def sample_evidence_input_def)
  then show ?thesis
    using sample_digests_ok sample_binding_ok sample_signed_ok sample_artifacts_ok sample_admissions_ok sample_private_ok
    by (simp add: assertDirectParticipantBridgeEvidence_def require_def sample_evidence_members(1)) (simp add: sample_signed_result_def)
qed


theorem evidence_seal_round_trip_witness:
  "check_provenance zero_sha sample_evidence sample_expectations = Inr ()"
  using evidence_seal_round_trip [OF zero_sha_hex, of sample_evidence_input sample_expectations] sample_formats_ok(1,2)
  by (simp add: sample_evidence_def sample_expectations_def sample_evidence_input_def)

text \<open>The same run with the signed struct of one admission carried along, sealed like the other.\<close>

definition proof_carrying_input :: DirectParticipantBridgeEvidenceInput where
  "proof_carrying_input = sample_evidence_input\<lparr>ei_participants :=
     (JObj [(''role'', JStr ''PARTICIPANT_A''), (''participantWallet'', JStr (sample_wallet_text CHR ''6'')),
        (''authorizationDigest'', JStr (sample_hex32 CHR ''d'')), (''claimCommitment'', JStr (sample_hex32 CHR ''e'')),
        (''authorizationNonce'', JStr (sample_hex32 CHR ''f'')), (''chainId'', JNum 10143), (''eligibilityBlock'', JNum 5),
        (''authorization'', JObj [(''activeFrom'', JNum 1), (''activeUntil'', JNum 100)]), (''signature'', JStr sample_signature_text)],
      sample_fact PARTICIPANT_B)\<rparr>"

theorem evidence_with_admission_proof_refused_witness:
  "check_provenance zero_sha (buildDirectParticipantBridgeEvidence zero_sha proof_carrying_input) sample_expectations = Inr ()
   \<and> check_admission PARTICIPANT_A (fst (ei_participants proof_carrying_input)) = Inr (sample_wallet_text CHR ''6'')
   \<and> \<not> is_ok (assertDirectParticipantBridgeEvidence zero_sha (\<lambda>_ _ _. True)
        (buildDirectParticipantBridgeEvidence zero_sha proof_carrying_input) sample_expectations)"
proof (intro conjI)
  show "check_provenance zero_sha (buildDirectParticipantBridgeEvidence zero_sha proof_carrying_input) sample_expectations = Inr ()"
    using evidence_seal_provenance [OF zero_sha_hex, of proof_carrying_input sample_expectations] sample_formats_ok(1,2)
    by (simp add: sample_expectations_def sample_evidence_input_def proof_carrying_input_def)
  show "check_admission PARTICIPANT_A (fst (ei_participants proof_carrying_input)) = Inr (sample_wallet_text CHR ''6'')"
    using sample_formats_at(2,3)
    by (simp add: check_admission_def document_exactKeys_def bytes32Hex_def wholeNumber_def address_member_def matching_text_def
        proof_carrying_input_def ADMISSION_FIELDS_def ADMISSION_FIELDS_WITH_PROOF_def isSafeInteger_def MAX_SAFE_INTEGER_def)
  have members: "jfield (buildDirectParticipantBridgeEvidence zero_sha proof_carrying_input) ''participants''
      = Some (JArr [fst (ei_participants proof_carrying_input), snd (ei_participants proof_carrying_input)])"
    by (simp add: built_member(1)) (simp add: evidence_body_def)
  have struct: "jfield (fst (ei_participants proof_carrying_input)) ''authorization'' = Some (JObj [(''activeFrom'', JNum 1), (''activeUntil'', JNum 100)])"
    by (simp add: proof_carrying_input_def)
  show "\<not> is_ok (assertDirectParticipantBridgeEvidence zero_sha (\<lambda>_ _ _. True)
      (buildDirectParticipantBridgeEvidence zero_sha proof_carrying_input) sample_expectations)"
    by (rule evidence_with_admission_proof_refused [OF members _ struct]) simp_all
qed

definition sample_proof_crypto :: admission_proof_crypto where
  "sample_proof_crypto = \<lparr>pc_keccak = zero_sha, pc_getAddress = Some, pc_hashTypedData = (\<lambda>_. sample_hex32 CHR ''d''),
     pc_recoverTypedDataAddress = (\<lambda>_ _. Inr (sample_wallet CHR ''1''))\<rparr>"

definition sample_admission_fact :: DirectParticipantAdmissionFact where
  "sample_admission_fact = \<lparr>da_role = PARTICIPANT_A, da_participantWallet = sample_wallet CHR ''1'', da_authorizationDigest = sample_hex32 CHR ''d'',
     da_claimCommitment = sample_hex32 CHR ''e'', da_authorizationNonce = sample_bytes32, da_chainId = 10143, da_eligibilityBlock = 5,
     da_authorization = Some (v2_members sample_v2_message), da_signature = Some sample_signature_text\<rparr>"

definition sample_admission_expected :: admission_expected where
  "sample_admission_expected = \<lparr>pe_runId = ''run'', pe_fheCaseId = ''sha256:'' @ zero_sha [], pe_protectionBindingDigest = ''sha256:'' @ zero_sha []\<rparr>"

lemma sample_admission_proved:
  "\<exists>proof. assertParticipantAdmissionProof sample_proof_crypto sample_admission_fact sample_admission_expected = Inr proof
     \<and> vp_participantSigningKeyDigest proof = Some sample_bytes32"
proof -
  have "fixed_regex (lit ''0x'' @ replicate 130 any_hex) sample_signature_text" by code_simp
  moreover have "parse_admission_message Some (v2_members sample_v2_message) = Inr (SignedV2 sample_v2_message)"
    using service_message_parses by (simp add: parse_admission_message_def) (simp add: v2_members_def)
  ultimately show ?thesis
    using sample_digest_bytes32
    by (simp add: assertParticipantAdmissionProof_def require_def sample_proof_crypto_def sample_admission_fact_def sample_admission_expected_def
        Let_def normalized_def) (simp add: sample_v2_message_def)
qed

theorem admission_proof_binds_the_wallet_witness:
  "\<exists>(proof :: VerifiedAdmissionProof) m. parse_admission_message Some (v2_members sample_v2_message) = Inr m \<and> signed_runId m = VString ''run''
     \<and> vp_participantSigningKeyDigest proof = signed_key m \<and> signed_key m \<noteq> None"
proof -
  obtain p where p: "assertParticipantAdmissionProof sample_proof_crypto sample_admission_fact sample_admission_expected = Inr p"
      "vp_participantSigningKeyDigest p = Some sample_bytes32"
    using sample_admission_proved by blast
  have fields: "da_authorization sample_admission_fact = Some (v2_members sample_v2_message)" "pc_getAddress sample_proof_crypto = Some"
    "pe_runId sample_admission_expected = ''run''"
    by (simp_all add: sample_admission_fact_def sample_proof_crypto_def sample_admission_expected_def)
  from admission_proof_binds_the_wallet [OF p(1)] show ?thesis
  proof (elim exE conjE)
    fix raw signature m
    assume "da_authorization sample_admission_fact = Some raw" "parse_admission_message (pc_getAddress sample_proof_crypto) raw = Inr m"
      "signed_runId m = VString (pe_runId sample_admission_expected)" "vp_participantSigningKeyDigest p = signed_key m"
    with fields p(2) show ?thesis by - (rule exI [of _ p], rule exI [of _ m], simp)
  qed
qed

end
