(* ===== verification/Originated_Authorization.thy ===== *)
theory Originated_Authorization
  imports Admission_Authorization
begin

text \<open>
  The participant-originated authorization chain, \<^verbatim>\<open>participant-originated-authorization.ts\<close>: a wallet registers one
  Ed25519 key, authorizes an encryption against a pinned client bundle, and authorizes the exact artifact it produced.

  Parameters are the fields of \<open>originated_crypto\<close>: SHA-256, Keccak, and \<open>getAddress\<close>, \<open>hashTypedData\<close> and
  \<open>recoverAddress\<close> of the Ethereum library. The signature verifier is an argument that may throw; the nonce guard is an
  optional action on a state of its own. Messages that were parsed are typed records; a stored message that the code
  parses again is first turned back into the plain object it is.
\<close>

subsection \<open>Constants\<close>

definition PARTICIPANT_ORIGINATED_CHAIN_ID :: int where
  "PARTICIPANT_ORIGINATED_CHAIN_ID = 10143"

definition PARTICIPANT_ORIGINATED_DOMAIN_VERSION :: string where
  "PARTICIPANT_ORIGINATED_DOMAIN_VERSION = ''1''"

definition PARTICIPANT_SIGNING_KEY_REGISTRATION_SCHEMA :: string where
  "PARTICIPANT_SIGNING_KEY_REGISTRATION_SCHEMA = ''mordant.participant-signing-key-registration/1''"

definition PARTICIPANT_ENCRYPTION_INTENT_SCHEMA :: string where
  "PARTICIPANT_ENCRYPTION_INTENT_SCHEMA = ''mordant.participant-encryption-intent/1''"

definition PARTICIPANT_FINAL_ENCRYPTED_ADMISSION_SCHEMA :: string where
  "PARTICIPANT_FINAL_ENCRYPTED_ADMISSION_SCHEMA = ''mordant.participant-encrypted-admission/1''"

definition PARTICIPANT_SIGNING_KEY_REGISTRATION_PRIMARY_TYPE :: string where
  "PARTICIPANT_SIGNING_KEY_REGISTRATION_PRIMARY_TYPE = ''ParticipantSigningKeyRegistrationV1''"

definition PARTICIPANT_ENCRYPTION_INTENT_PRIMARY_TYPE :: string where
  "PARTICIPANT_ENCRYPTION_INTENT_PRIMARY_TYPE = ''ParticipantEncryptionIntentV1''"

definition PARTICIPANT_FINAL_ENCRYPTED_ADMISSION_PRIMARY_TYPE :: string where
  "PARTICIPANT_FINAL_ENCRYPTED_ADMISSION_PRIMARY_TYPE = ''ParticipantEncryptedAdmissionV1''"

definition PARTICIPANT_SIGNING_KEY_REGISTRATION_DOMAIN_NAME :: string where
  "PARTICIPANT_SIGNING_KEY_REGISTRATION_DOMAIN_NAME = ''Mordant Participant Signing Key Registration''"

definition PARTICIPANT_ENCRYPTION_INTENT_DOMAIN_NAME :: string where
  "PARTICIPANT_ENCRYPTION_INTENT_DOMAIN_NAME = ''Mordant Participant Encryption Intent''"

definition PARTICIPANT_FINAL_ENCRYPTED_ADMISSION_DOMAIN_NAME :: string where
  "PARTICIPANT_FINAL_ENCRYPTED_ADMISSION_DOMAIN_NAME = ''Mordant Participant Encrypted Admission''"

definition PARTICIPANT_SIGNING_KEY_REGISTRATION_SALT :: "(string \<Rightarrow> string) \<Rightarrow> string" where
  "PARTICIPANT_SIGNING_KEY_REGISTRATION_SALT keccak = keccak PARTICIPANT_SIGNING_KEY_REGISTRATION_SCHEMA"

definition PARTICIPANT_ENCRYPTION_INTENT_SALT :: "(string \<Rightarrow> string) \<Rightarrow> string" where
  "PARTICIPANT_ENCRYPTION_INTENT_SALT keccak = keccak PARTICIPANT_ENCRYPTION_INTENT_SCHEMA"

definition PARTICIPANT_FINAL_ENCRYPTED_ADMISSION_SALT :: "(string \<Rightarrow> string) \<Rightarrow> string" where
  "PARTICIPANT_FINAL_ENCRYPTED_ADMISSION_SALT keccak = keccak PARTICIPANT_FINAL_ENCRYPTED_ADMISSION_SCHEMA"

definition PARTICIPANT_ORIGINATED_AUTHORIZATION_MAX_LIFETIME_SECONDS :: int where
  "PARTICIPANT_ORIGINATED_AUTHORIZATION_MAX_LIFETIME_SECONDS = 15 * 60"

definition PARTICIPANT_ORIGINATED_AUTHORIZATION_CLOCK_SKEW_SECONDS :: int where
  "PARTICIPANT_ORIGINATED_AUTHORIZATION_CLOCK_SKEW_SECONDS = 120"

definition PARTICIPANT_ORIGINATED_CIPHERTEXT_MAX_BYTES :: int where
  "PARTICIPANT_ORIGINATED_CIPHERTEXT_MAX_BYTES = 192 * 2 ^ 20"

definition PARTICIPANT_CLAIM_SALT_BYTES :: nat where
  "PARTICIPANT_CLAIM_SALT_BYTES = 32"

definition PARTICIPANT_ORIGINATED_CLAIM_COMMITMENT_DOMAIN :: string where
  "PARTICIPANT_ORIGINATED_CLAIM_COMMITMENT_DOMAIN = ''MordantParticipantOriginatedClaim/v1''"

definition PARTICIPANT_SIGNING_KEY_REGISTRATION_TYPES :: "(string \<times> string) list" where
  "PARTICIPANT_SIGNING_KEY_REGISTRATION_TYPES = [
     (''verifyingService'', ''string''), (''runId'', ''string''), (''fheCaseId'', ''bytes32''), (''assetIdentityDigest'', ''bytes32''),
     (''policyDigest'', ''bytes32''), (''role'', ''string''), (''participantWallet'', ''address''),
     (''participantSigningPublicKey'', ''bytes32''), (''participantSigningKeyDigest'', ''bytes32''), (''registrationNonce'', ''bytes32''),
     (''issuedAt'', ''uint64''), (''expiresAt'', ''uint64'')]"

definition PARTICIPANT_ENCRYPTION_INTENT_TYPES :: "(string \<times> string) list" where
  "PARTICIPANT_ENCRYPTION_INTENT_TYPES = [
     (''verifyingService'', ''string''), (''runId'', ''string''), (''fheCaseId'', ''bytes32''), (''caseBindingDigest'', ''bytes32''),
     (''protectionBindingDigest'', ''bytes32''), (''assetIdentityDigest'', ''bytes32''), (''policyDigest'', ''bytes32''),
     (''circuitId'', ''string''), (''circuitVersion'', ''uint32''), (''circuitDigest'', ''bytes32''), (''parameterProfile'', ''string''),
     (''parameterFingerprint'', ''bytes32''), (''fhePublicKeyDigest'', ''bytes32''), (''releaseAuthorityId'', ''bytes32''),
     (''releaseMode'', ''string''), (''role'', ''string''), (''participantWallet'', ''address''), (''participantSigningKeyDigest'', ''bytes32''),
     (''registrationDigest'', ''bytes32''), (''claimCommitment'', ''bytes32''), (''clientBundleDigest'', ''bytes32''),
     (''clientSourceDigest'', ''bytes32''), (''clientBuildDigest'', ''bytes32''), (''clientBinaryDigest'', ''bytes32''),
     (''bundleExpiresAt'', ''uint64''), (''intentNonce'', ''bytes32''), (''issuedAt'', ''uint64''), (''expiresAt'', ''uint64'')]"

definition PARTICIPANT_FINAL_ENCRYPTED_ADMISSION_TYPES :: "(string \<times> string) list" where
  "PARTICIPANT_FINAL_ENCRYPTED_ADMISSION_TYPES = [
     (''verifyingService'', ''string''), (''runId'', ''string''), (''fheCaseId'', ''bytes32''), (''role'', ''string''),
     (''participantWallet'', ''address''), (''participantSigningKeyDigest'', ''bytes32''), (''registrationDigest'', ''bytes32''),
     (''clientBundleDigest'', ''bytes32''), (''encryptionIntentDigest'', ''bytes32''), (''claimCommitment'', ''bytes32''),
     (''encryptedArtifactDigest'', ''bytes32''), (''ciphertextObjectDigest'', ''bytes32''), (''ciphertextObjectLength'', ''uint64''),
     (''submissionNonce'', ''bytes32''), (''issuedAt'', ''uint64''), (''expiresAt'', ''uint64'')]"

subsection \<open>Messages, contexts and facts\<close>

record ParticipantSigningKeyRegistrationMessage =
  sk_verifyingService :: string
  sk_runId :: string
  sk_fheCaseId :: string
  sk_assetIdentityDigest :: string
  sk_policyDigest :: string
  sk_role :: ParticipantRole
  sk_participantWallet :: string
  sk_participantSigningPublicKey :: string
  sk_participantSigningKeyDigest :: string
  sk_registrationNonce :: string
  sk_issuedAt :: int
  sk_expiresAt :: int

record ParticipantSigningKeyRegistrationRequest =
  sq_schemaVersion :: string
  sq_registration :: ParticipantSigningKeyRegistrationMessage
  sq_signature :: string

record ParticipantEncryptionIntentMessage =
  xi_verifyingService :: string
  xi_runId :: string
  xi_fheCaseId :: string
  xi_caseBindingDigest :: string
  xi_protectionBindingDigest :: string
  xi_assetIdentityDigest :: string
  xi_policyDigest :: string
  xi_circuitId :: string
  xi_circuitVersion :: int
  xi_circuitDigest :: string
  xi_parameterProfile :: string
  xi_parameterFingerprint :: string
  xi_fhePublicKeyDigest :: string
  xi_releaseAuthorityId :: string
  xi_releaseMode :: string
  xi_role :: ParticipantRole
  xi_participantWallet :: string
  xi_participantSigningKeyDigest :: string
  xi_registrationDigest :: string
  xi_claimCommitment :: string
  xi_clientBundleDigest :: string
  xi_clientSourceDigest :: string
  xi_clientBuildDigest :: string
  xi_clientBinaryDigest :: string
  xi_bundleExpiresAt :: int
  xi_intentNonce :: string
  xi_issuedAt :: int
  xi_expiresAt :: int

record ParticipantEncryptionIntentRequest =
  xq_schemaVersion :: string
  xq_intent :: ParticipantEncryptionIntentMessage
  xq_signature :: string

record ParticipantFinalEncryptedAdmissionMessage =
  fa_verifyingService :: string
  fa_runId :: string
  fa_fheCaseId :: string
  fa_role :: ParticipantRole
  fa_participantWallet :: string
  fa_participantSigningKeyDigest :: string
  fa_registrationDigest :: string
  fa_clientBundleDigest :: string
  fa_encryptionIntentDigest :: string
  fa_claimCommitment :: string
  fa_encryptedArtifactDigest :: string
  fa_ciphertextObjectDigest :: string
  fa_ciphertextObjectLength :: int
  fa_submissionNonce :: string
  fa_issuedAt :: int
  fa_expiresAt :: int

record ParticipantFinalEncryptedAdmissionRequest =
  fq_schemaVersion :: string
  fq_admission :: ParticipantFinalEncryptedAdmissionMessage
  fq_signature :: string

text \<open>The local claim; its numbers are any doubles until they are checked.\<close>

record ParticipantLocalClaimPreimage =
  lc_activeFrom :: jsnum
  lc_activeUntil :: jsnum
  lc_amount :: "jsnum list"
  lc_currency :: string
  lc_obligationId :: string
  lc_receivableId :: string
  lc_exclusive :: bool
  lc_receivableCommitment :: string

record ParticipantLocalClaimCommitmentInput =
  li_runId :: string
  li_fheCaseId :: string
  li_role :: ParticipantRole
  li_claim :: ParticipantLocalClaimPreimage
  li_salt :: string

record ParticipantOriginatedBundleContext =
  bc_runId :: string
  bc_fheCaseId :: string
  bc_caseBindingDigest :: string
  bc_protectionBindingDigest :: string
  bc_assetIdentityDigest :: string
  bc_policyDigest :: string
  bc_circuitId :: string
  bc_circuitVersion :: int
  bc_circuitDigest :: string
  bc_parameterProfile :: string
  bc_parameterFingerprint :: string
  bc_fhePublicKeyDigest :: string
  bc_releaseAuthorityId :: string
  bc_releaseMode :: string
  bc_clientBundleDigest :: string
  bc_clientSourceDigest :: string
  bc_clientBuildDigest :: string
  bc_clientBinaryDigest :: string
  bc_bundleExpiresAt :: int

record ExpectedParticipantSigningKeyRegistrationContext =
  xr_verifyingService :: string
  xr_runId :: string
  xr_fheCaseId :: string
  xr_assetIdentityDigest :: string
  xr_policyDigest :: string
  xr_role :: ParticipantRole
  xr_participantWallet :: string
  xr_now :: int
  xr_chainId :: "int option"

record VerifiedParticipantSigningKeyRegistration =
  vs_schemaVersion :: string
  vs_registration :: ParticipantSigningKeyRegistrationMessage
  vs_registrationDigest :: string
  vs_signature :: string
  vs_role :: ParticipantRole
  vs_participantWallet :: string
  vs_participantSigningPublicKey :: string
  vs_participantSigningKeyDigest :: string
  vs_chainId :: int

record ExpectedParticipantEncryptionIntentContext = ParticipantOriginatedBundleContext +
  ec_verifyingService :: string
  ec_role :: ParticipantRole
  ec_participantWallet :: string
  ec_registration :: VerifiedParticipantSigningKeyRegistration
  ec_now :: int
  ec_chainId :: "int option"

record VerifiedParticipantEncryptionIntent =
  vi_schemaVersion :: string
  vi_intent :: ParticipantEncryptionIntentMessage
  vi_encryptionIntentDigest :: string
  vi_signature :: string
  vi_registrationDigest :: string
  vi_claimCommitment :: string
  vi_role :: ParticipantRole
  vi_participantWallet :: string
  vi_participantSigningKeyDigest :: string
  vi_chainId :: int

record RecomputedParticipantEncryptedArtifactContext =
  ra_encryptedArtifactDigest :: string
  ra_ciphertextObjectDigest :: string
  ra_ciphertextObjectLength :: int
  ra_fheCaseId :: string
  ra_caseBindingDigest :: string
  ra_assetIdentityDigest :: string
  ra_role :: ParticipantRole
  ra_participantSigningKeyDigest :: string
  ra_parameterProfile :: string
  ra_parameterFingerprint :: string
  ra_fhePublicKeyDigest :: string
  ra_circuitDigest :: string
  ra_submissionNonce :: string
  ra_expiresAt :: int
  ra_embeddedEncryptionIntentDigest :: string
  ra_embeddedClaimCommitment :: string

record ExpectedParticipantFinalEncryptedAdmissionContext = ParticipantOriginatedBundleContext +
  fc_verifyingService :: string
  fc_role :: ParticipantRole
  fc_participantWallet :: string
  fc_registration :: VerifiedParticipantSigningKeyRegistration
  fc_intent :: VerifiedParticipantEncryptionIntent
  fc_artifact :: RecomputedParticipantEncryptedArtifactContext
  fc_now :: int
  fc_chainId :: "int option"

record VerifiedParticipantFinalEncryptedAdmission =
  vf_schemaVersion :: string
  vf_admission :: ParticipantFinalEncryptedAdmissionMessage
  vf_finalAdmissionDigest :: string
  vf_signature :: string
  vf_encryptionIntentDigest :: string
  vf_encryptedArtifactDigest :: string
  vf_ciphertextObjectDigest :: string
  vf_submissionNonce :: string
  vf_role :: ParticipantRole
  vf_participantWallet :: string
  vf_chainId :: int

datatype ParticipantOriginatedAuthorizationPhase = REGISTRATION | INTENT | FINAL_ADMISSION

fun phase_name :: "ParticipantOriginatedAuthorizationPhase \<Rightarrow> string" where
  "phase_name REGISTRATION = ''REGISTRATION''"
| "phase_name INTENT = ''INTENT''"
| "phase_name FINAL_ADMISSION = ''FINAL_ADMISSION''"

record ParticipantOriginatedEoaVerifierInput =
  vn_phase :: ParticipantOriginatedAuthorizationPhase
  vn_address :: string
  vn_digest :: string
  vn_signature :: string

record ParticipantOriginatedNonceReservation =
  nr_phase :: ParticipantOriginatedAuthorizationPhase
  nr_runId :: string
  nr_role :: ParticipantRole
  nr_nonce :: string
  nr_authorizationDigest :: string

type_synonym eoa_verifier = "ParticipantOriginatedEoaVerifierInput \<Rightarrow> bool result"

type_synonym 's nonce_guard = "(ParticipantOriginatedNonceReservation \<Rightarrow> ('s, bool) action) option"

record originated_crypto =
  oc_sha :: "string \<Rightarrow> string"
  oc_keccak :: "string \<Rightarrow> string"
  oc_getAddress :: "string \<Rightarrow> string option"
  oc_hashTypedData :: "TypedData \<Rightarrow> string"
  oc_recoverAddress :: "string \<Rightarrow> string \<Rightarrow> string result"

abbreviation originated_error :: "string \<Rightarrow> nat \<Rightarrow> merror" where
  "originated_error \<equiv> ParticipantOriginatedAuthorizationError"

subsection \<open>Exact readers\<close>

definition string_matching :: "(string \<Rightarrow> bool) \<Rightarrow> jsval \<Rightarrow> string \<Rightarrow> string result" where
  "string_matching P v code = (case v of
     VString s \<Rightarrow> if P s then Inr s else Inl (originated_error code 400)
   | _ \<Rightarrow> Inl (originated_error code 400))"

definition bounded_text :: "string \<Rightarrow> bool" where
  "bounded_text s \<longleftrightarrow> s \<noteq> [] \<and> length s \<le> 255 \<and> list_all (\<lambda>c. 0x20 \<le> (of_char c :: nat) \<and> (of_char c :: nat) \<le> 0x7e) s"

definition exactText :: "jsval \<Rightarrow> string \<Rightarrow> string result" where
  "exactText v code = string_matching bounded_text v code"

definition exactRunId :: "jsval \<Rightarrow> string \<Rightarrow> string result" where
  "exactRunId v code = string_matching (fixed_regex UUID_PATTERN) v code"

definition zero_bytes32 :: string where
  "zero_bytes32 = ''0x'' @ replicate 64 (CHR ''0'')"

definition nonzero_bytes32 :: "jsval \<Rightarrow> string \<Rightarrow> string result" where
  "nonzero_bytes32 v code = string_matching (\<lambda>s. fixed_regex BYTES32_LOWER s \<and> s \<noteq> zero_bytes32) v code"

definition exactBytes32AllowZero :: "jsval \<Rightarrow> string \<Rightarrow> string result" where
  "exactBytes32AllowZero v code = string_matching (fixed_regex BYTES32_LOWER) v code"

definition exactWallet :: "(string \<Rightarrow> string option) \<Rightarrow> jsval \<Rightarrow> string \<Rightarrow> string result" where
  "exactWallet getAddress v code =
     ebind (string_matching (fixed_regex ADDRESS_ANY) v code) (\<lambda>s. require (getAddress s) (originated_error code 400))"

definition exactRole :: "jsval \<Rightarrow> string \<Rightarrow> ParticipantRole result" where
  "exactRole v code = require (isParticipantRole v) (originated_error code 400)"

definition exactPositiveInteger :: "jsval \<Rightarrow> string \<Rightarrow> int \<Rightarrow> int result" where
  "exactPositiveInteger v code maximum = (case v of
     VNumber (NInt i) \<Rightarrow> if isSafeInteger i \<and> \<not> i \<le> 0 \<and> \<not> i > maximum then Inr i else Inl (originated_error code 400)
   | _ \<Rightarrow> Inl (originated_error code 400))"

definition exactNonNegativeInteger :: "jsval \<Rightarrow> string \<Rightarrow> int result" where
  "exactNonNegativeInteger v code = (case v of
     VNumber (NInt i) \<Rightarrow> if isSafeInteger i \<and> \<not> i < 0 then Inr i else Inl (originated_error code 400)
   | _ \<Rightarrow> Inl (originated_error code 400))"

definition exactSignature :: "jsval \<Rightarrow> string result" where
  "exactSignature v = string_matching (fixed_regex (lit ''0x'' @ replicate 130 any_hex)) v ''SIGNATURE_FORMAT''"

definition assertAuthorizationWindow :: "int \<Rightarrow> int \<Rightarrow> unit result" where
  "assertAuthorizationWindow issuedAt expiresAt =
     ebind (check (\<not> expiresAt \<le> issuedAt) (originated_error ''AUTHORIZATION_WINDOW'' 400)) (\<lambda>_.
     check (\<not> expiresAt - issuedAt > PARTICIPANT_ORIGINATED_AUTHORIZATION_MAX_LIFETIME_SECONDS) (originated_error ''AUTHORIZATION_LIFETIME'' 400))"

definition assertFresh :: "int \<Rightarrow> int \<Rightarrow> int \<Rightarrow> ParticipantOriginatedAuthorizationPhase \<Rightarrow> unit result" where
  "assertFresh issuedAt expiresAt now phase =
     ebind (check (\<not> (\<not> isSafeInteger now \<or> now \<le> 0)) (originated_error ''SERVER_TIME'' 500)) (\<lambda>_.
     ebind (check (\<not> expiresAt \<le> now) (originated_error (phase_name phase @ ''_EXPIRED'') 401)) (\<lambda>_.
     check (\<not> issuedAt > now + PARTICIPANT_ORIGINATED_AUTHORIZATION_CLOCK_SKEW_SECONDS)
       (originated_error (phase_name phase @ ''_NOT_YET_VALID'') 401)))"

definition sameWallet :: "(string \<Rightarrow> string option) \<Rightarrow> string \<Rightarrow> string \<Rightarrow> bool" where
  "sameWallet getAddress left right = (case (getAddress left, getAddress right) of
     (Some l, Some r) \<Rightarrow> l = r | _ \<Rightarrow> False)"

definition expectEqual :: "jsval \<Rightarrow> jsval \<Rightarrow> string \<Rightarrow> unit result" where
  "expectEqual actual expected code = check (actual = expected) (originated_error code 409)"

definition expectWallet :: "(string \<Rightarrow> string option) \<Rightarrow> string \<Rightarrow> string \<Rightarrow> string \<Rightarrow> unit result" where
  "expectWallet getAddress actual expected code = check (sameWallet getAddress actual expected) (originated_error code 409)"

text \<open>The loop over a list of comparisons.\<close>

fun expect_each :: "(jsval \<times> jsval \<times> string) list \<Rightarrow> unit result" where
  "expect_each [] = Inr ()"
| "expect_each ((actual, wanted, code) # rest) = ebind (expectEqual actual wanted code) (\<lambda>_. expect_each rest)"

subsection \<open>Keys and the hiding commitment\<close>

fun hex_bytes :: "string \<Rightarrow> string" where
  "hex_bytes (a # b # r) = char_of (16 * hex_value a + hex_value b) # hex_bytes r"
| "hex_bytes r = []"

definition hex_text :: "string \<Rightarrow> string" where
  "hex_text bytes = concat (map (\<lambda>c. [hex_char (of_char c div 16), hex_char (of_char c mod 16)]) bytes)"

definition sha256ExactBytes :: "(string \<Rightarrow> string) \<Rightarrow> string \<Rightarrow> string" where
  "sha256ExactBytes sha bytes = ''0x'' @ sha bytes"

definition participantSigningPublicKeyDigest :: "(string \<Rightarrow> string) \<Rightarrow> string \<Rightarrow> string result" where
  "participantSigningPublicKeyDigest sha publicKey =
     ebind (nonzero_bytes32 (VString publicKey) ''SIGNING_PUBLIC_KEY'') (\<lambda>exact. Inr (sha256ExactBytes sha (hex_bytes (drop 2 exact))))"

text \<open>The argument is what the random source returned.\<close>

definition generateParticipantClaimSalt :: "string \<Rightarrow> string" where
  "generateParticipantClaimSalt randomBytes = ''0x'' @ hex_text (take PARTICIPANT_CLAIM_SALT_BYTES randomBytes)"

definition originated_claim_json :: "string \<Rightarrow> string \<Rightarrow> ParticipantRole \<Rightarrow> (int \<times> int \<times> int list \<times> string \<times> string \<times> string \<times> bool \<times> string) \<Rightarrow> string \<Rightarrow> json" where
  "originated_claim_json runId fheCaseId role = (\<lambda>(activeFrom, activeUntil, amount, currency, obligationId, receivableId, exclusive, receivableCommitment) salt.
     JObj [(''runId'', JStr runId), (''fheCaseId'', JStr fheCaseId), (''role'', JStr (role_name role)),
       (''claim'', JObj [(''activeFrom'', JNum activeFrom), (''activeUntil'', JNum activeUntil), (''amount'', JArr (map JNum amount)),
          (''currency'', JStr currency), (''obligationId'', JStr obligationId), (''receivableId'', JStr receivableId),
          (''exclusive'', JBool exclusive), (''receivableCommitment'', JStr receivableCommitment)]),
       (''salt'', JStr salt)])"

definition participantOriginatedClaimCommitment :: "(string \<Rightarrow> string) \<Rightarrow> ParticipantLocalClaimCommitmentInput \<Rightarrow> string result" where
  "participantOriginatedClaimCommitment sha inp = (let c = li_claim inp in
     ebind (exactRunId (VString (li_runId inp)) ''CLAIM_RUN_ID'') (\<lambda>runId.
     ebind (nonzero_bytes32 (VString (li_fheCaseId inp)) ''CLAIM_FHE_CASE_ID'') (\<lambda>fheCaseId.
     ebind (exactRole (VString (role_name (li_role inp))) ''CLAIM_ROLE'') (\<lambda>role.
     ebind (nonzero_bytes32 (VString (li_salt inp)) ''CLAIM_SALT'') (\<lambda>salt.
     ebind (exactNonNegativeInteger (VNumber (lc_activeFrom c)) ''CLAIM_ACTIVE_FROM'') (\<lambda>activeFrom.
     ebind (exactNonNegativeInteger (VNumber (lc_activeUntil c)) ''CLAIM_ACTIVE_UNTIL'') (\<lambda>activeUntil.
     ebind (check (\<not> activeFrom \<ge> activeUntil) (originated_error ''CLAIM_INTERVAL'' 400)) (\<lambda>_.
     ebind (check (length (lc_amount c) = 4) (originated_error ''CLAIM_AMOUNT'' 400)) (\<lambda>_.
     ebind (traverse (\<lambda>limb. exactNonNegativeInteger (VNumber limb) ''CLAIM_AMOUNT'') (lc_amount c)) (\<lambda>amount.
     ebind (check (\<not> list_all (\<lambda>limb. limb = 0) amount) (originated_error ''CLAIM_AMOUNT'' 400)) (\<lambda>_.
     ebind (nonzero_bytes32 (VString (lc_currency c)) ''CLAIM_CURRENCY'') (\<lambda>currency.
     ebind (nonzero_bytes32 (VString (lc_obligationId c)) ''CLAIM_OBLIGATION_ID'') (\<lambda>obligationId.
     ebind (nonzero_bytes32 (VString (lc_receivableId c)) ''CLAIM_RECEIVABLE_ID'') (\<lambda>receivableId.
     ebind (exactBytes32AllowZero (VString (lc_receivableCommitment c)) ''CLAIM_RECEIVABLE_COMMITMENT'') (\<lambda>receivableCommitment.
     ebind (check (receivableCommitment = zero_bytes32) (originated_error ''CLAIM_RECEIVABLE_COMMITMENT'' 400)) (\<lambda>_.
     Inr (sha256ExactBytes sha (PARTICIPANT_ORIGINATED_CLAIM_COMMITMENT_DOMAIN @ [CHR 0x00] @ canonicalJson
       (originated_claim_json runId fheCaseId role
         (activeFrom, activeUntil, amount, currency, obligationId, receivableId, lc_exclusive c, receivableCommitment) salt)))))))))))))))))))"

subsection \<open>Exact parsers\<close>

definition assertParticipantSigningKeyRegistrationMessage ::
  "(string \<Rightarrow> string) \<Rightarrow> (string \<Rightarrow> string option) \<Rightarrow> jsval \<Rightarrow> ParticipantSigningKeyRegistrationMessage result" where
  "assertParticipantSigningKeyRegistrationMessage sha getAddress v =
     ebind (check (plain_exactKeys v (map fst PARTICIPANT_SIGNING_KEY_REGISTRATION_TYPES)) (originated_error ''REGISTRATION_MEMBERS'' 400)) (\<lambda>_.
     ebind (nonzero_bytes32 (js_member v ''participantSigningPublicKey'') ''REGISTRATION_SIGNING_PUBLIC_KEY'') (\<lambda>participantSigningPublicKey.
     ebind (nonzero_bytes32 (js_member v ''participantSigningKeyDigest'') ''REGISTRATION_SIGNING_KEY_DIGEST'') (\<lambda>participantSigningKeyDigest.
     ebind (participantSigningPublicKeyDigest sha participantSigningPublicKey) (\<lambda>derived.
     ebind (check (derived = participantSigningKeyDigest) (originated_error ''REGISTRATION_SIGNING_KEY_DIGEST'' 400)) (\<lambda>_.
     ebind (exactPositiveInteger (js_member v ''issuedAt'') ''REGISTRATION_ISSUED_AT'' MAX_SAFE_INTEGER) (\<lambda>issuedAt.
     ebind (exactPositiveInteger (js_member v ''expiresAt'') ''REGISTRATION_EXPIRES_AT'' MAX_SAFE_INTEGER) (\<lambda>expiresAt.
     ebind (assertAuthorizationWindow issuedAt expiresAt) (\<lambda>_.
     ebind (exactText (js_member v ''verifyingService'') ''REGISTRATION_SERVICE'') (\<lambda>verifyingService.
     ebind (exactRunId (js_member v ''runId'') ''REGISTRATION_RUN_ID'') (\<lambda>runId.
     ebind (nonzero_bytes32 (js_member v ''fheCaseId'') ''REGISTRATION_FHE_CASE_ID'') (\<lambda>fheCaseId.
     ebind (nonzero_bytes32 (js_member v ''assetIdentityDigest'') ''REGISTRATION_ASSET'') (\<lambda>assetIdentityDigest.
     ebind (nonzero_bytes32 (js_member v ''policyDigest'') ''REGISTRATION_POLICY'') (\<lambda>policyDigest.
     ebind (exactRole (js_member v ''role'') ''REGISTRATION_ROLE'') (\<lambda>role.
     ebind (exactWallet getAddress (js_member v ''participantWallet'') ''REGISTRATION_WALLET'') (\<lambda>participantWallet.
     ebind (nonzero_bytes32 (js_member v ''registrationNonce'') ''REGISTRATION_NONCE'') (\<lambda>registrationNonce.
     Inr \<lparr>sk_verifyingService = verifyingService, sk_runId = runId, sk_fheCaseId = fheCaseId, sk_assetIdentityDigest = assetIdentityDigest,
          sk_policyDigest = policyDigest, sk_role = role, sk_participantWallet = participantWallet,
          sk_participantSigningPublicKey = participantSigningPublicKey, sk_participantSigningKeyDigest = participantSigningKeyDigest,
          sk_registrationNonce = registrationNonce, sk_issuedAt = issuedAt, sk_expiresAt = expiresAt\<rparr>))))))))))))))))"

definition assertParticipantSigningKeyRegistrationRequest ::
  "(string \<Rightarrow> string) \<Rightarrow> (string \<Rightarrow> string option) \<Rightarrow> jsval \<Rightarrow> ParticipantSigningKeyRegistrationRequest result" where
  "assertParticipantSigningKeyRegistrationRequest sha getAddress v =
     ebind (check (plain_exactKeys v [''schemaVersion'', ''registration'', ''signature'']) (originated_error ''REGISTRATION_REQUEST_MEMBERS'' 400)) (\<lambda>_.
     ebind (check (js_member v ''schemaVersion'' = VString PARTICIPANT_SIGNING_KEY_REGISTRATION_SCHEMA) (originated_error ''REGISTRATION_SCHEMA'' 400)) (\<lambda>_.
     ebind (assertParticipantSigningKeyRegistrationMessage sha getAddress (js_member v ''registration'')) (\<lambda>message.
     ebind (exactSignature (js_member v ''signature'')) (\<lambda>signature.
     Inr \<lparr>sq_schemaVersion = PARTICIPANT_SIGNING_KEY_REGISTRATION_SCHEMA, sq_registration = message, sq_signature = signature\<rparr>))))"

definition assertParticipantEncryptionIntentMessage ::
  "(string \<Rightarrow> string option) \<Rightarrow> jsval \<Rightarrow> ParticipantEncryptionIntentMessage result" where
  "assertParticipantEncryptionIntentMessage getAddress v =
     ebind (check (plain_exactKeys v (map fst PARTICIPANT_ENCRYPTION_INTENT_TYPES)) (originated_error ''INTENT_MEMBERS'' 400)) (\<lambda>_.
     ebind (exactPositiveInteger (js_member v ''issuedAt'') ''INTENT_ISSUED_AT'' MAX_SAFE_INTEGER) (\<lambda>issuedAt.
     ebind (exactPositiveInteger (js_member v ''expiresAt'') ''INTENT_EXPIRES_AT'' MAX_SAFE_INTEGER) (\<lambda>expiresAt.
     ebind (exactPositiveInteger (js_member v ''bundleExpiresAt'') ''INTENT_BUNDLE_EXPIRES_AT'' MAX_SAFE_INTEGER) (\<lambda>bundleExpiresAt.
     ebind (assertAuthorizationWindow issuedAt expiresAt) (\<lambda>_.
     ebind (check (\<not> expiresAt > bundleExpiresAt) (originated_error ''INTENT_BUNDLE_EXPIRY'' 400)) (\<lambda>_.
     ebind (exactText (js_member v ''verifyingService'') ''INTENT_SERVICE'') (\<lambda>verifyingService.
     ebind (exactRunId (js_member v ''runId'') ''INTENT_RUN_ID'') (\<lambda>runId.
     ebind (nonzero_bytes32 (js_member v ''fheCaseId'') ''INTENT_FHE_CASE_ID'') (\<lambda>fheCaseId.
     ebind (nonzero_bytes32 (js_member v ''caseBindingDigest'') ''INTENT_CASE_BINDING'') (\<lambda>caseBindingDigest.
     ebind (nonzero_bytes32 (js_member v ''protectionBindingDigest'') ''INTENT_PROTECTION_BINDING'') (\<lambda>protectionBindingDigest.
     ebind (nonzero_bytes32 (js_member v ''assetIdentityDigest'') ''INTENT_ASSET'') (\<lambda>assetIdentityDigest.
     ebind (nonzero_bytes32 (js_member v ''policyDigest'') ''INTENT_POLICY'') (\<lambda>policyDigest.
     ebind (exactText (js_member v ''circuitId'') ''INTENT_CIRCUIT_ID'') (\<lambda>circuitId.
     ebind (exactPositiveInteger (js_member v ''circuitVersion'') ''INTENT_CIRCUIT_VERSION'' 0xffffffff) (\<lambda>circuitVersion.
     ebind (nonzero_bytes32 (js_member v ''circuitDigest'') ''INTENT_CIRCUIT_DIGEST'') (\<lambda>circuitDigest.
     ebind (exactText (js_member v ''parameterProfile'') ''INTENT_PARAMETER_PROFILE'') (\<lambda>parameterProfile.
     ebind (nonzero_bytes32 (js_member v ''parameterFingerprint'') ''INTENT_PARAMETER_FINGERPRINT'') (\<lambda>parameterFingerprint.
     ebind (nonzero_bytes32 (js_member v ''fhePublicKeyDigest'') ''INTENT_FHE_PUBLIC_KEY'') (\<lambda>fhePublicKeyDigest.
     ebind (nonzero_bytes32 (js_member v ''releaseAuthorityId'') ''INTENT_RELEASE_AUTHORITY'') (\<lambda>releaseAuthorityId.
     ebind (exactText (js_member v ''releaseMode'') ''INTENT_RELEASE_MODE'') (\<lambda>releaseMode.
     ebind (exactRole (js_member v ''role'') ''INTENT_ROLE'') (\<lambda>role.
     ebind (exactWallet getAddress (js_member v ''participantWallet'') ''INTENT_WALLET'') (\<lambda>participantWallet.
     ebind (nonzero_bytes32 (js_member v ''participantSigningKeyDigest'') ''INTENT_SIGNING_KEY'') (\<lambda>participantSigningKeyDigest.
     ebind (nonzero_bytes32 (js_member v ''registrationDigest'') ''INTENT_REGISTRATION_DIGEST'') (\<lambda>registrationDigest.
     ebind (nonzero_bytes32 (js_member v ''claimCommitment'') ''INTENT_CLAIM_COMMITMENT'') (\<lambda>claimCommitment.
     ebind (nonzero_bytes32 (js_member v ''clientBundleDigest'') ''INTENT_CLIENT_BUNDLE'') (\<lambda>clientBundleDigest.
     ebind (nonzero_bytes32 (js_member v ''clientSourceDigest'') ''INTENT_CLIENT_SOURCE'') (\<lambda>clientSourceDigest.
     ebind (nonzero_bytes32 (js_member v ''clientBuildDigest'') ''INTENT_CLIENT_BUILD'') (\<lambda>clientBuildDigest.
     ebind (nonzero_bytes32 (js_member v ''clientBinaryDigest'') ''INTENT_CLIENT_BINARY'') (\<lambda>clientBinaryDigest.
     ebind (nonzero_bytes32 (js_member v ''intentNonce'') ''INTENT_NONCE'') (\<lambda>intentNonce.
     Inr \<lparr>xi_verifyingService = verifyingService, xi_runId = runId, xi_fheCaseId = fheCaseId, xi_caseBindingDigest = caseBindingDigest,
          xi_protectionBindingDigest = protectionBindingDigest, xi_assetIdentityDigest = assetIdentityDigest, xi_policyDigest = policyDigest,
          xi_circuitId = circuitId, xi_circuitVersion = circuitVersion, xi_circuitDigest = circuitDigest, xi_parameterProfile = parameterProfile,
          xi_parameterFingerprint = parameterFingerprint, xi_fhePublicKeyDigest = fhePublicKeyDigest, xi_releaseAuthorityId = releaseAuthorityId,
          xi_releaseMode = releaseMode, xi_role = role, xi_participantWallet = participantWallet,
          xi_participantSigningKeyDigest = participantSigningKeyDigest, xi_registrationDigest = registrationDigest,
          xi_claimCommitment = claimCommitment, xi_clientBundleDigest = clientBundleDigest, xi_clientSourceDigest = clientSourceDigest,
          xi_clientBuildDigest = clientBuildDigest, xi_clientBinaryDigest = clientBinaryDigest, xi_bundleExpiresAt = bundleExpiresAt,
          xi_intentNonce = intentNonce, xi_issuedAt = issuedAt, xi_expiresAt = expiresAt\<rparr>)))))))))))))))))))))))))))))))"

definition assertParticipantEncryptionIntentRequest ::
  "(string \<Rightarrow> string option) \<Rightarrow> jsval \<Rightarrow> ParticipantEncryptionIntentRequest result" where
  "assertParticipantEncryptionIntentRequest getAddress v =
     ebind (check (plain_exactKeys v [''schemaVersion'', ''intent'', ''signature'']) (originated_error ''INTENT_REQUEST_MEMBERS'' 400)) (\<lambda>_.
     ebind (check (js_member v ''schemaVersion'' = VString PARTICIPANT_ENCRYPTION_INTENT_SCHEMA) (originated_error ''INTENT_SCHEMA'' 400)) (\<lambda>_.
     ebind (assertParticipantEncryptionIntentMessage getAddress (js_member v ''intent'')) (\<lambda>message.
     ebind (exactSignature (js_member v ''signature'')) (\<lambda>signature.
     Inr \<lparr>xq_schemaVersion = PARTICIPANT_ENCRYPTION_INTENT_SCHEMA, xq_intent = message, xq_signature = signature\<rparr>))))"

definition assertParticipantFinalEncryptedAdmissionMessage ::
  "(string \<Rightarrow> string option) \<Rightarrow> jsval \<Rightarrow> ParticipantFinalEncryptedAdmissionMessage result" where
  "assertParticipantFinalEncryptedAdmissionMessage getAddress v =
     ebind (check (plain_exactKeys v (map fst PARTICIPANT_FINAL_ENCRYPTED_ADMISSION_TYPES)) (originated_error ''FINAL_ADMISSION_MEMBERS'' 400)) (\<lambda>_.
     ebind (exactPositiveInteger (js_member v ''issuedAt'') ''FINAL_ADMISSION_ISSUED_AT'' MAX_SAFE_INTEGER) (\<lambda>issuedAt.
     ebind (exactPositiveInteger (js_member v ''expiresAt'') ''FINAL_ADMISSION_EXPIRES_AT'' MAX_SAFE_INTEGER) (\<lambda>expiresAt.
     ebind (assertAuthorizationWindow issuedAt expiresAt) (\<lambda>_.
     ebind (exactText (js_member v ''verifyingService'') ''FINAL_ADMISSION_SERVICE'') (\<lambda>verifyingService.
     ebind (exactRunId (js_member v ''runId'') ''FINAL_ADMISSION_RUN_ID'') (\<lambda>runId.
     ebind (nonzero_bytes32 (js_member v ''fheCaseId'') ''FINAL_ADMISSION_FHE_CASE_ID'') (\<lambda>fheCaseId.
     ebind (exactRole (js_member v ''role'') ''FINAL_ADMISSION_ROLE'') (\<lambda>role.
     ebind (exactWallet getAddress (js_member v ''participantWallet'') ''FINAL_ADMISSION_WALLET'') (\<lambda>participantWallet.
     ebind (nonzero_bytes32 (js_member v ''participantSigningKeyDigest'') ''FINAL_ADMISSION_SIGNING_KEY'') (\<lambda>participantSigningKeyDigest.
     ebind (nonzero_bytes32 (js_member v ''registrationDigest'') ''FINAL_ADMISSION_REGISTRATION_DIGEST'') (\<lambda>registrationDigest.
     ebind (nonzero_bytes32 (js_member v ''clientBundleDigest'') ''FINAL_ADMISSION_CLIENT_BUNDLE'') (\<lambda>clientBundleDigest.
     ebind (nonzero_bytes32 (js_member v ''encryptionIntentDigest'') ''FINAL_ADMISSION_INTENT_DIGEST'') (\<lambda>encryptionIntentDigest.
     ebind (nonzero_bytes32 (js_member v ''claimCommitment'') ''FINAL_ADMISSION_CLAIM_COMMITMENT'') (\<lambda>claimCommitment.
     ebind (nonzero_bytes32 (js_member v ''encryptedArtifactDigest'') ''FINAL_ADMISSION_ARTIFACT_DIGEST'') (\<lambda>encryptedArtifactDigest.
     ebind (nonzero_bytes32 (js_member v ''ciphertextObjectDigest'') ''FINAL_ADMISSION_CIPHERTEXT_DIGEST'') (\<lambda>ciphertextObjectDigest.
     ebind (exactPositiveInteger (js_member v ''ciphertextObjectLength'') ''FINAL_ADMISSION_CIPHERTEXT_LENGTH'' PARTICIPANT_ORIGINATED_CIPHERTEXT_MAX_BYTES) (\<lambda>ciphertextObjectLength.
     ebind (nonzero_bytes32 (js_member v ''submissionNonce'') ''FINAL_ADMISSION_SUBMISSION_NONCE'') (\<lambda>submissionNonce.
     Inr \<lparr>fa_verifyingService = verifyingService, fa_runId = runId, fa_fheCaseId = fheCaseId, fa_role = role, fa_participantWallet = participantWallet,
          fa_participantSigningKeyDigest = participantSigningKeyDigest, fa_registrationDigest = registrationDigest,
          fa_clientBundleDigest = clientBundleDigest, fa_encryptionIntentDigest = encryptionIntentDigest, fa_claimCommitment = claimCommitment,
          fa_encryptedArtifactDigest = encryptedArtifactDigest, fa_ciphertextObjectDigest = ciphertextObjectDigest,
          fa_ciphertextObjectLength = ciphertextObjectLength, fa_submissionNonce = submissionNonce, fa_issuedAt = issuedAt, fa_expiresAt = expiresAt\<rparr>))))))))))))))))))"

definition assertParticipantFinalEncryptedAdmissionRequest ::
  "(string \<Rightarrow> string option) \<Rightarrow> jsval \<Rightarrow> ParticipantFinalEncryptedAdmissionRequest result" where
  "assertParticipantFinalEncryptedAdmissionRequest getAddress v =
     ebind (check (plain_exactKeys v [''schemaVersion'', ''admission'', ''signature'']) (originated_error ''FINAL_ADMISSION_REQUEST_MEMBERS'' 400)) (\<lambda>_.
     ebind (check (js_member v ''schemaVersion'' = VString PARTICIPANT_FINAL_ENCRYPTED_ADMISSION_SCHEMA) (originated_error ''FINAL_ADMISSION_SCHEMA'' 400)) (\<lambda>_.
     ebind (assertParticipantFinalEncryptedAdmissionMessage getAddress (js_member v ''admission'')) (\<lambda>message.
     ebind (exactSignature (js_member v ''signature'')) (\<lambda>signature.
     Inr \<lparr>fq_schemaVersion = PARTICIPANT_FINAL_ENCRYPTED_ADMISSION_SCHEMA, fq_admission = message, fq_signature = signature\<rparr>))))"

text \<open>A typed message as the plain object it is.\<close>

definition registration_value :: "ParticipantSigningKeyRegistrationMessage \<Rightarrow> jsval" where
  "registration_value m = VObject ObjectPrototype [
     (''verifyingService'', VString (sk_verifyingService m)), (''runId'', VString (sk_runId m)), (''fheCaseId'', VString (sk_fheCaseId m)),
     (''assetIdentityDigest'', VString (sk_assetIdentityDigest m)), (''policyDigest'', VString (sk_policyDigest m)),
     (''role'', VString (role_name (sk_role m))), (''participantWallet'', VString (sk_participantWallet m)),
     (''participantSigningPublicKey'', VString (sk_participantSigningPublicKey m)),
     (''participantSigningKeyDigest'', VString (sk_participantSigningKeyDigest m)), (''registrationNonce'', VString (sk_registrationNonce m)),
     (''issuedAt'', VNumber (NInt (sk_issuedAt m))), (''expiresAt'', VNumber (NInt (sk_expiresAt m)))]"

definition intent_value :: "ParticipantEncryptionIntentMessage \<Rightarrow> jsval" where
  "intent_value m = VObject ObjectPrototype [
     (''verifyingService'', VString (xi_verifyingService m)), (''runId'', VString (xi_runId m)), (''fheCaseId'', VString (xi_fheCaseId m)),
     (''caseBindingDigest'', VString (xi_caseBindingDigest m)), (''protectionBindingDigest'', VString (xi_protectionBindingDigest m)),
     (''assetIdentityDigest'', VString (xi_assetIdentityDigest m)), (''policyDigest'', VString (xi_policyDigest m)),
     (''circuitId'', VString (xi_circuitId m)), (''circuitVersion'', VNumber (NInt (xi_circuitVersion m))),
     (''circuitDigest'', VString (xi_circuitDigest m)), (''parameterProfile'', VString (xi_parameterProfile m)),
     (''parameterFingerprint'', VString (xi_parameterFingerprint m)), (''fhePublicKeyDigest'', VString (xi_fhePublicKeyDigest m)),
     (''releaseAuthorityId'', VString (xi_releaseAuthorityId m)), (''releaseMode'', VString (xi_releaseMode m)),
     (''role'', VString (role_name (xi_role m))), (''participantWallet'', VString (xi_participantWallet m)),
     (''participantSigningKeyDigest'', VString (xi_participantSigningKeyDigest m)), (''registrationDigest'', VString (xi_registrationDigest m)),
     (''claimCommitment'', VString (xi_claimCommitment m)), (''clientBundleDigest'', VString (xi_clientBundleDigest m)),
     (''clientSourceDigest'', VString (xi_clientSourceDigest m)), (''clientBuildDigest'', VString (xi_clientBuildDigest m)),
     (''clientBinaryDigest'', VString (xi_clientBinaryDigest m)), (''bundleExpiresAt'', VNumber (NInt (xi_bundleExpiresAt m))),
     (''intentNonce'', VString (xi_intentNonce m)), (''issuedAt'', VNumber (NInt (xi_issuedAt m))),
     (''expiresAt'', VNumber (NInt (xi_expiresAt m)))]"

definition admission_value :: "ParticipantFinalEncryptedAdmissionMessage \<Rightarrow> jsval" where
  "admission_value m = VObject ObjectPrototype [
     (''verifyingService'', VString (fa_verifyingService m)), (''runId'', VString (fa_runId m)), (''fheCaseId'', VString (fa_fheCaseId m)),
     (''role'', VString (role_name (fa_role m))), (''participantWallet'', VString (fa_participantWallet m)),
     (''participantSigningKeyDigest'', VString (fa_participantSigningKeyDigest m)), (''registrationDigest'', VString (fa_registrationDigest m)),
     (''clientBundleDigest'', VString (fa_clientBundleDigest m)), (''encryptionIntentDigest'', VString (fa_encryptionIntentDigest m)),
     (''claimCommitment'', VString (fa_claimCommitment m)), (''encryptedArtifactDigest'', VString (fa_encryptedArtifactDigest m)),
     (''ciphertextObjectDigest'', VString (fa_ciphertextObjectDigest m)),
     (''ciphertextObjectLength'', VNumber (NInt (fa_ciphertextObjectLength m))), (''submissionNonce'', VString (fa_submissionNonce m)),
     (''issuedAt'', VNumber (NInt (fa_issuedAt m))), (''expiresAt'', VNumber (NInt (fa_expiresAt m)))]"

subsection \<open>Typed data\<close>

definition originated_domain :: "string \<Rightarrow> string \<Rightarrow> int \<Rightarrow> TypedData result" where
  "originated_domain name salt chainId =
     ebind (check (\<not> (\<not> isSafeInteger chainId \<or> chainId \<le> 0)) (originated_error ''CHAIN_ID'' 500)) (\<lambda>_.
     Inr \<lparr>td_name = name, td_version = PARTICIPANT_ORIGINATED_DOMAIN_VERSION, td_chainId = chainId, td_salt = salt,
          td_types = [], td_primaryType = [], td_message = []\<rparr>)"

definition participantSigningKeyRegistrationDomain :: "(string \<Rightarrow> string) \<Rightarrow> int \<Rightarrow> TypedData result" where
  "participantSigningKeyRegistrationDomain keccak chainId = originated_domain PARTICIPANT_SIGNING_KEY_REGISTRATION_DOMAIN_NAME (PARTICIPANT_SIGNING_KEY_REGISTRATION_SALT keccak) chainId"

definition participantEncryptionIntentDomain :: "(string \<Rightarrow> string) \<Rightarrow> int \<Rightarrow> TypedData result" where
  "participantEncryptionIntentDomain keccak chainId = originated_domain PARTICIPANT_ENCRYPTION_INTENT_DOMAIN_NAME (PARTICIPANT_ENCRYPTION_INTENT_SALT keccak) chainId"

definition participantFinalEncryptedAdmissionDomain :: "(string \<Rightarrow> string) \<Rightarrow> int \<Rightarrow> TypedData result" where
  "participantFinalEncryptedAdmissionDomain keccak chainId = originated_domain PARTICIPANT_FINAL_ENCRYPTED_ADMISSION_DOMAIN_NAME (PARTICIPANT_FINAL_ENCRYPTED_ADMISSION_SALT keccak) chainId"

definition participantSigningKeyRegistrationTypedData :: "(string \<Rightarrow> string) \<Rightarrow> ParticipantSigningKeyRegistrationMessage \<Rightarrow> int \<Rightarrow> TypedData result" where
  "participantSigningKeyRegistrationTypedData keccak m chainId =
     ebind (participantSigningKeyRegistrationDomain keccak chainId) (\<lambda>domain. Inr (domain\<lparr>
       td_types := PARTICIPANT_SIGNING_KEY_REGISTRATION_TYPES, td_primaryType := PARTICIPANT_SIGNING_KEY_REGISTRATION_PRIMARY_TYPE,
       td_message := [
     (''verifyingService'', VString (sk_verifyingService m)), (''runId'', VString (sk_runId m)), (''fheCaseId'', VString (sk_fheCaseId m)),
     (''assetIdentityDigest'', VString (sk_assetIdentityDigest m)), (''policyDigest'', VString (sk_policyDigest m)),
     (''role'', VString (role_name (sk_role m))), (''participantWallet'', VString (sk_participantWallet m)),
     (''participantSigningPublicKey'', VString (sk_participantSigningPublicKey m)),
     (''participantSigningKeyDigest'', VString (sk_participantSigningKeyDigest m)), (''registrationNonce'', VString (sk_registrationNonce m)),
     (''issuedAt'', VBigint (sk_issuedAt m)), (''expiresAt'', VBigint (sk_expiresAt m))]\<rparr>))"

definition participantSigningKeyRegistrationDigest :: "originated_crypto \<Rightarrow> ParticipantSigningKeyRegistrationMessage \<Rightarrow> int \<Rightarrow> string result" where
  "participantSigningKeyRegistrationDigest oc m chainId = ebind (participantSigningKeyRegistrationTypedData (oc_keccak oc) m chainId) (\<lambda>td. Inr (oc_hashTypedData oc td))"

definition participantEncryptionIntentTypedData :: "(string \<Rightarrow> string) \<Rightarrow> ParticipantEncryptionIntentMessage \<Rightarrow> int \<Rightarrow> TypedData result" where
  "participantEncryptionIntentTypedData keccak m chainId =
     ebind (participantEncryptionIntentDomain keccak chainId) (\<lambda>domain. Inr (domain\<lparr>
       td_types := PARTICIPANT_ENCRYPTION_INTENT_TYPES, td_primaryType := PARTICIPANT_ENCRYPTION_INTENT_PRIMARY_TYPE,
       td_message := [
     (''verifyingService'', VString (xi_verifyingService m)), (''runId'', VString (xi_runId m)), (''fheCaseId'', VString (xi_fheCaseId m)),
     (''caseBindingDigest'', VString (xi_caseBindingDigest m)), (''protectionBindingDigest'', VString (xi_protectionBindingDigest m)),
     (''assetIdentityDigest'', VString (xi_assetIdentityDigest m)), (''policyDigest'', VString (xi_policyDigest m)),
     (''circuitId'', VString (xi_circuitId m)), (''circuitVersion'', VNumber (NInt (xi_circuitVersion m))),
     (''circuitDigest'', VString (xi_circuitDigest m)), (''parameterProfile'', VString (xi_parameterProfile m)),
     (''parameterFingerprint'', VString (xi_parameterFingerprint m)), (''fhePublicKeyDigest'', VString (xi_fhePublicKeyDigest m)),
     (''releaseAuthorityId'', VString (xi_releaseAuthorityId m)), (''releaseMode'', VString (xi_releaseMode m)),
     (''role'', VString (role_name (xi_role m))), (''participantWallet'', VString (xi_participantWallet m)),
     (''participantSigningKeyDigest'', VString (xi_participantSigningKeyDigest m)), (''registrationDigest'', VString (xi_registrationDigest m)),
     (''claimCommitment'', VString (xi_claimCommitment m)), (''clientBundleDigest'', VString (xi_clientBundleDigest m)),
     (''clientSourceDigest'', VString (xi_clientSourceDigest m)), (''clientBuildDigest'', VString (xi_clientBuildDigest m)),
     (''clientBinaryDigest'', VString (xi_clientBinaryDigest m)), (''bundleExpiresAt'', VBigint (xi_bundleExpiresAt m)),
     (''intentNonce'', VString (xi_intentNonce m)), (''issuedAt'', VBigint (xi_issuedAt m)), (''expiresAt'', VBigint (xi_expiresAt m))]\<rparr>))"

definition participantEncryptionIntentDigest :: "originated_crypto \<Rightarrow> ParticipantEncryptionIntentMessage \<Rightarrow> int \<Rightarrow> string result" where
  "participantEncryptionIntentDigest oc m chainId = ebind (participantEncryptionIntentTypedData (oc_keccak oc) m chainId) (\<lambda>td. Inr (oc_hashTypedData oc td))"

definition participantFinalEncryptedAdmissionTypedData :: "(string \<Rightarrow> string) \<Rightarrow> ParticipantFinalEncryptedAdmissionMessage \<Rightarrow> int \<Rightarrow> TypedData result" where
  "participantFinalEncryptedAdmissionTypedData keccak m chainId =
     ebind (participantFinalEncryptedAdmissionDomain keccak chainId) (\<lambda>domain. Inr (domain\<lparr>
       td_types := PARTICIPANT_FINAL_ENCRYPTED_ADMISSION_TYPES, td_primaryType := PARTICIPANT_FINAL_ENCRYPTED_ADMISSION_PRIMARY_TYPE,
       td_message := [
     (''verifyingService'', VString (fa_verifyingService m)), (''runId'', VString (fa_runId m)), (''fheCaseId'', VString (fa_fheCaseId m)),
     (''role'', VString (role_name (fa_role m))), (''participantWallet'', VString (fa_participantWallet m)),
     (''participantSigningKeyDigest'', VString (fa_participantSigningKeyDigest m)), (''registrationDigest'', VString (fa_registrationDigest m)),
     (''clientBundleDigest'', VString (fa_clientBundleDigest m)), (''encryptionIntentDigest'', VString (fa_encryptionIntentDigest m)),
     (''claimCommitment'', VString (fa_claimCommitment m)), (''encryptedArtifactDigest'', VString (fa_encryptedArtifactDigest m)),
     (''ciphertextObjectDigest'', VString (fa_ciphertextObjectDigest m)), (''ciphertextObjectLength'', VBigint (fa_ciphertextObjectLength m)),
     (''submissionNonce'', VString (fa_submissionNonce m)), (''issuedAt'', VBigint (fa_issuedAt m)), (''expiresAt'', VBigint (fa_expiresAt m))]\<rparr>))"

definition participantFinalEncryptedAdmissionDigest :: "originated_crypto \<Rightarrow> ParticipantFinalEncryptedAdmissionMessage \<Rightarrow> int \<Rightarrow> string result" where
  "participantFinalEncryptedAdmissionDigest oc m chainId = ebind (participantFinalEncryptedAdmissionTypedData (oc_keccak oc) m chainId) (\<lambda>td. Inr (oc_hashTypedData oc td))"

subsection \<open>Signatures, nonces and the chain identifier\<close>

definition verifyParticipantOriginatedEoaSignature :: "originated_crypto \<Rightarrow> eoa_verifier" where
  "verifyParticipantOriginatedEoaSignature oc inp = (case oc_recoverAddress oc (vn_digest inp) (vn_signature inp) of
     Inl _ \<Rightarrow> Inr False
   | Inr recovered \<Rightarrow> Inr (sameWallet (oc_getAddress oc) recovered (vn_address inp)))"

definition assertEoaSignature ::
  "ParticipantOriginatedAuthorizationPhase \<Rightarrow> string \<Rightarrow> string \<Rightarrow> string \<Rightarrow> eoa_verifier \<Rightarrow> unit result" where
  "assertEoaSignature phase address dig signature verifier =
     (case verifier \<lparr>vn_phase = phase, vn_address = address, vn_digest = dig, vn_signature = signature\<rparr> of
        Inl _ \<Rightarrow> Inl (originated_error (phase_name phase @ ''_SIGNATURE_UNVERIFIABLE'') 503)
      | Inr verified \<Rightarrow> check verified (originated_error (phase_name phase @ ''_SIGNATURE_REJECTED'') 401))"

definition assertNonceReservation :: "'s nonce_guard \<Rightarrow> ParticipantOriginatedNonceReservation \<Rightarrow> ('s, unit) action" where
  "assertNonceReservation guard reservation s = (case guard of
     None \<Rightarrow> (s, Inr ())
   | Some g \<Rightarrow> (case g reservation s of
       (s', Inl _) \<Rightarrow> (s', Inl (originated_error (phase_name (nr_phase reservation) @ ''_NONCE_UNAVAILABLE'') 503))
     | (s', Inr available) \<Rightarrow> (s', check available (originated_error (phase_name (nr_phase reservation) @ ''_REPLAY'') 409))))"

definition chainIdFrom :: "int option \<Rightarrow> int result" where
  "chainIdFrom v = (let chainId = (case v of None \<Rightarrow> PARTICIPANT_ORIGINATED_CHAIN_ID | Some c \<Rightarrow> c) in
     ebind (check (\<not> (\<not> isSafeInteger chainId \<or> chainId \<le> 0)) (originated_error ''CHAIN_ID'' 500)) (\<lambda>_. Inr chainId))"

subsection \<open>Phase 0: the key\<close>

definition assertRegistrationContext ::
  "(string \<Rightarrow> string option) \<Rightarrow> ParticipantSigningKeyRegistrationMessage \<Rightarrow> ExpectedParticipantSigningKeyRegistrationContext \<Rightarrow> unit result" where
  "assertRegistrationContext getAddress m expected =
     ebind (expect_each [
       (VString (sk_verifyingService m), VString (xr_verifyingService expected), ''REGISTRATION_SERVICE_MISMATCH''),
       (VString (sk_runId m), VString (xr_runId expected), ''REGISTRATION_RUN_MISMATCH''),
       (VString (sk_fheCaseId m), VString (xr_fheCaseId expected), ''REGISTRATION_CASE_MISMATCH''),
       (VString (sk_assetIdentityDigest m), VString (xr_assetIdentityDigest expected), ''REGISTRATION_ASSET_MISMATCH''),
       (VString (sk_policyDigest m), VString (xr_policyDigest expected), ''REGISTRATION_POLICY_MISMATCH''),
       (VString (role_name (sk_role m)), VString (role_name (xr_role expected)), ''REGISTRATION_ROLE_MISMATCH'')]) (\<lambda>_.
     expectWallet getAddress (sk_participantWallet m) (xr_participantWallet expected) ''REGISTRATION_WALLET_MISMATCH'')"

definition verifyParticipantSigningKeyRegistration ::
  "originated_crypto \<Rightarrow> jsval \<Rightarrow> ExpectedParticipantSigningKeyRegistrationContext \<Rightarrow> eoa_verifier \<Rightarrow> 's nonce_guard
     \<Rightarrow> ('s, VerifiedParticipantSigningKeyRegistration) action" where
  "verifyParticipantSigningKeyRegistration oc v expected verifier guard =
     abind (alift (assertParticipantSigningKeyRegistrationRequest (oc_sha oc) (oc_getAddress oc) v)) (\<lambda>request.
     let m = sq_registration request in
     abind (alift (assertRegistrationContext (oc_getAddress oc) m expected)) (\<lambda>_.
     abind (alift (assertFresh (sk_issuedAt m) (sk_expiresAt m) (xr_now expected) REGISTRATION)) (\<lambda>_.
     abind (alift (chainIdFrom (xr_chainId expected))) (\<lambda>chainId.
     abind (alift (participantSigningKeyRegistrationDigest oc m chainId)) (\<lambda>registrationDigest.
     abind (alift (assertEoaSignature REGISTRATION (sk_participantWallet m) registrationDigest (sq_signature request) verifier)) (\<lambda>_.
     abind (assertNonceReservation guard \<lparr>nr_phase = REGISTRATION, nr_runId = sk_runId m, nr_role = sk_role m,
       nr_nonce = sk_registrationNonce m, nr_authorizationDigest = registrationDigest\<rparr>) (\<lambda>_.
     alift (Inr \<lparr>vs_schemaVersion = PARTICIPANT_SIGNING_KEY_REGISTRATION_SCHEMA, vs_registration = m, vs_registrationDigest = registrationDigest,
       vs_signature = sq_signature request, vs_role = sk_role m, vs_participantWallet = sk_participantWallet m,
       vs_participantSigningPublicKey = sk_participantSigningPublicKey m, vs_participantSigningKeyDigest = sk_participantSigningKeyDigest m,
       vs_chainId = chainId\<rparr>))))))))"

definition assertStoredRegistration ::
  "originated_crypto \<Rightarrow> VerifiedParticipantSigningKeyRegistration \<Rightarrow> ExpectedParticipantSigningKeyRegistrationContext \<Rightarrow> int
     \<Rightarrow> eoa_verifier \<Rightarrow> VerifiedParticipantSigningKeyRegistration result" where
  "assertStoredRegistration oc stored expected chainId verifier =
     ebind (check (vs_schemaVersion stored = PARTICIPANT_SIGNING_KEY_REGISTRATION_SCHEMA) (originated_error ''REGISTRATION_CHAIN_SCHEMA'' 409)) (\<lambda>_.
     ebind (assertParticipantSigningKeyRegistrationMessage (oc_sha oc) (oc_getAddress oc) (registration_value (vs_registration stored))) (\<lambda>m.
     ebind (exactSignature (VString (vs_signature stored))) (\<lambda>signature.
     ebind (assertRegistrationContext (oc_getAddress oc) m (expected\<lparr>xr_now := sk_issuedAt m, xr_chainId := Some chainId\<rparr>)) (\<lambda>_.
     ebind (assertFresh (sk_issuedAt m) (sk_expiresAt m) (xr_now expected) REGISTRATION) (\<lambda>_.
     ebind (expectEqual (VNumber (NInt (vs_chainId stored))) (VNumber (NInt chainId)) ''REGISTRATION_CHAIN_ID'') (\<lambda>_.
     ebind (participantSigningKeyRegistrationDigest oc m chainId) (\<lambda>dig.
     ebind (expectEqual (VString (vs_registrationDigest stored)) (VString dig) ''REGISTRATION_CHAIN_DIGEST'') (\<lambda>_.
     ebind (expectEqual (VString (role_name (vs_role stored))) (VString (role_name (sk_role m))) ''REGISTRATION_CHAIN_ROLE'') (\<lambda>_.
     ebind (expectWallet (oc_getAddress oc) (vs_participantWallet stored) (sk_participantWallet m) ''REGISTRATION_CHAIN_WALLET'') (\<lambda>_.
     ebind (expectEqual (VString (vs_participantSigningPublicKey stored)) (VString (sk_participantSigningPublicKey m)) ''REGISTRATION_CHAIN_PUBLIC_KEY'') (\<lambda>_.
     ebind (expectEqual (VString (vs_participantSigningKeyDigest stored)) (VString (sk_participantSigningKeyDigest m)) ''REGISTRATION_CHAIN_KEY_DIGEST'') (\<lambda>_.
     ebind (assertEoaSignature REGISTRATION (sk_participantWallet m) dig signature verifier) (\<lambda>_.
     Inr stored)))))))))))))"

subsection \<open>Phase 1: the encryption intent\<close>

definition assertIntentMatchesBundle :: "ParticipantEncryptionIntentMessage \<Rightarrow> 'a ParticipantOriginatedBundleContext_scheme \<Rightarrow> unit result" where
  "assertIntentMatchesBundle m expected = expect_each [
     (VString (xi_runId m), VString (bc_runId expected), ''INTENT_RUN_MISMATCH''),
     (VString (xi_fheCaseId m), VString (bc_fheCaseId expected), ''INTENT_CASE_MISMATCH''),
     (VString (xi_caseBindingDigest m), VString (bc_caseBindingDigest expected), ''INTENT_CASE_BINDING_MISMATCH''),
     (VString (xi_protectionBindingDigest m), VString (bc_protectionBindingDigest expected), ''INTENT_PROTECTION_BINDING_MISMATCH''),
     (VString (xi_assetIdentityDigest m), VString (bc_assetIdentityDigest expected), ''INTENT_ASSET_MISMATCH''),
     (VString (xi_policyDigest m), VString (bc_policyDigest expected), ''INTENT_POLICY_MISMATCH''),
     (VString (xi_circuitId m), VString (bc_circuitId expected), ''INTENT_CIRCUIT_ID_MISMATCH''),
     (VNumber (NInt (xi_circuitVersion m)), VNumber (NInt (bc_circuitVersion expected)), ''INTENT_CIRCUIT_VERSION_MISMATCH''),
     (VString (xi_circuitDigest m), VString (bc_circuitDigest expected), ''INTENT_CIRCUIT_DIGEST_MISMATCH''),
     (VString (xi_parameterProfile m), VString (bc_parameterProfile expected), ''INTENT_PROFILE_MISMATCH''),
     (VString (xi_parameterFingerprint m), VString (bc_parameterFingerprint expected), ''INTENT_PARAMETER_FINGERPRINT_MISMATCH''),
     (VString (xi_fhePublicKeyDigest m), VString (bc_fhePublicKeyDigest expected), ''INTENT_FHE_KEY_MISMATCH''),
     (VString (xi_releaseAuthorityId m), VString (bc_releaseAuthorityId expected), ''INTENT_RELEASE_AUTHORITY_MISMATCH''),
     (VString (xi_releaseMode m), VString (bc_releaseMode expected), ''INTENT_RELEASE_MODE_MISMATCH''),
     (VString (xi_clientBundleDigest m), VString (bc_clientBundleDigest expected), ''INTENT_BUNDLE_MISMATCH''),
     (VString (xi_clientSourceDigest m), VString (bc_clientSourceDigest expected), ''INTENT_CLIENT_SOURCE_MISMATCH''),
     (VString (xi_clientBuildDigest m), VString (bc_clientBuildDigest expected), ''INTENT_CLIENT_BUILD_MISMATCH''),
     (VString (xi_clientBinaryDigest m), VString (bc_clientBinaryDigest expected), ''INTENT_CLIENT_BINARY_MISMATCH''),
     (VNumber (NInt (xi_bundleExpiresAt m)), VNumber (NInt (bc_bundleExpiresAt expected)), ''INTENT_BUNDLE_EXPIRY_MISMATCH'')]"

definition registration_context :: "ExpectedParticipantEncryptionIntentContext \<Rightarrow> ExpectedParticipantSigningKeyRegistrationContext" where
  "registration_context e = \<lparr>xr_verifyingService = ec_verifyingService e, xr_runId = bc_runId e, xr_fheCaseId = bc_fheCaseId e,
     xr_assetIdentityDigest = bc_assetIdentityDigest e, xr_policyDigest = bc_policyDigest e, xr_role = ec_role e,
     xr_participantWallet = ec_participantWallet e, xr_now = ec_now e, xr_chainId = ec_chainId e\<rparr>"

definition verifyParticipantEncryptionIntent ::
  "originated_crypto \<Rightarrow> jsval \<Rightarrow> ExpectedParticipantEncryptionIntentContext \<Rightarrow> eoa_verifier \<Rightarrow> 's nonce_guard
     \<Rightarrow> ('s, VerifiedParticipantEncryptionIntent) action" where
  "verifyParticipantEncryptionIntent oc v expected verifier guard =
     abind (alift (assertParticipantEncryptionIntentRequest (oc_getAddress oc) v)) (\<lambda>request.
     let m = xq_intent request in
     abind (alift (chainIdFrom (ec_chainId expected))) (\<lambda>chainId.
     abind (alift (assertStoredRegistration oc (ec_registration expected) (registration_context expected) chainId verifier)) (\<lambda>registration.
     abind (alift (expectEqual (VString (xi_verifyingService m)) (VString (ec_verifyingService expected)) ''INTENT_SERVICE_MISMATCH'')) (\<lambda>_.
     abind (alift (assertIntentMatchesBundle m expected)) (\<lambda>_.
     abind (alift (expectEqual (VString (role_name (xi_role m))) (VString (role_name (ec_role expected))) ''INTENT_ROLE_MISMATCH'')) (\<lambda>_.
     abind (alift (expectWallet (oc_getAddress oc) (xi_participantWallet m) (ec_participantWallet expected) ''INTENT_WALLET_MISMATCH'')) (\<lambda>_.
     abind (alift (expectEqual (VString (xi_participantSigningKeyDigest m)) (VString (vs_participantSigningKeyDigest (ec_registration expected)))
       ''INTENT_SIGNING_KEY_MISMATCH'')) (\<lambda>_.
     abind (alift (expectEqual (VString (xi_registrationDigest m)) (VString (vs_registrationDigest registration)) ''INTENT_REGISTRATION_MISMATCH'')) (\<lambda>_.
     abind (alift (check (\<not> (xi_issuedAt m < sk_issuedAt (vs_registration registration) \<or> xi_expiresAt m > sk_expiresAt (vs_registration registration)))
       (originated_error ''INTENT_REGISTRATION_WINDOW'' 409))) (\<lambda>_.
     abind (alift (check (xi_intentNonce m \<noteq> sk_registrationNonce (vs_registration registration)) (originated_error ''INTENT_NONCE_REUSE'' 409))) (\<lambda>_.
     abind (alift (check (\<not> bc_bundleExpiresAt expected \<le> ec_now expected) (originated_error ''INTENT_STALE_BUNDLE'' 409))) (\<lambda>_.
     abind (alift (assertFresh (xi_issuedAt m) (xi_expiresAt m) (ec_now expected) INTENT)) (\<lambda>_.
     abind (alift (participantEncryptionIntentDigest oc m chainId)) (\<lambda>encryptionIntentDigest.
     abind (alift (assertEoaSignature INTENT (xi_participantWallet m) encryptionIntentDigest (xq_signature request) verifier)) (\<lambda>_.
     abind (assertNonceReservation guard \<lparr>nr_phase = INTENT, nr_runId = xi_runId m, nr_role = xi_role m,
       nr_nonce = xi_intentNonce m, nr_authorizationDigest = encryptionIntentDigest\<rparr>) (\<lambda>_.
     alift (Inr \<lparr>vi_schemaVersion = PARTICIPANT_ENCRYPTION_INTENT_SCHEMA, vi_intent = m, vi_encryptionIntentDigest = encryptionIntentDigest,
       vi_signature = xq_signature request, vi_registrationDigest = xi_registrationDigest m, vi_claimCommitment = xi_claimCommitment m,
       vi_role = xi_role m, vi_participantWallet = xi_participantWallet m, vi_participantSigningKeyDigest = xi_participantSigningKeyDigest m,
       vi_chainId = chainId\<rparr>)))))))))))))))))"

subsection \<open>Phase 2: the artifact\<close>

definition assertArtifactMatchesIntentAndBundle ::
  "RecomputedParticipantEncryptedArtifactContext \<Rightarrow> ParticipantEncryptionIntentMessage \<Rightarrow> string
     \<Rightarrow> 'a ParticipantOriginatedBundleContext_scheme \<Rightarrow> int \<Rightarrow> unit result" where
  "assertArtifactMatchesIntentAndBundle artifact intent intentDigest expected now =
     ebind (expect_each [
     (VString (ra_fheCaseId artifact), VString (bc_fheCaseId expected), ''ARTIFACT_CASE_MISMATCH''),
     (VString (ra_caseBindingDigest artifact), VString (bc_caseBindingDigest expected), ''ARTIFACT_CASE_BINDING_MISMATCH''),
     (VString (ra_assetIdentityDigest artifact), VString (bc_assetIdentityDigest expected), ''ARTIFACT_ASSET_MISMATCH''),
     (VString (role_name (ra_role artifact)), VString (role_name (xi_role intent)), ''ARTIFACT_ROLE_MISMATCH''),
     (VString (ra_participantSigningKeyDigest artifact), VString (xi_participantSigningKeyDigest intent), ''ARTIFACT_SIGNING_KEY_MISMATCH''),
     (VString (ra_parameterProfile artifact), VString (bc_parameterProfile expected), ''ARTIFACT_PROFILE_MISMATCH''),
     (VString (ra_parameterFingerprint artifact), VString (bc_parameterFingerprint expected), ''ARTIFACT_PARAMETER_FINGERPRINT_MISMATCH''),
     (VString (ra_fhePublicKeyDigest artifact), VString (bc_fhePublicKeyDigest expected), ''ARTIFACT_FHE_KEY_MISMATCH''),
     (VString (ra_circuitDigest artifact), VString (bc_circuitDigest expected), ''ARTIFACT_CIRCUIT_MISMATCH''),
     (VString (ra_embeddedEncryptionIntentDigest artifact), VString (intentDigest), ''ARTIFACT_INTENT_COMMITMENT_MISMATCH''),
     (VString (ra_embeddedClaimCommitment artifact), VString (xi_claimCommitment intent), ''ARTIFACT_CLAIM_COMMITMENT_MISMATCH'')]) (\<lambda>_.
     ebind (exactPositiveInteger (VNumber (NInt (ra_ciphertextObjectLength artifact))) ''ARTIFACT_CIPHERTEXT_LENGTH''
       PARTICIPANT_ORIGINATED_CIPHERTEXT_MAX_BYTES) (\<lambda>_.
     ebind (nonzero_bytes32 (VString (ra_encryptedArtifactDigest artifact)) ''ARTIFACT_DIGEST'') (\<lambda>_.
     ebind (nonzero_bytes32 (VString (ra_ciphertextObjectDigest artifact)) ''ARTIFACT_CIPHERTEXT_DIGEST'') (\<lambda>_.
     ebind (nonzero_bytes32 (VString (ra_submissionNonce artifact)) ''ARTIFACT_SUBMISSION_NONCE'') (\<lambda>_.
     ebind (check (\<not> (\<not> isSafeInteger (ra_expiresAt artifact) \<or> ra_expiresAt artifact \<le> now)) (originated_error ''ARTIFACT_EXPIRED'' 401)) (\<lambda>_.
     check (\<not> ra_expiresAt artifact > bc_bundleExpiresAt expected) (originated_error ''ARTIFACT_BUNDLE_EXPIRY'' 409)))))))"

text \<open>The context handed to the intent verifier, and the stored intent as a request.\<close>

definition intent_context :: "ExpectedParticipantFinalEncryptedAdmissionContext \<Rightarrow> int \<Rightarrow> ExpectedParticipantEncryptionIntentContext" where
  "intent_context e chainId = ParticipantOriginatedBundleContext.extend (ParticipantOriginatedBundleContext.truncate e)
     (ExpectedParticipantEncryptionIntentContext.fields (fc_verifyingService e) (fc_role e) (fc_participantWallet e) (fc_registration e)
        (fc_now e) (Some chainId))"

definition stored_intent_request :: "VerifiedParticipantEncryptionIntent \<Rightarrow> jsval" where
  "stored_intent_request i = VObject ObjectPrototype [(''schemaVersion'', VString (vi_schemaVersion i)),
     (''intent'', intent_value (vi_intent i)), (''signature'', VString (vi_signature i))]"

definition assert_final_message ::
  "(string \<Rightarrow> string option) \<Rightarrow> ParticipantFinalEncryptedAdmissionMessage \<Rightarrow> VerifiedParticipantEncryptionIntent
     \<Rightarrow> ExpectedParticipantFinalEncryptedAdmissionContext \<Rightarrow> unit result" where
  "assert_final_message getAddress m intent expected =
     ebind (expect_each [
     (VString (fa_verifyingService m), VString (fc_verifyingService expected), ''FINAL_ADMISSION_SERVICE_MISMATCH''),
     (VString (fa_runId m), VString (bc_runId expected), ''FINAL_ADMISSION_RUN_MISMATCH''),
     (VString (fa_fheCaseId m), VString (bc_fheCaseId expected), ''FINAL_ADMISSION_CASE_MISMATCH''),
     (VString (role_name (fa_role m)), VString (role_name (fc_role expected)), ''FINAL_ADMISSION_ROLE_MISMATCH''),
     (VString (fa_participantSigningKeyDigest m), VString (vs_participantSigningKeyDigest (fc_registration expected)), ''FINAL_ADMISSION_SIGNING_KEY_MISMATCH''),
     (VString (fa_registrationDigest m), VString (vs_registrationDigest (fc_registration expected)), ''FINAL_ADMISSION_REGISTRATION_MISMATCH''),
     (VString (fa_clientBundleDigest m), VString (bc_clientBundleDigest expected), ''FINAL_ADMISSION_BUNDLE_MISMATCH''),
     (VString (fa_encryptionIntentDigest m), VString (vi_encryptionIntentDigest intent), ''FINAL_ADMISSION_INTENT_MISMATCH''),
     (VString (fa_claimCommitment m), VString (vi_claimCommitment intent), ''FINAL_ADMISSION_CLAIM_COMMITMENT_MISMATCH''),
     (VString (fa_encryptedArtifactDigest m), VString (ra_encryptedArtifactDigest (fc_artifact expected)), ''FINAL_ADMISSION_ARTIFACT_DIGEST_MISMATCH''),
     (VString (fa_ciphertextObjectDigest m), VString (ra_ciphertextObjectDigest (fc_artifact expected)), ''FINAL_ADMISSION_CIPHERTEXT_DIGEST_MISMATCH''),
     (VNumber (NInt (fa_ciphertextObjectLength m)), VNumber (NInt (ra_ciphertextObjectLength (fc_artifact expected))), ''FINAL_ADMISSION_CIPHERTEXT_LENGTH_MISMATCH''),
     (VString (fa_submissionNonce m), VString (ra_submissionNonce (fc_artifact expected)), ''FINAL_ADMISSION_SUBMISSION_NONCE_MISMATCH'')]) (\<lambda>_.
     ebind (expectWallet getAddress (fa_participantWallet m) (fc_participantWallet expected) ''FINAL_ADMISSION_WALLET_MISMATCH'') (\<lambda>_.
     ebind (check (\<not> (fa_submissionNonce m = xi_intentNonce (vi_intent intent)
         \<or> fa_submissionNonce m = sk_registrationNonce (vs_registration (fc_registration expected)))) (originated_error ''FINAL_ADMISSION_NONCE_REUSE'' 409)) (\<lambda>_.
     ebind (check (\<not> (fa_issuedAt m < xi_issuedAt (vi_intent intent) \<or> fa_issuedAt m > xi_expiresAt (vi_intent intent)))
       (originated_error ''FINAL_ADMISSION_INTENT_WINDOW'' 409)) (\<lambda>_.
     ebind (check (\<not> (fa_expiresAt m > xi_expiresAt (vi_intent intent) \<or> fa_expiresAt m > ra_expiresAt (fc_artifact expected)
         \<or> fa_expiresAt m > bc_bundleExpiresAt expected)) (originated_error ''FINAL_ADMISSION_EXPIRY_RELATIONSHIP'' 409)) (\<lambda>_.
     assertFresh (fa_issuedAt m) (fa_expiresAt m) (fc_now expected) FINAL_ADMISSION)))))"

definition verifyParticipantFinalEncryptedAdmission ::
  "originated_crypto \<Rightarrow> jsval \<Rightarrow> ExpectedParticipantFinalEncryptedAdmissionContext \<Rightarrow> eoa_verifier \<Rightarrow> 's nonce_guard
     \<Rightarrow> ('s, VerifiedParticipantFinalEncryptedAdmission) action" where
  "verifyParticipantFinalEncryptedAdmission oc v expected verifier guard =
     abind (alift (assertParticipantFinalEncryptedAdmissionRequest (oc_getAddress oc) v)) (\<lambda>request.
     let m = fq_admission request in
     abind (alift (chainIdFrom (fc_chainId expected))) (\<lambda>chainId.
     abind (verifyParticipantEncryptionIntent oc (stored_intent_request (fc_intent expected)) (intent_context expected chainId) verifier None) (\<lambda>intent.
     abind (alift (expectEqual (VString (vi_encryptionIntentDigest (fc_intent expected))) (VString (vi_encryptionIntentDigest intent))
       ''FINAL_ADMISSION_STORED_INTENT_DIGEST'')) (\<lambda>_.
     abind (alift (expectEqual (VNumber (NInt (vi_chainId (fc_intent expected)))) (VNumber (NInt chainId)) ''FINAL_ADMISSION_INTENT_CHAIN'')) (\<lambda>_.
     abind (alift (assertArtifactMatchesIntentAndBundle (fc_artifact expected) (vi_intent intent) (vi_encryptionIntentDigest intent) expected (fc_now expected))) (\<lambda>_.
     abind (alift (assert_final_message (oc_getAddress oc) m intent expected)) (\<lambda>_.
     abind (alift (participantFinalEncryptedAdmissionDigest oc m chainId)) (\<lambda>finalAdmissionDigest.
     abind (alift (assertEoaSignature FINAL_ADMISSION (fa_participantWallet m) finalAdmissionDigest (fq_signature request) verifier)) (\<lambda>_.
     abind (assertNonceReservation guard \<lparr>nr_phase = FINAL_ADMISSION, nr_runId = fa_runId m, nr_role = fa_role m,
       nr_nonce = fa_submissionNonce m, nr_authorizationDigest = finalAdmissionDigest\<rparr>) (\<lambda>_.
     alift (Inr \<lparr>vf_schemaVersion = PARTICIPANT_FINAL_ENCRYPTED_ADMISSION_SCHEMA, vf_admission = m, vf_finalAdmissionDigest = finalAdmissionDigest,
       vf_signature = fq_signature request, vf_encryptionIntentDigest = fa_encryptionIntentDigest m,
       vf_encryptedArtifactDigest = fa_encryptedArtifactDigest m, vf_ciphertextObjectDigest = fa_ciphertextObjectDigest m,
       vf_submissionNonce = fa_submissionNonce m, vf_role = fa_role m, vf_participantWallet = fa_participantWallet m,
       vf_chainId = chainId\<rparr>)))))))))))"

end
