(* ===== verification/Originated_Chain.thy ===== *)
theory Originated_Chain
  imports Originated_Authorization
begin

text \<open>
  What the three phases of the participant-originated authorization guarantee: the chain from a registered key through an
  encryption intent to an encrypted artifact, its lifetime, the separation of the phases, the use of nonces and the
  hiding commitment.
\<close>

subsection \<open>Readers and checks\<close>

lemma string_matching_ok [result_simps]: "string_matching P v code = Inr s \<longleftrightarrow> v = VString s \<and> P s"
  by (auto simp: string_matching_def split: jsval.splits)

lemmas reader_defs = exactText_def exactRunId_def nonzero_bytes32_def exactBytes32AllowZero_def exactSignature_def

lemma exactWallet_ok [result_simps]:
  "exactWallet ga v code = Inr w \<longleftrightarrow> (\<exists>s. v = VString s \<and> fixed_regex ADDRESS_ANY s \<and> ga s = Some w)"
  by (auto simp: exactWallet_def result_simps)

lemma exactRole_ok [result_simps]: "exactRole v code = Inr r \<longleftrightarrow> v = VString (role_name r)"
  by (auto simp: exactRole_def result_simps isParticipantRole_iff)

lemma exactPositiveInteger_ok [result_simps]:
  "exactPositiveInteger v code mx = Inr i \<longleftrightarrow> v = VNumber (NInt i) \<and> isSafeInteger i \<and> 0 < i \<and> i \<le> mx"
  by (auto simp: exactPositiveInteger_def split: jsval.splits jsnum.splits)

lemma exactNonNegativeInteger_ok [result_simps]:
  "exactNonNegativeInteger v code = Inr i \<longleftrightarrow> v = VNumber (NInt i) \<and> isSafeInteger i \<and> 0 \<le> i"
  by (auto simp: exactNonNegativeInteger_def split: jsval.splits jsnum.splits)

lemma assertAuthorizationWindow_ok [result_simps]:
  "assertAuthorizationWindow i x = Inr u \<longleftrightarrow> i < x \<and> x \<le> i + PARTICIPANT_ORIGINATED_AUTHORIZATION_MAX_LIFETIME_SECONDS"
  by (auto simp: assertAuthorizationWindow_def result_simps)

lemma assertFresh_ok [result_simps]:
  "assertFresh i x now phase = Inr u \<longleftrightarrow> isSafeInteger now \<and> 0 < now \<and> now < x
     \<and> i \<le> now + PARTICIPANT_ORIGINATED_AUTHORIZATION_CLOCK_SKEW_SECONDS"
  by (auto simp: assertFresh_def result_simps)

lemma expectEqual_ok [result_simps]: "expectEqual a b code = Inr u \<longleftrightarrow> a = b"
  by (simp add: expectEqual_def result_simps)

lemma expectWallet_ok [result_simps]: "expectWallet ga a b code = Inr u \<longleftrightarrow> sameWallet ga a b"
  by (simp add: expectWallet_def result_simps)

lemma expect_each_ok [result_simps]: "expect_each xs = Inr u \<longleftrightarrow> list_all (\<lambda>(a, b, c). a = b) xs"
  by (induction xs rule: expect_each.induct) (auto simp: result_simps)

lemma sameWallet_iff: "sameWallet ga a b \<longleftrightarrow> (\<exists>w. ga a = Some w \<and> ga b = Some w)"
  by (auto simp: sameWallet_def split: option.splits)

lemma sameWallet_trans: "sameWallet ga a b \<Longrightarrow> sameWallet ga b c \<Longrightarrow> sameWallet ga a c"
  and sameWallet_sym: "sameWallet ga a b \<Longrightarrow> sameWallet ga b a"
  by (auto simp: sameWallet_iff)

lemma chainIdFrom_ok [result_simps]:
  "chainIdFrom v = Inr c \<longleftrightarrow> c = (case v of None \<Rightarrow> PARTICIPANT_ORIGINATED_CHAIN_ID | Some c \<Rightarrow> c) \<and> isSafeInteger c \<and> 0 < c"
  by (auto simp: chainIdFrom_def Let_def result_simps)

lemma assertEoaSignature_ok [result_simps]:
  "assertEoaSignature phase address dig signature verifier = Inr u \<longleftrightarrow>
     verifier \<lparr>vn_phase = phase, vn_address = address, vn_digest = dig, vn_signature = signature\<rparr> = Inr True"
  by (auto simp: assertEoaSignature_def result_simps split: sum.splits)

lemma assertNonceReservation_ok [result_simps]:
  "assertNonceReservation guard r s = (s', Inr u) \<longleftrightarrow> (case guard of None \<Rightarrow> s' = s | Some g \<Rightarrow> g r s = (s', Inr True))"
  by (auto simp: assertNonceReservation_def result_simps split: option.splits prod.splits sum.splits)

lemma plain_exactKeys_members: "map fst kvs = ks \<Longrightarrow> plain_exactKeys (VObject ObjectPrototype kvs) ks"
  by auto

subsection \<open>Typed data\<close>

lemma originated_domain_ok [result_simps]:
  "originated_domain name salt c = Inr td \<longleftrightarrow> isSafeInteger c \<and> 0 < c
     \<and> td = \<lparr>td_name = name, td_version = PARTICIPANT_ORIGINATED_DOMAIN_VERSION, td_chainId = c, td_salt = salt,
          td_types = [], td_primaryType = [], td_message = []\<rparr>"
  by (auto simp: originated_domain_def result_simps)

lemmas originated_domain_defs = participantSigningKeyRegistrationDomain_def participantEncryptionIntentDomain_def
  participantFinalEncryptedAdmissionDomain_def

lemmas originated_typed_data_defs = originated_domain_defs participantSigningKeyRegistrationTypedData_def
  participantEncryptionIntentTypedData_def participantFinalEncryptedAdmissionTypedData_def

lemma registration_typed_data_inj:
  "participantSigningKeyRegistrationTypedData k m c = Inr td \<Longrightarrow> participantSigningKeyRegistrationTypedData k m' c' = Inr td \<Longrightarrow> m = m' \<and> c = c'"
  by (cases m; cases m') (auto simp: originated_typed_data_defs result_simps)

lemma intent_typed_data_inj:
  "participantEncryptionIntentTypedData k m c = Inr td \<Longrightarrow> participantEncryptionIntentTypedData k m' c' = Inr td \<Longrightarrow> m = m' \<and> c = c'"
  by (cases m; cases m') (auto simp: originated_typed_data_defs result_simps)

lemma admission_typed_data_inj:
  "participantFinalEncryptedAdmissionTypedData k m c = Inr td \<Longrightarrow> participantFinalEncryptedAdmissionTypedData k m' c' = Inr td \<Longrightarrow> m = m' \<and> c = c'"
  by (cases m; cases m') (auto simp: originated_typed_data_defs result_simps)

lemma typed_data_primary:
  "participantSigningKeyRegistrationTypedData k m c = Inr td \<Longrightarrow> td_primaryType td = PARTICIPANT_SIGNING_KEY_REGISTRATION_PRIMARY_TYPE"
  "participantEncryptionIntentTypedData k i c = Inr td \<Longrightarrow> td_primaryType td = PARTICIPANT_ENCRYPTION_INTENT_PRIMARY_TYPE"
  "participantFinalEncryptedAdmissionTypedData k f c = Inr td \<Longrightarrow> td_primaryType td = PARTICIPANT_FINAL_ENCRYPTED_ADMISSION_PRIMARY_TYPE"
  by (auto simp: originated_typed_data_defs result_simps)

subsection \<open>What the parsers accept\<close>

definition digest32 :: "string \<Rightarrow> bool" where
  "digest32 s \<longleftrightarrow> fixed_regex BYTES32_LOWER s \<and> s \<noteq> zero_bytes32"

definition registration_wf :: "(string \<Rightarrow> string) \<Rightarrow> ParticipantSigningKeyRegistrationMessage \<Rightarrow> bool" where
  "registration_wf sha m \<longleftrightarrow> bounded_text (sk_verifyingService m)
     \<and> fixed_regex UUID_PATTERN (sk_runId m)
     \<and> digest32 (sk_fheCaseId m)
     \<and> digest32 (sk_assetIdentityDigest m)
     \<and> digest32 (sk_policyDigest m)
     \<and> digest32 (sk_participantSigningPublicKey m)
     \<and> digest32 (sk_participantSigningKeyDigest m)
     \<and> digest32 (sk_registrationNonce m)
     \<and> isSafeInteger (sk_issuedAt m) \<and> 0 < sk_issuedAt m \<and> sk_issuedAt m \<le> MAX_SAFE_INTEGER
     \<and> isSafeInteger (sk_expiresAt m) \<and> 0 < sk_expiresAt m \<and> sk_expiresAt m \<le> MAX_SAFE_INTEGER
     \<and> sk_issuedAt m < sk_expiresAt m \<and> sk_expiresAt m \<le> sk_issuedAt m + PARTICIPANT_ORIGINATED_AUTHORIZATION_MAX_LIFETIME_SECONDS
     \<and> sk_participantSigningKeyDigest m = sha256ExactBytes sha (hex_bytes (drop 2 (sk_participantSigningPublicKey m)))"

definition intent_wf :: "ParticipantEncryptionIntentMessage \<Rightarrow> bool" where
  "intent_wf m \<longleftrightarrow> bounded_text (xi_verifyingService m)
     \<and> fixed_regex UUID_PATTERN (xi_runId m)
     \<and> digest32 (xi_fheCaseId m)
     \<and> digest32 (xi_caseBindingDigest m)
     \<and> digest32 (xi_protectionBindingDigest m)
     \<and> digest32 (xi_assetIdentityDigest m)
     \<and> digest32 (xi_policyDigest m)
     \<and> bounded_text (xi_circuitId m)
     \<and> isSafeInteger (xi_circuitVersion m) \<and> 0 < xi_circuitVersion m \<and> xi_circuitVersion m \<le> 0xffffffff
     \<and> digest32 (xi_circuitDigest m)
     \<and> bounded_text (xi_parameterProfile m)
     \<and> digest32 (xi_parameterFingerprint m)
     \<and> digest32 (xi_fhePublicKeyDigest m)
     \<and> digest32 (xi_releaseAuthorityId m)
     \<and> bounded_text (xi_releaseMode m)
     \<and> digest32 (xi_participantSigningKeyDigest m)
     \<and> digest32 (xi_registrationDigest m)
     \<and> digest32 (xi_claimCommitment m)
     \<and> digest32 (xi_clientBundleDigest m)
     \<and> digest32 (xi_clientSourceDigest m)
     \<and> digest32 (xi_clientBuildDigest m)
     \<and> digest32 (xi_clientBinaryDigest m)
     \<and> isSafeInteger (xi_bundleExpiresAt m) \<and> 0 < xi_bundleExpiresAt m \<and> xi_bundleExpiresAt m \<le> MAX_SAFE_INTEGER
     \<and> digest32 (xi_intentNonce m)
     \<and> isSafeInteger (xi_issuedAt m) \<and> 0 < xi_issuedAt m \<and> xi_issuedAt m \<le> MAX_SAFE_INTEGER
     \<and> isSafeInteger (xi_expiresAt m) \<and> 0 < xi_expiresAt m \<and> xi_expiresAt m \<le> MAX_SAFE_INTEGER
     \<and> xi_issuedAt m < xi_expiresAt m \<and> xi_expiresAt m \<le> xi_issuedAt m + PARTICIPANT_ORIGINATED_AUTHORIZATION_MAX_LIFETIME_SECONDS
     \<and> xi_expiresAt m \<le> xi_bundleExpiresAt m"

definition admission_wf :: "ParticipantFinalEncryptedAdmissionMessage \<Rightarrow> bool" where
  "admission_wf m \<longleftrightarrow> bounded_text (fa_verifyingService m)
     \<and> fixed_regex UUID_PATTERN (fa_runId m)
     \<and> digest32 (fa_fheCaseId m)
     \<and> digest32 (fa_participantSigningKeyDigest m)
     \<and> digest32 (fa_registrationDigest m)
     \<and> digest32 (fa_clientBundleDigest m)
     \<and> digest32 (fa_encryptionIntentDigest m)
     \<and> digest32 (fa_claimCommitment m)
     \<and> digest32 (fa_encryptedArtifactDigest m)
     \<and> digest32 (fa_ciphertextObjectDigest m)
     \<and> isSafeInteger (fa_ciphertextObjectLength m) \<and> 0 < fa_ciphertextObjectLength m \<and> fa_ciphertextObjectLength m \<le> PARTICIPANT_ORIGINATED_CIPHERTEXT_MAX_BYTES
     \<and> digest32 (fa_submissionNonce m)
     \<and> isSafeInteger (fa_issuedAt m) \<and> 0 < fa_issuedAt m \<and> fa_issuedAt m \<le> MAX_SAFE_INTEGER
     \<and> isSafeInteger (fa_expiresAt m) \<and> 0 < fa_expiresAt m \<and> fa_expiresAt m \<le> MAX_SAFE_INTEGER
     \<and> fa_issuedAt m < fa_expiresAt m \<and> fa_expiresAt m \<le> fa_issuedAt m + PARTICIPANT_ORIGINATED_AUTHORIZATION_MAX_LIFETIME_SECONDS"

text \<open>A message that the code parses again is the plain object of a typed message: it parses exactly when it is well formed,
  and only its wallet can change, to the checksummed form.\<close>

lemma registration_keys: "plain_exactKeys (registration_value m) (map fst PARTICIPANT_SIGNING_KEY_REGISTRATION_TYPES)"
  unfolding registration_value_def by (rule plain_exactKeys_members) (simp add: PARTICIPANT_SIGNING_KEY_REGISTRATION_TYPES_def)

lemma intent_keys: "plain_exactKeys (intent_value m) (map fst PARTICIPANT_ENCRYPTION_INTENT_TYPES)"
  unfolding intent_value_def by (rule plain_exactKeys_members) (simp add: PARTICIPANT_ENCRYPTION_INTENT_TYPES_def)

lemma admission_keys: "plain_exactKeys (admission_value m) (map fst PARTICIPANT_FINAL_ENCRYPTED_ADMISSION_TYPES)"
  unfolding admission_value_def by (rule plain_exactKeys_members) (simp add: PARTICIPANT_FINAL_ENCRYPTED_ADMISSION_TYPES_def)

lemma registration_members:
  "js_member (registration_value m) ''verifyingService'' = VString (sk_verifyingService m)"
  "js_member (registration_value m) ''runId'' = VString (sk_runId m)"
  "js_member (registration_value m) ''fheCaseId'' = VString (sk_fheCaseId m)"
  "js_member (registration_value m) ''assetIdentityDigest'' = VString (sk_assetIdentityDigest m)"
  "js_member (registration_value m) ''policyDigest'' = VString (sk_policyDigest m)"
  "js_member (registration_value m) ''role'' = VString (role_name (sk_role m))"
  "js_member (registration_value m) ''participantWallet'' = VString (sk_participantWallet m)"
  "js_member (registration_value m) ''participantSigningPublicKey'' = VString (sk_participantSigningPublicKey m)"
  "js_member (registration_value m) ''participantSigningKeyDigest'' = VString (sk_participantSigningKeyDigest m)"
  "js_member (registration_value m) ''registrationNonce'' = VString (sk_registrationNonce m)"
  "js_member (registration_value m) ''issuedAt'' = VNumber (NInt (sk_issuedAt m))"
  "js_member (registration_value m) ''expiresAt'' = VNumber (NInt (sk_expiresAt m))"
  by (simp_all add: registration_value_def)

lemma intent_members:
  "js_member (intent_value m) ''verifyingService'' = VString (xi_verifyingService m)"
  "js_member (intent_value m) ''runId'' = VString (xi_runId m)"
  "js_member (intent_value m) ''fheCaseId'' = VString (xi_fheCaseId m)"
  "js_member (intent_value m) ''caseBindingDigest'' = VString (xi_caseBindingDigest m)"
  "js_member (intent_value m) ''protectionBindingDigest'' = VString (xi_protectionBindingDigest m)"
  "js_member (intent_value m) ''assetIdentityDigest'' = VString (xi_assetIdentityDigest m)"
  "js_member (intent_value m) ''policyDigest'' = VString (xi_policyDigest m)"
  "js_member (intent_value m) ''circuitId'' = VString (xi_circuitId m)"
  "js_member (intent_value m) ''circuitVersion'' = VNumber (NInt (xi_circuitVersion m))"
  "js_member (intent_value m) ''circuitDigest'' = VString (xi_circuitDigest m)"
  "js_member (intent_value m) ''parameterProfile'' = VString (xi_parameterProfile m)"
  "js_member (intent_value m) ''parameterFingerprint'' = VString (xi_parameterFingerprint m)"
  "js_member (intent_value m) ''fhePublicKeyDigest'' = VString (xi_fhePublicKeyDigest m)"
  "js_member (intent_value m) ''releaseAuthorityId'' = VString (xi_releaseAuthorityId m)"
  "js_member (intent_value m) ''releaseMode'' = VString (xi_releaseMode m)"
  "js_member (intent_value m) ''role'' = VString (role_name (xi_role m))"
  "js_member (intent_value m) ''participantWallet'' = VString (xi_participantWallet m)"
  "js_member (intent_value m) ''participantSigningKeyDigest'' = VString (xi_participantSigningKeyDigest m)"
  "js_member (intent_value m) ''registrationDigest'' = VString (xi_registrationDigest m)"
  "js_member (intent_value m) ''claimCommitment'' = VString (xi_claimCommitment m)"
  "js_member (intent_value m) ''clientBundleDigest'' = VString (xi_clientBundleDigest m)"
  "js_member (intent_value m) ''clientSourceDigest'' = VString (xi_clientSourceDigest m)"
  "js_member (intent_value m) ''clientBuildDigest'' = VString (xi_clientBuildDigest m)"
  "js_member (intent_value m) ''clientBinaryDigest'' = VString (xi_clientBinaryDigest m)"
  "js_member (intent_value m) ''bundleExpiresAt'' = VNumber (NInt (xi_bundleExpiresAt m))"
  "js_member (intent_value m) ''intentNonce'' = VString (xi_intentNonce m)"
  "js_member (intent_value m) ''issuedAt'' = VNumber (NInt (xi_issuedAt m))"
  "js_member (intent_value m) ''expiresAt'' = VNumber (NInt (xi_expiresAt m))"
  by (simp_all add: intent_value_def)

lemma admission_members:
  "js_member (admission_value m) ''verifyingService'' = VString (fa_verifyingService m)"
  "js_member (admission_value m) ''runId'' = VString (fa_runId m)"
  "js_member (admission_value m) ''fheCaseId'' = VString (fa_fheCaseId m)"
  "js_member (admission_value m) ''role'' = VString (role_name (fa_role m))"
  "js_member (admission_value m) ''participantWallet'' = VString (fa_participantWallet m)"
  "js_member (admission_value m) ''participantSigningKeyDigest'' = VString (fa_participantSigningKeyDigest m)"
  "js_member (admission_value m) ''registrationDigest'' = VString (fa_registrationDigest m)"
  "js_member (admission_value m) ''clientBundleDigest'' = VString (fa_clientBundleDigest m)"
  "js_member (admission_value m) ''encryptionIntentDigest'' = VString (fa_encryptionIntentDigest m)"
  "js_member (admission_value m) ''claimCommitment'' = VString (fa_claimCommitment m)"
  "js_member (admission_value m) ''encryptedArtifactDigest'' = VString (fa_encryptedArtifactDigest m)"
  "js_member (admission_value m) ''ciphertextObjectDigest'' = VString (fa_ciphertextObjectDigest m)"
  "js_member (admission_value m) ''ciphertextObjectLength'' = VNumber (NInt (fa_ciphertextObjectLength m))"
  "js_member (admission_value m) ''submissionNonce'' = VString (fa_submissionNonce m)"
  "js_member (admission_value m) ''issuedAt'' = VNumber (NInt (fa_issuedAt m))"
  "js_member (admission_value m) ''expiresAt'' = VNumber (NInt (fa_expiresAt m))"
  by (simp_all add: admission_value_def)

lemma registration_parse_value:
  "assertParticipantSigningKeyRegistrationMessage sha ga (registration_value m) = Inr m' \<longleftrightarrow>
     registration_wf sha m \<and> fixed_regex ADDRESS_ANY (sk_participantWallet m)
     \<and> (\<exists>w. ga (sk_participantWallet m) = Some w \<and> m' = m\<lparr>sk_participantWallet := w\<rparr>)"
proof -
  have update: "m\<lparr>sk_participantWallet := w\<rparr> = \<lparr>sk_verifyingService = sk_verifyingService m, sk_runId = sk_runId m, sk_fheCaseId = sk_fheCaseId m,
       sk_assetIdentityDigest = sk_assetIdentityDigest m, sk_policyDigest = sk_policyDigest m, sk_role = sk_role m,
       sk_participantWallet = w, sk_participantSigningPublicKey = sk_participantSigningPublicKey m,
       sk_participantSigningKeyDigest = sk_participantSigningKeyDigest m,
       sk_registrationNonce = sk_registrationNonce m, sk_issuedAt = sk_issuedAt m, sk_expiresAt = sk_expiresAt m\<rparr>" for w by (cases m) simp
  show ?thesis
    unfolding update assertParticipantSigningKeyRegistrationMessage_def ebind_eq_Inr check_eq_Inr registration_members reader_defs string_matching_ok exactWallet_ok exactRole_ok
      exactPositiveInteger_ok assertAuthorizationWindow_ok participantSigningPublicKeyDigest_def
    using registration_keys [of m] by (auto simp: registration_wf_def digest32_def)
qed

lemma intent_parse_value:
  "assertParticipantEncryptionIntentMessage ga (intent_value m) = Inr m' \<longleftrightarrow>
     intent_wf m \<and> fixed_regex ADDRESS_ANY (xi_participantWallet m)
     \<and> (\<exists>w. ga (xi_participantWallet m) = Some w \<and> m' = m\<lparr>xi_participantWallet := w\<rparr>)"
proof -
  have update: "m\<lparr>xi_participantWallet := w\<rparr> = \<lparr>xi_verifyingService = xi_verifyingService m, xi_runId = xi_runId m, xi_fheCaseId = xi_fheCaseId m,
       xi_caseBindingDigest = xi_caseBindingDigest m, xi_protectionBindingDigest = xi_protectionBindingDigest m,
       xi_assetIdentityDigest = xi_assetIdentityDigest m, xi_policyDigest = xi_policyDigest m,
       xi_circuitId = xi_circuitId m, xi_circuitVersion = xi_circuitVersion m, xi_circuitDigest = xi_circuitDigest m,
       xi_parameterProfile = xi_parameterProfile m, xi_parameterFingerprint = xi_parameterFingerprint m,
       xi_fhePublicKeyDigest = xi_fhePublicKeyDigest m, xi_releaseAuthorityId = xi_releaseAuthorityId m,
       xi_releaseMode = xi_releaseMode m, xi_role = xi_role m, xi_participantWallet = w,
       xi_participantSigningKeyDigest = xi_participantSigningKeyDigest m,
       xi_registrationDigest = xi_registrationDigest m, xi_claimCommitment = xi_claimCommitment m,
       xi_clientBundleDigest = xi_clientBundleDigest m, xi_clientSourceDigest = xi_clientSourceDigest m,
       xi_clientBuildDigest = xi_clientBuildDigest m, xi_clientBinaryDigest = xi_clientBinaryDigest m,
       xi_bundleExpiresAt = xi_bundleExpiresAt m, xi_intentNonce = xi_intentNonce m, xi_issuedAt = xi_issuedAt m,
       xi_expiresAt = xi_expiresAt m\<rparr>" for w by (cases m) simp
  show ?thesis
    unfolding update assertParticipantEncryptionIntentMessage_def ebind_eq_Inr check_eq_Inr intent_members reader_defs string_matching_ok exactWallet_ok exactRole_ok
      exactPositiveInteger_ok assertAuthorizationWindow_ok 
    using intent_keys [of m] by (auto simp: intent_wf_def digest32_def)
qed

lemma admission_parse_value:
  "assertParticipantFinalEncryptedAdmissionMessage ga (admission_value m) = Inr m' \<longleftrightarrow>
     admission_wf m \<and> fixed_regex ADDRESS_ANY (fa_participantWallet m)
     \<and> (\<exists>w. ga (fa_participantWallet m) = Some w \<and> m' = m\<lparr>fa_participantWallet := w\<rparr>)"
proof -
  have update: "m\<lparr>fa_participantWallet := w\<rparr> = \<lparr>fa_verifyingService = fa_verifyingService m, fa_runId = fa_runId m, fa_fheCaseId = fa_fheCaseId m,
       fa_role = fa_role m, fa_participantWallet = w,
       fa_participantSigningKeyDigest = fa_participantSigningKeyDigest m,
       fa_registrationDigest = fa_registrationDigest m, fa_clientBundleDigest = fa_clientBundleDigest m,
       fa_encryptionIntentDigest = fa_encryptionIntentDigest m, fa_claimCommitment = fa_claimCommitment m,
       fa_encryptedArtifactDigest = fa_encryptedArtifactDigest m,
       fa_ciphertextObjectDigest = fa_ciphertextObjectDigest m,
       fa_ciphertextObjectLength = fa_ciphertextObjectLength m, fa_submissionNonce = fa_submissionNonce m,
       fa_issuedAt = fa_issuedAt m, fa_expiresAt = fa_expiresAt m\<rparr>" for w by (cases m) simp
  show ?thesis
    unfolding update assertParticipantFinalEncryptedAdmissionMessage_def ebind_eq_Inr check_eq_Inr admission_members reader_defs string_matching_ok exactWallet_ok exactRole_ok
      exactPositiveInteger_ok assertAuthorizationWindow_ok 
    using admission_keys [of m] by (auto simp: admission_wf_def digest32_def)
qed

lemma registration_parse_wf: "assertParticipantSigningKeyRegistrationMessage sha ga v = Inr m \<Longrightarrow> registration_wf sha m"
  unfolding assertParticipantSigningKeyRegistrationMessage_def ebind_eq_Inr check_eq_Inr reader_defs string_matching_ok exactWallet_ok exactRole_ok
      exactPositiveInteger_ok assertAuthorizationWindow_ok not_less participantSigningPublicKeyDigest_def
  by clarify (simp (no_asm) only: registration_wf_def digest32_def ParticipantSigningKeyRegistrationMessage.select_convs)

lemma intent_parse_wf: "assertParticipantEncryptionIntentMessage ga v = Inr m \<Longrightarrow> intent_wf m"
  unfolding assertParticipantEncryptionIntentMessage_def ebind_eq_Inr check_eq_Inr reader_defs string_matching_ok exactWallet_ok exactRole_ok
      exactPositiveInteger_ok assertAuthorizationWindow_ok not_less
  by clarify (simp (no_asm) only: intent_wf_def digest32_def ParticipantEncryptionIntentMessage.select_convs)

lemma admission_parse_wf: "assertParticipantFinalEncryptedAdmissionMessage ga v = Inr m \<Longrightarrow> admission_wf m"
  unfolding assertParticipantFinalEncryptedAdmissionMessage_def ebind_eq_Inr check_eq_Inr reader_defs string_matching_ok exactWallet_ok exactRole_ok
      exactPositiveInteger_ok assertAuthorizationWindow_ok not_less
  by clarify (simp (no_asm) only: admission_wf_def digest32_def ParticipantFinalEncryptedAdmissionMessage.select_convs)

subsection \<open>The three verifiers\<close>

definition signed_by :: "originated_crypto \<Rightarrow> string \<Rightarrow> string \<Rightarrow> string \<Rightarrow> bool" where
  "signed_by oc dig signature wallet \<longleftrightarrow> (\<exists>r. oc_recoverAddress oc dig signature = Inr r \<and> sameWallet (oc_getAddress oc) r wallet)"

lemma default_verifier [result_simps]:
  "verifyParticipantOriginatedEoaSignature oc \<lparr>vn_phase = p, vn_address = a, vn_digest = d, vn_signature = g\<rparr> = Inr True \<longleftrightarrow> signed_by oc d g a"
  by (auto simp: verifyParticipantOriginatedEoaSignature_def signed_by_def split: sum.splits)

lemma signed_by_same: "signed_by oc d g a \<Longrightarrow> sameWallet (oc_getAddress oc) a b \<Longrightarrow> signed_by oc d g b"
  by (auto simp: signed_by_def intro: sameWallet_trans)

text \<open>The facts of a stored registration that passes again.\<close>

definition registration_stands ::
  "originated_crypto \<Rightarrow> VerifiedParticipantSigningKeyRegistration \<Rightarrow> ExpectedParticipantSigningKeyRegistrationContext \<Rightarrow> int
     \<Rightarrow> ParticipantSigningKeyRegistrationMessage \<Rightarrow> bool" where
  "registration_stands oc st ex c m \<longleftrightarrow>
     registration_wf (oc_sha oc) m \<and> (\<exists>w. m = (vs_registration st)\<lparr>sk_participantWallet := w\<rparr>)
     \<and> sk_verifyingService m = xr_verifyingService ex \<and> sk_runId m = xr_runId ex \<and> sk_fheCaseId m = xr_fheCaseId ex
     \<and> sk_assetIdentityDigest m = xr_assetIdentityDigest ex \<and> sk_policyDigest m = xr_policyDigest ex \<and> sk_role m = xr_role ex
     \<and> xr_now ex < sk_expiresAt m \<and> sk_issuedAt m \<le> xr_now ex + PARTICIPANT_ORIGINATED_AUTHORIZATION_CLOCK_SKEW_SECONDS
     \<and> participantSigningKeyRegistrationDigest oc m c = Inr (vs_registrationDigest st)
     \<and> vs_participantSigningKeyDigest st = sk_participantSigningKeyDigest m
     \<and> signed_by oc (vs_registrationDigest st) (vs_signature st) (xr_participantWallet ex)"

lemma stored_registration_stands:
  assumes "assertStoredRegistration oc st ex c (verifyParticipantOriginatedEoaSignature oc) = Inr st'"
  shows "st' = st \<and> (\<exists>m. registration_stands oc st ex c m)"
proof -
  from assms obtain m where parsed: "assertParticipantSigningKeyRegistrationMessage (oc_sha oc) (oc_getAddress oc) (registration_value (vs_registration st)) = Inr m"
    and rest: "st' = st" "sk_verifyingService m = xr_verifyingService ex" "sk_runId m = xr_runId ex" "sk_fheCaseId m = xr_fheCaseId ex"
      "sk_assetIdentityDigest m = xr_assetIdentityDigest ex" "sk_policyDigest m = xr_policyDigest ex" "sk_role m = xr_role ex"
      "xr_now ex < sk_expiresAt m" "sk_issuedAt m \<le> xr_now ex + PARTICIPANT_ORIGINATED_AUTHORIZATION_CLOCK_SKEW_SECONDS"
      "participantSigningKeyRegistrationDigest oc m c = Inr (vs_registrationDigest st)"
      "vs_participantSigningKeyDigest st = sk_participantSigningKeyDigest m"
      "sameWallet (oc_getAddress oc) (sk_participantWallet m) (xr_participantWallet ex)"
      "signed_by oc (vs_registrationDigest st) (vs_signature st) (sk_participantWallet m)"
    unfolding assertStoredRegistration_def assertRegistrationContext_def by (auto simp: result_simps reader_defs)
  obtain w where "m = (vs_registration st)\<lparr>sk_participantWallet := w\<rparr>" using parsed unfolding registration_parse_value by blast
  then have "registration_stands oc st ex c m"
    unfolding registration_stands_def using rest registration_parse_wf [OF parsed] signed_by_same [OF rest(13,12)] by blast
  with rest(1) show ?thesis by blast
qed

text \<open>The facts of an intent that passes, together with the registration it rests on.\<close>

definition intent_stands ::
  "originated_crypto \<Rightarrow> VerifiedParticipantEncryptionIntent \<Rightarrow> ExpectedParticipantEncryptionIntentContext \<Rightarrow> int \<Rightarrow> bool" where
  "intent_stands oc i ex c \<longleftrightarrow>
     (let m = vi_intent i in intent_wf m
     \<and> xi_verifyingService m = ec_verifyingService ex \<and> xi_runId m = bc_runId ex \<and> xi_fheCaseId m = bc_fheCaseId ex
     \<and> xi_caseBindingDigest m = bc_caseBindingDigest ex \<and> xi_protectionBindingDigest m = bc_protectionBindingDigest ex
     \<and> xi_assetIdentityDigest m = bc_assetIdentityDigest ex \<and> xi_policyDigest m = bc_policyDigest ex
     \<and> xi_circuitId m = bc_circuitId ex \<and> xi_circuitVersion m = bc_circuitVersion ex \<and> xi_circuitDigest m = bc_circuitDigest ex
     \<and> xi_parameterProfile m = bc_parameterProfile ex \<and> xi_parameterFingerprint m = bc_parameterFingerprint ex
     \<and> xi_fhePublicKeyDigest m = bc_fhePublicKeyDigest ex \<and> xi_releaseAuthorityId m = bc_releaseAuthorityId ex
     \<and> xi_releaseMode m = bc_releaseMode ex \<and> xi_clientBundleDigest m = bc_clientBundleDigest ex
     \<and> xi_clientSourceDigest m = bc_clientSourceDigest ex \<and> xi_clientBuildDigest m = bc_clientBuildDigest ex
     \<and> xi_clientBinaryDigest m = bc_clientBinaryDigest ex \<and> xi_bundleExpiresAt m = bc_bundleExpiresAt ex
     \<and> xi_role m = ec_role ex
     \<and> xi_participantSigningKeyDigest m = vs_participantSigningKeyDigest (ec_registration ex)
     \<and> xi_registrationDigest m = vs_registrationDigest (ec_registration ex)
     \<and> sk_issuedAt (vs_registration (ec_registration ex)) \<le> xi_issuedAt m
     \<and> xi_expiresAt m \<le> sk_expiresAt (vs_registration (ec_registration ex))
     \<and> xi_intentNonce m \<noteq> sk_registrationNonce (vs_registration (ec_registration ex))
     \<and> ec_now ex < bc_bundleExpiresAt ex \<and> ec_now ex < xi_expiresAt m
     \<and> xi_issuedAt m \<le> ec_now ex + PARTICIPANT_ORIGINATED_AUTHORIZATION_CLOCK_SKEW_SECONDS
     \<and> participantEncryptionIntentDigest oc m c = Inr (vi_encryptionIntentDigest i)
     \<and> vi_claimCommitment i = xi_claimCommitment m \<and> vi_chainId i = c
     \<and> signed_by oc (vi_encryptionIntentDigest i) (vi_signature i) (ec_participantWallet ex))"

lemma expect_bundle: "assertIntentMatchesBundle m ex = Inr u \<longleftrightarrow>
     xi_runId m = bc_runId ex \<and> xi_fheCaseId m = bc_fheCaseId ex
     \<and> xi_caseBindingDigest m = bc_caseBindingDigest ex \<and> xi_protectionBindingDigest m = bc_protectionBindingDigest ex
     \<and> xi_assetIdentityDigest m = bc_assetIdentityDigest ex \<and> xi_policyDigest m = bc_policyDigest ex
     \<and> xi_circuitId m = bc_circuitId ex \<and> xi_circuitVersion m = bc_circuitVersion ex \<and> xi_circuitDigest m = bc_circuitDigest ex
     \<and> xi_parameterProfile m = bc_parameterProfile ex \<and> xi_parameterFingerprint m = bc_parameterFingerprint ex
     \<and> xi_fhePublicKeyDigest m = bc_fhePublicKeyDigest ex \<and> xi_releaseAuthorityId m = bc_releaseAuthorityId ex
     \<and> xi_releaseMode m = bc_releaseMode ex \<and> xi_clientBundleDigest m = bc_clientBundleDigest ex
     \<and> xi_clientSourceDigest m = bc_clientSourceDigest ex \<and> xi_clientBuildDigest m = bc_clientBuildDigest ex
     \<and> xi_clientBinaryDigest m = bc_clientBinaryDigest ex \<and> xi_bundleExpiresAt m = bc_bundleExpiresAt ex"
  unfolding assertIntentMatchesBundle_def expect_each_ok by simp

lemma intent_request_ok:
  "assertParticipantEncryptionIntentRequest ga v = Inr q \<Longrightarrow>
     assertParticipantEncryptionIntentMessage ga (js_member v ''intent'') = Inr (xq_intent q) \<and> js_member v ''signature'' = VString (xq_signature q)"
  unfolding assertParticipantEncryptionIntentRequest_def by (auto simp: result_simps reader_defs)

lemma alift_ok [result_simps]: "alift r s = (t, Inr x) \<longleftrightarrow> t = s \<and> r = Inr x"
  by auto

lemma intent_verified:
  assumes "verifyParticipantEncryptionIntent oc v ex (verifyParticipantOriginatedEoaSignature oc) guard s = (t, Inr i)"
  shows "\<exists>c. chainIdFrom (ec_chainId ex) = Inr c \<and> intent_stands oc i ex c
     \<and> (\<exists>m. registration_stands oc (ec_registration ex) (registration_context ex) c m)
     \<and> assertParticipantEncryptionIntentMessage (oc_getAddress oc) (js_member v ''intent'') = Inr (vi_intent i)
     \<and> js_member v ''signature'' = VString (vi_signature i)"
proof -
  let ?ga = "oc_getAddress oc"
  from assms obtain q c st d u where q: "assertParticipantEncryptionIntentRequest ?ga v = Inr q" and c: "chainIdFrom (ec_chainId ex) = Inr c"
    and st: "assertStoredRegistration oc (ec_registration ex) (registration_context ex) c (verifyParticipantOriginatedEoaSignature oc) = Inr st"
    and m: "xi_verifyingService (xq_intent q) = ec_verifyingService ex" "assertIntentMatchesBundle (xq_intent q) ex = Inr u"
      "xi_role (xq_intent q) = ec_role ex" "sameWallet ?ga (xi_participantWallet (xq_intent q)) (ec_participantWallet ex)"
      "xi_participantSigningKeyDigest (xq_intent q) = vs_participantSigningKeyDigest (ec_registration ex)"
      "xi_registrationDigest (xq_intent q) = vs_registrationDigest st"
      "sk_issuedAt (vs_registration st) \<le> xi_issuedAt (xq_intent q)" "xi_expiresAt (xq_intent q) \<le> sk_expiresAt (vs_registration st)"
      "xi_intentNonce (xq_intent q) \<noteq> sk_registrationNonce (vs_registration st)" "ec_now ex < bc_bundleExpiresAt ex"
      "ec_now ex < xi_expiresAt (xq_intent q)" "xi_issuedAt (xq_intent q) \<le> ec_now ex + PARTICIPANT_ORIGINATED_AUTHORIZATION_CLOCK_SKEW_SECONDS"
    and d: "participantEncryptionIntentDigest oc (xq_intent q) c = Inr d" "signed_by oc d (xq_signature q) (xi_participantWallet (xq_intent q))"
    and i: "vi_intent i = xq_intent q" "vi_encryptionIntentDigest i = d" "vi_signature i = xq_signature q"
      "vi_claimCommitment i = xi_claimCommitment (xq_intent q)" "vi_chainId i = c"
    unfolding verifyParticipantEncryptionIntent_def Let_def
      abind_eq_Inr alift_ok check_eq_Inr expectEqual_ok expectWallet_ok assertFresh_ok assertEoaSignature_ok default_verifier jsval.inject role_name_inj
      de_Morgan_disj not_less not_le sum.inject
    apply clarify
    apply (rule that)
    apply (assumption | simp only: VerifiedParticipantEncryptionIntent.select_convs)+
    done
  from stored_registration_stands [OF st] have "st = ec_registration ex" "\<exists>m. registration_stands oc (ec_registration ex) (registration_context ex) c m" by auto
  moreover from intent_request_ok [OF q] have "intent_wf (xq_intent q)" by (auto intro: intent_parse_wf)
  ultimately have "intent_stands oc i ex c"
    unfolding intent_stands_def Let_def i using m(1,3,5-12) m(2) [unfolded expect_bundle] d(1) signed_by_same [OF d(2) m(4)] by blast
  then show ?thesis using c intent_request_ok [OF q] i \<open>\<exists>m. registration_stands oc (ec_registration ex) (registration_context ex) c m\<close> by auto
qed

lemma intent_context_simps [simp]:
  "bc_runId (intent_context e c) = bc_runId e" "bc_fheCaseId (intent_context e c) = bc_fheCaseId e"
  "bc_caseBindingDigest (intent_context e c) = bc_caseBindingDigest e" "bc_protectionBindingDigest (intent_context e c) = bc_protectionBindingDigest e"
  "bc_assetIdentityDigest (intent_context e c) = bc_assetIdentityDigest e" "bc_policyDigest (intent_context e c) = bc_policyDigest e"
  "bc_circuitId (intent_context e c) = bc_circuitId e" "bc_circuitVersion (intent_context e c) = bc_circuitVersion e"
  "bc_circuitDigest (intent_context e c) = bc_circuitDigest e" "bc_parameterProfile (intent_context e c) = bc_parameterProfile e"
  "bc_parameterFingerprint (intent_context e c) = bc_parameterFingerprint e" "bc_fhePublicKeyDigest (intent_context e c) = bc_fhePublicKeyDigest e"
  "bc_releaseAuthorityId (intent_context e c) = bc_releaseAuthorityId e" "bc_releaseMode (intent_context e c) = bc_releaseMode e"
  "bc_clientBundleDigest (intent_context e c) = bc_clientBundleDigest e" "bc_clientSourceDigest (intent_context e c) = bc_clientSourceDigest e"
  "bc_clientBuildDigest (intent_context e c) = bc_clientBuildDigest e" "bc_clientBinaryDigest (intent_context e c) = bc_clientBinaryDigest e"
  "bc_bundleExpiresAt (intent_context e c) = bc_bundleExpiresAt e"
  "ec_verifyingService (intent_context e c) = fc_verifyingService e" "ec_role (intent_context e c) = fc_role e"
  "ec_participantWallet (intent_context e c) = fc_participantWallet e" "ec_registration (intent_context e c) = fc_registration e"
  "ec_now (intent_context e c) = fc_now e" "ec_chainId (intent_context e c) = Some c"
  by (simp_all add: intent_context_def ParticipantOriginatedBundleContext.defs ExpectedParticipantEncryptionIntentContext.defs)

lemma stored_request_members [simp]:
  "js_member (stored_intent_request i) ''intent'' = intent_value (vi_intent i)"
  "js_member (stored_intent_request i) ''signature'' = VString (vi_signature i)"
  by (simp_all add: stored_intent_request_def)

lemma artifact_matches:
  "assertArtifactMatchesIntentAndBundle artifact intent dig ex now = Inr u \<longleftrightarrow>
     ra_fheCaseId artifact = bc_fheCaseId ex \<and> ra_caseBindingDigest artifact = bc_caseBindingDigest ex
     \<and> ra_assetIdentityDigest artifact = bc_assetIdentityDigest ex \<and> ra_role artifact = xi_role intent
     \<and> ra_participantSigningKeyDigest artifact = xi_participantSigningKeyDigest intent
     \<and> ra_parameterProfile artifact = bc_parameterProfile ex \<and> ra_parameterFingerprint artifact = bc_parameterFingerprint ex
     \<and> ra_fhePublicKeyDigest artifact = bc_fhePublicKeyDigest ex \<and> ra_circuitDigest artifact = bc_circuitDigest ex
     \<and> ra_embeddedEncryptionIntentDigest artifact = dig \<and> ra_embeddedClaimCommitment artifact = xi_claimCommitment intent
     \<and> isSafeInteger (ra_ciphertextObjectLength artifact) \<and> 0 < ra_ciphertextObjectLength artifact
     \<and> ra_ciphertextObjectLength artifact \<le> PARTICIPANT_ORIGINATED_CIPHERTEXT_MAX_BYTES
     \<and> digest32 (ra_encryptedArtifactDigest artifact) \<and> digest32 (ra_ciphertextObjectDigest artifact) \<and> digest32 (ra_submissionNonce artifact)
     \<and> isSafeInteger (ra_expiresAt artifact) \<and> now < ra_expiresAt artifact \<and> ra_expiresAt artifact \<le> bc_bundleExpiresAt ex"
  unfolding assertArtifactMatchesIntentAndBundle_def ebind_eq_Inr expect_each_ok exactPositiveInteger_ok reader_defs string_matching_ok check_eq_Inr digest32_def
  by (simp add: not_less not_le)

lemma final_message_matches:
  "assert_final_message ga m intent ex = Inr u \<longleftrightarrow>
     fa_verifyingService m = fc_verifyingService ex \<and> fa_runId m = bc_runId ex \<and> fa_fheCaseId m = bc_fheCaseId ex \<and> fa_role m = fc_role ex
     \<and> fa_participantSigningKeyDigest m = vs_participantSigningKeyDigest (fc_registration ex)
     \<and> fa_registrationDigest m = vs_registrationDigest (fc_registration ex) \<and> fa_clientBundleDigest m = bc_clientBundleDigest ex
     \<and> fa_encryptionIntentDigest m = vi_encryptionIntentDigest intent \<and> fa_claimCommitment m = vi_claimCommitment intent
     \<and> fa_encryptedArtifactDigest m = ra_encryptedArtifactDigest (fc_artifact ex)
     \<and> fa_ciphertextObjectDigest m = ra_ciphertextObjectDigest (fc_artifact ex)
     \<and> fa_ciphertextObjectLength m = ra_ciphertextObjectLength (fc_artifact ex)
     \<and> fa_submissionNonce m = ra_submissionNonce (fc_artifact ex)
     \<and> sameWallet ga (fa_participantWallet m) (fc_participantWallet ex)
     \<and> fa_submissionNonce m \<noteq> xi_intentNonce (vi_intent intent)
     \<and> fa_submissionNonce m \<noteq> sk_registrationNonce (vs_registration (fc_registration ex))
     \<and> xi_issuedAt (vi_intent intent) \<le> fa_issuedAt m \<and> fa_issuedAt m \<le> xi_expiresAt (vi_intent intent)
     \<and> fa_expiresAt m \<le> xi_expiresAt (vi_intent intent) \<and> fa_expiresAt m \<le> ra_expiresAt (fc_artifact ex) \<and> fa_expiresAt m \<le> bc_bundleExpiresAt ex
     \<and> isSafeInteger (fc_now ex) \<and> 0 < fc_now ex \<and> fc_now ex < fa_expiresAt m
     \<and> fa_issuedAt m \<le> fc_now ex + PARTICIPANT_ORIGINATED_AUTHORIZATION_CLOCK_SKEW_SECONDS"
  unfolding assert_final_message_def ebind_eq_Inr expect_each_ok check_eq_Inr expectWallet_ok assertFresh_ok
  by (simp add: not_less not_le)

lemma final_verified:
  assumes "verifyParticipantFinalEncryptedAdmission oc v e (verifyParticipantOriginatedEoaSignature oc) guard s = (t, Inr a)"
  obtains c i m where "intent_stands oc i (intent_context e c) c"
    "registration_stands oc (fc_registration e) (registration_context (intent_context e c)) c m"
    "vi_encryptionIntentDigest (fc_intent e) = vi_encryptionIntentDigest i" "vi_signature i = vi_signature (fc_intent e)"
    "\<exists>w. vi_intent i = (vi_intent (fc_intent e))\<lparr>xi_participantWallet := w\<rparr>"
    "assertArtifactMatchesIntentAndBundle (fc_artifact e) (vi_intent i) (vi_encryptionIntentDigest i) e (fc_now e) = Inr ()"
    "assert_final_message (oc_getAddress oc) (vf_admission a) i e = Inr ()" "admission_wf (vf_admission a)"
    "participantFinalEncryptedAdmissionDigest oc (vf_admission a) c = Inr (vf_finalAdmissionDigest a)"
    "signed_by oc (vf_finalAdmissionDigest a) (vf_signature a) (fa_participantWallet (vf_admission a))"
    "assertNonceReservation guard \<lparr>nr_phase = FINAL_ADMISSION, nr_runId = fa_runId (vf_admission a), nr_role = fa_role (vf_admission a),
       nr_nonce = fa_submissionNonce (vf_admission a), nr_authorizationDigest = vf_finalAdmissionDigest a\<rparr> s = (t, Inr ())"
proof -
  let ?d = "verifyParticipantOriginatedEoaSignature oc"
  from assms obtain q c i s' u1 u2 u3 where q: "assertParticipantFinalEncryptedAdmissionRequest (oc_getAddress oc) v = Inr q"
    and i: "verifyParticipantEncryptionIntent oc (stored_intent_request (fc_intent e)) (intent_context e c) ?d None s = (s', Inr i)"
    and rest: "vi_encryptionIntentDigest (fc_intent e) = vi_encryptionIntentDigest i"
      "assertArtifactMatchesIntentAndBundle (fc_artifact e) (vi_intent i) (vi_encryptionIntentDigest i) e (fc_now e) = Inr u1"
      "assert_final_message (oc_getAddress oc) (fq_admission q) i e = Inr u2"
      "participantFinalEncryptedAdmissionDigest oc (fq_admission q) c = Inr (vf_finalAdmissionDigest a)"
      "signed_by oc (vf_finalAdmissionDigest a) (fq_signature q) (fa_participantWallet (fq_admission q))"
      "assertNonceReservation guard \<lparr>nr_phase = FINAL_ADMISSION, nr_runId = fa_runId (fq_admission q), nr_role = fa_role (fq_admission q),
         nr_nonce = fa_submissionNonce (fq_admission q), nr_authorizationDigest = vf_finalAdmissionDigest a\<rparr> s' = (t, Inr u3)"
      "vf_admission a = fq_admission q" "vf_signature a = fq_signature q"
    unfolding verifyParticipantFinalEncryptedAdmission_def Let_def abind_eq_Inr alift_ok check_eq_Inr expectEqual_ok assertEoaSignature_ok
      default_verifier jsval.inject sum.inject
    apply clarify
    apply (rule that)
    apply (assumption | simp only: VerifiedParticipantFinalEncryptedAdmission.select_convs)+
    done
  from intent_verified [OF i] obtain m where stands: "intent_stands oc i (intent_context e c) c"
      "registration_stands oc (fc_registration e) (registration_context (intent_context e c)) c m"
      "assertParticipantEncryptionIntentMessage (oc_getAddress oc) (intent_value (vi_intent (fc_intent e))) = Inr (vi_intent i)"
      "vi_signature i = vi_signature (fc_intent e)"
    by (auto simp: result_simps)
  have "s' = s" using i unfolding verifyParticipantEncryptionIntent_def Let_def by (auto simp: result_simps)
  moreover have "admission_wf (fq_admission q)"
    using q unfolding assertParticipantFinalEncryptedAdmissionRequest_def by (auto simp: result_simps intro: admission_parse_wf)
  ultimately show thesis using that stands rest intent_parse_value [of "oc_getAddress oc" "vi_intent (fc_intent e)"] by auto
qed

subsection \<open>The chain\<close>

text \<open>The registration and the intent of the context, with the wallet in the form the parser gave it.\<close>

definition chain_registration :: "ExpectedParticipantFinalEncryptedAdmissionContext \<Rightarrow> string \<Rightarrow> ParticipantSigningKeyRegistrationMessage" where
  "chain_registration e w = (vs_registration (fc_registration e))\<lparr>sk_participantWallet := w\<rparr>"

definition chain_intent :: "ExpectedParticipantFinalEncryptedAdmissionContext \<Rightarrow> string \<Rightarrow> ParticipantEncryptionIntentMessage" where
  "chain_intent e w = (vi_intent (fc_intent e))\<lparr>xi_participantWallet := w\<rparr>"

text \<open>C35: An accepted final admission proves the whole chain. One wallet, the one the server expects, signed three typed data on one
  chain: the registration, the intent and the admission. The intent names the digest of that registration, the admission
  names both digests. All three are for the run, case, role and service of the server. The key digest they carry is the
  SHA-256 of the registered public key and is the signer of the artifact. The ciphertext carries the digest of this intent
  and the commitment of this intent, and its digest, length and nonce are the ones recomputed by the server. The three
  nonces are different.\<close>

theorem final_admission_proves_the_chain:
  assumes "verifyParticipantFinalEncryptedAdmission oc v e (verifyParticipantOriginatedEoaSignature oc) guard s = (t, Inr a)"
  shows "\<exists>c w w'.
       participantSigningKeyRegistrationDigest oc (chain_registration e w) c = Inr (fa_registrationDigest (vf_admission a))
     \<and> participantEncryptionIntentDigest oc (chain_intent e w') c = Inr (fa_encryptionIntentDigest (vf_admission a))
     \<and> participantFinalEncryptedAdmissionDigest oc (vf_admission a) c = Inr (vf_finalAdmissionDigest a)
     \<and> signed_by oc (fa_registrationDigest (vf_admission a)) (vs_signature (fc_registration e)) (fc_participantWallet e)
     \<and> signed_by oc (fa_encryptionIntentDigest (vf_admission a)) (vi_signature (fc_intent e)) (fc_participantWallet e)
     \<and> signed_by oc (vf_finalAdmissionDigest a) (vf_signature a) (fc_participantWallet e)
     \<and> xi_registrationDigest (chain_intent e w') = fa_registrationDigest (vf_admission a)
     \<and> (sk_verifyingService (chain_registration e w), sk_runId (chain_registration e w), sk_fheCaseId (chain_registration e w), sk_role (chain_registration e w))
         = (fc_verifyingService e, bc_runId e, bc_fheCaseId e, fc_role e)
     \<and> (xi_verifyingService (chain_intent e w'), xi_runId (chain_intent e w'), xi_fheCaseId (chain_intent e w'), xi_role (chain_intent e w'))
         = (fc_verifyingService e, bc_runId e, bc_fheCaseId e, fc_role e)
     \<and> (fa_verifyingService (vf_admission a), fa_runId (vf_admission a), fa_fheCaseId (vf_admission a), fa_role (vf_admission a))
         = (fc_verifyingService e, bc_runId e, bc_fheCaseId e, fc_role e)
     \<and> fa_participantSigningKeyDigest (vf_admission a)
         = sha256ExactBytes (oc_sha oc) (hex_bytes (drop 2 (sk_participantSigningPublicKey (chain_registration e w))))
     \<and> fa_participantSigningKeyDigest (vf_admission a) = xi_participantSigningKeyDigest (chain_intent e w')
     \<and> fa_participantSigningKeyDigest (vf_admission a) = ra_participantSigningKeyDigest (fc_artifact e)
     \<and> ra_embeddedEncryptionIntentDigest (fc_artifact e) = fa_encryptionIntentDigest (vf_admission a)
     \<and> ra_embeddedClaimCommitment (fc_artifact e) = fa_claimCommitment (vf_admission a)
     \<and> xi_claimCommitment (chain_intent e w') = fa_claimCommitment (vf_admission a)
     \<and> ra_encryptedArtifactDigest (fc_artifact e) = fa_encryptedArtifactDigest (vf_admission a)
     \<and> ra_ciphertextObjectDigest (fc_artifact e) = fa_ciphertextObjectDigest (vf_admission a)
     \<and> ra_ciphertextObjectLength (fc_artifact e) = fa_ciphertextObjectLength (vf_admission a)
     \<and> distinct [fa_submissionNonce (vf_admission a), xi_intentNonce (chain_intent e w'), sk_registrationNonce (chain_registration e w)]"
proof -
  from assms obtain c i m where i: "intent_stands oc i (intent_context e c) c"
    and m: "registration_stands oc (fc_registration e) (registration_context (intent_context e c)) c m"
    and sig: "vi_signature i = vi_signature (fc_intent e)" and w': "\<exists>w. vi_intent i = (vi_intent (fc_intent e))\<lparr>xi_participantWallet := w\<rparr>"
    and art: "assertArtifactMatchesIntentAndBundle (fc_artifact e) (vi_intent i) (vi_encryptionIntentDigest i) e (fc_now e) = Inr ()"
    and fin: "assert_final_message (oc_getAddress oc) (vf_admission a) i e = Inr ()"
    and dig: "participantFinalEncryptedAdmissionDigest oc (vf_admission a) c = Inr (vf_finalAdmissionDigest a)"
      "signed_by oc (vf_finalAdmissionDigest a) (vf_signature a) (fa_participantWallet (vf_admission a))"
    by (rule final_verified)
  from m obtain w where w: "m = chain_registration e w" unfolding registration_stands_def chain_registration_def by blast
  from w' obtain w' where w': "vi_intent i = chain_intent e w'" unfolding chain_intent_def by blast
  have reg: "sk_registrationNonce (vs_registration (fc_registration e)) = sk_registrationNonce (chain_registration e w)" by (simp add: chain_registration_def)
  note reg_facts = m [unfolded registration_stands_def registration_context_def w registration_wf_def, simplified]
  note int_facts = i [unfolded intent_stands_def Let_def w' sig, simplified]
  note fin_facts = fin [unfolded final_message_matches w' reg]
  have final_signed: "signed_by oc (vf_finalAdmissionDigest a) (vf_signature a) (fc_participantWallet e)"
    using signed_by_same [OF dig(2)] fin_facts by blast
  have "xi_intentNonce (chain_intent e w') \<noteq> sk_registrationNonce (chain_registration e w)"
    using i unfolding intent_stands_def Let_def w' by (auto simp: reg)
  then have nonces: "distinct [fa_submissionNonce (vf_admission a), xi_intentNonce (chain_intent e w'), sk_registrationNonce (chain_registration e w)]"
    using fin_facts by auto
  show ?thesis
  proof (rule exI [of _ c], rule exI [of _ w], rule exI [of _ w'], intro conjI)
    show "distinct [fa_submissionNonce (vf_admission a), xi_intentNonce (chain_intent e w'), sk_registrationNonce (chain_registration e w)]" by (rule nonces)
  qed (use reg_facts int_facts fin_facts art [unfolded artifact_matches w'] dig(1) final_signed in simp_all)
qed

text \<open>C36: The chain is short-lived. At the moment an admission is accepted, all three authorizations are open; they were issued in
  order, none more than fifteen minutes before nor more than the clock skew after the clock of the server; each ends no
  later than the one it rests on; and the artifact and the client bundle are still valid when the admission ends.\<close>

theorem authorization_chain_is_short_lived:
  assumes "verifyParticipantFinalEncryptedAdmission oc v e (verifyParticipantOriginatedEoaSignature oc) guard s = (t, Inr a)"
  shows "sk_issuedAt (vs_registration (fc_registration e)) \<le> xi_issuedAt (vi_intent (fc_intent e))
     \<and> xi_issuedAt (vi_intent (fc_intent e)) \<le> fa_issuedAt (vf_admission a)
     \<and> fa_issuedAt (vf_admission a) \<le> fc_now e + 120
     \<and> fc_now e < fa_expiresAt (vf_admission a)
     \<and> fa_expiresAt (vf_admission a) \<le> xi_expiresAt (vi_intent (fc_intent e))
     \<and> xi_expiresAt (vi_intent (fc_intent e)) \<le> sk_expiresAt (vs_registration (fc_registration e))
     \<and> sk_expiresAt (vs_registration (fc_registration e)) \<le> sk_issuedAt (vs_registration (fc_registration e)) + 900
     \<and> fc_now e - 900 < sk_issuedAt (vs_registration (fc_registration e))
     \<and> fa_expiresAt (vf_admission a) \<le> ra_expiresAt (fc_artifact e) \<and> ra_expiresAt (fc_artifact e) \<le> bc_bundleExpiresAt e"
proof -
  from assms obtain c i m where i: "intent_stands oc i (intent_context e c) c"
    and m: "registration_stands oc (fc_registration e) (registration_context (intent_context e c)) c m"
    and w': "\<exists>w. vi_intent i = (vi_intent (fc_intent e))\<lparr>xi_participantWallet := w\<rparr>"
    and art: "assertArtifactMatchesIntentAndBundle (fc_artifact e) (vi_intent i) (vi_encryptionIntentDigest i) e (fc_now e) = Inr ()"
    and fin: "assert_final_message (oc_getAddress oc) (vf_admission a) i e = Inr ()"
    by (rule final_verified)
  have times: "xi_issuedAt (vi_intent i) = xi_issuedAt (vi_intent (fc_intent e))" "xi_expiresAt (vi_intent i) = xi_expiresAt (vi_intent (fc_intent e))"
    using w' by auto
  have "sk_expiresAt (vs_registration (fc_registration e)) \<le> sk_issuedAt (vs_registration (fc_registration e)) + 900"
    using m by (auto simp: registration_stands_def registration_wf_def PARTICIPANT_ORIGINATED_AUTHORIZATION_MAX_LIFETIME_SECONDS_def)
  then show ?thesis
    using i [unfolded intent_stands_def Let_def times] fin [unfolded final_message_matches times] art [unfolded artifact_matches]
    by (simp add: PARTICIPANT_ORIGINATED_AUTHORIZATION_CLOCK_SKEW_SECONDS_def)
qed

subsection \<open>An honest participant\<close>

text \<open>What a participant brings: its wallet, key, nonces, commitment, times, signatures and the artifact it produced; and the
  requests and contexts that follow from it for a client bundle.\<close>

record honest_participant =
  hp_service :: string
  hp_role :: ParticipantRole
  hp_wallet :: string
  hp_publicKey :: string
  hp_registrationNonce :: string
  hp_intentNonce :: string
  hp_submissionNonce :: string
  hp_claimCommitment :: string
  hp_issuedAt :: int
  hp_expiresAt :: int
  hp_artifactDigest :: string
  hp_ciphertextDigest :: string
  hp_ciphertextLength :: int
  hp_registrationSignature :: string
  hp_intentSignature :: string
  hp_admissionSignature :: string

definition signed_request :: "string \<Rightarrow> string \<Rightarrow> jsval \<Rightarrow> string \<Rightarrow> jsval" where
  "signed_request schema member message signature = VObject ObjectPrototype
     [(''schemaVersion'', VString schema), (member, message), (''signature'', VString signature)]"

definition honest_key :: "originated_crypto \<Rightarrow> honest_participant \<Rightarrow> string" where
  "honest_key oc h = sha256ExactBytes (oc_sha oc) (hex_bytes (drop 2 (hp_publicKey h)))"

definition honest_registration :: "originated_crypto \<Rightarrow> ParticipantOriginatedBundleContext \<Rightarrow> honest_participant \<Rightarrow> ParticipantSigningKeyRegistrationMessage" where
  "honest_registration oc b h = \<lparr>sk_verifyingService = hp_service h, sk_runId = bc_runId b, sk_fheCaseId = bc_fheCaseId b,
     sk_assetIdentityDigest = bc_assetIdentityDigest b, sk_policyDigest = bc_policyDigest b, sk_role = hp_role h,
     sk_participantWallet = hp_wallet h, sk_participantSigningPublicKey = hp_publicKey h,
     sk_participantSigningKeyDigest = honest_key oc h, sk_registrationNonce = hp_registrationNonce h,
     sk_issuedAt = hp_issuedAt h, sk_expiresAt = hp_expiresAt h\<rparr>"

definition honest_intent :: "originated_crypto \<Rightarrow> ParticipantOriginatedBundleContext \<Rightarrow> honest_participant \<Rightarrow> string
     \<Rightarrow> ParticipantEncryptionIntentMessage" where
  "honest_intent oc b h dr = \<lparr>xi_verifyingService = hp_service h, xi_runId = bc_runId b, xi_fheCaseId = bc_fheCaseId b,
     xi_caseBindingDigest = bc_caseBindingDigest b, xi_protectionBindingDigest = bc_protectionBindingDigest b,
     xi_assetIdentityDigest = bc_assetIdentityDigest b, xi_policyDigest = bc_policyDigest b, xi_circuitId = bc_circuitId b,
     xi_circuitVersion = bc_circuitVersion b, xi_circuitDigest = bc_circuitDigest b,
     xi_parameterProfile = bc_parameterProfile b, xi_parameterFingerprint = bc_parameterFingerprint b,
     xi_fhePublicKeyDigest = bc_fhePublicKeyDigest b, xi_releaseAuthorityId = bc_releaseAuthorityId b,
     xi_releaseMode = bc_releaseMode b, xi_role = hp_role h, xi_participantWallet = hp_wallet h,
     xi_participantSigningKeyDigest = honest_key oc h, xi_registrationDigest = dr, xi_claimCommitment = hp_claimCommitment h,
     xi_clientBundleDigest = bc_clientBundleDigest b, xi_clientSourceDigest = bc_clientSourceDigest b,
     xi_clientBuildDigest = bc_clientBuildDigest b, xi_clientBinaryDigest = bc_clientBinaryDigest b,
     xi_bundleExpiresAt = bc_bundleExpiresAt b, xi_intentNonce = hp_intentNonce h, xi_issuedAt = hp_issuedAt h,
     xi_expiresAt = hp_expiresAt h\<rparr>"

definition honest_admission :: "originated_crypto \<Rightarrow> ParticipantOriginatedBundleContext \<Rightarrow> honest_participant \<Rightarrow> string \<Rightarrow> string
     \<Rightarrow> ParticipantFinalEncryptedAdmissionMessage" where
  "honest_admission oc b h dr di = \<lparr>fa_verifyingService = hp_service h, fa_runId = bc_runId b, fa_fheCaseId = bc_fheCaseId b, fa_role = hp_role h,
     fa_participantWallet = hp_wallet h, fa_participantSigningKeyDigest = honest_key oc h, fa_registrationDigest = dr,
     fa_clientBundleDigest = bc_clientBundleDigest b, fa_encryptionIntentDigest = di,
     fa_claimCommitment = hp_claimCommitment h, fa_encryptedArtifactDigest = hp_artifactDigest h,
     fa_ciphertextObjectDigest = hp_ciphertextDigest h, fa_ciphertextObjectLength = hp_ciphertextLength h,
     fa_submissionNonce = hp_submissionNonce h, fa_issuedAt = hp_issuedAt h, fa_expiresAt = hp_expiresAt h\<rparr>"

definition honest_registration_context :: "ParticipantOriginatedBundleContext \<Rightarrow> honest_participant \<Rightarrow> int \<Rightarrow> ExpectedParticipantSigningKeyRegistrationContext" where
  "honest_registration_context b h now = \<lparr>xr_verifyingService = hp_service h, xr_runId = bc_runId b, xr_fheCaseId = bc_fheCaseId b,
     xr_assetIdentityDigest = bc_assetIdentityDigest b, xr_policyDigest = bc_policyDigest b, xr_role = hp_role h,
     xr_participantWallet = hp_wallet h, xr_now = now, xr_chainId = None\<rparr>"

definition honest_intent_context :: "ParticipantOriginatedBundleContext \<Rightarrow> honest_participant \<Rightarrow> VerifiedParticipantSigningKeyRegistration \<Rightarrow> int
     \<Rightarrow> ExpectedParticipantEncryptionIntentContext" where
  "honest_intent_context b h r now = ParticipantOriginatedBundleContext.extend b
     (ExpectedParticipantEncryptionIntentContext.fields (hp_service h) (hp_role h) (hp_wallet h) r now None)"

definition honest_artifact :: "originated_crypto \<Rightarrow> ParticipantOriginatedBundleContext \<Rightarrow> honest_participant \<Rightarrow> string
     \<Rightarrow> RecomputedParticipantEncryptedArtifactContext" where
  "honest_artifact oc b h di = \<lparr>ra_encryptedArtifactDigest = hp_artifactDigest h, ra_ciphertextObjectDigest = hp_ciphertextDigest h,
     ra_ciphertextObjectLength = hp_ciphertextLength h, ra_fheCaseId = bc_fheCaseId b, ra_caseBindingDigest = bc_caseBindingDigest b,
     ra_assetIdentityDigest = bc_assetIdentityDigest b, ra_role = hp_role h,
     ra_participantSigningKeyDigest = honest_key oc h, ra_parameterProfile = bc_parameterProfile b,
     ra_parameterFingerprint = bc_parameterFingerprint b, ra_fhePublicKeyDigest = bc_fhePublicKeyDigest b, ra_circuitDigest = bc_circuitDigest b,
     ra_submissionNonce = hp_submissionNonce h, ra_expiresAt = bc_bundleExpiresAt b,
     ra_embeddedEncryptionIntentDigest = di, ra_embeddedClaimCommitment = hp_claimCommitment h\<rparr>"

definition honest_final_context :: "originated_crypto \<Rightarrow> ParticipantOriginatedBundleContext \<Rightarrow> honest_participant \<Rightarrow> VerifiedParticipantSigningKeyRegistration
     \<Rightarrow> VerifiedParticipantEncryptionIntent \<Rightarrow> int \<Rightarrow> ExpectedParticipantFinalEncryptedAdmissionContext" where
  "honest_final_context oc b h r i now = ParticipantOriginatedBundleContext.extend b
     (ExpectedParticipantFinalEncryptedAdmissionContext.fields (hp_service h) (hp_role h) (hp_wallet h) r i
       (honest_artifact oc b h (vi_encryptionIntentDigest i)) now None)"

definition bundle_wf :: "ParticipantOriginatedBundleContext \<Rightarrow> bool" where
  "bundle_wf b \<longleftrightarrow> fixed_regex UUID_PATTERN (bc_runId b)
     \<and> digest32 (bc_fheCaseId b)
     \<and> digest32 (bc_caseBindingDigest b)
     \<and> digest32 (bc_protectionBindingDigest b)
     \<and> digest32 (bc_assetIdentityDigest b)
     \<and> digest32 (bc_policyDigest b)
     \<and> bounded_text (bc_circuitId b)
     \<and> isSafeInteger (bc_circuitVersion b) \<and> 0 < bc_circuitVersion b \<and> bc_circuitVersion b \<le> 0xffffffff
     \<and> digest32 (bc_circuitDigest b)
     \<and> bounded_text (bc_parameterProfile b)
     \<and> digest32 (bc_parameterFingerprint b)
     \<and> digest32 (bc_fhePublicKeyDigest b)
     \<and> digest32 (bc_releaseAuthorityId b)
     \<and> bounded_text (bc_releaseMode b)
     \<and> digest32 (bc_clientBundleDigest b)
     \<and> digest32 (bc_clientSourceDigest b)
     \<and> digest32 (bc_clientBuildDigest b)
     \<and> digest32 (bc_clientBinaryDigest b)
     \<and> isSafeInteger (bc_bundleExpiresAt b) \<and> 0 < bc_bundleExpiresAt b \<and> bc_bundleExpiresAt b \<le> MAX_SAFE_INTEGER"

definition participant_wf :: "originated_crypto \<Rightarrow> ParticipantOriginatedBundleContext \<Rightarrow> honest_participant \<Rightarrow> int \<Rightarrow> bool" where
  "participant_wf oc b h now \<longleftrightarrow> bounded_text (hp_service h)
     \<and> fixed_regex ADDRESS_ANY (hp_wallet h) \<and> oc_getAddress oc (hp_wallet h) = Some (hp_wallet h)
     \<and> digest32 (hp_publicKey h) \<and> digest32 (honest_key oc h)
     \<and> digest32 (hp_registrationNonce h) \<and> digest32 (hp_intentNonce h) \<and> digest32 (hp_submissionNonce h) \<and> digest32 (hp_claimCommitment h)
     \<and> distinct [hp_submissionNonce h, hp_intentNonce h, hp_registrationNonce h]
     \<and> digest32 (hp_artifactDigest h) \<and> digest32 (hp_ciphertextDigest h)
     \<and> isSafeInteger (hp_ciphertextLength h) \<and> 0 < hp_ciphertextLength h \<and> hp_ciphertextLength h \<le> PARTICIPANT_ORIGINATED_CIPHERTEXT_MAX_BYTES
     \<and> isSafeInteger now \<and> 0 < now \<and> isSafeInteger (hp_issuedAt h) \<and> 0 < hp_issuedAt h \<and> hp_issuedAt h \<le> now \<and> now < hp_expiresAt h
     \<and> hp_expiresAt h \<le> hp_issuedAt h + PARTICIPANT_ORIGINATED_AUTHORIZATION_MAX_LIFETIME_SECONDS \<and> hp_expiresAt h \<le> bc_bundleExpiresAt b
     \<and> list_all (fixed_regex (lit ''0x'' @ replicate 130 any_hex)) [hp_registrationSignature h, hp_intentSignature h, hp_admissionSignature h]"

text \<open>The signatures of the wallet over the three typed data, on the default chain.\<close>

definition participant_signed :: "originated_crypto \<Rightarrow> ParticipantOriginatedBundleContext \<Rightarrow> honest_participant \<Rightarrow> string \<Rightarrow> string \<Rightarrow> string \<Rightarrow> bool" where
  "participant_signed oc b h dr di df \<longleftrightarrow>
     participantSigningKeyRegistrationDigest oc (honest_registration oc b h) PARTICIPANT_ORIGINATED_CHAIN_ID = Inr dr
     \<and> participantEncryptionIntentDigest oc (honest_intent oc b h dr) PARTICIPANT_ORIGINATED_CHAIN_ID = Inr di
     \<and> participantFinalEncryptedAdmissionDigest oc (honest_admission oc b h dr di) PARTICIPANT_ORIGINATED_CHAIN_ID = Inr df
     \<and> digest32 dr \<and> digest32 di
     \<and> signed_by oc dr (hp_registrationSignature h) (hp_wallet h) \<and> signed_by oc di (hp_intentSignature h) (hp_wallet h)
     \<and> signed_by oc df (hp_admissionSignature h) (hp_wallet h)"

definition honest_verified_registration :: "originated_crypto \<Rightarrow> ParticipantOriginatedBundleContext \<Rightarrow> honest_participant \<Rightarrow> string \<Rightarrow> VerifiedParticipantSigningKeyRegistration" where
  "honest_verified_registration oc b h dr = \<lparr>vs_schemaVersion = PARTICIPANT_SIGNING_KEY_REGISTRATION_SCHEMA, vs_registration = honest_registration oc b h,
     vs_registrationDigest = dr, vs_signature = hp_registrationSignature h, vs_role = hp_role h, vs_participantWallet = hp_wallet h,
     vs_participantSigningPublicKey = hp_publicKey h, vs_participantSigningKeyDigest = honest_key oc h, vs_chainId = PARTICIPANT_ORIGINATED_CHAIN_ID\<rparr>"

definition honest_verified_intent :: "originated_crypto \<Rightarrow> ParticipantOriginatedBundleContext \<Rightarrow> honest_participant \<Rightarrow> string \<Rightarrow> string \<Rightarrow> VerifiedParticipantEncryptionIntent" where
  "honest_verified_intent oc b h dr di = \<lparr>vi_schemaVersion = PARTICIPANT_ENCRYPTION_INTENT_SCHEMA, vi_intent = honest_intent oc b h dr,
     vi_encryptionIntentDigest = di, vi_signature = hp_intentSignature h, vi_registrationDigest = dr, vi_claimCommitment = hp_claimCommitment h,
     vi_role = hp_role h, vi_participantWallet = hp_wallet h, vi_participantSigningKeyDigest = honest_key oc h, vi_chainId = PARTICIPANT_ORIGINATED_CHAIN_ID\<rparr>"

definition honest_verified_admission :: "originated_crypto \<Rightarrow> ParticipantOriginatedBundleContext \<Rightarrow> honest_participant \<Rightarrow> string \<Rightarrow> string \<Rightarrow> string
     \<Rightarrow> VerifiedParticipantFinalEncryptedAdmission" where
  "honest_verified_admission oc b h dr di df = \<lparr>vf_schemaVersion = PARTICIPANT_FINAL_ENCRYPTED_ADMISSION_SCHEMA, vf_admission = honest_admission oc b h dr di,
     vf_finalAdmissionDigest = df, vf_signature = hp_admissionSignature h, vf_encryptionIntentDigest = di, vf_encryptedArtifactDigest = hp_artifactDigest h,
     vf_ciphertextObjectDigest = hp_ciphertextDigest h, vf_submissionNonce = hp_submissionNonce h, vf_role = hp_role h,
     vf_participantWallet = hp_wallet h, vf_chainId = PARTICIPANT_ORIGINATED_CHAIN_ID\<rparr>"

lemma chain_id_ok [simp]: "chainIdFrom None = Inr PARTICIPANT_ORIGINATED_CHAIN_ID" "chainIdFrom (Some PARTICIPANT_ORIGINATED_CHAIN_ID) = Inr PARTICIPANT_ORIGINATED_CHAIN_ID"
  by (simp_all add: chainIdFrom_def PARTICIPANT_ORIGINATED_CHAIN_ID_def isSafeInteger_def MAX_SAFE_INTEGER_def)

lemma honest_registration_parses:
  assumes "bundle_wf b" "participant_wf oc b h now"
  shows "assertParticipantSigningKeyRegistrationMessage (oc_sha oc) (oc_getAddress oc) (registration_value (honest_registration oc b h)) = Inr (honest_registration oc b h)"
  using assms unfolding registration_parse_value bundle_wf_def participant_wf_def registration_wf_def honest_registration_def
  by (auto simp: honest_key_def isSafeInteger_def)

lemma honest_intent_parses:
  assumes "bundle_wf b" "participant_wf oc b h now" "digest32 dr"
  shows "assertParticipantEncryptionIntentMessage (oc_getAddress oc) (intent_value (honest_intent oc b h dr)) = Inr (honest_intent oc b h dr)"
  using assms unfolding intent_parse_value bundle_wf_def participant_wf_def intent_wf_def honest_intent_def
  by (auto simp: isSafeInteger_def)

lemma honest_admission_parses:
  assumes "bundle_wf b" "participant_wf oc b h now" "digest32 dr" "digest32 di"
  shows "assertParticipantFinalEncryptedAdmissionMessage (oc_getAddress oc) (admission_value (honest_admission oc b h dr di)) = Inr (honest_admission oc b h dr di)"
  using assms unfolding admission_parse_value bundle_wf_def participant_wf_def admission_wf_def honest_admission_def
  by (auto simp: isSafeInteger_def)

lemma abind_alift_Inr [simp]: "abind (alift (Inr x)) f = f x"
  by (simp add: fun_eq_iff abind_def)

lemma checks_Inr:
  "expectEqual a a code = Inr ()"
  "sameWallet ga x y \<Longrightarrow> expectWallet ga x y code = Inr ()"
  "isSafeInteger now \<Longrightarrow> 0 < now \<Longrightarrow> now < ex \<Longrightarrow> is \<le> now + PARTICIPANT_ORIGINATED_AUTHORIZATION_CLOCK_SKEW_SECONDS \<Longrightarrow> assertFresh is ex now phase = Inr ()"
  "signed_by oc d g w \<Longrightarrow> assertEoaSignature phase w d g (verifyParticipantOriginatedEoaSignature oc) = Inr ()"
  using expectEqual_ok [of a a code "()"] expectWallet_ok [of ga x y code "()"] assertFresh_ok [of "is" ex now phase "()"]
    assertEoaSignature_ok [of phase w d g "verifyParticipantOriginatedEoaSignature oc" "()"] default_verifier
  by auto

lemma no_reservation [simp]: "assertNonceReservation None r = alift (Inr ())"
  by (simp add: fun_eq_iff assertNonceReservation_def)

lemma signature_reads: "fixed_regex (lit ''0x'' @ replicate 130 any_hex) g \<Longrightarrow> exactSignature (VString g) = Inr g"
  by (simp add: exactSignature_def string_matching_def)

lemma signed_request_members:
  "plain_exactKeys (signed_request schema member message g) [''schemaVersion'', member, ''signature'']"
  "js_member (signed_request schema member message g) ''schemaVersion'' = VString schema"
  "member \<noteq> ''schemaVersion'' \<Longrightarrow> js_member (signed_request schema member message g) member = message"
  "member \<noteq> ''signature'' \<Longrightarrow> js_member (signed_request schema member message g) ''signature'' = VString g"
  by (simp_all add: signed_request_def)

lemma honest_facts:
  assumes "participant_wf oc b h now"
  shows "sameWallet (oc_getAddress oc) (hp_wallet h) (hp_wallet h)"
    "exactSignature (VString (hp_registrationSignature h)) = Inr (hp_registrationSignature h)"
    "exactSignature (VString (hp_intentSignature h)) = Inr (hp_intentSignature h)"
    "exactSignature (VString (hp_admissionSignature h)) = Inr (hp_admissionSignature h)"
    "assertFresh (hp_issuedAt h) (hp_expiresAt h) now phase = Inr ()"
  using assms unfolding participant_wf_def
  by (auto simp: sameWallet_def signature_reads PARTICIPANT_ORIGINATED_AUTHORIZATION_CLOCK_SKEW_SECONDS_def intro!: checks_Inr(3))

lemma honest_registration_accepted:
  assumes "bundle_wf b" "participant_wf oc b h now" "participant_signed oc b h dr di df"
  shows "verifyParticipantSigningKeyRegistration oc
       (signed_request PARTICIPANT_SIGNING_KEY_REGISTRATION_SCHEMA ''registration'' (registration_value (honest_registration oc b h)) (hp_registrationSignature h))
       (honest_registration_context b h now) (verifyParticipantOriginatedEoaSignature oc) None s = (s, Inr (honest_verified_registration oc b h dr))"
proof -
  note parsed = honest_registration_parses [OF assms(1,2)] and facts = honest_facts [OF assms(2)]
  have signed: "participantSigningKeyRegistrationDigest oc (honest_registration oc b h) PARTICIPANT_ORIGINATED_CHAIN_ID = Inr dr"
      "signed_by oc dr (hp_registrationSignature h) (hp_wallet h)" using assms(3) unfolding participant_signed_def by blast+
  have "assertRegistrationContext (oc_getAddress oc) (honest_registration oc b h) (honest_registration_context b h now) = Inr ()"
    by (simp add: assertRegistrationContext_def honest_registration_def honest_registration_context_def expectEqual_def checks_Inr facts)
  with parsed facts signed show ?thesis
    by (simp add: verifyParticipantSigningKeyRegistration_def assertParticipantSigningKeyRegistrationRequest_def signed_request_members checks_Inr
      honest_registration_context_def honest_verified_registration_def) (simp add: honest_registration_def checks_Inr)
qed

lemma honest_intent_context_simps [simp]:
  "bc_runId (honest_intent_context b h r now) = bc_runId b" "bc_fheCaseId (honest_intent_context b h r now) = bc_fheCaseId b"
  "bc_caseBindingDigest (honest_intent_context b h r now) = bc_caseBindingDigest b"
  "bc_protectionBindingDigest (honest_intent_context b h r now) = bc_protectionBindingDigest b"
  "bc_assetIdentityDigest (honest_intent_context b h r now) = bc_assetIdentityDigest b"
  "bc_policyDigest (honest_intent_context b h r now) = bc_policyDigest b" "bc_circuitId (honest_intent_context b h r now) = bc_circuitId b"
  "bc_circuitVersion (honest_intent_context b h r now) = bc_circuitVersion b" "bc_circuitDigest (honest_intent_context b h r now) = bc_circuitDigest b"
  "bc_parameterProfile (honest_intent_context b h r now) = bc_parameterProfile b"
  "bc_parameterFingerprint (honest_intent_context b h r now) = bc_parameterFingerprint b"
  "bc_fhePublicKeyDigest (honest_intent_context b h r now) = bc_fhePublicKeyDigest b"
  "bc_releaseAuthorityId (honest_intent_context b h r now) = bc_releaseAuthorityId b"
  "bc_releaseMode (honest_intent_context b h r now) = bc_releaseMode b"
  "bc_clientBundleDigest (honest_intent_context b h r now) = bc_clientBundleDigest b"
  "bc_clientSourceDigest (honest_intent_context b h r now) = bc_clientSourceDigest b"
  "bc_clientBuildDigest (honest_intent_context b h r now) = bc_clientBuildDigest b"
  "bc_clientBinaryDigest (honest_intent_context b h r now) = bc_clientBinaryDigest b"
  "bc_bundleExpiresAt (honest_intent_context b h r now) = bc_bundleExpiresAt b" "ec_verifyingService (honest_intent_context b h r now) = hp_service h"
  "ec_role (honest_intent_context b h r now) = hp_role h" "ec_participantWallet (honest_intent_context b h r now) = hp_wallet h"
  "ec_registration (honest_intent_context b h r now) = r" "ec_now (honest_intent_context b h r now) = now"
  "ec_chainId (honest_intent_context b h r now) = None"
  by (simp_all add: honest_intent_context_def ParticipantOriginatedBundleContext.defs ExpectedParticipantEncryptionIntentContext.defs)

lemma honest_final_context_simps [simp]:
  "bc_runId (honest_final_context oc b h r i now) = bc_runId b" "bc_fheCaseId (honest_final_context oc b h r i now) = bc_fheCaseId b"
  "bc_caseBindingDigest (honest_final_context oc b h r i now) = bc_caseBindingDigest b"
  "bc_protectionBindingDigest (honest_final_context oc b h r i now) = bc_protectionBindingDigest b"
  "bc_assetIdentityDigest (honest_final_context oc b h r i now) = bc_assetIdentityDigest b"
  "bc_policyDigest (honest_final_context oc b h r i now) = bc_policyDigest b" "bc_circuitId (honest_final_context oc b h r i now) = bc_circuitId b"
  "bc_circuitVersion (honest_final_context oc b h r i now) = bc_circuitVersion b"
  "bc_circuitDigest (honest_final_context oc b h r i now) = bc_circuitDigest b"
  "bc_parameterProfile (honest_final_context oc b h r i now) = bc_parameterProfile b"
  "bc_parameterFingerprint (honest_final_context oc b h r i now) = bc_parameterFingerprint b"
  "bc_fhePublicKeyDigest (honest_final_context oc b h r i now) = bc_fhePublicKeyDigest b"
  "bc_releaseAuthorityId (honest_final_context oc b h r i now) = bc_releaseAuthorityId b"
  "bc_releaseMode (honest_final_context oc b h r i now) = bc_releaseMode b"
  "bc_clientBundleDigest (honest_final_context oc b h r i now) = bc_clientBundleDigest b"
  "bc_clientSourceDigest (honest_final_context oc b h r i now) = bc_clientSourceDigest b"
  "bc_clientBuildDigest (honest_final_context oc b h r i now) = bc_clientBuildDigest b"
  "bc_clientBinaryDigest (honest_final_context oc b h r i now) = bc_clientBinaryDigest b"
  "bc_bundleExpiresAt (honest_final_context oc b h r i now) = bc_bundleExpiresAt b"
  "fc_verifyingService (honest_final_context oc b h r i now) = hp_service h" "fc_role (honest_final_context oc b h r i now) = hp_role h"
  "fc_participantWallet (honest_final_context oc b h r i now) = hp_wallet h" "fc_registration (honest_final_context oc b h r i now) = r"
  "fc_intent (honest_final_context oc b h r i now) = i"
  "fc_artifact (honest_final_context oc b h r i now) = honest_artifact oc b h (vi_encryptionIntentDigest i)"
  "fc_now (honest_final_context oc b h r i now) = now" "fc_chainId (honest_final_context oc b h r i now) = None"
  by (simp_all add: honest_final_context_def ParticipantOriginatedBundleContext.defs ExpectedParticipantFinalEncryptedAdmissionContext.defs)

lemma honest_stored_registration:
  assumes "bundle_wf b" "participant_wf oc b h now" "participant_signed oc b h dr di df"
    and "xr_verifyingService ex = hp_service h" "xr_runId ex = bc_runId b" "xr_fheCaseId ex = bc_fheCaseId b"
      "xr_assetIdentityDigest ex = bc_assetIdentityDigest b" "xr_policyDigest ex = bc_policyDigest b" "xr_role ex = hp_role h"
      "xr_participantWallet ex = hp_wallet h" "xr_now ex = now"
  shows "assertStoredRegistration oc (honest_verified_registration oc b h dr) ex PARTICIPANT_ORIGINATED_CHAIN_ID
       (verifyParticipantOriginatedEoaSignature oc) = Inr (honest_verified_registration oc b h dr)"
proof -
  note parsed = honest_registration_parses [OF assms(1,2)] and facts = honest_facts [OF assms(2)]
  have signed: "participantSigningKeyRegistrationDigest oc (honest_registration oc b h) PARTICIPANT_ORIGINATED_CHAIN_ID = Inr dr"
      "signed_by oc dr (hp_registrationSignature h) (hp_wallet h)" using assms(3) unfolding participant_signed_def by blast+
  have "assertRegistrationContext (oc_getAddress oc) (honest_registration oc b h) (ex\<lparr>xr_now := t, xr_chainId := c\<rparr>) = Inr ()" for t c
    using assms(4-) by (simp add: assertRegistrationContext_def honest_registration_def expectEqual_def checks_Inr facts)
  with parsed facts signed assms(11) show ?thesis
    by (simp add: assertStoredRegistration_def honest_verified_registration_def checks_Inr) (simp add: honest_registration_def checks_Inr)
qed

text \<open>The intent, in the context of the intent phase and in the one of the final phase.\<close>

lemma honest_intent_verifies:
  assumes "bundle_wf b" "participant_wf oc b h now" "participant_signed oc b h dr di df"
    and request: "assertParticipantEncryptionIntentRequest (oc_getAddress oc) v = Inr \<lparr>xq_schemaVersion = PARTICIPANT_ENCRYPTION_INTENT_SCHEMA,
       xq_intent = honest_intent oc b h dr, xq_signature = hp_intentSignature h\<rparr>"
    and ctx: "assertIntentMatchesBundle (honest_intent oc b h dr) ex = Inr ()" "ec_verifyingService ex = hp_service h" "ec_role ex = hp_role h"
      "ec_participantWallet ex = hp_wallet h" "ec_registration ex = honest_verified_registration oc b h dr" "ec_now ex = now"
      "ec_chainId ex = None \<or> ec_chainId ex = Some PARTICIPANT_ORIGINATED_CHAIN_ID"
      "bc_runId ex = bc_runId b" "bc_fheCaseId ex = bc_fheCaseId b" "bc_assetIdentityDigest ex = bc_assetIdentityDigest b"
      "bc_policyDigest ex = bc_policyDigest b" "bc_bundleExpiresAt ex = bc_bundleExpiresAt b"
  shows "verifyParticipantEncryptionIntent oc v ex (verifyParticipantOriginatedEoaSignature oc) None s = (s, Inr (honest_verified_intent oc b h dr di))"
proof -
  have chain: "chainIdFrom (ec_chainId ex) = Inr PARTICIPANT_ORIGINATED_CHAIN_ID" using ctx(7) by auto
  note facts = honest_facts [OF assms(2)]
  have stored: "assertStoredRegistration oc (honest_verified_registration oc b h dr) (registration_context ex) PARTICIPANT_ORIGINATED_CHAIN_ID
       (verifyParticipantOriginatedEoaSignature oc) = Inr (honest_verified_registration oc b h dr)"
    by (rule honest_stored_registration [OF assms(1-3)]) (simp_all add: registration_context_def ctx)
  have signed: "participantEncryptionIntentDigest oc (honest_intent oc b h dr) PARTICIPANT_ORIGINATED_CHAIN_ID = Inr di"
      "signed_by oc di (hp_intentSignature h) (hp_wallet h)" using assms(3) unfolding participant_signed_def by blast+
  have "hp_intentNonce h \<noteq> hp_registrationNonce h" "now < bc_bundleExpiresAt b" using assms(2) unfolding participant_wf_def by auto
  then show ?thesis
    using request chain stored signed facts ctx
    by (simp add: verifyParticipantEncryptionIntent_def checks_Inr)
      (simp add: honest_intent_def honest_verified_registration_def honest_verified_intent_def honest_registration_def checks_Inr)
qed

lemma honest_intent_request:
  assumes "bundle_wf b" "participant_wf oc b h now" "digest32 dr"
  shows "assertParticipantEncryptionIntentRequest (oc_getAddress oc)
       (signed_request PARTICIPANT_ENCRYPTION_INTENT_SCHEMA ''intent'' (intent_value (honest_intent oc b h dr)) (hp_intentSignature h))
     = Inr \<lparr>xq_schemaVersion = PARTICIPANT_ENCRYPTION_INTENT_SCHEMA, xq_intent = honest_intent oc b h dr, xq_signature = hp_intentSignature h\<rparr>"
  by (simp add: assertParticipantEncryptionIntentRequest_def signed_request_members honest_intent_parses [OF assms] honest_facts [OF assms(2)])

lemma stored_honest_intent:
  "stored_intent_request (honest_verified_intent oc b h dr di)
     = signed_request PARTICIPANT_ENCRYPTION_INTENT_SCHEMA ''intent'' (intent_value (honest_intent oc b h dr)) (hp_intentSignature h)"
  by (simp add: stored_intent_request_def signed_request_def honest_verified_intent_def)

lemma honest_intent_in_bundle:
  assumes "bc_runId ex = bc_runId b" "bc_fheCaseId ex = bc_fheCaseId b" "bc_caseBindingDigest ex = bc_caseBindingDigest b"
    "bc_protectionBindingDigest ex = bc_protectionBindingDigest b" "bc_assetIdentityDigest ex = bc_assetIdentityDigest b"
    "bc_policyDigest ex = bc_policyDigest b" "bc_circuitId ex = bc_circuitId b" "bc_circuitVersion ex = bc_circuitVersion b"
    "bc_circuitDigest ex = bc_circuitDigest b" "bc_parameterProfile ex = bc_parameterProfile b"
    "bc_parameterFingerprint ex = bc_parameterFingerprint b" "bc_fhePublicKeyDigest ex = bc_fhePublicKeyDigest b"
    "bc_releaseAuthorityId ex = bc_releaseAuthorityId b" "bc_releaseMode ex = bc_releaseMode b"
    "bc_clientBundleDigest ex = bc_clientBundleDigest b" "bc_clientSourceDigest ex = bc_clientSourceDigest b"
    "bc_clientBuildDigest ex = bc_clientBuildDigest b" "bc_clientBinaryDigest ex = bc_clientBinaryDigest b"
    "bc_bundleExpiresAt ex = bc_bundleExpiresAt b"
  shows "assertIntentMatchesBundle (honest_intent oc b h dr) ex = Inr ()"
  unfolding expect_bundle using assms by (simp add: honest_intent_def)

lemma honest_verified_intent_simps:
  "vi_intent (honest_verified_intent oc b h dr di) = honest_intent oc b h dr" "vi_encryptionIntentDigest (honest_verified_intent oc b h dr di) = di"
  "vi_chainId (honest_verified_intent oc b h dr di) = PARTICIPANT_ORIGINATED_CHAIN_ID"
  by (simp_all add: honest_verified_intent_def)

lemma honest_admission_simps:
  "fa_participantWallet (honest_admission oc b h dr di) = hp_wallet h" "fa_runId (honest_admission oc b h dr di) = bc_runId b"
  "fa_role (honest_admission oc b h dr di) = hp_role h" "fa_submissionNonce (honest_admission oc b h dr di) = hp_submissionNonce h"
  "fa_encryptionIntentDigest (honest_admission oc b h dr di) = di" "fa_encryptedArtifactDigest (honest_admission oc b h dr di) = hp_artifactDigest h"
  "fa_ciphertextObjectDigest (honest_admission oc b h dr di) = hp_ciphertextDigest h"
  by (simp_all add: honest_admission_def)

lemma honest_final_accepted:
  assumes "bundle_wf b" "participant_wf oc b h now" "participant_signed oc b h dr di df"
  shows "verifyParticipantFinalEncryptedAdmission oc
       (signed_request PARTICIPANT_FINAL_ENCRYPTED_ADMISSION_SCHEMA ''admission'' (admission_value (honest_admission oc b h dr di)) (hp_admissionSignature h))
       (honest_final_context oc b h (honest_verified_registration oc b h dr) (honest_verified_intent oc b h dr di) now)
       (verifyParticipantOriginatedEoaSignature oc) None s = (s, Inr (honest_verified_admission oc b h dr di df))"
proof -
  let ?ex = "honest_final_context oc b h (honest_verified_registration oc b h dr) (honest_verified_intent oc b h dr di) now"
  note facts = honest_facts [OF assms(2)]
  have digests: "digest32 dr" "digest32 di"
    and signed: "participantFinalEncryptedAdmissionDigest oc (honest_admission oc b h dr di) PARTICIPANT_ORIGINATED_CHAIN_ID = Inr df"
      "signed_by oc df (hp_admissionSignature h) (hp_wallet h)" using assms(3) unfolding participant_signed_def by blast+
  have request: "assertParticipantFinalEncryptedAdmissionRequest (oc_getAddress oc)
       (signed_request PARTICIPANT_FINAL_ENCRYPTED_ADMISSION_SCHEMA ''admission'' (admission_value (honest_admission oc b h dr di)) (hp_admissionSignature h))
     = Inr \<lparr>fq_schemaVersion = PARTICIPANT_FINAL_ENCRYPTED_ADMISSION_SCHEMA, fq_admission = honest_admission oc b h dr di, fq_signature = hp_admissionSignature h\<rparr>"
    by (simp add: assertParticipantFinalEncryptedAdmissionRequest_def signed_request_members honest_admission_parses [OF assms(1,2) digests] facts)
  have intent: "verifyParticipantEncryptionIntent oc (stored_intent_request (honest_verified_intent oc b h dr di))
      (intent_context ?ex PARTICIPANT_ORIGINATED_CHAIN_ID) (verifyParticipantOriginatedEoaSignature oc) None s = (s, Inr (honest_verified_intent oc b h dr di))"
    by (rule honest_intent_verifies [OF assms]) (simp_all add: stored_honest_intent honest_intent_request [OF assms(1,2) digests(1)] honest_intent_in_bundle)
  have wf: "hp_submissionNonce h \<noteq> hp_intentNonce h" "hp_submissionNonce h \<noteq> hp_registrationNonce h" "hp_expiresAt h \<le> bc_bundleExpiresAt b"
      "isSafeInteger (hp_ciphertextLength h)" "0 < hp_ciphertextLength h" "hp_ciphertextLength h \<le> PARTICIPANT_ORIGINATED_CIPHERTEXT_MAX_BYTES"
      "digest32 (hp_artifactDigest h)" "digest32 (hp_ciphertextDigest h)" "digest32 (hp_submissionNonce h)" "isSafeInteger now" "0 < now"
      "now < hp_expiresAt h" "now < bc_bundleExpiresAt b" "isSafeInteger (bc_bundleExpiresAt b)" "hp_issuedAt h \<le> now" "hp_issuedAt h < hp_expiresAt h"
    using assms(1,2) unfolding participant_wf_def bundle_wf_def by auto
  have artifact: "assertArtifactMatchesIntentAndBundle (honest_artifact oc b h di) (honest_intent oc b h dr) di ?ex now = Inr ()"
    unfolding artifact_matches using wf by (simp add: honest_artifact_def honest_intent_def)
  have message: "assert_final_message (oc_getAddress oc) (honest_admission oc b h dr di) (honest_verified_intent oc b h dr di) ?ex = Inr ()"
    unfolding final_message_matches using wf facts
    by (simp add: honest_admission_def honest_verified_intent_def honest_verified_registration_def honest_registration_def honest_intent_def honest_artifact_def
      PARTICIPANT_ORIGINATED_AUTHORIZATION_CLOCK_SKEW_SECONDS_def)
  have step: "abind (verifyParticipantEncryptionIntent oc (stored_intent_request (honest_verified_intent oc b h dr di))
      (intent_context ?ex PARTICIPANT_ORIGINATED_CHAIN_ID) (verifyParticipantOriginatedEoaSignature oc) None) f s = f (honest_verified_intent oc b h dr di) s" for f
    by (simp add: abind_def intent)
  show ?thesis
    using artifact message signed
    by (simp add: verifyParticipantFinalEncryptedAdmission_def request Let_def step
      honest_verified_intent_simps honest_admission_simps checks_Inr honest_verified_admission_def)
qed


subsection \<open>A concrete chain\<close>

definition sample_word :: "char \<Rightarrow> string" where
  "sample_word c = ''0x'' @ replicate 64 c"

definition sample_originated_wallet :: string where
  "sample_originated_wallet = ''0x'' @ replicate 40 CHR ''1''"

definition originated_sample_run :: string where
  "originated_sample_run = ''11111111-1111-4111-8111-111111111111''"

definition sample_oc :: originated_crypto where
  "sample_oc = \<lparr>oc_sha = \<lambda>x. replicate 64 CHR ''a'', oc_keccak = \<lambda>x. x, oc_getAddress = Some,
     oc_hashTypedData = \<lambda>td. sample_word (if td_primaryType td = PARTICIPANT_SIGNING_KEY_REGISTRATION_PRIMARY_TYPE then CHR ''b''
       else if td_primaryType td = PARTICIPANT_ENCRYPTION_INTENT_PRIMARY_TYPE then CHR ''c'' else CHR ''d''),
     oc_recoverAddress = \<lambda>d g. Inr sample_originated_wallet\<rparr>"

definition sample_bundle :: ParticipantOriginatedBundleContext where
  "sample_bundle = \<lparr>bc_runId = originated_sample_run, bc_fheCaseId = sample_word CHR ''1'', bc_caseBindingDigest = sample_word CHR ''1'',
     bc_protectionBindingDigest = sample_word CHR ''1'', bc_assetIdentityDigest = sample_word CHR ''1'', bc_policyDigest = sample_word CHR ''1'',
     bc_circuitId = ''c'', bc_circuitVersion = 1, bc_circuitDigest = sample_word CHR ''1'',
     bc_parameterProfile = ''p'', bc_parameterFingerprint = sample_word CHR ''1'', bc_fhePublicKeyDigest = sample_word CHR ''1'',
     bc_releaseAuthorityId = sample_word CHR ''1'', bc_releaseMode = ''m'', bc_clientBundleDigest = sample_word CHR ''1'',
     bc_clientSourceDigest = sample_word CHR ''1'', bc_clientBuildDigest = sample_word CHR ''1'', bc_clientBinaryDigest = sample_word CHR ''1'',
     bc_bundleExpiresAt = 2000\<rparr>"

definition sample_participant :: honest_participant where
  "sample_participant = \<lparr>hp_service = ''s'', hp_role = PARTICIPANT_A, hp_wallet = sample_originated_wallet, hp_publicKey = sample_word CHR ''2'',
     hp_registrationNonce = sample_word CHR ''3'', hp_intentNonce = sample_word CHR ''4'', hp_submissionNonce = sample_word CHR ''5'',
     hp_claimCommitment = sample_word CHR ''6'', hp_issuedAt = 1000, hp_expiresAt = 1500, hp_artifactDigest = sample_word CHR ''7'',
     hp_ciphertextDigest = sample_word CHR ''8'', hp_ciphertextLength = 4096, hp_registrationSignature = ''0x'' @ replicate 130 CHR ''1'',
     hp_intentSignature = ''0x'' @ replicate 130 CHR ''2'', hp_admissionSignature = ''0x'' @ replicate 130 CHR ''3''\<rparr>"

lemma sample_word_digest: "c \<in> set ''123456789abcdef'' \<Longrightarrow> digest32 (sample_word c)"
  by (auto simp: digest32_def sample_word_def zero_bytes32_def BYTES32_LOWER_def prefix_regex lower_hex_def replicate_eq_replicate list_all_iff)

lemma sample_word_eq: "sample_word c = sample_word d \<longleftrightarrow> c = d"
  by (simp add: sample_word_def replicate_eq_replicate)

lemma sample_texts: "fixed_regex UUID_PATTERN originated_sample_run" "fixed_regex ADDRESS_ANY sample_originated_wallet"
  by code_simp+

lemma sample_signatures:
  "fixed_regex (lit ''0x'' @ replicate 130 any_hex) (CHR ''0'' # CHR ''x'' # replicate 130 CHR ''1'')"
  "fixed_regex (lit ''0x'' @ replicate 130 any_hex) (CHR ''0'' # CHR ''x'' # replicate 130 CHR ''2'')"
  "fixed_regex (lit ''0x'' @ replicate 130 any_hex) (CHR ''0'' # CHR ''x'' # replicate 130 CHR ''3'')"
  by (simp_all add: prefix_regex any_hex_def list_all_iff)

lemma sample_bundle_wf: "bundle_wf sample_bundle"
  by (simp add: bundle_wf_def sample_bundle_def sample_word_digest sample_texts bounded_text_def isSafeInteger_def MAX_SAFE_INTEGER_def)

lemma sample_participant_wf: "participant_wf sample_oc sample_bundle sample_participant 1200"
proof -
  have "honest_key sample_oc sample_participant = sample_word CHR ''a''"
    by (simp add: honest_key_def sample_oc_def sha256ExactBytes_def sample_word_def)
  then show ?thesis
    by (simp add: participant_wf_def sample_participant_def sample_oc_def sample_bundle_def sample_word_digest sample_word_eq sample_texts bounded_text_def
      isSafeInteger_def MAX_SAFE_INTEGER_def PARTICIPANT_ORIGINATED_CIPHERTEXT_MAX_BYTES_def PARTICIPANT_ORIGINATED_AUTHORIZATION_MAX_LIFETIME_SECONDS_def
      sample_signatures)
qed

lemma sample_crypto_digest: "isSafeInteger PARTICIPANT_ORIGINATED_CHAIN_ID" "\<not> PARTICIPANT_ORIGINATED_CHAIN_ID \<le> 0"
  by (simp_all add: PARTICIPANT_ORIGINATED_CHAIN_ID_def isSafeInteger_def MAX_SAFE_INTEGER_def)

lemma sample_signed: "participant_signed sample_oc sample_bundle sample_participant (sample_word CHR ''b'') (sample_word CHR ''c'') (sample_word CHR ''d'')"
proof -
  have "participantSigningKeyRegistrationDigest sample_oc m PARTICIPANT_ORIGINATED_CHAIN_ID = Inr (sample_word CHR ''b'')"
    "participantEncryptionIntentDigest sample_oc i PARTICIPANT_ORIGINATED_CHAIN_ID = Inr (sample_word CHR ''c'')"
    "participantFinalEncryptedAdmissionDigest sample_oc f PARTICIPANT_ORIGINATED_CHAIN_ID = Inr (sample_word CHR ''d'')" for m i f
    by (simp_all add: participantSigningKeyRegistrationDigest_def participantEncryptionIntentDigest_def participantFinalEncryptedAdmissionDigest_def
      originated_typed_data_defs originated_domain_def sample_crypto_digest sample_oc_def PARTICIPANT_SIGNING_KEY_REGISTRATION_PRIMARY_TYPE_def
      PARTICIPANT_ENCRYPTION_INTENT_PRIMARY_TYPE_def PARTICIPANT_FINAL_ENCRYPTED_ADMISSION_PRIMARY_TYPE_def)
  then show ?thesis
    by (simp add: participant_signed_def sample_word_digest signed_by_def sample_oc_def sample_participant_def sameWallet_def)
qed


lemmas sample_chain = honest_final_accepted [OF sample_bundle_wf sample_participant_wf sample_signed, of "()"]

theorem final_admission_proves_the_chain_witness:
  "signed_by sample_oc (sample_word CHR ''d'') (hp_admissionSignature sample_participant) sample_originated_wallet"
  using final_admission_proves_the_chain [OF sample_chain] by (auto simp: honest_verified_admission_def sample_participant_def)

theorem authorization_chain_is_short_lived_witness: "(1200 :: int) < hp_expiresAt sample_participant \<and> hp_expiresAt sample_participant \<le> 1000 + 900"
  using authorization_chain_is_short_lived [OF sample_chain]
  by (auto simp: honest_verified_admission_def honest_admission_def honest_verified_registration_def honest_verified_intent_def honest_intent_def
    honest_registration_def sample_participant_def)

end
