(* ===== verification/Originated_Nonces.thy ===== *)
theory Originated_Nonces
  imports Originated_Chain
begin

text \<open>
  The participant-originated authorization beyond a single chain: what one digest can stand for, how nonces are spent over any
  sequence of calls, what the hiding commitment binds, and concrete runs of the three phases.
\<close>

subsection \<open>One digest, one statement\<close>

datatype originated_statement =
    Registration_of ParticipantSigningKeyRegistrationMessage
  | Intent_of ParticipantEncryptionIntentMessage
  | Admission_of ParticipantFinalEncryptedAdmissionMessage

fun originated_typed_data :: "(string \<Rightarrow> string) \<Rightarrow> originated_statement \<Rightarrow> int \<Rightarrow> TypedData result" where
  "originated_typed_data keccak (Registration_of m) c = participantSigningKeyRegistrationTypedData keccak m c"
| "originated_typed_data keccak (Intent_of m) c = participantEncryptionIntentTypedData keccak m c"
| "originated_typed_data keccak (Admission_of m) c = participantFinalEncryptedAdmissionTypedData keccak m c"

lemma phase_types_differ:
  "PARTICIPANT_SIGNING_KEY_REGISTRATION_PRIMARY_TYPE \<noteq> PARTICIPANT_ENCRYPTION_INTENT_PRIMARY_TYPE"
  "PARTICIPANT_SIGNING_KEY_REGISTRATION_PRIMARY_TYPE \<noteq> PARTICIPANT_FINAL_ENCRYPTED_ADMISSION_PRIMARY_TYPE"
  "PARTICIPANT_ENCRYPTION_INTENT_PRIMARY_TYPE \<noteq> PARTICIPANT_FINAL_ENCRYPTED_ADMISSION_PRIMARY_TYPE"
  by (simp_all add: PARTICIPANT_SIGNING_KEY_REGISTRATION_PRIMARY_TYPE_def PARTICIPANT_ENCRYPTION_INTENT_PRIMARY_TYPE_def
    PARTICIPANT_FINAL_ENCRYPTED_ADMISSION_PRIMARY_TYPE_def)

fun phase_type :: "originated_statement \<Rightarrow> string" where
  "phase_type (Registration_of m) = PARTICIPANT_SIGNING_KEY_REGISTRATION_PRIMARY_TYPE"
| "phase_type (Intent_of m) = PARTICIPANT_ENCRYPTION_INTENT_PRIMARY_TYPE"
| "phase_type (Admission_of m) = PARTICIPANT_FINAL_ENCRYPTED_ADMISSION_PRIMARY_TYPE"

lemma typed_data_phase: "originated_typed_data keccak x c = Inr td \<Longrightarrow> td_primaryType td = phase_type x"
  by (cases x) (simp_all add: typed_data_primary)

text \<open>What a wallet signs says one thing: two statements of the protocol with the same typed data are the same statement of the
  same phase on the same chain. A signature over a registration is never one over an intent or an admission.\<close>

theorem signed_statement_is_unambiguous:
  assumes "originated_typed_data keccak x c = Inr td" "originated_typed_data keccak y c' = Inr td"
  shows "x = y \<and> c = c'"
proof (cases "phase_type x = phase_type y")
  case True
  with assms phase_types_differ show ?thesis
    by (cases x; cases y) (auto dest: registration_typed_data_inj intent_typed_data_inj admission_typed_data_inj)
next
  case False
  then show ?thesis using typed_data_phase [OF assms(1)] typed_data_phase [OF assms(2)] by simp
qed

subsection \<open>Nonces\<close>

type_synonym nonce_key = "ParticipantOriginatedAuthorizationPhase \<times> string \<times> ParticipantRole \<times> string"

definition nonce_key_of :: "ParticipantOriginatedNonceReservation \<Rightarrow> nonce_key" where
  "nonce_key_of r = (nr_phase r, nr_runId r, nr_role r, nr_nonce r)"

text \<open>The documented duty of a nonce guard over its journal: it answers true only for a nonce that is not reserved yet, which it
  reserves, and it never forgets one.\<close>

definition reserving :: "('s \<Rightarrow> nonce_key set) \<Rightarrow> (ParticipantOriginatedNonceReservation \<Rightarrow> ('s, bool) action) \<Rightarrow> bool" where
  "reserving used g \<longleftrightarrow> (\<forall>r s t. g r s = (t, Inr True) \<longrightarrow> nonce_key_of r \<notin> used s \<and> nonce_key_of r \<in> used t)
     \<and> (\<forall>r s. used s \<subseteq> used (fst (g r s)))"

datatype originated_call =
    Register jsval ExpectedParticipantSigningKeyRegistrationContext
  | Intend jsval ExpectedParticipantEncryptionIntentContext
  | Admit jsval ExpectedParticipantFinalEncryptedAdmissionContext

text \<open>One call, and the nonce it accepted.\<close>

fun originated_step :: "originated_crypto \<Rightarrow> eoa_verifier \<Rightarrow> (ParticipantOriginatedNonceReservation \<Rightarrow> ('s, bool) action) \<Rightarrow> originated_call
     \<Rightarrow> ('s, nonce_key) action" where
  "originated_step oc verifier g (Register v ex) = abind (verifyParticipantSigningKeyRegistration oc v ex verifier (Some g))
     (\<lambda>r. alift (Inr (REGISTRATION, sk_runId (vs_registration r), sk_role (vs_registration r), sk_registrationNonce (vs_registration r))))"
| "originated_step oc verifier g (Intend v ex) = abind (verifyParticipantEncryptionIntent oc v ex verifier (Some g))
     (\<lambda>i. alift (Inr (INTENT, xi_runId (vi_intent i), xi_role (vi_intent i), xi_intentNonce (vi_intent i))))"
| "originated_step oc verifier g (Admit v ex) = abind (verifyParticipantFinalEncryptedAdmission oc v ex verifier (Some g))
     (\<lambda>a. alift (Inr (FINAL_ADMISSION, fa_runId (vf_admission a), fa_role (vf_admission a), fa_submissionNonce (vf_admission a))))"

fun originated_run :: "originated_crypto \<Rightarrow> eoa_verifier \<Rightarrow> (ParticipantOriginatedNonceReservation \<Rightarrow> ('s, bool) action) \<Rightarrow> originated_call list
     \<Rightarrow> 's \<Rightarrow> nonce_key list" where
  "originated_run oc verifier g [] s = []"
| "originated_run oc verifier g (call # calls) s = (case originated_step oc verifier g call s of
     (t, Inl _) \<Rightarrow> originated_run oc verifier g calls t
   | (t, Inr k) \<Rightarrow> k # originated_run oc verifier g calls t)"

lemma growing: "kept_relation (\<lambda>s t. used s \<subseteq> used t)"
  by (rule kept_relation.intro) auto

lemmas growing_intros = kept_relation.keeps_intros [OF growing]

lemma reservation_state: "fst (assertNonceReservation (Some g) r s) = fst (g r s)"
  by (simp add: assertNonceReservation_def split: prod.splits sum.splits)

lemma reservation_grows: "reserving used g \<Longrightarrow> keeps (\<lambda>s t. used s \<subseteq> used t) (assertNonceReservation (Some g) r)"
  by (simp add: reserving_def keeps_def reservation_state)

lemma no_reservation_grows: "keeps (\<lambda>s t. used s \<subseteq> used t) (assertNonceReservation None r)"
  by (simp add: keeps_def)

lemma step_grows: "reserving used g \<Longrightarrow> keeps (\<lambda>s t. used s \<subseteq> used t) (originated_step oc verifier g call)"
  by (cases call) (auto simp: verifyParticipantSigningKeyRegistration_def verifyParticipantEncryptionIntent_def
    verifyParticipantFinalEncryptedAdmission_def Let_def intro!: growing_intros reservation_grows no_reservation_grows simp del: no_reservation)

lemma registration_reserves:
  "verifyParticipantSigningKeyRegistration oc v ex verifier (Some g) s = (t, Inr r) \<Longrightarrow>
     \<exists>d. g \<lparr>nr_phase = REGISTRATION, nr_runId = sk_runId (vs_registration r), nr_role = sk_role (vs_registration r),
       nr_nonce = sk_registrationNonce (vs_registration r), nr_authorizationDigest = d\<rparr> s = (t, Inr True)"
  by (auto simp: verifyParticipantSigningKeyRegistration_def Let_def result_simps)

lemma intent_reserves:
  "verifyParticipantEncryptionIntent oc v ex verifier (Some g) s = (t, Inr i) \<Longrightarrow>
     \<exists>d. g \<lparr>nr_phase = INTENT, nr_runId = xi_runId (vi_intent i), nr_role = xi_role (vi_intent i),
       nr_nonce = xi_intentNonce (vi_intent i), nr_authorizationDigest = d\<rparr> s = (t, Inr True)"
  unfolding verifyParticipantEncryptionIntent_def Let_def abind_eq_Inr alift_ok assertNonceReservation_ok sum.inject
  by (elim exE conjE) (auto simp only: option.simps VerifiedParticipantEncryptionIntent.select_convs)

lemma intent_without_guard: "verifyParticipantEncryptionIntent oc v ex verifier None s = (t, Inr i) \<Longrightarrow> t = s"
  unfolding verifyParticipantEncryptionIntent_def Let_def by (auto simp: result_simps)

lemma admission_reserves:
  assumes "verifyParticipantFinalEncryptedAdmission oc v ex verifier (Some g) s = (t, Inr a)"
  shows "\<exists>d. g \<lparr>nr_phase = FINAL_ADMISSION, nr_runId = fa_runId (vf_admission a), nr_role = fa_role (vf_admission a),
       nr_nonce = fa_submissionNonce (vf_admission a), nr_authorizationDigest = d\<rparr> s = (t, Inr True)"
proof -
  from assms obtain q c i s' d u where "assertParticipantFinalEncryptedAdmissionRequest (oc_getAddress oc) v = Inr q" and i: "verifyParticipantEncryptionIntent oc (stored_intent_request (fc_intent ex)) (intent_context ex c) verifier None s = (s', Inr i)"
    and "participantFinalEncryptedAdmissionDigest oc (fq_admission q) c = Inr d"
    and g: "assertNonceReservation (Some g) \<lparr>nr_phase = FINAL_ADMISSION, nr_runId = fa_runId (fq_admission q), nr_role = fa_role (fq_admission q),
         nr_nonce = fa_submissionNonce (fq_admission q), nr_authorizationDigest = d\<rparr> s' = (t, Inr u)"
    and a: "vf_admission a = fq_admission q"
    unfolding verifyParticipantFinalEncryptedAdmission_def Let_def abind_eq_Inr alift_ok sum.inject
    apply clarify
    apply (rule that)
    apply (assumption | simp only: VerifiedParticipantFinalEncryptedAdmission.select_convs)+
    done
  from g have "g \<lparr>nr_phase = FINAL_ADMISSION, nr_runId = fa_runId (vf_admission a), nr_role = fa_role (vf_admission a),
         nr_nonce = fa_submissionNonce (vf_admission a), nr_authorizationDigest = d\<rparr> s = (t, Inr True)"
    unfolding assertNonceReservation_ok a intent_without_guard [OF i] by simp
  then show ?thesis ..
qed

lemma step_reserves:
  assumes "reserving used g" "originated_step oc verifier g call s = (t, Inr k)"
  shows "k \<notin> used s \<and> k \<in> used t"
proof -
  have "\<exists>r. g r s = (t, Inr True) \<and> nonce_key_of r = k"
    using assms(2) by (cases call) (auto simp: result_simps nonce_key_of_def dest!: registration_reserves intent_reserves admission_reserves)
  then show ?thesis using assms(1) unfolding reserving_def by blast
qed

text \<open>C38: A nonce is spent once. Over any sequence of calls of the three phases, whatever their requests and contexts, the accepted
  nonces of one phase, run and role are all different and none of them was reserved before, given a guard that keeps its
  documented duty.\<close>

theorem nonces_are_spent_once:
  assumes "reserving used g"
  shows "distinct (originated_run oc verifier g calls s) \<and> set (originated_run oc verifier g calls s) \<inter> used s = {}"
proof (induction calls arbitrary: s)
  case Nil
  then show ?case by simp
next
  case (Cons call calls)
  obtain t x where step: "originated_step oc verifier g call s = (t, x)" by fastforce
  have grown: "used s \<subseteq> used t" using step_grows [OF assms] step unfolding keeps_def by (metis fst_conv)
  show ?case
  proof (cases x)
    case (Inl e)
    then show ?thesis using step grown Cons.IH [of t] by auto
  next
    case (Inr k)
    then have "k \<notin> used s \<and> k \<in> used t" using step_reserves [OF assms] step by blast
    then show ?thesis using step grown Cons.IH [of t] Inr by auto
  qed
qed

subsection \<open>The hiding commitment\<close>

fun number_value :: "jsnum \<Rightarrow> int" where
  "number_value (NInt i) = i"
| "number_value _ = 0"

text \<open>The text that is hashed, of the claim as it was given.\<close>

definition commitment_text :: "ParticipantLocalClaimCommitmentInput \<Rightarrow> string" where
  "commitment_text inp = (let c = li_claim inp in digest_text PARTICIPANT_ORIGINATED_CLAIM_COMMITMENT_DOMAIN
     (originated_claim_json (li_runId inp) (li_fheCaseId inp) (li_role inp)
       (number_value (lc_activeFrom c), number_value (lc_activeUntil c), map number_value (lc_amount c), lc_currency c, lc_obligationId c,
        lc_receivableId c, lc_exclusive c, lc_receivableCommitment c) (li_salt inp)))"

lemma limbs_ok:
  "traverse (\<lambda>limb. exactNonNegativeInteger (VNumber limb) code) ls = Inr is \<Longrightarrow>
     ls = map NInt is \<and> (\<forall>i \<in> set is. isSafeInteger i \<and> 0 \<le> i)"
  by (induction ls arbitrary: "is") (auto simp: result_simps)

lemma commitment_ok:
  assumes "participantOriginatedClaimCommitment sha inp = Inr x"
  shows "\<exists>lo hi amount. lc_activeFrom (li_claim inp) = NInt lo \<and> lc_activeUntil (li_claim inp) = NInt hi
     \<and> lc_amount (li_claim inp) = map NInt amount \<and> (\<forall>i \<in> set amount. isSafeInteger i \<and> 0 \<le> i)
     \<and> x = ''0x'' @ sha (commitment_text inp)"
proof -
  from assms obtain lo hi amount where "lc_activeFrom (li_claim inp) = NInt lo" "lc_activeUntil (li_claim inp) = NInt hi"
    and amount: "traverse (\<lambda>limb. exactNonNegativeInteger (VNumber limb) ''CLAIM_AMOUNT'') (lc_amount (li_claim inp)) = Inr amount"
    and x: "x = sha256ExactBytes sha (PARTICIPANT_ORIGINATED_CLAIM_COMMITMENT_DOMAIN @ [CHR 0x00] @ canonicalJson
       (originated_claim_json (li_runId inp) (li_fheCaseId inp) (li_role inp)
         (lo, hi, amount, lc_currency (li_claim inp), lc_obligationId (li_claim inp), lc_receivableId (li_claim inp),
          lc_exclusive (li_claim inp), lc_receivableCommitment (li_claim inp)) (li_salt inp)))"
    unfolding participantOriginatedClaimCommitment_def Let_def by (auto simp: result_simps reader_defs)
  moreover have "map number_value (map NInt amount) = amount" by (induction amount) auto
  ultimately show ?thesis using limbs_ok [OF amount]
    by (auto simp: commitment_text_def Let_def digest_text_def sha256ExactBytes_def)
qed

lemma claim_json_inj:
  "sort_members (originated_claim_json run case_id role (f, u, a, cu, ob, rc, ex, co) salt)
     = sort_members (originated_claim_json run' case_id' role' (f', u', a', cu', ob', rc', ex', co') salt') \<longleftrightarrow>
   run = run' \<and> case_id = case_id' \<and> role = role' \<and> f = f' \<and> u = u' \<and> a = a' \<and> cu = cu' \<and> ob = ob' \<and> rc = rc' \<and> ex = ex' \<and> co = co' \<and> salt = salt'"
proof -
  have "map JNum a = map JNum a' \<longleftrightarrow> a = a'" by (simp add: inj_map_eq_map inj_def)
  then show ?thesis by (auto simp: originated_claim_json_def sort_members_record comp_def)
qed


text \<open>C40: Amounts above the safe integers have no commitment: a limb of \<open>2^53\<close> or more is refused, although the limbs of the
  native pledge are unsigned 64-bit numbers.\<close>

theorem large_limb_has_no_commitment:
  assumes "NInt limb \<in> set (lc_amount (li_claim inp))" "2 ^ 53 \<le> limb"
  shows "\<not> is_ok (participantOriginatedClaimCommitment sha inp)"
proof
  assume "is_ok (participantOriginatedClaimCommitment sha inp)"
  then obtain x where "participantOriginatedClaimCommitment sha inp = Inr x" by (auto simp: is_ok_iff)
  with commitment_ok obtain amount where "lc_amount (li_claim inp) = map NInt amount" "\<forall>i \<in> set amount. isSafeInteger i \<and> 0 \<le> i" by blast
  with assms show False by (auto simp: isSafeInteger_def MAX_SAFE_INTEGER_def)
qed

subsection \<open>Concrete inputs\<close>

definition sample_statement :: originated_statement where
  "sample_statement = Registration_of (honest_registration sample_oc sample_bundle sample_participant)"

theorem signed_statement_is_unambiguous_witness:
  "\<exists>td. originated_typed_data id sample_statement PARTICIPANT_ORIGINATED_CHAIN_ID = Inr td
     \<and> (\<forall>y c. originated_typed_data id y c \<noteq> Inr td \<or> y = sample_statement \<and> c = PARTICIPANT_ORIGINATED_CHAIN_ID)"
proof -
  obtain td where td: "originated_typed_data id sample_statement PARTICIPANT_ORIGINATED_CHAIN_ID = Inr td"
    by (auto simp: sample_statement_def participantSigningKeyRegistrationTypedData_def participantSigningKeyRegistrationDomain_def
      originated_domain_def sample_crypto_digest)
  then show ?thesis using signed_statement_is_unambiguous [OF td] by blast
qed

text \<open>A journal that is a set, and the same admission twice.\<close>

definition set_guard :: "ParticipantOriginatedNonceReservation \<Rightarrow> (nonce_key set, bool) action" where
  "set_guard r s = (insert (nonce_key_of r) s, Inr (nonce_key_of r \<notin> s))"

definition sample_call :: originated_call where
  "sample_call = Admit (signed_request PARTICIPANT_FINAL_ENCRYPTED_ADMISSION_SCHEMA ''admission''
       (admission_value (honest_admission sample_oc sample_bundle sample_participant (sample_word CHR ''b'') (sample_word CHR ''c'')))
       (hp_admissionSignature sample_participant))
     (honest_final_context sample_oc sample_bundle sample_participant
       (honest_verified_registration sample_oc sample_bundle sample_participant (sample_word CHR ''b''))
       (honest_verified_intent sample_oc sample_bundle sample_participant (sample_word CHR ''b'') (sample_word CHR ''c'')) 1200)"

lemma set_guard_reserving: "reserving id set_guard"
  by (auto simp: reserving_def set_guard_def)

theorem nonces_are_spent_once_witness:
  "distinct (originated_run sample_oc (verifyParticipantOriginatedEoaSignature sample_oc) set_guard [sample_call, sample_call] {})"
  using nonces_are_spent_once [OF set_guard_reserving] by blast

definition sample_claim_input :: "int \<Rightarrow> ParticipantLocalClaimCommitmentInput" where
  "sample_claim_input limb = \<lparr>li_runId = originated_sample_run, li_fheCaseId = sample_word CHR ''1'', li_role = PARTICIPANT_A,
     li_claim = \<lparr>lc_activeFrom = NInt 100, lc_activeUntil = NInt 400, lc_amount = [NInt 0, NInt 0, NInt 0, NInt limb], lc_currency = sample_word CHR ''2'',
       lc_obligationId = sample_word CHR ''3'', lc_receivableId = sample_word CHR ''4'', lc_exclusive = True, lc_receivableCommitment = zero_bytes32\<rparr>,
     li_salt = sample_word CHR ''5''\<rparr>"

lemma sample_claim_committed:
  "participantOriginatedClaimCommitment zero_sha (sample_claim_input 100000000) = Inr (''0x'' @ replicate 64 CHR ''0'')"
proof -
  have words: "nonzero_bytes32 (VString (sample_word c)) code = Inr (sample_word c)" if "c \<in> set ''123456789abcdef''" for c code
    using sample_word_digest [OF that] by (simp add: nonzero_bytes32_def string_matching_def digest32_def)
  have "exactBytes32AllowZero (VString zero_bytes32) code = Inr zero_bytes32" for code
    by (simp add: exactBytes32AllowZero_def string_matching_def zero_bytes32_def BYTES32_LOWER_def prefix_regex lower_hex_def list_all_iff)
  then show ?thesis
    by (simp add: participantOriginatedClaimCommitment_def sample_claim_input_def words exactRunId_def string_matching_def sample_texts exactRole_def
      isParticipantRole_def require_def exactNonNegativeInteger_def isSafeInteger_def MAX_SAFE_INTEGER_def sha256ExactBytes_def zero_sha_def)
qed


theorem large_limb_has_no_commitment_witness: "\<not> is_ok (participantOriginatedClaimCommitment zero_sha (sample_claim_input (2 ^ 53)))"
  using large_limb_has_no_commitment [of "2 ^ 53" "sample_claim_input (2 ^ 53)" zero_sha] by (simp add: sample_claim_input_def)

end
