(* ===== verification/Concurrent_Programs.thy ===== *)
theory Concurrent_Programs
  imports Mordant_Prelude
begin

text \<open>
  Code that several processes run against one disk.  A program is the tree of its system calls: a call and, for every
  reply, the rest.  The same program is run alone (\<open>run_alone\<close>) or beside others, with a crash possible between any two
  calls (\<open>conc_step\<close>).  The locales \<open>rely\<close> and \<open>rely_guarantee\<close> hold the proof rule for the second reading: a process
  whose calls keep their guards whatever its environment may do leaves the shared invariant intact.
\<close>

subsection \<open>Programs\<close>

datatype ('op, 'r, 'a) prog = Ret 'a | Op 'op "'r \<Rightarrow> ('op, 'r, 'a) prog"

primrec pbind :: "('op, 'r, 'a) prog \<Rightarrow> ('a \<Rightarrow> ('op, 'r, 'b) prog) \<Rightarrow> ('op, 'r, 'b) prog" where
  "pbind (Ret x) f = f x"
| "pbind (Op call k) f = Op call (\<lambda>r. pbind (k r) f)"

text \<open>Sequencing with errors as values, and \<^verbatim>\<open>try ... catch\<close>.\<close>

definition pthen :: "('op, 'r, 'a result) prog \<Rightarrow> ('a \<Rightarrow> ('op, 'r, 'b result) prog) \<Rightarrow> ('op, 'r, 'b result) prog" where
  "pthen m f = pbind m (\<lambda>x. case x of Inl e \<Rightarrow> Ret (Inl e) | Inr y \<Rightarrow> f y)"

definition pcatch :: "('op, 'r, 'a result) prog \<Rightarrow> (merror \<Rightarrow> ('op, 'r, 'a result) prog) \<Rightarrow> ('op, 'r, 'a result) prog" where
  "pcatch m h = pbind m (\<lambda>x. case x of Inl e \<Rightarrow> h e | Inr y \<Rightarrow> Ret (Inr y))"

definition plift :: "'a result \<Rightarrow> ('op, 'r, 'a result) prog" where
  "plift x = Ret x"

text \<open>\<^verbatim>\<open>for (const x of xs)\<close>, collecting what the body pushes.\<close>

primrec pfor :: "'a list \<Rightarrow> ('a \<Rightarrow> ('op, 'r, 'b list result) prog) \<Rightarrow> ('op, 'r, 'b list result) prog" where
  "pfor [] f = Ret (Inr [])"
| "pfor (x # xs) f = pthen (f x) (\<lambda>ys. pthen (pfor xs f) (\<lambda>zs. Ret (Inr (ys @ zs))))"

lemma pbind_Ret_right [simp]: "pbind m Ret = m"
  by (induction m) auto

lemma pbind_assoc: "pbind (pbind m f) g = pbind m (\<lambda>x. pbind (f x) g)"
  by (induction m) auto

lemma pthen_simps [simp]: "pthen (Ret (Inr x)) f = f x" "pthen (Ret (Inl e)) f = Ret (Inl e)" "pthen (Op call k) f = Op call (\<lambda>r. pthen (k r) f)"
  by (simp_all add: pthen_def)

lemma pcatch_simps [simp]: "pcatch (Ret (Inr x)) h = Ret (Inr x)" "pcatch (Ret (Inl e)) h = h e" "pcatch (Op call k) h = Op call (\<lambda>r. pcatch (k r) h)"
  by (simp_all add: pcatch_def)

lemma plift_simps [simp]: "plift (Inr x) = Ret (Inr x)" "plift (Inl e) = Ret (Inl e)"
  by (simp_all add: plift_def)

subsection \<open>A program alone\<close>

text \<open>\<open>io i\<close> is what the surroundings decide about the \<open>i\<close>-th call: that it succeeds, fails, or what a callback answers.\<close>

primrec run_alone :: "('op \<Rightarrow> 'io \<Rightarrow> 's \<Rightarrow> 's \<times> 'r) \<Rightarrow> ('op, 'r, 'a) prog \<Rightarrow> (nat \<Rightarrow> 'io) \<Rightarrow> 's \<Rightarrow> 's \<times> 'a" where
  "run_alone exec (Ret x) io s = (s, x)"
| "run_alone exec (Op call k) io s = (case exec call (io 0) s of (t, r) \<Rightarrow> run_alone exec (k r) (\<lambda>i. io (Suc i)) t)"

text \<open>How many calls a program makes under given circumstances.\<close>

primrec calls_made :: "('op \<Rightarrow> 'io \<Rightarrow> 's \<Rightarrow> 's \<times> 'r) \<Rightarrow> ('op, 'r, 'a) prog \<Rightarrow> (nat \<Rightarrow> 'io) \<Rightarrow> 's \<Rightarrow> nat" where
  "calls_made exec (Ret x) io s = 0"
| "calls_made exec (Op call k) io s = (case exec call (io 0) s of (t, r) \<Rightarrow> Suc (calls_made exec (k r) (\<lambda>i. io (Suc i)) t))"

lemma run_alone_pbind:
  "run_alone exec (pbind m f) io s
     = (case run_alone exec m io s of (t, x) \<Rightarrow> run_alone exec (f x) (\<lambda>i. io (calls_made exec m io s + i)) t)"
proof (induction m arbitrary: io s)
  case (Ret x)
  then show ?case by simp
next
  case (Op call k)
  obtain t r where "exec call (io 0) s = (t, r)" by fastforce
  then show ?case using Op.IH by simp
qed

lemma run_alone_steady:
  "run_alone exec (pbind m f) (\<lambda>_. c) s = (case run_alone exec m (\<lambda>_. c) s of (t, x) \<Rightarrow> run_alone exec (f x) (\<lambda>_. c) t)"
  by (simp add: run_alone_pbind)

lemma run_alone_pthen:
  "run_alone exec (pthen m f) (\<lambda>_. c) s = (case run_alone exec m (\<lambda>_. c) s of (t, Inl e) \<Rightarrow> (t, Inl e) | (t, Inr x) \<Rightarrow> run_alone exec (f x) (\<lambda>_. c) t)"
  by (auto simp: pthen_def run_alone_steady split: prod.splits sum.splits)

subsection \<open>Programs beside each other\<close>

type_synonym pid = int

text \<open>
  \<open>exec p\<close> is a call of process \<open>p\<close>; \<open>start p s t P\<close> says that \<open>p\<close> may begin \<open>P\<close>; \<open>crash p\<close> is what is lost with the
  memory of \<open>p\<close>; \<open>may call s\<close> restricts the schedules that are considered.
\<close>

inductive conc_step ::
  "(pid \<Rightarrow> 'op \<Rightarrow> 'io \<Rightarrow> 's \<Rightarrow> 's \<times> 'r) \<Rightarrow> (pid \<Rightarrow> 's \<Rightarrow> 's \<Rightarrow> ('op, 'r, 'a) prog \<Rightarrow> bool) \<Rightarrow> (pid \<Rightarrow> 's \<Rightarrow> 's) \<Rightarrow> ('op \<Rightarrow> 's \<Rightarrow> bool)
     \<Rightarrow> 's \<times> (pid \<Rightarrow> ('op, 'r, 'a) prog option) \<Rightarrow> 's \<times> (pid \<Rightarrow> ('op, 'r, 'a) prog option) \<Rightarrow> bool"
  for exec start crash may where
  act: "ps p = Some (Op call k) \<Longrightarrow> may call s \<Longrightarrow> exec p call io s = (t, r) \<Longrightarrow> conc_step exec start crash may (s, ps) (t, ps(p \<mapsto> k r))"
| begin_program: "ps p \<in> {None} \<union> {Some (Ret x) | x. True} \<Longrightarrow> start p s t P \<Longrightarrow> conc_step exec start crash may (s, ps) (t, ps(p \<mapsto> P))"
| crash_process: "ps p \<noteq> None \<Longrightarrow> conc_step exec start crash may (s, ps) (crash p s, ps(p := None))"

text \<open>A program that runs alone is a schedule in which only its process moves.\<close>

lemma run_alone_is_a_run:
  assumes "\<And>call s. may call s" "run_alone (exec p) P io s = (t, x)" "ps p = Some P"
  shows "(conc_step exec start crash may)\<^sup>*\<^sup>* (s, ps) (t, ps(p \<mapsto> Ret x))"
  using assms(2,3)
proof (induction P arbitrary: io s ps)
  case (Ret y)
  then have "ps(p \<mapsto> Ret x) = ps" by auto
  then show ?case using Ret by simp
next
  case (Op call k)
  obtain u r where u: "exec p call (io 0) s = (u, r)" by fastforce
  then have "conc_step exec start crash may (s, ps) (u, ps(p \<mapsto> k r))" using Op.prems assms(1) by (intro conc_step.act)
  moreover have "(conc_step exec start crash may)\<^sup>*\<^sup>* (u, ps(p \<mapsto> k r)) (t, ps(p \<mapsto> k r, p \<mapsto> Ret x))"
    using Op.prems(1) u by (intro Op.IH [where io = "\<lambda>i. io (Suc i)"]) auto
  ultimately have "(conc_step exec start crash may)\<^sup>*\<^sup>* (s, ps) (t, ps(p \<mapsto> k r, p \<mapsto> Ret x))" by (rule converse_rtranclp_into_rtranclp)
  then show ?case by (simp only: fun_upd_upd)
qed

subsection \<open>Rely and guarantee\<close>

text \<open>
  \<open>shared\<close> holds at every moment, \<open>relies p\<close> is what the others may do to the state as \<open>p\<close> sees it, \<open>guards p call\<close> is what
  \<open>p\<close> owes before a call.  \<open>fit p Q P s\<close>: from \<open>s\<close> on, whatever the others do, \<open>P\<close> honours its guards and returns in \<open>Q\<close>.
\<close>

primrec fit ::
  "(pid \<Rightarrow> 'op \<Rightarrow> 'io \<Rightarrow> 's \<Rightarrow> 's \<times> 'r) \<Rightarrow> ('op \<Rightarrow> 's \<Rightarrow> bool) \<Rightarrow> ('s \<Rightarrow> bool) \<Rightarrow> (pid \<Rightarrow> 's \<Rightarrow> 's \<Rightarrow> bool) \<Rightarrow> (pid \<Rightarrow> 'op \<Rightarrow> 's \<Rightarrow> bool)
     \<Rightarrow> pid \<Rightarrow> ('a \<Rightarrow> 's \<Rightarrow> bool) \<Rightarrow> ('op, 'r, 'a) prog \<Rightarrow> 's \<Rightarrow> bool" where
  "fit exec may shared relies guards p Q (Ret x) = (\<lambda>s. Q x s)"
| "fit exec may shared relies guards p Q (Op call k) = (\<lambda>s. \<forall>t. shared t \<longrightarrow> relies p s t \<longrightarrow> guards p call t
     \<and> (\<forall>io u r. may call t \<longrightarrow> exec p call io t = (u, r) \<longrightarrow> fit exec may shared relies guards p Q (k r) u))"

locale rely =
  fixes exec :: "pid \<Rightarrow> 'op \<Rightarrow> 'io \<Rightarrow> 's \<Rightarrow> 's \<times> 'r"
    and may :: "'op \<Rightarrow> 's \<Rightarrow> bool"
    and shared :: "'s \<Rightarrow> bool"
    and relies :: "pid \<Rightarrow> 's \<Rightarrow> 's \<Rightarrow> bool"
    and guards :: "pid \<Rightarrow> 'op \<Rightarrow> 's \<Rightarrow> bool"
  assumes relies_refl: "relies p s s"
    and relies_trans: "relies p s t \<Longrightarrow> relies p t u \<Longrightarrow> relies p s u"
begin

lemma fit_relies:
  assumes "fit exec may shared relies guards p (\<lambda>_ _. True) P s" "relies p s t"
  shows "fit exec may shared relies guards p (\<lambda>_ _. True) P t"
proof (cases P)
  case (Op call k)
  then show ?thesis using assms by (simp, meson relies_trans)
qed simp

lemma fit_pbind:
  assumes "fit exec may shared relies guards p Q m s" "\<And>x t. Q x t \<Longrightarrow> fit exec may shared relies guards p Q' (f x) t"
  shows "fit exec may shared relies guards p Q' (pbind m f) s"
  using assms(1)
proof (induction m arbitrary: s)
  case (Ret x)
  then show ?case using assms(2) by simp
next
  case (Op call k)
  then show ?case by simp
qed

lemma fit_mono: "fit exec may shared relies guards p Q P s \<Longrightarrow> (\<And>x t. Q x t \<Longrightarrow> Q' x t) \<Longrightarrow> fit exec may shared relies guards p Q' P s"
  using fit_pbind [where f = Ret and Q' = Q'] by fastforce

lemma fit_pthen:
  assumes "fit exec may shared relies guards p (\<lambda>x t. case x of Inl e \<Rightarrow> Q' (Inl e) t | Inr y \<Rightarrow> Q y t) m s" "\<And>y t. Q y t \<Longrightarrow> fit exec may shared relies guards p Q' (f y) t"
  shows "fit exec may shared relies guards p Q' (pthen m f) s"
  unfolding pthen_def by (rule fit_pbind [OF assms(1)]) (auto split: sum.splits intro: assms(2))

lemma fit_pcatch:
  assumes "fit exec may shared relies guards p (\<lambda>x t. case x of Inl e \<Rightarrow> Q e t | Inr y \<Rightarrow> Q' (Inr y) t) m s" "\<And>e t. Q e t \<Longrightarrow> fit exec may shared relies guards p Q' (h e) t"
  shows "fit exec may shared relies guards p Q' (pcatch m h) s"
  unfolding pcatch_def by (rule fit_pbind [OF assms(1)]) (auto split: sum.splits intro: assms(2))

text \<open>A condition the others keep lasts until the next call.\<close>

lemma fit_Op:
  assumes "A s" "\<And>t. A s \<Longrightarrow> relies p s t \<Longrightarrow> A t"
    and "\<And>t. shared t \<Longrightarrow> A t \<Longrightarrow> guards p call t"
    and "\<And>t io u r. shared t \<Longrightarrow> A t \<Longrightarrow> may call t \<Longrightarrow> exec p call io t = (u, r) \<Longrightarrow> fit exec may shared relies guards p Q (k r) u"
  shows "fit exec may shared relies guards p Q (Op call k) s"
  using assms by auto

text \<open>A condition the others keep, carried through a loop.\<close>

lemma fit_pfor:
  assumes "A s" "\<And>x t. x \<in> set xs \<Longrightarrow> A t \<Longrightarrow> fit exec may shared relies guards p (\<lambda>y u. A u) (f x) t"
  shows "fit exec may shared relies guards p (\<lambda>y u. A u) (pfor xs f) s"
  using assms
proof (induction xs arbitrary: s)
  case Nil
  then show ?case by simp
next
  case (Cons x xs)
  show ?case
    unfolding pfor.simps
  proof (rule fit_pthen [where Q = "\<lambda>y. A"])
    show "fit exec may shared relies guards p (\<lambda>y u. case y of Inl e \<Rightarrow> A u | Inr z \<Rightarrow> A u) (f x) s"
      using Cons.prems(2) [of x s] Cons.prems(1) by (auto intro: fit_mono split: sum.splits)
    fix ys t assume "A t"
    then have "fit exec may shared relies guards p (\<lambda>y. A) (pfor xs f) t" using Cons.IH Cons.prems(2) by simp
    then show "fit exec may shared relies guards p (\<lambda>y. A) (pthen (pfor xs f) (\<lambda>zs. Ret (Inr (ys @ zs)))) t"
      by (intro fit_pthen [where Q = "\<lambda>y. A"]) (auto intro: fit_mono split: sum.splits)
  qed
qed

end

text \<open>Every process is alive and fit, and the invariant holds.\<close>

definition sound_system where
  "sound_system exec may shared relies guards live x \<longleftrightarrow> shared (fst x)
     \<and> (\<forall>p P. snd x p = Some P \<longrightarrow> live p (fst x) \<and> fit exec may shared relies guards p (\<lambda>_ _. True) P (fst x))"

locale rely_guarantee = rely exec may shared relies guards
  for exec :: "pid \<Rightarrow> 'op \<Rightarrow> 'io \<Rightarrow> 's \<Rightarrow> 's \<times> 'r"
    and may :: "'op \<Rightarrow> 's \<Rightarrow> bool" and shared relies guards +
  fixes start :: "pid \<Rightarrow> 's \<Rightarrow> 's \<Rightarrow> ('op, 'r, 'a) prog \<Rightarrow> bool"
    and crash :: "pid \<Rightarrow> 's \<Rightarrow> 's"
    and live :: "pid \<Rightarrow> 's \<Rightarrow> bool"
  assumes act_shared: "shared s \<Longrightarrow> live p s \<Longrightarrow> guards p call s \<Longrightarrow> may call s \<Longrightarrow> exec p call io s = (t, r) \<Longrightarrow> shared t"
    and act_relies: "shared s \<Longrightarrow> live p s \<Longrightarrow> guards p call s \<Longrightarrow> may call s \<Longrightarrow> exec p call io s = (t, r) \<Longrightarrow> live q s \<Longrightarrow> q \<noteq> p \<Longrightarrow> relies q s t"
    and act_live: "exec p call io s = (t, r) \<Longrightarrow> live q t = live q s"
    and start_shared: "shared s \<Longrightarrow> start p s t P \<Longrightarrow> shared t"
    and start_relies: "shared s \<Longrightarrow> start p s t P \<Longrightarrow> live q s \<Longrightarrow> q \<noteq> p \<Longrightarrow> relies q s t"
    and start_live: "start p s t P \<Longrightarrow> live p t \<and> (live q s \<longrightarrow> live q t)"
    and start_fits: "shared s \<Longrightarrow> start p s t P \<Longrightarrow> fit exec may shared relies guards p (\<lambda>_ _. True) P t"
    and crash_shared: "shared s \<Longrightarrow> shared (crash p s)"
    and crash_relies: "shared s \<Longrightarrow> live q s \<Longrightarrow> q \<noteq> p \<Longrightarrow> relies q s (crash p s)"
    and crash_live: "q \<noteq> p \<Longrightarrow> live q (crash p s) = live q s"
begin

lemma sound_others:
  assumes "sound_system exec may shared relies guards live (s, ps)" "ps q = Some P"
  shows "live q s" and "relies q s t \<Longrightarrow> fit exec may shared relies guards q (\<lambda>_ _. True) P t"
proof -
  have s: "live q s" "fit exec may shared relies guards q (\<lambda>_ _. True) P s" using assms unfolding sound_system_def fst_conv snd_conv by blast+
  then show "live q s" "relies q s t \<Longrightarrow> fit exec may shared relies guards q (\<lambda>_ _. True) P t" using fit_relies by blast+
qed

lemma sound_step:
  assumes "conc_step exec start crash may x y" "sound_system exec may shared relies guards live x"
  shows "sound_system exec may shared relies guards live y"
  using assms
proof (induction rule: conc_step.induct)
  case (act ps p call k s io t r)
  then have s: "shared s" "live p s" and fitp: "fit exec may shared relies guards p (\<lambda>_ _. True) (Op call k) s" unfolding sound_system_def fst_conv snd_conv by blast+
  then have g: "guards p call s" and next_fit: "fit exec may shared relies guards p (\<lambda>_ _. True) (k r) t" using act(2,3) relies_refl by auto
  have "fit exec may shared relies guards q (\<lambda>_ _. True) P t" if "q \<noteq> p" "ps q = Some P" for q P
    using sound_others [OF act(4) that(2)] act_relies [OF s g act(2,3) _ that(1)] by blast
  then show ?case using next_fit act_shared [OF s g act(2,3)] act_live [OF act(3)] act(4) s by (auto simp: sound_system_def)
next
  case (begin_program ps p s t P)
  have s: "shared s" using begin_program by (simp add: sound_system_def)
  have "fit exec may shared relies guards q (\<lambda>_ _. True) P' t" if "q \<noteq> p" "ps q = Some P'" for q P'
    using sound_others [OF begin_program(3) that(2)] start_relies [OF s begin_program(2) _ that(1)] by blast
  then show ?case
    using start_shared [OF s begin_program(2)] start_fits [OF s begin_program(2)] start_live [OF begin_program(2)] begin_program(3) by (auto simp: sound_system_def)
next
  case (crash_process ps p s)
  have s: "shared s" using crash_process by (simp add: sound_system_def)
  have "fit exec may shared relies guards q (\<lambda>_ _. True) P (crash p s)" if "q \<noteq> p" "ps q = Some P" for q P
    using sound_others [OF crash_process(2) that(2)] crash_relies [OF s _ that(1)] by blast
  then show ?case using crash_shared [OF s] crash_live crash_process(2) by (auto simp: sound_system_def)
qed

lemma sound_step_cases:
  assumes "conc_step exec start crash may x y" "sound_system exec may shared relies guards live x"
  obtains (call) p call io r where "guards p call (fst x)" "may call (fst x)" "exec p call io (fst x) = (fst y, r)"
    | (start) p P where "start p (fst x) (fst y) P"
    | (crash) p where "fst y = crash p (fst x)"
  using assms(1)
proof (cases rule: conc_step.cases)
  case (act ps p call k s io t r)
  then have "fit exec may shared relies guards p (\<lambda>_ _. True) (Op call k) s" "shared s"
    using assms(2) unfolding sound_system_def act(1) fst_conv snd_conv by blast+
  then have "guards p call s" using relies_refl by auto
  then show ?thesis using act that(1) by simp
qed (use that(2,3) in auto)

lemma sound_run: "(conc_step exec start crash may)\<^sup>*\<^sup>* x y \<Longrightarrow> sound_system exec may shared relies guards live x \<Longrightarrow> sound_system exec may shared relies guards live y"
  by (induction rule: rtranclp_induct) (auto intro: sound_step)

lemma run_shared:
  "(conc_step exec start crash may)\<^sup>*\<^sup>* (s, \<lambda>_. None) (t, ps) \<Longrightarrow> shared s \<Longrightarrow> shared t"
  using sound_run [of "(s, \<lambda>_. None)" "(t, ps)"] by (simp add: sound_system_def)

end

end
