(* ===== verification/Originated_Coordinator.thy ===== *)
theory Originated_Coordinator
  imports Concurrent_Programs Direct_Evidence
begin

text \<open>
  The transport of participant-originated ciphertexts (\<^verbatim>\<open>scripts/participant-originated-coordinator.mjs\<close>): the check of
  the import metadata, the reservation transaction that claims a ticket, a role and three nonces on disk, its rollback
  and recovery, the two uploads, the verification and publication of a staged import, and the recovery after a restart.

  Every handler is a program over system calls (theory \<^verbatim>\<open>Concurrent_Programs\<close>), because several coordinators may work on
  one directory and each may die between two calls.  A state file is the JSON document it holds: it is written as its
  canonical text by a link from a finished temporary file, so it is never half written, and it is only read through its
  members or compared by its canonical text.  The callbacks (authentication, staging, verification, publication,
  reconciliation), the clock and SHA-256 are parameters; their answers are decided by the surroundings of a call.
\<close>

subsection \<open>Constants\<close>

definition PARTICIPANT_ORIGINATED_COORDINATOR_SCHEMA :: string where
  "PARTICIPANT_ORIGINATED_COORDINATOR_SCHEMA = ''mordant.participant-originated-coordinator/1''"

definition PARTICIPANT_ORIGINATED_IMPORT_SCHEMA :: string where
  "PARTICIPANT_ORIGINATED_IMPORT_SCHEMA = ''mordant.participant-originated-import/1''"

definition PARTICIPANT_ORIGINATED_JOURNAL_SCHEMA :: string where
  "PARTICIPANT_ORIGINATED_JOURNAL_SCHEMA = ''mordant.participant-originated-import-journal/1''"

definition PARTICIPANT_ORIGINATED_CIPHERTEXT_CONTENT_TYPE :: string where
  "PARTICIPANT_ORIGINATED_CIPHERTEXT_CONTENT_TYPE = ''application/octet-stream''"

definition PARTICIPANT_ORIGINATED_MANIFEST_CONTENT_TYPE :: string where
  "PARTICIPANT_ORIGINATED_MANIFEST_CONTENT_TYPE = ''application/json''"

definition PARTICIPANT_ORIGINATED_MAX_METADATA_BYTES :: nat where
  "PARTICIPANT_ORIGINATED_MAX_METADATA_BYTES = 64 * 1024"

definition PARTICIPANT_ORIGINATED_MAX_MANIFEST_BYTES :: int where
  "PARTICIPANT_ORIGINATED_MAX_MANIFEST_BYTES = 2 * 1024 * 1024"

definition PARTICIPANT_ORIGINATED_MAX_CIPHERTEXT_BYTES :: int where
  "PARTICIPANT_ORIGINATED_MAX_CIPHERTEXT_BYTES = 192 * 1024 * 1024"

definition PARTICIPANT_ORIGINATED_MAX_AUTH_LIFETIME_SECONDS :: int where
  "PARTICIPANT_ORIGINATED_MAX_AUTH_LIFETIME_SECONDS = 15 * 60"

definition PARTICIPANT_ORIGINATED_CLOCK_SKEW_SECONDS :: int where
  "PARTICIPANT_ORIGINATED_CLOCK_SKEW_SECONDS = 120"

definition PARTICIPANT_ORIGINATED_RESERVATION_TRANSACTION_SCHEMA :: string where
  "PARTICIPANT_ORIGINATED_RESERVATION_TRANSACTION_SCHEMA = ''mordant.participant-originated-reservation-transaction/1''"

definition PARTICIPANT_ORIGINATED_RESERVATION_COMMIT_SCHEMA :: string where
  "PARTICIPANT_ORIGINATED_RESERVATION_COMMIT_SCHEMA = ''mordant.participant-originated-reservation-commit/1''"

definition METADATA_MEMBERS :: "string list" where
  "METADATA_MEMBERS = [
     ''schemaVersion'', ''runId'', ''fheCaseId'', ''role'', ''participantWallet'', ''chainId'',
     ''participantSigningKeyDigest'', ''registrationDigest'', ''encryptionIntentDigest'',
     ''finalAdmissionDigest'', ''claimCommitment'', ''clientBundleDigest'', ''encryptedArtifactDigest'',
     ''artifactObjectDigest'', ''artifactObjectLength'', ''ciphertextObjectDigest'', ''ciphertextObjectLength'',
     ''registrationNonce'', ''intentNonce'', ''submissionNonce'', ''issuedAt'', ''expiresAt'', ''walletAuthorizationChain'']"

definition AUTHORIZATION_MEMBERS :: "string list" where
  "AUTHORIZATION_MEMBERS = [''registration'', ''encryptionIntent'', ''finalAdmission'']"

definition SIGNED_AUTHORIZATION_MEMBERS :: "string list" where
  "SIGNED_AUTHORIZATION_MEMBERS = [''schemaVersion'', ''message'', ''signature'']"

definition DIGEST_MEMBERS :: "string list" where
  "DIGEST_MEMBERS = [''participantSigningKeyDigest'', ''registrationDigest'', ''encryptionIntentDigest'', ''finalAdmissionDigest'',
     ''claimCommitment'', ''clientBundleDigest'', ''encryptedArtifactDigest'', ''artifactObjectDigest'', ''ciphertextObjectDigest'',
     ''registrationNonce'', ''intentNonce'', ''submissionNonce'']"

definition FORBIDDEN_MEMBER :: "string list" where
  "FORBIDDEN_MEMBER = [''claim'', ''activefrom'', ''activeuntil'', ''salt'', ''privatekey'', ''participantprivatekey'',
     ''artifactsigningprivatekey'', ''signingprivatekey'', ''plaintext'', ''claimpreimage'']"

definition coordinator_error :: "nat \<Rightarrow> string \<Rightarrow> merror" where
  "coordinator_error status code = ParticipantOriginatedCoordinatorError code status"

definition participantFilenames :: "string \<Rightarrow> (string \<times> string) result" where
  "participantFilenames role =
     (if role = ''PARTICIPANT_A'' then Inr (''submission-a.bin'', ''submission-a.json'')
      else if role = ''PARTICIPANT_B'' then Inr (''submission-b.bin'', ''submission-b.json'')
      else Inl (coordinator_error 400 ''ROLE''))"

subsection \<open>JavaScript values\<close>

text \<open>\<^verbatim>\<open>String(v)\<close>, which \<^verbatim>\<open>RegExp.prototype.test\<close> and template literals apply to a value that is not a string.\<close>

fun js_string :: "json \<Rightarrow> string" where
  "js_string JNull = ''null''"
| "js_string (JBool b) = (if b then ''true'' else ''false'')"
| "js_string (JNum i) = show_int i"
| "js_string (JStr s) = s"
| "js_string (JArr vs) = join_comma (map (\<lambda>v. if v = JNull then [] else js_string v) vs)"
| "js_string (JObj kvs) = ''[object Object]''"

definition member_text :: "json \<Rightarrow> string \<Rightarrow> string" where
  "member_text v k = (case jfield v k of None \<Rightarrow> ''undefined'' | Some w \<Rightarrow> js_string w)"

definition member_matches :: "(char \<Rightarrow> bool) list \<Rightarrow> json \<Rightarrow> string \<Rightarrow> bool" where
  "member_matches pattern v k = fixed_regex pattern (member_text v k)"

definition safe_member :: "json \<Rightarrow> string \<Rightarrow> int option" where
  "safe_member v k = (case jfield v k of Some (JNum i) \<Rightarrow> if isSafeInteger i then Some i else None | _ \<Rightarrow> None)"

fun js_primitive :: "json \<Rightarrow> bool" where
  "js_primitive (JArr vs) = False"
| "js_primitive (JObj kvs) = False"
| "js_primitive v = True"

text \<open>\<^verbatim>\<open>===\<close> between members of two different documents: objects of two parses are never identical.\<close>

definition js_same :: "json option \<Rightarrow> json option \<Rightarrow> bool" where
  "js_same a b = (a = b \<and> (case a of None \<Rightarrow> True | Some v \<Rightarrow> js_primitive v))"

definition has_exactKeys :: "json option \<Rightarrow> string list \<Rightarrow> bool" where
  "has_exactKeys v members = (case v of Some doc \<Rightarrow> is_jobject doc \<and> sort (jkeys doc) = sort members | None \<Rightarrow> False)"

definition hex_text64 :: "string \<Rightarrow> bool" where
  "hex_text64 s = fixed_regex (replicate 64 lower_hex) s"

definition SIGNATURE_pattern :: "string \<Rightarrow> bool" where
  "SIGNATURE_pattern s = (take 2 s = ''0x'' \<and> list_all any_hex (drop 2 s) \<and> even (length s) \<and> 4 \<le> length s \<and> length s \<le> 8194)"

definition base64url_char :: "char \<Rightarrow> bool" where
  "base64url_char c = (c \<in> set ''ABCDEFGHIJKLMNOPQRSTUVWXYZabcdefghijklmnopqrstuvwxyz0123456789_-'')"

definition TICKET_pattern :: "string \<Rightarrow> bool" where
  "TICKET_pattern s = fixed_regex (replicate 43 base64url_char) s"

text \<open>\<^verbatim>\<open>Buffer.byteLength\<close> of a text: code units from 128 on take two bytes in UTF-8.\<close>

definition byteLength :: "string \<Rightarrow> nat" where
  "byteLength s = sum_list (map (\<lambda>c. if of_char c < (128 :: nat) then 1 else 2) s)"

definition forbidden_name :: "string \<Rightarrow> bool" where
  "forbidden_name k = (filter (\<lambda>c. c \<noteq> CHR ''-'' \<and> c \<noteq> CHR ''_'') (toLowerCase k) \<in> set FORBIDDEN_MEMBER)"

fun scanForbiddenMembers :: "json \<Rightarrow> unit result" where
  "scanForbiddenMembers (JArr vs) = ebind (traverse scanForbiddenMembers vs) (\<lambda>_. Inr ())"
| "scanForbiddenMembers (JObj kvs) = ebind (traverse (\<lambda>kv. if forbidden_name (fst kv) then Inl (coordinator_error 400 ''PLAINTEXT_FIELD'')
     else scanForbiddenMembers (snd kv)) kvs) (\<lambda>_. Inr ())"
| "scanForbiddenMembers v = Inr ()"

fun json_bounds :: "nat \<Rightarrow> json \<Rightarrow> unit result" where
  "json_bounds depth v =
     (if depth > 32 then Inl (coordinator_error 400 ''JSON_DEPTH'') else
      case v of
        JNum i \<Rightarrow> check (isSafeInteger i) (coordinator_error 400 ''JSON_NUMBER'')
      | JArr vs \<Rightarrow> ebind (traverse (json_bounds (depth + 1)) vs) (\<lambda>_. Inr ())
      | JObj kvs \<Rightarrow> ebind (traverse (\<lambda>kv. json_bounds (depth + 1) (snd kv)) kvs) (\<lambda>_. Inr ())
      | _ \<Rightarrow> Inr ())"

definition coordinator_canonicalJson :: "json \<Rightarrow> string result" where
  "coordinator_canonicalJson v = ebind (json_bounds 0 (sort_members v)) (\<lambda>_. Inr (canonicalJson v))"

definition sha256Bytes :: "(string \<Rightarrow> string) \<Rightarrow> string \<Rightarrow> string" where
  "sha256Bytes sha s = ''0x'' @ sha s"

subsection \<open>The import metadata\<close>

definition assert_times :: "json \<Rightarrow> int \<Rightarrow> unit result" where
  "assert_times v nowSeconds = (case (safe_member v ''issuedAt'', safe_member v ''expiresAt'') of
     (Some issuedAt, Some expiresAt) \<Rightarrow>
       ebind (check (\<not> (issuedAt \<le> 0 \<or> expiresAt \<le> issuedAt)) (coordinator_error 400 ''EXPIRY'')) (\<lambda>_.
       ebind (check (\<not> expiresAt \<le> nowSeconds) (coordinator_error 410 ''EXPIRED'')) (\<lambda>_.
       check (\<not> (issuedAt > nowSeconds + PARTICIPANT_ORIGINATED_CLOCK_SKEW_SECONDS
           \<or> expiresAt - issuedAt > PARTICIPANT_ORIGINATED_MAX_AUTH_LIFETIME_SECONDS)) (coordinator_error 400 ''EXPIRY'')))
   | _ \<Rightarrow> Inl (coordinator_error 400 ''EXPIRY''))"

definition signed_authorization_ok :: "json option \<Rightarrow> bool" where
  "signed_authorization_ok signed = (has_exactKeys signed SIGNED_AUTHORIZATION_MEMBERS \<and> (case signed of None \<Rightarrow> False | Some s \<Rightarrow>
     (case jfield s ''schemaVersion'' of Some (JStr t) \<Rightarrow> t \<noteq> [] \<and> length t \<le> 128 | _ \<Rightarrow> False)
     \<and> (case jfield s ''message'' of Some m \<Rightarrow> is_jobject m | None \<Rightarrow> False)
     \<and> SIGNATURE_pattern (member_text s ''signature'')))"

definition assertMetadata :: "json \<Rightarrow> int \<Rightarrow> json result" where
  "assertMetadata v nowSeconds =
     ebind (scanForbiddenMembers v) (\<lambda>_.
     ebind (check (has_exactKeys (Some v) METADATA_MEMBERS) (coordinator_error 400 ''METADATA_SHAPE'')) (\<lambda>_.
     ebind (check (jfield v ''schemaVersion'' = Some (JStr PARTICIPANT_ORIGINATED_IMPORT_SCHEMA)) (coordinator_error 400 ''METADATA_SCHEMA'')) (\<lambda>_.
     ebind (check (member_matches UUID_PATTERN v ''runId'') (coordinator_error 400 ''RUN_ID'')) (\<lambda>_.
     ebind (check (member_matches BYTES32_LOWER v ''fheCaseId''
         \<and> jfield v ''role'' \<in> {Some (JStr ''PARTICIPANT_A''), Some (JStr ''PARTICIPANT_B'')}) (coordinator_error 400 ''CASE_ROLE'')) (\<lambda>_.
     ebind (check (member_matches ADDRESS_ANY v ''participantWallet''
         \<and> (case safe_member v ''chainId'' of Some i \<Rightarrow> \<not> i \<le> 0 | None \<Rightarrow> False)) (coordinator_error 400 ''WALLET'')) (\<lambda>_.
     ebind (check (list_all (member_matches BYTES32_LOWER v) DIGEST_MEMBERS) (coordinator_error 400 ''DIGEST'')) (\<lambda>_.
     ebind (check (case safe_member v ''ciphertextObjectLength'' of Some i \<Rightarrow> \<not> i \<le> 0 \<and> \<not> i > PARTICIPANT_ORIGINATED_MAX_CIPHERTEXT_BYTES
         | None \<Rightarrow> False) (coordinator_error 400 ''CIPHERTEXT_LENGTH'')) (\<lambda>_.
     ebind (check (case safe_member v ''artifactObjectLength'' of Some i \<Rightarrow> \<not> i \<le> 0 \<and> \<not> i > PARTICIPANT_ORIGINATED_MAX_MANIFEST_BYTES
         | None \<Rightarrow> False) (coordinator_error 400 ''MANIFEST_LENGTH'')) (\<lambda>_.
     ebind (assert_times v nowSeconds) (\<lambda>_.
     ebind (check (has_exactKeys (jfield v ''walletAuthorizationChain'') AUTHORIZATION_MEMBERS) (coordinator_error 400 ''AUTHORIZATION_SHAPE'')) (\<lambda>_.
     ebind (check (list_all (\<lambda>phase. signed_authorization_ok (Option.bind (jfield v ''walletAuthorizationChain'') (\<lambda>chain. jfield chain phase)))
         AUTHORIZATION_MEMBERS) (coordinator_error 400 ''AUTHORIZATION'')) (\<lambda>_.
     Inr v))))))))))))"

definition signed_message :: "json \<Rightarrow> string \<Rightarrow> json option" where
  "signed_message metadata phase = Option.bind (Option.bind (jfield metadata ''walletAuthorizationChain'') (\<lambda>chain. jfield chain phase))
     (\<lambda>signed. jfield signed ''message'')"

text \<open>Which members of the metadata each signed message repeats.\<close>

definition PROJECTION :: "(string \<times> string) list" where
  "PROJECTION = [
     (''runId'', ''registration''), (''runId'', ''encryptionIntent''), (''runId'', ''finalAdmission''),
     (''fheCaseId'', ''registration''), (''fheCaseId'', ''encryptionIntent''), (''fheCaseId'', ''finalAdmission''),
     (''role'', ''registration''), (''role'', ''encryptionIntent''), (''role'', ''finalAdmission''),
     (''participantWallet'', ''registration''), (''participantWallet'', ''encryptionIntent''), (''participantWallet'', ''finalAdmission''),
     (''participantSigningKeyDigest'', ''registration''), (''participantSigningKeyDigest'', ''encryptionIntent''),
     (''participantSigningKeyDigest'', ''finalAdmission''), (''registrationDigest'', ''encryptionIntent''), (''registrationDigest'', ''finalAdmission''),
     (''encryptionIntentDigest'', ''finalAdmission''), (''claimCommitment'', ''encryptionIntent''), (''claimCommitment'', ''finalAdmission''),
     (''clientBundleDigest'', ''encryptionIntent''), (''clientBundleDigest'', ''finalAdmission''), (''encryptedArtifactDigest'', ''finalAdmission''),
     (''ciphertextObjectDigest'', ''finalAdmission''), (''ciphertextObjectLength'', ''finalAdmission''), (''registrationNonce'', ''registration''),
     (''intentNonce'', ''encryptionIntent''), (''submissionNonce'', ''finalAdmission''), (''issuedAt'', ''finalAdmission''), (''expiresAt'', ''finalAdmission'')]"

definition assertSignedMetadataProjection :: "json \<Rightarrow> json result" where
  "assertSignedMetadataProjection metadata =
     ebind (check (list_all (\<lambda>(name, phase). js_same (jfield metadata name) (Option.bind (signed_message metadata phase) (\<lambda>m. jfield m name))) PROJECTION)
       (coordinator_error 400 ''AUTHORIZATION_PROJECTION'')) (\<lambda>_. Inr metadata)"

subsection \<open>The disk and the system calls\<close>

text \<open>
  A file holds a document, or the bytes of an encrypted object, or something that does not read back. \<open>iw_begun\<close> records
  which process began the transaction of a ticket, or \<open>None\<close> once that process has died; no code reads it.
\<close>

datatype stored_file = Document json | Object string | Unreadable

record import_world =
  iw_files :: "(string \<times> stored_file) list"
  iw_directories :: "string list"
  iw_journal :: "json list"
  iw_active :: "(pid \<times> string) list"
  iw_alive :: "pid list"
  iw_begun :: "(string \<times> pid option) list"
  iw_callbacks :: "(string \<times> string) list"

definition file_at :: "import_world \<Rightarrow> string \<Rightarrow> stored_file option" where
  "file_at w path = map_of (iw_files w) path"

datatype import_op =
    Exists string
  | ReadState string
  | CreateOnly string json
  | Unlink string json
  | ListFiles string
  | ProcessAlive pid
  | EnsureDirectory string
  | RemoveDirectory string
  | AppendJournal json
  | ActiveAdd string
  | ActiveDelete string
  | ActiveHas string
  | ReadObject string
  | Clock
  | Callback string string json
  | StageObject string string json

text \<open>
  What the surroundings decide about a call: whether it fails, before or after its effect (as in the final \<^verbatim>\<open>fsync\<close>), what the
  clock says, what a callback answers, which bytes a stager writes and in which order a directory is listed.
\<close>

datatype io_fault = NoFault | FailsBefore | FailsAfter

record import_io =
  io_fault :: io_fault
  io_time :: int
  io_answer :: "json option result"
  io_bytes :: "string option"
  io_order :: "string list"

datatype import_reply =
    RUnit
  | RBool bool
  | RFile "stored_file option"
  | RExists
  | RNames "string list"
  | RTime int
  | RAnswer "json option result"
  | RError

definition after_effect :: "import_io \<Rightarrow> import_reply" where
  "after_effect io = (if io_fault io = FailsAfter then RError else RUnit)"

definition names_in :: "string \<Rightarrow> import_world \<Rightarrow> string list" where
  "names_in dir w = [drop (length dir + 1) path. path \<leftarrow> map fst (iw_files w), take (length dir + 1) path = dir @ ''/'']"

text \<open>
  \<open>Unlink path seen\<close> removes what is at \<open>path\<close>; \<open>seen\<close> is the document the process read there before, and the call does
  not look at it. The order of a directory listing is not specified. An unlinked path that is already gone is an error.
\<close>

fun import_exec :: "pid \<Rightarrow> import_op \<Rightarrow> import_io \<Rightarrow> import_world \<Rightarrow> import_world \<times> import_reply" where
  "import_exec p (Exists path) io w = (w, RBool (file_at w path \<noteq> None \<or> path \<in> set (iw_directories w)))"
| "import_exec p (ReadState path) io w = (w, if io_fault io = FailsBefore then RError else RFile (file_at w path))"
| "import_exec p (CreateOnly path v) io w =
     (if io_fault io = FailsBefore then (w, RError)
      else if file_at w path \<noteq> None then (w, RExists)
      else (w\<lparr>iw_files := (path, Document v) # iw_files w\<rparr>, after_effect io))"
| "import_exec p (Unlink path seen) io w =
     (if io_fault io = FailsBefore \<or> file_at w path = None then (w, RError)
      else (w\<lparr>iw_files := filter (\<lambda>kv. fst kv \<noteq> path) (iw_files w)\<rparr>, after_effect io))"
| "import_exec p (ListFiles dir) io w = (w, if io_fault io = FailsBefore then RError
     else RNames (if set (io_order io) = set (names_in dir w) \<and> distinct (io_order io) then io_order io else names_in dir w))"
| "import_exec p (ProcessAlive q) io w = (w, RBool (q \<in> set (iw_alive w)))"
| "import_exec p (EnsureDirectory path) io w =
     (if io_fault io = FailsBefore then (w, RError) else (w\<lparr>iw_directories := path # iw_directories w\<rparr>, after_effect io))"
| "import_exec p (RemoveDirectory path) io w =
     (if io_fault io = FailsBefore then (w, RError) else (w\<lparr>iw_directories := filter (\<lambda>d. d \<noteq> path) (iw_directories w)\<rparr>, after_effect io))"
| "import_exec p (AppendJournal event) io w =
     (if io_fault io = FailsBefore then (w, RError) else (w\<lparr>iw_journal := iw_journal w @ [event]\<rparr>, after_effect io))"
| "import_exec p (ActiveAdd ref) io w = (w\<lparr>iw_active := (p, ref) # iw_active w\<rparr>, RUnit)"
| "import_exec p (ActiveDelete ref) io w = (w\<lparr>iw_active := filter (\<lambda>a. a \<noteq> (p, ref)) (iw_active w)\<rparr>, RUnit)"
| "import_exec p (ActiveHas ref) io w = (w, RBool ((p, ref) \<in> set (iw_active w)))"
| "import_exec p (ReadObject path) io w = (w, if io_fault io = FailsBefore then RError else RFile (file_at w path))"
| "import_exec p Clock io w = (w, RTime (io_time io))"
| "import_exec p (Callback name ref argument) io w = (w\<lparr>iw_callbacks := iw_callbacks w @ [(name, ref)]\<rparr>, RAnswer (io_answer io))"
| "import_exec p (StageObject path ref expected) io w =
     ((case io_bytes io of Some bytes \<Rightarrow> if file_at w path = None then w\<lparr>iw_files := (path, Object bytes) # iw_files w\<rparr> else w | None \<Rightarrow> w),
      RAnswer (io_answer io))"

text \<open>A process that dies loses its memory; its transactions are orphans.\<close>

definition orphaned :: "pid \<Rightarrow> pid option \<Rightarrow> pid option" where
  "orphaned p owner = (if owner = Some p then None else owner)"

definition import_crash :: "pid \<Rightarrow> import_world \<Rightarrow> import_world" where
  "import_crash p w = w\<lparr>iw_active := filter (\<lambda>a. fst a \<noteq> p) (iw_active w), iw_alive := filter (\<lambda>q. q \<noteq> p) (iw_alive w),
     iw_begun := map (\<lambda>(ref, owner). (ref, orphaned p owner)) (iw_begun w)\<rparr>"

type_synonym 'a importing = "(import_op, import_reply, 'a result) prog"

definition existsSync :: "string \<Rightarrow> bool importing" where
  "existsSync path = Op (Exists path) (\<lambda>r. Ret (Inr (r = RBool True)))"

definition done_call :: "import_op \<Rightarrow> unit importing" where
  "done_call call = Op call (\<lambda>r. Ret (if r = RUnit then Inr () else Inl DependencyError))"

definition now_seconds :: "int importing" where
  "now_seconds = Op Clock (\<lambda>r. Ret (case r of RTime n \<Rightarrow> Inr n | _ \<Rightarrow> Inl DependencyError))"

text \<open>The answer \<open>False\<close> of \<open>writeCreateOnly\<close> is the exception \<^verbatim>\<open>EEXIST\<close> of the link.\<close>

definition writeCreateOnly :: "string \<Rightarrow> json \<Rightarrow> bool importing" where
  "writeCreateOnly path v =
     pthen (plift (coordinator_canonicalJson v)) (\<lambda>_.
     Op (CreateOnly path v) (\<lambda>r. Ret (case r of RUnit \<Rightarrow> Inr True | RExists \<Rightarrow> Inr False | _ \<Rightarrow> Inl DependencyError)))"

text \<open>The same where the caller lets \<^verbatim>\<open>EEXIST\<close> through.\<close>

definition writeNew :: "string \<Rightarrow> json \<Rightarrow> unit importing" where
  "writeNew path v = pthen (writeCreateOnly path v) (\<lambda>created. plift (check created DependencyError))"

definition readable_state :: "import_reply \<Rightarrow> json result" where
  "readable_state r = (case r of
     RFile (Some (Document v)) \<Rightarrow> if byteLength (canonicalJson v) > PARTICIPANT_ORIGINATED_MAX_METADATA_BYTES
       then Inl (coordinator_error 413 ''STATE_SIZE'') else Inr v
   | RFile (Some _) \<Rightarrow> Inl (coordinator_error 400 ''STATE_JSON'')
   | _ \<Rightarrow> Inl DependencyError)"

definition readExactJsonFile :: "string \<Rightarrow> json importing" where
  "readExactJsonFile path = Op (ReadState path) (\<lambda>r. Ret (readable_state r))"

subsection \<open>References and paths\<close>

definition ticketReference :: "(string \<Rightarrow> string) \<Rightarrow> string \<Rightarrow> string" where
  "ticketReference sha ticket = sha (''MordantImportTicket/v1'' @ [CHR 0x00] @ ticket)"

definition caseReference :: "(string \<Rightarrow> string) \<Rightarrow> json \<Rightarrow> string" where
  "caseReference sha metadata = sha (member_text metadata ''runId'' @ [CHR 0x00] @ member_text metadata ''fheCaseId'')"

definition nonceReference :: "(string \<Rightarrow> string) \<Rightarrow> json \<Rightarrow> string \<Rightarrow> string \<Rightarrow> string" where
  "nonceReference sha metadata phase nonce = sha (phase @ [CHR 0x00] @ toLowerCase (member_text metadata ''participantWallet'') @ [CHR 0x00] @ nonce)"

definition join_path :: "string \<Rightarrow> string \<Rightarrow> string" where
  "join_path a b = a @ ''/'' @ b"

record coordinator_paths =
  cp_root :: string
  cp_quarantine :: string
  cp_reservations :: string
  cp_roles :: string
  cp_nonces :: string
  cp_transactions :: string
  cp_stages :: string
  cp_failures :: string

definition coordinatorPaths :: "string \<Rightarrow> coordinator_paths" where
  "coordinatorPaths root = \<lparr>cp_root = root, cp_quarantine = join_path root ''quarantine'', cp_reservations = join_path root ''reservations'',
     cp_roles = join_path root ''roles'', cp_nonces = join_path root ''nonces'', cp_transactions = join_path root ''reservation-transactions'',
     cp_stages = join_path root ''stages'', cp_failures = join_path root ''failures''\<rparr>"

definition intent_path :: "coordinator_paths \<Rightarrow> string \<Rightarrow> string" where
  "intent_path paths ref = join_path (cp_transactions paths) (ref @ ''.intent.json'')"

definition commit_path :: "coordinator_paths \<Rightarrow> string \<Rightarrow> string" where
  "commit_path paths ref = join_path (cp_transactions paths) (ref @ ''.commit.json'')"

subsection \<open>The reservation transaction\<close>

record reservation_claim =
  cl_path :: string
  cl_value :: json
  cl_conflictCode :: string

record reservation_plan =
  rp_reservation :: reservation_claim
  rp_role :: reservation_claim
  rp_nonces :: "reservation_claim list"
  rp_quarantine :: string

definition record_metadata :: "json \<Rightarrow> json" where
  "record_metadata rec = (case jfield rec ''metadata'' of Some m \<Rightarrow> m | None \<Rightarrow> JNull)"

definition validateRecoveredReservationRecord :: "json \<Rightarrow> json result" where
  "validateRecoveredReservationRecord rec =
     ebind (check (has_exactKeys (Some rec) [''schemaVersion'', ''ticketRef'', ''metadata'', ''createdAt'']
         \<and> jfield rec ''schemaVersion'' = Some (JStr PARTICIPANT_ORIGINATED_COORDINATOR_SCHEMA)
         \<and> hex_text64 (member_text rec ''ticketRef'')
         \<and> (case safe_member rec ''createdAt'' of Some i \<Rightarrow> \<not> i \<le> 0 | None \<Rightarrow> False)
         \<and> is_jobject (record_metadata rec)) (coordinator_error 500 ''RESERVATION_INTEGRITY'')) (\<lambda>_.
     ebind (assertMetadata (record_metadata rec) (jnumber (record_metadata rec) ''issuedAt'')) (\<lambda>_. Inr rec))"

text \<open>A member that the validation has found; a missing one does not occur.\<close>

definition or_null :: "json option \<Rightarrow> json" where
  "or_null v = (case v of Some w \<Rightarrow> w | None \<Rightarrow> JNull)"

definition role_claim :: "(string \<Rightarrow> string) \<Rightarrow> coordinator_paths \<Rightarrow> json \<Rightarrow> reservation_claim" where
  "role_claim sha paths rec = (let m = record_metadata rec in
     \<lparr>cl_path = join_path (cp_roles paths) (caseReference sha m @ ''-'' @ member_text m ''role'' @ ''.json''),
      cl_value = JObj [(''ticketRef'', JStr (member_text rec ''ticketRef'')), (''runId'', or_null (jfield m ''runId'')),
        (''fheCaseId'', or_null (jfield m ''fheCaseId'')), (''role'', or_null (jfield m ''role''))],
      cl_conflictCode = ''ROLE_OCCUPIED''\<rparr>)"

definition NONCE_PHASES :: "(string \<times> string) list" where
  "NONCE_PHASES = [(''registration'', ''registrationNonce''), (''intent'', ''intentNonce''), (''submission'', ''submissionNonce'')]"

definition nonce_claim :: "(string \<Rightarrow> string) \<Rightarrow> coordinator_paths \<Rightarrow> json \<Rightarrow> string \<times> string \<Rightarrow> reservation_claim" where
  "nonce_claim sha paths rec = (\<lambda>(phase, name).
     \<lparr>cl_path = join_path (cp_nonces paths) (nonceReference sha (record_metadata rec) phase (member_text (record_metadata rec) name) @ ''.json''),
      cl_value = JObj [(''ticketRef'', JStr (member_text rec ''ticketRef'')), (''phase'', JStr phase)],
      cl_conflictCode = ''NONCE_REPLAY''\<rparr>)"

definition plan_of :: "(string \<Rightarrow> string) \<Rightarrow> coordinator_paths \<Rightarrow> json \<Rightarrow> reservation_plan" where
  "plan_of sha paths rec = \<lparr>rp_reservation = \<lparr>cl_path = join_path (cp_reservations paths) (member_text rec ''ticketRef'' @ ''.json''),
       cl_value = rec, cl_conflictCode = ''TICKET_REPLAY''\<rparr>,
     rp_role = role_claim sha paths rec, rp_nonces = map (nonce_claim sha paths rec) NONCE_PHASES,
     rp_quarantine = join_path (cp_quarantine paths) (member_text rec ''ticketRef'')\<rparr>"

definition reservationPlan :: "(string \<Rightarrow> string) \<Rightarrow> coordinator_paths \<Rightarrow> json \<Rightarrow> reservation_plan result" where
  "reservationPlan sha paths rec = ebind (validateRecoveredReservationRecord rec) (\<lambda>_. Inr (plan_of sha paths rec))"

definition exactStateEquals :: "json \<Rightarrow> json \<Rightarrow> bool" where
  "exactStateEquals a b = (canonicalJson a = canonicalJson b)"

definition createOrVerifyReservationClaim :: "reservation_claim \<Rightarrow> bool \<Rightarrow> bool importing" where
  "createOrVerifyReservationClaim claim recovering =
     pthen (writeCreateOnly (cl_path claim) (cl_value claim)) (\<lambda>created.
     if created then Ret (Inr True) else
     pthen (pcatch (readExactJsonFile (cl_path claim)) (\<lambda>_. Ret (Inl (coordinator_error 500 ''RESERVATION_INTEGRITY'')))) (\<lambda>existing.
     if \<not> exactStateEquals existing (cl_value claim) then
       Ret (Inl (if recovering then coordinator_error 500 ''RESERVATION_INTEGRITY'' else coordinator_error 409 (cl_conflictCode claim)))
     else Ret (Inr False)))"

definition removeExactReservationClaim :: "string \<Rightarrow> json \<Rightarrow> unit list importing" where
  "removeExactReservationClaim path v =
     pthen (existsSync path) (\<lambda>present. if \<not> present then Ret (Inr []) else
     pthen (readExactJsonFile path) (\<lambda>existing. if \<not> exactStateEquals existing v then Ret (Inr []) else
     pthen (done_call (Unlink path existing)) (\<lambda>_. Ret (Inr []))))"

definition removeEmptyQuarantine :: "string \<Rightarrow> unit importing" where
  "removeEmptyQuarantine dir =
     pthen (existsSync dir) (\<lambda>present. if \<not> present then Ret (Inr ()) else
     Op (ListFiles dir) (\<lambda>r. case r of
       RNames [] \<Rightarrow> done_call (RemoveDirectory dir)
     | RNames _ \<Rightarrow> Ret (Inr ())
     | _ \<Rightarrow> Ret (Inl DependencyError)))"

definition rollbackReservationTransaction :: "coordinator_paths \<Rightarrow> json \<Rightarrow> reservation_plan \<Rightarrow> unit importing" where
  "rollbackReservationTransaction paths transaction plan = (let ref = member_text transaction ''ticketRef'' in
     pthen (existsSync (commit_path paths ref)) (\<lambda>committed.
     if committed then Ret (Inl (coordinator_error 500 ''RESERVATION_INTEGRITY'')) else
     pthen (pfor (rev (rp_nonces plan) @ [rp_role plan, rp_reservation plan]) (\<lambda>claim. removeExactReservationClaim (cl_path claim) (cl_value claim))) (\<lambda>_.
     pthen (removeEmptyQuarantine (rp_quarantine plan)) (\<lambda>_.
     pthen (removeExactReservationClaim (intent_path paths ref) transaction) (\<lambda>_. Ret (Inr ()))))))"

definition commit_document :: "(string \<Rightarrow> string) \<Rightarrow> string \<Rightarrow> json \<Rightarrow> json" where
  "commit_document sha ref metadata = JObj [(''schemaVersion'', JStr PARTICIPANT_ORIGINATED_RESERVATION_COMMIT_SCHEMA), (''ticketRef'', JStr ref),
     (''metadataDigest'', JStr (sha256Bytes sha (canonicalJson metadata)))]"

definition transaction_ok :: "json \<Rightarrow> bool" where
  "transaction_ok transaction = (has_exactKeys (Some transaction) [''schemaVersion'', ''ticketRef'', ''ownerPid'', ''record'']
     \<and> jfield transaction ''schemaVersion'' = Some (JStr PARTICIPANT_ORIGINATED_RESERVATION_TRANSACTION_SCHEMA)
     \<and> hex_text64 (member_text transaction ''ticketRef'')
     \<and> (case safe_member transaction ''ownerPid'' of Some i \<Rightarrow> \<not> i \<le> 0 | None \<Rightarrow> False))"

definition transaction_record :: "json \<Rightarrow> json" where
  "transaction_record transaction = (case jfield transaction ''record'' of Some r \<Rightarrow> r | None \<Rightarrow> JNull)"

definition is_intent_name :: "string \<Rightarrow> bool" where
  "is_intent_name name = fixed_regex (replicate 64 lower_hex @ lit ''.intent.json'') name"

definition claims_of :: "reservation_plan \<Rightarrow> reservation_claim list" where
  "claims_of plan = rp_reservation plan # rp_role plan # rp_nonces plan"

definition rollForward :: "(string \<Rightarrow> string) \<Rightarrow> coordinator_paths \<Rightarrow> string \<Rightarrow> json \<Rightarrow> reservation_plan \<Rightarrow> unit importing" where
  "rollForward sha paths ref rec plan =
     pthen (readExactJsonFile (commit_path paths ref)) (\<lambda>commit.
     if \<not> exactStateEquals commit (commit_document sha ref (record_metadata rec)) then Ret (Inl (coordinator_error 500 ''RESERVATION_INTEGRITY'')) else
     pthen (done_call (EnsureDirectory (rp_quarantine plan))) (\<lambda>_.
     pthen (pfor (claims_of plan) (\<lambda>claim. pthen (createOrVerifyReservationClaim claim True) (\<lambda>_. Ret (Inr ([] :: unit list))))) (\<lambda>_. Ret (Inr ()))))"

definition unless_owned :: "pid \<Rightarrow> json \<Rightarrow> 'a list importing \<Rightarrow> 'a list importing" where
  "unless_owned p transaction rest =
     Op (ActiveHas (member_text transaction ''ticketRef'')) (\<lambda>r. if r = RBool True then Ret (Inr []) else
     if jnumber transaction ''ownerPid'' \<noteq> p then
       Op (ProcessAlive (jnumber transaction ''ownerPid'')) (\<lambda>r. if r = RBool True then Ret (Inr []) else rest)
     else rest)"

definition recover_entry :: "(string \<Rightarrow> string) \<Rightarrow> coordinator_paths \<Rightarrow> pid \<Rightarrow> string \<Rightarrow> (string \<times> string) list importing" where
  "recover_entry sha paths p name =
     pthen (readExactJsonFile (join_path (cp_transactions paths) name)) (\<lambda>transaction.
     if \<not> transaction_ok transaction then Ret (Inl (coordinator_error 500 ''RESERVATION_INTEGRITY'')) else
     let rec = transaction_record transaction; ref = member_text transaction ''ticketRef'' in
     pthen (plift (validateRecoveredReservationRecord rec)) (\<lambda>_.
     if \<not> js_same (jfield rec ''ticketRef'') (jfield transaction ''ticketRef'') then Ret (Inl (coordinator_error 500 ''RESERVATION_INTEGRITY'')) else
     pthen (plift (reservationPlan sha paths rec)) (\<lambda>plan.
     pthen (existsSync (commit_path paths ref)) (\<lambda>committed.
     if \<not> committed then
       unless_owned p transaction (pthen (rollbackReservationTransaction paths transaction plan) (\<lambda>_. Ret (Inr [(ref, ''ROLLED_BACK'')])))
     else pthen (rollForward sha paths ref rec plan) (\<lambda>_. Ret (Inr [(ref, ''COMMITTED'')]))))))"

definition recoverReservationTransactions :: "(string \<Rightarrow> string) \<Rightarrow> coordinator_paths \<Rightarrow> pid \<Rightarrow> (string \<times> string) list importing" where
  "recoverReservationTransactions sha paths p =
     Op (ListFiles (cp_transactions paths)) (\<lambda>r. case r of
       RNames names \<Rightarrow> pfor (filter is_intent_name names) (recover_entry sha paths p)
     | _ \<Rightarrow> Ret (Inl DependencyError))"

subsection \<open>Status\<close>

definition failure_code_pattern :: "string \<Rightarrow> bool" where
  "failure_code_pattern s = (s \<noteq> [] \<and> hd s \<in> set ''ABCDEFGHIJKLMNOPQRSTUVWXYZ'' \<and> length s \<le> 64
     \<and> list_all (\<lambda>c. c \<in> set ''ABCDEFGHIJKLMNOPQRSTUVWXYZ0123456789_'') (tl s))"

definition failure_path :: "coordinator_paths \<Rightarrow> string \<Rightarrow> string" where
  "failure_path paths ref = join_path (cp_failures paths) (ref @ ''.json'')"

definition published_path :: "coordinator_paths \<Rightarrow> string \<Rightarrow> string" where
  "published_path paths ref = join_path (cp_stages paths) (ref @ ''.published.json'')"

definition ciphertext_marker_path :: "coordinator_paths \<Rightarrow> string \<Rightarrow> string" where
  "ciphertext_marker_path paths ref = join_path (cp_stages paths) (ref @ ''.ciphertext.json'')"

definition quarantine_path :: "coordinator_paths \<Rightarrow> string \<Rightarrow> string \<Rightarrow> string" where
  "quarantine_path paths ref name = join_path (join_path (cp_quarantine paths) ref) name"

definition readFailureMarker :: "json \<Rightarrow> string \<Rightarrow> string option importing" where
  "readFailureMarker rec path =
     pthen (existsSync path) (\<lambda>present. if \<not> present then Ret (Inr None) else
     pthen (readExactJsonFile path) (\<lambda>failure.
     if has_exactKeys (Some failure) [''schemaVersion'', ''ticketRef'', ''state'', ''code'', ''at'']
       \<and> jfield failure ''schemaVersion'' = Some (JStr PARTICIPANT_ORIGINATED_COORDINATOR_SCHEMA)
       \<and> js_same (jfield failure ''ticketRef'') (jfield rec ''ticketRef'')
       \<and> jfield failure ''state'' \<in> {Some (JStr ''FAILED''), Some (JStr ''RECONCILIATION_REQUIRED'')}
       \<and> failure_code_pattern (member_text failure ''code'')
       \<and> (case safe_member failure ''at'' of Some i \<Rightarrow> \<not> i \<le> 0 | None \<Rightarrow> False)
     then Ret (Inr (Some (jtext failure ''state'')))
     else Ret (Inl (coordinator_error 500 ''STATE_INTEGRITY''))))"

definition record_ref :: "json \<Rightarrow> string" where
  "record_ref rec = member_text rec ''ticketRef''"

definition import_state :: "bool \<Rightarrow> string option \<Rightarrow> bool \<Rightarrow> bool \<Rightarrow> string" where
  "import_state published failure manifestStaged ciphertextStaged =
     (if published then ''PUBLISHED'' else case failure of Some state \<Rightarrow> state
      | None \<Rightarrow> if manifestStaged then ''VERIFYING'' else if ciphertextStaged then ''CIPHERTEXT_STAGED'' else ''RESERVED'')"

definition publicStatus :: "coordinator_paths \<Rightarrow> json \<Rightarrow> json importing" where
  "publicStatus paths rec = (let ref = record_ref rec; m = record_metadata rec in
     pthen (plift (participantFilenames (member_text m ''role''))) (\<lambda>(ciphertext, artifactManifest).
     pthen (readFailureMarker rec (failure_path paths ref)) (\<lambda>failure.
     pthen (existsSync (published_path paths ref)) (\<lambda>published.
     pthen (existsSync (quarantine_path paths ref artifactManifest)) (\<lambda>manifestStaged.
     pthen (existsSync (quarantine_path paths ref ciphertext)) (\<lambda>ciphertextStaged.
     Ret (Inr (JObj [(''schemaVersion'', JStr PARTICIPANT_ORIGINATED_COORDINATOR_SCHEMA), (''ticketRef'', JStr ref),
       (''runId'', or_null (jfield m ''runId'')), (''fheCaseId'', or_null (jfield m ''fheCaseId'')), (''role'', or_null (jfield m ''role'')),
       (''state'', JStr (import_state published failure manifestStaged ciphertextStaged)),
       (''filenames'', JObj [(''ciphertext'', JStr ciphertext), (''artifactManifest'', JStr artifactManifest)]),
       (''digests'', JObj [(''encryptedArtifactDigest'', or_null (jfield m ''encryptedArtifactDigest'')),
         (''artifactObjectDigest'', or_null (jfield m ''artifactObjectDigest'')),
         (''ciphertextObjectDigest'', or_null (jfield m ''ciphertextObjectDigest''))]),
       (''expiresAt'', or_null (jfield m ''expiresAt''))]))))))))"

subsection \<open>Beginning an import\<close>

record coordinator_env =
  ce_sha :: "string \<Rightarrow> string"
  ce_root :: string
  ce_parse :: "string \<Rightarrow> json option"
  ce_reconciles :: bool

abbreviation ce_paths :: "coordinator_env \<Rightarrow> coordinator_paths" where
  "ce_paths env \<equiv> coordinatorPaths (ce_root env)"

text \<open>\<^verbatim>\<open>false\<close>, \<^verbatim>\<open>null\<close> and \<^verbatim>\<open>undefined\<close> are refusals.\<close>

definition is_refusal :: "json option \<Rightarrow> bool" where
  "is_refusal answer = (answer \<in> {None, Some JNull, Some (JBool False)})"

definition is_coordinator_error :: "merror \<Rightarrow> bool" where
  "is_coordinator_error e = (case e of ParticipantOriginatedCoordinatorError code status \<Rightarrow> True | _ \<Rightarrow> False)"

definition call_back :: "string \<Rightarrow> string \<Rightarrow> json \<Rightarrow> json option importing" where
  "call_back name ref argument = Op (Callback name ref argument) (\<lambda>r. Ret (case r of RAnswer answer \<Rightarrow> answer | _ \<Rightarrow> Inl DependencyError))"

definition authenticate :: "string \<Rightarrow> json \<Rightarrow> string \<Rightarrow> unit importing" where
  "authenticate operation metadata ref =
     pthen (pcatch (call_back ''authenticate'' ref (JObj [(''operation'', JStr operation), (''metadata'', metadata)]))
       (\<lambda>e. Ret (Inl (if is_coordinator_error e then e else coordinator_error 401 ''AUTHENTICATION'')))) (\<lambda>answer.
     plift (check (\<not> is_refusal answer) (coordinator_error 401 ''AUTHENTICATION'')))"

definition appendJournal :: "(string \<times> json) list \<Rightarrow> unit importing" where
  "appendJournal event = done_call (AppendJournal (JObj ((''schemaVersion'', JStr PARTICIPANT_ORIGINATED_JOURNAL_SCHEMA) # event)))"

definition transaction_document :: "pid \<Rightarrow> string \<Rightarrow> json \<Rightarrow> json" where
  "transaction_document p ref rec = JObj [(''schemaVersion'', JStr PARTICIPANT_ORIGINATED_RESERVATION_TRANSACTION_SCHEMA), (''ticketRef'', JStr ref),
     (''ownerPid'', JNum p), (''record'', rec)]"

definition reservation_record :: "string \<Rightarrow> json \<Rightarrow> int \<Rightarrow> json" where
  "reservation_record ref metadata createdAt = JObj [(''schemaVersion'', JStr PARTICIPANT_ORIGINATED_COORDINATOR_SCHEMA), (''ticketRef'', JStr ref),
     (''metadata'', metadata), (''createdAt'', JNum createdAt)]"

text \<open>The claims of a transaction in their order, then its commit marker.\<close>

definition claim_and_commit :: "(string \<Rightarrow> string) \<Rightarrow> coordinator_paths \<Rightarrow> string \<Rightarrow> json \<Rightarrow> reservation_plan \<Rightarrow> unit importing" where
  "claim_and_commit sha paths ref metadata plan =
     pthen (done_call (EnsureDirectory (rp_quarantine plan))) (\<lambda>_.
     pthen (pfor (claims_of plan) (\<lambda>claim. pthen (createOrVerifyReservationClaim claim False) (\<lambda>_. Ret (Inr ([] :: unit list))))) (\<lambda>_.
     writeNew (commit_path paths ref) (commit_document sha ref metadata)))"

definition reserve_transaction :: "(string \<Rightarrow> string) \<Rightarrow> coordinator_paths \<Rightarrow> pid \<Rightarrow> string \<Rightarrow> json \<Rightarrow> json \<Rightarrow> reservation_plan \<Rightarrow> unit importing" where
  "reserve_transaction sha paths p ref metadata rec plan = (let transaction = transaction_document p ref rec in
     pthen (writeCreateOnly (intent_path paths ref) transaction) (\<lambda>created.
     if \<not> created then Ret (Inl (coordinator_error 409 ''TICKET_REPLAY'')) else
     pthen (done_call (ActiveAdd ref)) (\<lambda>_.
     pthen (pcatch (claim_and_commit sha paths ref metadata plan) (\<lambda>e.
       pthen (done_call (ActiveDelete ref)) (\<lambda>_.
       pthen (rollbackReservationTransaction paths transaction plan) (\<lambda>_. Ret (Inl e))))) (\<lambda>_.
     done_call (ActiveDelete ref)))))"

definition with_ticket :: "string \<Rightarrow> json \<Rightarrow> json" where
  "with_ticket ticket st = (case st of JObj kvs \<Rightarrow> JObj (kvs @ [(''ticket'', JStr ticket)]) | _ \<Rightarrow> st)"

definition locked_begin :: "(string \<Rightarrow> string) \<Rightarrow> coordinator_paths \<Rightarrow> pid \<Rightarrow> json \<Rightarrow> string \<Rightarrow> json importing" where
  "locked_begin sha paths p metadata ticket =
     pthen (recoverReservationTransactions sha paths p) (\<lambda>_.
     pthen now_seconds (\<lambda>createdAt.
     let ref = ticketReference sha ticket; rec = reservation_record ref metadata createdAt in
     pthen (plift (reservationPlan sha paths rec)) (\<lambda>plan.
     pthen (reserve_transaction sha paths p ref metadata rec plan) (\<lambda>_.
     pthen now_seconds (\<lambda>at.
     pthen (appendJournal [(''event'', JStr ''IMPORT_RESERVED''), (''at'', JNum at), (''ticketRef'', JStr ref),
       (''runId'', or_null (jfield metadata ''runId'')), (''fheCaseId'', or_null (jfield metadata ''fheCaseId'')),
       (''role'', or_null (jfield metadata ''role'')), (''metadataDigest'', JStr (sha256Bytes sha (canonicalJson metadata)))]) (\<lambda>_.
     pthen (publicStatus paths rec) (\<lambda>st. Ret (Inr (with_ticket ticket st)))))))))"

definition beginImport :: "coordinator_env \<Rightarrow> pid \<Rightarrow> json \<Rightarrow> string \<Rightarrow> json importing" where
  "beginImport env p metadata ticket =
     pthen now_seconds (\<lambda>now.
     pthen (plift (assertMetadata metadata now)) (\<lambda>checked.
     pthen (plift (assertSignedMetadataProjection checked)) (\<lambda>_.
     pthen (authenticate ''BEGIN_IMPORT'' checked []) (\<lambda>_.
     pthen (plift (check (TICKET_pattern ticket) (coordinator_error 500 ''TICKET_GENERATOR''))) (\<lambda>_.
     locked_begin (ce_sha env) (ce_paths env) p checked ticket)))))"

definition reservation :: "coordinator_env \<Rightarrow> string \<Rightarrow> json importing" where
  "reservation env ticket = (let paths = ce_paths env; ref = ticketReference (ce_sha env) ticket; path = join_path (cp_reservations paths) (ref @ ''.json'') in
     pthen (plift (check (TICKET_pattern ticket) (coordinator_error 401 ''TICKET''))) (\<lambda>_.
     pthen (existsSync path) (\<lambda>present. if \<not> present then Ret (Inl (coordinator_error 404 ''TICKET'')) else
     pthen (readExactJsonFile path) (\<lambda>rec. if jfield rec ''ticketRef'' \<noteq> Some (JStr ref) then Ret (Inl (coordinator_error 500 ''STATE_INTEGRITY'')) else
     pthen (existsSync (commit_path paths ref)) (\<lambda>committed. if \<not> committed then Ret (Inl (coordinator_error 409 ''RESERVATION_PENDING'')) else
     pthen (readExactJsonFile (commit_path paths ref)) (\<lambda>commit.
     if \<not> exactStateEquals commit (commit_document (ce_sha env) ref (record_metadata rec)) then Ret (Inl (coordinator_error 500 ''STATE_INTEGRITY''))
     else Ret (Inr rec)))))))"

definition not_expired :: "json \<Rightarrow> unit importing" where
  "not_expired rec = pthen now_seconds (\<lambda>now. plift (check (\<not> jnumber (record_metadata rec) ''expiresAt'' \<le> now) (coordinator_error 410 ''EXPIRED'')))"

definition status :: "coordinator_env \<Rightarrow> string \<Rightarrow> json importing" where
  "status env ticket =
     pthen (reservation env ticket) (\<lambda>rec.
     pthen (authenticate ''STATUS'' (record_metadata rec) (record_ref rec)) (\<lambda>_.
     pthen (not_expired rec) (\<lambda>_.
     publicStatus (ce_paths env) rec)))"

subsection \<open>Uploads\<close>

record upload_description =
  ud_contentType :: "string option"
  ud_contentLength :: "int option"
  ud_transferEncoding :: "string option"
  ud_contentDisposition :: "string option"
  ud_filename :: "string option"

definition plain_transfer :: "upload_description \<Rightarrow> bool" where
  "plain_transfer d = (ud_transferEncoding d = None \<and> ud_contentDisposition d = None \<and> ud_filename d = None)"

definition length_is :: "upload_description \<Rightarrow> int \<Rightarrow> int \<Rightarrow> bool" where
  "length_is d expectedLength maximumLength = (case ud_contentLength d of Some n \<Rightarrow> isSafeInteger n \<and> n = expectedLength \<and> \<not> n > maximumLength | None \<Rightarrow> False)"

definition assertUploadDescription :: "upload_description \<Rightarrow> string \<Rightarrow> int \<Rightarrow> int \<Rightarrow> string \<Rightarrow> unit result" where
  "assertUploadDescription d contentType expectedLength maximumLength kind =
     ebind (check (ud_contentType d = Some contentType) (coordinator_error 415 (kind @ ''_CONTENT_TYPE''))) (\<lambda>_.
     ebind (check (length_is d expectedLength maximumLength) (coordinator_error 400 (kind @ ''_LENGTH''))) (\<lambda>_.
     check (plain_transfer d) (coordinator_error 400 (kind @ ''_HEADERS''))))"

definition assert_manifest_headers :: "upload_description \<Rightarrow> json \<Rightarrow> unit result" where
  "assert_manifest_headers d metadata =
     check (ud_contentType d = Some PARTICIPANT_ORIGINATED_MANIFEST_CONTENT_TYPE
         \<and> length_is d (jnumber metadata ''artifactObjectLength'') PARTICIPANT_ORIGINATED_MAX_MANIFEST_BYTES \<and> plain_transfer d)
       (coordinator_error (if ud_contentType d \<noteq> Some PARTICIPANT_ORIGINATED_MANIFEST_CONTENT_TYPE then 415 else 400) ''MANIFEST_HEADERS'')"

definition assertUploadAvailable :: "coordinator_paths \<Rightarrow> json \<Rightarrow> unit importing" where
  "assertUploadAvailable paths rec =
     pthen (not_expired rec) (\<lambda>_.
     pthen (existsSync (published_path paths (record_ref rec))) (\<lambda>published.
     if published then Ret (Inl (coordinator_error 409 ''TICKET_REPLAY'')) else
     pthen (existsSync (failure_path paths (record_ref rec))) (\<lambda>failed.
     plift (check (\<not> failed) (coordinator_error 409 ''IMPORT_TERMINAL'')))))"

definition failure_code :: "merror \<Rightarrow> string" where
  "failure_code e = (case e of ParticipantOriginatedCoordinatorError code _ \<Rightarrow> code | _ \<Rightarrow> ''CALLBACK_FAILURE'')"

definition recordTerminalFailure :: "coordinator_paths \<Rightarrow> json \<Rightarrow> string \<Rightarrow> merror \<Rightarrow> unit importing" where
  "recordTerminalFailure paths rec state e = (let ref = record_ref rec in
     pthen (existsSync (failure_path paths ref)) (\<lambda>present. if present then Ret (Inr ()) else
     pthen now_seconds (\<lambda>at.
     pthen (writeNew (failure_path paths ref) (JObj [(''schemaVersion'', JStr PARTICIPANT_ORIGINATED_COORDINATOR_SCHEMA), (''ticketRef'', JStr ref),
       (''state'', JStr state), (''code'', JStr (failure_code e)), (''at'', JNum at)])) (\<lambda>_.
     pthen now_seconds (\<lambda>at.
     appendJournal [(''event'', JStr state), (''at'', JNum at), (''ticketRef'', JStr ref), (''code'', JStr (failure_code e))])))))"

definition object_reference :: "string \<Rightarrow> json \<Rightarrow> int \<Rightarrow> json" where
  "object_reference filename dig len = JObj [(''filename'', JStr filename), (''digest'', dig), (''length'', JNum len)]"

definition stageWithTrustedCallback :: "coordinator_paths \<Rightarrow> string \<Rightarrow> string \<Rightarrow> json \<Rightarrow> int \<Rightarrow> string \<Rightarrow> unit importing" where
  "stageWithTrustedCallback paths ref filename dig len kind =
     Op (StageObject (quarantine_path paths ref filename) ref (object_reference filename dig len)) (\<lambda>r. Ret (case r of
       RAnswer (Inl e) \<Rightarrow> Inl (if is_coordinator_error e then e else coordinator_error 422 (kind @ ''_STAGE''))
     | RAnswer (Inr (Some v)) \<Rightarrow> check (is_jobject v \<and> jfield v ''path'' = Some (JStr filename) \<and> js_same (jfield v ''digest'') (Some dig)
           \<and> jfield v ''length'' = Some (JNum len)) (coordinator_error 422 (kind @ ''_STAGE_REFERENCE''))
     | RAnswer (Inr None) \<Rightarrow> Inl (coordinator_error 422 (kind @ ''_STAGE_REFERENCE''))
     | _ \<Rightarrow> Inl DependencyError))"

text \<open>A failed upload burns the ticket, except for the listed refusals.\<close>

definition burn_ticket :: "coordinator_paths \<Rightarrow> json \<Rightarrow> string list \<Rightarrow> merror \<Rightarrow> 'a importing" where
  "burn_ticket paths rec spared e =
     (if is_coordinator_error e \<and> failure_code e \<in> set spared then Ret (Inl e)
      else pthen (recordTerminalFailure paths rec ''FAILED'' e) (\<lambda>_. Ret (Inl e)))"

definition ciphertext_marker :: "string \<Rightarrow> string \<Rightarrow> json \<Rightarrow> json" where
  "ciphertext_marker ref filename metadata = JObj [(''schemaVersion'', JStr PARTICIPANT_ORIGINATED_COORDINATOR_SCHEMA), (''ticketRef'', JStr ref),
     (''filename'', JStr filename), (''digest'', or_null (jfield metadata ''ciphertextObjectDigest'')), (''length'', or_null (jfield metadata ''ciphertextObjectLength''))]"

definition stage_ciphertext :: "coordinator_paths \<Rightarrow> json \<Rightarrow> upload_description \<Rightarrow> json importing" where
  "stage_ciphertext paths rec d = (let ref = record_ref rec; m = record_metadata rec in
     pthen (plift (assertUploadDescription d PARTICIPANT_ORIGINATED_CIPHERTEXT_CONTENT_TYPE (jnumber m ''ciphertextObjectLength'')
       PARTICIPANT_ORIGINATED_MAX_CIPHERTEXT_BYTES ''CIPHERTEXT'')) (\<lambda>_.
     pthen (plift (participantFilenames (member_text m ''role''))) (\<lambda>(ciphertext, artifactManifest).
     pthen (stageWithTrustedCallback paths ref ciphertext (or_null (jfield m ''ciphertextObjectDigest'')) (jnumber m ''ciphertextObjectLength'') ''CIPHERTEXT'') (\<lambda>_.
     pthen (writeNew (ciphertext_marker_path paths ref) (ciphertext_marker ref ciphertext m)) (\<lambda>_.
     pthen now_seconds (\<lambda>at.
     pthen (appendJournal [(''event'', JStr ''CIPHERTEXT_STAGED''), (''at'', JNum at), (''ticketRef'', JStr ref), (''filename'', JStr ciphertext),
       (''digest'', or_null (jfield m ''ciphertextObjectDigest'')), (''length'', or_null (jfield m ''ciphertextObjectLength''))]) (\<lambda>_.
     publicStatus paths rec)))))))"

definition uploadCiphertext :: "coordinator_env \<Rightarrow> string \<Rightarrow> upload_description \<Rightarrow> json importing" where
  "uploadCiphertext env ticket d = (let paths = ce_paths env in
     pthen (reservation env ticket) (\<lambda>rec.
     pthen (assertUploadAvailable paths rec) (\<lambda>_.
     pthen (authenticate ''UPLOAD_CIPHERTEXT'' (record_metadata rec) (record_ref rec)) (\<lambda>_.
     pthen (reservation env ticket) (\<lambda>rec.
     pthen (assertUploadAvailable paths rec) (\<lambda>_.
     pcatch (stage_ciphertext paths rec d) (burn_ticket paths rec [''CIPHERTEXT_REPLAY'', ''TICKET_REPLAY'', ''IMPORT_TERMINAL''])))))))"

subsection \<open>Verification and publication\<close>

definition hashExactRegularFile :: "(string \<Rightarrow> string) \<Rightarrow> string \<Rightarrow> int \<Rightarrow> string \<Rightarrow> string \<Rightarrow> unit importing" where
  "hashExactRegularFile sha path expectedLength expectedDigest kind = Op (ReadObject path) (\<lambda>r. Ret (case r of
     RFile (Some (Object bytes)) \<Rightarrow>
       ebind (check (int (length bytes) = expectedLength) (coordinator_error 422 (kind @ ''_LENGTH''))) (\<lambda>_.
       check (sha256Bytes sha bytes = expectedDigest) (coordinator_error 422 (kind @ ''_DIGEST'')))
   | RFile (Some _) \<Rightarrow> Inl (coordinator_error 500 ''STORAGE_SYMLINK'')
   | _ \<Rightarrow> Inl DependencyError))"

definition parseGoArtifactManifest :: "(string \<Rightarrow> json option) \<Rightarrow> string \<Rightarrow> json result" where
  "parseGoArtifactManifest parse raw =
     ebind (check (\<not> (length raw < 3 \<or> int (length raw) > PARTICIPANT_ORIGINATED_MAX_MANIFEST_BYTES)) (coordinator_error 413 ''MANIFEST_SIZE'')) (\<lambda>_.
     ebind (check (\<not> (last raw \<noteq> CHR 0x0A \<or> last (butlast raw) = CHR 0x0A \<or> CHR 0x0D \<in> set raw)) (coordinator_error 400 ''MANIFEST_CANONICAL'')) (\<lambda>_.
     case parse raw of
       Some v \<Rightarrow> if is_jobject v then Inr v else Inl (coordinator_error 400 ''MANIFEST_JSON'')
     | None \<Rightarrow> Inl (coordinator_error 400 ''MANIFEST_JSON'')))"

definition staged_manifest :: "coordinator_env \<Rightarrow> json \<Rightarrow> string \<Rightarrow> json importing" where
  "staged_manifest env metadata path = Op (ReadObject path) (\<lambda>r. Ret (case r of
     RFile (Some (Object raw)) \<Rightarrow>
       ebind (check (\<not> (raw = [] \<or> int (length raw) > PARTICIPANT_ORIGINATED_MAX_MANIFEST_BYTES)) (coordinator_error 422 ''MANIFEST_OBJECT'')) (\<lambda>_.
       ebind (check (jfield metadata ''artifactObjectLength'' = Some (JNum (int (length raw)))
         \<and> jfield metadata ''artifactObjectDigest'' = Some (JStr (sha256Bytes (ce_sha env) raw))) (coordinator_error 422 ''MANIFEST_DIGEST'')) (\<lambda>_.
       ebind (parseGoArtifactManifest (ce_parse env) raw) (\<lambda>manifest.
       ebind (scanForbiddenMembers manifest) (\<lambda>_. Inr manifest))))
   | RFile (Some _) \<Rightarrow> Inl (coordinator_error 422 ''MANIFEST_OBJECT'')
   | _ \<Rightarrow> Inl DependencyError))"

definition boundedCallbackDigest :: "(string \<Rightarrow> string) \<Rightarrow> json option \<Rightarrow> string \<Rightarrow> string result" where
  "boundedCallbackDigest sha answer kind = (case answer of
     None \<Rightarrow> Inl (coordinator_error 422 (kind @ ''_RESULT''))
   | Some v \<Rightarrow>
       ebind (check (v \<noteq> JNull \<and> v \<noteq> JBool False) (coordinator_error 422 (kind @ ''_RESULT''))) (\<lambda>_.
       ebind (scanForbiddenMembers v) (\<lambda>_.
       ebind (coordinator_canonicalJson v) (\<lambda>encoded.
       ebind (check (\<not> byteLength encoded > PARTICIPANT_ORIGINATED_MAX_METADATA_BYTES) (coordinator_error 422 (kind @ ''_RESULT''))) (\<lambda>_.
       Inr (sha256Bytes sha encoded))))))"

text \<open>The terminal marker and its journal entry.\<close>

definition record_publication :: "coordinator_paths \<Rightarrow> json \<Rightarrow> string \<Rightarrow> string \<Rightarrow> string \<Rightarrow> string \<Rightarrow> string \<Rightarrow> json importing" where
  "record_publication paths rec ciphertext artifactManifest verification publication event = (let ref = record_ref rec in
     pthen now_seconds (\<lambda>at.
     pthen (writeNew (published_path paths ref) (JObj [(''schemaVersion'', JStr PARTICIPANT_ORIGINATED_COORDINATOR_SCHEMA), (''ticketRef'', JStr ref),
       (''artifactManifest'', JStr artifactManifest), (''ciphertext'', JStr ciphertext), (''verificationReferenceDigest'', JStr verification),
       (''publicationReferenceDigest'', JStr publication), (''publishedAt'', JNum at)])) (\<lambda>_.
     pthen now_seconds (\<lambda>at.
     pthen (appendJournal [(''event'', JStr event), (''at'', JNum at), (''ticketRef'', JStr ref), (''ciphertext'', JStr ciphertext),
       (''artifactManifest'', JStr artifactManifest), (''verificationReferenceDigest'', JStr verification),
       (''publicationReferenceDigest'', JStr publication)]) (\<lambda>_.
     publicStatus paths rec)))))"

definition import_argument :: "string \<Rightarrow> json \<Rightarrow> json" where
  "import_argument operation rec = JObj [(''operation'', JStr operation), (''metadata'', record_metadata rec), (''ticketRef'', JStr (record_ref rec))]"

definition verify_and_publish :: "coordinator_env \<Rightarrow> json \<Rightarrow> string \<Rightarrow> string \<Rightarrow> bool \<Rightarrow> json importing" where
  "verify_and_publish env rec ciphertext artifactManifest recovered =
     pthen (pcatch (call_back ''verifyArtifact'' (record_ref rec) (import_argument (if recovered then ''RECOVER_VERIFY'' else ''VERIFY'') rec))
       (\<lambda>e. Ret (Inl (if is_coordinator_error e then e else coordinator_error 422 ''ARTIFACT_VERIFICATION'')))) (\<lambda>verification.
     pthen (plift (boundedCallbackDigest (ce_sha env) verification ''VERIFICATION'')) (\<lambda>verificationReferenceDigest.
     pthen (pcatch (call_back ''publishArtifact'' (record_ref rec) (import_argument (if recovered then ''RECOVER_PUBLISH'' else ''PUBLISH'') rec))
       (\<lambda>e. pthen (recordTerminalFailure (ce_paths env) rec ''RECONCILIATION_REQUIRED'' e) (\<lambda>_. Ret (Inl (coordinator_error 503 ''PUBLISH_UNCERTAIN''))))) (\<lambda>publication.
     pthen (plift (boundedCallbackDigest (ce_sha env) publication ''PUBLICATION'')) (\<lambda>publicationReferenceDigest.
     record_publication (ce_paths env) rec ciphertext artifactManifest verificationReferenceDigest publicationReferenceDigest
       (if recovered then ''IMPORT_RECOVERED_AND_PUBLISHED'' else ''IMPORT_PUBLISHED'')))))"

definition finalizeStagedImport :: "coordinator_env \<Rightarrow> json \<Rightarrow> bool \<Rightarrow> bool \<Rightarrow> json importing" where
  "finalizeStagedImport env rec recovered publicationUncertain = (let paths = ce_paths env; ref = record_ref rec; m = record_metadata rec in
     pthen (plift (participantFilenames (member_text m ''role''))) (\<lambda>(ciphertext, artifactManifest).
     pthen (hashExactRegularFile (ce_sha env) (quarantine_path paths ref ciphertext) (jnumber m ''ciphertextObjectLength'')
       (jtext m ''ciphertextObjectDigest'') ''CIPHERTEXT'') (\<lambda>_.
     pthen (staged_manifest env m (quarantine_path paths ref artifactManifest)) (\<lambda>_.
     let rest = (if publicationUncertain then Ret (Inl (coordinator_error 503 ''PUBLISH_RECONCILIATION''))
                 else verify_and_publish env rec ciphertext artifactManifest recovered) in
     if recovered \<and> ce_reconciles env then
       pthen (pcatch (call_back ''reconcilePublication'' ref (import_argument ''RECOVER_READ_PUBLICATION'' rec))
         (\<lambda>_. Ret (Inl (coordinator_error 503 ''PUBLISH_RECONCILIATION'')))) (\<lambda>reconciled.
       if is_refusal reconciled then rest else
       pthen (plift (boundedCallbackDigest (ce_sha env) reconciled ''PUBLICATION_RECONCILIATION'')) (\<lambda>reference.
       record_publication paths rec ciphertext artifactManifest reference reference ''IMPORT_RECOVERED_FROM_PUBLICATION''))
     else rest))))"

definition stage_manifest :: "coordinator_env \<Rightarrow> json \<Rightarrow> upload_description \<Rightarrow> json importing" where
  "stage_manifest env rec d = (let paths = ce_paths env; ref = record_ref rec; m = record_metadata rec in
     pthen (plift (assert_manifest_headers d m)) (\<lambda>_.
     pthen (plift (participantFilenames (member_text m ''role''))) (\<lambda>(ciphertext, artifactManifest).
     pthen (stageWithTrustedCallback paths ref artifactManifest (or_null (jfield m ''artifactObjectDigest'')) (jnumber m ''artifactObjectLength'') ''MANIFEST'') (\<lambda>_.
     pthen now_seconds (\<lambda>at.
     pthen (appendJournal [(''event'', JStr ''MANIFEST_STAGED''), (''at'', JNum at), (''ticketRef'', JStr ref), (''filename'', JStr artifactManifest),
       (''digest'', or_null (jfield m ''artifactObjectDigest'')), (''length'', or_null (jfield m ''artifactObjectLength''))]) (\<lambda>_.
     finalizeStagedImport env rec False False))))))"

definition uploadArtifactManifest :: "coordinator_env \<Rightarrow> string \<Rightarrow> upload_description \<Rightarrow> json importing" where
  "uploadArtifactManifest env ticket d = (let paths = ce_paths env in
     pthen (reservation env ticket) (\<lambda>rec.
     pthen (assertUploadAvailable paths rec) (\<lambda>_.
     pthen (authenticate ''UPLOAD_ARTIFACT_MANIFEST'' (record_metadata rec) (record_ref rec)) (\<lambda>_.
     pthen (reservation env ticket) (\<lambda>rec.
     pthen (assertUploadAvailable paths rec) (\<lambda>_.
     pthen (existsSync (ciphertext_marker_path paths (record_ref rec))) (\<lambda>staged.
     if \<not> staged then Ret (Inl (coordinator_error 409 ''MANIFEST_ORDER'')) else
     pcatch (stage_manifest env rec d) (burn_ticket paths rec [''MANIFEST_REPLAY'', ''TICKET_REPLAY'', ''IMPORT_TERMINAL'', ''PUBLISH_UNCERTAIN'']))))))))"

subsection \<open>Recovery after a restart\<close>

definition is_reservation_name :: "string \<Rightarrow> bool" where
  "is_reservation_name name = fixed_regex (replicate 64 lower_hex @ lit ''.json'') name"

definition recover_staged :: "coordinator_env \<Rightarrow> json \<Rightarrow> string option \<Rightarrow> json list importing" where
  "recover_staged env rec failure = (let paths = ce_paths env; ref = record_ref rec; m = record_metadata rec in
     pthen (plift (participantFilenames (member_text m ''role''))) (\<lambda>(ciphertext, artifactManifest).
     pthen (existsSync (quarantine_path paths ref ciphertext)) (\<lambda>present. if \<not> present then Ret (Inr []) else
     pcatch
       (pthen (hashExactRegularFile (ce_sha env) (quarantine_path paths ref ciphertext) (jnumber m ''ciphertextObjectLength'')
          (jtext m ''ciphertextObjectDigest'') ''CIPHERTEXT'') (\<lambda>_.
        pthen (existsSync (ciphertext_marker_path paths ref)) (\<lambda>marked.
        pthen (if marked then Ret (Inr ()) else writeNew (ciphertext_marker_path paths ref) (ciphertext_marker ref ciphertext m)) (\<lambda>_.
        pthen (existsSync (quarantine_path paths ref artifactManifest)) (\<lambda>manifestStaged.
        if \<not> manifestStaged then Ret (Inr []) else
        pthen (finalizeStagedImport env rec True (failure = Some ''RECONCILIATION_REQUIRED'')) (\<lambda>recovered. Ret (Inr [recovered])))))))
       (\<lambda>e. pthen (recordTerminalFailure paths rec ''FAILED'' e) (\<lambda>_. Ret (Inr []))))))"

definition recover_reservation :: "coordinator_env \<Rightarrow> string \<Rightarrow> json list importing" where
  "recover_reservation env name = (let paths = ce_paths env in
     pthen (readExactJsonFile (join_path (cp_reservations paths) name)) (\<lambda>rec.
     pthen (existsSync (commit_path paths (record_ref rec))) (\<lambda>committed. if \<not> committed then Ret (Inr []) else
     pthen (readFailureMarker rec (failure_path paths (record_ref rec))) (\<lambda>failure.
     pthen (existsSync (published_path paths (record_ref rec))) (\<lambda>published. if published then Ret (Inr []) else
     if failure \<noteq> None \<and> failure \<noteq> Some ''RECONCILIATION_REQUIRED'' then Ret (Inr []) else
     recover_staged env rec failure)))))"

definition recover :: "coordinator_env \<Rightarrow> json list importing" where
  "recover env = Op (ListFiles (cp_reservations (ce_paths env))) (\<lambda>r. case r of
     RNames names \<Rightarrow> pfor (filter is_reservation_name names) (recover_reservation env)
   | _ \<Rightarrow> Ret (Inl DependencyError))"

definition createParticipantOriginatedCoordinator :: "coordinator_env \<Rightarrow> pid \<Rightarrow> json list importing" where
  "createParticipantOriginatedCoordinator env p =
     pthen (pfor [cp_root (ce_paths env), cp_quarantine (ce_paths env), cp_reservations (ce_paths env), cp_roles (ce_paths env), cp_nonces (ce_paths env),
       cp_transactions (ce_paths env), cp_stages (ce_paths env), cp_failures (ce_paths env)]
       (\<lambda>dir. pthen (done_call (EnsureDirectory dir)) (\<lambda>_. Ret (Inr ([] :: unit list))))) (\<lambda>_.
     pthen (recoverReservationTransactions (ce_sha env) (ce_paths env) p) (\<lambda>_.
     recover env))"

subsection \<open>Coordinators beside each other\<close>

definition finish :: "'a importing \<Rightarrow> (import_op, import_reply, unit) prog" where
  "finish m = pbind m (\<lambda>_. Ret ())"

definition with_process :: "pid \<Rightarrow> import_world \<Rightarrow> import_world" where
  "with_process p w = w\<lparr>iw_alive := p # iw_alive w\<rparr>"

text \<open>A process serves one request at a time. The reference of a new ticket is one that no earlier ticket had: tickets are 256 random bits.\<close>

inductive import_start :: "coordinator_env \<Rightarrow> pid \<Rightarrow> import_world \<Rightarrow> import_world \<Rightarrow> (import_op, import_reply, unit) prog \<Rightarrow> bool" for env p w where
  start_begin: "map_of (iw_begun w) ref = None \<Longrightarrow> ref = ticketReference (ce_sha env) ticket
     \<Longrightarrow> import_start env p w ((with_process p w)\<lparr>iw_begun := (ref, Some p) # iw_begun w\<rparr>) (finish (beginImport env p metadata ticket))"
| start_status: "import_start env p w (with_process p w) (finish (status env ticket))"
| start_ciphertext: "import_start env p w (with_process p w) (finish (uploadCiphertext env ticket d))"
| start_manifest: "import_start env p w (with_process p w) (finish (uploadArtifactManifest env ticket d))"
| start_coordinator: "import_start env p w (with_process p w) (finish (createParticipantOriginatedCoordinator env p))"

definition import_step where
  "import_step env may = conc_step import_exec (import_start env) import_crash may"

definition empty_world :: import_world where
  "empty_world = \<lparr>iw_files = [], iw_directories = [], iw_journal = [], iw_active = [], iw_alive = [], iw_begun = [], iw_callbacks = []\<rparr>"

end
