(* ===== verification/Coordinator_Reservations.thy ===== *)
theory Coordinator_Reservations
  imports Originated_Coordinator
begin

text \<open>
  What the reservation transactions of the coordinator guarantee when several coordinators work on one directory, each
  may die between two system calls and every call may fail: a committed ticket keeps its claims, so no role and no nonce
  belongs to two committed tickets.  The proof is by rely and guarantee; the one assumption on the schedule is that no
  process removes a file that changed after the process read it.  Without it the guarantee fails, which is shown last.
\<close>

subsection \<open>Members and canonical texts\<close>

lemma map_of_sort_key: "map_of (sort_key fst xs) k = map_of xs k"
proof -
  have first: "map_of ys k = (case filter (\<lambda>kv. fst kv = k) ys of [] \<Rightarrow> None | kv # _ \<Rightarrow> Some (snd kv))" for ys
    by (induction ys) auto
  have "filter (\<lambda>kv. fst kv = k) (sort_key fst xs) = filter (\<lambda>kv. fst kv = k) xs" by (rule sort_key_stable)
  then show ?thesis by (simp add: first)
qed

lemma jfield_sort_members: "jfield (sort_members v) k = map_option sort_members (jfield v k)"
proof (cases v)
  case (JObj kvs)
  have "map_of (map (\<lambda>(k, v). (k, sort_members v)) kvs) k = map_option sort_members (map_of kvs k)"
    by (induction kvs) auto
  then show ?thesis using JObj by (simp add: map_of_sort_key)
qed auto

lemma sort_members_text: "sort_members v = JStr s \<longleftrightarrow> v = JStr s"
  by (cases v) auto

definition about :: "string \<Rightarrow> json \<Rightarrow> bool" where
  "about ref v \<longleftrightarrow> jfield v ''ticketRef'' = Some (JStr ref)"

lemma about_unique: "about a v \<Longrightarrow> about b v \<Longrightarrow> a = b"
  by (simp add: about_def)

lemma about_text: "about ref v \<Longrightarrow> member_text v ''ticketRef'' = ref"
  by (simp add: about_def member_text_def)

lemma about_exact:
  assumes "exactStateEquals v w" "about ref w"
  shows "about ref v"
proof -
  have "sort_members v = sort_members w" using assms(1) by (simp add: exactStateEquals_def canonicalJson_eq_iff)
  then have "map_option sort_members (jfield v ''ticketRef'') = map_option sort_members (jfield w ''ticketRef'')"
    using jfield_sort_members by metis
  then show ?thesis using assms(2) by (auto simp: about_def sort_members_text)
qed

lemma about_documents [simp]:
  "about ref (transaction_document p ref' rec) \<longleftrightarrow> ref = ref'"
  "about ref (reservation_record ref' metadata at) \<longleftrightarrow> ref = ref'"
  by (auto simp: about_def transaction_document_def reservation_record_def)

lemma about_claims: "about ref rec \<Longrightarrow> cl \<in> set (claims_of (plan_of sha paths rec)) \<Longrightarrow> about ref (cl_value cl)"
  using about_text [of ref rec]
  by (auto simp: claims_of_def plan_of_def role_claim_def nonce_claim_def NONCE_PHASES_def Let_def) (auto simp: about_def)

subsection \<open>Paths\<close>

lemma transaction_paths [simp]:
  "intent_path paths a = intent_path paths b \<longleftrightarrow> a = b"
  "commit_path paths a = commit_path paths b \<longleftrightarrow> a = b"
  "intent_path paths a \<noteq> commit_path paths b"
  "commit_path paths a \<noteq> intent_path paths b"
proof -
  have "a @ ''.intent.json'' \<noteq> b @ ''.commit.json''" for a b by (simp add: append_eq_append_conv)
  then show "intent_path paths a \<noteq> commit_path paths b" "commit_path paths a \<noteq> intent_path paths b"
    by (auto simp: intent_path_def commit_path_def join_path_def)
qed (simp_all add: intent_path_def commit_path_def join_path_def)

text \<open>The paths outside the directory of the transactions.\<close>

definition outside :: "coordinator_paths \<Rightarrow> string \<Rightarrow> bool" where
  "outside paths path \<longleftrightarrow> (\<forall>ref. path \<noteq> intent_path paths ref \<and> path \<noteq> commit_path paths ref)"

lemma outside_dirs [simp]:
  "outside (coordinatorPaths root) (join_path (cp_quarantine (coordinatorPaths root)) x)"
  "outside (coordinatorPaths root) (join_path (cp_reservations (coordinatorPaths root)) x)"
  "outside (coordinatorPaths root) (join_path (cp_roles (coordinatorPaths root)) x)"
  "outside (coordinatorPaths root) (join_path (cp_nonces (coordinatorPaths root)) x)"
  "outside (coordinatorPaths root) (join_path (cp_stages (coordinatorPaths root)) x)"
  "outside (coordinatorPaths root) (join_path (cp_failures (coordinatorPaths root)) x)"
  by (simp_all add: outside_def intent_path_def commit_path_def coordinatorPaths_def join_path_def)

lemma outside_paths [simp]:
  "outside (coordinatorPaths root) (failure_path (coordinatorPaths root) ref)"
  "outside (coordinatorPaths root) (published_path (coordinatorPaths root) ref)"
  "outside (coordinatorPaths root) (ciphertext_marker_path (coordinatorPaths root) ref)"
  "outside (coordinatorPaths root) (quarantine_path (coordinatorPaths root) ref name)"
  unfolding failure_path_def published_path_def ciphertext_marker_path_def quarantine_path_def
  by (simp_all add: outside_def intent_path_def commit_path_def coordinatorPaths_def join_path_def)

lemma outside_claims: "cl \<in> set (claims_of (plan_of sha (coordinatorPaths root) rec)) \<Longrightarrow> outside (coordinatorPaths root) (cl_path cl)"
  by (auto simp: claims_of_def plan_of_def role_claim_def nonce_claim_def Let_def)

lemma intent_name:
  assumes "is_intent_name name"
  obtains ref where "join_path (cp_transactions paths) name = intent_path paths ref"
proof -
  from assms obtain a b where "name = a @ b" "list_all2 (\<lambda>p c. p c) (lit ''.intent.json'') b"
    unfolding is_intent_name_def fixed_regex_def by (auto simp: list_all2_append1)
  then have "name = a @ ''.intent.json''" by (simp add: lit_match)
  then show ?thesis using that by (simp add: intent_path_def)
qed

subsection \<open>The shared invariant\<close>

abbreviation owner_of :: "import_world \<Rightarrow> string \<Rightarrow> pid option option" where
  "owner_of w ref \<equiv> map_of (iw_begun w) ref"

definition committed :: "coordinator_paths \<Rightarrow> import_world \<Rightarrow> string \<Rightarrow> bool" where
  "committed paths w ref \<longleftrightarrow> file_at w (commit_path paths ref) \<noteq> None"

definition holds_claim :: "import_world \<Rightarrow> reservation_claim \<Rightarrow> bool" where
  "holds_claim w cl \<longleftrightarrow> (\<exists>v. file_at w (cl_path cl) = Some (Document v) \<and> exactStateEquals v (cl_value cl))"

definition prepared :: "(string \<Rightarrow> string) \<Rightarrow> coordinator_paths \<Rightarrow> import_world \<Rightarrow> string \<Rightarrow> bool" where
  "prepared sha paths w ref \<longleftrightarrow> (\<exists>q rec. file_at w (intent_path paths ref) = Some (Document (transaction_document q ref rec)) \<and> about ref rec
     \<and> (\<forall>cl \<in> set (claims_of (plan_of sha paths rec)). holds_claim w cl))"

definition import_shared :: "(string \<Rightarrow> string) \<Rightarrow> coordinator_paths \<Rightarrow> import_world \<Rightarrow> bool" where
  "import_shared sha paths w \<longleftrightarrow>
     (\<forall>ref. committed paths w ref \<longrightarrow> prepared sha paths w ref)
   \<and> (\<forall>ref f. file_at w (intent_path paths ref) = Some f \<longrightarrow> (\<exists>q rec. f = Document (transaction_document q ref rec) \<and> about ref rec
        \<and> owner_of w ref \<in> {Some (Some q), Some None}))
   \<and> (\<forall>ref q. owner_of w ref = Some (Some q) \<longrightarrow> q \<in> set (iw_alive w))"

definition import_relies :: "coordinator_paths \<Rightarrow> pid \<Rightarrow> import_world \<Rightarrow> import_world \<Rightarrow> bool" where
  "import_relies paths p w w' \<longleftrightarrow>
     (\<forall>ref. committed paths w ref \<longrightarrow> committed paths w' ref)
   \<and> (\<forall>ref owner. owner_of w ref = Some owner \<longrightarrow> owner_of w' ref \<in> {Some owner, Some None})
   \<and> (\<forall>ref. owner_of w ref = Some (Some p) \<longrightarrow> owner_of w' ref = Some (Some p))
   \<and> (\<forall>path v ref. file_at w path = Some (Document v) \<longrightarrow> about ref v \<longrightarrow> owner_of w ref = Some (Some p) \<longrightarrow> file_at w' path = Some (Document v))
   \<and> (\<forall>ref. owner_of w ref \<in> {Some (Some p), Some None} \<longrightarrow> \<not> committed paths w ref \<longrightarrow> \<not> committed paths w' ref)"

definition import_guards :: "(string \<Rightarrow> string) \<Rightarrow> coordinator_paths \<Rightarrow> pid \<Rightarrow> import_op \<Rightarrow> import_world \<Rightarrow> bool" where
  "import_guards sha paths p call w = (case call of
     CreateOnly path v \<Rightarrow> (\<forall>ref. path = commit_path paths ref \<longrightarrow> owner_of w ref = Some (Some p) \<and> prepared sha paths w ref)
       \<and> (\<forall>ref. path = intent_path paths ref \<longrightarrow> owner_of w ref = Some (Some p) \<and> (\<exists>rec. v = transaction_document p ref rec \<and> about ref rec))
   | Unlink path seen \<Rightarrow> (\<exists>ref. about ref seen \<and> owner_of w ref \<in> {Some (Some p), Some None} \<and> \<not> committed paths w ref)
       \<and> (\<forall>ref. path \<noteq> commit_path paths ref)
   | StageObject path ref v \<Rightarrow> outside paths path
   | _ \<Rightarrow> True)"

text \<open>The schedules considered: what is removed is what was read.\<close>

fun unchanged_since_read :: "import_op \<Rightarrow> import_world \<Rightarrow> bool" where
  "unchanged_since_read (Unlink path seen) w = (file_at w path \<in> {None, Some (Document seen)})"
| "unchanged_since_read call w = True"

lemma file_at_cons [simp]: "file_at (w\<lparr>iw_files := (path, f) # iw_files w\<rparr>) x = (if x = path then Some f else file_at w x)"
  by (simp add: file_at_def)

lemma file_at_removed [simp]: "file_at (w\<lparr>iw_files := filter (\<lambda>kv. fst kv \<noteq> path) (iw_files w)\<rparr>) x = (if x = path then None else file_at w x)"
proof -
  have "map_of (filter (\<lambda>kv. fst kv \<noteq> path) fs) x = (if x = path then None else map_of fs x)" for fs :: "(string \<times> stored_file) list" and x
    by (induction fs) auto
  then show ?thesis by (simp add: file_at_def)
qed

lemma import_reliesI:
  assumes "\<And>ref. committed paths w ref \<Longrightarrow> committed paths w' ref"
    and "\<And>ref owner. owner_of w ref = Some owner \<Longrightarrow> owner_of w' ref = Some owner \<or> owner_of w' ref = Some None"
    and "\<And>ref. owner_of w ref = Some (Some p) \<Longrightarrow> owner_of w' ref = Some (Some p)"
    and "\<And>path v ref. file_at w path = Some (Document v) \<Longrightarrow> about ref v \<Longrightarrow> owner_of w ref = Some (Some p) \<Longrightarrow> file_at w' path = Some (Document v)"
    and "\<And>ref. owner_of w ref = Some (Some p) \<or> owner_of w ref = Some None \<Longrightarrow> \<not> committed paths w ref \<Longrightarrow> \<not> committed paths w' ref"
  shows "import_relies paths p w w'"
  using assms unfolding import_relies_def by blast

lemma import_reliesD:
  assumes "import_relies paths p w w'"
  shows "committed paths w ref \<Longrightarrow> committed paths w' ref"
    and "owner_of w ref = Some owner \<Longrightarrow> owner_of w' ref = Some owner \<or> owner_of w' ref = Some None"
    and "owner_of w ref = Some None \<Longrightarrow> owner_of w' ref = Some None"
    and "owner_of w ref = Some (Some p) \<Longrightarrow> owner_of w' ref = Some (Some p)"
    and "file_at w path = Some (Document v) \<Longrightarrow> about ref v \<Longrightarrow> owner_of w ref = Some (Some p) \<Longrightarrow> file_at w' path = Some (Document v)"
    and "owner_of w ref = Some (Some p) \<or> owner_of w ref = Some None \<Longrightarrow> \<not> committed paths w ref \<Longrightarrow> \<not> committed paths w' ref"
  using assms unfolding import_relies_def by blast+

lemma import_relies_refl: "import_relies paths p w w"
  by (rule import_reliesI) blast+

lemma import_relies_trans:
  assumes "import_relies paths p s t" "import_relies paths p t u"
  shows "import_relies paths p s u"
proof (rule import_reliesI)
  show "owner_of u ref = Some owner \<or> owner_of u ref = Some None" if "owner_of s ref = Some owner" for ref owner
    using that import_reliesD(2,3) [OF assms(1)] import_reliesD(2,3) [OF assms(2)] by metis
qed (use import_reliesD [OF assms(1)] import_reliesD [OF assms(2)] in \<open>blast+\<close>)


text \<open>The laws of the proof rule, first what a guarded call does to the invariant and to the others.\<close>

lemma holds_claim_mono: "holds_claim w cl \<Longrightarrow> (\<And>v. file_at w (cl_path cl) = Some (Document v) \<Longrightarrow> file_at w' (cl_path cl) = Some (Document v)) \<Longrightarrow> holds_claim w' cl"
  unfolding holds_claim_def by blast

lemma prepared_mono:
  assumes "prepared sha paths w ref" "\<And>path v. file_at w path = Some (Document v) \<Longrightarrow> about ref v \<Longrightarrow> file_at w' path = Some (Document v)"
  shows "prepared sha paths w' ref"
proof -
  from assms(1) obtain q rec where i: "file_at w (intent_path paths ref) = Some (Document (transaction_document q ref rec))" "about ref rec"
    and c: "\<forall>cl \<in> set (claims_of (plan_of sha paths rec)). holds_claim w cl" unfolding prepared_def by blast
  have "holds_claim w' cl" if "cl \<in> set (claims_of (plan_of sha paths rec))" for cl
    using that c about_claims [OF i(2) that] about_exact assms(2) unfolding holds_claim_def by metis
  then show ?thesis using i assms(2) [OF i(1)] unfolding prepared_def by auto
qed

lemma import_sharedI:
  assumes "\<And>ref. committed paths w ref \<Longrightarrow> prepared sha paths w ref"
    and "\<And>ref f. file_at w (intent_path paths ref) = Some f
      \<Longrightarrow> \<exists>q rec. f = Document (transaction_document q ref rec) \<and> about ref rec \<and> owner_of w ref \<in> {Some (Some q), Some None}"
    and "\<And>ref q. owner_of w ref = Some (Some q) \<Longrightarrow> q \<in> set (iw_alive w)"
  shows "import_shared sha paths w"
  using assms unfolding import_shared_def by blast

lemma import_sharedD:
  assumes "import_shared sha paths w"
  shows "committed paths w ref \<Longrightarrow> prepared sha paths w ref"
    and "file_at w (intent_path paths ref) = Some f
      \<Longrightarrow> \<exists>q rec. f = Document (transaction_document q ref rec) \<and> about ref rec \<and> owner_of w ref \<in> {Some (Some q), Some None}"
    and "owner_of w ref = Some (Some q) \<Longrightarrow> q \<in> set (iw_alive w)"
  using assms unfolding import_shared_def by blast+

lemma committed_begun:
  assumes "import_shared sha paths w" "committed paths w ref"
  shows "owner_of w ref \<noteq> None"
  using import_sharedD(1) [OF assms] import_sharedD(2) [OF assms(1)] unfolding prepared_def by (metis insertE option.distinct(1) singletonD)

text \<open>Three kinds of change to the files: none, one more, one less.\<close>

lemma same_files:
  assumes "iw_files w' = iw_files w" "iw_begun w' = iw_begun w" "iw_alive w' = iw_alive w"
  shows "import_shared sha paths w' = import_shared sha paths w" and "import_relies paths p w w'"
proof -
  have f: "file_at w' = file_at w" using assms by (simp add: file_at_def fun_eq_iff)
  then show "import_shared sha paths w' = import_shared sha paths w"
    by (simp add: import_shared_def prepared_def holds_claim_def committed_def assms)
  show "import_relies paths p w w'" by (rule import_reliesI) (simp_all add: f committed_def assms)
qed

lemma one_more_file:
  assumes "import_shared sha paths w" "file_at w path = None"
    and commit: "\<And>ref. path = commit_path paths ref \<Longrightarrow> owner_of w ref = Some (Some p) \<and> prepared sha paths w ref"
    and intent: "\<And>ref. path = intent_path paths ref
      \<Longrightarrow> owner_of w ref = Some (Some p) \<and> (\<exists>rec. f = Document (transaction_document p ref rec) \<and> about ref rec)"
  shows "import_shared sha paths (w\<lparr>iw_files := (path, f) # iw_files w\<rparr>)"
    and "q \<noteq> p \<Longrightarrow> import_relies paths q w (w\<lparr>iw_files := (path, f) # iw_files w\<rparr>)"
proof -
  let ?w = "w\<lparr>iw_files := (path, f) # iw_files w\<rparr>"
  have f: "file_at ?w x = (if x = path then Some f else file_at w x)" for x by (simp add: file_at_def)
  then have keep: "file_at w x = Some y \<Longrightarrow> file_at ?w x = Some y" for x y using assms(2) by auto
  have prep: "prepared sha paths w ref \<Longrightarrow> prepared sha paths ?w ref" for ref
    using prepared_mono keep by blast
  show "import_shared sha paths ?w"
  proof (rule import_sharedI)
    show "prepared sha paths ?w ref" if "committed paths ?w ref" for ref
      using that prep commit import_sharedD(1) [OF assms(1)] unfolding committed_def f by (metis option.distinct(1))
    show "\<exists>q rec. g = Document (transaction_document q ref rec) \<and> about ref rec \<and> owner_of ?w ref \<in> {Some (Some q), Some None}"
      if "file_at ?w (intent_path paths ref) = Some g" for ref g
      using that intent [of ref] import_sharedD(2) [OF assms(1), of ref] unfolding f by (auto split: if_splits)
    show "q \<in> set (iw_alive ?w)" if "owner_of ?w ref = Some (Some q)" for ref q
      using that import_sharedD(3) [OF assms(1)] by simp
  qed
  show "import_relies paths q w ?w" if "q \<noteq> p"
  proof (rule import_reliesI)
    show "\<not> committed paths ?w ref" if o: "owner_of w ref = Some (Some q) \<or> owner_of w ref = Some None" and "\<not> committed paths w ref" for ref
      using commit [of ref] o \<open>q \<noteq> p\<close> \<open>\<not> committed paths w ref\<close> unfolding committed_def f by auto
  qed (use keep in \<open>auto simp: committed_def\<close>)
qed

lemma one_file_less:
  assumes "import_shared sha paths w" "file_at w path = Some (Document seen)" "about ref seen"
    and "owner_of w ref = Some (Some p) \<or> owner_of w ref = Some None" "\<not> committed paths w ref" "\<And>ref. path \<noteq> commit_path paths ref"
  shows "import_shared sha paths (w\<lparr>iw_files := filter (\<lambda>kv. fst kv \<noteq> path) (iw_files w)\<rparr>)"
    and "q \<noteq> p \<Longrightarrow> import_relies paths q w (w\<lparr>iw_files := filter (\<lambda>kv. fst kv \<noteq> path) (iw_files w)\<rparr>)"
proof -
  let ?w = "w\<lparr>iw_files := filter (\<lambda>kv. fst kv \<noteq> path) (iw_files w)\<rparr>"
  have com: "committed paths ?w r = committed paths w r" for r using assms(6) [of r] by (auto simp: committed_def)
  have keep: "file_at ?w x = Some (Document v)" if "file_at w x = Some (Document v)" "about r v" "r \<noteq> ref" for x v r
    using that assms(2,3) about_unique by fastforce
  show "import_shared sha paths ?w"
  proof (rule import_sharedI)
    show "prepared sha paths ?w r" if "committed paths ?w r" for r
    proof (rule prepared_mono)
      have r: "committed paths w r" using that com by simp
      then show "prepared sha paths w r" by (rule import_sharedD(1) [OF assms(1)])
      show "file_at ?w x = Some (Document v)" if "file_at w x = Some (Document v)" "about r v" for x v
        using keep [OF that] r assms(5) by blast
    qed
    show "\<exists>q rec. g = Document (transaction_document q r rec) \<and> about r rec \<and> owner_of ?w r \<in> {Some (Some q), Some None}"
      if "file_at ?w (intent_path paths r) = Some g" for r g
      using that import_sharedD(2) [OF assms(1), of r] by (auto split: if_splits)
    show "q \<in> set (iw_alive ?w)" if "owner_of ?w r = Some (Some q)" for r q
      using that import_sharedD(3) [OF assms(1)] by simp
  qed
  show "import_relies paths q w ?w" if "q \<noteq> p"
  proof (rule import_reliesI)
    show "file_at ?w x = Some (Document v)" if "file_at w x = Some (Document v)" "about r v" "owner_of w r = Some (Some q)" for x v r
    proof -
      have "r \<noteq> ref" using that(3) assms(4) \<open>q \<noteq> p\<close> by auto
      then show ?thesis by (rule keep [OF that(1,2)])
    qed
  qed (auto simp: com)
qed


text \<open>Most calls leave the files alone.\<close>

fun changes_files :: "import_op \<Rightarrow> bool" where
  "changes_files (CreateOnly path v) = True"
| "changes_files (Unlink path seen) = True"
| "changes_files (StageObject path ref v) = True"
| "changes_files call = False"

lemma other_calls:
  assumes "import_exec p call io w = (w', r)"
  shows "\<not> changes_files call \<Longrightarrow> iw_files w' = iw_files w" and "iw_begun w' = iw_begun w" and "iw_alive w' = iw_alive w"
  using assms by (cases call; auto split: if_splits option.splits)+

lemma exec_cases:
  assumes "import_exec p call io w = (w', r)"
  obtains (same) "iw_files w' = iw_files w"
    | (more) path f where "file_at w path = None" "w' = w\<lparr>iw_files := (path, f) # iw_files w\<rparr>"
        "(\<exists>v. call = CreateOnly path v \<and> f = Document v) \<or> (\<exists>ref v. call = StageObject path ref v)"
    | (less) path seen where "call = Unlink path seen" "file_at w path \<noteq> None" "w' = w\<lparr>iw_files := filter (\<lambda>kv. fst kv \<noteq> path) (iw_files w)\<rparr>"
proof (cases call)
  case (CreateOnly path v)
  show ?thesis
  proof (cases "io_fault io = FailsBefore \<or> file_at w path \<noteq> None")
    case True
    then have "w' = w" using assms CreateOnly by (auto split: if_splits)
    then show ?thesis by (intro same) simp
  next
    case False
    then show ?thesis using assms CreateOnly by (intro more [of path "Document v"]) auto
  qed
next
  case (Unlink path seen)
  show ?thesis
  proof (cases "io_fault io = FailsBefore \<or> file_at w path = None")
    case True
    then have "w' = w" using assms Unlink by (auto split: if_splits)
    then show ?thesis by (intro same) simp
  next
    case False
    then show ?thesis using assms Unlink by (intro less [of path seen]) auto
  qed
next
  case (StageObject path ref v)
  show ?thesis
  proof (cases "io_bytes io \<noteq> None \<and> file_at w path = None")
    case True
    then obtain bytes where "w' = w\<lparr>iw_files := (path, Object bytes) # iw_files w\<rparr>" using assms StageObject by auto
    then show ?thesis using True StageObject by (intro more [of path "Object bytes"]) auto
  next
    case False
    then have "w' = w" using assms StageObject by (auto split: option.splits if_splits)
    then show ?thesis by (intro same) simp
  qed
qed (use other_calls(1) [OF assms] that(1) in auto)

lemma guarded_call:
  assumes "import_shared sha paths w" "import_guards sha paths p call w" "unchanged_since_read call w" "import_exec p call io w = (w', r)"
  shows "import_shared sha paths w'" and "q \<noteq> p \<Longrightarrow> import_relies paths q w w'"
proof -
  have "import_shared sha paths w' \<and> (q \<noteq> p \<longrightarrow> import_relies paths q w w')"
    using assms(4)
  proof (cases rule: exec_cases)
    case same
    then show ?thesis using same_files [of w' w] other_calls(2,3) [OF assms(4)] assms(1) by metis
  next
    case (more path f)
    have "owner_of w ref = Some (Some p) \<and> prepared sha paths w ref" if "path = commit_path paths ref" for ref
      using more(3) assms(2) that by (auto simp: import_guards_def outside_def)
    moreover have "owner_of w ref = Some (Some p) \<and> (\<exists>rec. f = Document (transaction_document p ref rec) \<and> about ref rec)" if "path = intent_path paths ref" for ref
      using more(3) assms(2) that by (auto simp: import_guards_def outside_def)
    ultimately show ?thesis using one_more_file [OF assms(1) more(1)] more(2) by blast
  next
    case (less path seen)
    then obtain ref where ref: "about ref seen" "owner_of w ref = Some (Some p) \<or> owner_of w ref = Some None" "\<not> committed paths w ref"
      and path: "\<And>ref. path \<noteq> commit_path paths ref"
      using assms(2) by (auto simp: import_guards_def)
    have "file_at w path = Some (Document seen)" using less(1,2) assms(3) by auto
    then show ?thesis using one_file_less [OF assms(1) _ ref path] less(3) by blast
  qed
  then show "import_shared sha paths w'" and "q \<noteq> p \<Longrightarrow> import_relies paths q w w'" by blast+
qed

interpretation importing_rely: rely import_exec unchanged_since_read "import_shared sha paths" "import_relies paths" "import_guards sha paths" for sha paths
  by unfold_locales (rule import_relies_refl, rule import_relies_trans)

abbreviation import_fit where
  "import_fit sha paths \<equiv> fit import_exec unchanged_since_read (import_shared sha paths) (import_relies paths) (import_guards sha paths)"

lemmas import_fit_rules = importing_rely.fit_pthen importing_rely.fit_pcatch importing_rely.fit_Op importing_rely.fit_pbind

subsection \<open>Programs that only add files outside the transactions\<close>

fun harmless_call :: "coordinator_paths \<Rightarrow> import_op \<Rightarrow> bool" where
  "harmless_call paths (CreateOnly path v) = outside paths path"
| "harmless_call paths (StageObject path ref v) = outside paths path"
| "harmless_call paths (Unlink path seen) = False"
| "harmless_call paths call = True"

primrec harmless :: "coordinator_paths \<Rightarrow> (import_op, import_reply, 'a) prog \<Rightarrow> bool" where
  "harmless paths (Ret x) = True"
| "harmless paths (Op call k) = (harmless_call paths call \<and> (\<forall>r. harmless paths (k r)))"

lemma harmless_guards: "harmless_call paths call \<Longrightarrow> import_guards sha paths p call w"
  by (cases call) (auto simp: import_guards_def outside_def)

lemma harmless_fit: "harmless paths P \<Longrightarrow> import_fit sha paths p (\<lambda>_ _. True) P w"
  by (induction P arbitrary: w) (auto simp: harmless_guards)

lemma harmless_pbind: "harmless paths m \<Longrightarrow> (\<And>x. harmless paths (f x)) \<Longrightarrow> harmless paths (pbind m f)"
  by (induction m) auto

lemma harmless_pthen: "harmless paths m \<Longrightarrow> (\<And>x. harmless paths (f x)) \<Longrightarrow> harmless paths (pthen m f)"
  unfolding pthen_def by (rule harmless_pbind) (auto split: sum.splits)

lemma harmless_pcatch: "harmless paths m \<Longrightarrow> (\<And>e. harmless paths (h e)) \<Longrightarrow> harmless paths (pcatch m h)"
  unfolding pcatch_def by (rule harmless_pbind) (auto split: sum.splits)

lemma harmless_pfor: "(\<And>x. x \<in> set xs \<Longrightarrow> harmless paths (f x)) \<Longrightarrow> harmless paths (pfor xs f)"
  by (induction xs) (auto intro!: harmless_pthen)

lemma harmless_basic:
  "harmless paths (plift x)" "harmless paths (existsSync path)" "harmless paths (readExactJsonFile path)" "harmless paths now_seconds"
  "harmless paths (call_back name ref v)" "harmless paths (appendJournal event)" "harmless paths (hashExactRegularFile sha path len dig kind)"
  "harmless paths (staged_manifest env m path)" "harmless_call paths call \<Longrightarrow> harmless paths (done_call call)"
  "outside paths path \<Longrightarrow> harmless paths (writeCreateOnly path v)" "outside paths path \<Longrightarrow> harmless paths (writeNew path v)"
  by (auto simp: plift_def existsSync_def readExactJsonFile_def now_seconds_def call_back_def appendJournal_def done_call_def hashExactRegularFile_def
    staged_manifest_def writeCreateOnly_def writeNew_def intro!: harmless_pthen)

lemmas harmless_intros = harmless_pthen harmless_pcatch harmless_pfor harmless_basic

lemma harmless_authenticate: "harmless paths (authenticate operation m ref)"
  unfolding authenticate_def by (intro harmless_intros) simp_all

lemma harmless_publicStatus: "harmless paths (publicStatus paths' rec)"
  unfolding publicStatus_def Let_def readFailureMarker_def
  by (auto simp: harmless_basic split: prod.splits intro!: harmless_intros)

lemma harmless_reservation: "harmless paths (reservation env ticket)"
  unfolding reservation_def Let_def by (auto simp: harmless_basic intro!: harmless_intros)

lemma harmless_status: "harmless paths (status env ticket)"
  unfolding status_def not_expired_def
  by (auto simp: harmless_reservation harmless_authenticate harmless_publicStatus harmless_basic intro!: harmless_intros)


lemma harmless_assertUploadAvailable: "harmless paths (assertUploadAvailable paths' rec)"
  unfolding assertUploadAvailable_def not_expired_def by (auto simp: harmless_basic intro!: harmless_intros)

lemma harmless_failure: "harmless (coordinatorPaths root) (recordTerminalFailure (coordinatorPaths root) rec state e)"
  unfolding recordTerminalFailure_def Let_def by (auto simp: harmless_basic intro!: harmless_intros)

lemma harmless_burn: "harmless (coordinatorPaths root) (burn_ticket (coordinatorPaths root) rec spared e)"
  unfolding burn_ticket_def by (auto simp: harmless_failure intro!: harmless_intros)

lemma harmless_stage: "harmless (coordinatorPaths root) (stageWithTrustedCallback (coordinatorPaths root) ref name dig len kind)"
  unfolding stageWithTrustedCallback_def by simp

lemma harmless_publication: "harmless (coordinatorPaths root) (record_publication (coordinatorPaths root) rec a b c d event)"
  unfolding record_publication_def Let_def by (auto simp: harmless_basic harmless_publicStatus intro!: harmless_intros)

lemma harmless_verify: "harmless (ce_paths env) (verify_and_publish env rec a b recovered)"
  unfolding verify_and_publish_def by (auto simp: harmless_basic harmless_publication harmless_failure intro!: harmless_intros)

lemma harmless_finalize: "harmless (ce_paths env) (finalizeStagedImport env rec recovered uncertain)"
  unfolding finalizeStagedImport_def Let_def
  by (auto simp: harmless_basic harmless_publication harmless_verify split: prod.splits intro!: harmless_intros)

lemma harmless_uploadCiphertext: "harmless (ce_paths env) (uploadCiphertext env ticket d)"
  unfolding uploadCiphertext_def stage_ciphertext_def Let_def
  by (auto simp: harmless_basic harmless_reservation harmless_assertUploadAvailable harmless_authenticate harmless_stage harmless_publicStatus harmless_burn
    split: prod.splits intro!: harmless_intros)

lemma harmless_uploadArtifactManifest: "harmless (ce_paths env) (uploadArtifactManifest env ticket d)"
  unfolding uploadArtifactManifest_def stage_manifest_def Let_def
  by (auto simp: harmless_basic harmless_reservation harmless_assertUploadAvailable harmless_authenticate harmless_stage harmless_finalize harmless_burn
    split: prod.splits intro!: harmless_intros)

lemma harmless_recover: "harmless (ce_paths env) (recover env)"
  unfolding recover_def recover_reservation_def recover_staged_def readFailureMarker_def Let_def
  by (auto simp: harmless_basic harmless_finalize harmless_failure split: prod.splits import_reply.splits intro!: harmless_intros)


subsection \<open>Conditions that last\<close>

text \<open>A condition that the others keep and that the process keeps too, as long as it commits nothing.\<close>

fun commits :: "coordinator_paths \<Rightarrow> import_op \<Rightarrow> bool" where
  "commits paths (CreateOnly path v) = (\<exists>ref. path = commit_path paths ref)"
| "commits paths (StageObject path ref v) = (\<not> outside paths path)"
| "commits paths call = False"

definition lasting :: "coordinator_paths \<Rightarrow> pid \<Rightarrow> (import_world \<Rightarrow> bool) \<Rightarrow> bool" where
  "lasting paths p K \<longleftrightarrow> (\<forall>w w'. K w \<longrightarrow> import_relies paths p w w' \<longrightarrow> K w')
     \<and> (\<forall>w w' call io r. K w \<longrightarrow> import_exec p call io w = (w', r) \<longrightarrow> \<not> commits paths call \<longrightarrow> K w')"

definition mine :: "pid \<Rightarrow> string \<Rightarrow> import_world \<Rightarrow> bool" where
  "mine p ref w \<longleftrightarrow> owner_of w ref = Some (Some p)"

definition removable :: "pid \<Rightarrow> string \<Rightarrow> import_world \<Rightarrow> bool" where
  "removable p ref w \<longleftrightarrow> owner_of w ref = Some (Some p) \<or> owner_of w ref = Some None"

definition open_mine :: "coordinator_paths \<Rightarrow> pid \<Rightarrow> string \<Rightarrow> import_world \<Rightarrow> bool" where
  "open_mine paths p ref w \<longleftrightarrow> mine p ref w \<and> \<not> committed paths w ref"

definition open_removable :: "coordinator_paths \<Rightarrow> pid \<Rightarrow> string \<Rightarrow> import_world \<Rightarrow> bool" where
  "open_removable paths p ref w \<longleftrightarrow> removable p ref w \<and> \<not> committed paths w ref"

lemma not_committed_exec:
  assumes "import_exec p call io w = (w', r)" "\<not> commits paths call" "\<not> committed paths w ref"
  shows "\<not> committed paths w' ref"
  using assms(1)
proof (cases rule: exec_cases)
  case same
  then show ?thesis using assms(3) by (simp add: committed_def file_at_def)
next
  case (more path f)
  then show ?thesis using assms(2,3) by (auto simp: committed_def outside_def)
next
  case (less path seen)
  then show ?thesis using assms(3) by (simp add: committed_def)
qed

lemma lasting_intros:
  "lasting paths p (\<lambda>_. True)" "lasting paths p (mine p ref)" "lasting paths p (removable p ref)"
  "lasting paths p (open_mine paths p ref)" "lasting paths p (open_removable paths p ref)"
  "lasting paths p (\<lambda>w. owner_of w ref \<in> {Some (Some q), Some None})"
  unfolding lasting_def mine_def removable_def open_mine_def open_removable_def
  by (auto simp: other_calls(2) dest: import_reliesD not_committed_exec)

lemma lasting_conj: "lasting paths p K \<Longrightarrow> lasting paths p L \<Longrightarrow> lasting paths p (\<lambda>w. K w \<and> L w)"
  unfolding lasting_def by blast

lemma lastingD:
  assumes "lasting paths p K" "K w"
  shows "import_relies paths p w w' \<Longrightarrow> K w'" and "import_exec p call io w = (w', r) \<Longrightarrow> \<not> commits paths call \<Longrightarrow> K w'"
  using assms unfolding lasting_def by blast+

text \<open>The rules for the single calls.\<close>

lemma fit_call:
  assumes "lasting paths p K" "K w" "\<And>u. import_shared sha paths u \<Longrightarrow> K u \<Longrightarrow> import_guards sha paths p call u" "\<not> commits paths call"
    and "\<And>t u io r. import_shared sha paths t \<Longrightarrow> K t \<Longrightarrow> K u \<Longrightarrow> import_exec p call io t = (u, r) \<Longrightarrow> import_fit sha paths p Q (k r) u"
  shows "import_fit sha paths p Q (Op call k) w"
  using lastingD [OF assms(1)] assms(2-5) by (intro importing_rely.fit_Op [where A = K]) blast+

lemma fit_exists:
  assumes "lasting paths p K" "K w" "\<And>u b. import_shared sha paths u \<Longrightarrow> K u \<Longrightarrow> (\<not> b \<Longrightarrow> file_at u path = None) \<Longrightarrow> Q (Inr b) u"
  shows "import_fit sha paths p Q (existsSync path) w"
  unfolding existsSync_def
  by (rule fit_call [OF assms(1,2)]) (auto simp: import_guards_def intro!: assms(3))

lemma fit_read:
  assumes "lasting paths p K" "K w" "\<And>u x. import_shared sha paths u \<Longrightarrow> K u \<Longrightarrow> (\<And>v. x = Inr v \<Longrightarrow> file_at u path = Some (Document v)) \<Longrightarrow> Q x u"
  shows "import_fit sha paths p Q (readExactJsonFile path) w"
  unfolding readExactJsonFile_def
  by (rule fit_call [OF assms(1,2)])
    (auto simp: import_guards_def readable_state_def intro!: assms(3) split: option.splits stored_file.splits if_splits)

lemma fit_harmless_call:
  assumes "lasting paths p K" "K w" "harmless_call paths call" "\<And>u r. K u \<Longrightarrow> import_fit sha paths p Q (k r) u"
  shows "import_fit sha paths p Q (Op call k) w"
  by (rule fit_call [OF assms(1,2)]) (use assms(3) in \<open>auto simp: harmless_guards intro!: assms(4)\<close>, cases call, auto simp: outside_def)

lemma fit_harmless:
  assumes "lasting paths p K" "K w" "harmless paths P"
  shows "import_fit sha paths p (\<lambda>_ u. K u) P w"
  using assms(2,3)
proof (induction P arbitrary: w)
  case (Op call k)
  then show ?case by (intro fit_harmless_call [OF assms(1)]) auto
qed simp

lemma fit_remove:
  assumes "lasting paths p K" "K w" "\<And>u. K u \<Longrightarrow> open_removable paths p ref u" "about ref v" "\<And>ref. path \<noteq> commit_path paths ref"
  shows "import_fit sha paths p (\<lambda>_ u. K u) (removeExactReservationClaim path v) w"
  unfolding removeExactReservationClaim_def
proof (rule importing_rely.fit_pthen [where Q = "\<lambda>_. K"], rule fit_exists [OF assms(1,2)])
  fix present t assume "K t"
  have "import_fit sha paths p (\<lambda>_ u. K u) (pthen (done_call (Unlink path existing)) (\<lambda>_. Ret (Inr ([] :: unit list)))) u" if "K u" "exactStateEquals existing v" for existing u
    unfolding done_call_def pthen_simps
    by (rule fit_call [OF assms(1) that(1)])
      (use about_exact [OF that(2) assms(4)] assms(3,5) in \<open>auto simp: import_guards_def open_removable_def removable_def split: if_splits\<close>)
  then have "import_fit sha paths p (\<lambda>_ u. K u) (pthen (readExactJsonFile path) (\<lambda>existing. if \<not> exactStateEquals existing v then Ret (Inr ([] :: unit list))
      else pthen (done_call (Unlink path existing)) (\<lambda>_. Ret (Inr ([] :: unit list))))) t"
    by (intro importing_rely.fit_pthen [where Q = "\<lambda>_. K"] fit_read [OF assms(1) \<open>K t\<close>]) (auto split: sum.splits)
  then show "import_fit sha paths p (\<lambda>_ u. K u) (if \<not> present then Ret (Inr ([] :: unit list)) else pthen (readExactJsonFile path) (\<lambda>existing.
      if \<not> exactStateEquals existing v then Ret (Inr ([] :: unit list)) else pthen (done_call (Unlink path existing)) (\<lambda>_. Ret (Inr ([] :: unit list))))) t"
    using \<open>K t\<close> by simp
qed simp


lemma fit_seq:
  assumes "import_fit sha paths p (\<lambda>x u. K u \<and> (\<forall>y. x = Inr y \<longrightarrow> L y u)) m w" "\<And>y u. K u \<Longrightarrow> L y u \<Longrightarrow> import_fit sha paths p (\<lambda>_ u. K u) (f y) u"
  shows "import_fit sha paths p (\<lambda>_ u. K u) (pthen m f) w"
  by (rule importing_rely.fit_pthen [where Q = "\<lambda>y u. K u \<and> L y u"], rule importing_rely.fit_mono [OF assms(1)])
    (auto split: sum.splits intro: assms(2))

lemma fit_then:
  assumes "import_fit sha paths p (\<lambda>_ u. K u) m w" "\<And>y u. K u \<Longrightarrow> import_fit sha paths p (\<lambda>_ u. K u) (f y) u"
  shows "import_fit sha paths p (\<lambda>_ u. K u) (pthen m f) w"
  by (rule fit_seq [where L = "\<lambda>_ _. True"]) (use assms in simp_all)

lemma fit_plift: "K w \<Longrightarrow> import_fit sha paths p (\<lambda>_ u. K u) (plift x) w"
  by (simp add: plift_def)

lemma fit_rollback:
  assumes "lasting paths p K" "K w" "\<And>u. K u \<Longrightarrow> removable p ref u" "about ref tx"
    and "\<And>cl. cl \<in> set (claims_of plan) \<Longrightarrow> about ref (cl_value cl) \<and> outside paths (cl_path cl)"
  shows "import_fit sha paths p (\<lambda>_ u. K u) (rollbackReservationTransaction paths tx plan) w"
proof -
  let ?K = "\<lambda>u. K u \<and> open_removable paths p ref u"
  have last: "lasting paths p ?K" by (intro lasting_conj assms(1) lasting_intros)
  have claims: "import_fit sha paths p (\<lambda>_. ?K) (removeExactReservationClaim (cl_path cl) (cl_value cl)) u"
    if "cl \<in> set (rev (rp_nonces plan) @ [rp_role plan, rp_reservation plan])" "?K u" for cl u
    using assms(5) [of cl] that by (intro fit_remove [OF last, where ref = ref]) (auto simp: claims_of_def outside_def)
  have dir: "import_fit sha paths p (\<lambda>_. ?K) (removeEmptyQuarantine (rp_quarantine plan)) u" if "?K u" for u
    by (rule fit_harmless [OF last that])
      (auto simp: removeEmptyQuarantine_def harmless_basic split: import_reply.splits list.splits intro!: harmless_intros)
  have body: "import_fit sha paths p (\<lambda>_. ?K)
      (pthen (pfor (rev (rp_nonces plan) @ [rp_role plan, rp_reservation plan]) (\<lambda>claim. removeExactReservationClaim (cl_path claim) (cl_value claim))) (\<lambda>_.
       pthen (removeEmptyQuarantine (rp_quarantine plan)) (\<lambda>_.
       pthen (removeExactReservationClaim (intent_path paths ref) tx) (\<lambda>_. Ret (Inr ()))))) u" if "?K u" for u
    using that assms(4)
    by (intro fit_then importing_rely.fit_pfor [where A = ?K] claims dir fit_remove [OF last, where ref = ref]) auto
  show ?thesis
    unfolding rollbackReservationTransaction_def Let_def about_text [OF assms(4)]
  proof (rule fit_seq [where L = "\<lambda>b u. \<not> b \<longrightarrow> open_removable paths p ref u"])
    show "import_fit sha paths p (\<lambda>x u. K u \<and> (\<forall>b. x = Inr b \<longrightarrow> \<not> b \<longrightarrow> open_removable paths p ref u)) (existsSync (commit_path paths ref)) w"
      by (rule fit_exists [OF assms(1,2)]) (use assms(3) in \<open>auto simp: open_removable_def committed_def\<close>)
    fix committed u assume u: "K u" "\<not> committed \<longrightarrow> open_removable paths p ref u"
    show "import_fit sha paths p (\<lambda>_. K) (if committed then Ret (Inl (coordinator_error 500 ''RESERVATION_INTEGRITY'')) else
       pthen (pfor (rev (rp_nonces plan) @ [rp_role plan, rp_reservation plan]) (\<lambda>claim. removeExactReservationClaim (cl_path claim) (cl_value claim))) (\<lambda>_.
       pthen (removeEmptyQuarantine (rp_quarantine plan)) (\<lambda>_.
       pthen (removeExactReservationClaim (intent_path paths ref) tx) (\<lambda>_. Ret (Inr ()))))) u"
      using importing_rely.fit_mono [OF body] u by (cases committed) auto
  qed
qed


subsection \<open>Recovery\<close>

lemma harmless_claim: "outside paths (cl_path cl) \<Longrightarrow> harmless paths (createOrVerifyReservationClaim cl recovering)"
  unfolding createOrVerifyReservationClaim_def by (auto simp: harmless_basic intro!: harmless_intros)

lemma harmless_rollForward:
  assumes "\<And>cl. cl \<in> set (claims_of plan) \<Longrightarrow> outside paths (cl_path cl)"
  shows "harmless paths (rollForward sha paths ref rec plan)"
  unfolding rollForward_def by (auto simp: harmless_basic harmless_claim assms intro!: harmless_intros)

text \<open>A transaction is rolled back only when the process owns it or nobody does.\<close>

lemma fit_unless_owned:
  assumes "lasting paths p K" "K w" "\<And>u. K u \<Longrightarrow> owner_of u ref \<in> {Some (Some q), Some None}"
    and "\<And>u. K u \<Longrightarrow> removable p ref u \<Longrightarrow> import_fit sha paths p (\<lambda>_ u. K u) rest u"
  shows "import_fit sha paths p (\<lambda>_ u. K u) (unless_owned p (transaction_document q ref rec) rest) w"
proof -
  have q: "jnumber (transaction_document q ref rec) ''ownerPid'' = q" by (simp add: jnumber_def transaction_document_def)
  have "import_fit sha paths p (\<lambda>_ u. K u) (Op (ProcessAlive q) (\<lambda>r. if r = RBool True then Ret (Inr []) else rest)) u" if "K u" "q \<noteq> p" for u
  proof (rule fit_call [OF assms(1) that(1)])
    fix t v io r assume "import_shared sha paths t" "K v" "import_exec p (ProcessAlive q) io t = (v, r)"
    then have "removable p ref v" if "r \<noteq> RBool True"
      using that assms(3) [OF \<open>K v\<close>] import_sharedD(3) by (auto simp: removable_def)
    then show "import_fit sha paths p (\<lambda>_ u. K u) (if r = RBool True then Ret (Inr []) else rest) v"
      using assms(4) \<open>K v\<close> by simp
  qed (auto simp: import_guards_def)
  moreover have "removable p ref u" if "K u" "q = p" for u using assms(3) [OF that(1)] that(2) by (auto simp: removable_def)
  ultimately show ?thesis
    unfolding unless_owned_def q using assms(4) by (intro fit_harmless_call [OF assms(1,2)]) auto
qed

lemma plan_claims:
  assumes "about ref rec" "paths = coordinatorPaths root" "cl \<in> set (claims_of (plan_of sha paths rec))"
  shows "about ref (cl_value cl) \<and> outside paths (cl_path cl)"
  using about_claims [OF assms(1,3)] outside_claims assms(2,3) by blast

lemma fit_recover_transaction:
  assumes "lasting paths p K" "K w" "about ref rec" "paths = coordinatorPaths root" "owner_of w ref \<in> {Some (Some q), Some None}"
  shows "import_fit sha paths p (\<lambda>_ u. K u)
     (pthen (existsSync (commit_path paths ref)) (\<lambda>committed.
      if \<not> committed then unless_owned p (transaction_document q ref rec)
        (pthen (rollbackReservationTransaction paths (transaction_document q ref rec) (plan_of sha paths rec)) (\<lambda>_. Ret (Inr [(ref, ''ROLLED_BACK'')])))
      else pthen (rollForward sha paths ref rec (plan_of sha paths rec)) (\<lambda>_. Ret (Inr [(ref, ''COMMITTED'')])))) w"
proof -
  let ?K = "\<lambda>u. K u \<and> owner_of u ref \<in> {Some (Some q), Some None}"
  let ?R = "\<lambda>u. ?K u \<and> removable p ref u"
  note claims = plan_claims [OF assms(3,4)]
  have last: "lasting paths p ?K" "lasting paths p ?R" by (intro lasting_conj assms(1) lasting_intros)+
  have "import_fit sha paths p (\<lambda>_ u. ?R u)
      (pthen (rollbackReservationTransaction paths (transaction_document q ref rec) (plan_of sha paths rec)) (\<lambda>_. Ret (Inr [(ref, ''ROLLED_BACK'')]))) u"
    if "?R u" for u
    by (rule fit_then, rule fit_rollback [OF last(2) that, where ref = ref]) (use claims in auto)
  then have undone: "import_fit sha paths p (\<lambda>_ u. ?K u)
      (pthen (rollbackReservationTransaction paths (transaction_document q ref rec) (plan_of sha paths rec)) (\<lambda>_. Ret (Inr [(ref, ''ROLLED_BACK'')]))) u"
    if "?K u" "removable p ref u" for u
    by (rule importing_rely.fit_mono) (use that in auto)
  have "import_fit sha paths p (\<lambda>_ u. ?K u) (pthen (rollForward sha paths ref rec (plan_of sha paths rec)) (\<lambda>_. Ret (Inr [(ref, ''COMMITTED'')]))) u"
    if "?K u" for u
    by (rule fit_harmless [OF last(1) that]) (auto simp: claims intro!: harmless_intros harmless_rollForward)
  then have "import_fit sha paths p (\<lambda>_ u. ?K u)
     (pthen (existsSync (commit_path paths ref)) (\<lambda>committed.
      if \<not> committed then unless_owned p (transaction_document q ref rec)
        (pthen (rollbackReservationTransaction paths (transaction_document q ref rec) (plan_of sha paths rec)) (\<lambda>_. Ret (Inr [(ref, ''ROLLED_BACK'')])))
      else pthen (rollForward sha paths ref rec (plan_of sha paths rec)) (\<lambda>_. Ret (Inr [(ref, ''COMMITTED'')])))) w"
    using fit_unless_owned [OF last(1) _ _ undone] assms(2,5) by (intro fit_then fit_exists [OF last(1)]) auto
  then show ?thesis by (rule importing_rely.fit_mono) simp
qed

lemma fit_recover_entry:
  assumes "lasting paths p K" "K w" "is_intent_name name" "paths = coordinatorPaths root"
  shows "import_fit sha paths p (\<lambda>_ u. K u) (recover_entry sha paths p name) w"
proof -
  obtain ref where path: "join_path (cp_transactions paths) name = intent_path paths ref" using intent_name [OF assms(3)] by blast
  let ?L = "\<lambda>tx u. \<exists>q rec. tx = transaction_document q ref rec \<and> about ref rec \<and> owner_of u ref \<in> {Some (Some q), Some None}"
  show ?thesis
    unfolding recover_entry_def path
  proof (rule fit_seq [where L = ?L])
    show "import_fit sha paths p (\<lambda>x u. K u \<and> (\<forall>y. x = Inr y \<longrightarrow> ?L y u)) (readExactJsonFile (intent_path paths ref)) w"
      by (rule fit_read [OF assms(1,2)]) (use import_sharedD(2) in fastforce)
    fix tx u assume u: "K u" "?L tx u"
    then obtain q rec where tx: "tx = transaction_document q ref rec" "about ref rec" "owner_of u ref \<in> {Some (Some q), Some None}" by blast
    have fields: "transaction_record tx = rec" "member_text tx ''ticketRef'' = ref" "jfield tx ''ticketRef'' = Some (JStr ref)" "jfield rec ''ticketRef'' = Some (JStr ref)"
      using tx by (simp_all add: transaction_record_def transaction_document_def member_text_def about_def)
    have plan: "plift (reservationPlan sha paths rec) = (case validateRecoveredReservationRecord rec of Inl e \<Rightarrow> Ret (Inl e) | Inr _ \<Rightarrow> Ret (Inr (plan_of sha paths rec)))"
      by (simp add: reservationPlan_def plift_def split: sum.splits)
    show "import_fit sha paths p (\<lambda>_. K)
       (if \<not> transaction_ok tx then Ret (Inl (coordinator_error 500 ''RESERVATION_INTEGRITY'')) else
        let rec = transaction_record tx; ref = member_text tx ''ticketRef'' in
        pthen (plift (validateRecoveredReservationRecord rec)) (\<lambda>_.
        if \<not> js_same (jfield rec ''ticketRef'') (jfield tx ''ticketRef'') then Ret (Inl (coordinator_error 500 ''RESERVATION_INTEGRITY'')) else
        pthen (plift (reservationPlan sha paths rec)) (\<lambda>plan.
        pthen (existsSync (commit_path paths ref)) (\<lambda>committed.
        if \<not> committed then
          unless_owned p tx (pthen (rollbackReservationTransaction paths tx plan) (\<lambda>_. Ret (Inr [(ref, ''ROLLED_BACK'')])))
        else pthen (rollForward sha paths ref rec plan) (\<lambda>_. Ret (Inr [(ref, ''COMMITTED'')])))))) u"
      using fit_recover_transaction [OF assms(1) u(1) tx(2) assms(4) tx(3), of sha] u(1)
      unfolding Let_def fields plan unfolding tx(1)
      by (cases "validateRecoveredReservationRecord rec") (auto simp: js_same_def)
  qed
qed

lemma fit_recoverReservationTransactions:
  assumes "lasting paths p K" "K w" "paths = coordinatorPaths root"
  shows "import_fit sha paths p (\<lambda>_ u. K u) (recoverReservationTransactions sha paths p) w"
  unfolding recoverReservationTransactions_def
  using fit_recover_entry [OF assms(1) _ _ assms(3)]
  by (intro fit_harmless_call [OF assms(1,2)]) (auto split: import_reply.splits intro!: importing_rely.fit_pfor [where A = K])


subsection \<open>Reserving\<close>

definition holding :: "coordinator_paths \<Rightarrow> pid \<Rightarrow> string \<Rightarrow> json \<Rightarrow> reservation_claim set \<Rightarrow> import_world \<Rightarrow> bool" where
  "holding paths p ref rec cls w \<longleftrightarrow> open_mine paths p ref w
     \<and> file_at w (intent_path paths ref) = Some (Document (transaction_document p ref rec)) \<and> (\<forall>cl \<in> cls. holds_claim w cl)"

lemma holding_relies:
  assumes "holding paths p ref rec cls w" "import_relies paths p w w'" "\<forall>cl \<in> cls. about ref (cl_value cl)"
  shows "holding paths p ref rec cls w'"
proof -
  have m: "mine p ref w" and o: "open_mine paths p ref w'" using assms(1) lastingD(1) [OF lasting_intros(4) _ assms(2)] by (auto simp: holding_def open_mine_def)
  have keep: "file_at w' path = Some (Document v)" if "file_at w path = Some (Document v)" "about ref v" for path v
    using import_reliesD(5) [OF assms(2) that] m by (simp add: mine_def)
  have "holds_claim w' cl" if "cl \<in> cls" for cl
    using assms(1,3) that keep about_exact unfolding holding_def holds_claim_def by metis
  then show ?thesis using o keep assms(1) unfolding holding_def by simp
qed

lemma holding_exec:
  assumes "holding paths p ref rec cls w" "import_exec p call io w = (w', r)" "\<not> commits paths call" "\<And>path seen. call \<noteq> Unlink path seen"
  shows "holding paths p ref rec cls w'"
proof -
  have o: "open_mine paths p ref w'" using assms lastingD(2) [OF lasting_intros(4)] unfolding holding_def by blast
  have keep: "file_at w' path = Some (Document v)" if "file_at w path = Some (Document v)" for path v
    using assms(2)
  proof (cases rule: exec_cases)
    case same
    then show ?thesis using that by (simp add: file_at_def)
  qed (use that assms(4) in auto)
  then show ?thesis using assms(1) o unfolding holding_def holds_claim_def by blast
qed

lemma created_file: "import_exec p (CreateOnly path v) io w = (w', RUnit) \<Longrightarrow> file_at w' path = Some (Document v)"
  by (auto simp: after_effect_def split: if_splits)

lemma fit_claim:
  assumes "holding paths p ref rec cls w" "\<forall>c \<in> insert cl cls. about ref (cl_value c)" "outside paths (cl_path cl)"
  shows "import_fit sha paths p (\<lambda>x u. open_mine paths p ref u \<and> (\<forall>y. x = Inr y \<longrightarrow> holding paths p ref rec (insert cl cls) u))
    (createOrVerifyReservationClaim cl False) w"
proof -
  let ?H = "holding paths p ref rec cls" and ?Q = "\<lambda>x u. open_mine paths p ref u \<and> (\<forall>y. x = Inr y \<longrightarrow> holding paths p ref rec (insert cl cls) u)"
  let ?verify = "pthen (pcatch (readExactJsonFile (cl_path cl)) (\<lambda>_. Ret (Inl (coordinator_error 500 ''RESERVATION_INTEGRITY'')))) (\<lambda>existing.
      if \<not> exactStateEquals existing (cl_value cl) then Ret (Inl (if False then coordinator_error 500 ''RESERVATION_INTEGRITY'' else coordinator_error 409 (cl_conflictCode cl)))
      else Ret (Inr False))"
  have relies: "?H t" if "?H s" "import_relies paths p s t" for s t using holding_relies [OF that] assms(2) by blast
  have mine: "open_mine paths p ref u" if "?H u" for u using that by (simp add: holding_def)
  have add: "holding paths p ref rec (insert cl cls) u" if "?H u" "file_at u (cl_path cl) = Some (Document v)" "exactStateEquals v (cl_value cl)" for u v
    using that by (auto simp: holding_def holds_claim_def)
  have check: "import_fit sha paths p ?Q ?verify u" if "?H u" for u
    unfolding readExactJsonFile_def pcatch_simps pthen_simps
    by (rule importing_rely.fit_Op [where A = ?H], rule that, erule (1) relies, simp add: import_guards_def)
      (auto simp: readable_state_def mine add split: option.splits stored_file.splits if_splits)
  have calm: "\<not> commits paths (CreateOnly (cl_path cl) (cl_value cl))" using assms(3) by (simp add: outside_def)
  have "import_fit sha paths p ?Q (pthen (Op (CreateOnly (cl_path cl) (cl_value cl))
       (\<lambda>r. Ret (case r of RUnit \<Rightarrow> Inr True | RExists \<Rightarrow> Inr False | _ \<Rightarrow> Inl DependencyError))) (\<lambda>created. if created then Ret (Inr True) else ?verify)) w"
    unfolding pthen_simps(3)
  proof (rule importing_rely.fit_Op [where A = ?H], rule assms(1), erule (1) relies)
    show "import_guards sha paths p (CreateOnly (cl_path cl) (cl_value cl)) t" for t
      using assms(3) by (auto simp: import_guards_def outside_def)
    fix t io u r assume t: "?H t" and ex: "import_exec p (CreateOnly (cl_path cl) (cl_value cl)) io t = (u, r)"
    have u: "?H u" using holding_exec [OF t ex calm] by simp
    have new: "holding paths p ref rec (insert cl cls) u" if "r = RUnit"
      by (rule add [OF u created_file]) (use ex that in \<open>simp_all only: exactStateEquals_def\<close>)
    show "import_fit sha paths p ?Q (pthen (Ret (case r of RUnit \<Rightarrow> Inr True | RExists \<Rightarrow> Inr False | _ \<Rightarrow> Inl DependencyError))
       (\<lambda>created. if created then Ret (Inr True) else ?verify)) u"
      using check [OF u] new mine [OF u] by (cases r) (simp_all del: import_exec.simps)
  qed
  then show ?thesis
    unfolding createOrVerifyReservationClaim_def writeCreateOnly_def
    using mine [OF assms(1)] by (cases "coordinator_canonicalJson (cl_value cl)") (simp_all del: fit.simps(2))
qed


lemma fit_claims:
  assumes "holding paths p ref rec cls w" "\<forall>cl \<in> cls \<union> set xs. about ref (cl_value cl)" "\<forall>cl \<in> set xs. outside paths (cl_path cl)"
  shows "import_fit sha paths p (\<lambda>x u. open_mine paths p ref u \<and> (\<forall>y. x = Inr y \<longrightarrow> holding paths p ref rec (cls \<union> set xs) u))
    (pfor xs (\<lambda>claim. pthen (createOrVerifyReservationClaim claim False) (\<lambda>_. Ret (Inr ([] :: unit list))))) w"
  using assms
proof (induction xs arbitrary: cls w)
  case Nil
  then show ?case by (simp add: holding_def)
next
  case (Cons cl xs)
  let ?Q = "\<lambda>x u. open_mine paths p ref u \<and> (\<forall>y. x = Inr y \<longrightarrow> holding paths p ref rec (cls \<union> set (cl # xs)) u)"
  have union: "insert cl cls \<union> set xs = cls \<union> set (cl # xs)" by simp
  have rest: "import_fit sha paths p ?Q (pthen (pfor xs (\<lambda>claim. pthen (createOrVerifyReservationClaim claim False) (\<lambda>_. Ret (Inr ([] :: unit list)))))
      (\<lambda>zs. Ret (Inr (ys @ zs)))) u" if "holding paths p ref rec (insert cl cls) u" for u ys
    using Cons.IH [OF that] Cons.prems(2,3) unfolding union
    by (intro importing_rely.fit_pthen [where Q = "\<lambda>y u. open_mine paths p ref u \<and> holding paths p ref rec (cls \<union> set (cl # xs)) u"])
      (auto elim!: importing_rely.fit_mono split: sum.splits)
  have first: "import_fit sha paths p (\<lambda>x u. open_mine paths p ref u \<and> (\<forall>y. x = Inr y \<longrightarrow> holding paths p ref rec (insert cl cls) u))
      (createOrVerifyReservationClaim cl False) w"
    by (rule fit_claim [OF Cons.prems(1)]) (use Cons.prems(2,3) in auto)
  show ?case
    unfolding pfor.simps
  proof (rule importing_rely.fit_pthen [where Q = "\<lambda>y u. holding paths p ref rec (insert cl cls) u"])
    show "import_fit sha paths p (\<lambda>x u. case x of Inl e \<Rightarrow> ?Q (Inl e) u | Inr y \<Rightarrow> holding paths p ref rec (insert cl cls) u)
        (pthen (createOrVerifyReservationClaim cl False) (\<lambda>_. Ret (Inr ([] :: unit list)))) w"
      by (rule importing_rely.fit_pthen [where Q = "\<lambda>y u. holding paths p ref rec (insert cl cls) u"], rule importing_rely.fit_mono [OF first])
        (auto split: sum.splits)
  qed (rule rest)
qed

lemma fit_commit:
  assumes "holding paths p ref rec (set (claims_of (plan_of sha paths rec))) w" "about ref rec"
  shows "import_fit sha paths p (\<lambda>_ u. mine p ref u) (writeNew (commit_path paths ref) v) w"
proof -
  let ?H = "holding paths p ref rec (set (claims_of (plan_of sha paths rec)))"
  have mine: "mine p ref u" if "?H u" for u using that by (simp add: holding_def open_mine_def)
  have "import_fit sha paths p (\<lambda>_ u. mine p ref u) (pthen (Op (CreateOnly (commit_path paths ref) v)
      (\<lambda>r. Ret (case r of RUnit \<Rightarrow> Inr True | RExists \<Rightarrow> Inr False | _ \<Rightarrow> Inl DependencyError))) (\<lambda>created. plift (check created DependencyError))) w"
    unfolding pthen_simps(3)
  proof (rule importing_rely.fit_Op [where A = ?H], rule assms(1))
    show "?H t" if "?H w" "import_relies paths p w t" for t using holding_relies [OF that] about_claims [OF assms(2)] by blast
    show "import_guards sha paths p (CreateOnly (commit_path paths ref) v) t" if "?H t" for t
      using that assms(2) by (auto simp: import_guards_def holding_def open_mine_def mine_def prepared_def)
    fix t io u r assume "?H t" and ex: "import_exec p (CreateOnly (commit_path paths ref) v) io t = (u, r)"
    then have "mine p ref u" using mine other_calls(2) [OF ex] by (simp add: mine_def)
    then show "import_fit sha paths p (\<lambda>_ u. mine p ref u)
        (pthen (Ret (case r of RUnit \<Rightarrow> Inr True | RExists \<Rightarrow> Inr False | _ \<Rightarrow> Inl DependencyError)) (\<lambda>created. plift (check created DependencyError))) u"
      by (cases r) (auto simp: plift_def)
  qed
  then show ?thesis
    unfolding writeNew_def writeCreateOnly_def
    using mine [OF assms(1)] by (cases "coordinator_canonicalJson v") (simp_all del: fit.simps(2))
qed

lemma fit_done_holding:
  assumes "holding paths p ref rec {} w" "\<not> changes_files call"
  shows "import_fit sha paths p (\<lambda>x u. case x of Inl e \<Rightarrow> mine p ref u | Inr y \<Rightarrow> holding paths p ref rec {} u) (done_call call) w"
  unfolding done_call_def
proof (rule importing_rely.fit_Op [where A = "holding paths p ref rec {}"], rule assms(1))
  have calm: "\<not> commits paths call" "\<And>path seen. call \<noteq> Unlink path seen" using assms(2) by (cases call; auto)+
  show "import_guards sha paths p call t" for t using assms(2) by (cases call) (auto simp: import_guards_def)
  fix t io u r assume "holding paths p ref rec {} t" "import_exec p call io t = (u, r)"
  then have "holding paths p ref rec {} u" using holding_exec calm by blast
  then show "import_fit sha paths p (\<lambda>x u. case x of Inl e \<Rightarrow> mine p ref u | Inr y \<Rightarrow> holding paths p ref rec {} u)
      (Ret (if r = RUnit then Inr () else Inl DependencyError)) u"
    by (auto simp: holding_def open_mine_def)
qed (erule (1) holding_relies, simp)

lemma fit_claim_and_commit:
  assumes "holding paths p ref rec {} w" "about ref rec" "paths = coordinatorPaths root"
  shows "import_fit sha paths p (\<lambda>_ u. mine p ref u) (claim_and_commit sha paths ref metadata (plan_of sha paths rec)) w"
proof -
  let ?plan = "plan_of sha paths rec"
  have "import_fit sha paths p (\<lambda>x u. open_mine paths p ref u \<and> (\<forall>y. x = Inr y \<longrightarrow> holding paths p ref rec (set (claims_of ?plan)) u))
      (pfor (claims_of ?plan) (\<lambda>claim. pthen (createOrVerifyReservationClaim claim False) (\<lambda>_. Ret (Inr ([] :: unit list))))) u"
    if "holding paths p ref rec {} u" for u
    using fit_claims [OF that, of "claims_of ?plan"] plan_claims [OF assms(2,3)] by simp
  then have claims: "import_fit sha paths p (\<lambda>x u. case x of Inl e \<Rightarrow> mine p ref u | Inr y \<Rightarrow> holding paths p ref rec (set (claims_of ?plan)) u)
      (pfor (claims_of ?plan) (\<lambda>claim. pthen (createOrVerifyReservationClaim claim False) (\<lambda>_. Ret (Inr ([] :: unit list))))) u"
    if "holding paths p ref rec {} u" for u
    by (rule importing_rely.fit_mono) (use that in \<open>auto simp: open_mine_def split: sum.splits\<close>)
  show ?thesis
    unfolding claim_and_commit_def
    by (rule importing_rely.fit_pthen [OF fit_done_holding [OF assms(1)]], simp, rule importing_rely.fit_pthen [OF claims], assumption, rule fit_commit [OF _ assms(2)])
qed

lemma fit_reserve_transaction:
  assumes "open_mine paths p ref w" "about ref rec" "paths = coordinatorPaths root"
  shows "import_fit sha paths p (\<lambda>_ u. mine p ref u) (reserve_transaction sha paths p ref metadata rec (plan_of sha paths rec)) w"
proof -
  let ?tx = "transaction_document p ref rec" and ?plan = "plan_of sha paths rec"
  note last = lasting_intros(2) [of paths p ref]
  have mineD: "mine p ref u" if "open_mine paths p ref u" for u using that by (simp add: open_mine_def)
  have undo: "import_fit sha paths p (\<lambda>_ u. mine p ref u) (pthen (done_call (ActiveDelete ref)) (\<lambda>_.
      pthen (rollbackReservationTransaction paths ?tx ?plan) (\<lambda>_. Ret (Inl e)))) u" if "mine p ref u" for e u
  proof (rule fit_then, rule fit_harmless [OF last that])
    show "import_fit sha paths p (\<lambda>_ u. mine p ref u) (pthen (rollbackReservationTransaction paths ?tx ?plan) (\<lambda>_. Ret (Inl e))) t" if "mine p ref t" for t
      by (rule fit_then, rule fit_rollback [OF last that, where ref = ref])
        (use plan_claims [OF assms(2,3)] in \<open>auto simp: mine_def removable_def\<close>)
  qed (simp add: harmless_basic)
  have body: "import_fit sha paths p (\<lambda>_ u. mine p ref u) (pcatch (claim_and_commit sha paths ref metadata ?plan) (\<lambda>e.
      pthen (done_call (ActiveDelete ref)) (\<lambda>_. pthen (rollbackReservationTransaction paths ?tx ?plan) (\<lambda>_. Ret (Inl e))))) u"
    if "holding paths p ref rec {} u" for u
    by (rule importing_rely.fit_pcatch [where Q = "\<lambda>_. mine p ref"], rule importing_rely.fit_mono [OF fit_claim_and_commit [OF that assms(2,3)]])
      (auto split: sum.splits intro: undo)
  have after: "import_fit sha paths p (\<lambda>_ u. mine p ref u) (pthen (done_call (ActiveAdd ref)) (\<lambda>_.
      pthen (pcatch (claim_and_commit sha paths ref metadata ?plan) (\<lambda>e.
        pthen (done_call (ActiveDelete ref)) (\<lambda>_. pthen (rollbackReservationTransaction paths ?tx ?plan) (\<lambda>_. Ret (Inl e))))) (\<lambda>_.
      done_call (ActiveDelete ref)))) u" if "holding paths p ref rec {} u" for u
    by (rule importing_rely.fit_pthen [OF fit_done_holding [OF that]], simp, rule fit_then, erule body, erule fit_harmless [OF last])
      (simp add: harmless_basic)
  have "import_fit sha paths p (\<lambda>_ u. mine p ref u) (pthen (Op (CreateOnly (intent_path paths ref) ?tx)
      (\<lambda>r. Ret (case r of RUnit \<Rightarrow> Inr True | RExists \<Rightarrow> Inr False | _ \<Rightarrow> Inl DependencyError))) (\<lambda>created.
      if \<not> created then Ret (Inl (coordinator_error 409 ''TICKET_REPLAY'')) else
      pthen (done_call (ActiveAdd ref)) (\<lambda>_.
      pthen (pcatch (claim_and_commit sha paths ref metadata ?plan) (\<lambda>e.
        pthen (done_call (ActiveDelete ref)) (\<lambda>_. pthen (rollbackReservationTransaction paths ?tx ?plan) (\<lambda>_. Ret (Inl e))))) (\<lambda>_.
      done_call (ActiveDelete ref))))) w"
    unfolding pthen_simps(3)
  proof (rule fit_call [OF lasting_intros(4) assms(1)])
    show "import_guards sha paths p (CreateOnly (intent_path paths ref) ?tx) u" if "open_mine paths p ref u" for u
      using that assms(2) by (auto simp: import_guards_def open_mine_def mine_def)
    fix t u io r assume u: "open_mine paths p ref u" and ex: "import_exec p (CreateOnly (intent_path paths ref) ?tx) io t = (u, r)"
    have hold: "holding paths p ref rec {} u" if "r = RUnit"
      using created_file [of p "intent_path paths ref" ?tx io t u] ex that u by (simp add: holding_def del: import_exec.simps)
    show "import_fit sha paths p (\<lambda>_ u. mine p ref u) (pthen (Ret (case r of RUnit \<Rightarrow> Inr True | RExists \<Rightarrow> Inr False | _ \<Rightarrow> Inl DependencyError)) (\<lambda>created.
      if \<not> created then Ret (Inl (coordinator_error 409 ''TICKET_REPLAY'')) else
      pthen (done_call (ActiveAdd ref)) (\<lambda>_.
      pthen (pcatch (claim_and_commit sha paths ref metadata ?plan) (\<lambda>e.
        pthen (done_call (ActiveDelete ref)) (\<lambda>_. pthen (rollbackReservationTransaction paths ?tx ?plan) (\<lambda>_. Ret (Inl e))))) (\<lambda>_.
      done_call (ActiveDelete ref))))) u"
      using after [OF hold] mineD [OF u] by (cases r) simp_all
  qed simp
  then show ?thesis
    unfolding reserve_transaction_def writeCreateOnly_def Let_def
    using mineD [OF assms(1)] by (cases "coordinator_canonicalJson ?tx") (simp_all del: fit.simps(2))
qed


lemma fit_chain:
  assumes "import_fit sha paths p (\<lambda>_ u. K u) m w" "\<And>y u. K u \<Longrightarrow> import_fit sha paths p (\<lambda>_ _. True) (f y) u"
  shows "import_fit sha paths p (\<lambda>_ _. True) (pthen m f) w"
  by (rule importing_rely.fit_pthen [where Q = "\<lambda>_. K"], rule importing_rely.fit_mono [OF assms(1)]) (auto split: sum.splits intro: assms(2))

lemma fit_locked_begin:
  assumes "open_mine paths p (ticketReference sha ticket) w" "paths = coordinatorPaths root"
  shows "import_fit sha paths p (\<lambda>_ _. True) (locked_begin sha paths p metadata ticket) w"
proof -
  let ?ref = "ticketReference sha ticket"
  note last = lasting_intros(4) [of paths p ?ref]
  have tail: "import_fit sha paths p (\<lambda>_ _. True) (pthen (reserve_transaction sha paths p ?ref metadata rec (plan_of sha paths rec)) (\<lambda>_.
      pthen now_seconds (\<lambda>at. pthen (appendJournal (event at)) (\<lambda>_. pthen (publicStatus paths rec) (\<lambda>st. Ret (Inr (with_ticket ticket st))))))) u"
    if "open_mine paths p ?ref u" "about ?ref rec" for u rec event
    by (rule fit_chain [OF fit_reserve_transaction [OF that assms(2)]])
      (auto simp: harmless_basic harmless_publicStatus intro!: harmless_fit harmless_intros)
  show ?thesis
    unfolding locked_begin_def Let_def
  proof (rule fit_chain [OF fit_recoverReservationTransactions [OF last assms]], rule fit_chain, erule fit_harmless [OF last])
    fix createdAt u assume u: "open_mine paths p ?ref u"
    let ?rec = "reservation_record ?ref metadata createdAt"
    show "import_fit sha paths p (\<lambda>_ _. True) (pthen (plift (reservationPlan sha paths ?rec)) (\<lambda>plan.
        pthen (reserve_transaction sha paths p ?ref metadata ?rec plan) (\<lambda>_.
        pthen now_seconds (\<lambda>at. pthen (appendJournal [(''event'', JStr ''IMPORT_RESERVED''), (''at'', JNum at), (''ticketRef'', JStr ?ref),
          (''runId'', or_null (jfield metadata ''runId'')), (''fheCaseId'', or_null (jfield metadata ''fheCaseId'')),
          (''role'', or_null (jfield metadata ''role'')), (''metadataDigest'', JStr (sha256Bytes sha (canonicalJson metadata)))]) (\<lambda>_.
        pthen (publicStatus paths ?rec) (\<lambda>st. Ret (Inr (with_ticket ticket st)))))))) u"
      using tail [OF u, of ?rec "\<lambda>at. [(''event'', JStr ''IMPORT_RESERVED''), (''at'', JNum at), (''ticketRef'', JStr ?ref),
          (''runId'', or_null (jfield metadata ''runId'')), (''fheCaseId'', or_null (jfield metadata ''fheCaseId'')),
          (''role'', or_null (jfield metadata ''role'')), (''metadataDigest'', JStr (sha256Bytes sha (canonicalJson metadata)))]"]
      by (cases "validateRecoveredReservationRecord ?rec") (simp_all add: reservationPlan_def)
  qed (rule harmless_basic)
qed

lemma fit_beginImport:
  assumes "open_mine (ce_paths env) p (ticketReference (ce_sha env) ticket) w"
  shows "import_fit (ce_sha env) (ce_paths env) p (\<lambda>_ _. True) (beginImport env p metadata ticket) w"
proof -
  note last = lasting_intros(4) [of "ce_paths env" p "ticketReference (ce_sha env) ticket"]
  show ?thesis
    unfolding beginImport_def
    by (rule fit_chain, rule fit_harmless [OF last assms] harmless_basic harmless_authenticate,
        (rule fit_chain | erule fit_harmless [OF last] | rule harmless_basic harmless_authenticate | erule fit_locked_begin | rule refl)+)
qed

subsection \<open>The contract holds for the coordinator\<close>

lemma fit_finish: "import_fit sha paths p (\<lambda>_ _. True) P w \<Longrightarrow> import_fit sha paths p (\<lambda>_ _. True) (finish P) w"
  unfolding finish_def by (erule importing_rely.fit_pbind) simp

lemma fit_create: "import_fit (ce_sha env) (ce_paths env) p (\<lambda>_ _. True) (createParticipantOriginatedCoordinator env p) w"
  unfolding createParticipantOriginatedCoordinator_def
  by (rule fit_chain [where K = "\<lambda>_. True"], rule harmless_fit, rule harmless_pfor, rule harmless_pthen, rule harmless_basic, simp, simp,
      rule fit_chain [where K = "\<lambda>_. True"], rule fit_recoverReservationTransactions [OF lasting_intros(1)], simp, rule refl, rule harmless_fit, rule harmless_recover)

lemma with_process_facts [simp]:
  "file_at (with_process p w) = file_at w" "iw_begun (with_process p w) = iw_begun w" "iw_alive (with_process p w) = p # iw_alive w"
  by (simp_all add: with_process_def file_at_def fun_eq_iff)

lemma more_alive:
  assumes "file_at w' = file_at w" "iw_begun w' = iw_begun w" "set (iw_alive w) \<subseteq> set (iw_alive w')"
  shows "import_shared sha paths w \<Longrightarrow> import_shared sha paths w'" and "import_relies paths q w w'"
proof -
  show "import_shared sha paths w'" if "import_shared sha paths w"
    using that assms unfolding import_shared_def prepared_def holds_claim_def committed_def by auto
  show "import_relies paths q w w'" by (rule import_reliesI) (simp_all add: assms committed_def)
qed

lemma new_ticket:
  assumes "import_shared sha paths w" "owner_of w ref = None"
    and "w' = (with_process p w)\<lparr>iw_begun := (ref, Some p) # iw_begun w\<rparr>"
  shows "import_shared sha paths w'" "import_relies paths q w w'" "open_mine paths p ref w'"
proof -
  have f: "file_at w' = file_at w" by (simp add: assms(3) with_process_def file_at_def fun_eq_iff)
  have o: "owner_of w' r = (if r = ref then Some (Some p) else owner_of w r)" for r by (simp add: assms(3) with_process_def)
  have none: "file_at w (intent_path paths ref) = None" using import_sharedD(2) [OF assms(1), of ref] assms(2) by (cases "file_at w (intent_path paths ref)") auto
  then have open_: "\<not> committed paths w ref" using import_sharedD(1) [OF assms(1), of ref] by (auto simp: prepared_def)
  have same: "committed paths w' r = committed paths w r" "prepared sha paths w' r = prepared sha paths w r" for r
    by (simp_all add: committed_def prepared_def holds_claim_def f)
  show "import_shared sha paths w'"
  proof (rule import_sharedI)
    show "q \<in> set (iw_alive w')" if "owner_of w' r = Some (Some q)" for r q
      using that import_sharedD(3) [OF assms(1)] unfolding o by (auto simp: assms(3) with_process_def split: if_splits)
    show "\<exists>q rec. g = Document (transaction_document q r rec) \<and> about r rec \<and> owner_of w' r \<in> {Some (Some q), Some None}"
      if "file_at w' (intent_path paths r) = Some g" for r g
      using that import_sharedD(2) [OF assms(1), of r g] none unfolding f o by (cases "r = ref") auto
  qed (use import_sharedD(1) [OF assms(1)] same in blast)
  show "import_relies paths q w w'" by (rule import_reliesI) (use assms(2) in \<open>auto simp: same f o\<close>)
  show "open_mine paths p ref w'" using open_ by (simp add: open_mine_def mine_def o same)
qed

lemma crash_facts:
  "file_at (import_crash p w) = file_at w" "set (iw_alive (import_crash p w)) = set (iw_alive w) - {p}"
  "owner_of (import_crash p w) ref = map_option (orphaned p) (owner_of w ref)"
  by (auto simp: import_crash_def file_at_def fun_eq_iff map_of_map)

lemma crash_shared: "import_shared sha paths w \<Longrightarrow> import_shared sha paths (import_crash p w)"
proof (rule import_sharedI)
  assume w: "import_shared sha paths w"
  show "prepared sha paths (import_crash p w) ref" if "committed paths (import_crash p w) ref" for ref
    using import_sharedD(1) [OF w] that by (simp add: committed_def prepared_def holds_claim_def crash_facts)
  show "\<exists>q rec. f = Document (transaction_document q ref rec) \<and> about ref rec \<and> owner_of (import_crash p w) ref \<in> {Some (Some q), Some None}"
    if f: "file_at (import_crash p w) (intent_path paths ref) = Some f" for ref f
  proof -
    obtain q rec where "f = Document (transaction_document q ref rec)" "about ref rec" "owner_of w ref = Some (Some q) \<or> owner_of w ref = Some None"
      using import_sharedD(2) [OF w, of ref f] f by (auto simp: crash_facts)
    moreover from this(3) have "owner_of (import_crash p w) ref \<in> {Some (Some q), Some None}"
      unfolding crash_facts(3) by (elim disjE) (simp_all add: orphaned_def)
    ultimately show ?thesis by blast
  qed
  show "q \<in> set (iw_alive (import_crash p w))" if "owner_of (import_crash p w) ref = Some (Some q)" for ref q
    using import_sharedD(3) [OF w] that by (auto simp: crash_facts orphaned_def split: if_splits)
qed

lemma crash_relies: "q \<noteq> p \<Longrightarrow> import_relies paths q w (import_crash p w)"
  by (rule import_reliesI) (auto simp: crash_facts orphaned_def committed_def)

lemma start_facts:
  assumes "import_shared (ce_sha env) (ce_paths env) w" "import_start env p w w' P"
  shows "import_shared (ce_sha env) (ce_paths env) w'" and "import_relies (ce_paths env) q w w'"
    and "import_fit (ce_sha env) (ce_paths env) p (\<lambda>_ _. True) P w'"
  using assms(2)
proof (induction rule: import_start.induct)
  case (start_begin ref ticket metadata)
  note new = new_ticket [OF assms(1) start_begin(1) refl]
  { case 1 show ?case by (rule new(1)) next case 2 show ?case by (rule new(2)) next
    case 3 show ?case using new(3) start_begin(2) by (intro fit_finish fit_beginImport) simp }
qed (auto intro: more_alive(1) [OF _ _ _ assms(1)] more_alive(2) fit_finish harmless_fit harmless_status harmless_uploadCiphertext
    harmless_uploadArtifactManifest fit_create)

interpretation coordinators: rely_guarantee import_exec unchanged_since_read "import_shared (ce_sha env) (ce_paths env)" "import_relies (ce_paths env)"
  "import_guards (ce_sha env) (ce_paths env)" "import_start env" import_crash "\<lambda>p w. p \<in> set (iw_alive w)" for env
proof unfold_locales
  show "(q \<in> set (iw_alive t)) = (q \<in> set (iw_alive s))" if "import_exec p call io s = (t, r)" for p call io s t r q
    using other_calls(3) [OF that] by simp
  show "p \<in> set (iw_alive t) \<and> (q \<in> set (iw_alive s) \<longrightarrow> q \<in> set (iw_alive t))" if "import_start env p s t P" for p s t q and P :: "(import_op, import_reply, unit) prog"
    using that by (cases rule: import_start.cases) (auto simp: with_process_def)
  show "(q \<in> set (iw_alive (import_crash p s))) = (q \<in> set (iw_alive s))" if "q \<noteq> p" for q p s
    using that by (simp add: crash_facts)
qed (blast intro: guarded_call start_facts crash_shared crash_relies)+


subsection \<open>What holds on every schedule without stale removals\<close>

lemma import_run_shared:
  assumes "(import_step env unchanged_since_read)\<^sup>*\<^sup>* (empty_world, \<lambda>_. None) (w, ps)"
  shows "import_shared (ce_sha env) (ce_paths env) w"
proof (rule coordinators.run_shared)
  show "(conc_step import_exec (import_start env) import_crash unchanged_since_read)\<^sup>*\<^sup>* (empty_world, \<lambda>_. None) (w, ps)"
    using assms by (simp add: import_step_def)
  show "import_shared (ce_sha env) (ce_paths env) empty_world"
    by (simp add: import_shared_def committed_def file_at_def empty_world_def)
qed

text \<open>The record of a ticket is the one in the intent of its transaction.\<close>

definition ticket_record :: "coordinator_paths \<Rightarrow> import_world \<Rightarrow> string \<Rightarrow> json" where
  "ticket_record paths w ref = (case file_at w (intent_path paths ref) of Some (Document tx) \<Rightarrow> transaction_record tx | _ \<Rightarrow> JNull)"

lemma committed_claims:
  assumes "import_shared sha paths w" "committed paths w ref" "cl \<in> set (claims_of (plan_of sha paths (ticket_record paths w ref)))"
  shows "\<exists>v. file_at w (cl_path cl) = Some (Document v) \<and> about ref v"
proof -
  from import_sharedD(1) [OF assms(1,2)] obtain q rec where i: "file_at w (intent_path paths ref) = Some (Document (transaction_document q ref rec))" "about ref rec"
    and c: "\<forall>cl \<in> set (claims_of (plan_of sha paths rec)). holds_claim w cl" unfolding prepared_def by blast
  then have "ticket_record paths w ref = rec" by (simp add: ticket_record_def transaction_record_def transaction_document_def)
  then show ?thesis using assms(3) c about_claims [OF i(2)] about_exact unfolding holds_claim_def by metis
qed

definition same_role :: "json \<Rightarrow> json \<Rightarrow> bool" where
  "same_role a b \<longleftrightarrow> (member_text (record_metadata a) ''runId'', member_text (record_metadata a) ''fheCaseId'', member_text (record_metadata a) ''role'')
     = (member_text (record_metadata b) ''runId'', member_text (record_metadata b) ''fheCaseId'', member_text (record_metadata b) ''role'')"

definition shares_nonce :: "json \<Rightarrow> json \<Rightarrow> bool" where
  "shares_nonce a b \<longleftrightarrow> toLowerCase (member_text (record_metadata a) ''participantWallet'') = toLowerCase (member_text (record_metadata b) ''participantWallet'')
     \<and> (\<exists>(phase, name) \<in> set NONCE_PHASES. member_text (record_metadata a) name = member_text (record_metadata b) name)"

lemma same_claim_same_ticket:
  assumes "import_shared sha paths w" "committed paths w a" "committed paths w b"
    and "cl \<in> set (claims_of (plan_of sha paths (ticket_record paths w a)))" "cl' \<in> set (claims_of (plan_of sha paths (ticket_record paths w b)))"
    and "cl_path cl = cl_path cl'"
  shows "a = b"
  using committed_claims [OF assms(1,2,4)] committed_claims [OF assms(1,3,5)] assms(6) about_unique by fastforce

text \<open>No two imports hold one role or one nonce. In every state that several coordinators can reach on one directory from an empty one,
  whatever requests they serve, whichever calls fail and wherever a process dies, two committed tickets for the same run, case
  and role, or with the same nonce of one phase and one wallet, are the same ticket; provided no process removes a file
  that was replaced after the process had read it.\<close>

theorem one_ticket_per_role_and_nonce:
  assumes "(import_step env unchanged_since_read)\<^sup>*\<^sup>* (empty_world, \<lambda>_. None) (w, ps)"
    and "committed (ce_paths env) w a" "committed (ce_paths env) w b"
    and "same_role (ticket_record (ce_paths env) w a) (ticket_record (ce_paths env) w b)
       \<or> shares_nonce (ticket_record (ce_paths env) w a) (ticket_record (ce_paths env) w b)"
  shows "a = b"
proof -
  let ?a = "ticket_record (ce_paths env) w a" and ?b = "ticket_record (ce_paths env) w b"
  note shared = import_run_shared [OF assms(1)]
  from assms(4) show ?thesis
  proof
    assume "same_role ?a ?b"
    then have "cl_path (role_claim (ce_sha env) (ce_paths env) ?a) = cl_path (role_claim (ce_sha env) (ce_paths env) ?b)"
      by (simp add: same_role_def role_claim_def caseReference_def Let_def)
    then show ?thesis by (rule same_claim_same_ticket [OF shared assms(2,3), rotated 2]) (simp_all add: claims_of_def plan_of_def)
  next
    assume "shares_nonce ?a ?b"
    then obtain x where x: "x \<in> set NONCE_PHASES" "cl_path (nonce_claim (ce_sha env) (ce_paths env) ?a x) = cl_path (nonce_claim (ce_sha env) (ce_paths env) ?b x)"
      by (auto simp: shares_nonce_def nonce_claim_def nonceReference_def split: prod.splits)
    then show ?thesis by (intro same_claim_same_ticket [OF shared assms(2,3) _ _ x(2)]) (simp_all add: claims_of_def plan_of_def)
  qed
qed


subsection \<open>A commitment is permanent\<close>

definition keeps_ticket :: "coordinator_paths \<Rightarrow> import_world \<Rightarrow> import_world \<Rightarrow> string \<Rightarrow> bool" where
  "keeps_ticket paths w w' ref \<longleftrightarrow> committed paths w' ref
     \<and> (\<forall>path v. file_at w path = Some (Document v) \<longrightarrow> about ref v \<longrightarrow> file_at w' path = Some (Document v))"

lemma keeps_ticket_call:
  assumes "import_guards sha paths p call w" "unchanged_since_read call w" "import_exec p call io w = (w', r)" "committed paths w ref"
  shows "keeps_ticket paths w w' ref"
  using assms(3)
proof (cases rule: exec_cases)
  case same
  then show ?thesis using assms(4) by (simp add: keeps_ticket_def committed_def file_at_def)
next
  case (more path f)
  then show ?thesis using assms(4) by (auto simp: keeps_ticket_def committed_def)
next
  case (less path seen)
  then obtain ref' where ref': "about ref' seen" "\<not> committed paths w ref'" and path: "\<And>ref. path \<noteq> commit_path paths ref"
    using assms(1) by (auto simp: import_guards_def)
  have "ref' \<noteq> ref" using ref'(2) assms(4) by blast
  moreover have "file_at w path = Some (Document seen)" using less(1,2) assms(2) by auto
  ultimately show ?thesis using less(3) assms(4) ref'(1) path about_unique by (fastforce simp: keeps_ticket_def committed_def)
qed

lemma keeps_ticket_step:
  assumes "conc_step import_exec (import_start env) import_crash unchanged_since_read x y"
    and "sound_system import_exec unchanged_since_read (import_shared (ce_sha env) (ce_paths env)) (import_relies (ce_paths env)) (import_guards (ce_sha env) (ce_paths env))
       (\<lambda>p w. p \<in> set (iw_alive w)) x"
    and "committed (ce_paths env) (fst x) ref"
  shows "keeps_ticket (ce_paths env) (fst x) (fst y) ref"
  using assms(1,2)
proof (cases rule: coordinators.sound_step_cases)
  case (call p call io r)
  then show ?thesis using keeps_ticket_call assms(3) by blast
next
  case (start p P)
  then have "file_at (fst y) = file_at (fst x)" by (cases rule: import_start.cases) (auto simp: with_process_def file_at_def)
  then show ?thesis using assms(3) by (simp add: keeps_ticket_def committed_def)
next
  case (crash p)
  then show ?thesis using assms(3) by (simp add: keeps_ticket_def committed_def crash_facts(1))
qed

lemma keeps_ticket_run:
  assumes "(conc_step import_exec (import_start env) import_crash unchanged_since_read)\<^sup>*\<^sup>* x y"
    and "sound_system import_exec unchanged_since_read (import_shared (ce_sha env) (ce_paths env)) (import_relies (ce_paths env)) (import_guards (ce_sha env) (ce_paths env))
       (\<lambda>p w. p \<in> set (iw_alive w)) x"
    and "committed (ce_paths env) (fst x) ref"
  shows "keeps_ticket (ce_paths env) (fst x) (fst y) ref"
  using assms(1)
proof (induction rule: rtranclp_induct)
  case base
  then show ?case using assms(3) by (simp add: keeps_ticket_def)
next
  case (step y z)
  then have "keeps_ticket (ce_paths env) (fst y) (fst z) ref"
    using keeps_ticket_step [OF step(2) coordinators.sound_run [OF step(1) assms(2)]] step.IH unfolding keeps_ticket_def by blast
  then show ?case using step.IH by (simp add: keeps_ticket_def)
qed

text \<open>A committed reservation is permanent. Once the commit marker of a ticket exists, no later activity of any coordinator on the
  directory removes it, its transaction, its reservation, its role or one of its nonces, whichever calls fail and wherever a
  process dies.\<close>

theorem committed_reservation_is_permanent:
  assumes "(import_step env unchanged_since_read)\<^sup>*\<^sup>* (empty_world, \<lambda>_. None) (w, ps)" "committed (ce_paths env) w ref"
    and "(import_step env unchanged_since_read)\<^sup>*\<^sup>* (w, ps) (w', ps')"
  shows "committed (ce_paths env) w' ref \<and> ticket_record (ce_paths env) w' ref = ticket_record (ce_paths env) w ref
     \<and> (\<forall>cl \<in> set (claims_of (plan_of (ce_sha env) (ce_paths env) (ticket_record (ce_paths env) w ref))). holds_claim w' cl)"
proof -
  have "sound_system import_exec unchanged_since_read (import_shared (ce_sha env) (ce_paths env)) (import_relies (ce_paths env)) (import_guards (ce_sha env) (ce_paths env))
      (\<lambda>p w. p \<in> set (iw_alive w)) (w, ps)"
    using assms(1) unfolding import_step_def
    by (rule coordinators.sound_run) (simp add: sound_system_def import_shared_def committed_def file_at_def empty_world_def)
  then have keeps: "keeps_ticket (ce_paths env) w w' ref" using keeps_ticket_run [of env "(w, ps)" "(w', ps')"] assms(2,3) by (simp add: import_step_def)
  then have c: "committed (ce_paths env) w' ref" by (simp add: keeps_ticket_def)
  from import_sharedD(1) [OF import_run_shared [OF assms(1)] assms(2)] obtain q rec
    where i: "file_at w (intent_path (ce_paths env) ref) = Some (Document (transaction_document q ref rec))" "about ref rec"
    and cl: "\<forall>cl \<in> set (claims_of (plan_of (ce_sha env) (ce_paths env) rec)). holds_claim w cl" unfolding prepared_def by blast
  have rec: "ticket_record (ce_paths env) w ref = rec" using i by (simp add: ticket_record_def transaction_record_def transaction_document_def)
  have "file_at w' (intent_path (ce_paths env) ref) = file_at w (intent_path (ce_paths env) ref)" using keeps i by (simp add: keeps_ticket_def)
  then have "ticket_record (ce_paths env) w' ref = rec" using rec by (simp add: ticket_record_def)
  moreover have "holds_claim w' cl" if "cl \<in> set (claims_of (plan_of (ce_sha env) (ce_paths env) rec))" for cl
    using keeps cl that about_claims [OF i(2) that] about_exact unfolding keeps_ticket_def holds_claim_def by metis
  ultimately show ?thesis using c rec by simp
qed

end
