(* ===== verification/Spec2Isabelle.thy ===== *)
theory Spec2Isabelle
  imports Recourse_Policy Settlement_Store Admission_Service Coalition_Evidence Custom_Receipt Engine_Guarantees Bridge_Safety Direct_Evidence Originated_Nonces Coordinator_Reservations
begin

text \<open>
  This development verifies the decision core of Mordant, a managed service in which two
  participants pledge supervised claims on one asset record, an encrypted evaluation decides whether
  the claims conflict, and a governed recourse process with a pre-committed settlement follows.
  Paths below are relative to \<^verbatim>\<open>src/src/lib/protection/\<close>.

  \<^bold>\<open>The program and how its parts interact.\<close>  A \<^emph>\<open>protection case\<close> binds an asset record, a policy,
  a consent and an evaluation identity, and carries an append-only event timeline.  Participants are
  admitted one role at a time by a wallet signature over typed data; the admission service consults
  the canonical configuration and a policy service, writes a create-only role file under a run lock,
  and only then tells the engine.  Before any result can be seen, the operator commits a settlement
  profile.  The engine signs a result; the recourse policy selects, evaluates, records and authorises
  an operation in a hash-linked chain of four objects; and the settlement authority derives the plan
  of the payment from the committed profile alone.  Every mutating command of the engine is bracketed
  by a durable operation journal.

  \<^bold>\<open>Theories.\<close>
  \<^item> \<^verbatim>\<open>Mordant_Prelude\<close>: the error type \<^verbatim>\<open>merror\<close> with one constructor per error class of the code, the
    result type \<^verbatim>\<open>merror + 'a\<close> with \<^verbatim>\<open>ebind\<close>, \<^verbatim>\<open>check\<close> and \<^verbatim>\<open>require\<close>, the stateful \<^verbatim>\<open>action\<close>s,
    the disk (a map from paths to torn or whole files) and the locales \<^verbatim>\<open>growing_store\<close> and \<^verbatim>\<open>kept_relation\<close>.
  \<^item> \<^verbatim>\<open>Text_Encoding\<close> and \<^verbatim>\<open>Canonical_Json\<close> (\<^verbatim>\<open>cleanverse-asset.ts\<close>): JavaScript text functions, the canonical
    JSON printer, domain-separated digests and the exact-key checks.
  \<^item> \<^verbatim>\<open>Protection_Case\<close> (\<^verbatim>\<open>protection-case.ts\<close>, \<^verbatim>\<open>cleanverse-asset.ts\<close>, \<^verbatim>\<open>custom-supervised-v2.ts\<close>): the asset
    gate, the case, its bindings, its timeline.  \<^verbatim>\<open>Pledge_Windows\<close> (\<^verbatim>\<open>supervised-pledge-windows.ts\<close>): the
    pledged intervals.
  \<^item> \<^verbatim>\<open>Governed_Result\<close> (the signed result of \<^verbatim>\<open>protection-evidence.ts\<close>) and \<^verbatim>\<open>Recourse_Policy\<close>
    (\<^verbatim>\<open>governed-recourse-policy.ts\<close>): the four-object recourse chain with creators and verifiers.
  \<^item> \<^verbatim>\<open>Operation_Journal\<close> (\<^verbatim>\<open>protection-operation-journal.ts\<close>): begin, finish and read of the journal.
  \<^item> \<^verbatim>\<open>Settlement_Authority\<close> and \<^verbatim>\<open>Settlement_Store\<close> (\<^verbatim>\<open>settlement-authority.ts\<close>, the release gate of
    \<^verbatim>\<open>bridge-executor.ts\<close>, \<^verbatim>\<open>settlement-profile-store.ts\<close>): the profile, its commitment, the derived plan and the gate.
  \<^item> \<^verbatim>\<open>Admission_Authorization\<close> (\<^verbatim>\<open>participant-authorization.ts\<close>, \<^verbatim>\<open>participant-admission-v2.ts\<close>),
    \<^verbatim>\<open>Admission_Store\<close> (\<^verbatim>\<open>participant-admission-store.ts\<close>), \<^verbatim>\<open>Canonical_Configuration\<close> (the parser and the
    pinned loader of \<^verbatim>\<open>adapter-compatibility.ts\<close>) and \<^verbatim>\<open>Admission_Service\<close>
    (\<^verbatim>\<open>participant-admission-service.ts\<close>): signatures, ledger, configuration and the composed service.
  \<^item> \<^verbatim>\<open>Coalition_Evidence\<close> (\<^verbatim>\<open>coalition-evidence.ts\<close>): the threshold manifest, the operator statements and the
    verifier of a coalition release.  \<^verbatim>\<open>Custom_Receipt\<close> (\<^verbatim>\<open>custom-supervised-receipt.ts\<close> and the disclosure
    contract beside it): the terminal receipt of a custom run and its verifier.
  \<^item> \<^verbatim>\<open>Engine_State\<close> and \<^verbatim>\<open>Engine\<close> (\<^verbatim>\<open>governed-fhe-product-server.ts\<close>): the execution record and what validates it, disk
    preflight, participant keys, pledges; and the operations: creation, preparation, admission, submission, evaluation,
    both releases, recourse and cure chronology, each with its lock, its journal entry and the
    reconciliation that precedes it.  The Go commands are parameters \<^verbatim>\<open>rt_*\<close> of the runtime that may answer
    anything, and so are the two conclusions of evidence export and retention.
  \<^item> \<^verbatim>\<open>Engine_Invariant\<close> (the invariant of the record and its journal, as triples over actions and as a step relation
    \<^verbatim>\<open>engine_step\<close> with an environment), \<^verbatim>\<open>Engine_Admission\<close> (the engine as the orchestrator of the admission service)
    and \<^verbatim>\<open>Engine_Guarantees\<close> (what single operations guarantee).
  \<^item> \<^verbatim>\<open>Governed_Bridge\<close> (\<^verbatim>\<open>governed-recourse-bridge.ts\<close>, the compatibility check of \<^verbatim>\<open>adapter-compatibility.ts\<close>): the typed
    release, its encodings, the reconciliation with the pins of the adapter, bounded reads of the chain.
    \<^verbatim>\<open>Bridge_Executor\<close> (\<^verbatim>\<open>bridge-executor.ts\<close>): prepare, simulate, sign, the create-only record, submit (always refused) and
    receipts; the opaque objects of its weak maps are numbers.  \<^verbatim>\<open>Bridge_Safety\<close>: the executor as a step relation
    \<^verbatim>\<open>bridge_step\<close> with overlapping simulations, other executors on the same directory and restarts, and its guarantees.
  \<^item> \<^verbatim>\<open>Direct_Evidence\<close> (\<^verbatim>\<open>direct-participant-bridge-evidence.ts\<close>): the sealed evidence of a direct-participant run, on JSON
    documents, its builder, its verifier and the proof of the wallet signature behind an admission.
  \<^item> \<^verbatim>\<open>Originated_Authorization\<close> (\<^verbatim>\<open>participant-originated-authorization.ts\<close>): the three messages a participant signs,
    their parsers and typed data, the hiding claim commitment and the three verifiers; \<^verbatim>\<open>Originated_Chain\<close> and
    \<^verbatim>\<open>Originated_Nonces\<close> hold what they show.
  \<^item> \<^verbatim>\<open>Concurrent_Programs\<close>: programs as trees of system calls, run alone or interleaved with crashes, and the locales \<^verbatim>\<open>rely\<close>
    and \<^verbatim>\<open>rely_guarantee\<close>.  \<^verbatim>\<open>Originated_Coordinator\<close> (\<^verbatim>\<open>scripts/participant-originated-coordinator.mjs\<close>): every handler of
    the ciphertext transport as such a program; \<^verbatim>\<open>Coordinator_Reservations\<close>: its reservation transactions under every
    interleaving, interpreted in these locales.
  \<^bold>\<open>How code becomes definitions.\<close>  A struct is a record; an object whose key set is checked at run time
  is the record together with its keys (\<^verbatim>\<open>'a jsobject\<close>); a value of type \<^verbatim>\<open>unknown\<close> is a JSON value.
  Numbers are \<^verbatim>\<open>int\<close> where the code checks integrality, and 256-bit bounds are written out.  Each
  \<^verbatim>\<open>throw\<close> is a left value carrying the error class and code of the source.  Stateful code is an
  \<^verbatim>\<open>action\<close>, which returns the state it leaves also when it throws, so that effects before an error are
  visible.  A file that is written but not complete is \<^verbatim>\<open>Torn\<close>; concurrent processes and crashes are
  the step relations \<^verbatim>\<open>ledger_step\<close> (role files and lock) and \<^verbatim>\<open>journal_step\<close> (journal).  No definition
  uses fuel: every loop of the source is structural recursion over its input.

  \<^bold>\<open>Parameters.\<close>  Code outside the sources is an argument of the definitions that use it: SHA-256,
  Keccak, Ed25519, checksum addresses, typed-data verification, \<^verbatim>\<open>JSON.parse\<close> of configuration files, the
  external executables, the clock and the random bytes.  Hypotheses on them are named
  (\<^verbatim>\<open>hex_digest sha\<close>: SHA-256 prints sixty-four hexadecimal digits).  Collision freedom is never
  assumed: tamper evidence is stated as equality or an exhibited collision.

  \<^bold>\<open>What is shown.\<close>  Settlement: what is paid is what was committed before any result existed, a
  commitment is permanent, altered profiles are refused, and without an authority nothing is paid.
  Recourse: each verifier accepts exactly what its creator can have produced, the chain can always be
  completed, and its last hash fixes all four objects.  Cases: bindings verify, custom cases reveal no
  expected outcome, timelines only grow.  Journal: it always reads back, history is immutable, one
  operation is open at a time.  Admission: the ledger is consistent under every interleaving and crash,
  an admitted role is never reassigned, and no change happens before signature, wallet and policy were
  checked.  Configuration: bounds on the payouts, distinct wallets, pinned content.
  Coalition: an accepted release was signed by a quorum over this very result, and a case has one outcome.
  Receipt: it follows the released Boolean and leaks no private name.  Engine: every stored record fits its stage and
  its journal whatever is called and wherever it stops, records are only continued, admitted claims are
  backed by the ledger, the pledge of a role is the claim its wallet signed, and engine and admission service keep each
  other's assumptions.
  Bridge: a signed release that moves value pays what was committed, a governed result is authorized at most once,
  a permit is fresh and spent once, a receipt counts only on the event of the contract, the four encodings of a release agree, reads end.
  Direct evidence: what the verifier accepts was signed by the key the authority is derived from and names the two canonical wallets.
  Participant-originated runs: a final admission proves three signatures of one wallet chained by digest, lives at most fifteen
  minutes, is accepted for an honest participant, spends each nonce once and commits to one claim.
  Coordinator: over all interleavings, failures and crashes of several coordinators no role and no nonce belongs to two committed
  tickets and a committed reservation is permanent, as long as no process removes a file that changed after it was read.
  \<^bold>\<open>Not modelled.\<close>  The React interface and the Next.js routes (presentation and transport), the
  worker scripts in \<^verbatim>\<open>.mjs\<close>, the Go circuit and the Solidity contracts (other languages), the JSON-RPC client and
  the environment and key readers of \<^verbatim>\<open>bridge-executor.ts\<close> (network input and output), the QR and view models, the export and retention of evidence in \<^verbatim>\<open>governed-fhe-product-server.ts\<close>, the evidence
  bundle verifier of \<^verbatim>\<open>protection-evidence.ts\<close> and the handoff parser of \<^verbatim>\<open>adapter-compatibility.ts\<close>.
\<close>

end
